(* ===== verification/Prelude.thy ===== *)
theory Prelude
  imports Main "HOL-Library.Char_ord" "HOL-Library.List_Lexorder" "HOL-Library.Sublist"
begin

text \<open>
  What the components share: Go's byte strings, the functions of the packages
  \<^verbatim>\<open>strings\<close> and \<^verbatim>\<open>strconv\<close> that the registry calls, 64-bit
  signed arithmetic, fallible results, HTTP responses, and the generic lemmas about them.
  A Go \<^verbatim>\<open>string\<close> and a \<^verbatim>\<open>[]byte\<close> are both a sequence of
  bytes and are modelled by \<^typ>\<open>string\<close>. Case conversion and white space are
  modelled for ASCII.
\<close>

named_theorems go_string \<open>facts on the string functions of the Go library\<close>
named_theorems handler_split \<open>case splits that walk through the branches of a handler\<close>

type_synonym bytes = string

subsection \<open>Lists and options\<close>

lemma find_Some_member: "find P xs = Some x \<Longrightarrow> x \<in> set xs \<and> P x"
  by (metis find_Some_iff nth_mem)

lemma find_None_filter: "find P xs = None \<longleftrightarrow> filter P xs = []"
  by (auto simp: find_None_iff filter_empty_conv)

lemma find_append_fresh [simp]:
  "find P (xs @ [y]) = (case find P xs of Some x \<Rightarrow> Some x | None \<Rightarrow> if P y then Some y else None)"
  by (induction xs) auto

lemma find_map_keep:
  "(\<And>x. P (f x) = P x) \<Longrightarrow> find P (map f xs) = map_option f (find P xs)"
  by (induction xs) auto

lemma find_filter_absorb:
  "(\<And>x. P x \<Longrightarrow> Q x) \<Longrightarrow> find P (filter Q xs) = find P xs"
  by (induction xs) auto

lemma find_eq_hd_filter: "find P xs = (case filter P xs of [] \<Rightarrow> None | x # _ \<Rightarrow> Some x)"
  by (induction xs) auto

subsection \<open>Package strings\<close>

definition HasPrefix :: "string \<Rightarrow> string \<Rightarrow> bool" where
  "HasPrefix s p \<longleftrightarrow> take (length p) s = p"

definition HasSuffix :: "string \<Rightarrow> string \<Rightarrow> bool" where
  "HasSuffix s p \<longleftrightarrow> length p \<le> length s \<and> drop (length s - length p) s = p"

definition TrimPrefix :: "string \<Rightarrow> string \<Rightarrow> string" where
  "TrimPrefix s p = (if HasPrefix s p then drop (length p) s else s)"

definition TrimSuffix :: "string \<Rightarrow> string \<Rightarrow> string" where
  "TrimSuffix s p = (if HasSuffix s p then take (length s - length p) s else s)"

fun Index :: "string \<Rightarrow> string \<Rightarrow> nat option" where
  "Index [] sub = (if sub = [] then Some 0 else None)"
| "Index (c # s) sub = (if HasPrefix (c # s) sub then Some 0 else map_option Suc (Index s sub))"

definition Contains :: "string \<Rightarrow> string \<Rightarrow> bool" where
  "Contains s sub \<longleftrightarrow> Index s sub \<noteq> None"

text \<open>\<^verbatim>\<open>strings.Split\<close> and \<^verbatim>\<open>strings.Join\<close> for a one-byte separator.\<close>

fun Split :: "string \<Rightarrow> char \<Rightarrow> string list" where
  "Split [] c = [[]]"
| "Split (x # s) c =
     (if x = c then [] # Split s c
      else (case Split s c of [] \<Rightarrow> [[x]] | p # ps \<Rightarrow> (x # p) # ps))"

fun SplitN :: "string \<Rightarrow> char \<Rightarrow> nat \<Rightarrow> string list" where
  "SplitN s c 0 = []"
| "SplitN s c (Suc 0) = [s]"
| "SplitN s c (Suc (Suc n)) =
     (let p = takeWhile (\<lambda>x. x \<noteq> c) s in
      if length p < length s then p # SplitN (drop (Suc (length p)) s) c (Suc n) else [s])"

fun Join :: "string list \<Rightarrow> char \<Rightarrow> string" where
  "Join [] c = []"
| "Join [p] c = p"
| "Join (p # q # ps) c = p @ c # Join (q # ps) c"

definition is_space :: "char \<Rightarrow> bool" where
  "is_space c \<longleftrightarrow> c = CHR '' '' \<or> c = CHR 0x09 \<or> c = CHR 0x0A \<or> c = CHR 0x0B \<or> c = CHR 0x0C \<or> c = CHR 0x0D"

definition TrimSpace :: "string \<Rightarrow> string" where
  "TrimSpace s = rev (dropWhile is_space (rev (dropWhile is_space s)))"

definition upper :: "char \<Rightarrow> char" where
  "upper c = (if CHR ''a'' \<le> c \<and> c \<le> CHR ''z'' then char_of (of_char c - 32 :: nat) else c)"

definition ToUpper :: "string \<Rightarrow> string" where
  "ToUpper s = map upper s"

lemma HasPrefix_iff [go_string]: "HasPrefix s p \<longleftrightarrow> (\<exists>t. s = p @ t)"
  unfolding HasPrefix_def by (metis append_eq_conv_conj append_take_drop_id)

lemma HasPrefix_append [simp]: "HasPrefix (p @ t) p"
  by (simp add: HasPrefix_def)

lemma HasPrefix_Nil [simp]: "HasPrefix s []"
  by (simp add: HasPrefix_def)

lemma HasSuffix_iff [go_string]: "HasSuffix s p \<longleftrightarrow> (\<exists>t. s = t @ p)"
  unfolding HasSuffix_def
  by (metis append_eq_append_conv append_take_drop_id diff_le_self length_append length_drop
      le_add2 diff_diff_cancel)

lemma TrimPrefix_append [simp]: "TrimPrefix (p @ t) p = t"
  by (simp add: TrimPrefix_def)

lemma TrimSuffix_append [simp]: "TrimSuffix (t @ p) p = t"
  by (auto simp: TrimSuffix_def HasSuffix_def)

lemma Index_None_iff: "Index s sub = None \<longleftrightarrow> (\<forall>u v. s \<noteq> u @ sub @ v)"
proof (induction s)
  case Nil
  show ?case by auto
next
  case (Cons c s)
  show ?case
  proof
    assume n: "Index (c # s) sub = None"
    then have np: "\<not> HasPrefix (c # s) sub" and ns: "Index s sub = None"
      by (auto split: if_splits)
    show "\<forall>u v. c # s \<noteq> u @ sub @ v"
    proof (intro allI notI)
      fix u v
      assume eq: "c # s = u @ sub @ v"
      show False
      proof (cases u)
        case Nil
        with eq np show False by (auto simp: HasPrefix_iff)
      next
        case (Cons d u')
        with eq have "s = u' @ sub @ v" by simp
        with ns Cons.IH show False by blast
      qed
    qed
  next
    assume a: "\<forall>u v. c # s \<noteq> u @ sub @ v"
    then have "\<not> HasPrefix (c # s) sub" by (metis HasPrefix_iff append_Nil)
    moreover from a have "\<forall>u v. s \<noteq> u @ sub @ v" by (metis append_Cons)
    ultimately show "Index (c # s) sub = None" using Cons.IH by simp
  qed
qed

lemma Index_Some_split:
  "Index s sub = Some i \<Longrightarrow> i \<le> length s \<and> s = take i s @ sub @ drop (i + length sub) s"
proof (induction s arbitrary: i)
  case Nil
  then show ?case by (auto split: if_splits)
next
  case (Cons c s)
  show ?case
  proof (cases "HasPrefix (c # s) sub")
    case True
    with Cons.prems show ?thesis by (auto simp: HasPrefix_iff)
  next
    case False
    with Cons.prems obtain j where "Index s sub = Some j" "i = Suc j" by auto
    with Cons.IH [of j] show ?thesis by simp
  qed
qed

lemma Split_not_Nil [simp]: "Split s c \<noteq> []"
  by (cases s) (auto split: list.splits)

lemma Join_Split [simp, go_string]: "Join (Split s c) c = s"
proof (induction s)
  case Nil
  show ?case by simp
next
  case (Cons x s)
  obtain p ps where sp: "Split s c = p # ps" by (cases "Split s c") auto
  with Cons.IH show ?case by (cases ps) auto
qed

lemma Split_no_sep: "p \<in> set (Split s c) \<Longrightarrow> c \<notin> set p"
proof (induction s arbitrary: p)
  case Nil
  then show ?case by simp
next
  case (Cons x s)
  obtain q qs where "Split s c = q # qs" by (cases "Split s c") auto
  with Cons show ?case by (auto split: if_splits)
qed

lemma Split_id: "c \<notin> set s \<Longrightarrow> Split s c = [s]"
  by (induction s) auto

lemma Split_append: "c \<notin> set p \<Longrightarrow> Split (p @ c # s) c = p # Split s c"
  by (induction p) auto

lemma Split_append_sep: "Split (s @ c # t) c = Split s c @ Split t c"
proof (induction s)
  case Nil
  show ?case by simp
next
  case (Cons x s)
  obtain p ps where "Split s c = p # ps" by (cases "Split s c") auto
  with Cons.IH show ?case by simp
qed

lemma Split_Join:
  "ps \<noteq> [] \<Longrightarrow> (\<forall>p \<in> set ps. c \<notin> set p) \<Longrightarrow> Split (Join ps c) c = ps"
  by (induction ps c rule: Join.induct) (auto simp: Split_id Split_append)

lemma Join_Cons: "ps \<noteq> [] \<Longrightarrow> Join (p # ps) c = p @ c # Join ps c"
  by (cases ps) auto

lemma Join_append: "ps \<noteq> [] \<Longrightarrow> qs \<noteq> [] \<Longrightarrow> Join (ps @ qs) c = Join ps c @ c # Join qs c"
  by (induction ps c rule: Join.induct) (auto simp: Join_Cons)

lemma takeWhile_no_sep: "c \<notin> set s \<Longrightarrow> takeWhile (\<lambda>x. x \<noteq> c) s = s"
  by (induction s) auto

lemma takeWhile_sep: "c \<notin> set p \<Longrightarrow> takeWhile (\<lambda>x. x \<noteq> c) (p @ c # s) = p"
  by (induction p) auto

lemma SplitN_2: "c \<notin> set p \<Longrightarrow> SplitN (p @ c # s) c 2 = [p, s]"
  by (simp add: numeral_2_eq_2 Let_def takeWhile_sep)

lemma SplitN_2_none: "c \<notin> set s \<Longrightarrow> SplitN s c 2 = [s]"
  by (simp add: numeral_2_eq_2 Let_def takeWhile_no_sep)

subsection \<open>Signed 64-bit integers\<close>

text \<open>An \<^verbatim>\<open>int64\<close> is an \<^typ>\<open>int\<close> in the range of two's complement;
  \<open>wrap64\<close> is what the machine makes of an arithmetic result.\<close>

abbreviation max_int64 :: int where "max_int64 \<equiv> 9223372036854775807"
abbreviation min_int64 :: int where "min_int64 \<equiv> - 9223372036854775808"

definition int64 :: "int \<Rightarrow> bool" where
  "int64 n \<longleftrightarrow> min_int64 \<le> n \<and> n \<le> max_int64"

definition wrap64 :: "int \<Rightarrow> int" where
  "wrap64 n = (n + 9223372036854775808) mod 18446744073709551616 - 9223372036854775808"

lemma wrap64_id [simp]: "int64 n \<Longrightarrow> wrap64 n = n"
  by (simp add: wrap64_def int64_def)

lemma int64_wrap64 [simp]: "int64 (wrap64 n)"
  by (auto simp: wrap64_def int64_def)

subsection \<open>Package strconv\<close>

definition is_digit :: "char \<Rightarrow> bool" where
  "is_digit c \<longleftrightarrow> CHR ''0'' \<le> c \<and> c \<le> CHR ''9''"

definition digit_val :: "char \<Rightarrow> nat" where
  "digit_val c = of_char c - 48"

definition digit_char :: "nat \<Rightarrow> char" where
  "digit_char d = char_of (d + 48)"

fun dec_val :: "nat \<Rightarrow> string \<Rightarrow> nat" where
  "dec_val acc [] = acc"
| "dec_val acc (c # s) = dec_val (10 * acc + digit_val c) s"

text \<open>\<^verbatim>\<open>strconv.ParseInt(s, 10, 64)\<close>: an optional sign and at least one digit; a
  value out of range is an error. \<^verbatim>\<open>strconv.Atoi\<close> is the same on a 64-bit machine.\<close>

definition ParseInt :: "string \<Rightarrow> int option" where
  "ParseInt s =
     (let neg = HasPrefix s ''-'';
          ds = (if HasPrefix s ''-'' \<or> HasPrefix s ''+'' then drop 1 s else s)
      in if ds = [] \<or> \<not> list_all is_digit ds then None
         else (let v = int (dec_val 0 ds); n = (if neg then - v else v)
               in if int64 n then Some n else None))"

fun FormatNat :: "nat \<Rightarrow> string" where
  "FormatNat n = (if n < 10 then [digit_char n] else FormatNat (n div 10) @ [digit_char (n mod 10)])"

declare FormatNat.simps [simp del]

definition FormatInt :: "int \<Rightarrow> string" where
  "FormatInt n = (if n < 0 then CHR ''-'' # FormatNat (nat (- n)) else FormatNat (nat n))"

lemma digit_char_is_digit [simp]: "d < 10 \<Longrightarrow> is_digit (digit_char d)"
  by (auto simp: is_digit_def digit_char_def less_eq_char_def of_char_of)

lemma digit_val_char [simp]: "d < 10 \<Longrightarrow> digit_val (digit_char d) = d"
  by (simp add: digit_val_def digit_char_def of_char_of)

lemma dec_val_append: "dec_val acc (s @ [c]) = 10 * dec_val acc s + digit_val c"
  by (induction s arbitrary: acc) auto

lemma FormatNat_digits: "list_all is_digit (FormatNat n)"
proof (induction n rule: FormatNat.induct)
  case (1 n)
  then show ?case by (subst FormatNat.simps) auto
qed

lemma FormatNat_nonempty [simp]: "FormatNat n \<noteq> []"
  by (subst FormatNat.simps) simp

lemma dec_val_FormatNat [simp]: "dec_val 0 (FormatNat n) = n"
proof (induction n rule: FormatNat.induct)
  case (1 n)
  then show ?case by (subst FormatNat.simps) (auto simp: dec_val_append)
qed

lemma digits_not_sign:
  assumes "list_all is_digit s" "s \<noteq> []"
  shows "\<not> HasPrefix s ''-'' \<and> \<not> HasPrefix s ''+''"
  using assms by (cases s) (auto simp: HasPrefix_def is_digit_def less_eq_char_def)

lemma ParseInt_FormatInt [simp]: "int64 n \<Longrightarrow> ParseInt (FormatInt n) = Some n"
  using FormatNat_digits digits_not_sign [OF FormatNat_digits FormatNat_nonempty]
  by (auto simp: ParseInt_def FormatInt_def Let_def HasPrefix_def)

lemma ParseInt_int64: "ParseInt s = Some n \<Longrightarrow> int64 n"
  by (auto simp: ParseInt_def Let_def split: if_splits)

lemma FormatInt_digits: "0 \<le> n \<Longrightarrow> list_all is_digit (FormatInt n)"
  by (simp add: FormatInt_def FormatNat_digits)

lemma list_all_not_mem: "list_all is_digit s \<Longrightarrow> \<not> is_digit c \<Longrightarrow> c \<notin> set s"
  by (auto simp: list_all_iff)

subsection \<open>Keys and pages of lists\<close>

lemma find_unique_key:
  "distinct (map k xs) \<Longrightarrow> x \<in> set xs \<Longrightarrow> find (\<lambda>y. k y = k x) xs = Some x"
  by (induction xs) (auto simp: image_iff)

lemma find_key_inj:
  assumes "distinct (map k xs)" "find P xs = Some x" "find Q xs = Some y" "k x = k y"
  shows "x = y"
  using assms find_Some_member [of P xs x] find_Some_member [of Q xs y]
  by (metis distinct_map inj_onD)

lemma find_filter_conj: "find P (filter Q xs) = find (\<lambda>x. Q x \<and> P x) xs"
  by (induction xs) auto

lemma list_ex_find: "list_ex P xs \<longleftrightarrow> find P xs \<noteq> None"
  by (induction xs) auto

lemma find_only:
  "x \<in> set xs \<Longrightarrow> P x \<Longrightarrow> (\<And>y. y \<in> set xs \<Longrightarrow> P y \<Longrightarrow> y = x) \<Longrightarrow> find P xs = Some x"
proof -
  assume x: "x \<in> set xs" "P x" and u: "\<And>y. y \<in> set xs \<Longrightarrow> P y \<Longrightarrow> y = x"
  from x obtain y where y: "find P xs = Some y" by (cases "find P xs") (auto simp: find_None_iff)
  then have "y = x" using u find_Some_member [OF y] by blast
  with y show ?thesis by simp
qed

lemma sorted_after_take:
  fixes xs :: "'a::linorder list"
  assumes "sorted xs" "distinct xs" "0 < k" "k \<le> length xs"
  shows "filter (\<lambda>t. last (take k xs) < t) xs = drop k xs"
proof -
  have l: "last (take k xs) = xs ! (k - 1)" using assms by (subst last_conv_nth) (auto simp: min_def)
  have lo: "\<not> xs ! (k - 1) < t" if mem: "t \<in> set (take k xs)" for t
  proof -
    obtain i where "i < length (take k xs)" "t = take k xs ! i" using mem by (metis in_set_conv_nth)
    then have i: "i < k" "i < length xs" "t = xs ! i" by auto
    then have "xs ! i \<le> xs ! (k - 1)" using assms by (intro sorted_nth_mono) auto
    then show ?thesis using i by simp
  qed
  have hi: "xs ! (k - 1) < t" if mem: "t \<in> set (drop k xs)" for t
  proof -
    obtain i where "i < length (drop k xs)" "t = drop k xs ! i" using mem by (metis in_set_conv_nth)
    then have i: "k + i < length xs" "t = xs ! (k + i)" by auto
    then have "xs ! (k - 1) \<le> t" using assms(1,3) by (auto intro: sorted_nth_mono)
    moreover have "xs ! (k - 1) \<noteq> t" using i assms by (auto simp: nth_eq_iff_index_eq)
    ultimately show ?thesis by simp
  qed
  have "filter (\<lambda>t. xs ! (k - 1) < t) (take k xs @ drop k xs) = drop k xs"
    using lo hi unfolding filter_append by (simp add: filter_id_conv filter_empty_conv)
  then show ?thesis unfolding l by simp
qed

end
