(* ===== verification/Http.thy ===== *)
theory Http
  imports Prelude
begin

text \<open>
  The values the handlers exchange: Go errors, JSON documents, HTTP requests with their
  streamed bodies, and HTTP responses.
\<close>

subsection \<open>Errors\<close>

text \<open>
  The sentinel errors the code compares with, an error that carries only its text, and an
  error that wraps another (\<^verbatim>\<open>fmt.Errorf\<close> with \<^verbatim>\<open>%w\<close>).
  \<open>err_is\<close> is \<^verbatim>\<open>errors.Is\<close>, \<open>err_msg\<close> is \<^verbatim>\<open>Error()\<close>.
\<close>

datatype err =
    StorageNotFound
  | StorageUnsafePath
  | DbNotFound
  | MaxBytesError
  | ErrText string
  | WrapErr string err

type_synonym 'a res = "err + 'a"

fun err_is :: "err \<Rightarrow> err \<Rightarrow> bool" where
  "err_is (WrapErr t e) target = (WrapErr t e = target \<or> err_is e target)"
| "err_is e target = (e = target)"

fun err_msg :: "err \<Rightarrow> string" where
  "err_msg StorageNotFound = ''blob not found''"
| "err_msg StorageUnsafePath = ''storage: path escapes root directory''"
| "err_msg DbNotFound = ''record not found''"
| "err_msg MaxBytesError = ''http: request body too large''"
| "err_msg (ErrText t) = t"
| "err_msg (WrapErr t e) = t @ '': '' @ err_msg e"

definition is_ok :: "'a res \<Rightarrow> bool" where
  "is_ok r = (case r of Inl _ \<Rightarrow> False | Inr _ \<Rightarrow> True)"

lemma is_ok_simps [simp]: "is_ok (Inl e) = False" "is_ok (Inr v) = True"
  by (simp_all add: is_ok_def)

lemma is_ok_iff: "is_ok r \<longleftrightarrow> (\<exists>v. r = Inr v)"
  by (cases r) auto

declare sum.split [handler_split] option.split [handler_split] if_split [handler_split]
  prod.split [handler_split]

subsection \<open>JSON documents\<close>

datatype json =
    JNull
  | JBool bool
  | JNum string
  | JStr string
  | JArr "json list"
  | JObj "(string \<times> json) list"

text \<open>
  A key of a Go \<^verbatim>\<open>map[string]interface{}\<close> decoded from an object holds the
  last value given for it.
\<close>

definition obj_get :: "(string \<times> json) list \<Rightarrow> string \<Rightarrow> json option" where
  "obj_get kvs k = map_of (rev kvs) k"

fun as_obj :: "json \<Rightarrow> (string \<times> json) list option" where
  "as_obj (JObj kvs) = Some kvs"
| "as_obj _ = None"

fun as_str :: "json \<Rightarrow> string option" where
  "as_str (JStr s) = Some s"
| "as_str _ = None"

fun as_arr :: "json \<Rightarrow> json list option" where
  "as_arr (JArr xs) = Some xs"
| "as_arr _ = None"

subsection \<open>Request bodies\<close>

text \<open>
  A body delivers chunks and then ends, with end of file or with an error.
  \<open>max_bytes\<close> is \<^verbatim>\<open>http.MaxBytesReader\<close>: it lets at most \<open>n\<close> bytes
  through and then reports \<^const>\<open>MaxBytesError\<close>.
\<close>

datatype read_end = EOF | ReadErr err

type_synonym stream = "bytes list \<times> read_end"

fun max_bytes :: "int \<Rightarrow> bytes list \<Rightarrow> read_end \<Rightarrow> stream" where
  "max_bytes n [] e = ([], e)"
| "max_bytes n (c # cs) e =
     (if int (length c) \<le> n
      then (case max_bytes (n - int (length c)) cs e of (r, e') \<Rightarrow> (c # r, e'))
      else ([take (nat n) c], ReadErr MaxBytesError))"

text \<open>\<^verbatim>\<open>io.ReadAll\<close>: the bytes delivered, and the error if the stream did not
  end with end of file.\<close>

fun read_all :: "stream \<Rightarrow> bytes res" where
  "read_all (cs, EOF) = Inr (concat cs)"
| "read_all (cs, ReadErr e) = Inl e"

lemma max_bytes_EOF:
  "max_bytes n cs e = (cs', EOF) \<Longrightarrow> 0 \<le> n \<Longrightarrow>
     cs' = cs \<and> e = EOF \<and> int (length (concat cs)) \<le> n"
  by (induction n cs e arbitrary: cs' rule: max_bytes.induct)
     (fastforce split: if_splits prod.splits)+

lemma max_bytes_le: "0 \<le> n \<Longrightarrow> int (length (concat (fst (max_bytes n cs e)))) \<le> n"
  by (induction n cs e rule: max_bytes.induct) (fastforce split: prod.splits)+

lemma max_bytes_fits:
  "int (length (concat cs)) \<le> n \<Longrightarrow> max_bytes n cs e = (cs, e)"
  by (induction n cs e rule: max_bytes.induct) auto

lemma max_bytes_overflow:
  "0 \<le> n \<Longrightarrow> n < int (length (concat cs)) \<Longrightarrow> snd (max_bytes n cs e) = ReadErr MaxBytesError"
  by (induction n cs e rule: max_bytes.induct) (auto split: prod.splits)

subsection \<open>Requests and responses\<close>

text \<open>
  Absent headers and query parameters read as the empty string, as with
  \<^verbatim>\<open>Header.Get\<close> and \<^verbatim>\<open>Query().Get\<close>. \<open>rq_body\<close> is
  \<^const>\<open>None\<close> for a nil body or \<^verbatim>\<open>http.NoBody\<close>.
\<close>

record request =
  rq_method :: string
  rq_path :: string
  rq_host :: string
  rq_tls :: bool
  rq_remote :: string
  rq_header :: "string \<Rightarrow> string"
  rq_query :: "string \<Rightarrow> string"
  rq_content_length :: int
  rq_body :: "stream option"

definition body_of :: "request \<Rightarrow> stream" where
  "body_of rq = (case rq_body rq of None \<Rightarrow> ([], EOF) | Some b \<Rightarrow> b)"

text \<open>
  What a handler wrote: the status, the header fields it set, and the body.
  \<open>ErrorsJSON c m\<close> is the document \<^verbatim>\<open>{"errors":[{"code":c,"message":m}]}\<close>.
\<close>

datatype body =
    NoBody
  | Text string
  | ErrorsJSON string string
  | ErrorsJSONDigest string string string
  | JsonList string "string list"
  | JsonNamedList string string "string list"
  | TokenJSON string int
  | IndexJSON "(string \<times> string \<times> string \<times> int) list"
  | Data bytes
  | JsonDoc json

record response =
  rs_status :: nat
  rs_headers :: "(string \<times> string) list"
  rs_body :: body

definition http_error :: "(string \<times> string) list \<Rightarrow> string \<Rightarrow> nat \<Rightarrow> response" where
  "http_error hs msg code = \<lparr>rs_status = code, rs_headers = hs, rs_body = Text msg\<rparr>"

definition json_error :: "string \<Rightarrow> string \<Rightarrow> nat \<Rightarrow> response" where
  "json_error c m code =
     \<lparr>rs_status = code, rs_headers = [(''Content-Type'', ''application/json'')],
      rs_body = ErrorsJSON c m\<rparr>"

definition reply :: "nat \<Rightarrow> (string \<times> string) list \<Rightarrow> body \<Rightarrow> response" where
  "reply code hs b = \<lparr>rs_status = code, rs_headers = hs, rs_body = b\<rparr>"

definition header_of :: "response \<Rightarrow> string \<Rightarrow> string option" where
  "header_of r k = map_of (rs_headers r) k"

lemma http_error_simps [simp]:
  "rs_status (http_error hs m c) = c" "rs_headers (http_error hs m c) = hs"
  "rs_body (http_error hs m c) = Text m"
  by (simp_all add: http_error_def)

lemma json_error_simps [simp]:
  "rs_status (json_error k m c) = c" "rs_body (json_error k m c) = ErrorsJSON k m"
  by (simp_all add: json_error_def)

lemma reply_simps [simp]:
  "rs_status (reply c hs b) = c" "rs_headers (reply c hs b) = hs" "rs_body (reply c hs b) = b"
  by (simp_all add: reply_def)

end
