(* ===== verification/Db.thy ===== *)
theory Db
  imports Http
begin

text \<open>
  The database layer of \<^verbatim>\<open>internal/db\<close>: its records, the interface
  \<^verbatim>\<open>db.Store\<close> as a record of operations over a state, the split of a repository
  path into namespace and name, and the promises the handlers rely on as a locale.
\<close>

subsection \<open>Records of internal/db/db.go\<close>

record user =
  us_id :: nat
  us_name :: string
  us_hash :: string
  us_scopes :: "string list"

record access_token =
  tk_id :: nat
  tk_user :: nat
  tk_name :: string
  tk_hash :: string
  tk_scopes :: "string list"
  tk_expires :: "int option"
  tk_created :: int
  tk_used :: "int option"

record quota =
  q_ns_id :: nat
  q_ns :: string
  q_limit :: int
  q_used :: int

record policy_record =
  po_id :: nat
  po_expr :: string

record artifact_metadata =
  am_digest :: string
  am_type :: string
  am_subject :: string
  am_chart_name :: string
  am_chart_version :: string
  am_app_version :: string
  am_json :: string

record referrer =
  rf_digest :: string
  rf_media :: string
  rf_type :: string
  rf_size :: int

record group =
  gr_id :: nat
  gr_name :: string

record manifest_record =
  mr_ns :: string
  mr_repo :: string
  mr_ref :: string
  mr_digest :: string

record blob_record =
  br_digest :: string
  br_size :: int
  br_created :: int

record scan_report =
  sp_digest :: string
  sp_scanner :: string
  sp_data :: bytes

text \<open>An audit entry as it is written; the store adds the identifier and the time.\<close>

record audit_entry =
  au_actor :: string
  au_ip :: string
  au_action :: string
  au_type :: string
  au_resource :: string
  au_outcome :: string
  au_detail :: "(string \<times> string) list"

record artifact_descriptor =
  ad_digest :: string
  ad_ns :: string
  ad_repo :: string
  ad_type :: string
  ad_media :: string
  ad_size :: int
  ad_created :: int
  ad_chart_name :: string
  ad_chart_version :: string
  ad_app_version :: string

text \<open>The map of values that \<^verbatim>\<open>ListUpstreams\<close> returns for an upstream registry; a
  column that is null gives the zero time.\<close>

record upstream_info =
  ui_id :: nat
  ui_name :: string
  ui_type :: string
  ui_endpoint :: string
  ui_region :: string
  ui_enabled :: bool
  ui_cache :: bool
  ui_pull_only :: bool
  ui_refresh :: "int option"

type_synonym manifest = "string \<times> string \<times> bytes" \<comment> \<open>media type, digest, payload\<close>

subsection \<open>The interface db.Store\<close>

text \<open>
  The methods of the interface other than the package store's. A method that only reads returns a result; one that may
  write, and one that a caching store may answer from its cache, returns the new state as well.
  Times are seconds.
\<close>

record 'd store =
  st_ListRepositories :: "int \<Rightarrow> string \<Rightarrow> 'd \<Rightarrow> string list res"
  st_ListTags :: "string \<Rightarrow> int \<Rightarrow> string \<Rightarrow> 'd \<Rightarrow> string list res"
  st_PutManifest :: "string \<Rightarrow> string \<Rightarrow> string \<Rightarrow> string \<Rightarrow> bytes \<Rightarrow> 'd \<Rightarrow> unit res \<times> 'd"
  st_GetManifest :: "string \<Rightarrow> string \<Rightarrow> 'd \<Rightarrow> manifest res \<times> 'd"
  st_DeleteManifest :: "string \<Rightarrow> string \<Rightarrow> 'd \<Rightarrow> unit res \<times> 'd"
  st_SetTagImmutable :: "string \<Rightarrow> string \<Rightarrow> bool \<Rightarrow> 'd \<Rightarrow> unit res \<times> 'd"
  st_IsTagImmutable :: "string \<Rightarrow> string \<Rightarrow> 'd \<Rightarrow> bool res"
  st_PutBlob :: "string \<Rightarrow> int \<Rightarrow> string \<Rightarrow> 'd \<Rightarrow> unit res \<times> 'd"
  st_SaveScanReport :: "string \<Rightarrow> string \<Rightarrow> bytes \<Rightarrow> 'd \<Rightarrow> unit res \<times> 'd"
  st_GetScanReport :: "string \<Rightarrow> string \<Rightarrow> 'd \<Rightarrow> bytes res \<times> 'd"
  st_GetUserByUsername :: "string \<Rightarrow> 'd \<Rightarrow> user res"
  st_AuthenticateUser :: "string \<Rightarrow> string \<Rightarrow> 'd \<Rightarrow> user res"
  st_CreateUser :: "string \<Rightarrow> string \<Rightarrow> string list \<Rightarrow> 'd \<Rightarrow> unit res \<times> 'd"
  st_UpdateUser :: "string \<Rightarrow> string list \<Rightarrow> 'd \<Rightarrow> unit res \<times> 'd"
  st_CheckQuota :: "string \<Rightarrow> 'd \<Rightarrow> quota option res"
  st_UpdateQuotaUsage :: "string \<Rightarrow> int \<Rightarrow> 'd \<Rightarrow> unit res \<times> 'd"
  st_ListAccessTokens :: "nat \<Rightarrow> 'd \<Rightarrow> access_token list res"
  st_UpdateAccessTokenLastUsed :: "nat \<Rightarrow> 'd \<Rightarrow> unit res \<times> 'd"
  st_ListPolicies :: "'d \<Rightarrow> policy_record list res"
  st_AddPolicy :: "string \<Rightarrow> 'd \<Rightarrow> unit res \<times> 'd"
  st_SetArtifactMetadata :: "artifact_metadata \<Rightarrow> 'd \<Rightarrow> unit res \<times> 'd"
  st_ListReferrers :: "string \<Rightarrow> string \<Rightarrow> 'd \<Rightarrow> referrer list res"
  st_RecordLoginAttempt :: "string \<Rightarrow> string \<Rightarrow> bool \<Rightarrow> 'd \<Rightarrow> unit res \<times> 'd"
  st_CountRecentFailedLogins :: "string \<Rightarrow> int \<Rightarrow> 'd \<Rightarrow> nat res"
  st_CreateNamespace :: "string \<Rightarrow> 'd \<Rightarrow> unit res \<times> 'd"
  st_CreateRepository :: "string \<Rightarrow> string \<Rightarrow> 'd \<Rightarrow> unit res \<times> 'd"
  st_ListManifests :: "'d \<Rightarrow> manifest_record list res"
  st_BlobExists :: "string \<Rightarrow> 'd \<Rightarrow> bool res"
  st_GetBlobSize :: "string \<Rightarrow> 'd \<Rightarrow> int res"
  st_ListBlobs :: "'d \<Rightarrow> blob_record list res"
  st_DeleteBlob :: "string \<Rightarrow> 'd \<Rightarrow> unit res \<times> 'd"
  st_ListScanReports :: "'d \<Rightarrow> scan_report list res"
  st_GetUserByToken :: "string \<Rightarrow> 'd \<Rightarrow> user res"
  st_ListUsers :: "'d \<Rightarrow> user list res"
  st_DeleteUser :: "string \<Rightarrow> 'd \<Rightarrow> unit res \<times> 'd"
  st_UpdateUserPassword :: "string \<Rightarrow> string \<Rightarrow> 'd \<Rightarrow> unit res \<times> 'd"
  st_CreateGroup :: "string \<Rightarrow> 'd \<Rightarrow> unit res \<times> 'd"
  st_AddUserToGroup :: "string \<Rightarrow> string \<Rightarrow> 'd \<Rightarrow> unit res \<times> 'd"
  st_ListGroups :: "'d \<Rightarrow> group list res"
  st_SetQuota :: "string \<Rightarrow> int \<Rightarrow> 'd \<Rightarrow> unit res \<times> 'd"
  st_ListQuotas :: "'d \<Rightarrow> quota list res"
  st_CreateAccessToken :: "nat \<Rightarrow> string \<Rightarrow> string \<Rightarrow> string list \<Rightarrow> int option \<Rightarrow> 'd \<Rightarrow> nat res \<times> 'd"
  st_GetAccessTokenByHash :: "string \<Rightarrow> 'd \<Rightarrow> access_token res"
  st_DeleteAccessToken :: "nat \<Rightarrow> 'd \<Rightarrow> unit res \<times> 'd"
  st_DeletePolicy :: "int \<Rightarrow> 'd \<Rightarrow> unit res \<times> 'd"
  st_ListUpstreams :: "'d \<Rightarrow> upstream_info list res"
  st_GetArtifactMetadata :: "string \<Rightarrow> 'd \<Rightarrow> artifact_metadata res"
  st_ListArtifactsByType :: "string \<Rightarrow> int \<Rightarrow> 'd \<Rightarrow> artifact_descriptor list res"
  st_WriteAuditLog :: "audit_entry \<Rightarrow> 'd \<Rightarrow> unit res \<times> 'd"
  st_ListAuditLogs :: "int \<Rightarrow> 'd \<Rightarrow> (nat \<times> int \<times> audit_entry) list res"
  st_WithTx :: "('d \<Rightarrow> unit res \<times> 'd) \<Rightarrow> 'd \<Rightarrow> unit res \<times> 'd"

subsection \<open>Repository paths\<close>

text \<open>Both stores have the same \<^verbatim>\<open>parseRepoPath\<close>.\<close>

definition parseRepoPath :: "string \<Rightarrow> string \<times> string" where
  "parseRepoPath repoPath =
     (let parts = Split repoPath CHR ''/''
      in if 2 \<le> length parts then (hd parts, Join (tl parts) CHR ''/'')
         else (''library'', repoPath))"

text \<open>The way a repository is printed by \<^verbatim>\<open>ListRepositories\<close>.\<close>

definition repo_display :: "string \<times> string \<Rightarrow> string" where
  "repo_display nr = (if fst nr = ''library'' then snd nr else fst nr @ ''/'' @ snd nr)"

lemma parseRepoPath_qualified:
  assumes "CHR ''/'' \<notin> set ns"
  shows "parseRepoPath (ns @ ''/'' @ name) = (ns, name)"
proof -
  have "Suc 0 \<le> length (Split name CHR ''/'')"
    by (simp add: Suc_le_eq)
  with assms show ?thesis
    by (simp add: parseRepoPath_def Split_append)
qed

lemma parseRepoPath_bare: "CHR ''/'' \<notin> set name \<Longrightarrow> parseRepoPath name = (''library'', name)"
  by (simp add: parseRepoPath_def Split_id)

lemma parseRepoPath_ns_no_slash: "CHR ''/'' \<notin> set (fst (parseRepoPath p))"
proof -
  have "hd (Split p CHR ''/'') \<in> set (Split p CHR ''/'')" by simp
  then have "CHR ''/'' \<notin> set (hd (Split p CHR ''/''))" by (meson Split_no_sep)
  then show ?thesis by (simp add: parseRepoPath_def Let_def)
qed

text \<open>Every path names the repository that its printed form names again, except that a name with
  a slash under the default namespace is printed without it.\<close>

lemma parseRepoPath_display:
  assumes "CHR ''/'' \<notin> set ns" "ns = ''library'' \<Longrightarrow> CHR ''/'' \<notin> set name"
  shows "parseRepoPath (repo_display (ns, name)) = (ns, name)"
  using assms parseRepoPath_qualified [OF assms(1), of name] parseRepoPath_bare [of name]
  by (auto simp: repo_display_def)

subsection \<open>What a store promises\<close>

text \<open>
  \<open>quo\<close> reads a namespace's limit and usage, \<open>man\<close> the manifest row of a repository
  and reference, \<open>blb\<close> the size recorded for a digest and \<open>imm\<close> the immutability
  flag of a reference. The laws are conditional on the operation's own report: a store whose
  driver fails is an instance. A transaction that fails leaves what can be read as it was.
\<close>

locale registry_store =
  fixes S :: "'d store"
    and inv :: "'d \<Rightarrow> bool"
    and quo :: "'d \<Rightarrow> string \<Rightarrow> (int \<times> int) option"
    and man :: "'d \<Rightarrow> string \<times> string \<Rightarrow> string \<Rightarrow> manifest option"
    and blb :: "'d \<Rightarrow> string \<Rightarrow> int option"
    and imm :: "'d \<Rightarrow> string \<times> string \<Rightarrow> string \<Rightarrow> bool"
  assumes check_quota: "inv s \<Longrightarrow> st_CheckQuota S ns s = Inr qo \<Longrightarrow>
        quo s ns = map_option (\<lambda>q. (q_limit q, q_used q)) qo"
    and immutable_ok: "inv s \<Longrightarrow> st_IsTagImmutable S repo ref s = Inr b \<Longrightarrow> b = imm s (parseRepoPath repo) ref"
    and get_manifest_state: "inv s \<Longrightarrow> st_GetManifest S repo ref s = (mr, s') \<Longrightarrow>
        inv s' \<and> quo s' = quo s \<and> man s' = man s \<and> blb s' = blb s \<and> imm s' = imm s"
    and update_quota_ok: "inv s \<Longrightarrow> st_UpdateQuotaUsage S ns n s = (Inr u, s') \<Longrightarrow>
        quo s' = (quo s)(ns := map_option (\<lambda>(l, x). (l, x + n)) (quo s ns)) \<and>
        man s' = man s \<and> blb s' = blb s \<and> imm s' = imm s"
    and update_quota_range: "inv s \<Longrightarrow> st_UpdateQuotaUsage S ns n s = (Inr u, s') \<Longrightarrow> quo s ns = Some (l, x) \<Longrightarrow>
        int64 (x + n)"
    and update_quota_inv: "inv s \<Longrightarrow> st_UpdateQuotaUsage S ns n s = (ru, s') \<Longrightarrow> inv s'"
    and put_blob_ok: "inv s \<Longrightarrow> st_PutBlob S d n mt s = (Inr u, s') \<Longrightarrow>
        blb s' = (blb s)(d := Some (case blb s d of None \<Rightarrow> n | Some k \<Rightarrow> k))"
    and put_blob_inv: "inv s \<Longrightarrow> st_PutBlob S d n mt s = (ru, s') \<Longrightarrow>
        inv s' \<and> quo s' = quo s \<and> man s' = man s \<and> imm s' = imm s"
    and put_manifest_ok: "inv s \<Longrightarrow> st_PutManifest S repo ref mt d pl s = (Inr u, s') \<Longrightarrow>
        man s' = (man s)(parseRepoPath repo := (man s (parseRepoPath repo))(ref \<mapsto> (mt, d, pl))) \<and>
        quo s' = quo s \<and> blb s' = blb s \<and> imm s' = imm s"
    and put_manifest_inv: "inv s \<Longrightarrow> st_PutManifest S repo ref mt d pl s = (ru, s') \<Longrightarrow> inv s'"
    and set_artifact_inv: "inv s \<Longrightarrow> st_SetArtifactMetadata S a s = (ru, s') \<Longrightarrow>
        inv s' \<and> quo s' = quo s \<and> man s' = man s \<and> blb s' = blb s \<and> imm s' = imm s"
    and tx_ok: "inv s \<Longrightarrow> st_WithTx S f s = (Inr u, s') \<Longrightarrow> f s = (Inr (), s')"
    and tx_fail: "inv s \<Longrightarrow> (\<And>r t. f s = (r, t) \<Longrightarrow> inv t) \<Longrightarrow> st_WithTx S f s = (Inl e, s') \<Longrightarrow>
        inv s' \<and> quo s' = quo s \<and> man s' = man s \<and> blb s' = blb s \<and> imm s' = imm s"

end
