(* ===== verification/Auth.thy ===== *)
theory Auth
  imports Db
begin

text \<open>
  Package \<^verbatim>\<open>internal/auth\<close>: tokens and their claims (\<^verbatim>\<open>token.go\<close>), the
  middleware in front of the registry and of the management API (\<^verbatim>\<open>middleware.go\<close>) and
  the login and refresh endpoints (\<^verbatim>\<open>handler.go\<close>). The JWT library, bcrypt, the LDAP
  client and the PEM parsers are parameters; \<^verbatim>\<open>encoding/base64\<close> is modelled.
\<close>

subsection \<open>Base64\<close>

text \<open>\<^verbatim>\<open>base64.StdEncoding.DecodeString\<close>: line breaks are skipped, the input is a sequence
  of quanta of four characters, only the last may be padded. \<open>b64_encode\<close> is the
  encoder a client uses.\<close>

definition b64_alphabet :: string where
  "b64_alphabet = ''ABCDEFGHIJKLMNOPQRSTUVWXYZabcdefghijklmnopqrstuvwxyz0123456789+/''"

fun index_of :: "'a \<Rightarrow> 'a list \<Rightarrow> nat option" where
  "index_of x [] = None"
| "index_of x (y # ys) = (if x = y then Some 0 else map_option Suc (index_of x ys))"

definition b64_val :: "char \<Rightarrow> nat option" where
  "b64_val c = index_of c b64_alphabet"

fun b64_quanta :: "string \<Rightarrow> bytes option" where
  "b64_quanta [] = Some []"
| "b64_quanta (a # b # c # d # rest) =
     (case (b64_val a, b64_val b) of
        (Some va, Some vb) \<Rightarrow>
          let x = char_of (va * 4 + vb div 16) in
          (if d = CHR ''='' then
             (if rest \<noteq> [] then None
              else if c = CHR ''='' then Some [x]
              else (case b64_val c of None \<Rightarrow> None
                    | Some vc \<Rightarrow> Some [x, char_of (vb mod 16 * 16 + vc div 4)]))
           else (case (b64_val c, b64_val d, b64_quanta rest) of
                   (Some vc, Some vd, Some r) \<Rightarrow>
                     Some (x # char_of (vb mod 16 * 16 + vc div 4) # char_of (vc mod 4 * 64 + vd) # r)
                 | _ \<Rightarrow> None))
      | _ \<Rightarrow> None)"
| "b64_quanta _ = None"

definition b64_decode :: "string \<Rightarrow> bytes option" where
  "b64_decode s = b64_quanta (filter (\<lambda>c. c \<noteq> CHR 0x0A \<and> c \<noteq> CHR 0x0D) s)"

definition b64_char :: "nat \<Rightarrow> char" where
  "b64_char v = b64_alphabet ! v"

fun b64_encode :: "bytes \<Rightarrow> string" where
  "b64_encode [] = []"
| "b64_encode [x] = (let vx = of_char x :: nat in
     [b64_char (vx div 4), b64_char (vx mod 4 * 16), CHR ''='', CHR ''=''])"
| "b64_encode [x, y] = (let vx = of_char x :: nat; vy = of_char y in
     [b64_char (vx div 4), b64_char (vx mod 4 * 16 + vy div 16), b64_char (vy mod 16 * 4), CHR ''=''])"
| "b64_encode (x # y # z # r) = (let vx = of_char x :: nat; vy = of_char y; vz = of_char z in
     b64_char (vx div 4) # b64_char (vx mod 4 * 16 + vy div 16) # b64_char (vy mod 16 * 4 + vz div 64) #
     b64_char (vz mod 64) # b64_encode r)"

subsection \<open>Claims and the token service\<close>

record access_entry =
  ae_type :: string
  ae_name :: string
  ae_actions :: "string list"

record claims =
  cl_issuer :: string
  cl_subject :: string
  cl_expires :: "int option"
  cl_issued :: "int option"
  cl_not_before :: "int option"
  cl_access :: "access_entry list"

record 'k token_service =
  ts_issuer :: string
  ts_service :: string
  ts_private :: "'k option"
  ts_public :: "'k option"
  ts_expiration :: int

text \<open>\<^verbatim>\<open>golang-jwt\<close>: signing with a private key, and parsing, which asks the key function
  for the key, telling it whether the token's method is an RSA method, and returns the claims
  and the \<^verbatim>\<open>Valid\<close> flag.\<close>

record 'k jwt_lib =
  jw_sign :: "'k \<Rightarrow> claims \<Rightarrow> string res"
  jw_parse :: "(bool \<Rightarrow> 'k res) \<Rightarrow> string \<Rightarrow> (claims \<times> bool) res"

record auth_config =
  ac_issuer :: string
  ac_service :: string
  ac_expiration :: int
  ac_private :: string
  ac_public :: string

text \<open>\<open>readFile\<close> is \<^verbatim>\<open>os.ReadFile\<close>, \<open>parsePriv\<close> and \<open>parsePub\<close> the PEM
  parsers, \<open>pub\<close> the public half of a private key and \<open>gen\<close> the generator of
  ephemeral keys.\<close>

definition NewTokenService ::
  "(string \<Rightarrow> bytes res) \<Rightarrow> (bytes \<Rightarrow> 'k res) \<Rightarrow> (bytes \<Rightarrow> 'k res) \<Rightarrow> ('k \<Rightarrow> 'k) \<Rightarrow> 'k res \<Rightarrow>
   auth_config \<Rightarrow> 'k token_service res" where
  "NewTokenService readFile parsePriv parsePub pub gen cfg =
     (case (if ac_private cfg = [] then Inr (None, None)
            else case readFile (ac_private cfg) of
                   Inl e \<Rightarrow> Inl (WrapErr ''failed to read private key'' e)
                 | Inr d \<Rightarrow> (case parsePriv d of
                              Inl e \<Rightarrow> Inl (WrapErr ''failed to parse private key'' e)
                            | Inr k \<Rightarrow> Inr (Some k, Some (pub k)))) of
        Inl e \<Rightarrow> Inl e
      | Inr (priv, pb) \<Rightarrow>
          (case (if ac_public cfg = [] then Inr pb
                 else case readFile (ac_public cfg) of
                        Inl e \<Rightarrow> Inl (WrapErr ''failed to read public key'' e)
                      | Inr d \<Rightarrow> (case parsePub d of
                                   Inl e \<Rightarrow> Inl (WrapErr ''failed to parse public key'' e)
                                 | Inr k \<Rightarrow> Inr (Some k))) of
             Inl e \<Rightarrow> Inl e
           | Inr pb' \<Rightarrow>
               (case (if priv = None \<and> pb' = None
                      then (case gen of Inl e \<Rightarrow> Inl (WrapErr ''failed to generate ephemeral key'' e)
                            | Inr k \<Rightarrow> Inr (Some k, Some (pub k)))
                      else Inr (priv, pb')) of
                  Inl e \<Rightarrow> Inl e
                | Inr (pr, pbl) \<Rightarrow>
                    Inr \<lparr>ts_issuer = ac_issuer cfg, ts_service = ac_service cfg, ts_private = pr,
                         ts_public = pbl, ts_expiration = ac_expiration cfg\<rparr>)))"

text \<open>One turn of the loop of \<^verbatim>\<open>ScopesToAccess\<close> yields an entry, nothing, or (a bare star)
  ends the loop with full access.\<close>

definition scope_entry :: "string \<Rightarrow> access_entry option" where
  "scope_entry s =
     (let parts = SplitN s CHR '':'' 3 in
      if length parts < 2 then None
      else let acts = (if length parts = 3 \<and> parts ! 2 \<noteq> []
                       then filter (\<lambda>a. a \<noteq> []) (map TrimSpace (Split (parts ! 2) CHR '',''))
                       else [])
           in Some \<lparr>ae_type = parts ! 0, ae_name = parts ! 1,
                    ae_actions = (if acts = [] then [''pull''] else acts)\<rparr>)"

definition full_access :: "access_entry list" where
  "full_access = [\<lparr>ae_type = ''repository'', ae_name = ''*'', ae_actions = [''*'']\<rparr>]"

fun ScopesToAccess_from :: "access_entry list \<Rightarrow> string list \<Rightarrow> access_entry list" where
  "ScopesToAccess_from acc [] = acc"
| "ScopesToAccess_from acc (s0 # rest) =
     (let s = TrimSpace s0 in
      if s = [] then ScopesToAccess_from acc rest
      else if s = ''*'' then full_access
      else (case scope_entry s of
              None \<Rightarrow> ScopesToAccess_from acc rest
            | Some e \<Rightarrow> ScopesToAccess_from (acc @ [e]) rest))"

definition ScopesToAccess :: "string list \<Rightarrow> access_entry list" where
  "ScopesToAccess scopes = ScopesToAccess_from [] scopes"

definition GenerateToken ::
  "'k jwt_lib \<Rightarrow> 'k token_service \<Rightarrow> int \<Rightarrow> string \<Rightarrow> access_entry list \<Rightarrow> string res" where
  "GenerateToken J ts now subject access =
     (case ts_private ts of
        None \<Rightarrow> Inl (ErrText ''private key not initialized - cannot generate tokens'')
      | Some k \<Rightarrow>
          (case jw_sign J k \<lparr>cl_issuer = ts_issuer ts, cl_subject = subject,
                  cl_expires = Some (now + ts_expiration ts), cl_issued = Some now,
                  cl_not_before = Some now, cl_access = access\<rparr> of
             Inl e \<Rightarrow> Inl (WrapErr ''failed to sign token'' e)
           | Inr t \<Rightarrow> Inr t))"

definition ParseToken :: "'k jwt_lib \<Rightarrow> 'k token_service \<Rightarrow> int \<Rightarrow> string \<Rightarrow> claims res" where
  "ParseToken J ts now tokenString =
     (case ts_public ts of
        None \<Rightarrow> Inl (ErrText ''public key not initialized - cannot validate tokens'')
      | Some k \<Rightarrow>
          (case jw_parse J (\<lambda>rsa. if rsa then Inr k else Inl (ErrText ''unexpected signing method'')) tokenString of
             Inl e \<Rightarrow> Inl (WrapErr ''failed to parse token'' e)
           | Inr (c, valid) \<Rightarrow>
               (if valid
                then (case cl_expires c of
                        Some t \<Rightarrow> if t < now then Inl (ErrText ''token expired'') else Inr c
                      | None \<Rightarrow> Inr c)
                else Inl (ErrText ''invalid token claims''))))"

subsection \<open>Scopes\<close>

definition matchesScope :: "string \<Rightarrow> string \<Rightarrow> string \<Rightarrow> string list \<Rightarrow> bool" where
  "matchesScope userScope requestedType requestedName requestedActions =
     (let parts = Split userScope CHR '':'' in
      if length parts < 2 then False
      else let scopeType = parts ! 0; scopeName = parts ! 1;
               scopeActions = (if 3 \<le> length parts then Split (parts ! 2) CHR '','' else [])
           in if scopeType \<noteq> requestedType then False
              else if scopeName \<noteq> ''*'' \<and> scopeName \<noteq> requestedName \<and>
                      \<not> (HasSuffix scopeName ''/*'' \<and> HasPrefix requestedName (TrimSuffix scopeName ''/*'' @ ''/''))
              then False
              else if scopeActions \<noteq> [] then
                (let scopeActionSet = set (map TrimSpace scopeActions) in
                 ''*'' \<in> scopeActionSet \<or> (\<forall>a \<in> set requestedActions. a \<in> scopeActionSet))
              else True)"

subsection \<open>Middleware\<close>

definition getRequiredAction :: "request \<Rightarrow> string" where
  "getRequiredAction r =
     (if rq_method r \<in> {''GET'', ''HEAD''} then ''pull''
      else if rq_method r \<in> {''POST'', ''PUT'', ''PATCH'', ''DELETE''} then ''push''
      else ''pull'')"

fun cut_first :: "string list \<Rightarrow> string \<Rightarrow> string" where
  "cut_first [] p = p"
| "cut_first (x # xs) p = (case Index p x of Some i \<Rightarrow> take i p | None \<Rightarrow> cut_first xs p)"

definition endpointPrefixes :: "string list" where
  "endpointPrefixes = [''/blobs/'', ''/manifests/'', ''/tags/'', ''/referrers/'']"

definition extractRepo :: "string \<Rightarrow> string" where
  "extractRepo urlPath =
     (let repo = TrimPrefix (cut_first endpointPrefixes urlPath) ''/v2/''
      in if repo = [] \<or> repo = ''/'' then ''*'' else repo)"

definition parseBasicAuth :: "string \<Rightarrow> (string \<times> string) option" where
  "parseBasicAuth header =
     (case b64_decode (TrimPrefix header ''Basic '') of
        None \<Rightarrow> None
      | Some decoded \<Rightarrow> (case SplitN decoded CHR '':'' 2 of [u, p] \<Rightarrow> Some (u, p) | _ \<Rightarrow> None))"

definition GetScheme :: "request \<Rightarrow> string" where
  "GetScheme r =
     (if HasPrefix (rq_host r) ''localhost:'' \<or> HasPrefix (rq_host r) ''127.0.0.1:'' then ''http''
      else if rq_tls r then ''https''
      else if rq_header r ''X-Forwarded-Proto'' \<noteq> [] then rq_header r ''X-Forwarded-Proto''
      else ''http'')"

text \<open>The middleware either answers the request or passes it on, with the claims it puts in the
  context.\<close>

datatype verdict = Answer response | Next "claims option"

record 'k middleware =
  mw_ts :: "'k token_service"
  mw_developer :: bool
  mw_validator :: "(string \<Rightarrow> string \<Rightarrow> string list res) option"

definition challenge :: "'k middleware \<Rightarrow> request \<Rightarrow> response" where
  "challenge m r =
     http_error [(''Www-Authenticate'', ''Bearer realm='' @ [CHR 0x22] @ GetScheme r @ ''://'' @ rq_host r @
        ''/auth/token'' @ [CHR 0x22] @ '',service='' @ [CHR 0x22] @ ts_service (mw_ts m) @ [CHR 0x22])]
       ''Unauthorized'' 401"

definition denied :: response where
  "denied = \<lparr>rs_status = 403, rs_headers = [], rs_body = ErrorsJSON ''DENIED'' ''requested access to the resource is denied''\<rparr>"

definition basic_authorized :: "request \<Rightarrow> string list \<Rightarrow> bool" where
  "basic_authorized r scopes \<longleftrightarrow>
     rq_path r = ''/v2/'' \<or> rq_path r = ''/v2/_catalog'' \<or>
     list_ex (\<lambda>s. s = ''*'' \<or> matchesScope s ''repository'' (extractRepo (rq_path r)) [getRequiredAction r]) scopes"

definition entry_authorizes :: "request \<Rightarrow> access_entry \<Rightarrow> bool" where
  "entry_authorizes r e \<longleftrightarrow>
     rq_path r = ''/v2/_catalog'' \<and> ae_type e = ''registry'' \<and> ae_name e = ''catalog'' \<and> ''*'' \<in> set (ae_actions e) \<or>
     ae_type e = ''repository'' \<and> ae_name e = extractRepo (rq_path r) \<and>
       (getRequiredAction r \<in> set (ae_actions e) \<or> ''*'' \<in> set (ae_actions e))"

definition Protect :: "'k jwt_lib \<Rightarrow> 'k middleware \<Rightarrow> int \<Rightarrow> request \<Rightarrow> verdict" where
  "Protect J m now r =
     (let authHeader = rq_header r ''Authorization'' in
      if mw_developer m then Next None
      else if rq_path r = ''/v2/'' \<and> authHeader = [] then Answer (challenge m r)
      else if HasPrefix authHeader ''Basic '' \<and> mw_validator m \<noteq> None then
        (case parseBasicAuth authHeader of
           None \<Rightarrow> Answer (http_error [] ''Unauthorized'' 401)
         | Some (username, password) \<Rightarrow>
             (case (the (mw_validator m)) username password of
                Inl e \<Rightarrow> Answer (challenge m r)
              | Inr scopes \<Rightarrow>
                  (if basic_authorized r scopes
                   then Next (Some \<lparr>cl_issuer = [], cl_subject = username, cl_expires = None, cl_issued = None,
                          cl_not_before = None,
                          cl_access = [\<lparr>ae_type = ''repository'', ae_name = extractRepo (rq_path r),
                                       ae_actions = [getRequiredAction r]\<rparr>]\<rparr>)
                   else Answer denied)))
      else if authHeader = [] \<or> \<not> HasPrefix authHeader ''Bearer '' then Answer (challenge m r)
      else (case ParseToken J (mw_ts m) now (TrimPrefix authHeader ''Bearer '') of
              Inl e \<Rightarrow> Answer \<lparr>rs_status = 401, rs_headers = [],
                         rs_body = ErrorsJSON ''UNAUTHORIZED'' ''authentication required''\<rparr>
            | Inr c \<Rightarrow>
                (if list_ex (entry_authorizes r) (cl_access c) \<or> rq_path r = ''/v2/''
                 then Next (Some c) else Answer denied)))"

definition admin_entry :: "access_entry \<Rightarrow> bool" where
  "admin_entry e \<longleftrightarrow>
     ae_type e = ''repository'' \<and> ae_name e = ''*'' \<and> ''*'' \<in> set (ae_actions e) \<or>
     ''*'' \<in> set (ae_actions e) \<and> ae_name e = ''*''"

definition ProtectAdmin :: "'k jwt_lib \<Rightarrow> 'k middleware \<Rightarrow> int \<Rightarrow> request \<Rightarrow> verdict" where
  "ProtectAdmin J m now r =
     (let authHeader = rq_header r ''Authorization'' in
      if mw_developer m then Next None
      else if authHeader = [] \<or> \<not> HasPrefix authHeader ''Bearer ''
      then Answer (http_error [] ''Unauthorized: missing or invalid token'' 401)
      else (case ParseToken J (mw_ts m) now (TrimPrefix authHeader ''Bearer '') of
              Inl e \<Rightarrow> Answer (http_error [] ''Unauthorized: invalid token'' 401)
            | Inr c \<Rightarrow> (if list_ex admin_entry (cl_access c) then Next (Some c)
                        else Answer (http_error [] ''Forbidden: admin privileges required'' 403))))"

subsection \<open>Login and refresh\<close>

text \<open>\<^verbatim>\<open>Request.BasicAuth\<close> of \<^verbatim>\<open>net/http\<close>: the scheme is compared without
  regard to case, the credentials are cut at the first colon.\<close>

definition http_BasicAuth :: "request \<Rightarrow> (string \<times> string) option" where
  "http_BasicAuth r =
     (let h = rq_header r ''Authorization'' in
      if length h < 6 \<or> ToUpper (take 6 h) \<noteq> ''BASIC '' then None
      else case b64_decode (drop 6 h) of
             None \<Rightarrow> None
           | Some cs \<Rightarrow> (case SplitN cs CHR '':'' 2 of [u, p] \<Rightarrow> Some (u, p) | _ \<Rightarrow> None))"

text \<open>
  What the handler is given: the token service, the store, the libraries, the environment
  variable of the bootstrap account, the clock, whether \<^verbatim>\<open>ParseForm\<close> succeeds and what
  \<^verbatim>\<open>FormValue\<close> returns. \<open>he_ldap\<close> is the LDAP client's
  \<^verbatim>\<open>AuthenticateAndFetch\<close>, absent without LDAP; \<open>he_bcrypt\<close> whether a hash matches a
  password; \<open>he_hash\<close> the hash of the bootstrap password.
\<close>

record ('k, 'd) handler_env =
  he_jwt :: "'k jwt_lib"
  he_ts :: "'k token_service"
  he_store :: "'d store"
  he_bcrypt :: "string \<Rightarrow> string \<Rightarrow> bool"
  he_hash :: "string res"
  he_ldap :: "(string \<Rightarrow> string \<Rightarrow> string list res) option"
  he_bootstrap :: string
  he_now :: int
  he_form_ok :: bool
  he_form :: "string \<Rightarrow> string"

text \<open>A handler answers, or panics on a nil pointer.\<close>

datatype outcome = Respond response | Panic

text \<open>What authentication leaves behind: an answer already given, or the user (\<^const>\<open>None\<close> for
  a nil pointer) with the name for the token.\<close>

datatype authn = Refused response | Passed "user option" string

definition unauthorized :: response where
  "unauthorized = http_error [(''Www-Authenticate'', ''Basic realm='' @ [CHR 0x22] @ ''registry'' @ [CHR 0x22])]
     ''Unauthorized'' 401"

definition internal_error :: response where
  "internal_error = http_error [] ''Internal Server Error'' 500"

definition credentials :: "('k, 'd) handler_env \<Rightarrow> request \<Rightarrow> (string \<times> string) option" where
  "credentials E r =
     (case http_BasicAuth r of
        Some c \<Rightarrow> Some c
      | None \<Rightarrow>
          (if rq_method r = ''POST'' \<and> he_form_ok E \<and> he_form E ''username'' \<noteq> [] \<and> he_form E ''password'' \<noteq> []
           then Some (he_form E ''username'', he_form E ''password'') else None))"

definition token_usable :: "('k, 'd) handler_env \<Rightarrow> string \<Rightarrow> access_token \<Rightarrow> bool" where
  "token_usable E pass t \<longleftrightarrow>
     he_bcrypt E (tk_hash t) pass \<and>
     (case tk_expires t of None \<Rightarrow> True | Some x \<Rightarrow> \<not> x < he_now E)"

text \<open>Step 2 of \<^verbatim>\<open>tokenHandler\<close>: access tokens.\<close>

definition token_login ::
  "('k, 'd) handler_env \<Rightarrow> request \<Rightarrow> string \<Rightarrow> string \<Rightarrow> 'd \<Rightarrow> authn \<times> 'd" where
  "token_login E r user pass s =
     (let S = he_store E; actualUsername = TrimSuffix user ''-oci'' in
      case st_GetUserByUsername S actualUsername s of
        Inl e \<Rightarrow> (Refused unauthorized, s)
      | Inr u \<Rightarrow>
          (case st_ListAccessTokens S (us_id u) s of
             Inl e \<Rightarrow> (Refused unauthorized, s)
           | Inr toks \<Rightarrow>
               (case find (token_usable E pass) toks of
                  None \<Rightarrow> (Refused unauthorized, snd (st_RecordLoginAttempt S actualUsername (rq_remote r) False s))
                | Some t \<Rightarrow>
                    (Passed (Some (u\<lparr>us_scopes := tk_scopes t\<rparr>)) actualUsername,
                     snd (st_UpdateAccessTokenLastUsed S (tk_id t) s)))))"

text \<open>The local database, with the bootstrap account.\<close>

definition db_login ::
  "('k, 'd) handler_env \<Rightarrow> request \<Rightarrow> string \<Rightarrow> string \<Rightarrow> 'd \<Rightarrow> authn \<times> 'd" where
  "db_login E r user pass s =
     (let S = he_store E in
      case st_AuthenticateUser S user pass s of
        Inr u \<Rightarrow> (Passed (Some u) user, s)
      | Inl e \<Rightarrow>
          (if ToUpper (he_bootstrap E) = ''TRUE'' \<and> user = ''admin'' \<and> pass = ''admin'' then
             (case st_GetUserByUsername S ''admin'' s of
                Inl _ \<Rightarrow>
                  (case he_hash E of
                     Inl _ \<Rightarrow> (Refused internal_error, s)
                   | Inr h \<Rightarrow>
                       (case st_CreateUser S ''admin'' h [''*''] s of
                          (Inl _, s') \<Rightarrow> (Refused internal_error, s')
                        | (Inr _, s') \<Rightarrow>
                            (Passed (Some \<lparr>us_id = 0, us_name = ''admin'', us_hash = [], us_scopes = [''*'']\<rparr>) user, s')))
              | Inr _ \<Rightarrow> (Refused unauthorized, snd (st_RecordLoginAttempt S user (rq_remote r) False s)))
           else (Refused unauthorized, snd (st_RecordLoginAttempt S user (rq_remote r) False s))))"

text \<open>Step 3: LDAP first, then the local database.\<close>

definition password_login ::
  "('k, 'd) handler_env \<Rightarrow> request \<Rightarrow> string \<Rightarrow> string \<Rightarrow> 'd \<Rightarrow> authn \<times> 'd" where
  "password_login E r user pass s =
     (let S = he_store E in
      case (case he_ldap E of None \<Rightarrow> Inl (ErrText []) | Some f \<Rightarrow> f user pass) of
        Inl _ \<Rightarrow> db_login E r user pass s
      | Inr scopes \<Rightarrow>
          (case st_GetUserByUsername S user s of
             Inl _ \<Rightarrow>
               (case st_CreateUser S user ''ldap_managed_user'' scopes s of
                  (Inl _, s') \<Rightarrow> (Refused internal_error, s')
                | (Inr _, s') \<Rightarrow>
                    (Passed (case st_GetUserByUsername S user s' of Inl _ \<Rightarrow> None | Inr u \<Rightarrow> Some u) user, s'))
           | Inr u \<Rightarrow>
               (if scopes = [] then (Passed (Some u) user, s)
                else (Passed (Some (u\<lparr>us_scopes := scopes\<rparr>)) user, snd (st_UpdateUser S user scopes s)))))"

text \<open>The scope asked for, and the access granted for it: an error when the user's scopes do not
  authorise it.\<close>

definition requested_scope :: "('k, 'd) handler_env \<Rightarrow> request \<Rightarrow> string" where
  "requested_scope E r =
     (if rq_query r ''scope'' = [] \<and> rq_method r = ''POST'' then he_form E ''scope''
      else rq_query r ''scope'')"

definition granted_access :: "string list \<Rightarrow> string \<Rightarrow> access_entry list option" where
  "granted_access scopes qScope =
     (if qScope \<noteq> [] then
        (let parts = Split qScope CHR '':'' in
         if 3 \<le> length parts then
           (let typ = parts ! 0; name = parts ! 1; actions = Split (parts ! 2) CHR '','' in
            if list_ex (\<lambda>us. us = ''*'' \<or> us = qScope \<or> matchesScope us typ name actions) scopes
            then Some [\<lparr>ae_type = typ, ae_name = name, ae_actions = actions\<rparr>]
            else None)
         else Some [])
      else if ''*'' \<in> set scopes then Some full_access
      else Some [])"

definition token_response :: "('k, 'd) handler_env \<Rightarrow> string \<Rightarrow> response" where
  "token_response E t = reply 200 [(''Content-Type'', ''application/json'')] (TokenJSON t (ts_expiration (he_ts E)))"

definition issue_token ::
  "('k, 'd) handler_env \<Rightarrow> request \<Rightarrow> user \<Rightarrow> string \<Rightarrow> 'd \<Rightarrow> outcome \<times> 'd" where
  "issue_token E r u user s =
     (case granted_access (us_scopes u) (requested_scope E r) of
        None \<Rightarrow> (Respond (http_error [] ''Forbidden: insufficient permissions'' 403), s)
      | Some access \<Rightarrow>
          (let s' = snd (st_RecordLoginAttempt (he_store E) user (rq_remote r) True s) in
           case GenerateToken (he_jwt E) (he_ts E) (he_now E) user access of
             Inl _ \<Rightarrow> (Respond internal_error, s')
           | Inr t \<Rightarrow> (Respond (token_response E t), s')))"

definition locked_out :: "('k, 'd) handler_env \<Rightarrow> string \<Rightarrow> 'd \<Rightarrow> bool" where
  "locked_out E user s \<longleftrightarrow>
     (case st_CountRecentFailedLogins (he_store E) user (he_now E - 900) s of
        Inl _ \<Rightarrow> False | Inr n \<Rightarrow> 10 \<le> n)"

definition too_many_attempts :: response where
  "too_many_attempts = \<lparr>rs_status = 429, rs_headers = [], rs_body = ErrorsJSON ''TOO_MANY_ATTEMPTS''
     ''account temporarily locked due to repeated failures''\<rparr>"

definition tokenHandler :: "('k, 'd) handler_env \<Rightarrow> request \<Rightarrow> 'd \<Rightarrow> outcome \<times> 'd" where
  "tokenHandler E r s =
     (case credentials E r of
        None \<Rightarrow> (Respond unauthorized, s)
      | Some (user, pass) \<Rightarrow>
          (if locked_out E user s then (Respond too_many_attempts, s)
           else (case (if HasPrefix pass ''adsr_'' then token_login E r user pass s
                       else password_login E r user pass s) of
                   (Refused resp, s') \<Rightarrow> (Respond resp, s')
                 | (Passed None _, s') \<Rightarrow> (Panic, s')
                 | (Passed (Some u) name, s') \<Rightarrow> issue_token E r u name s')))"

definition refreshHandler :: "('k, 'd) handler_env \<Rightarrow> request \<Rightarrow> 'd \<Rightarrow> response" where
  "refreshHandler E r s =
     (let authHeader = rq_header r ''Authorization'' in
      if authHeader = [] then http_error [] ''Missing Authorization header'' 401
      else let tokenString = TrimPrefix authHeader ''Bearer '' in
        if tokenString = authHeader then http_error [] ''Invalid Authorization header format'' 401
        else case ParseToken (he_jwt E) (he_ts E) (he_now E) tokenString of
          Inl _ \<Rightarrow> http_error [] ''Invalid or expired token'' 401
        | Inr c \<Rightarrow>
            (case st_GetUserByUsername (he_store E) (cl_subject c) s of
               Inl _ \<Rightarrow> http_error [] ''User no longer exists'' 401
             | Inr u \<Rightarrow>
                 (case GenerateToken (he_jwt E) (he_ts E) (he_now E) (cl_subject c) (ScopesToAccess (us_scopes u)) of
                    Inl _ \<Rightarrow> http_error [] ''Failed to generate new token'' 500
                  | Inr t \<Rightarrow> token_response E t)))"

subsection \<open>Credentials\<close>

lemma b64_val_char:
  assumes "v < 64"
  shows "b64_val (b64_char v) = Some v" "b64_char v \<noteq> CHR ''=''" "b64_char v \<noteq> CHR 0x0A" "b64_char v \<noteq> CHR 0x0D"
proof -
  have "list_all (\<lambda>v. b64_val (b64_char v) = Some v \<and> b64_char v \<noteq> CHR ''='' \<and> b64_char v \<noteq> CHR 0x0A \<and>
      b64_char v \<noteq> CHR 0x0D) [0..<64]"
    by code_simp
  with assms show "b64_val (b64_char v) = Some v" "b64_char v \<noteq> CHR ''=''" "b64_char v \<noteq> CHR 0x0A"
    "b64_char v \<noteq> CHR 0x0D" by (simp_all add: list_all_iff)
qed

lemma sextet_bounds:
  fixes x y :: char
  shows "(of_char x :: nat) div 4 < 64" "(of_char x :: nat) mod 4 * 16 < 64"
    "(of_char x :: nat) mod 4 * 16 + of_char y div 16 < 64" "(of_char x :: nat) mod 16 * 4 < 64"
    "(of_char x :: nat) mod 16 * 4 + of_char y div 64 < 64" "(of_char x :: nat) mod 64 < 64"
    "(of_char x :: nat) div 16 < 16" "(of_char x :: nat) div 64 < 4"
  using nat_of_char_less_256 [of x] nat_of_char_less_256 [of y] by linarith+

lemma b64_quanta_encode: "b64_quanta (b64_encode xs) = Some xs"
  by (induction xs rule: b64_encode.induct) (simp_all add: Let_def b64_val_char sextet_bounds)

lemma b64_encode_breaks: "filter (\<lambda>c. c \<noteq> CHR 0x0A \<and> c \<noteq> CHR 0x0D) (b64_encode xs) = b64_encode xs"
  by (induction xs rule: b64_encode.induct) (simp_all add: Let_def b64_val_char sextet_bounds)

lemma b64_decode_encode: "b64_decode (b64_encode xs) = Some xs"
  by (simp add: b64_decode_def b64_encode_breaks b64_quanta_encode)

text \<open>Round trip of Basic credentials: the header a client builds from a user name without a colon
  and any password, as base64 of the two joined by a colon, is read back by the middleware and
  by the token endpoint as exactly that name and password.\<close>

theorem parseBasicAuth_roundtrip:
  assumes "CHR '':'' \<notin> set u" "rq_header r ''Authorization'' = ''Basic '' @ b64_encode (u @ '':'' @ p)"
  shows "parseBasicAuth (rq_header r ''Authorization'') = Some (u, p) \<and> http_BasicAuth r = Some (u, p)"
proof -
  have d: "b64_decode (b64_encode (u @ CHR '':'' # p)) = Some (u @ CHR '':'' # p)" by (rule b64_decode_encode)
  have t: "TrimPrefix (''Basic '' @ x) ''Basic '' = x" for x by (rule TrimPrefix_append)
  have "ToUpper (take 6 (''Basic '' @ x)) = ''BASIC ''" for x by (simp add: ToUpper_def upper_def) code_simp
  then show ?thesis
    using assms t [of "b64_encode (u @ CHR '':'' # p)"]
    by (simp add: parseBasicAuth_def http_BasicAuth_def d SplitN_2 Let_def)
qed

text \<open>A request with a method, a path and an Authorization header, and nothing else.\<close>

definition plain_request :: "string \<Rightarrow> string \<Rightarrow> string \<Rightarrow> request" where
  "plain_request m p a = \<lparr>rq_method = m, rq_path = p, rq_host = ''registry:5000'', rq_tls = True,
     rq_remote = ''10.0.0.1:999'', rq_header = (\<lambda>h. if h = ''Authorization'' then a else []),
     rq_query = (\<lambda>_. []), rq_content_length = 0, rq_body = None\<rparr>"

lemma plain_request_simps [simp]:
  "rq_method (plain_request m p a) = m" "rq_path (plain_request m p a) = p"
  "rq_header (plain_request m p a) ''Authorization'' = a" "rq_query (plain_request m p a) k = []"
  by (simp_all add: plain_request_def)

theorem parseBasicAuth_roundtrip_witness:
  "parseBasicAuth (''Basic '' @ b64_encode (''bob'' @ '':'' @ ''p:w'')) = Some (''bob'', ''p:w'')"
  using parseBasicAuth_roundtrip [of "''bob''" "plain_request ''GET'' ''/v2/'' (''Basic '' @ b64_encode (''bob'' @ '':'' @ ''p:w''))" "''p:w''"]
  unfolding plain_request_simps by simp

subsection \<open>Scopes\<close>

text \<open>Which repository names the name part of a scope covers.\<close>

definition name_covers :: "string \<Rightarrow> string \<Rightarrow> bool" where
  "name_covers pat name \<longleftrightarrow> pat = ''*'' \<or> pat = name \<or> (\<exists>ns rest. pat = ns @ ''/*'' \<and> name = ns @ ''/'' @ rest)"

lemma suffix_star:
  "HasSuffix pat ''/*'' \<and> HasPrefix name (TrimSuffix pat ''/*'' @ ''/'') \<longleftrightarrow>
     (\<exists>ns rest. pat = ns @ ''/*'' \<and> name = ns @ ''/'' @ rest)"
proof
  assume "HasSuffix pat ''/*'' \<and> HasPrefix name (TrimSuffix pat ''/*'' @ ''/'')"
  then obtain ns where "pat = ns @ ''/*''" "HasPrefix name (TrimSuffix pat ''/*'' @ ''/'')"
    by (auto simp: HasSuffix_iff)
  then show "\<exists>ns rest. pat = ns @ ''/*'' \<and> name = ns @ ''/'' @ rest"
    using TrimSuffix_append [of ns "''/*''"] by (auto simp: HasPrefix_iff)
next
  assume "\<exists>ns rest. pat = ns @ ''/*'' \<and> name = ns @ ''/'' @ rest"
  then obtain ns rest where p: "pat = ns @ ''/*''" "name = ns @ ''/'' @ rest" by blast
  then have "TrimSuffix pat ''/*'' = ns" using TrimSuffix_append by blast
  then show "HasSuffix pat ''/*'' \<and> HasPrefix name (TrimSuffix pat ''/*'' @ ''/'')"
    using p by (auto simp: HasSuffix_iff HasPrefix_iff)
qed

text \<open>What a stored scope \<^verbatim>\<open>type:name:actions\<close> authorises: exactly the requests of that
  type whose repository name is covered by the name part (the star, the name itself, or a prefix
  ending in a slash and a star) and whose actions are all listed, up to surrounding spaces, unless
  the star is listed.\<close>

theorem matchesScope_iff:
  assumes "CHR '':'' \<notin> set t" "CHR '':'' \<notin> set n" "acts \<noteq> []"
    and "\<forall>a \<in> set acts. CHR '':'' \<notin> set a \<and> CHR '','' \<notin> set a"
  shows "matchesScope (t @ '':'' @ n @ '':'' @ Join acts CHR '','') rt rn ras \<longleftrightarrow>
           rt = t \<and> name_covers n rn \<and>
           (''*'' \<in> TrimSpace ` set acts \<or> set ras \<subseteq> TrimSpace ` set acts)"
proof -
  have nc: "CHR '':'' \<notin> set (Join acts CHR '','')" using assms(4)
    by (induction acts "CHR '',''" rule: Join.induct) auto
  have parts: "Split (t @ '':'' @ n @ '':'' @ Join acts CHR '','') CHR '':'' = [t, n, Join acts CHR '','']"
    using assms(1,2) nc by (simp add: Split_append Split_id)
  have sp: "Split (Join acts CHR '','') CHR '','' = acts" using assms(3,4) by (intro Split_Join) auto
  have nm: "name_covers n rn \<longleftrightarrow> n = ''*'' \<or> n = rn \<or> HasSuffix n ''/*'' \<and> HasPrefix rn (TrimSuffix n ''/*'' @ ''/'')"
    unfolding name_covers_def suffix_star ..
  show ?thesis
    unfolding matchesScope_def parts Let_def nm
    using assms(3) by (auto simp: sp simp del: append_Cons)
qed

theorem matchesScope_iff_witness:
  "matchesScope (''repository'' @ '':'' @ ''myorg/*'' @ '':'' @ Join [''pull'', '' push''] CHR '','')
     ''repository'' ''myorg/app'' [''push'']"
  by (subst matchesScope_iff) (auto simp: name_covers_def TrimSpace_def is_space_def)

subsection \<open>The middleware\<close>

lemma Protect_Next_cases:
  assumes "\<not> mw_developer m"
  shows "Protect J m now r = Next oc \<longleftrightarrow>
     (let h = rq_header r ''Authorization'' in
      (\<exists>v u p scopes. mw_validator m = Some v \<and> HasPrefix h ''Basic '' \<and> parseBasicAuth h = Some (u, p) \<and>
         v u p = Inr scopes \<and> basic_authorized r scopes \<and>
         oc = Some \<lparr>cl_issuer = [], cl_subject = u, cl_expires = None, cl_issued = None, cl_not_before = None,
                cl_access = [\<lparr>ae_type = ''repository'', ae_name = extractRepo (rq_path r),
                              ae_actions = [getRequiredAction r]\<rparr>]\<rparr>) \<or>
      (\<exists>c. HasPrefix h ''Bearer '' \<and> ParseToken J (mw_ts m) now (TrimPrefix h ''Bearer '') = Inr c \<and>
         ((\<exists>e \<in> set (cl_access c). entry_authorizes r e) \<or> rq_path r = ''/v2/'') \<and> oc = Some c))"
proof -
  let ?h = "rq_header r ''Authorization''"
  have excl: "HasPrefix ?h ''Basic '' \<Longrightarrow> \<not> HasPrefix ?h ''Bearer ''"
    by (auto simp: HasPrefix_iff)
  have ne: "HasPrefix ?h ''Basic '' \<or> HasPrefix ?h ''Bearer '' \<Longrightarrow> ?h \<noteq> []" by (auto simp: HasPrefix_iff)
  consider (basic) v where "HasPrefix ?h ''Basic ''" "mw_validator m = Some v"
    | (bearer) "HasPrefix ?h ''Bearer ''" | (neither) "\<not> HasPrefix ?h ''Bearer ''" "\<not> HasPrefix ?h ''Basic '' \<or> mw_validator m = None"
    by blast
  then show ?thesis
  proof cases
    case basic
    then have "?h \<noteq> []" "\<not> HasPrefix ?h ''Bearer ''" using ne excl by auto
    with basic assms show ?thesis unfolding Protect_def Let_def
      by (cases "parseBasicAuth ?h") (auto split: sum.splits if_splits)
  next
    case bearer
    then have "?h \<noteq> []" "\<not> HasPrefix ?h ''Basic ''" using ne excl by auto
    with bearer assms show ?thesis unfolding Protect_def Let_def
      by (cases "ParseToken J (mw_ts m) now (TrimPrefix ?h ''Bearer '')") (auto simp: list_ex_iff)
  next
    case neither
    then show ?thesis using assms unfolding Protect_def Let_def by auto
  qed
qed


text \<open>A token service with one key, a library whose only token carries given claims, and a
  middleware that knows one user.\<close>

definition one_service :: "nat token_service" where
  "one_service = \<lparr>ts_issuer = ''ads'', ts_service = ''registry'', ts_private = Some 1, ts_public = Some 1,
     ts_expiration = 300\<rparr>"

definition one_token :: "claims \<Rightarrow> nat jwt_lib" where
  "one_token c = \<lparr>jw_sign = (\<lambda>k c'. if c' = c then Inr ''tok'' else Inl (ErrText ''unsupported'')),
     jw_parse = (\<lambda>kf t. case kf True of Inl e \<Rightarrow> Inl e
        | Inr k \<Rightarrow> if t = ''tok'' \<and> k = 1 then Inr (c, True) else Inl (ErrText ''malformed''))\<rparr>"

definition claims_of :: "string \<Rightarrow> int \<Rightarrow> access_entry list \<Rightarrow> claims" where
  "claims_of u now acc = \<lparr>cl_issuer = ''ads'', cl_subject = u, cl_expires = Some (now + 300), cl_issued = Some now,
     cl_not_before = Some now, cl_access = acc\<rparr>"

definition one_middleware :: "nat middleware" where
  "one_middleware = \<lparr>mw_ts = one_service, mw_developer = False,
     mw_validator = Some (\<lambda>u p. if u = ''bob'' \<and> p = ''pw'' then Inr [''repository:lib/app:pull'']
                                else Inl DbNotFound)\<rparr>"


text \<open>An administrator's token from the token endpoint, whose only entry is
  \<^verbatim>\<open>repository:*:*\<close>, passes the guard of the management API but is refused on every
  repository endpoint of the registry API: the middleware compares the entry's name with the
  repository's name and does not treat the star as a pattern.\<close>

theorem admin_token_denied_on_registry:
  assumes "\<not> mw_developer m" "HasPrefix (rq_header r ''Authorization'') ''Bearer ''"
    and "ParseToken J (mw_ts m) now (TrimPrefix (rq_header r ''Authorization'') ''Bearer '') = Inr c"
    and "cl_access c = full_access" "extractRepo (rq_path r) \<noteq> ''*''" "rq_path r \<noteq> ''/v2/''"
  shows "ProtectAdmin J m now r = Next (Some c) \<and> Protect J m now r = Answer denied"
proof -
  let ?h = "rq_header r ''Authorization''"
  have "?h \<noteq> []" "\<not> HasPrefix ?h ''Basic ''" using assms(2) by (auto simp: HasPrefix_iff)
  moreover have "\<not> list_ex (entry_authorizes r) (cl_access c)" "list_ex admin_entry (cl_access c)"
    using assms(4,5) by (auto simp: full_access_def entry_authorizes_def admin_entry_def)
  ultimately show ?thesis using assms by (simp add: ProtectAdmin_def Protect_def Let_def)
qed

theorem admin_token_denied_on_registry_witness:
  "ProtectAdmin (one_token (claims_of ''admin'' 0 full_access)) one_middleware 0
     (plain_request ''GET'' ''/v2/lib/app/manifests/v1'' ''Bearer tok'') = Next (Some (claims_of ''admin'' 0 full_access)) \<and>
   Protect (one_token (claims_of ''admin'' 0 full_access)) one_middleware 0
     (plain_request ''GET'' ''/v2/lib/app/manifests/v1'' ''Bearer tok'') = Answer denied"
proof (rule admin_token_denied_on_registry)
  show "ParseToken (one_token (claims_of ''admin'' 0 full_access)) (mw_ts one_middleware) 0
      (TrimPrefix (rq_header (plain_request ''GET'' ''/v2/lib/app/manifests/v1'' ''Bearer tok'') ''Authorization'') ''Bearer '')
      = Inr (claims_of ''admin'' 0 full_access)" by code_simp
  show "extractRepo (rq_path (plain_request ''GET'' ''/v2/lib/app/manifests/v1'' ''Bearer tok'')) \<noteq> ''*''" by code_simp
  show "HasPrefix (rq_header (plain_request ''GET'' ''/v2/lib/app/manifests/v1'' ''Bearer tok'') ''Authorization'') ''Bearer ''"
    by code_simp
qed (simp_all add: one_middleware_def claims_of_def)

end
