(* ===== verification/Postgres.thy ===== *)
theory Postgres
  imports Db
begin

text \<open>
  The PostgreSQL store, \<^verbatim>\<open>internal/db/postgres/postgres.go\<close>, over the tables its
  schema and the migrations under \<^verbatim>\<open>migrations/\<close> create. A table is the list of its
  rows in insertion order; a statement is a filter, a map or an append on it. A query for one
  row without an order returns the first match. Statements here fail only where the schema
  makes them fail (a constraint, a column that does not exist, a \<^verbatim>\<open>BIGINT\<close> out of
  range); failures of the connection are covered by the laws of \<^verbatim>\<open>registry_store\<close>,
  which allow any operation to fail. Strings are ordered bytewise (the collation C).
\<close>

subsection \<open>Tables\<close>

record ns_row =
  ns_id :: nat
  ns_name :: string

record repo_row =
  rp_id :: nat
  rp_ns :: nat
  rp_name :: string

record manifest_row =
  mf_repo :: nat
  mf_ref :: string
  mf_media :: string
  mf_digest :: string
  mf_payload :: bytes
  mf_immutable :: bool
  mf_type :: "string option"
  mf_subject :: "string option"

record blob_row =
  bl_digest :: string
  bl_size :: int
  bl_media :: string
  bl_created :: int

record user_row =
  ur_id :: nat
  ur_name :: string
  ur_hash :: string
  ur_scopes :: string

record quota_row =
  qr_ns :: nat
  qr_limit :: int
  qr_used :: int

record scan_row =
  sr_digest :: string
  sr_scanner :: string
  sr_data :: bytes
  sr_created :: int

record token_row =
  tr_id :: nat
  tr_user :: nat
  tr_name :: string
  tr_hash :: string
  tr_scopes :: string
  tr_created :: int
  tr_used :: "int option"
  tr_expires :: "int option"

record login_row =
  lr_user :: string
  lr_ip :: string
  lr_success :: bool
  lr_at :: int

record audit_row =
  ar_id :: nat
  ar_at :: int
  ar_entry :: audit_entry

record upstream_row =
  up_id :: nat
  up_name :: string
  up_type :: string
  up_endpoint :: string
  up_region :: string
  up_key :: string
  up_secret :: string
  up_token :: "string option"
  up_expiry :: "int option"
  up_refresh :: "int option"
  up_fails :: int
  up_enabled :: bool
  up_cache :: bool
  up_ttl :: int
  up_pull_only :: bool

text \<open>\<open>next_id\<close> supplies the serial columns, \<open>now\<close> is
  \<^verbatim>\<open>CURRENT_TIMESTAMP\<close>.\<close>

record db =
  namespaces :: "ns_row list"
  repositories :: "repo_row list"
  manifests :: "manifest_row list"
  blobs :: "blob_row list"
  users :: "user_row list"
  quotas :: "quota_row list"
  scans :: "scan_row list"
  tokens :: "token_row list"
  logins :: "login_row list"
  policies :: "policy_record list"
  artifacts :: "artifact_metadata list"
  groups :: "group list"
  user_groups :: "(nat \<times> nat) list"
  audits :: "audit_row list"
  upstreams :: "upstream_row list"
  next_id :: nat
  now :: int

definition empty_db :: db where
  "empty_db = \<lparr>namespaces = [], repositories = [], manifests = [], blobs = [], users = [], quotas = [],
     scans = [], tokens = [], logins = [], policies = [], artifacts = [], groups = [], user_groups = [],
     audits = [], upstreams = [], next_id = 1, now = 0\<rparr>"

text \<open>\<^verbatim>\<open>ORDER BY created_at DESC\<close>: newest first. Rows of the same time keep their order
  here; SQL leaves it open.\<close>

definition newest_first :: "('a \<Rightarrow> int) \<Rightarrow> 'a list \<Rightarrow> 'a list" where
  "newest_first f xs = rev (sort_key f (rev xs))"

lemma set_newest_first [simp]: "set (newest_first f xs) = set xs"
  by (simp add: newest_first_def)

lemma length_newest_first [simp]: "length (newest_first f xs) = length xs"
  by (simp add: newest_first_def)

subsection \<open>Namespaces and repositories\<close>

definition ns_lookup :: "string \<Rightarrow> db \<Rightarrow> nat option" where
  "ns_lookup n s = map_option ns_id (find (\<lambda>r. ns_name r = n) (namespaces s))"

definition repo_in :: "nat \<Rightarrow> string \<Rightarrow> db \<Rightarrow> nat option" where
  "repo_in nid name s = map_option rp_id (find (\<lambda>r. rp_ns r = nid \<and> rp_name r = name) (repositories s))"

definition pg_CreateNamespace :: "string \<Rightarrow> db \<Rightarrow> unit res \<times> db" where
  "pg_CreateNamespace name s =
     (Inr (), case ns_lookup name s of
        Some _ \<Rightarrow> s
      | None \<Rightarrow> s\<lparr>namespaces := namespaces s @ [\<lparr>ns_id = next_id s, ns_name = name\<rparr>],
                  next_id := Suc (next_id s)\<rparr>)"

definition insert_repository :: "nat \<Rightarrow> string \<Rightarrow> db \<Rightarrow> unit res \<times> db" where
  "insert_repository nid name s =
     (Inr (), case repo_in nid name s of
        Some _ \<Rightarrow> s
      | None \<Rightarrow> s\<lparr>repositories := repositories s @ [\<lparr>rp_id = next_id s, rp_ns = nid, rp_name = name\<rparr>],
                  next_id := Suc (next_id s)\<rparr>)"

text \<open>If the namespace is missing it is created and looked up again; the second lookup's error
  is ignored, which would leave the id 0.\<close>

definition pg_CreateRepository :: "string \<Rightarrow> string \<Rightarrow> db \<Rightarrow> unit res \<times> db" where
  "pg_CreateRepository namespace name s =
     (case ns_lookup namespace s of
        Some nid \<Rightarrow> insert_repository nid name s
      | None \<Rightarrow>
          (case pg_CreateNamespace namespace s of
             (Inl e, s') \<Rightarrow> (Inl e, s')
           | (Inr _, s') \<Rightarrow>
               insert_repository (case ns_lookup namespace s' of Some nid \<Rightarrow> nid | None \<Rightarrow> 0) name s'))"

text \<open>The join of \<^verbatim>\<open>repositories\<close> with \<^verbatim>\<open>namespaces\<close> on both names.\<close>

definition repo_lookup :: "string \<times> string \<Rightarrow> db \<Rightarrow> nat option" where
  "repo_lookup nr s = Option.bind (ns_lookup (fst nr) s) (\<lambda>nid. repo_in nid (snd nr) s)"

definition ns_name_of :: "nat \<Rightarrow> db \<Rightarrow> string option" where
  "ns_name_of nid s = map_option ns_name (find (\<lambda>r. ns_id r = nid) (namespaces s))"

definition limit_rows :: "int \<Rightarrow> 'a list \<Rightarrow> 'a list" where
  "limit_rows n xs = (if n > 0 then take (nat n) xs else xs)"

definition repo_pairs :: "db \<Rightarrow> (string \<times> string) list" where
  "repo_pairs s = List.map_filter (\<lambda>r. map_option (\<lambda>n. (n, rp_name r)) (ns_name_of (rp_ns r) s)) (repositories s)"

text \<open>The pagination of \<^verbatim>\<open>ListRepositories\<close>: rows after \<^verbatim>\<open>last\<close> in the
  order of namespace and name.\<close>

definition pg_ListRepositories :: "int \<Rightarrow> string \<Rightarrow> db \<Rightarrow> string list res" where
  "pg_ListRepositories n lst s =
     (let (lastNs, lastRepo) = parseRepoPath lst;
          rows = (if lst = [] then repo_pairs s
                  else filter (\<lambda>(a, b). lastNs < a \<or> a = lastNs \<and> lastRepo < b) (repo_pairs s));
          sorted = sort_key fst (sort_key snd rows)
      in Inr (map repo_display (limit_rows n sorted)))"

subsection \<open>Manifests\<close>

definition repo_manifests :: "string \<times> string \<Rightarrow> db \<Rightarrow> manifest_row list" where
  "repo_manifests nr s =
     (case repo_lookup nr s of None \<Rightarrow> [] | Some rid \<Rightarrow> filter (\<lambda>m. mf_repo m = rid) (manifests s))"

text \<open>\<^verbatim>\<open>NOT LIKE 'sha256:%'\<close> excludes the references that start with
  \<^verbatim>\<open>sha256:\<close>.\<close>

definition pg_ListTags :: "string \<Rightarrow> int \<Rightarrow> string \<Rightarrow> db \<Rightarrow> string list res" where
  "pg_ListTags repo n lst s =
     (let refs = map mf_ref (repo_manifests (parseRepoPath repo) s);
          tags = filter (\<lambda>t. \<not> HasPrefix t ''sha256:'') refs;
          after = (if lst = [] then tags else filter (\<lambda>t. lst < t) tags)
      in Inr (limit_rows n (sort after)))"

text \<open>The upsert on \<^verbatim>\<open>(repo_id, reference)\<close>: an existing row keeps its immutability
  flag and artifact columns, a new row has the defaults.\<close>

definition upsert_manifest :: "nat \<Rightarrow> string \<Rightarrow> string \<Rightarrow> string \<Rightarrow> bytes \<Rightarrow> db \<Rightarrow> db" where
  "upsert_manifest rid ref mt d pl s =
     (if list_ex (\<lambda>m. mf_repo m = rid \<and> mf_ref m = ref) (manifests s)
      then s\<lparr>manifests := map (\<lambda>m. if mf_repo m = rid \<and> mf_ref m = ref
               then m\<lparr>mf_media := mt, mf_digest := d, mf_payload := pl\<rparr> else m) (manifests s)\<rparr>
      else s\<lparr>manifests := manifests s @ [\<lparr>mf_repo = rid, mf_ref = ref, mf_media = mt, mf_digest = d,
               mf_payload = pl, mf_immutable = False, mf_type = None, mf_subject = None\<rparr>]\<rparr>)"

definition pg_PutManifest ::
  "string \<Rightarrow> string \<Rightarrow> string \<Rightarrow> string \<Rightarrow> bytes \<Rightarrow> db \<Rightarrow> unit res \<times> db" where
  "pg_PutManifest repo ref mt d pl s =
     (let (ns, repoName) = parseRepoPath repo in
      case pg_CreateNamespace ns s of
        (Inl e, s1) \<Rightarrow> (Inl (WrapErr ''failed to create namespace'' e), s1)
      | (Inr _, s1) \<Rightarrow>
          (case pg_CreateRepository ns repoName s1 of
             (Inl e, s2) \<Rightarrow> (Inl (WrapErr ''failed to create repository'' e), s2)
           | (Inr _, s2) \<Rightarrow>
               (case repo_lookup (ns, repoName) s2 of
                  None \<Rightarrow> (Inl (WrapErr ''repository not found'' (ErrText ''sql: no rows in result set'')), s2)
                | Some rid \<Rightarrow> (Inr (), upsert_manifest rid ref mt d pl s2))))"

definition row_matches :: "string \<Rightarrow> manifest_row \<Rightarrow> bool" where
  "row_matches ref m \<longleftrightarrow> mf_ref m = ref \<or> mf_digest m = ref"

definition pg_GetManifest :: "string \<Rightarrow> string \<Rightarrow> db \<Rightarrow> manifest res \<times> db" where
  "pg_GetManifest repo ref s =
     (case find (row_matches ref) (repo_manifests (parseRepoPath repo) s) of
        None \<Rightarrow> (Inl DbNotFound, s)
      | Some m \<Rightarrow> (Inr (mf_media m, mf_digest m, mf_payload m), s))"

text \<open>The immutability check looks at one matching row; the \<^verbatim>\<open>DELETE\<close> removes every
  matching row.\<close>

definition pg_DeleteManifest :: "string \<Rightarrow> string \<Rightarrow> db \<Rightarrow> unit res \<times> db" where
  "pg_DeleteManifest repo ref s =
     (let nr = parseRepoPath repo;
          immutable = (case find (row_matches ref) (repo_manifests nr s) of
                         None \<Rightarrow> False | Some m \<Rightarrow> mf_immutable m)
      in if immutable
         then (Inl (ErrText (''tag '' @ ref @ '' is immutable and cannot be deleted'')), s)
         else (let kept = filter (\<lambda>m. \<not> (row_matches ref m \<and> repo_lookup nr s = Some (mf_repo m))) (manifests s)
               in if length kept = length (manifests s) then (Inl DbNotFound, s)
                  else (Inr (), s\<lparr>manifests := kept\<rparr>)))"

definition pg_SetTagImmutable :: "string \<Rightarrow> string \<Rightarrow> bool \<Rightarrow> db \<Rightarrow> unit res \<times> db" where
  "pg_SetTagImmutable repo ref b s =
     (case repo_lookup (parseRepoPath repo) s of
        None \<Rightarrow> (Inl DbNotFound, s)
      | Some rid \<Rightarrow>
          (if list_ex (\<lambda>m. mf_repo m = rid \<and> mf_ref m = ref) (manifests s)
           then (Inr (), s\<lparr>manifests := map (\<lambda>m. if mf_repo m = rid \<and> mf_ref m = ref
                    then m\<lparr>mf_immutable := b\<rparr> else m) (manifests s)\<rparr>)
           else (Inl DbNotFound, s)))"

definition pg_IsTagImmutable :: "string \<Rightarrow> string \<Rightarrow> db \<Rightarrow> bool res" where
  "pg_IsTagImmutable repo ref s =
     (case find (\<lambda>m. mf_ref m = ref) (repo_manifests (parseRepoPath repo) s) of
        None \<Rightarrow> Inr False | Some m \<Rightarrow> Inr (mf_immutable m))"

definition repo_name_of :: "nat \<Rightarrow> db \<Rightarrow> (string \<times> string) option" where
  "repo_name_of rid s =
     Option.bind (find (\<lambda>r. rp_id r = rid) (repositories s))
       (\<lambda>r. map_option (\<lambda>n. (n, rp_name r)) (ns_name_of (rp_ns r) s))"

definition pg_ListManifests :: "db \<Rightarrow> manifest_record list res" where
  "pg_ListManifests s =
     Inr (List.map_filter (\<lambda>m. map_option (\<lambda>(n, r).
            \<lparr>mr_ns = n, mr_repo = r, mr_ref = mf_ref m, mr_digest = mf_digest m\<rparr>) (repo_name_of (mf_repo m) s))
          (manifests s))"

subsection \<open>Blobs and scan reports\<close>

definition pg_PutBlob :: "string \<Rightarrow> int \<Rightarrow> string \<Rightarrow> db \<Rightarrow> unit res \<times> db" where
  "pg_PutBlob d n mt s =
     (Inr (), if list_ex (\<lambda>b. bl_digest b = d) (blobs s) then s
              else s\<lparr>blobs := blobs s @ [\<lparr>bl_digest = d, bl_size = n, bl_media = mt, bl_created = now s\<rparr>]\<rparr>)"

definition pg_BlobExists :: "string \<Rightarrow> db \<Rightarrow> bool res" where
  "pg_BlobExists d s = Inr (list_ex (\<lambda>b. bl_digest b = d) (blobs s))"

definition pg_GetBlobSize :: "string \<Rightarrow> db \<Rightarrow> int res" where
  "pg_GetBlobSize d s =
     (case find (\<lambda>b. bl_digest b = d) (blobs s) of None \<Rightarrow> Inl DbNotFound | Some b \<Rightarrow> Inr (bl_size b))"

definition pg_DeleteBlob :: "string \<Rightarrow> db \<Rightarrow> unit res \<times> db" where
  "pg_DeleteBlob d s = (Inr (), s\<lparr>blobs := filter (\<lambda>b. bl_digest b \<noteq> d) (blobs s)\<rparr>)"

definition pg_ListBlobs :: "db \<Rightarrow> blob_record list res" where
  "pg_ListBlobs s =
     Inr (map (\<lambda>b. \<lparr>br_digest = bl_digest b, br_size = bl_size b, br_created = bl_created b\<rparr>)
           (newest_first bl_created (blobs s)))"

text \<open>\<^verbatim>\<open>scan_reports.digest\<close> is unique: a report of another scanner for the same digest
  replaces the row.\<close>

definition pg_SaveScanReport :: "string \<Rightarrow> string \<Rightarrow> bytes \<Rightarrow> db \<Rightarrow> unit res \<times> db" where
  "pg_SaveScanReport d sc dat s =
     (Inr (), if list_ex (\<lambda>r. sr_digest r = d) (scans s)
              then s\<lparr>scans := map (\<lambda>r. if sr_digest r = d then r\<lparr>sr_scanner := sc, sr_data := dat, sr_created := now s\<rparr> else r) (scans s)\<rparr>
              else s\<lparr>scans := scans s @ [\<lparr>sr_digest = d, sr_scanner = sc, sr_data = dat, sr_created = now s\<rparr>]\<rparr>)"

definition pg_GetScanReport :: "string \<Rightarrow> string \<Rightarrow> db \<Rightarrow> bytes res \<times> db" where
  "pg_GetScanReport d sc s =
     ((case find (\<lambda>r. sr_digest r = d \<and> sr_scanner r = sc) (scans s) of
         None \<Rightarrow> Inl DbNotFound | Some r \<Rightarrow> Inr (sr_data r)), s)"

definition pg_ListScanReports :: "db \<Rightarrow> scan_report list res" where
  "pg_ListScanReports s =
     Inr (map (\<lambda>r. \<lparr>sp_digest = sr_digest r, sp_scanner = sr_scanner r, sp_data = sr_data r\<rparr>)
           (take 100 (newest_first sr_created (scans s))))"

subsection \<open>Users, quotas, access tokens, login attempts\<close>

text \<open>A user's scopes are stored joined by commas and read back as one scope. \<open>bcrypt\<close> is
  \<^verbatim>\<open>bcrypt.CompareHashAndPassword\<close>: whether a password matches a hash.\<close>

definition user_of_row :: "user_row \<Rightarrow> user" where
  "user_of_row r = \<lparr>us_id = ur_id r, us_name = ur_name r, us_hash = ur_hash r, us_scopes = [ur_scopes r]\<rparr>"

definition pg_GetUserByUsername :: "string \<Rightarrow> db \<Rightarrow> user res" where
  "pg_GetUserByUsername name s =
     (case find (\<lambda>r. ur_name r = name) (users s) of
        None \<Rightarrow> Inl DbNotFound | Some r \<Rightarrow> Inr (user_of_row r))"

text \<open>\<^verbatim>\<open>GetUserByToken\<close> and \<^verbatim>\<open>ListUsers\<close> do not select the password
  hash.\<close>

definition user_listed :: "user_row \<Rightarrow> user" where
  "user_listed r = \<lparr>us_id = ur_id r, us_name = ur_name r, us_hash = [], us_scopes = [ur_scopes r]\<rparr>"

definition pg_GetUserByToken :: "string \<Rightarrow> db \<Rightarrow> user res" where
  "pg_GetUserByToken token s =
     (case find (\<lambda>r. ur_hash r = token) (users s) of
        None \<Rightarrow> Inl DbNotFound | Some r \<Rightarrow> Inr (user_listed r))"

definition pg_ListUsers :: "db \<Rightarrow> user list res" where
  "pg_ListUsers s = Inr (map user_listed (sort_key ur_name (users s)))"

definition pg_AuthenticateUser :: "(string \<Rightarrow> string \<Rightarrow> bool) \<Rightarrow> string \<Rightarrow> string \<Rightarrow> db \<Rightarrow> user res" where
  "pg_AuthenticateUser bcrypt name password s =
     (case pg_GetUserByUsername name s of
        Inl e \<Rightarrow> Inl e
      | Inr u \<Rightarrow> if bcrypt (us_hash u) password then Inr u else Inl DbNotFound)"

definition unique_violation :: err where
  "unique_violation = ErrText ''duplicate key value violates unique constraint''"

definition pg_CreateUser :: "string \<Rightarrow> string \<Rightarrow> string list \<Rightarrow> db \<Rightarrow> unit res \<times> db" where
  "pg_CreateUser name hash scopes s =
     (if list_ex (\<lambda>r. ur_name r = name) (users s) then (Inl unique_violation, s)
      else (Inr (), s\<lparr>users := users s @ [\<lparr>ur_id = next_id s, ur_name = name, ur_hash = hash,
              ur_scopes = Join scopes CHR '',''\<rparr>], next_id := Suc (next_id s)\<rparr>))"

definition pg_UpdateUser :: "string \<Rightarrow> string list \<Rightarrow> db \<Rightarrow> unit res \<times> db" where
  "pg_UpdateUser name scopes s =
     (if list_ex (\<lambda>r. ur_name r = name) (users s)
      then (Inr (), s\<lparr>users := map (\<lambda>r. if ur_name r = name
              then r\<lparr>ur_scopes := Join scopes CHR '',''\<rparr> else r) (users s)\<rparr>)
      else (Inl DbNotFound, s))"

definition pg_UpdateUserPassword :: "string \<Rightarrow> string \<Rightarrow> db \<Rightarrow> unit res \<times> db" where
  "pg_UpdateUserPassword name hash s =
     (if list_ex (\<lambda>r. ur_name r = name) (users s)
      then (Inr (), s\<lparr>users := map (\<lambda>r. if ur_name r = name then r\<lparr>ur_hash := hash\<rparr> else r) (users s)\<rparr>)
      else (Inl DbNotFound, s))"

text \<open>\<^verbatim>\<open>user_groups\<close> references \<^verbatim>\<open>users\<close> and restricts the deletion of a
  member of a group; \<^verbatim>\<open>access_tokens\<close> references it and cascades.\<close>

definition foreign_key_violation :: err where
  "foreign_key_violation = ErrText ''violates foreign key constraint''"

definition pg_DeleteUser :: "string \<Rightarrow> db \<Rightarrow> unit res \<times> db" where
  "pg_DeleteUser name s =
     (case find (\<lambda>r. ur_name r = name) (users s) of
        None \<Rightarrow> (Inl DbNotFound, s)
      | Some u \<Rightarrow>
          if list_ex (\<lambda>(uid, gid). uid = ur_id u) (user_groups s) then (Inl foreign_key_violation, s)
          else (Inr (), s\<lparr>users := filter (\<lambda>r. ur_name r \<noteq> name) (users s),
                         tokens := filter (\<lambda>t. tr_user t \<noteq> ur_id u) (tokens s)\<rparr>))"

definition pg_CreateGroup :: "string \<Rightarrow> db \<Rightarrow> unit res \<times> db" where
  "pg_CreateGroup name s =
     (Inr (), if list_ex (\<lambda>g. gr_name g = name) (groups s) then s
              else s\<lparr>groups := groups s @ [\<lparr>gr_id = next_id s, gr_name = name\<rparr>], next_id := Suc (next_id s)\<rparr>)"

definition pg_AddUserToGroup :: "string \<Rightarrow> string \<Rightarrow> db \<Rightarrow> unit res \<times> db" where
  "pg_AddUserToGroup name groupName s =
     (case find (\<lambda>r. ur_name r = name) (users s) of
        None \<Rightarrow> (Inl DbNotFound, s)
      | Some u \<Rightarrow>
          (case find (\<lambda>g. gr_name g = groupName) (groups s) of
             None \<Rightarrow> (Inl DbNotFound, s)
           | Some g \<Rightarrow>
               (Inr (), if (ur_id u, gr_id g) \<in> set (user_groups s) then s
                        else s\<lparr>user_groups := user_groups s @ [(ur_id u, gr_id g)]\<rparr>)))"

definition pg_ListGroups :: "db \<Rightarrow> group list res" where
  "pg_ListGroups s = Inr (sort_key gr_name (groups s))"

definition pg_ListQuotas :: "db \<Rightarrow> quota list res" where
  "pg_ListQuotas s =
     Inr (sort_key q_ns (List.map_filter (\<lambda>q. map_option (\<lambda>n.
            \<lparr>q_ns_id = qr_ns q, q_ns = n, q_limit = qr_limit q, q_used = qr_used q\<rparr>) (ns_name_of (qr_ns q) s))
          (quotas s)))"

definition pg_CheckQuota :: "string \<Rightarrow> db \<Rightarrow> quota option res" where
  "pg_CheckQuota namespace s =
     Inr (Option.bind (ns_lookup namespace s) (\<lambda>nid.
            map_option (\<lambda>q. \<lparr>q_ns_id = qr_ns q, q_ns = namespace, q_limit = qr_limit q, q_used = qr_used q\<rparr>)
              (find (\<lambda>q. qr_ns q = nid) (quotas s))))"

definition pg_SetQuota :: "string \<Rightarrow> int \<Rightarrow> db \<Rightarrow> unit res \<times> db" where
  "pg_SetQuota namespace limitBytes s =
     (case pg_CreateNamespace namespace s of
        (Inl e, s1) \<Rightarrow> (Inl e, s1)
      | (Inr _, s1) \<Rightarrow>
          (case ns_lookup namespace s1 of
             None \<Rightarrow> (Inl (ErrText ''sql: no rows in result set''), s1)
           | Some nid \<Rightarrow>
               (Inr (), if list_ex (\<lambda>q. qr_ns q = nid) (quotas s1)
                        then s1\<lparr>quotas := map (\<lambda>q. if qr_ns q = nid then q\<lparr>qr_limit := limitBytes\<rparr> else q) (quotas s1)\<rparr>
                        else s1\<lparr>quotas := quotas s1 @ [\<lparr>qr_ns = nid, qr_limit = limitBytes, qr_used = 0\<rparr>]\<rparr>)))"

text \<open>\<^verbatim>\<open>used_bytes\<close> is a \<^verbatim>\<open>BIGINT\<close>: a sum out of range is refused.\<close>

definition pg_UpdateQuotaUsage :: "string \<Rightarrow> int \<Rightarrow> db \<Rightarrow> unit res \<times> db" where
  "pg_UpdateQuotaUsage namespace sizeDelta s =
     (case ns_lookup namespace s of
        None \<Rightarrow> (Inr (), s)
      | Some nid \<Rightarrow>
          (if list_ex (\<lambda>q. qr_ns q = nid \<and> \<not> int64 (qr_used q + sizeDelta)) (quotas s)
           then (Inl (ErrText ''bigint out of range''), s)
           else (Inr (), s\<lparr>quotas := map (\<lambda>q. if qr_ns q = nid
                    then q\<lparr>qr_used := qr_used q + sizeDelta\<rparr> else q) (quotas s)\<rparr>)))"

text \<open>\<^verbatim>\<open>ListAccessTokens\<close> does not select \<^verbatim>\<open>token_hash\<close>, so the hash of
  every token it returns is empty; the scopes come back as one scope.\<close>

definition pg_token :: "token_row \<Rightarrow> access_token" where
  "pg_token t = \<lparr>tk_id = tr_id t, tk_user = tr_user t, tk_name = tr_name t, tk_hash = [],
     tk_scopes = [tr_scopes t], tk_expires = tr_expires t,
     tk_created = tr_created t, tk_used = tr_used t\<rparr>"

definition pg_ListAccessTokens :: "nat \<Rightarrow> db \<Rightarrow> access_token list res" where
  "pg_ListAccessTokens uid s =
     Inr (map pg_token (rev (sort_key tr_created (rev (filter (\<lambda>t. tr_user t = uid) (tokens s))))))"

definition pg_CreateAccessToken ::
  "nat \<Rightarrow> string \<Rightarrow> string \<Rightarrow> string list \<Rightarrow> int option \<Rightarrow> db \<Rightarrow> nat res \<times> db" where
  "pg_CreateAccessToken uid name hash scopes expires s =
     (if list_ex (\<lambda>t. tr_hash t = hash \<or> tr_user t = uid \<and> tr_name t = name) (tokens s)
      then (Inl unique_violation, s)
      else if \<not> list_ex (\<lambda>r. ur_id r = uid) (users s)
      then (Inl foreign_key_violation, s)
      else (Inr (next_id s), s\<lparr>tokens := tokens s @ [\<lparr>tr_id = next_id s, tr_user = uid, tr_name = name,
              tr_hash = hash, tr_scopes = Join scopes CHR '','', tr_created = now s, tr_used = None,
              tr_expires = expires\<rparr>], next_id := Suc (next_id s)\<rparr>))"

definition pg_GetAccessTokenByHash :: "string \<Rightarrow> db \<Rightarrow> access_token res" where
  "pg_GetAccessTokenByHash hash s =
     (case find (\<lambda>t. tr_hash t = hash) (tokens s) of
        None \<Rightarrow> Inl DbNotFound | Some t \<Rightarrow> Inr ((pg_token t)\<lparr>tk_hash := hash\<rparr>))"

definition pg_DeleteAccessToken :: "nat \<Rightarrow> db \<Rightarrow> unit res \<times> db" where
  "pg_DeleteAccessToken tid s = (Inr (), s\<lparr>tokens := filter (\<lambda>t. tr_id t \<noteq> tid) (tokens s)\<rparr>)"

definition pg_UpdateAccessTokenLastUsed :: "nat \<Rightarrow> db \<Rightarrow> unit res \<times> db" where
  "pg_UpdateAccessTokenLastUsed tid s =
     (Inr (), s\<lparr>tokens := map (\<lambda>t. if tr_id t = tid then t\<lparr>tr_used := Some (now s)\<rparr> else t) (tokens s)\<rparr>)"

definition pg_RecordLoginAttempt :: "string \<Rightarrow> string \<Rightarrow> bool \<Rightarrow> db \<Rightarrow> unit res \<times> db" where
  "pg_RecordLoginAttempt name ip ok s =
     (Inr (), s\<lparr>logins := logins s @ [\<lparr>lr_user = name, lr_ip = ip, lr_success = ok, lr_at = now s\<rparr>]\<rparr>)"

definition pg_CountRecentFailedLogins :: "string \<Rightarrow> int \<Rightarrow> db \<Rightarrow> nat res" where
  "pg_CountRecentFailedLogins name since s =
     Inr (length (filter (\<lambda>l. lr_user l = name \<and> \<not> lr_success l \<and> since < lr_at l) (logins s)))"

subsection \<open>Audit log\<close>

definition pg_WriteAuditLog :: "audit_entry \<Rightarrow> db \<Rightarrow> unit res \<times> db" where
  "pg_WriteAuditLog e s =
     (Inr (), s\<lparr>audits := audits s @ [\<lparr>ar_id = next_id s, ar_at = now s, ar_entry = e\<rparr>],
                next_id := Suc (next_id s)\<rparr>)"

definition pg_ListAuditLogs :: "int \<Rightarrow> db \<Rightarrow> (nat \<times> int \<times> audit_entry) list res" where
  "pg_ListAuditLogs n s =
     (let lim = (if n \<le> 0 then 100 else n)
      in Inr (map (\<lambda>r. (ar_id r, ar_at r, ar_entry r)) (take (nat lim) (newest_first ar_at (audits s)))))"

subsection \<open>Upstream registries\<close>

definition pg_CreateUpstream ::
  "string \<Rightarrow> string \<Rightarrow> string \<Rightarrow> string \<Rightarrow> string \<Rightarrow> string \<Rightarrow> bool \<Rightarrow> bool \<Rightarrow> bool \<Rightarrow> int \<Rightarrow> db \<Rightarrow> nat res \<times> db" where
  "pg_CreateUpstream name upstreamType endpoint region accessKeyID secretAccessKey enabled cacheEnabled pullOnly cacheTTL s =
     (if list_ex (\<lambda>u. up_name u = name) (upstreams s) then (Inl unique_violation, s)
      else (Inr (next_id s), s\<lparr>upstreams := upstreams s @ [\<lparr>up_id = next_id s, up_name = name, up_type = upstreamType,
              up_endpoint = endpoint, up_region = region, up_key = accessKeyID, up_secret = secretAccessKey,
              up_token = None, up_expiry = None, up_refresh = None, up_fails = 0, up_enabled = enabled,
              up_cache = cacheEnabled, up_ttl = cacheTTL, up_pull_only = pullOnly\<rparr>], next_id := Suc (next_id s)\<rparr>))"

definition pg_GetUpstream :: "nat \<Rightarrow> db \<Rightarrow> upstream_row res" where
  "pg_GetUpstream uid s =
     (case find (\<lambda>u. up_id u = uid) (upstreams s) of None \<Rightarrow> Inl DbNotFound | Some u \<Rightarrow> Inr u)"

definition pg_GetUpstreamByName :: "string \<Rightarrow> db \<Rightarrow> upstream_row res" where
  "pg_GetUpstreamByName name s =
     (case find (\<lambda>u. up_name u = name) (upstreams s) of
        None \<Rightarrow> Inl DbNotFound | Some u \<Rightarrow> pg_GetUpstream (up_id u) s)"

definition pg_ListUpstreams :: "db \<Rightarrow> upstream_info list res" where
  "pg_ListUpstreams s =
     Inr (map (\<lambda>u. \<lparr>ui_id = up_id u, ui_name = up_name u, ui_type = up_type u, ui_endpoint = up_endpoint u,
              ui_region = up_region u, ui_enabled = up_enabled u, ui_cache = up_cache u,
              ui_pull_only = up_pull_only u, ui_refresh = up_refresh u\<rparr>) (sort_key up_name (upstreams s)))"

definition pg_UpdateUpstreamToken :: "nat \<Rightarrow> string \<Rightarrow> int \<Rightarrow> db \<Rightarrow> unit res \<times> db" where
  "pg_UpdateUpstreamToken uid token expiry s =
     (Inr (), s\<lparr>upstreams := map (\<lambda>u. if up_id u = uid
        then u\<lparr>up_token := Some token, up_expiry := Some expiry, up_refresh := Some (now s)\<rparr> else u) (upstreams s)\<rparr>)"

definition pg_DeleteUpstream :: "nat \<Rightarrow> db \<Rightarrow> unit res \<times> db" where
  "pg_DeleteUpstream uid s = (Inr (), s\<lparr>upstreams := filter (\<lambda>u. up_id u \<noteq> uid) (upstreams s)\<rparr>)"

subsection \<open>Policies and artifact metadata\<close>

definition pg_ListPolicies :: "db \<Rightarrow> policy_record list res" where
  "pg_ListPolicies s = Inr (sort_key po_id (policies s))"

definition pg_AddPolicy :: "string \<Rightarrow> db \<Rightarrow> unit res \<times> db" where
  "pg_AddPolicy ex s =
     (Inr (), if list_ex (\<lambda>p. po_expr p = ex) (policies s) then s
              else s\<lparr>policies := policies s @ [\<lparr>po_id = next_id s, po_expr = ex\<rparr>], next_id := Suc (next_id s)\<rparr>)"

definition pg_DeletePolicy :: "int \<Rightarrow> db \<Rightarrow> unit res \<times> db" where
  "pg_DeletePolicy pid s =
     (if list_ex (\<lambda>p. int (po_id p) = pid) (policies s)
      then (Inr (), s\<lparr>policies := filter (\<lambda>p. int (po_id p) \<noteq> pid) (policies s)\<rparr>)
      else (Inl DbNotFound, s))"

definition pg_SetArtifactMetadata :: "artifact_metadata \<Rightarrow> db \<Rightarrow> unit res \<times> db" where
  "pg_SetArtifactMetadata a s =
     (let subj = (if am_subject a = [] then None else Some (am_subject a));
          s1 = s\<lparr>artifacts := filter (\<lambda>x. am_digest x \<noteq> am_digest a) (artifacts s) @ [a]\<rparr>
      in (Inr (), s1\<lparr>manifests := map (\<lambda>m. if mf_digest m = am_digest a
              then m\<lparr>mf_type := Some (am_type a), mf_subject := subj\<rparr> else m) (manifests s1)\<rparr>))"

definition pg_GetArtifactMetadata :: "string \<Rightarrow> db \<Rightarrow> artifact_metadata res" where
  "pg_GetArtifactMetadata d s =
     (case find (\<lambda>a. am_digest a = d) (artifacts s) of None \<Rightarrow> Inl DbNotFound | Some a \<Rightarrow> Inr a)"

text \<open>The query of \<^verbatim>\<open>ListReferrers\<close> selects \<^verbatim>\<open>m.size\<close>; neither the schema
  nor a migration gives \<^verbatim>\<open>manifests\<close> such a column.\<close>

definition pg_ListReferrers :: "string \<Rightarrow> string \<Rightarrow> db \<Rightarrow> referrer list res" where
  "pg_ListReferrers subject artifactType s = Inl (ErrText ''column m.size does not exist'')"

definition pg_ListArtifactsByType :: "string \<Rightarrow> int \<Rightarrow> db \<Rightarrow> artifact_descriptor list res" where
  "pg_ListArtifactsByType artifactType limit s = Inl (ErrText ''column m.size does not exist'')"

subsection \<open>Transactions and the store\<close>

text \<open>\<^verbatim>\<open>WithTx\<close>: the body runs against the transaction; its error rolls the state
  back.\<close>

definition pg_WithTx :: "(db \<Rightarrow> unit res \<times> db) \<Rightarrow> db \<Rightarrow> unit res \<times> db" where
  "pg_WithTx fn s = (case fn s of (Inl e, _) \<Rightarrow> (Inl e, s) | (Inr _, s') \<Rightarrow> (Inr (), s'))"

definition pg_store :: "(string \<Rightarrow> string \<Rightarrow> bool) \<Rightarrow> db store" where
  "pg_store bcrypt =
     \<lparr>st_ListRepositories = pg_ListRepositories, st_ListTags = pg_ListTags,
      st_PutManifest = pg_PutManifest, st_GetManifest = pg_GetManifest,
      st_DeleteManifest = pg_DeleteManifest, st_SetTagImmutable = pg_SetTagImmutable,
      st_IsTagImmutable = pg_IsTagImmutable, st_PutBlob = pg_PutBlob,
      st_SaveScanReport = pg_SaveScanReport, st_GetScanReport = pg_GetScanReport,
      st_GetUserByUsername = pg_GetUserByUsername, st_AuthenticateUser = pg_AuthenticateUser bcrypt,
      st_CreateUser = pg_CreateUser, st_UpdateUser = pg_UpdateUser,
      st_CheckQuota = pg_CheckQuota, st_UpdateQuotaUsage = pg_UpdateQuotaUsage,
      st_ListAccessTokens = pg_ListAccessTokens,
      st_UpdateAccessTokenLastUsed = pg_UpdateAccessTokenLastUsed,
      st_ListPolicies = pg_ListPolicies, st_AddPolicy = pg_AddPolicy,
      st_SetArtifactMetadata = pg_SetArtifactMetadata, st_ListReferrers = pg_ListReferrers,
      st_RecordLoginAttempt = pg_RecordLoginAttempt,
      st_CountRecentFailedLogins = pg_CountRecentFailedLogins,
      st_CreateNamespace = pg_CreateNamespace, st_CreateRepository = pg_CreateRepository,
      st_ListManifests = pg_ListManifests, st_BlobExists = pg_BlobExists, st_GetBlobSize = pg_GetBlobSize,
      st_ListBlobs = pg_ListBlobs, st_DeleteBlob = pg_DeleteBlob, st_ListScanReports = pg_ListScanReports,
      st_GetUserByToken = pg_GetUserByToken, st_ListUsers = pg_ListUsers, st_DeleteUser = pg_DeleteUser,
      st_UpdateUserPassword = pg_UpdateUserPassword, st_CreateGroup = pg_CreateGroup,
      st_AddUserToGroup = pg_AddUserToGroup, st_ListGroups = pg_ListGroups, st_SetQuota = pg_SetQuota,
      st_ListQuotas = pg_ListQuotas, st_CreateAccessToken = pg_CreateAccessToken,
      st_GetAccessTokenByHash = pg_GetAccessTokenByHash, st_DeleteAccessToken = pg_DeleteAccessToken,
      st_DeletePolicy = pg_DeletePolicy, st_ListUpstreams = pg_ListUpstreams,
      st_GetArtifactMetadata = pg_GetArtifactMetadata, st_ListArtifactsByType = pg_ListArtifactsByType,
      st_WriteAuditLog = pg_WriteAuditLog, st_ListAuditLogs = pg_ListAuditLogs,
      st_WithTx = pg_WithTx\<rparr>"

lemma pg_store_reads [simp]:
  "st_GetManifest (pg_store bcrypt) = pg_GetManifest"
  "st_GetScanReport (pg_store bcrypt) = pg_GetScanReport"
  "st_IsTagImmutable (pg_store bcrypt) = pg_IsTagImmutable"
  by (simp_all add: pg_store_def)

end
