(* ===== verification/Postgres_Integrity.thy ===== *)
theory Postgres_Integrity
  imports Postgres
begin

text \<open>
  The integrity of the PostgreSQL store's tables under every write, what can be read back after a
  write, the protection of immutable tags and pagination; and the interpretation of
  \<^verbatim>\<open>registry_store\<close> on the store.
\<close>

subsection \<open>Integrity of the tables\<close>

text \<open>
  What the unique and foreign key constraints of the schema guarantee, with the serial counter
  above every id in use.
\<close>

definition pg_inv :: "db \<Rightarrow> bool" where
  "pg_inv s \<longleftrightarrow>
     distinct (map ns_name (namespaces s)) \<and> distinct (map ns_id (namespaces s)) \<and>
     distinct (map (\<lambda>r. (rp_ns r, rp_name r)) (repositories s)) \<and> distinct (map rp_id (repositories s)) \<and>
     distinct (map (\<lambda>m. (mf_repo m, mf_ref m)) (manifests s)) \<and>
     distinct (map bl_digest (blobs s)) \<and> distinct (map qr_ns (quotas s)) \<and>
     (\<forall>r \<in> set (namespaces s). ns_id r < next_id s) \<and>
     (\<forall>r \<in> set (repositories s). rp_id r < next_id s \<and> rp_ns r \<in> ns_id ` set (namespaces s)) \<and>
     (\<forall>m \<in> set (manifests s). mf_repo m \<in> rp_id ` set (repositories s)) \<and>
     (\<forall>q \<in> set (quotas s). qr_ns q \<in> ns_id ` set (namespaces s))"

lemma pg_inv_empty: "pg_inv empty_db"
  by (simp add: pg_inv_def empty_db_def)

lemma ns_lookup_inj:
  assumes "pg_inv s" "ns_lookup a s = Some i" "ns_lookup b s = Some i"
  shows "a = b"
proof -
  from assms obtain x y where f: "find (\<lambda>r. ns_name r = a) (namespaces s) = Some x"
      "find (\<lambda>r. ns_name r = b) (namespaces s) = Some y" "ns_id x = ns_id y"
    by (auto simp: ns_lookup_def)
  then have "x = y" using assms(1) by (intro find_key_inj [of ns_id]) (auto simp: pg_inv_def)
  with f show ?thesis by (auto dest!: find_Some_member)
qed

lemma repo_lookup_inj:
  assumes "pg_inv s" "repo_lookup a s = Some i" "repo_lookup b s = Some i"
  shows "a = b"
proof -
  from assms obtain na nb x y where l: "ns_lookup (fst a) s = Some na" "ns_lookup (fst b) s = Some nb"
      "find (\<lambda>r. rp_ns r = na \<and> rp_name r = snd a) (repositories s) = Some x"
      "find (\<lambda>r. rp_ns r = nb \<and> rp_name r = snd b) (repositories s) = Some y" "rp_id x = rp_id y"
    by (auto simp: repo_lookup_def repo_in_def Option.bind_eq_Some_conv)
  then have "x = y" using assms(1) by (intro find_key_inj [of rp_id]) (auto simp: pg_inv_def)
  with l have "na = nb \<and> snd a = snd b" by (auto dest!: find_Some_member)
  with l ns_lookup_inj [OF assms(1), of "fst a" na "fst b"] show ?thesis by (simp add: prod_eq_iff)
qed

lemma ns_lookup_bound: "pg_inv s \<Longrightarrow> ns_lookup n s = Some i \<Longrightarrow> i < next_id s \<and> i \<in> ns_id ` set (namespaces s)"
  by (auto simp: pg_inv_def ns_lookup_def dest!: find_Some_member)

lemma repo_lookup_bound:
  assumes "pg_inv s" "repo_lookup nr s = Some i"
  shows "i < next_id s \<and> i \<in> rp_id ` set (repositories s)"
  using assms
  by (auto simp: pg_inv_def repo_lookup_def repo_in_def Option.bind_eq_Some_conv dest!: find_Some_member)

lemma repo_in_bound: "pg_inv s \<Longrightarrow> repo_in n a s = Some i \<Longrightarrow> i < next_id s \<and> n < next_id s"
  by (auto simp: pg_inv_def repo_in_def dest!: find_Some_member)

lemma pg_inv_fresh:
  "pg_inv s \<Longrightarrow> x \<in> set (namespaces s) \<Longrightarrow> ns_id x \<noteq> next_id s \<and> next_id s \<noteq> ns_id x \<and> ns_id x < Suc (next_id s)"
  "pg_inv s \<Longrightarrow> y \<in> set (repositories s) \<Longrightarrow> rp_id y \<noteq> next_id s \<and> next_id s \<noteq> rp_id y \<and> rp_id y < Suc (next_id s)"
  by (force simp: pg_inv_def)+

text \<open>Creating a namespace or a repository touches no manifest, blob or quota and finds every
  other name as before.\<close>

definition same_rest :: "db \<Rightarrow> db \<Rightarrow> bool" where
  "same_rest s s' \<longleftrightarrow> manifests s' = manifests s \<and> blobs s' = blobs s \<and> quotas s' = quotas s \<and>
     users s' = users s \<and> next_id s \<le> next_id s'"

lemma pg_CreateNamespace_spec:
  assumes "pg_inv s" "pg_CreateNamespace n s = (r, s')"
  shows "pg_inv s' \<and> r = Inr () \<and> same_rest s s' \<and> repositories s' = repositories s \<and>
         (\<forall>a. a \<noteq> n \<longrightarrow> ns_lookup a s' = ns_lookup a s) \<and>
         (case ns_lookup n s of Some i \<Rightarrow> s' = s | None \<Rightarrow> ns_lookup n s' = Some (next_id s))"
proof (cases "ns_lookup n s")
  case (Some i)
  then show ?thesis using assms by (auto simp: pg_CreateNamespace_def same_rest_def)
next
  case None
  then have "\<forall>x \<in> set (namespaces s). ns_name x \<noteq> n"
    by (auto simp: ns_lookup_def find_None_iff)
  with None assms pg_inv_fresh [OF assms(1)] show ?thesis
    by (auto simp: pg_CreateNamespace_def same_rest_def pg_inv_def ns_lookup_def image_iff
        split: option.splits intro: less_SucI dest: bspec)
qed

lemma insert_repository_spec:
  assumes "pg_inv s" "nid \<in> ns_id ` set (namespaces s)" "insert_repository nid name s = (r, s')"
  shows "pg_inv s' \<and> r = Inr () \<and> same_rest s s' \<and> namespaces s' = namespaces s \<and>
         (\<forall>a b. (a, b) \<noteq> (nid, name) \<longrightarrow> repo_in a b s' = repo_in a b s) \<and>
         (case repo_in nid name s of Some i \<Rightarrow> s' = s | None \<Rightarrow> repo_in nid name s' = Some (next_id s))"
proof (cases "repo_in nid name s")
  case (Some i)
  then show ?thesis using assms by (auto simp: insert_repository_def same_rest_def)
next
  case None
  let ?s = "s\<lparr>repositories := repositories s @ [\<lparr>rp_id = next_id s, rp_ns = nid, rp_name = name\<rparr>],
              next_id := Suc (next_id s)\<rparr>"
  from None have s': "s' = ?s" "r = Inr ()" using assms(3) by (auto simp: insert_repository_def)
  have "(nid, name) \<notin> (\<lambda>r. (rp_ns r, rp_name r)) ` set (repositories s)"
    using None by (auto simp: repo_in_def find_None_iff)
  moreover have "next_id s \<notin> rp_id ` set (repositories s)"
    using pg_inv_fresh [OF assms(1)] by auto
  ultimately have "pg_inv ?s"
    using assms(1,2) by (auto simp: pg_inv_def intro: less_SucI)
  with None s' show ?thesis by (auto simp: same_rest_def repo_in_def split: option.splits)
qed

text \<open>After both, the repository is found, and every other repository as before.\<close>

lemma ensure_repo_spec:
  assumes inv: "pg_inv s" and ns: "pg_CreateNamespace n s = (r1, s1)"
    and rp: "pg_CreateRepository n name s1 = (r2, s2)"
  shows "pg_inv s2 \<and> r1 = Inr () \<and> r2 = Inr () \<and> same_rest s s2 \<and>
         (\<forall>nr. nr \<noteq> (n, name) \<longrightarrow> repo_lookup nr s2 = repo_lookup nr s) \<and>
         (\<exists>i. repo_lookup (n, name) s2 = Some i \<and> (repo_lookup (n, name) s = Some i \<or>
              repo_lookup (n, name) s = None \<and> next_id s \<le> i)) \<and>
         (\<forall>a. a \<noteq> n \<longrightarrow> ns_lookup a s2 = ns_lookup a s) \<and>
         (\<forall>i. ns_lookup n s = Some i \<longrightarrow> ns_lookup n s2 = Some i) \<and>
         (\<exists>i. ns_lookup n s2 = Some i \<and> (ns_lookup n s = Some i \<or> ns_lookup n s = None \<and> next_id s \<le> i))"
proof -
  note c = pg_CreateNamespace_spec [OF inv ns]
  obtain nid where nid: "ns_lookup n s1 = Some nid"
      "ns_lookup n s = Some nid \<or> ns_lookup n s = None \<and> nid = next_id s"
    using c by (cases "ns_lookup n s") auto
  have ins: "insert_repository nid name s1 = (r2, s2)"
    using rp nid by (simp add: pg_CreateRepository_def)
  have "nid \<in> ns_id ` set (namespaces s1)" using c nid ns_lookup_bound by blast
  then have i: "pg_inv s2 \<and> r2 = Inr () \<and> same_rest s1 s2 \<and> namespaces s2 = namespaces s1 \<and>
         (\<forall>a b. (a, b) \<noteq> (nid, name) \<longrightarrow> repo_in a b s2 = repo_in a b s1) \<and>
         (case repo_in nid name s1 of Some i \<Rightarrow> s2 = s1 | None \<Rightarrow> repo_in nid name s2 = Some (next_id s1))"
    using insert_repository_spec [OF _ _ ins] c by blast
  have nsl: "ns_lookup a s2 = ns_lookup a s1" for a using i by (simp add: ns_lookup_def)
  have ril: "repo_in a b s1 = repo_in a b s" for a b using c by (simp add: repo_in_def)
  have rest: "same_rest s s2" using c i by (auto simp: same_rest_def)
  have fresh: "ns_lookup n s = None \<Longrightarrow> repo_in nid b s = None" for b
    using nid repo_in_bound [OF inv, of nid b] by (cases "repo_in nid b s") auto
  have other: "repo_lookup nr s2 = repo_lookup nr s" if "nr \<noteq> (n, name)" for nr
  proof (cases "fst nr = n")
    case True
    with that have "repo_in nid (snd nr) s2 = repo_in nid (snd nr) s"
      using i ril by (metis prod.collapse prod.inject)
    with True nid fresh nsl show ?thesis by (auto simp: repo_lookup_def)
  next
    case False
    then have "ns_lookup (fst nr) s1 \<noteq> Some nid" using nid(1) c ns_lookup_inj by blast
    moreover have "ns_lookup (fst nr) s2 = ns_lookup (fst nr) s" using False c nsl by simp
    ultimately show ?thesis using i ril nsl
      by (cases "ns_lookup (fst nr) s") (auto simp: repo_lookup_def)
  qed
  have self: "\<exists>i. repo_lookup (n, name) s2 = Some i \<and> (repo_lookup (n, name) s = Some i \<or>
              repo_lookup (n, name) s = None \<and> next_id s \<le> i)"
  proof (cases "repo_in nid name s1")
    case (Some k)
    then have "s2 = s1" using i by simp
    with Some nid ril fresh nsl show ?thesis by (auto simp: repo_lookup_def)
  next
    case None
    then have "repo_lookup (n, name) s2 = Some (next_id s1)" using i nid nsl by (simp add: repo_lookup_def)
    moreover have "repo_lookup (n, name) s = None" using nid None ril by (auto simp: repo_lookup_def)
    ultimately show ?thesis using c by (simp add: same_rest_def)
  qed
  show ?thesis using c i other self rest nsl nid by auto
qed

subsection \<open>What can be read from the tables\<close>

definition mf_find :: "nat \<Rightarrow> string \<Rightarrow> db \<Rightarrow> manifest_row option" where
  "mf_find rid ref s = find (\<lambda>m. mf_repo m = rid \<and> mf_ref m = ref) (manifests s)"

definition pg_man :: "db \<Rightarrow> string \<times> string \<Rightarrow> string \<Rightarrow> manifest option" where
  "pg_man s nr ref = Option.bind (repo_lookup nr s) (\<lambda>rid.
     map_option (\<lambda>m. (mf_media m, mf_digest m, mf_payload m)) (mf_find rid ref s))"

definition pg_imm :: "db \<Rightarrow> string \<times> string \<Rightarrow> string \<Rightarrow> bool" where
  "pg_imm s nr ref = (case Option.bind (repo_lookup nr s) (\<lambda>rid. mf_find rid ref s) of
     None \<Rightarrow> False | Some m \<Rightarrow> mf_immutable m)"

definition pg_quo :: "db \<Rightarrow> string \<Rightarrow> (int \<times> int) option" where
  "pg_quo s n = Option.bind (ns_lookup n s) (\<lambda>nid.
     map_option (\<lambda>q. (qr_limit q, qr_used q)) (find (\<lambda>q. qr_ns q = nid) (quotas s)))"

definition pg_blb :: "db \<Rightarrow> string \<Rightarrow> int option" where
  "pg_blb s d = map_option bl_size (find (\<lambda>b. bl_digest b = d) (blobs s))"

lemma find_repo_manifests:
  "find P (repo_manifests nr s) =
     Option.bind (repo_lookup nr s) (\<lambda>rid. find (\<lambda>m. mf_repo m = rid \<and> P m) (manifests s))"
  by (auto simp: repo_manifests_def find_filter_conj split: option.splits)

lemma pg_IsTagImmutable_imm: "pg_IsTagImmutable repo ref s = Inr (pg_imm s (parseRepoPath repo) ref)"
  by (simp add: pg_IsTagImmutable_def find_repo_manifests pg_imm_def mf_find_def split: option.splits)

lemma mf_find_upsert:
  "mf_find r' f' (upsert_manifest rid ref mt d pl s) =
     (if r' = rid \<and> f' = ref
      then Some (case mf_find rid ref s of
             None \<Rightarrow> \<lparr>mf_repo = rid, mf_ref = ref, mf_media = mt, mf_digest = d, mf_payload = pl,
                      mf_immutable = False, mf_type = None, mf_subject = None\<rparr>
           | Some m \<Rightarrow> m\<lparr>mf_media := mt, mf_digest := d, mf_payload := pl\<rparr>)
      else mf_find r' f' s)"
proof (cases "mf_find rid ref s")
  case (Some m)
  let ?f = "\<lambda>m. if mf_repo m = rid \<and> mf_ref m = ref then m\<lparr>mf_media := mt, mf_digest := d, mf_payload := pl\<rparr> else m"
  have "find (\<lambda>m. mf_repo m = r' \<and> mf_ref m = f') (map ?f (manifests s)) =
        map_option ?f (find (\<lambda>m. mf_repo m = r' \<and> mf_ref m = f') (manifests s))"
    by (rule find_map_keep) simp
  moreover have "list_ex (\<lambda>m. mf_repo m = rid \<and> mf_ref m = ref) (manifests s)"
    using Some by (simp add: mf_find_def list_ex_find)
  ultimately have eq: "mf_find r' f' (upsert_manifest rid ref mt d pl s) = map_option ?f (mf_find r' f' s)"
    by (simp add: mf_find_def upsert_manifest_def)
  have key: "mf_repo x = r' \<and> mf_ref x = f'" if "mf_find r' f' s = Some x" for x
    using that by (auto simp: mf_find_def dest!: find_Some_member)
  show ?thesis
  proof (cases "r' = rid \<and> f' = ref")
    case True
    then show ?thesis using Some eq key by auto
  next
    case False
    then have "map_option ?f (mf_find r' f' s) = mf_find r' f' s"
      using key by (cases "mf_find r' f' s") auto
    with False eq show ?thesis by auto
  qed
next
  case None
  then show ?thesis
    by (auto simp: mf_find_def upsert_manifest_def list_ex_find split: option.splits)
qed

lemma upsert_lookups [simp]:
  "ns_lookup n (upsert_manifest rid ref mt d pl s) = ns_lookup n s"
  "repo_lookup nr (upsert_manifest rid ref mt d pl s) = repo_lookup nr s"
  "pg_quo (upsert_manifest rid ref mt d pl s) = pg_quo s"
  "pg_blb (upsert_manifest rid ref mt d pl s) = pg_blb s"
  by (auto simp: upsert_manifest_def ns_lookup_def repo_lookup_def repo_in_def pg_quo_def pg_blb_def fun_eq_iff)

lemma pg_inv_map_manifests:
  assumes "pg_inv s" "\<And>m. mf_repo (f m) = mf_repo m" "\<And>m. mf_ref (f m) = mf_ref m"
  shows "pg_inv (s\<lparr>manifests := map f (manifests s)\<rparr>)"
proof -
  have "map (\<lambda>m. (mf_repo m, mf_ref m)) (map f (manifests s)) = map (\<lambda>m. (mf_repo m, mf_ref m)) (manifests s)"
    using assms(2,3) by simp
  with assms show ?thesis unfolding pg_inv_def by (auto simp: o_def)
qed

lemma pg_inv_map_quotas:
  assumes "pg_inv s" "\<And>q. qr_ns (f q) = qr_ns q"
  shows "pg_inv (s\<lparr>quotas := map f (quotas s)\<rparr>)"
proof -
  have "map qr_ns (map f (quotas s)) = map qr_ns (quotas s)" using assms(2) by simp
  with assms show ?thesis unfolding pg_inv_def by (auto simp: o_def)
qed

lemma pg_inv_upsert:
  assumes "pg_inv s" "rid \<in> rp_id ` set (repositories s)"
  shows "pg_inv (upsert_manifest rid ref mt d pl s)"
proof (cases "list_ex (\<lambda>m. mf_repo m = rid \<and> mf_ref m = ref) (manifests s)")
  case True
  let ?f = "\<lambda>m. if mf_repo m = rid \<and> mf_ref m = ref then m\<lparr>mf_media := mt, mf_digest := d, mf_payload := pl\<rparr> else m"
  from True have u: "upsert_manifest rid ref mt d pl s = s\<lparr>manifests := map ?f (manifests s)\<rparr>"
    by (simp add: upsert_manifest_def)
  show ?thesis unfolding u by (rule pg_inv_map_manifests [OF assms(1)]) auto
next
  case False
  then have "(rid, ref) \<notin> (\<lambda>m. (mf_repo m, mf_ref m)) ` set (manifests s)"
    by (auto simp: list_ex_iff)
  with False assms show ?thesis by (auto simp: pg_inv_def upsert_manifest_def)
qed


lemma fresh_quota: "pg_inv s \<Longrightarrow> next_id s \<le> i \<Longrightarrow> find (\<lambda>q. qr_ns q = i) (quotas s) = None"
  by (force simp: find_None_iff pg_inv_def)

lemma pg_PutManifest_spec:
  assumes inv: "pg_inv s" and put: "pg_PutManifest repo ref mt d pl s = (r, s')"
  shows "pg_inv s' \<and> r = Inr () \<and> pg_quo s' = pg_quo s \<and> pg_blb s' = pg_blb s \<and> pg_imm s' = pg_imm s \<and>
         pg_man s' = (pg_man s)(parseRepoPath repo := (pg_man s (parseRepoPath repo))(ref \<mapsto> (mt, d, pl)))"
proof -
  obtain n name where nr: "parseRepoPath repo = (n, name)" by force
  obtain r1 s1 where ns: "pg_CreateNamespace n s = (r1, s1)" by force
  obtain r2 s2 where rp: "pg_CreateRepository n name s1 = (r2, s2)" by force
  note e = ensure_repo_spec [OF inv ns rp]
  then obtain rid where rid: "repo_lookup (n, name) s2 = Some rid"
      "repo_lookup (n, name) s = Some rid \<or> repo_lookup (n, name) s = None \<and> next_id s \<le> rid" by blast
  have s': "s' = upsert_manifest rid ref mt d pl s2" "r = Inr ()"
    using put e ns rp rid nr by (auto simp: pg_PutManifest_def)
  have "rid \<in> rp_id ` set (repositories s2)" using e rid repo_lookup_bound by blast
  then have inv': "pg_inv s'" using e s' pg_inv_upsert by blast
  have mf: "mf_find k f s2 = mf_find k f s" for k f using e by (simp add: mf_find_def same_rest_def)
  have none: "mf_find rid f s = None" if "repo_lookup (n, name) s = None" for f
    using that rid inv by (force simp: mf_find_def find_None_iff pg_inv_def)
  have other: "nr \<noteq> (n, name) \<Longrightarrow> repo_lookup nr s2 = repo_lookup nr s" for nr using e by blast
  have neq: "nr \<noteq> (n, name) \<Longrightarrow> repo_lookup nr s2 \<noteq> Some rid" for nr
    using repo_lookup_inj e rid by blast
  have man: "pg_man s' nr f = ((pg_man s)((n, name) := (pg_man s (n, name))(ref \<mapsto> (mt, d, pl)))) nr f" for nr f
  proof (cases "nr = (n, name)")
    case True
    then show ?thesis using rid none mf by (auto simp: s' pg_man_def mf_find_upsert split: option.splits)
  next
    case False
    then show ?thesis using other [OF False] neq [OF False]
      by (auto simp: s' pg_man_def mf_find_upsert mf split: option.splits bind_splits)
  qed
  have imm: "pg_imm s' nr f = pg_imm s nr f" for nr f
  proof (cases "nr = (n, name)")
    case True
    then show ?thesis using rid none mf by (auto simp: s' pg_imm_def mf_find_upsert split: option.splits)
  next
    case False
    then show ?thesis using other [OF False] neq [OF False]
      by (cases "repo_lookup nr s") (auto simp: s' pg_imm_def mf_find_upsert mf split: option.splits)
  qed
  have rest: "same_rest s s2" using e by blast
  have quo: "pg_quo s' a = pg_quo s a" for a
  proof -
    have same: "a \<noteq> n \<Longrightarrow> ns_lookup a s2 = ns_lookup a s" using e by blast
    have new: "ns_lookup n s = None \<Longrightarrow> ns_lookup n s2 = Some i \<Longrightarrow> next_id s \<le> i" for i
      using e by force
    have "ns_lookup a s = None \<Longrightarrow> ns_lookup a s2 = Some i \<Longrightarrow> find (\<lambda>q. qr_ns q = i) (quotas s) = None" for i
      using same new [of i] fresh_quota [OF inv, of i] by (cases "a = n") auto
    moreover have "ns_lookup a s = Some i \<Longrightarrow> ns_lookup a s2 = Some i" for i
      using e by (cases "a = n") auto
    ultimately show ?thesis
      using rest by (cases "ns_lookup a s"; cases "ns_lookup a s2") (auto simp: s' pg_quo_def same_rest_def)
  qed
  have "pg_blb s' = pg_blb s" using e by (auto simp: s' pg_blb_def same_rest_def fun_eq_iff)
  with inv' s' man imm quo nr show ?thesis by (simp add: fun_eq_iff)
qed

lemma pg_PutBlob_spec:
  assumes "pg_inv s" "pg_PutBlob d n mt s = (r, s')"
  shows "pg_inv s' \<and> r = Inr () \<and> pg_quo s' = pg_quo s \<and> pg_man s' = pg_man s \<and> pg_imm s' = pg_imm s \<and>
         pg_blb s' = (pg_blb s)(d := Some (case pg_blb s d of None \<Rightarrow> n | Some k \<Rightarrow> k))"
proof (cases "list_ex (\<lambda>b. bl_digest b = d) (blobs s)")
  case True
  then obtain b where "find (\<lambda>b. bl_digest b = d) (blobs s) = Some b" by (auto simp: list_ex_find)
  with True assms show ?thesis by (auto simp: pg_PutBlob_def pg_blb_def)
next
  case False
  then have "d \<notin> bl_digest ` set (blobs s)" by (auto simp: list_ex_iff)
  with False assms show ?thesis
    by (auto simp: pg_PutBlob_def pg_inv_def pg_quo_def pg_man_def pg_imm_def pg_blb_def mf_find_def
        ns_lookup_def repo_lookup_def repo_in_def fun_eq_iff list_ex_find split: option.splits)
qed

lemma pg_UpdateQuotaUsage_spec:
  assumes inv: "pg_inv s" and upd: "pg_UpdateQuotaUsage ns n s = (r, s')"
  shows "pg_inv s' \<and> pg_man s' = pg_man s \<and> pg_imm s' = pg_imm s \<and> pg_blb s' = pg_blb s \<and>
         (r = Inr () \<longrightarrow> pg_quo s' = (pg_quo s)(ns := map_option (\<lambda>(l, x). (l, x + n)) (pg_quo s ns)))"
proof (cases "ns_lookup ns s")
  case None
  then show ?thesis using assms by (auto simp: pg_UpdateQuotaUsage_def pg_quo_def fun_eq_iff)
next
  case (Some nid)
  let ?f = "\<lambda>q. if qr_ns q = nid then q\<lparr>qr_used := qr_used q + n\<rparr> else q"
  show ?thesis
  proof (cases "s' = s \<and> r \<noteq> Inr ()")
    case True
    then show ?thesis using inv by auto
  next
    case False
    then have s': "s' = s\<lparr>quotas := map ?f (quotas s)\<rparr>" using upd Some
      by (auto simp: pg_UpdateQuotaUsage_def split: if_splits)
    have inv': "pg_inv s'" unfolding s' by (rule pg_inv_map_quotas [OF inv]) auto
    have fnd: "find (\<lambda>q. qr_ns q = k) (map ?f (quotas s)) = map_option ?f (find (\<lambda>q. qr_ns q = k) (quotas s))" for k
      by (rule find_map_keep) simp
    have lk: "ns_lookup a s' = ns_lookup a s" "repo_lookup nr s' = repo_lookup nr s" "mf_find k l s' = mf_find k l s"
      for a nr k l by (simp_all add: s' ns_lookup_def repo_lookup_def repo_in_def mf_find_def)
    have q': "quotas s' = map ?f (quotas s)" by (simp add: s')
    have quo: "pg_quo s' a = ((pg_quo s)(ns := map_option (\<lambda>(l, x). (l, x + n)) (pg_quo s ns))) a" for a
    proof (cases "a = ns")
      case True
      then show ?thesis using Some
        by (auto simp: pg_quo_def lk fnd q' option.map_comp o_def dest!: find_Some_member intro!: map_option_cong)
    next
      case False
      then have "ns_lookup a s \<noteq> Some nid" using Some inv ns_lookup_inj by blast
      with False show ?thesis
        by (auto simp: pg_quo_def lk fnd q' option.map_comp o_def dest!: find_Some_member intro!: map_option_cong Option.bind_cong)
    qed
    have "pg_man s' = pg_man s" "pg_imm s' = pg_imm s" "pg_blb s' = pg_blb s"
      by (simp_all add: pg_man_def pg_imm_def pg_blb_def lk fun_eq_iff) (simp add: s')
    with inv' quo show ?thesis by (simp add: fun_eq_iff)
  qed
qed

lemma pg_UpdateQuotaUsage_range:
  assumes "pg_inv s" "pg_UpdateQuotaUsage ns n s = (Inr u, s')" "pg_quo s ns = Some (l, x)"
  shows "int64 (x + n)"
proof -
  obtain nid q where q: "ns_lookup ns s = Some nid" "find (\<lambda>q. qr_ns q = nid) (quotas s) = Some q" "x = qr_used q"
    using assms(3) by (auto simp: pg_quo_def Option.bind_eq_Some_conv)
  with find_Some_member [OF q(2)] show ?thesis
    using assms(2) by (auto simp: pg_UpdateQuotaUsage_def list_ex_iff split: if_splits)
qed

lemma find_map_option:
  assumes "\<And>x. P (f x) = P x" "\<And>x. g (f x) = g x"
  shows "map_option g (find P (map f xs)) = map_option g (find P xs)"
  using assms by (simp add: find_map_keep option.map_comp o_def)

lemma pg_SetArtifactMetadata_spec:
  assumes "pg_inv s" "pg_SetArtifactMetadata a s = (r, s')"
  shows "pg_inv s' \<and> pg_quo s' = pg_quo s \<and> pg_man s' = pg_man s \<and> pg_blb s' = pg_blb s \<and> pg_imm s' = pg_imm s"
proof -
  let ?f = "\<lambda>m. if mf_digest m = am_digest a
      then m\<lparr>mf_type := Some (am_type a), mf_subject := if am_subject a = [] then None else Some (am_subject a)\<rparr> else m"
  let ?s1 = "s\<lparr>artifacts := filter (\<lambda>x. am_digest x \<noteq> am_digest a) (artifacts s) @ [a]\<rparr>"
  have s': "s' = ?s1\<lparr>manifests := map ?f (manifests ?s1)\<rparr>"
    using assms(2) by (simp add: pg_SetArtifactMetadata_def Let_def)
  have "pg_inv ?s1" using assms(1) by (simp add: pg_inv_def)
  then have inv: "pg_inv s'" unfolding s' by (rule pg_inv_map_manifests) auto
  have lk: "repo_lookup nr s' = repo_lookup nr s" "ns_lookup n s' = ns_lookup n s" for nr n
    by (simp_all add: s' repo_lookup_def ns_lookup_def repo_in_def)
  have mf: "map_option g (mf_find k l s') = map_option g (mf_find k l s)" if "\<And>m. g (?f m) = g m" for g :: "manifest_row \<Rightarrow> 'b" and k l
    unfolding mf_find_def s' using that by (simp add: find_map_option)
  have "pg_man s' nr ref = pg_man s nr ref" for nr ref
    unfolding pg_man_def lk using mf [of "\<lambda>m. (mf_media m, mf_digest m, mf_payload m)"] by simp
  moreover have "pg_imm s' nr ref = pg_imm s nr ref" for nr ref
  proof -
    have im: "map_option mf_immutable (mf_find k ref s') = map_option mf_immutable (mf_find k ref s)" for k by (rule mf) simp
    have alt: "pg_imm t nr ref = (map_option mf_immutable (Option.bind (repo_lookup nr t) (\<lambda>rid. mf_find rid ref t)) = Some True)" for t
      by (auto simp: pg_imm_def split: option.splits)
    show ?thesis unfolding alt lk using im by (cases "repo_lookup nr s") simp_all
  qed
  moreover have "pg_quo s' = pg_quo s" "pg_blb s' = pg_blb s"
    by (auto simp: fun_eq_iff pg_quo_def lk pg_blb_def) (auto simp: s')
  ultimately show ?thesis using inv by (simp add: fun_eq_iff)
qed

text \<open>The store keeps the promises the handlers rely on.\<close>

interpretation pgs: registry_store "pg_store bcrypt" pg_inv pg_quo pg_man pg_blb pg_imm for bcrypt
proof (unfold_locales, goal_cases)
  case (1 t ns qo) then show ?case by (cases "ns_lookup ns t") (auto simp: pg_store_def pg_CheckQuota_def pg_quo_def option.map_comp o_def)
next
  case 2 then show ?case by (simp add: pg_store_def pg_IsTagImmutable_imm)
next
  case 3 then show ?case by (auto simp: pg_store_def pg_GetManifest_def split: option.splits)
next
  case 4 then show ?case using pg_UpdateQuotaUsage_spec by (fastforce simp: pg_store_def)
next
  case 5 then show ?case using pg_UpdateQuotaUsage_range by (simp add: pg_store_def)
next
  case 6 then show ?case using pg_UpdateQuotaUsage_spec by (simp add: pg_store_def)
next
  case 7 then show ?case using pg_PutBlob_spec by (simp add: pg_store_def)
next
  case 8 then show ?case using pg_PutBlob_spec by (simp add: pg_store_def)
next
  case 9 then show ?case using pg_PutManifest_spec by (simp add: pg_store_def)
next
  case 10 then show ?case using pg_PutManifest_spec by (simp add: pg_store_def)
next
  case 11 then show ?case using pg_SetArtifactMetadata_spec by (simp add: pg_store_def)
next
  case 12 then show ?case by (auto simp: pg_store_def pg_WithTx_def split: prod.splits sum.splits)
next
  case 13 then show ?case by (auto simp: pg_store_def pg_WithTx_def split: prod.splits sum.splits)
qed

lemma pg_inv_PutManifest: "pg_inv s \<Longrightarrow> pg_inv (snd (pg_PutManifest repo ref mt d pl s))"
  using pg_PutManifest_spec [OF _ prod.collapse [symmetric]] by blast

subsection \<open>Every reachable database is well formed\<close>

text \<open>The writes of the store, on any arguments, from the empty database; the clock may move.\<close>

inductive pg_reach :: "db \<Rightarrow> bool" where
  init: "pg_reach empty_db"
| tick: "pg_reach s \<Longrightarrow> pg_reach (s\<lparr>now := t\<rparr>)"
| CreateNamespace: "pg_reach s \<Longrightarrow> pg_reach (snd (pg_CreateNamespace n s))"
| CreateRepository: "pg_reach s \<Longrightarrow> pg_reach (snd (pg_CreateRepository n r s))"
| PutManifest: "pg_reach s \<Longrightarrow> pg_reach (snd (pg_PutManifest r f mt d pl s))"
| DeleteManifest: "pg_reach s \<Longrightarrow> pg_reach (snd (pg_DeleteManifest r f s))"
| SetTagImmutable: "pg_reach s \<Longrightarrow> pg_reach (snd (pg_SetTagImmutable r f b s))"
| PutBlob: "pg_reach s \<Longrightarrow> pg_reach (snd (pg_PutBlob d k mt s))"
| DeleteBlob: "pg_reach s \<Longrightarrow> pg_reach (snd (pg_DeleteBlob d s))"
| SaveScanReport: "pg_reach s \<Longrightarrow> pg_reach (snd (pg_SaveScanReport d sc dat s))"
| CreateUser: "pg_reach s \<Longrightarrow> pg_reach (snd (pg_CreateUser u h scs s))"
| UpdateUser: "pg_reach s \<Longrightarrow> pg_reach (snd (pg_UpdateUser u scs s))"
| UpdateUserPassword: "pg_reach s \<Longrightarrow> pg_reach (snd (pg_UpdateUserPassword u h s))"
| DeleteUser: "pg_reach s \<Longrightarrow> pg_reach (snd (pg_DeleteUser u s))"
| SetQuota: "pg_reach s \<Longrightarrow> pg_reach (snd (pg_SetQuota n l s))"
| UpdateQuotaUsage: "pg_reach s \<Longrightarrow> pg_reach (snd (pg_UpdateQuotaUsage n k s))"
| CreateAccessToken: "pg_reach s \<Longrightarrow> pg_reach (snd (pg_CreateAccessToken uid tn h scs ex s))"
| DeleteAccessToken: "pg_reach s \<Longrightarrow> pg_reach (snd (pg_DeleteAccessToken tid s))"
| TokenUsed: "pg_reach s \<Longrightarrow> pg_reach (snd (pg_UpdateAccessTokenLastUsed tid s))"
| RecordLoginAttempt: "pg_reach s \<Longrightarrow> pg_reach (snd (pg_RecordLoginAttempt u ip ok s))"
| AddPolicy: "pg_reach s \<Longrightarrow> pg_reach (snd (pg_AddPolicy e s))"
| DeletePolicy: "pg_reach s \<Longrightarrow> pg_reach (snd (pg_DeletePolicy pid s))"
| SetArtifactMetadata: "pg_reach s \<Longrightarrow> pg_reach (snd (pg_SetArtifactMetadata a s))"
| CreateGroup: "pg_reach s \<Longrightarrow> pg_reach (snd (pg_CreateGroup g s))"
| AddUserToGroup: "pg_reach s \<Longrightarrow> pg_reach (snd (pg_AddUserToGroup u g s))"
| WriteAuditLog: "pg_reach s \<Longrightarrow> pg_reach (snd (pg_WriteAuditLog ae s))"
| CreateUpstream: "pg_reach s \<Longrightarrow> pg_reach (snd (pg_CreateUpstream un ty ep rg ak sk en ce po ttl s))"
| UpdateUpstreamToken: "pg_reach s \<Longrightarrow> pg_reach (snd (pg_UpdateUpstreamToken uid tok ex' s))"
| DeleteUpstream: "pg_reach s \<Longrightarrow> pg_reach (snd (pg_DeleteUpstream uid s))"

text \<open>The tables the invariant speaks of; a write elsewhere keeps it if serial ids only grow.\<close>

lemma pg_inv_frame:
  assumes "pg_inv s" "namespaces s' = namespaces s" "repositories s' = repositories s"
    "manifests s' = manifests s" "blobs s' = blobs s" "quotas s' = quotas s" "next_id s \<le> next_id s'"
  shows "pg_inv s'"
  using assms by (fastforce simp: pg_inv_def)

lemma pg_inv_filter:
  assumes "pg_inv s"
  shows "pg_inv (s\<lparr>manifests := filter P (manifests s)\<rparr>)" "pg_inv (s\<lparr>blobs := filter Q (blobs s)\<rparr>)"
  using assms by (auto simp: pg_inv_def distinct_map_filter)

lemma pg_inv_side_tables:
  assumes "pg_inv s"
  shows "pg_inv (s\<lparr>now := t\<rparr>)" "pg_inv (snd (pg_SaveScanReport d sc dat s))"
    "pg_inv (snd (pg_CreateUser u h scs s))" "pg_inv (snd (pg_UpdateUser u scs s))"
    "pg_inv (snd (pg_UpdateUserPassword u h s))" "pg_inv (snd (pg_DeleteUser u s))"
    "pg_inv (snd (pg_CreateAccessToken uid tn h scs ex s))" "pg_inv (snd (pg_DeleteAccessToken tid s))"
    "pg_inv (snd (pg_UpdateAccessTokenLastUsed tid s))" "pg_inv (snd (pg_RecordLoginAttempt u ip ok s))"
    "pg_inv (snd (pg_AddPolicy e s))" "pg_inv (snd (pg_DeletePolicy pid s))"
    "pg_inv (snd (pg_CreateGroup g s))" "pg_inv (snd (pg_AddUserToGroup u g s))"
    "pg_inv (snd (pg_WriteAuditLog ae s))" "pg_inv (snd (pg_UpdateUpstreamToken uid tok ex' s))"
    "pg_inv (snd (pg_CreateUpstream un ty ep rg ak sk en ce po ttl s))" "pg_inv (snd (pg_DeleteUpstream uid s))"
  by (rule pg_inv_frame [OF assms]; simp add: pg_SaveScanReport_def pg_CreateUser_def pg_UpdateUser_def
      pg_UpdateUserPassword_def pg_DeleteUser_def pg_CreateAccessToken_def pg_DeleteAccessToken_def
      pg_UpdateAccessTokenLastUsed_def pg_RecordLoginAttempt_def pg_AddPolicy_def pg_DeletePolicy_def
      pg_CreateGroup_def pg_AddUserToGroup_def pg_WriteAuditLog_def pg_CreateUpstream_def pg_UpdateUpstreamToken_def
      pg_DeleteUpstream_def split: option.split)+

lemma pg_inv_manifest_ops:
  assumes "pg_inv s"
  shows "pg_inv (snd (pg_DeleteManifest r f s))" "pg_inv (snd (pg_SetTagImmutable r f b s))"
    "pg_inv (snd (pg_SetArtifactMetadata a s))"
proof -
  show "pg_inv (snd (pg_DeleteManifest r f s))"
    using assms pg_inv_filter(1) [OF assms] by (simp add: pg_DeleteManifest_def Let_def)
  show "pg_inv (snd (pg_SetTagImmutable r f b s))"
    using assms pg_inv_map_manifests [OF assms] by (simp add: pg_SetTagImmutable_def split: option.splits)
  have "pg_inv (s\<lparr>artifacts := filter (\<lambda>x. am_digest x \<noteq> am_digest a) (artifacts s) @ [a]\<rparr>)"
    by (rule pg_inv_frame [OF assms]) auto
  from pg_inv_map_manifests [OF this] show "pg_inv (snd (pg_SetArtifactMetadata a s))"
    by (simp add: pg_SetArtifactMetadata_def Let_def)
qed

lemma pg_inv_CreateRepository: "pg_inv s \<Longrightarrow> pg_inv (snd (pg_CreateRepository n r s))"
proof (cases "ns_lookup n s")
  case (Some i)
  assume inv: "pg_inv s"
  then have "i \<in> ns_id ` set (namespaces s)" using Some ns_lookup_bound by blast
  then have "pg_inv (snd (insert_repository i r s))"
    using insert_repository_spec [OF inv _ prod.collapse [symmetric]] by blast
  then show ?thesis using Some by (simp add: pg_CreateRepository_def)
next
  case None
  assume inv: "pg_inv s"
  obtain r1 s1 where c: "pg_CreateNamespace n s = (r1, s1)" by force
  note sp = pg_CreateNamespace_spec [OF inv c]
  then have l: "ns_lookup n s1 = Some (next_id s)" using None by simp
  then have "next_id s \<in> ns_id ` set (namespaces s1)" using sp ns_lookup_bound by blast
  then have "pg_inv (snd (insert_repository (next_id s) r s1))"
    using insert_repository_spec [OF _ _ prod.collapse [symmetric]] sp by blast
  then show ?thesis using None c sp l by (simp add: pg_CreateRepository_def)
qed

lemma pg_inv_SetQuota: "pg_inv s \<Longrightarrow> pg_inv (snd (pg_SetQuota n l s))"
proof -
  assume inv: "pg_inv s"
  obtain r1 s1 where c: "pg_CreateNamespace n s = (r1, s1)" by force
  note sp = pg_CreateNamespace_spec [OF inv c]
  then obtain i where l: "ns_lookup n s1 = Some i" by (auto split: option.splits)
  then have i: "i \<in> ns_id ` set (namespaces s1)" using sp ns_lookup_bound by blast
  show ?thesis
  proof (cases "list_ex (\<lambda>q. qr_ns q = i) (quotas s1)")
    case True
    have "pg_inv (s1\<lparr>quotas := map (\<lambda>q. if qr_ns q = i then q\<lparr>qr_limit := l\<rparr> else q) (quotas s1)\<rparr>)"
      by (rule pg_inv_map_quotas) (use sp in auto)
    with True l c sp show ?thesis by (simp add: pg_SetQuota_def)
  next
    case False
    then have "i \<notin> qr_ns ` set (quotas s1)" by (auto simp: list_ex_iff)
    with False l c sp i show ?thesis by (auto simp: pg_SetQuota_def pg_inv_def)
  qed
qed


definition two_tags :: db where
  "two_tags = snd (pg_PutManifest ''lib/app'' ''v2'' ''mt'' ''sha256:aa'' ''x''
     (snd (pg_PutManifest ''lib/app'' ''v1'' ''mt'' ''sha256:aa'' ''x'' empty_db)))"


lemma pg_inv_two_tags: "pg_inv two_tags"
  by (simp add: two_tags_def pg_inv_PutManifest pg_inv_empty)

subsection \<open>Reading back what was written\<close>

lemma set_repo_manifests:
  "m \<in> set (repo_manifests nr s) \<longleftrightarrow> m \<in> set (manifests s) \<and> repo_lookup nr s = Some (mf_repo m)"
  by (auto simp: repo_manifests_def split: option.splits)

lemma mf_find_in:
  assumes "pg_inv s" "m \<in> set (manifests s)"
  shows "mf_find (mf_repo m) (mf_ref m) s = Some m"
  using find_unique_key [of "\<lambda>m. (mf_repo m, mf_ref m)" "manifests s" m] assms
  by (simp add: pg_inv_def mf_find_def)

lemma pg_GetManifest_by_ref:
  assumes inv: "pg_inv s" and man: "pg_man s (parseRepoPath repo) ref = Some (mt, d, pl)"
    and only: "\<And>m. m \<in> set (repo_manifests (parseRepoPath repo) s) \<Longrightarrow> mf_digest m = ref \<Longrightarrow> mf_ref m = ref"
  shows "pg_GetManifest repo ref s = (Inr (mt, d, pl), s)"
proof -
  let ?nr = "parseRepoPath repo"
  obtain rid m where m: "repo_lookup ?nr s = Some rid" "mf_find rid ref s = Some m"
      "mt = mf_media m" "d = mf_digest m" "pl = mf_payload m"
    using man by (auto simp: pg_man_def Option.bind_eq_Some_conv)
  then have in_m: "m \<in> set (manifests s)" "mf_repo m = rid" "mf_ref m = ref"
    by (auto simp: mf_find_def dest!: find_Some_member)
  have "find (row_matches ref) (repo_manifests ?nr s) = Some m"
  proof (rule find_only)
    show "m \<in> set (repo_manifests ?nr s)" "row_matches ref m"
      using m in_m by (auto simp: set_repo_manifests row_matches_def)
    fix y assume y: "y \<in> set (repo_manifests ?nr s)" "row_matches ref y"
    then have "mf_ref y = ref" using only by (auto simp: row_matches_def)
    moreover have "mf_repo y = rid" "y \<in> set (manifests s)" using y m by (auto simp: set_repo_manifests)
    ultimately show "y = m" using mf_find_in [OF inv, of y] m by simp
  qed
  then show ?thesis using m by (simp add: pg_GetManifest_def)
qed

text \<open>Round trip of a pushed manifest: after \<^verbatim>\<open>PutManifest\<close>, reading the repository
  by the reference it was pushed under returns exactly the media type, digest and payload that
  were stored, provided no manifest of the repository has that reference as its digest; every
  other (repository, reference) pair reads as before.\<close>

theorem pg_put_get_manifest:
  assumes "pg_inv s" "pg_PutManifest repo ref mt d pl s = (r, s')"
    and "\<forall>m \<in> set (repo_manifests (parseRepoPath repo) s'). mf_digest m = ref \<longrightarrow> mf_ref m = ref"
  shows "r = Inr () \<and> fst (pg_GetManifest repo ref s') = Inr (mt, d, pl) \<and>
         (\<forall>nr f. (nr, f) \<noteq> (parseRepoPath repo, ref) \<longrightarrow> pg_man s' nr f = pg_man s nr f)"
proof -
  note p = pg_PutManifest_spec [OF assms(1,2)]
  then have "pg_man s' (parseRepoPath repo) ref = Some (mt, d, pl)" by simp
  with p assms(3) have "pg_GetManifest repo ref s' = (Inr (mt, d, pl), s')"
    by (intro pg_GetManifest_by_ref) auto
  with p show ?thesis by simp
qed

theorem pg_put_get_manifest_witness:
  "fst (pg_GetManifest ''lib/app'' ''v1'' (snd (pg_PutManifest ''lib/app'' ''v1'' ''mt'' ''sha256:bb'' ''y'' two_tags))) =
     Inr (''mt'', ''sha256:bb'', ''y'')"
proof -
  have "\<forall>m \<in> set (repo_manifests (parseRepoPath ''lib/app'')
      (snd (pg_PutManifest ''lib/app'' ''v1'' ''mt'' ''sha256:bb'' ''y'' two_tags))). mf_digest m = ''v1'' \<longrightarrow> mf_ref m = ''v1''"
    by code_simp
  then show ?thesis using pg_put_get_manifest [OF pg_inv_two_tags prod.collapse [symmetric]] by blast
qed

subsection \<open>Immutable tags\<close>

text \<open>A tag that was made immutable is reported immutable and cannot be deleted by its name:
  the store answers an error and keeps every table, provided no other manifest of the repository
  has the tag as its digest.\<close>

theorem pg_immutable_tag_protected:
  assumes "pg_inv s" "pg_SetTagImmutable repo ref True s = (Inr (), s')"
    and "\<forall>m \<in> set (repo_manifests (parseRepoPath repo) s'). mf_digest m = ref \<longrightarrow> mf_ref m = ref"
  shows "pg_IsTagImmutable repo ref s' = Inr True \<and>
         pg_DeleteManifest repo ref s' = (Inl (ErrText (''tag '' @ ref @ '' is immutable and cannot be deleted'')), s')"
proof -
  let ?nr = "parseRepoPath repo"
  let ?f = "\<lambda>rid m. if mf_repo m = rid \<and> mf_ref m = ref then m\<lparr>mf_immutable := True\<rparr> else m"
  obtain rid where rid: "repo_lookup ?nr s = Some rid" "s' = s\<lparr>manifests := map (?f rid) (manifests s)\<rparr>"
      "list_ex (\<lambda>m. mf_repo m = rid \<and> mf_ref m = ref) (manifests s)"
    using assms(2) by (auto simp: pg_SetTagImmutable_def split: option.splits if_splits)
  have lk: "repo_lookup ?nr s' = Some rid" using rid(1) by (simp add: rid(2) repo_lookup_def ns_lookup_def repo_in_def)
  have ms: "manifests s' = map (?f rid) (manifests s)" by (simp add: rid(2))
  have forced: "\<forall>y \<in> set (manifests s'). mf_repo y = rid \<longrightarrow> mf_ref y = ref \<longrightarrow> mf_immutable y"
    unfolding ms list.set_map ball_simps by auto
  have imm: "mf_immutable y" if "y \<in> set (repo_manifests ?nr s')" "row_matches ref y" for y
  proof -
    have "mf_ref y = ref" using that assms(3) by (auto simp: row_matches_def)
    moreover have "mf_repo y = rid" "y \<in> set (manifests s')"
      using that(1) lk unfolding set_repo_manifests by auto
    ultimately show ?thesis using forced by blast
  qed
  obtain m0 where m0: "m0 \<in> set (manifests s)" "mf_repo m0 = rid" "mf_ref m0 = ref"
    using rid(3) by (auto simp: list_ex_iff)
  define m where "m = m0\<lparr>mf_immutable := True\<rparr>"
  have m: "m \<in> set (repo_manifests ?nr s')" "mf_ref m = ref"
    using m0 lk by (force simp: set_repo_manifests ms m_def image_iff)+
  have hit: "\<exists>y. find P (repo_manifests ?nr s') = Some y \<and> mf_immutable y"
    if "P m" "\<And>x. P x \<Longrightarrow> row_matches ref x" for P
    using that m imm by (cases "find P (repo_manifests ?nr s')") (auto simp: find_None_iff dest!: find_Some_member)
  show ?thesis
    using hit [of "\<lambda>x. mf_ref x = ref"] hit [of "row_matches ref"] m
    by (auto simp: pg_IsTagImmutable_def pg_DeleteManifest_def row_matches_def)
qed

theorem pg_immutable_tag_protected_witness:
  "pg_DeleteManifest ''lib/app'' ''v1'' (snd (pg_SetTagImmutable ''lib/app'' ''v1'' True two_tags)) =
     (Inl (ErrText (''tag '' @ ''v1'' @ '' is immutable and cannot be deleted'')),
      snd (pg_SetTagImmutable ''lib/app'' ''v1'' True two_tags))"
proof -
  have "pg_SetTagImmutable ''lib/app'' ''v1'' True two_tags =
      (Inr (), snd (pg_SetTagImmutable ''lib/app'' ''v1'' True two_tags))" by code_simp
  moreover have "\<forall>m \<in> set (repo_manifests (parseRepoPath ''lib/app'')
      (snd (pg_SetTagImmutable ''lib/app'' ''v1'' True two_tags))). mf_digest m = ''v1'' \<longrightarrow> mf_ref m = ''v1''"
    by code_simp
  ultimately show ?thesis using pg_immutable_tag_protected [OF pg_inv_two_tags] by blast
qed

text \<open>The protection does not extend to deletion by digest: with two tags on one digest of
  which the second is immutable, deleting the digest succeeds and removes the immutable tag.\<close>

theorem pg_delete_by_digest_drops_immutable_tag:
  "let s = snd (pg_SetTagImmutable ''lib/app'' ''v2'' True two_tags);
       (r, s') = pg_DeleteManifest ''lib/app'' ''sha256:aa'' s
   in pg_IsTagImmutable ''lib/app'' ''v2'' s = Inr True \<and> r = Inr () \<and>
      fst (pg_GetManifest ''lib/app'' ''v2'' s') = Inl DbNotFound"
  by code_simp

subsection \<open>Pagination\<close>

definition repo_tags :: "string \<Rightarrow> db \<Rightarrow> string list" where
  "repo_tags repo s =
     sort (filter (\<lambda>t. \<not> HasPrefix t ''sha256:'') (map mf_ref (repo_manifests (parseRepoPath repo) s)))"

lemma repo_tags_distinct: "pg_inv s \<Longrightarrow> distinct (repo_tags repo s)"
proof -
  assume inv: "pg_inv s"
  have "distinct (map mf_ref (filter (\<lambda>m. mf_repo m = rid) (manifests s)))" for rid
    using inv by (auto simp: pg_inv_def distinct_map inj_on_def)
  then show ?thesis by (simp add: repo_tags_def repo_manifests_def split: option.splits)
qed

lemma pg_ListTags_filter:
  "pg_ListTags repo n lst s = Inr (limit_rows n (if lst = [] then repo_tags repo s
      else filter (\<lambda>t. lst < t) (repo_tags repo s)))"
  by (simp add: pg_ListTags_def repo_tags_def filter_sort Let_def)

text \<open>Pagination of tags is complete: a client that asks for a page of n tags and passes the
  last tag of that page as the start of the next one receives, with a next page of any size m,
  exactly the first n + m tags in order, none lost and none repeated; and a listing without a
  limit holds every tag of the repository that is not a digest.\<close>

theorem pg_ListTags_pages:
  assumes "pg_inv s" "0 < n" "0 < m" "pg_ListTags repo n [] s = Inr page" "page \<noteq> []" "last page \<noteq> []"
  shows "\<exists>nxt. pg_ListTags repo m (last page) s = Inr nxt \<and>
           pg_ListTags repo (n + m) [] s = Inr (page @ nxt) \<and> distinct (page @ nxt) \<and>
           pg_ListTags repo 0 [] s = Inr (repo_tags repo s)"
proof -
  let ?ts = "repo_tags repo s" and ?k = "min (nat n) (length (repo_tags repo s))"
  have page: "page = take ?k ?ts" using assms(2,4) by (auto simp: pg_ListTags_filter limit_rows_def min_def)
  have k: "0 < ?k" "?k \<le> length ?ts" using page assms(2,5) by (cases "?ts") auto
  have "filter (\<lambda>t. last page < t) ?ts = drop ?k ?ts"
    unfolding page by (rule sorted_after_take) (use k repo_tags_distinct [OF assms(1)] in \<open>auto simp: repo_tags_def\<close>)
  also have "\<dots> = drop (nat n) ?ts" by (simp add: min_def)
  finally have nx: "pg_ListTags repo m (last page) s = Inr (take (nat m) (drop (nat n) ?ts))"
    using assms(3,6) by (simp add: pg_ListTags_filter limit_rows_def)
  have all: "page @ take (nat m) (drop (nat n) ?ts) = take (nat (n + m)) ?ts"
    using assms(2,3) by (simp add: page take_add min_def nat_add_distrib)
  then have "distinct (page @ take (nat m) (drop (nat n) ?ts))"
    using repo_tags_distinct [OF assms(1)] by simp
  moreover have "pg_ListTags repo (n + m) [] s = Inr (page @ take (nat m) (drop (nat n) ?ts))"
    unfolding all using assms(2,3) by (simp add: pg_ListTags_filter limit_rows_def)
  moreover have "pg_ListTags repo 0 [] s = Inr ?ts" by (simp add: pg_ListTags_filter limit_rows_def)
  ultimately show ?thesis using nx by blast
qed

theorem pg_ListTags_pages_witness:
  "\<exists>nxt. pg_ListTags ''lib/app'' 1 (last [''v1'']) two_tags = Inr nxt \<and>
     pg_ListTags ''lib/app'' (1 + 1) [] two_tags = Inr ([''v1''] @ nxt) \<and> distinct ([''v1''] @ nxt) \<and>
     pg_ListTags ''lib/app'' 0 [] two_tags = Inr (repo_tags ''lib/app'' two_tags)"
proof (rule pg_ListTags_pages)
  show "pg_inv two_tags" by (rule pg_inv_two_tags)
  show "pg_ListTags ''lib/app'' 1 [] two_tags = Inr [''v1'']" by code_simp
qed simp_all

text \<open>Pagination of repositories is not: a repository name that contains a slash under the
  default namespace is printed without the namespace, so passing it back as the start of the next
  page names a different position. Here the page after the first is empty although a repository
  follows.\<close>

theorem pg_ListRepositories_skips:
  "let s = snd (pg_PutManifest ''library/z/b'' ''v1'' ''mt'' ''sha256:aa'' ''x''
            (snd (pg_PutManifest ''my/app'' ''v1'' ''mt'' ''sha256:aa'' ''x'' empty_db)))
   in pg_ListRepositories 0 [] s = Inr [''z/b'', ''my/app''] \<and>
      pg_ListRepositories 1 [] s = Inr [''z/b''] \<and>
      pg_ListRepositories 1 ''z/b'' s = Inr []"
  by code_simp

end
