(* ===== verification/Login.thy ===== *)
theory Login
  imports Auth Postgres_Integrity
begin

text \<open>
  What the login and refresh endpoints of \<^verbatim>\<open>internal/auth/handler.go\<close> guarantee, in general
  and over the PostgreSQL store: grants, lockout, access tokens, and the way from a login to a
  request that passes the middleware.
\<close>

subsection \<open>Login\<close>

lemma granted_access_sound:
  assumes "granted_access scopes q = Some access" "e \<in> set access"
  shows "\<exists>us \<in> set scopes. us = ''*'' \<or> us = q \<or> matchesScope us (ae_type e) (ae_name e) (ae_actions e)"
  using assms by (auto simp: granted_access_def full_access_def list_ex_iff Let_def split: if_splits)

text \<open>(C5) The token endpoint never grants more than the user holds: whenever it answers with a token,
  the account was not locked, the password or access token was accepted, and the token was
  signed for that user with access entries each of which is authorised by one of the user's (or
  the access token's) scopes.\<close>

theorem tokenHandler_grants:
  assumes "tokenHandler E r s = (Respond resp, s')" "rs_status resp = 200"
  shows "\<exists>user pass u name access t s1. credentials E r = Some (user, pass) \<and> \<not> locked_out E user s \<and>
     (if HasPrefix pass ''adsr_'' then token_login E r user pass s else password_login E r user pass s)
       = (Passed (Some u) name, s1) \<and>
     GenerateToken (he_jwt E) (he_ts E) (he_now E) name access = Inr t \<and> resp = token_response E t \<and>
     (\<forall>e \<in> set access. \<exists>us \<in> set (us_scopes u).
        us = ''*'' \<or> us = requested_scope E r \<or> matchesScope us (ae_type e) (ae_name e) (ae_actions e))"
proof -
  have refused: "rs_status resp \<noteq> 200" if "token_login E r user pass s = (Refused resp, s1) \<or>
      password_login E r user pass s = (Refused resp, s1)" for user pass s1
    using that by (auto simp: token_login_def password_login_def db_login_def unauthorized_def internal_error_def Let_def
        split: sum.splits option.splits prod.splits if_splits)
  obtain user pass where c: "credentials E r = Some (user, pass)"
    using assms by (cases "credentials E r") (auto simp: tokenHandler_def unauthorized_def)
  have nl: "\<not> locked_out E user s" using assms c by (auto simp: tokenHandler_def too_many_attempts_def)
  obtain a s1 where a: "(if HasPrefix pass ''adsr_'' then token_login E r user pass s else password_login E r user pass s) = (a, s1)"
    by (metis surj_pair)
  have h: "tokenHandler E r s = (case a of Refused rp \<Rightarrow> (Respond rp, s1) | Passed None _ \<Rightarrow> (Panic, s1)
      | Passed (Some u) name \<Rightarrow> issue_token E r u name s1)"
    using c nl by (simp add: tokenHandler_def a split: authn.splits option.splits)
  then obtain u name where p: "a = Passed (Some u) name" "issue_token E r u name s1 = (Respond resp, s')"
    using assms refused [of user pass s1] a
    by (cases a) (auto split: option.splits if_splits)
  then obtain access t where "granted_access (us_scopes u) (requested_scope E r) = Some access"
      "GenerateToken (he_jwt E) (he_ts E) (he_now E) name access = Inr t" "resp = token_response E t"
    using assms(2) by (auto simp: issue_token_def internal_error_def Let_def split: option.splits sum.splits)
  then show ?thesis using c nl a p granted_access_sound by blast
qed

text \<open>An environment over the PostgreSQL store without LDAP and bootstrap account.\<close>

definition pg_env :: "(string \<Rightarrow> string \<Rightarrow> bool) \<Rightarrow> claims \<Rightarrow> int \<Rightarrow> (nat, db) handler_env" where
  "pg_env bc c t = \<lparr>he_jwt = one_token c, he_ts = one_service, he_store = pg_store bc, he_bcrypt = bc,
     he_hash = Inr ''h'', he_ldap = None, he_bootstrap = [], he_now = t, he_form_ok = True, he_form = (\<lambda>_. [])\<rparr>"

definition plain_bcrypt :: "string \<Rightarrow> string \<Rightarrow> bool" where
  "plain_bcrypt h p \<longleftrightarrow> h \<noteq> [] \<and> h = p"

definition bob_db :: db where
  "bob_db = snd (pg_CreateUser ''bob'' ''pw'' [''repository:lib/app:pull''] empty_db)"

definition scoped :: "request \<Rightarrow> string \<Rightarrow> request" where
  "scoped r q = r\<lparr>rq_query := (\<lambda>k. if k = ''scope'' then q else [])\<rparr>"

definition bob_access :: "access_entry list" where
  "bob_access = [\<lparr>ae_type = ''repository'', ae_name = ''lib/app'', ae_actions = [''pull'']\<rparr>]"

definition bob_env :: "(nat, db) handler_env" where
  "bob_env = pg_env plain_bcrypt (claims_of ''bob'' 0 bob_access) 0"

definition bob_login :: request where
  "bob_login = scoped (plain_request ''GET'' ''/auth/token'' ''Basic Ym9iOnB3'') ''repository:lib/app:pull''"

lemma bob_login_ok: "fst (tokenHandler bob_env bob_login bob_db) = Respond (token_response bob_env ''tok'')"
  by code_simp

theorem tokenHandler_grants_witness:
  "\<exists>user pass u name access t s1. credentials bob_env bob_login = Some (user, pass) \<and> \<not> locked_out bob_env user bob_db \<and>
     (if HasPrefix pass ''adsr_'' then token_login bob_env bob_login user pass bob_db
      else password_login bob_env bob_login user pass bob_db) = (Passed (Some u) name, s1) \<and>
     GenerateToken (he_jwt bob_env) (he_ts bob_env) (he_now bob_env) name access = Inr t \<and>
     token_response bob_env ''tok'' = token_response bob_env t \<and>
     (\<forall>e \<in> set access. \<exists>us \<in> set (us_scopes u).
        us = ''*'' \<or> us = requested_scope bob_env bob_login \<or> matchesScope us (ae_type e) (ae_name e) (ae_actions e))"
  by (rule tokenHandler_grants [of _ _ _ _ "snd (tokenHandler bob_env bob_login bob_db)"])
     (metis bob_login_ok prod.collapse, simp add: token_response_def)

subsection \<open>Lockout on the PostgreSQL store\<close>

definition after :: "('k, 'd) handler_env \<Rightarrow> request \<Rightarrow> nat \<Rightarrow> 'd \<Rightarrow> 'd" where
  "after E r n s = ((\<lambda>t. snd (tokenHandler E r t)) ^^ n) s"

lemma after_simps [simp]: "after E r 0 s = s" "after E r (Suc n) s = snd (tokenHandler E r (after E r n s))"
  by (simp_all add: after_def)

definition failures :: "string \<Rightarrow> int \<Rightarrow> db \<Rightarrow> nat" where
  "failures name since s = length (filter (\<lambda>l. lr_user l = name \<and> \<not> lr_success l \<and> since < lr_at l) (logins s))"

lemma locked_out_pg:
  "he_store E = pg_store bc \<Longrightarrow> locked_out E user s \<longleftrightarrow> 10 \<le> failures user (he_now E - 900) s"
  by (simp add: locked_out_def pg_store_def pg_CountRecentFailedLogins_def failures_def)

definition add_failures :: "nat \<Rightarrow> string \<Rightarrow> string \<Rightarrow> db \<Rightarrow> db" where
  "add_failures k name ip s = s\<lparr>logins := logins s @ replicate k \<lparr>lr_user = name, lr_ip = ip, lr_success = False, lr_at = now s\<rparr>\<rparr>"

lemma add_failures_0 [simp]: "add_failures 0 name ip s = s"
  by (simp add: add_failures_def)

lemma record_add_failures:
  "snd (pg_RecordLoginAttempt name ip False (add_failures k name ip s)) = add_failures (Suc k) name ip s"
  by (simp add: pg_RecordLoginAttempt_def add_failures_def replicate_append_same)

lemma failures_add:
  "failures u t (add_failures k name ip s) = failures u t s + (if u = name \<and> t < now s then k else 0)"
  by (auto simp: failures_def add_failures_def)

lemma authenticate_add_failures:
  "pg_AuthenticateUser bc u p (add_failures k name ip s) = pg_AuthenticateUser bc u p s"
  by (simp add: pg_AuthenticateUser_def pg_GetUserByUsername_def add_failures_def)

text \<open>(C13) Brute force on a password is locked out: on the PostgreSQL store, without LDAP and bootstrap
  login, a client that keeps sending a wrong password for a name with no recent failures is
  answered 401 ten times, and from the eleventh attempt on 429, whatever it sends for that name,
  while the clock stays within the window.\<close>

theorem pg_lockout:
  assumes store: "he_store E = pg_store bc" and cred: "credentials E r = Some (user, pass)"
    and pw: "\<not> HasPrefix pass ''adsr_''" "pg_AuthenticateUser bc user pass s = Inl e"
    and local_only: "he_ldap E = None" "ToUpper (he_bootstrap E) \<noteq> ''TRUE''"
    and window: "he_now E - 900 < now s" "failures user (he_now E - 900) s = 0"
  shows "fst (tokenHandler E r (after E r n s)) = Respond (if n < 10 then unauthorized else too_many_attempts) \<and>
         (10 \<le> n \<longrightarrow> (\<forall>r' pass'. credentials E r' = Some (user, pass') \<longrightarrow>
            tokenHandler E r' (after E r n s) = (Respond too_many_attempts, after E r n s)))"
proof -
  have step: "tokenHandler E r (add_failures k user (rq_remote r) s) =
      (if k < 10 then (Respond unauthorized, add_failures (Suc k) user (rq_remote r) s)
       else (Respond too_many_attempts, add_failures k user (rq_remote r) s))" for k
    using store cred pw local_only window
    by (simp add: tokenHandler_def locked_out_pg failures_add password_login_def db_login_def Let_def
        authenticate_add_failures pg_store_def record_add_failures)
  have st: "after E r n s = add_failures (min n 10) user (rq_remote r) s"
    by (induction n) (auto simp: step min_def)
  have "locked_out E user (add_failures 10 user (rq_remote r) s)"
    using store window by (simp add: locked_out_pg failures_add)
  then have "tokenHandler E r' (after E r n s) = (Respond too_many_attempts, after E r n s)"
    if "10 \<le> n" "credentials E r' = Some (user, pass')" for r' pass'
    using that unfolding st by (simp add: tokenHandler_def min_def)
  then show ?thesis unfolding st by (auto simp: step min_def)
qed

definition wrong_login :: request where
  "wrong_login = plain_request ''GET'' ''/auth/token'' ''Basic Ym9iOm5v''"

theorem pg_lockout_witness:
  "fst (tokenHandler bob_env wrong_login (after bob_env wrong_login 11 bob_db)) = Respond too_many_attempts"
proof -
  have "credentials bob_env wrong_login = Some (''bob'', ''no'')" by code_simp
  moreover have "pg_AuthenticateUser plain_bcrypt ''bob'' ''no'' bob_db = Inl DbNotFound" by code_simp
  moreover have "failures ''bob'' (he_now bob_env - 900) bob_db = 0" by code_simp
  ultimately show ?thesis
    using pg_lockout [of bob_env plain_bcrypt wrong_login "''bob''" "''no''" bob_db DbNotFound 11]
    by (simp add: bob_env_def pg_env_def HasPrefix_def ToUpper_def bob_db_def pg_CreateUser_def empty_db_def)
qed

text \<open>Access tokens escape both: on the PostgreSQL store, whose token listing does not select the
  token hash, a login with any access token under the user name with the \<^verbatim>\<open>-oci\<close> suffix is
  answered 401 (bcrypt accepts no password for an empty hash), and since the failure is recorded under the name
  without the suffix while the lockout counts the name as sent, no number of attempts locks the
  name out.\<close>

theorem pg_access_token_login_refused_unlimited:
  assumes store: "he_store E = pg_store bc" "he_bcrypt E = bc" and cred: "credentials E r = Some (name @ ''-oci'', pass)"
    and pw: "HasPrefix pass ''adsr_''" and bc: "\<forall>p. \<not> bc [] p"
    and few: "failures (name @ ''-oci'') (he_now E - 900) s < 10"
  shows "fst (tokenHandler E r (after E r n s)) = Respond unauthorized"
proof -
  have none: "find (token_usable E pass) (map pg_token ts) = None" for ts
    using bc store by (auto simp: find_None_iff token_usable_def pg_token_def)
  have step: "\<exists>t'. tokenHandler E r t = (Respond unauthorized, t') \<and>
      failures (name @ ''-oci'') (he_now E - 900) t' < 10"
    if "failures (name @ ''-oci'') (he_now E - 900) t < 10" for t
    using that store cred pw none TrimSuffix_append [of name "''-oci''"]
    by (auto simp: tokenHandler_def locked_out_pg token_login_def Let_def pg_store_def pg_ListAccessTokens_def
        pg_RecordLoginAttempt_def failures_def split: sum.splits)
  have inv: "failures (name @ ''-oci'') (he_now E - 900) (after E r n s) < 10" for n
  proof (induction n)
    case 0
    show ?case using few by simp
  next
    case (Suc n)
    then show ?case using step [OF Suc] by auto
  qed
  show ?thesis using step [OF inv] by (metis fst_conv)
qed

definition token_login_request :: request where
  "token_login_request = plain_request ''GET'' ''/auth/token'' (''Basic '' @ b64_encode ''bob-oci:adsr_x'')"

theorem pg_access_token_login_refused_unlimited_witness:
  "fst (tokenHandler bob_env token_login_request (after bob_env token_login_request 1000 bob_db)) = Respond unauthorized"
proof (rule pg_access_token_login_refused_unlimited)
  show "credentials bob_env token_login_request = Some (''bob'' @ ''-oci'', ''adsr_x'')" by code_simp
  show "failures (''bob'' @ ''-oci'') (he_now bob_env - 900) bob_db < 10" by code_simp
  show "HasPrefix ''adsr_x'' ''adsr_''" by code_simp
  show "he_store bob_env = pg_store plain_bcrypt" "he_bcrypt bob_env = plain_bcrypt"
    by (simp_all add: bob_env_def pg_env_def)
  show "\<forall>p. \<not> plain_bcrypt [] p" by (simp add: plain_bcrypt_def)
qed

subsection \<open>From a login to a request\<close>

text \<open>What the code relies on of the JWT library: a token signed with the private key of the pair
  parses, under the public key, to the claims that were signed, as a valid token.\<close>

definition jwt_sound :: "'k jwt_lib \<Rightarrow> 'k token_service \<Rightarrow> claims \<Rightarrow> bool" where
  "jwt_sound J ts c \<longleftrightarrow> (\<forall>k pb t kf. ts_private ts = Some k \<longrightarrow> ts_public ts = Some pb \<longrightarrow> jw_sign J k c = Inr t \<longrightarrow>
     kf True = Inr pb \<longrightarrow> jw_parse J kf t = Inr (c, True))"

lemma Parse_Generate:
  assumes "ts_public ts \<noteq> None" "GenerateToken J ts t0 sub acc = Inr tok" "t \<le> t0 + ts_expiration ts"
    and "\<And>c. cl_subject c = sub \<Longrightarrow> cl_access c = acc \<Longrightarrow> cl_expires c = Some (t0 + ts_expiration ts) \<Longrightarrow>
           cl_issuer c = ts_issuer ts \<Longrightarrow> cl_issued c = Some t0 \<Longrightarrow> cl_not_before c = Some t0 \<Longrightarrow> jwt_sound J ts c"
  shows "\<exists>c. ParseToken J ts t tok = Inr c \<and> cl_subject c = sub \<and> cl_access c = acc"
proof -
  let ?c = "\<lparr>cl_issuer = ts_issuer ts, cl_subject = sub, cl_expires = Some (t0 + ts_expiration ts),
             cl_issued = Some t0, cl_not_before = Some t0, cl_access = acc\<rparr>"
  obtain k pb where k: "ts_private ts = Some k" "jw_sign J k ?c = Inr tok" "ts_public ts = Some pb"
    using assms(1,2) by (auto simp: GenerateToken_def split: option.splits sum.splits)
  have "jwt_sound J ts ?c" by (rule assms(4)) simp_all
  with k have "jw_parse J (\<lambda>rsa. if rsa then Inr pb else Inl (ErrText ''unexpected signing method'')) tok = Inr (?c, True)"
    by (simp add: jwt_sound_def)
  with k assms(3) show ?thesis by (simp add: ParseToken_def)
qed

text \<open>From login to pull: a user who logs in asking for \<^verbatim>\<open>repository:name:pull\<close> and is answered
  with a token can use it, until it expires, for every GET and HEAD on that repository, and for nothing that needs
  push: the middleware passes the former on with the user's name in the claims and refuses the
  latter with 403.\<close>

theorem login_then_pull:
  assumes login: "tokenHandler E lr s = (Respond (reply 200 hs (TokenJSON tok x)), s')"
    and scope: "requested_scope E lr = ''repository:'' @ name @ '':pull''" "CHR '':'' \<notin> set name"
    and jwt: "\<forall>c. cl_access c = [\<lparr>ae_type = ''repository'', ae_name = name, ae_actions = [''pull'']\<rparr>] \<longrightarrow>
                jwt_sound (he_jwt E) (he_ts E) c"
    and mw: "mw_ts m = he_ts E" "\<not> mw_developer m" "ts_public (he_ts E) \<noteq> None"
    and rq: "rq_header r ''Authorization'' = ''Bearer '' @ tok" "extractRepo (rq_path r) = name" "rq_path r \<noteq> ''/v2/''"
    and time: "t \<le> he_now E + ts_expiration (he_ts E)"
  shows "if getRequiredAction r = ''pull''
         then \<exists>c. Protect (he_jwt E) m t r = Next (Some c) \<and> cl_access c = [\<lparr>ae_type = ''repository'', ae_name = name, ae_actions = [''pull'']\<rparr>]
         else Protect (he_jwt E) m t r = Answer denied"
proof -
  let ?acc = "[\<lparr>ae_type = ''repository'', ae_name = name, ae_actions = [''pull'']\<rparr>]"
  have sp: "Split (''repository:'' @ name @ '':pull'') CHR '':'' = [''repository'', name, ''pull'']"
    using scope(2) Split_append [of "CHR '':''" "''repository''" "name @ '':pull''"]
      Split_append [of "CHR '':''" name "''pull''"] by (simp add: Split_id)
  have "granted_access scopes (''repository:'' @ name @ '':pull'') \<in> {None, Some ?acc}" for scopes
    unfolding granted_access_def sp by (simp add: Let_def Split_id)
  then have ga: "granted_access scopes (requested_scope E lr) = Some acc \<Longrightarrow> acc = ?acc" for scopes acc
    unfolding scope(1) by (metis empty_iff insertE option.distinct(1) option.inject)
  obtain sub where gen: "GenerateToken (he_jwt E) (he_ts E) (he_now E) sub ?acc = Inr tok"
    using login ga
    by (auto simp: tokenHandler_def issue_token_def Let_def token_response_def unauthorized_def too_many_attempts_def
        internal_error_def token_login_def password_login_def db_login_def reply_def http_error_def
        split: option.splits prod.splits sum.splits authn.splits if_splits)
  then obtain c where c: "ParseToken (he_jwt E) (he_ts E) t tok = Inr c" "cl_access c = ?acc"
    using Parse_Generate [OF mw(3) gen time] jwt by blast
  have h: "HasPrefix (rq_header r ''Authorization'') ''Bearer ''" "\<not> HasPrefix (rq_header r ''Authorization'') ''Basic ''"
      "rq_header r ''Authorization'' \<noteq> []" "TrimPrefix (rq_header r ''Authorization'') ''Bearer '' = tok"
    unfolding rq(1) using TrimPrefix_append [of "''Bearer ''" tok] HasPrefix_append [of "''Bearer ''" tok]
    by (auto simp: HasPrefix_def)
  have "''pull'' \<noteq> getRequiredAction r \<Longrightarrow> getRequiredAction r = ''push''" by (auto simp: getRequiredAction_def split: if_splits)
  then show ?thesis using h c mw rq(2,3)
    by (auto simp: Protect_def Let_def entry_authorizes_def)
qed

lemma bob_response: "token_response bob_env ''tok'' =
    reply 200 [(''Content-Type'', ''application/json'')] (TokenJSON ''tok'' 300)"
  by code_simp

theorem login_then_pull_witness:
  "\<exists>c. Protect (he_jwt bob_env) one_middleware 200 (plain_request ''GET'' ''/v2/lib/app/manifests/v1'' ''Bearer tok'') = Next (Some c) \<and>
     cl_access c = bob_access"
proof -
  let ?r = "plain_request ''GET'' ''/v2/lib/app/manifests/v1'' (''Bearer '' @ ''tok'')"
  have "tokenHandler bob_env bob_login bob_db =
      (Respond (reply 200 [(''Content-Type'', ''application/json'')] (TokenJSON ''tok'' 300)), snd (tokenHandler bob_env bob_login bob_db))"
    by (rule prod_eqI) (simp_all only: fst_conv snd_conv bob_login_ok bob_response)
  moreover have "requested_scope bob_env bob_login = ''repository:'' @ ''lib/app'' @ '':pull''" by code_simp
  moreover have "\<forall>c. cl_access c = bob_access \<longrightarrow> jwt_sound (he_jwt bob_env) (he_ts bob_env) c"
    by (auto simp: jwt_sound_def bob_env_def pg_env_def one_token_def one_service_def split: if_splits)
  moreover have "extractRepo (rq_path ?r) = ''lib/app''" "getRequiredAction ?r = ''pull''" by code_simp+
  ultimately show ?thesis
    using login_then_pull [of bob_env bob_login bob_db _ "''tok''" _ _ "''lib/app''" one_middleware ?r 200]
    by (simp add: bob_access_def one_middleware_def bob_env_def pg_env_def one_service_def)
qed

subsection \<open>Refresh\<close>

lemma ScopesToAccess_from_member:
  "e \<in> set (ScopesToAccess_from acc ss) \<Longrightarrow>
     e \<in> set acc \<or> (\<exists>s \<in> set ss. TrimSpace s = ''*'' \<or> scope_entry (TrimSpace s) = Some e)"
  by (induction acc ss rule: ScopesToAccess_from.induct)
     (auto simp: Let_def split: if_splits option.splits)

text \<open>Refreshing a token cannot keep or gain privileges: the refresh endpoint answers with a token
  exactly when the presented token is valid, its subject is still a user and the service can sign; the new token is
  signed for the same subject with the entries of the user's current scopes, and these include
  administrator access only if one of the scopes is a star or a scope whose name and actions are stars.\<close>

theorem refreshHandler_current_scopes:
  "rs_status (refreshHandler E r s) = 200 \<longleftrightarrow>
     (\<exists>tok c u t. rq_header r ''Authorization'' = ''Bearer '' @ tok \<and>
        ParseToken (he_jwt E) (he_ts E) (he_now E) tok = Inr c \<and>
        st_GetUserByUsername (he_store E) (cl_subject c) s = Inr u \<and>
        GenerateToken (he_jwt E) (he_ts E) (he_now E) (cl_subject c) (ScopesToAccess (us_scopes u)) = Inr t \<and>
        refreshHandler E r s = token_response E t \<and>
        (list_ex admin_entry (ScopesToAccess (us_scopes u)) \<longrightarrow>
           (\<exists>sc \<in> set (us_scopes u). TrimSpace sc = ''*'' \<or>
              (\<exists>e. scope_entry (TrimSpace sc) = Some e \<and> ae_name e = ''*'' \<and> ''*'' \<in> set (ae_actions e)))))"
    (is "?lhs \<longleftrightarrow> ?rhs")
proof
  assume l: ?lhs
  let ?h = "rq_header r ''Authorization''"
  have "TrimPrefix ?h ''Bearer '' \<noteq> ?h" using l by (auto simp: refreshHandler_def Let_def split: if_splits)
  then obtain tok where tok: "?h = ''Bearer '' @ tok" by (auto simp: TrimPrefix_def HasPrefix_iff split: if_splits)
  then have tp: "TrimPrefix ?h ''Bearer '' = tok" "?h \<noteq> []" by (simp_all only: TrimPrefix_append) simp
  obtain c u t where cut: "ParseToken (he_jwt E) (he_ts E) (he_now E) tok = Inr c"
      "st_GetUserByUsername (he_store E) (cl_subject c) s = Inr u"
      "GenerateToken (he_jwt E) (he_ts E) (he_now E) (cl_subject c) (ScopesToAccess (us_scopes u)) = Inr t"
      "refreshHandler E r s = token_response E t"
    using l tp by (auto simp: refreshHandler_def Let_def split: if_splits sum.splits)
  have "list_ex admin_entry (ScopesToAccess (us_scopes u)) \<longrightarrow>
           (\<exists>sc \<in> set (us_scopes u). TrimSpace sc = ''*'' \<or>
              (\<exists>e. scope_entry (TrimSpace sc) = Some e \<and> ae_name e = ''*'' \<and> ''*'' \<in> set (ae_actions e)))"
    using ScopesToAccess_from_member [of _ "[]" "us_scopes u"]
    by (fastforce simp: ScopesToAccess_def list_ex_iff admin_entry_def)
  with tok cut show ?rhs by blast
next
  assume ?rhs
  then show ?lhs by (auto simp: token_response_def)
qed

theorem refreshHandler_current_scopes_witness:
  "\<exists>u t. st_GetUserByUsername (he_store bob_env) ''bob'' bob_db = Inr u \<and>
     GenerateToken (he_jwt bob_env) (he_ts bob_env) (he_now bob_env) ''bob'' (ScopesToAccess (us_scopes u)) = Inr t \<and>
     refreshHandler bob_env (plain_request ''POST'' ''/auth/refresh'' ''Bearer tok'') bob_db = token_response bob_env t"
proof -
  let ?r = "plain_request ''POST'' ''/auth/refresh'' ''Bearer tok''"
  have "rs_status (refreshHandler bob_env ?r bob_db) = 200" by code_simp
  then obtain tok c u t where "rq_header ?r ''Authorization'' = ''Bearer '' @ tok"
      "ParseToken (he_jwt bob_env) (he_ts bob_env) (he_now bob_env) tok = Inr c"
      "st_GetUserByUsername (he_store bob_env) (cl_subject c) bob_db = Inr u"
      "GenerateToken (he_jwt bob_env) (he_ts bob_env) (he_now bob_env) (cl_subject c) (ScopesToAccess (us_scopes u)) = Inr t"
      "refreshHandler bob_env ?r bob_db = token_response bob_env t"
    unfolding refreshHandler_current_scopes by blast
  moreover have "cl_subject c = ''bob''" if "ParseToken (he_jwt bob_env) (he_ts bob_env) (he_now bob_env) tok = Inr c"
    using that by (auto simp: ParseToken_def bob_env_def pg_env_def one_service_def one_token_def claims_of_def split: if_splits)
  ultimately show ?thesis by metis
qed

end
