(* ===== verification/Go_Path.thy ===== *)
theory Go_Path
  imports Http
begin

text \<open>
  The lexical path functions of the Go library (\<^verbatim>\<open>path.Clean\<close>,
  \<^verbatim>\<open>path.Join\<close>, \<^verbatim>\<open>filepath.Base\<close>) and the storage keys built with
  them: \<^verbatim>\<open>internal/storage/blob.go\<close> and \<^verbatim>\<open>internal/storage/path.go\<close>.
\<close>

subsection \<open>path.Clean and path.Join\<close>

text \<open>
  The four rules of \<^verbatim>\<open>path.Clean\<close> on the slash-separated components: empty and
  dot components go, an inner dot-dot removes the component before it, a dot-dot at the root
  goes, and a dot-dot at the front of a relative path stays. \<open>stack\<close> is the cleaned prefix,
  last component first.
\<close>

fun clean_comps :: "bool \<Rightarrow> string list \<Rightarrow> string list \<Rightarrow> string list" where
  "clean_comps rooted stack [] = rev stack"
| "clean_comps rooted stack (p # ps) =
     (if p = [] \<or> p = ''.'' then clean_comps rooted stack ps
      else if p = ''..'' then
        (case stack of
           [] \<Rightarrow> clean_comps rooted (if rooted then [] else [''..'']) ps
         | q # qs \<Rightarrow> if q = ''..'' then clean_comps rooted (''..'' # stack) ps
                    else clean_comps rooted qs ps)
      else clean_comps rooted (p # stack) ps)"

definition path_Clean :: "string \<Rightarrow> string" where
  "path_Clean p =
     (let rooted = HasPrefix p ''/''; cs = clean_comps rooted [] (Split p CHR ''/'')
      in if rooted then CHR ''/'' # Join cs CHR ''/''
         else if cs = [] then ''.'' else Join cs CHR ''/'')"

text \<open>\<^verbatim>\<open>path.Join\<close> drops empty elements, joins the rest with slashes and cleans;
  the join of no element is empty.\<close>

definition path_Join :: "string list \<Rightarrow> string" where
  "path_Join es =
     (let es' = filter (\<lambda>e. e \<noteq> []) es
      in if es' = [] then [] else path_Clean (Join es' CHR ''/''))"

text \<open>\<^verbatim>\<open>filepath.Base\<close>: the last component, with trailing slashes removed.\<close>

definition filepath_Base :: "string \<Rightarrow> string" where
  "filepath_Base p =
     (let t = rev (dropWhile (\<lambda>c. c = CHR ''/'') (rev p))
      in if p = [] then ''.'' else if t = [] then ''/''
         else last (Split t CHR ''/''))"

subsection \<open>Storage keys: internal/storage/blob.go\<close>

definition BlobPath :: "string \<Rightarrow> string \<Rightarrow> string" where
  "BlobPath repository digest = path_Join [repository, digest]"

definition UploadPath :: "string \<Rightarrow> string \<Rightarrow> string" where
  "UploadPath repository uuid = path_Join [repository, ''uploads'', uuid]"

definition RepositoryPath :: "string \<Rightarrow> string \<Rightarrow> string" where
  "RepositoryPath namespace repository =
     (if namespace = [] \<or> repository = namespace \<or>
         length namespace < length repository \<and>
         take (length namespace + 1) repository = namespace @ ''/''
      then path_Clean repository
      else path_Join [namespace, repository])"

subsection \<open>Containment: internal/storage/path.go\<close>

definition SafeJoin :: "string \<Rightarrow> string \<Rightarrow> string res" where
  "SafeJoin root key =
     (let cleanKey = path_Clean (''/'' @ TrimPrefix key ''/'');
          full = path_Join [root, cleanKey];
          rootClean = path_Clean root
      in if full \<noteq> rootClean \<and> \<not> HasPrefix full (rootClean @ ''/'')
         then Inl StorageUnsafePath else Inr full)"

subsection \<open>Normal components\<close>

text \<open>A component that \<^const>\<open>clean_comps\<close> keeps as it is.\<close>

definition normal :: "string \<Rightarrow> bool" where
  "normal p \<longleftrightarrow> p \<noteq> [] \<and> p \<noteq> ''.'' \<and> p \<noteq> ''..'' \<and> CHR ''/'' \<notin> set p"

abbreviation normals :: "string list \<Rightarrow> bool" where
  "normals ps \<equiv> (\<forall>p \<in> set ps. normal p)"

lemma clean_comps_normals: "normals ps \<Longrightarrow> clean_comps r st ps = rev st @ ps"
  by (induction ps arbitrary: st) (auto simp: normal_def)

lemma clean_comps_append_normals:
  "normals qs \<Longrightarrow> clean_comps r st (ps @ qs) = clean_comps r st ps @ qs"
  by (induction r st ps rule: clean_comps.induct)
     (auto simp: clean_comps_normals split: list.splits)

lemma clean_comps_skip: "p = [] \<or> p = ''.'' \<Longrightarrow> clean_comps r st (ps @ p # qs) = clean_comps r st (ps @ qs)"
  by (induction r st ps rule: clean_comps.induct) (auto split: list.splits)

lemma clean_comps_rooted_set:
  "''..'' \<notin> set st \<Longrightarrow>
     set (clean_comps True st ps) \<subseteq> set st \<union> {p \<in> set ps. p \<noteq> [] \<and> p \<noteq> ''.'' \<and> p \<noteq> ''..''}"
proof (induction ps arbitrary: st)
  case Nil
  then show ?case by simp
next
  case (Cons p ps)
  show ?case
  proof (cases "p = ''..'' \<and> st \<noteq> []")
    case True
    then obtain q qs where st: "st = q # qs" "q \<noteq> ''..''" "''..'' \<notin> set qs"
      using Cons.prems by (cases st) auto
    from Cons.IH [OF st(3)] st True show ?thesis by auto
  next
    case False
    then show ?thesis using Cons.IH [of st] Cons.IH [of "p # st"] Cons.prems by (cases st) auto
  qed
qed

lemma clean_comps_rooted_normals:
  assumes "\<forall>p \<in> set ps. CHR ''/'' \<notin> set p"
  shows "normals (clean_comps True [] ps)"
  using clean_comps_rooted_set [of "[]" ps] assms by (fastforce simp: normal_def)

lemma normals_no_sep: "normals ps \<Longrightarrow> \<forall>p \<in> set ps. CHR ''/'' \<notin> set p"
  by (simp add: normal_def)

lemma clean_comps_Split_Join:
  assumes "normals ns"
  shows "clean_comps r st (ps @ Split (Join ns CHR ''/'') CHR ''/'') = clean_comps r st ps @ ns"
proof (cases "ns = []")
  case True
  then show ?thesis using clean_comps_skip [of "[]" r st ps "[]"] by simp
next
  case False
  then have "Split (Join ns CHR ''/'') CHR ''/'' = ns"
    using assms by (intro Split_Join) (auto simp: normal_def)
  then show ?thesis by (simp add: clean_comps_append_normals assms)
qed

lemma Split_slash: "Split (CHR ''/'' # t) CHR ''/'' = [] # Split t CHR ''/''"
  by simp

text \<open>Cleaning a rooted path leaves normal components only, whatever the path was.\<close>

definition key_comps :: "string \<Rightarrow> string list" where
  "key_comps key = clean_comps True [] (Split (TrimPrefix key ''/'') CHR ''/'')"

lemma normals_key_comps [simp]: "normals (key_comps key)"
  unfolding key_comps_def by (rule clean_comps_rooted_normals) (meson Split_no_sep)

lemma clean_rooted_key:
  "path_Clean (''/'' @ TrimPrefix key ''/'') = CHR ''/'' # Join (key_comps key) CHR ''/''"
  by (simp add: path_Clean_def key_comps_def HasPrefix_def)

text \<open>
  Joining a root with a normal tail appends the tail to the cleaned root. The roots
  \<^verbatim>\<open>/\<close> and \<^verbatim>\<open>.\<close> are the two whose cleaned form is not followed by a
  slash.
\<close>

lemma path_Join_root:
  assumes root: "root \<noteq> []" and ns: "normals ns"
    and rc: "path_Clean root \<noteq> ''/''" "path_Clean root \<noteq> ''.''"
  shows "path_Join [root, CHR ''/'' # Join ns CHR ''/''] = Join (path_Clean root # ns) CHR ''/''"
proof -
  let ?r = "HasPrefix root ''/''"
  let ?cs = "clean_comps ?r [] (Split root CHR ''/'')"
  let ?j = "root @ ''/'' @ CHR ''/'' # Join ns CHR ''/''"
  have comps: "clean_comps ?r [] (Split ?j CHR ''/'') = ?cs @ ns"
    using clean_comps_Split_Join [OF ns, of ?r "[]" "Split root CHR ''/'' @ [[]]"]
      clean_comps_skip [of "[]" ?r "[]" "Split root CHR ''/''" "[]"]
    by (simp add: Split_append_sep)
  have pre: "HasPrefix ?j ''/'' = ?r"
    using root by (cases root) (auto simp: HasPrefix_def)
  have join: "path_Join [root, CHR ''/'' # Join ns CHR ''/''] = path_Clean ?j"
    using root by (simp add: path_Join_def)
  have cs: "?cs \<noteq> []"
    using rc by (auto simp: path_Clean_def Let_def split: if_splits)
  then have "path_Clean ?j = (if ?r then ''/'' else []) @ Join (?cs @ ns) CHR ''/''"
    unfolding path_Clean_def comps pre Let_def by (cases ?r) auto
  moreover from cs have "path_Clean root = (if ?r then ''/'' else []) @ Join ?cs CHR ''/''"
    unfolding path_Clean_def Let_def by (cases ?r) auto
  ultimately show ?thesis
    unfolding join using cs by (cases "ns = []") (simp_all add: Join_append Join_Cons)
qed

lemma SafeJoin_eq:
  assumes "root \<noteq> []" "path_Clean root \<noteq> ''/''" "path_Clean root \<noteq> ''.''"
  shows "SafeJoin root key = Inr (Join (path_Clean root # key_comps key) CHR ''/'')"
proof -
  have "path_Join [root, CHR ''/'' # Join (key_comps key) CHR ''/''] =
          Join (path_Clean root # key_comps key) CHR ''/''"
    using assms by (intro path_Join_root) auto
  then show ?thesis
    by (cases "key_comps key = []")
       (auto simp: SafeJoin_def Let_def clean_rooted_key [simplified] Join_Cons HasPrefix_def)
qed

text \<open>A key made of normal components is its own cleaned form.\<close>

lemma key_comps_normal:
  assumes "normals ns" "ns \<noteq> []"
  shows "key_comps (Join ns CHR ''/'') = ns"
proof -
  have "\<not> HasPrefix (Join ns CHR ''/'') ''/''"
    using assms by (cases ns; cases "hd ns"; cases "tl ns") (auto simp: HasPrefix_def normal_def)
  then show ?thesis
    using clean_comps_Split_Join [OF assms(1), of True "[]" "[]"]
    by (simp add: key_comps_def TrimPrefix_def)
qed

lemma path_Join_normals:
  assumes "normals as" "as \<noteq> []" "normals bs" "bs \<noteq> []"
  shows "path_Join [Join as CHR ''/'', Join bs CHR ''/''] = Join (as @ bs) CHR ''/''"
proof -
  have ne: "Join as CHR ''/'' \<noteq> []" "Join bs CHR ''/'' \<noteq> []"
    using assms by (cases as; cases "tl as"; auto simp: normal_def)
                   (cases bs; cases "tl bs"; use assms in \<open>auto simp: normal_def\<close>)
  have np: "\<not> HasPrefix (Join (as @ bs) CHR ''/'') ''/''"
    using assms by (cases as; cases "hd as"; cases "tl as @ bs")
                   (auto simp: HasPrefix_def normal_def Join_Cons)
  have "Split (Join (as @ bs) CHR ''/'') CHR ''/'' = as @ bs"
    using assms by (intro Split_Join) (auto simp: normal_def)
  moreover have "clean_comps False [] (as @ bs) = as @ bs"
    using assms by (subst clean_comps_normals) auto
  ultimately show ?thesis
    using ne np assms by (simp add: path_Join_def path_Clean_def flip: Join_append)
qed

lemma path_Clean_normals:
  assumes "normals ns" "ns \<noteq> []"
  shows "path_Clean (Join ns CHR ''/'') = Join ns CHR ''/''"
proof -
  have "Split (Join ns CHR ''/'') CHR ''/'' = ns"
    using assms by (intro Split_Join) (auto simp: normal_def)
  moreover have "\<not> HasPrefix (Join ns CHR ''/'') ''/''"
    using assms by (cases ns; cases "hd ns"; cases "tl ns") (auto simp: HasPrefix_def normal_def)
  moreover have "clean_comps False [] ns = ns"
    using assms by (simp add: clean_comps_normals)
  ultimately show ?thesis using assms by (simp add: path_Clean_def)
qed

lemma Join_normals_inject:
  assumes "normals as" "as \<noteq> []" "normals bs" "bs \<noteq> []" and eq: "Join as CHR ''/'' = Join bs CHR ''/''"
  shows "as = bs"
proof -
  have "Split (Join as CHR ''/'') CHR ''/'' = as"
    using assms(1,2) by (intro Split_Join) (auto simp: normal_def)
  moreover have "Split (Join bs CHR ''/'') CHR ''/'' = bs"
    using assms(3,4) by (intro Split_Join) (auto simp: normal_def)
  ultimately show ?thesis using eq by metis
qed

lemma Join_normals_front:
  assumes "normals ns" "ns \<noteq> []"
  shows "take 1 (Join ns CHR ''/'') \<noteq> ''/'' \<and> take 2 (Join ns CHR ''/'') \<noteq> ''./'' \<and> Join ns CHR ''/'' \<noteq> [] \<and>
         Join ns CHR ''/'' \<noteq> ''.''"
proof -
  obtain p ps where ns: "ns = p # ps" "normal p" using assms by (cases ns) auto
  then obtain c q where p: "p = c # q" by (cases p) (auto simp: normal_def)
  obtain t where t: "Join ns CHR ''/'' = p @ t" "t = [] \<or> (\<exists>u. t = CHR ''/'' # u)"
    using ns by (cases ps) auto
  show ?thesis using ns(2) p t by (cases q) (auto simp: normal_def)
qed

lemma Join_qualified_front:
  assumes "normals rs" "rs \<noteq> []" "normal n" "hd rs \<noteq> n"
  shows "take (length n + 1) (Join rs CHR ''/'') \<noteq> n @ ''/''" "Join rs CHR ''/'' \<noteq> n"
proof -
  have sp: "Split (Join rs CHR ''/'') CHR ''/'' = rs"
    using assms by (intro Split_Join) (auto simp: normal_def)
  show "take (length n + 1) (Join rs CHR ''/'') \<noteq> n @ ''/''"
  proof
    assume a: "take (length n + 1) (Join rs CHR ''/'') = n @ ''/''"
    have "Join rs CHR ''/'' = take (length n + 1) (Join rs CHR ''/'') @ drop (length n + 1) (Join rs CHR ''/'')"
      by (simp only: append_take_drop_id)
    then have "Join rs CHR ''/'' = n @ CHR ''/'' # drop (length n + 1) (Join rs CHR ''/'')"
      unfolding a by simp
    then have "hd (Split (Join rs CHR ''/'') CHR ''/'') = n"
      using assms Split_append [of "CHR ''/''" n] by (metis list.sel(1) normal_def)
    with sp assms show False by simp
  qed
  show "Join rs CHR ''/'' \<noteq> n"
  proof
    assume "Join rs CHR ''/'' = n"
    with sp have "Split n CHR ''/'' = rs" by simp
    with assms show False by (metis Split_id list.sel(1) normal_def)
  qed
qed

lemma path_Clean_slashes:
  assumes "normals ns"
  shows "path_Clean (''///'' @ Join ns CHR ''/'') = CHR ''/'' # Join ns CHR ''/''"
    and "path_Clean (''.//'' @ Join ns CHR ''/'') = (if ns = [] then ''.'' else Join ns CHR ''/'')"
    and "path_Clean (''/'' @ Join ns CHR ''/'') = CHR ''/'' # Join ns CHR ''/''"
  using clean_comps_Split_Join [OF assms, of True "[]" "[]"]
    clean_comps_Split_Join [OF assms, of False "[]" "[]"]
  by (simp_all add: path_Clean_def HasPrefix_def)

lemma path_Clean_root_consts: "path_Clean ''/'' = ''/''" "path_Clean ''.'' = ''.''" "path_Clean [] = ''.''"
  by (simp_all add: path_Clean_def HasPrefix_def)

lemma BlobPath_normal:
  assumes "normals rs" "rs \<noteq> []" "normal d"
  shows "BlobPath (Join rs CHR ''/'') d = Join (rs @ [d]) CHR ''/''"
  using path_Join_normals [of rs "[d]"] assms by (simp add: BlobPath_def)

lemma UploadPath_normal:
  assumes "normals rs" "rs \<noteq> []" "normal u"
  shows "UploadPath (Join rs CHR ''/'') u = Join (rs @ [''uploads'', u]) CHR ''/''"
proof -
  have "UploadPath (Join rs CHR ''/'') u =
          path_Join [Join rs CHR ''/'', Join [''uploads'', u] CHR ''/'']"
    using assms by (simp add: UploadPath_def path_Join_def normal_def)
  then show ?thesis
    using path_Join_normals [of rs "[''uploads'', u]"] assms by (simp add: normal_def)
qed

text \<open>\<^verbatim>\<open>startUpload\<close> writes the session key as the blob key of
  \<^verbatim>\<open>"uploads/" + uuid\<close>; it is the same key.\<close>

lemma BlobPath_uploads:
  assumes "u \<noteq> []"
  shows "BlobPath repo (''uploads/'' @ u) = UploadPath repo u"
  using assms by (cases "repo = []") (simp_all add: BlobPath_def UploadPath_def path_Join_def)

subsection \<open>Properties of the keys\<close>

text \<open>Containment. For every storage root other than the file system root or the
  working directory and every client-chosen key, \<^const>\<open>SafeJoin\<close> succeeds and the path it
  returns is the cleaned root followed by components none of which is empty, a dot, a dot-dot
  or contains a slash: no key escapes the root.\<close>

theorem SafeJoin_contained:
  assumes "root \<noteq> []" "path_Clean root \<noteq> ''/''" "path_Clean root \<noteq> ''.''"
  shows "\<exists>ns. SafeJoin root key = Inr (Join (path_Clean root # ns) CHR ''/'') \<and>
              (\<forall>p \<in> set ns. p \<noteq> [] \<and> p \<noteq> ''.'' \<and> p \<noteq> ''..'' \<and> CHR ''/'' \<notin> set p)"
  using SafeJoin_eq [OF assms, of key] normals_key_comps [of key] by (auto simp: normal_def)

theorem SafeJoin_contained_witness:
  "path_Clean ''/srv/blobs'' \<noteq> ''/'' \<and>
   (\<exists>ns. SafeJoin ''/srv/blobs'' ''../../etc/passwd'' = Inr (Join (''/srv/blobs'' # ns) CHR ''/'') \<and>
     (\<forall>p \<in> set ns. p \<noteq> [] \<and> p \<noteq> ''.'' \<and> p \<noteq> ''..'' \<and> CHR ''/'' \<notin> set p))"
proof -
  have c: "path_Clean ''/srv/blobs'' = ''/srv/blobs''" by code_simp
  show ?thesis
    using SafeJoin_contained [of "''/srv/blobs''" "''../../etc/passwd''"] by (simp add: c)
qed

text \<open>For the roots \<^verbatim>\<open>/\<close>, \<^verbatim>\<open>.\<close> and the empty string the
  containment check of \<^const>\<open>SafeJoin\<close> refuses every key that names something below the root:
  the comment promises the path below the root, the code returns the error.\<close>

theorem SafeJoin_degenerate_root:
  assumes "key_comps key \<noteq> []"
  shows "SafeJoin ''/'' key = Inl StorageUnsafePath \<and> SafeJoin ''.'' key = Inl StorageUnsafePath \<and>
         SafeJoin [] key = Inl StorageUnsafePath"
  using assms Join_normals_front [of "key_comps key"] path_Clean_slashes [of "key_comps key"]
  by (simp add: SafeJoin_def Let_def clean_rooted_key [simplified] path_Join_def
      path_Clean_root_consts HasPrefix_def numeral_2_eq_2)

theorem SafeJoin_degenerate_root_witness:
  "key_comps ''team/repo'' \<noteq> [] \<and> SafeJoin ''/'' ''team/repo'' = Inl StorageUnsafePath"
proof -
  have "key_comps ''team/repo'' \<noteq> []" by code_simp
  then show ?thesis using SafeJoin_degenerate_root [of "''team/repo''"] by simp
qed

text \<open>For a repository and a digest made of normal components the blob key is the two joined by
  a slash, so two blobs share a key only if the repository and the digest are the same.\<close>

theorem BlobPath_injective:
  assumes "normals rs" "rs \<noteq> []" "normal d" "normals rs'" "rs' \<noteq> []" "normal d'"
    and "BlobPath (Join rs CHR ''/'') d = BlobPath (Join rs' CHR ''/'') d'"
  shows "Join rs CHR ''/'' = Join rs' CHR ''/'' \<and> d = d'"
proof -
  have "rs @ [d] = rs' @ [d']"
    using assms by (intro Join_normals_inject) (auto simp: BlobPath_normal)
  then show ?thesis by simp
qed

theorem BlobPath_injective_witness:
  "BlobPath ''team/repo'' ''sha256:aa'' = BlobPath (Join [''team'', ''repo''] CHR ''/'') ''sha256:aa'' \<and>
   Join [''team'', ''repo''] CHR ''/'' = ''team/repo'' \<and> ''sha256:aa'' = (''sha256:aa'' :: string)"
  using BlobPath_injective [of "[''team'', ''repo'']" "''sha256:aa''" "[''team'', ''repo'']" "''sha256:aa''"]
  by (simp add: normal_def)

text \<open>The key of an upload session and the key of a blob are not kept apart: the session
  \<open>u\<close> of repository \<open>r\<close> has the key of the blob \<open>u\<close> of the repository
  \<open>r/uploads\<close>.\<close>

lemma UploadPath_collides:
  assumes "normals rs" "rs \<noteq> []" "normal u"
  shows "UploadPath (Join rs CHR ''/'') u = BlobPath (Join rs CHR ''/'' @ ''/uploads'') u"
proof -
  have "Join rs CHR ''/'' @ ''/uploads'' = Join (rs @ [''uploads'']) CHR ''/''"
    using assms by (simp add: Join_append)
  then show ?thesis
    using assms BlobPath_normal [of "rs @ [''uploads'']" u] UploadPath_normal [of rs u]
    by (simp add: normal_def)
qed

text \<open>\<^const>\<open>RepositoryPath\<close> never doubles the namespace: for normal components it
  yields the qualified name when it is given the bare repository, and applied to a qualified
  name it changes nothing.\<close>

theorem RepositoryPath_qualifies_once:
  assumes "normal n" "normals rs" "rs \<noteq> []" "hd rs \<noteq> n"
  shows "RepositoryPath n (Join rs CHR ''/'') = Join (n # rs) CHR ''/'' \<and>
         RepositoryPath n (RepositoryPath n (Join rs CHR ''/'')) = RepositoryPath n (Join rs CHR ''/'')"
proof -
  have bare: "\<not> take (length n + 1) (Join rs CHR ''/'') = n @ ''/''" "Join rs CHR ''/'' \<noteq> n"
    using assms Join_qualified_front [of rs n] by auto
  have "RepositoryPath n (Join rs CHR ''/'') = Join (n # rs) CHR ''/''"
    using bare assms path_Join_normals [of "[n]" rs] by (simp add: RepositoryPath_def normal_def)
  moreover have "RepositoryPath n (Join (n # rs) CHR ''/'') = Join (n # rs) CHR ''/''"
    using assms path_Clean_normals [of "n # rs"] by (simp add: RepositoryPath_def Join_Cons)
  ultimately show ?thesis by simp
qed

theorem RepositoryPath_qualifies_once_witness:
  "RepositoryPath ''team'' ''repo'' = ''team/repo'' \<and> RepositoryPath ''team'' ''team/repo'' = ''team/repo''"
  using RepositoryPath_qualifies_once [of "''team''" "[''repo'']"] by (auto simp: normal_def)

end
