(* ===== verification/Storage.thy ===== *)
theory Storage
  imports Go_Path
begin

text \<open>
  The storage layer: the interface \<^verbatim>\<open>storage.Provider\<close>
  (\<^verbatim>\<open>internal/storage/provider.go\<close>) as a record of operations over a state,
  \<^verbatim>\<open>io.Copy\<close> into a writer, the laws a provider promises as a locale, and the
  in-memory provider (\<^verbatim>\<open>internal/storage/memory.go\<close>) as an instance.
\<close>

subsection \<open>The interface\<close>

text \<open>
  A Go interface value is a record of its methods. \<open>'s\<close> is the provider's state and
  \<open>'w\<close> the type of its open writers. A method that can fail returns a result; a method
  that changes the state returns the new one. A reader delivers a stream and has a result of
  its \<^verbatim>\<open>Close\<close>.
\<close>

record reader =
  rd_stream :: stream
  rd_close :: "unit res"

record ('s, 'w) provider =
  pv_Writer :: "string \<Rightarrow> 's \<Rightarrow> 'w res \<times> 's"
  pv_Appender :: "string \<Rightarrow> 's \<Rightarrow> 'w res \<times> 's"
  pv_Write :: "'w \<Rightarrow> bytes \<Rightarrow> 's \<Rightarrow> 'w res \<times> 's"
  pv_Close :: "'w \<Rightarrow> 's \<Rightarrow> unit res \<times> 's"
  pv_Reader :: "string \<Rightarrow> int \<Rightarrow> 's \<Rightarrow> reader res"
  pv_Delete :: "string \<Rightarrow> 's \<Rightarrow> unit res \<times> 's"
  pv_Move :: "string \<Rightarrow> string \<Rightarrow> 's \<Rightarrow> unit res \<times> 's"
  pv_Stat :: "string \<Rightarrow> 's \<Rightarrow> int res"

text \<open>\<^verbatim>\<open>io.Copy\<close> of a stream into an open writer: chunks are written until the
  stream ends or a write fails. The result is the writer as it stands and the error, if any.\<close>

fun io_Copy ::
  "('s, 'w) provider \<Rightarrow> 'w \<Rightarrow> bytes list \<Rightarrow> read_end \<Rightarrow> 's \<Rightarrow> ('w \<times> err option) \<times> 's" where
  "io_Copy P w [] e s = ((w, case e of EOF \<Rightarrow> None | ReadErr x \<Rightarrow> Some x), s)"
| "io_Copy P w (c # cs) e s =
     (case pv_Write P w c s of
        (Inl x, s') \<Rightarrow> ((w, Some x), s')
      | (Inr w', s') \<Rightarrow> io_Copy P w' cs e s')"

text \<open>Copy a stream into an open writer and close it, the sequence every upload path uses.\<close>

definition copy_close ::
  "('s, 'w) provider \<Rightarrow> 'w \<Rightarrow> stream \<Rightarrow> 's \<Rightarrow> (err option \<times> unit res) \<times> 's" where
  "copy_close P w st s =
     (case io_Copy P w (fst st) (snd st) s of
        ((w', ce), s') \<Rightarrow> (case pv_Close P w' s' of (r, s'') \<Rightarrow> ((ce, r), s'')))"

subsection \<open>What a provider promises\<close>

text \<open>
  \<open>view\<close> reads an object, \<open>canon\<close> names the object a key addresses. Every law
  about an effect is conditional on the operation's own report, so that a provider whose disk
  or network fails is an instance too. \<open>ready\<close> says that a writer is open on a key with
  the content it will have when it is closed now.
\<close>

locale storage_provider =
  fixes P :: "('s, 'w) provider"
    and view :: "'s \<Rightarrow> string \<Rightarrow> bytes option"
    and canon :: "string \<Rightarrow> string"
    and inv :: "'s \<Rightarrow> bool"
    and ready :: "'w \<Rightarrow> string \<Rightarrow> 's \<Rightarrow> bytes \<Rightarrow> bool"
  assumes view_canon: "canon p = canon q \<Longrightarrow> view s p = view s q"
    and stat_ok: "inv s \<Longrightarrow> pv_Stat P p s = Inr n \<Longrightarrow> view s p = Some d \<Longrightarrow> n = int (length d)"
    and stat_missing: "inv s \<Longrightarrow> pv_Stat P p s = Inl e \<Longrightarrow> err_is e StorageNotFound \<Longrightarrow> view s p = None"
    and stat_sees: "inv s \<Longrightarrow> view s p = Some d \<Longrightarrow> pv_Stat P p s = Inr (int (length d))"
    and reader_ok: "inv s \<Longrightarrow> 0 \<le> i \<Longrightarrow> pv_Reader P p i s = Inr rd \<Longrightarrow> rd_stream rd = (cs, EOF) \<Longrightarrow>
                     \<exists>d. view s p = Some d \<and> concat cs = drop (nat i) d"
    and writer_ready: "inv s \<Longrightarrow> pv_Writer P p s = (Inr w, s') \<Longrightarrow> inv s' \<and> ready w p s' []"
    and writer_frame: "inv s \<Longrightarrow> pv_Writer P p s = (rw, s') \<Longrightarrow>
                     inv s' \<and> (\<forall>q. canon q \<noteq> canon p \<longrightarrow> view s' q = view s q)"
    and appender_ready: "inv s \<Longrightarrow> pv_Appender P p s = (Inr w, s') \<Longrightarrow>
                     inv s' \<and> ready w p s' (case view s p of None \<Rightarrow> [] | Some d \<Rightarrow> d)"
    and appender_frame: "inv s \<Longrightarrow> pv_Appender P p s = (rw, s') \<Longrightarrow>
                     inv s' \<and> (\<forall>q. canon q \<noteq> canon p \<longrightarrow> view s' q = view s q)"
    and write_ready: "inv s \<Longrightarrow> ready w p s d \<Longrightarrow> pv_Write P w c s = (Inr w', s') \<Longrightarrow>
                     ready w' p s' (d @ c)"
    and write_frame: "inv s \<Longrightarrow> ready w p s d \<Longrightarrow> pv_Write P w c s = (rw, s') \<Longrightarrow>
                     inv s' \<and> (\<forall>q. canon q \<noteq> canon p \<longrightarrow> view s' q = view s q)"
    and write_fail: "inv s \<Longrightarrow> ready w p s d \<Longrightarrow> pv_Write P w c s = (Inl e, s') \<Longrightarrow> \<exists>d'. ready w p s' d'"
    and close_ok: "inv s \<Longrightarrow> ready w p s d \<Longrightarrow> pv_Close P w s = (Inr u, s') \<Longrightarrow> view s' p = Some d"
    and close_frame: "inv s \<Longrightarrow> ready w p s d \<Longrightarrow> pv_Close P w s = (r, s') \<Longrightarrow>
                     inv s' \<and> (\<forall>q. canon q \<noteq> canon p \<longrightarrow> view s' q = view s q)"
    and delete_ok: "inv s \<Longrightarrow> pv_Delete P p s = (Inr u, s') \<Longrightarrow> view s' p = None"
    and delete_frame: "inv s \<Longrightarrow> pv_Delete P p s = (r, s') \<Longrightarrow>
                     inv s' \<and> (\<forall>q. canon q \<noteq> canon p \<longrightarrow> view s' q = view s q)"
    and delete_fail: "inv s \<Longrightarrow> pv_Delete P p s = (Inl e, s') \<Longrightarrow> view s' p = view s p"
    and move_ok: "inv s \<Longrightarrow> pv_Move P p q s = (Inr u, s') \<Longrightarrow> canon p \<noteq> canon q \<Longrightarrow> view s p = Some d \<Longrightarrow>
                     view s' q = Some d \<and> view s' p = None"
    and move_frame: "inv s \<Longrightarrow> view s p = Some d \<Longrightarrow> pv_Move P p q s = (r, s') \<Longrightarrow>
                     inv s' \<and> (\<forall>k. canon k \<noteq> canon p \<longrightarrow> canon k \<noteq> canon q \<longrightarrow> view s' k = view s k)"
    and move_fail: "inv s \<Longrightarrow> pv_Move P p q s = (Inl e, s') \<Longrightarrow> view s' = view s"
begin

text \<open>A stream copied to its end and closed without error leaves the object with what it had
  when the writer was opened followed by the stream; whatever happens, no other object
  changes.\<close>

lemma io_Copy_ready:
  "inv s \<Longrightarrow> ready w p s d \<Longrightarrow> io_Copy P w cs e s = ((w', ce), s') \<Longrightarrow>
     inv s' \<and> (\<exists>d'. ready w' p s' d' \<and> (ce = None \<longrightarrow> e = EOF \<and> d' = d @ concat cs)) \<and>
     (\<forall>q. canon q \<noteq> canon p \<longrightarrow> view s' q = view s q)"
proof (induction cs arbitrary: w s d)
  case Nil
  then show ?case by (auto split: read_end.splits)
next
  case (Cons c cs)
  obtain r s1 where w1: "pv_Write P w c s = (r, s1)" by (cases "pv_Write P w c s")
  from write_frame [OF Cons.prems(1,2) w1]
  have i1: "inv s1" and f1: "\<forall>q. canon q \<noteq> canon p \<longrightarrow> view s1 q = view s q" by auto
  show ?case
  proof (cases r)
    case (Inl x)
    then have "w' = w" "ce = Some x" "s' = s1" using Cons.prems(3) w1 by auto
    moreover obtain d' where "ready w p s1 d'"
      using write_fail [OF Cons.prems(1,2)] w1 Inl by blast
    ultimately show ?thesis using i1 f1 by auto
  next
    case (Inr w1')
    then have "ready w1' p s1 (d @ c)" using Cons.prems w1 write_ready by simp
    from Cons.IH [OF i1 this] Cons.prems(3) w1 Inr f1 show ?thesis by auto
  qed
qed

lemma copy_close_spec:
  assumes "inv s" "ready w p s d" "copy_close P w st s = ((ce, cr), s')"
  shows "inv s' \<and> (\<forall>q. canon q \<noteq> canon p \<longrightarrow> view s' q = view s q) \<and>
         (ce = None \<and> is_ok cr \<longrightarrow> snd st = EOF \<and> view s' p = Some (d @ concat (fst st)))"
proof -
  obtain w1 s1 where c: "io_Copy P w (fst st) (snd st) s = ((w1, ce), s1)"
    and cl: "pv_Close P w1 s1 = (cr, s')"
    using assms(3) by (auto simp: copy_close_def split: prod.splits)
  from io_Copy_ready [OF assms(1,2) c] obtain d' where
    i: "inv s1" and r: "ready w1 p s1 d'" and f: "\<forall>q. canon q \<noteq> canon p \<longrightarrow> view s1 q = view s q"
    and e: "ce = None \<longrightarrow> snd st = EOF \<and> d' = d @ concat (fst st)"
    by auto
  from close_frame [OF i r cl] close_ok [OF i r] cl e f show ?thesis by (auto simp: is_ok_iff)
qed

lemma delete_spec:
  assumes "inv s" "pv_Delete P p s = (r, s')"
  shows "inv s' \<and> (\<forall>q. canon q \<noteq> canon p \<longrightarrow> view s' q = view s q) \<and>
         (view s' p = None \<or> view s' p = view s p)"
  using delete_frame [OF assms] delete_ok [OF assms(1), of p] delete_fail [OF assms(1), of p] assms
  by (cases r) auto

lemma move_spec:
  assumes "inv s" "view s p = Some d" "canon p \<noteq> canon q" "pv_Move P p q s = (r, s')"
  shows "inv s' \<and> (is_ok r \<longrightarrow> view s' q = Some d \<and> view s' p = None) \<and> (\<not> is_ok r \<longrightarrow> view s' = view s) \<and>
         (\<forall>k. canon k \<noteq> canon p \<longrightarrow> canon k \<noteq> canon q \<longrightarrow> view s' k = view s k)"
  using move_frame [OF assms(1,2,4)] move_ok [OF assms(1)] move_fail [OF assms(1)] assms(2-4)
  by (cases r) fastforce+

end

subsection \<open>The in-memory provider: internal/storage/memory.go\<close>

text \<open>
  The state is the map from keys to contents. Writers and appenders buffer what they are given
  and touch the map only when they are closed, under the provider's mutex. A slice expression
  with a negative offset panics; the panic is an error value here.
\<close>

type_synonym mem = "string \<Rightarrow> bytes option"

datatype mem_writer = MemWriter string bytes | MemAppender string bytes

definition mem_Writer :: "string \<Rightarrow> mem \<Rightarrow> mem_writer res \<times> mem" where
  "mem_Writer p m = (Inr (MemWriter p []), m)"

definition mem_Appender :: "string \<Rightarrow> mem \<Rightarrow> mem_writer res \<times> mem" where
  "mem_Appender p m = (Inr (MemAppender p []), m)"

fun mem_Write :: "mem_writer \<Rightarrow> bytes \<Rightarrow> mem \<Rightarrow> mem_writer res \<times> mem" where
  "mem_Write (MemWriter p b) c m = (Inr (MemWriter p (b @ c)), m)"
| "mem_Write (MemAppender p b) c m = (Inr (MemAppender p (b @ c)), m)"

fun mem_Close :: "mem_writer \<Rightarrow> mem \<Rightarrow> unit res \<times> mem" where
  "mem_Close (MemWriter p b) m = (Inr (), m(p \<mapsto> b))"
| "mem_Close (MemAppender p b) m =
     (Inr (), m(p \<mapsto> (case m p of None \<Rightarrow> [] | Some d \<Rightarrow> d) @ b))"

definition mem_Reader :: "string \<Rightarrow> int \<Rightarrow> mem \<Rightarrow> reader res" where
  "mem_Reader p offset m =
     (case m p of
        None \<Rightarrow> Inl StorageNotFound
      | Some d \<Rightarrow>
          (let off = (if offset > int (length d) then int (length d) else offset)
           in if off < 0 then Inl (ErrText ''runtime error: slice bounds out of range'')
              else Inr \<lparr>rd_stream = ([drop (nat off) d], EOF), rd_close = Inr ()\<rparr>))"

definition mem_Delete :: "string \<Rightarrow> mem \<Rightarrow> unit res \<times> mem" where
  "mem_Delete p m = (Inr (), m(p := None))"

definition mem_Move :: "string \<Rightarrow> string \<Rightarrow> mem \<Rightarrow> unit res \<times> mem" where
  "mem_Move sourcePath destPath m =
     (case m sourcePath of
        None \<Rightarrow> (Inl StorageNotFound, m)
      | Some d \<Rightarrow> (Inr (), (m(destPath \<mapsto> d))(sourcePath := None)))"

definition mem_Stat :: "string \<Rightarrow> mem \<Rightarrow> int res" where
  "mem_Stat p m = (case m p of None \<Rightarrow> Inl StorageNotFound | Some d \<Rightarrow> Inr (int (length d)))"

definition memory_provider :: "(mem, mem_writer) provider" where
  "memory_provider =
     \<lparr>pv_Writer = mem_Writer, pv_Appender = mem_Appender, pv_Write = mem_Write, pv_Close = mem_Close,
      pv_Reader = mem_Reader, pv_Delete = mem_Delete, pv_Move = mem_Move, pv_Stat = mem_Stat\<rparr>"

fun mem_ready :: "mem_writer \<Rightarrow> string \<Rightarrow> mem \<Rightarrow> bytes \<Rightarrow> bool" where
  "mem_ready (MemWriter q b) p m d = (q = p \<and> d = b)"
| "mem_ready (MemAppender q b) p m d = (q = p \<and> d = (case m p of None \<Rightarrow> [] | Some x \<Rightarrow> x) @ b)"

lemmas mem_defs = memory_provider_def mem_Writer_def mem_Appender_def mem_Reader_def
  mem_Delete_def mem_Move_def mem_Stat_def

lemma mem_Write_simp:
  "mem_Write w c m = (Inr (case w of MemWriter p b \<Rightarrow> MemWriter p (b @ c) | MemAppender p b \<Rightarrow> MemAppender p (b @ c)), m)"
  by (cases w) simp_all

lemma mem_Close_simp:
  "mem_ready w p m d \<Longrightarrow> mem_Close w m = (Inr (), m(p \<mapsto> d))"
  by (cases w) auto

interpretation memp: storage_provider memory_provider "\<lambda>m. m" "\<lambda>p. p" "\<lambda>_. True" mem_ready
proof (unfold_locales, goal_cases)
  case (5 s i p rd cs)
  then show ?case
    by (cases "s p") (auto simp: mem_defs Let_def split: if_splits)
qed (auto simp: mem_defs mem_Write_simp mem_Close_simp split: option.splits mem_writer.splits)

end
