(* ===== verification/Router.thy ===== *)
theory Router
  imports Storage Auth
begin

text \<open>
  The registry API of \<^verbatim>\<open>internal/api/v2/router.go\<close>, what its handlers share: the fields of
  the \<^verbatim>\<open>Router\<close>, the repository a request is about, the route table and the API root. The
  handlers themselves are in \<^verbatim>\<open>Blobs\<close> and \<^verbatim>\<open>Manifests\<close>.
\<close>

subsection \<open>The router and its dependencies\<close>

record vuln_gate =
  vg_enabled :: bool
  vg_allow_unscanned :: bool
  vg_block :: "string list"

record vulnerability =
  vu_id :: string
  vu_package :: string
  vu_severity :: string

text \<open>What \<^verbatim>\<open>json.Unmarshal\<close> reads into \<^verbatim>\<open>manifestReferences\<close>: the digests of the
  descriptors.\<close>

record manifest_refs =
  mr_config :: "string option"
  mr_layers :: "string list"
  mr_blobs :: "string list"
  mr_manifests :: "string list"

text \<open>
  The store and the storage provider are the interfaces of \<^verbatim>\<open>Db\<close> and \<^verbatim>\<open>Storage\<close>.
  The rest stands for libraries: \<open>rt_sha256\<close> the hexadecimal SHA-256 sum;
  \<open>rt_digest\<close> \<^verbatim>\<open>godigest.Parse\<close>, with the digest's string and algorithm;
  \<open>rt_json\<close>, \<open>rt_marshal\<close>, \<open>rt_refs\<close> and \<open>rt_report\<close> the JSON decoder and encoder at the
  types used; \<open>rt_uuid\<close> the next random session name. \<open>rt_upstream\<close> says which namespaces
  are upstream registries, if there is a proxy, and \<open>rt_proxy\<close> what the proxy returns for a
  namespace, repository, object and method.
\<close>

record ('s, 'w, 'd) router =
  rt_db :: "'d store"
  rt_storage :: "('s, 'w) provider"
  rt_sha256 :: "bytes \<Rightarrow> string"
  rt_digest :: "string \<Rightarrow> (string \<times> string) option"
  rt_json :: "bytes \<Rightarrow> json option"
  rt_marshal :: "json \<Rightarrow> bytes res"
  rt_refs :: "bytes \<Rightarrow> manifest_refs res"
  rt_report :: "bytes \<Rightarrow> vulnerability list option"
  rt_uuid :: string
  rt_upstream :: "(string \<Rightarrow> bool) option"
  rt_proxy :: "string \<Rightarrow> string \<Rightarrow> string \<Rightarrow> string \<Rightarrow> response res"
  rt_vulnGate :: "vuln_gate option"
  rt_developer :: bool
  rt_starlark :: bool
  rt_webhook :: bool
  rt_broker :: bool
  rt_scanner :: bool
  rt_sync :: bool

text \<open>The state a handler works on, and what it starts or sends besides.\<close>

record ('s, 'd) world =
  wd_st :: 's
  wd_db :: 'd

record event =
  ev_namespace :: string
  ev_repository :: string
  ev_reference :: string
  ev_digest :: string

datatype effect =
    RunHook string event
  | Webhook string event
  | Publish string event
  | ScanImage string string string string string
  | EnqueuePush string string string string

definition maxUploadBytes :: int where
  "maxUploadBytes = 10737418240"

text \<open>\<^verbatim>\<open>http.Error\<close> with a JSON document as its text.\<close>

definition http_error_json :: "string \<Rightarrow> string \<Rightarrow> nat \<Rightarrow> response" where
  "http_error_json c m code = \<lparr>rs_status = code, rs_headers = [], rs_body = ErrorsJSON c m\<rparr>"

lemma http_error_json_simps [simp]:
  "rs_status (http_error_json c m code) = code" "rs_body (http_error_json c m code) = ErrorsJSON c m"
  by (simp_all add: http_error_json_def)

subsection \<open>The repository of a request\<close>

definition getRepoContext :: "request \<Rightarrow> string \<times> string" where
  "getRepoContext req =
     (let fullRepo = TrimPrefix (cut_first endpointPrefixes (rq_path req)) ''/v2/'';
          parts = Split fullRepo CHR ''/''
      in (fullRepo, if 2 \<le> length parts then parts ! 0 else []))"

definition getPath :: "string \<Rightarrow> string \<Rightarrow> string" where
  "getPath fullRepo digest = BlobPath fullRepo digest"

definition proxied ::
  "('s, 'w, 'd) router \<Rightarrow> request \<Rightarrow> string \<Rightarrow> response option" where
  "proxied R req obj =
     (let (fullRepo, quotaNs) = getRepoContext req in
      case rt_upstream R of
        None \<Rightarrow> None
      | Some isUp \<Rightarrow>
          (if isUp quotaNs
           then Some (case rt_proxy R quotaNs (filepath_Base fullRepo) obj (rq_method req) of
                        Inl e \<Rightarrow> http_error_json ''UPSTREAM_ERROR'' (err_msg e) 502
                      | Inr resp \<Rightarrow> resp)
           else None))"

subsection \<open>Quota checks\<close>

text \<open>The check of the pushing handlers: it adds in 64-bit arithmetic.\<close>

definition quota_exceeded :: "quota option \<Rightarrow> int \<Rightarrow> bool" where
  "quota_exceeded q n = (case q of None \<Rightarrow> False | Some x \<Rightarrow> wrap64 (q_used x + n) > q_limit x)"

subsection \<open>The API root\<close>

definition baseCheck :: "('s, 'w, 'd) router \<Rightarrow> request \<Rightarrow> response" where
  "baseCheck R req =
     (let v = (''Docker-Distribution-Api-Version'', ''registry/2.0'') in
      if rt_developer R then reply 200 [v] (Text ''{}'')
      else if rq_header req ''Authorization'' = []
      then reply 401 [v, (''Www-Authenticate'', ''Bearer realm='' @ [CHR 0x22] @ GetScheme req @ ''://'' @ rq_host req @
             ''/auth/token'' @ [CHR 0x22] @ '',service='' @ [CHR 0x22] @ ''registry'' @ [CHR 0x22])] NoBody
      else reply 200 [v] NoBody)"

subsection \<open>Routes\<close>

text \<open>A pattern is a sequence of fixed segments and one-segment parameters. The table lists the
  routes of \<^verbatim>\<open>Register\<close> under \<^verbatim>\<open>/v2\<close> in the order of registration.\<close>

datatype seg = Fixed string | Param string

datatype handler =
    H_getTags | H_getManifest | H_putManifest | H_deleteManifest | H_getReferrers | H_getBlob | H_headBlob
  | H_startUpload | H_getUploadProgress | H_patchUpload | H_putUpload

definition endpoint_routes :: "(string \<times> seg list \<times> handler) list" where
  "endpoint_routes =
     [(''GET'', [Fixed ''tags'', Fixed ''list''], H_getTags),
      (''GET'', [Fixed ''manifests'', Param ''reference''], H_getManifest),
      (''HEAD'', [Fixed ''manifests'', Param ''reference''], H_getManifest),
      (''PUT'', [Fixed ''manifests'', Param ''reference''], H_putManifest),
      (''DELETE'', [Fixed ''manifests'', Param ''reference''], H_deleteManifest),
      (''GET'', [Fixed ''referrers'', Param ''digest''], H_getReferrers),
      (''GET'', [Fixed ''blobs'', Param ''digest''], H_getBlob),
      (''HEAD'', [Fixed ''blobs'', Param ''digest''], H_headBlob),
      (''POST'', [Fixed ''blobs'', Fixed ''uploads'', Fixed []], H_startUpload),
      (''POST'', [Fixed ''blobs'', Fixed ''uploads''], H_startUpload),
      (''GET'', [Fixed ''blobs'', Fixed ''uploads'', Param ''uuid''], H_getUploadProgress),
      (''PATCH'', [Fixed ''blobs'', Fixed ''uploads'', Param ''uuid''], H_patchUpload),
      (''PUT'', [Fixed ''blobs'', Fixed ''uploads'', Param ''uuid''], H_putUpload)]"

definition repo_prefixes :: "seg list list" where
  "repo_prefixes =
     [[Param ''org2'', Param ''org1'', Param ''org'', Param ''namespace'', Param ''repo''],
      [Param ''org1'', Param ''org'', Param ''namespace'', Param ''repo''],
      [Param ''org'', Param ''namespace'', Param ''repo''],
      [Param ''namespace'', Param ''repo''],
      [Param ''repo'']]"

definition routes :: "(string \<times> seg list \<times> handler) list" where
  "routes = concat (map (\<lambda>pre. map (\<lambda>(m, pat, h). (m, pre @ pat, h)) endpoint_routes) repo_prefixes)"

fun seg_matches :: "seg list \<Rightarrow> string list \<Rightarrow> bool" where
  "seg_matches [] [] = True"
| "seg_matches (Fixed f # ps) (s # ss) = (f = s \<and> seg_matches ps ss)"
| "seg_matches (Param _ # ps) (s # ss) = seg_matches ps ss"
| "seg_matches _ _ = False"

text \<open>The handlers a request may be given to: all routes that match its method and the segments of
  its path after \<^verbatim>\<open>/v2/\<close>. Which one is taken when several match is chi's choice.\<close>

definition matching_routes :: "request \<Rightarrow> (seg list \<times> handler) list" where
  "matching_routes req =
     (if HasPrefix (rq_path req) ''/v2/''
      then map snd (filter (\<lambda>(m, pat, h). m = rq_method req \<and>
             seg_matches pat (Split (drop 4 (rq_path req)) CHR ''/'')) routes)
      else [])"

subsection \<open>Properties of the routing\<close>

lemma seg_matches_length: "seg_matches ps ss \<Longrightarrow> length ps = length ss"
  by (induction ps ss rule: seg_matches.induct) auto

lemma seg_matches_append:
  "seg_matches (ps @ qs) ss \<longleftrightarrow> length ps \<le> length ss \<and> seg_matches ps (take (length ps) ss) \<and> seg_matches qs (drop (length ps) ss)"
  by (induction ps ss rule: seg_matches.induct) (auto dest: seg_matches_length)

lemma seg_matches_params: "seg_matches (map Param ns) ss \<longleftrightarrow> length ns = length ss"
  by (induction ns arbitrary: ss) (case_tac ss; auto)+

lemma repo_prefixes_params:
  "pre \<in> set repo_prefixes \<Longrightarrow> \<exists>ns. pre = map Param ns"
proof -
  have "list_all (\<lambda>pre. pre = map Param (map (\<lambda>x. case x of Param n \<Rightarrow> n | Fixed n \<Rightarrow> n) pre)) repo_prefixes"
    by code_simp
  then show "pre \<in> set repo_prefixes \<Longrightarrow> ?thesis" unfolding list_all_iff by blast
qed

lemma seg_matches_route:
  assumes "pre \<in> set repo_prefixes"
  shows "seg_matches (pre @ pat) ss \<longleftrightarrow> length pre + length pat = length ss \<and> seg_matches pat (drop (length ss - length pat) ss)"
proof -
  obtain ns where pre: "pre = map Param ns" using repo_prefixes_params [OF assms] by blast
  have "length pre + length pat = length ss \<Longrightarrow> length ss - length pat = length pre" by simp
  then show ?thesis using pre
    by (metis drop_drop seg_matches_append seg_matches_params seg_matches_length length_append length_map length_take
        le_add1 min.absorb2)
qed

text \<open>The endpoint part of a route, on the last three segments of the path.\<close>

definition ends_with :: "string \<Rightarrow> string \<Rightarrow> string \<Rightarrow> seg list \<Rightarrow> bool" where
  "ends_with a b c pat = (if length pat = 2 then seg_matches pat [b, c] else seg_matches pat [a, b, c])"

lemma endpoint_unique:
  "\<forall>r1 \<in> set endpoint_routes. \<forall>r2 \<in> set endpoint_routes.
     fst r1 = fst r2 \<longrightarrow> ends_with a b c (fst (snd r1)) \<longrightarrow> ends_with a b c (fst (snd r2)) \<longrightarrow> r1 = r2"
  by (auto simp: endpoint_routes_def ends_with_def)

lemma endpoint_lengths: "r \<in> set endpoint_routes \<Longrightarrow> length (fst (snd r)) = 2 \<or> length (fst (snd r)) = 3"
  by (auto simp: endpoint_routes_def)

lemma repo_prefixes_length:
  "pre \<in> set repo_prefixes \<Longrightarrow> 1 \<le> length pre"
  "pre \<in> set repo_prefixes \<Longrightarrow> pre' \<in> set repo_prefixes \<Longrightarrow> length pre = length pre' \<Longrightarrow> pre = pre'"
  by (auto simp: repo_prefixes_def)

lemma route_match_unique:
  assumes pre: "pre1 \<in> set repo_prefixes" "pre2 \<in> set repo_prefixes"
    and r: "r1 \<in> set endpoint_routes" "r2 \<in> set endpoint_routes" "fst r1 = fst r2"
    and m: "seg_matches (pre1 @ fst (snd r1)) ss" "seg_matches (pre2 @ fst (snd r2)) ss"
  shows "pre1 = pre2 \<and> r1 = r2"
proof -
  have len: "length pre1 + length (fst (snd r1)) = length ss" "length pre2 + length (fst (snd r2)) = length ss"
    using m pre by (auto simp: seg_matches_route)
  then have "3 \<le> length ss" using repo_prefixes_length(1) [OF pre(1)] endpoint_lengths [OF r(1)] by auto
  then obtain ys where "drop (length ss - 3) ss = ys" "length ys = Suc (Suc (Suc 0))" by auto
  then obtain a b c where "drop (length ss - 3) ss = [a, b, c]" by (auto simp: length_Suc_conv)
  then obtain xs where ss: "ss = xs @ [a, b, c]" by (metis append_take_drop_id)
  have "ends_with a b c (fst (snd r))" if "pre \<in> set repo_prefixes" "r \<in> set endpoint_routes" "seg_matches (pre @ fst (snd r)) ss" for pre r
    using that endpoint_lengths [OF that(2)] by (auto simp: seg_matches_route ends_with_def ss)
  then have "r1 = r2" using endpoint_unique r pre m by blast
  then show ?thesis using len repo_prefixes_length(2) [OF pre] by simp
qed

lemma filter_le_one:
  "distinct xs \<Longrightarrow> (\<And>x y. x \<in> set xs \<Longrightarrow> y \<in> set xs \<Longrightarrow> P x \<Longrightarrow> P y \<Longrightarrow> x = y) \<Longrightarrow> length (filter P xs) \<le> 1"
proof -
  assume d: "distinct xs" and u: "\<And>x y. x \<in> set xs \<Longrightarrow> y \<in> set xs \<Longrightarrow> P x \<Longrightarrow> P y \<Longrightarrow> x = y"
  have "card (set (filter P xs)) \<le> Suc 0" by (subst card_le_Suc0_iff_eq) (use u in auto)
  then show ?thesis using d distinct_card [of "filter P xs"] by simp
qed

lemma routes_distinct: "distinct routes"
  by code_simp

text \<open>Routing is unambiguous: whatever the method and path, at most one of the 65 registered
  repository routes matches, at any depth of the repository name and whatever its components
  are called; the handler does not depend on the order of registration.\<close>

theorem routes_unambiguous: "length (matching_routes req) \<le> 1"
proof -
  let ?P = "\<lambda>(m, pat, h). m = rq_method req \<and> seg_matches pat (Split (drop 4 (rq_path req)) CHR ''/'')"
  have "length (filter ?P routes) \<le> 1"
  proof (rule filter_le_one [OF routes_distinct])
    fix x y assume x: "x \<in> set routes" "?P x" and y: "y \<in> set routes" "?P y"
    obtain p1 r1 where 1: "p1 \<in> set repo_prefixes" "r1 \<in> set endpoint_routes" "x = (fst r1, p1 @ fst (snd r1), snd (snd r1))"
      using x(1) by (auto simp: routes_def split: prod.splits)
    obtain p2 r2 where 2: "p2 \<in> set repo_prefixes" "r2 \<in> set endpoint_routes" "y = (fst r2, p2 @ fst (snd r2), snd (snd r2))"
      using y(1) by (auto simp: routes_def split: prod.splits)
    have "fst r1 = fst r2" using x(2) y(2) 1(3) 2(3) by simp
    from route_match_unique [OF 1(1) 2(1) 1(2) 2(2) this, of "Split (drop 4 (rq_path req)) CHR ''/''"] have "p1 = p2 \<and> r1 = r2"
      using x(2) y(2) unfolding 1(3) 2(3) by simp
    then show "x = y" using 1(3) 2(3) by simp
  qed
  then show ?thesis by (simp add: matching_routes_def)
qed

text \<open>(C12) The repository that was authorised is the repository the handler acts on: for every request
  whose path names a repository, the middleware and the handlers compute the same name from
  the path; so a request that passed the middleware acts on a repository that an access entry
  of its claims names, with an action it lists.\<close>

theorem authorized_repo_is_handled_repo:
  assumes "fst (getRepoContext r) \<notin> {[], ''/''}" "\<not> mw_developer m"
    and "Protect J m now r = Next oc" "rq_path r \<notin> {''/v2/'', ''/v2/_catalog''}"
  shows "extractRepo (rq_path r) = fst (getRepoContext r) \<and>
         (\<exists>c e. oc = Some c \<and> e \<in> set (cl_access c) \<and> ae_type e = ''repository'' \<and> ae_name e = fst (getRepoContext r) \<and>
            (getRequiredAction r \<in> set (ae_actions e) \<or> ''*'' \<in> set (ae_actions e)))"
proof -
  have eq: "extractRepo (rq_path r) = fst (getRepoContext r)"
    using assms(1) by (auto simp: extractRepo_def getRepoContext_def Let_def)
  have "\<exists>c. oc = Some c \<and> (\<exists>e \<in> set (cl_access c). entry_authorizes r e)"
    using assms(3,4) unfolding Protect_Next_cases [OF assms(2)] Let_def by (auto simp: entry_authorizes_def)
  then show ?thesis using eq assms(4) by (auto simp: entry_authorizes_def)
qed

theorem authorized_repo_is_handled_repo_witness:
  "extractRepo ''/v2/lib/app/manifests/v1'' =
     fst (getRepoContext (plain_request ''GET'' ''/v2/lib/app/manifests/v1'' ''Bearer tok''))"
proof -
  let ?r = "plain_request ''GET'' ''/v2/lib/app/manifests/v1'' ''Bearer tok''"
  let ?c = "claims_of ''bob'' 0 [\<lparr>ae_type = ''repository'', ae_name = ''lib/app'', ae_actions = [''pull'']\<rparr>]"
  have "fst (getRepoContext ?r) \<notin> {[], ''/''}" by code_simp
  moreover have "Protect (one_token ?c) one_middleware 0 ?r = Next (Some ?c)" by code_simp
  ultimately show ?thesis
    using authorized_repo_is_handled_repo [of ?r one_middleware "one_token ?c" 0 "Some ?c"]
    by (simp add: one_middleware_def)
qed

end
