(* ===== verification/Blobs.thy ===== *)
theory Blobs
  imports Router
begin

text \<open>
  The blob endpoints of \<^verbatim>\<open>internal/api/v2/router.go\<close>: reading blobs and ranges of them,
  starting an upload session or mounting a blob of another repository, appending to a session and finalizing
  it. A handler maps a request, its URL parameter and the state to a response and the new state.
  The finalization's \<^verbatim>\<open>singleflight\<close> group is an argument: the result of another
  request's call that this one shares, if there is one.
\<close>

subsection \<open>Reading\<close>

definition parseBlobRange :: "string \<Rightarrow> int \<Rightarrow> (int \<times> int) res" where
  "parseBlobRange header sz =
     (if \<not> HasPrefix header ''bytes='' \<or> Contains header '','' \<or> sz \<le> 0 then Inl (ErrText ''invalid range'')
      else case SplitN (TrimPrefix header ''bytes='') CHR ''-'' 2 of
        [a, b] \<Rightarrow>
          (if a = [] then
             (case ParseInt b of
                None \<Rightarrow> Inl (ErrText ''invalid suffix range'')
              | Some sfx \<Rightarrow>
                  (if sfx \<le> 0 then Inl (ErrText ''invalid suffix range'')
                   else let n = (if sfx > sz then sz else sfx) in Inr (sz - n, sz - 1)))
           else
             (case ParseInt a of
                None \<Rightarrow> Inl (ErrText ''range start outside blob'')
              | Some start \<Rightarrow>
                  (if start < 0 \<or> start \<ge> sz then Inl (ErrText ''range start outside blob'')
                   else if b = [] then Inr (start, sz - 1)
                   else (case ParseInt b of
                           None \<Rightarrow> Inl (ErrText ''invalid range end'')
                         | Some e \<Rightarrow>
                             (if e < start then Inl (ErrText ''invalid range end'')
                              else Inr (start, if e \<ge> sz then sz - 1 else e))))))
      | _ \<Rightarrow> Inl (ErrText ''invalid range''))"

text \<open>The part of \<^verbatim>\<open>getBlob\<close> that streams: the headers already set, the object, and the range
  if one was requested. A stream that fails under way truncates the body.\<close>

definition streamBlob ::
  "('s, 'w) provider \<Rightarrow> (string \<times> string) list \<Rightarrow> string \<Rightarrow> (int \<times> int) option \<Rightarrow> int \<Rightarrow> 's \<Rightarrow> response" where
  "streamBlob P hs path rng sz s =
     (case pv_Reader P path (case rng of None \<Rightarrow> 0 | Some (a, _) \<Rightarrow> a) s of
        Inl e \<Rightarrow>
          (if err_is e StorageNotFound
           then \<lparr>rs_status = 404, rs_headers = hs, rs_body = ErrorsJSON ''BLOB_UNKNOWN'' ''blob unknown to storage''\<rparr>
           else http_error hs (err_msg e) 500)
      | Inr rd \<Rightarrow>
          (let content = concat (fst (rd_stream rd)) in
           case rng of
             Some (a, b) \<Rightarrow>
               reply 206 (hs @ [(''Content-Length'', FormatInt (b - a + 1)),
                   (''Content-Range'', ''bytes '' @ FormatInt a @ ''-'' @ FormatInt b @ ''/'' @ FormatInt sz)])
                 (Data (take (nat (b - a + 1)) content))
           | None \<Rightarrow> reply 200 (hs @ [(''Content-Length'', FormatInt sz)]) (Data content)))"

definition getBlob :: "('s, 'w, 'd) router \<Rightarrow> request \<Rightarrow> string \<Rightarrow> 's \<Rightarrow> response" where
  "getBlob R req digest s =
     (case proxied R req digest of
        Some resp \<Rightarrow> resp
      | None \<Rightarrow>
          (let path = getPath (fst (getRepoContext req)) digest;
               hs = [(''Docker-Content-Digest'', digest), (''Accept-Ranges'', ''bytes'')];
               rangeHeader = rq_header req ''Range'' in
           case pv_Stat (rt_storage R) path s of
             Inl e \<Rightarrow> (if err_is e StorageNotFound then http_error_json ''BLOB_UNKNOWN'' ''blob unknown'' 404
                       else http_error [] (err_msg e) 500)
           | Inr sz \<Rightarrow>
               (if rq_method req \<noteq> ''GET'' then reply 200 (hs @ [(''Content-Length'', FormatInt sz)]) NoBody
                else if rangeHeader = [] then streamBlob (rt_storage R) hs path None sz s
                else (case parseBlobRange rangeHeader sz of
                        Inl _ \<Rightarrow> reply 416 (hs @ [(''Content-Range'', ''bytes */'' @ FormatInt sz)]) NoBody
                      | Inr rng \<Rightarrow> streamBlob (rt_storage R) hs path (Some rng) sz s))))"

definition headBlob :: "('s, 'w, 'd) router \<Rightarrow> request \<Rightarrow> string \<Rightarrow> 's \<Rightarrow> response" where
  "headBlob R req digest s = getBlob R req digest s"

subsection \<open>The blob record\<close>

text \<open>The body of the transaction that records a blob and charges the quota.\<close>

definition record_blob ::
  "'d store \<Rightarrow> string \<Rightarrow> quota option \<Rightarrow> string \<Rightarrow> int \<Rightarrow> 'd \<Rightarrow> unit res \<times> 'd" where
  "record_blob S quotaNs quota digest sz d =
     (case st_PutBlob S digest sz ''application/octet-stream'' d of
        (Inl e, d') \<Rightarrow> (Inl e, d')
      | (Inr _, d') \<Rightarrow>
          (case quota of None \<Rightarrow> (Inr (), d') | Some _ \<Rightarrow> st_UpdateQuotaUsage S quotaNs sz d'))"

definition blob_created :: "string \<Rightarrow> string \<Rightarrow> response" where
  "blob_created fullRepo digest =
     reply 201 [(''Location'', ''/v2/'' @ fullRepo @ ''/blobs/'' @ digest), (''Docker-Content-Digest'', digest)] NoBody"

definition err_500 :: "err \<Rightarrow> response" where
  "err_500 e = http_error [] (err_msg e) 500"

subsection \<open>Starting an upload\<close>

text \<open>Copying the blob of another repository and recording it: the innermost part of the mount.
  \<^const>\<open>None\<close> means that the handler goes on to start a session.\<close>

definition mountCopy ::
  "('s, 'w, 'd) router \<Rightarrow> string \<Rightarrow> string \<Rightarrow> string \<Rightarrow> string \<Rightarrow> quota option \<Rightarrow> int \<Rightarrow>
   ('s, 'd) world \<Rightarrow> response option \<times> ('s, 'd) world" where
  "mountCopy R fullRepo quotaNs fromPath digest quota sz w =
     (let P = rt_storage R; targetPath = getPath fullRepo digest in
      case pv_Reader P fromPath 0 (wd_st w) of
        Inl _ \<Rightarrow> (None, w)
      | Inr rd \<Rightarrow>
          (case pv_Writer P targetPath (wd_st w) of
             (Inl _, s1) \<Rightarrow> (None, w\<lparr>wd_st := s1\<rparr>)
           | (Inr wr, s1) \<Rightarrow>
               (case copy_close P wr (rd_stream rd) s1 of
                  ((None, Inr _), s2) \<Rightarrow>
                    (case rd_close rd of
                       Inl e \<Rightarrow> (Some (err_500 e), w\<lparr>wd_st := snd (pv_Delete P targetPath s2)\<rparr>)
                     | Inr _ \<Rightarrow>
                         (case st_WithTx (rt_db R) (record_blob (rt_db R) quotaNs quota digest sz) (wd_db w) of
                            (Inl e, d') \<Rightarrow>
                              (Some (err_500 e), w\<lparr>wd_st := snd (pv_Delete P targetPath s2), wd_db := d'\<rparr>)
                          | (Inr _, d') \<Rightarrow> (Some (blob_created fullRepo digest), w\<lparr>wd_st := s2, wd_db := d'\<rparr>)))
                | ((Some e, _), s2) \<Rightarrow> (Some (err_500 e), w\<lparr>wd_st := snd (pv_Delete P targetPath s2)\<rparr>)
                | ((None, Inl e), s2) \<Rightarrow> (Some (err_500 e), w\<lparr>wd_st := snd (pv_Delete P targetPath s2)\<rparr>))))"

definition mountBlob ::
  "('s, 'w, 'd) router \<Rightarrow> request \<Rightarrow> ('s, 'd) world \<Rightarrow> response option \<times> ('s, 'd) world" where
  "mountBlob R req w =
     (let (fullRepo, quotaNs) = getRepoContext req; P = rt_storage R in
      case rt_digest R (rq_query req ''mount'') of
        None \<Rightarrow> (Some (http_error [] ''invalid or unsupported mount digest'' 400), w)
      | Some (mountDigest, alg) \<Rightarrow>
          (if alg \<noteq> ''sha256'' then (Some (http_error [] ''invalid or unsupported mount digest'' 400), w)
           else
             (let fromPath = getPath (rq_query req ''from'') mountDigest in
              case pv_Stat P fromPath (wd_st w) of
                Inl _ \<Rightarrow> (None, w)
              | Inr sz \<Rightarrow>
                  (case pv_Stat P (getPath fullRepo mountDigest) (wd_st w) of
                     Inr _ \<Rightarrow> (Some (blob_created fullRepo mountDigest), w)
                   | Inl te \<Rightarrow>
                       (if \<not> err_is te StorageNotFound then (Some (err_500 te), w)
                        else (case st_CheckQuota (rt_db R) quotaNs (wd_db w) of
                                Inl e \<Rightarrow> (Some (err_500 e), w)
                              | Inr quota \<Rightarrow>
                                  (if quota_exceeded quota sz
                                   then (Some (json_error ''QUOTA_EXCEEDED'' ''quota exceeded'' 413), w)
                                   else mountCopy R fullRepo quotaNs fromPath mountDigest quota sz w)))))))"

definition startSession ::
  "('s, 'w, 'd) router \<Rightarrow> request \<Rightarrow> ('s, 'd) world \<Rightarrow> response \<times> ('s, 'd) world" where
  "startSession R req w =
     (let fullRepo = fst (getRepoContext req); P = rt_storage R; uploadUUID = rt_uuid R;
          tempPath = getPath fullRepo (''uploads/'' @ uploadUUID) in
      case pv_Writer P tempPath (wd_st w) of
        (Inl e, s1) \<Rightarrow> (err_500 e, w\<lparr>wd_st := s1\<rparr>)
      | (Inr wr, s1) \<Rightarrow>
          (case pv_Close P wr s1 of
             (Inl e, s2) \<Rightarrow> (err_500 e, w\<lparr>wd_st := s2\<rparr>)
           | (Inr _, s2) \<Rightarrow>
               (reply 202 [(''Location'', ''/v2/'' @ fullRepo @ ''/blobs/uploads/'' @ uploadUUID),
                           (''Range'', ''0-0''), (''Docker-Upload-UUID'', uploadUUID)] NoBody,
                w\<lparr>wd_st := s2\<rparr>)))"

definition startUpload ::
  "('s, 'w, 'd) router \<Rightarrow> request \<Rightarrow> ('s, 'd) world \<Rightarrow> response \<times> ('s, 'd) world" where
  "startUpload R req w =
     (if rq_query req ''mount'' \<noteq> [] \<and> rq_query req ''from'' \<noteq> [] then
        (case mountBlob R req w of
           (Some resp, w') \<Rightarrow> (resp, w')
         | (None, w') \<Rightarrow> startSession R req w')
      else startSession R req w)"

subsection \<open>Appending to a session\<close>

definition range_to :: "int \<Rightarrow> string" where
  "range_to sz = ''0-'' @ FormatInt (if sz - 1 < 0 then 0 else sz - 1)"

definition getUploadProgress :: "('s, 'w, 'd) router \<Rightarrow> request \<Rightarrow> string \<Rightarrow> 's \<Rightarrow> response" where
  "getUploadProgress R req uuid s =
     (let fullRepo = fst (getRepoContext req) in
      case pv_Stat (rt_storage R) (getPath fullRepo (''uploads/'' @ uuid)) s of
        Inl e \<Rightarrow> (if e = StorageNotFound then http_error [] ''upload not found'' 404 else err_500 e)
      | Inr sz \<Rightarrow>
          reply 204 [(''Range'', range_to sz), (''Docker-Upload-UUID'', uuid),
                     (''Location'', ''/v2/'' @ fullRepo @ ''/blobs/uploads/'' @ uuid)] NoBody)"

definition upload_too_large :: response where
  "upload_too_large = http_error [] ''upload exceeds maximum size'' 413"

definition chunk_too_large :: response where
  "chunk_too_large =
     (let m = ''upload chunk exceeds maximum size of '' @ FormatInt maxUploadBytes @ '' bytes''
      in reply 413 [(''Content-Type'', ''application/json''), (''X-Registry-Debug-Error'', m)]
           (ErrorsJSON ''UPLOAD_TOO_LARGE'' m))"

text \<open>Both \<^verbatim>\<open>patchUpload\<close> and \<^verbatim>\<open>putUpload\<close> append the request body to the session's object,
  limited to what remains of the maximum, and remove the object when the copy fails. The
  result is the refusal, if the body was not appended in full.\<close>

definition appendBody ::
  "('s, 'w) provider \<Rightarrow> string \<Rightarrow> request \<Rightarrow> int \<Rightarrow> 's \<Rightarrow> response option \<times> 's" where
  "appendBody P tempPath req remaining s =
     (case pv_Appender P tempPath s of
        (Inl e, s1) \<Rightarrow> (Some (err_500 e), s1)
      | (Inr wr, s1) \<Rightarrow>
          (case copy_close P wr (max_bytes remaining (fst (body_of req)) (snd (body_of req))) s1 of
             ((Some e, _), s2) \<Rightarrow>
               (Some (if err_is e MaxBytesError then upload_too_large else err_500 e), snd (pv_Delete P tempPath s2))
           | ((None, Inl e), s2) \<Rightarrow> (Some (err_500 e), s2)
           | ((None, Inr _), s2) \<Rightarrow> (None, s2)))"

definition patchUpload ::
  "('s, 'w, 'd) router \<Rightarrow> request \<Rightarrow> string \<Rightarrow> 's \<Rightarrow> response \<times> 's" where
  "patchUpload R req uuid s =
     (let fullRepo = fst (getRepoContext req); P = rt_storage R; tempPath = UploadPath fullRepo uuid in
      case pv_Stat P tempPath s of
        Inl e \<Rightarrow> ((if err_is e StorageNotFound then http_error [] ''upload not found'' 404 else err_500 e), s)
      | Inr existingSize \<Rightarrow>
          (let remaining = maxUploadBytes - existingSize in
           if remaining < 0 \<or> rq_content_length req > remaining then (chunk_too_large, s)
           else (case appendBody P tempPath req remaining s of
                   (Some resp, s1) \<Rightarrow> (resp, s1)
                 | (None, s1) \<Rightarrow>
                     (case pv_Stat P tempPath s1 of
                        Inl e \<Rightarrow> (err_500 e, s1)
                      | Inr sz \<Rightarrow>
                          (reply 202 [(''Location'', ''/v2/'' @ fullRepo @ ''/blobs/uploads/'' @ uuid),
                              (''Range'', range_to sz), (''Docker-Upload-UUID'', uuid)] NoBody, s1)))))"

subsection \<open>Finalizing an upload\<close>

text \<open>The function run under \<^verbatim>\<open>singleflight\<close>: move the verified file and record it.\<close>

definition finalize ::
  "('s, 'w, 'd) router \<Rightarrow> string \<Rightarrow> quota option \<Rightarrow> string \<Rightarrow> int \<Rightarrow> string \<Rightarrow> string \<Rightarrow>
   ('s, 'd) world \<Rightarrow> unit res \<times> ('s, 'd) world" where
  "finalize R quotaNs quota digest sz tempPath finalPath w =
     (let P = rt_storage R in
      case pv_Stat P finalPath (wd_st w) of
        Inr _ \<Rightarrow> (Inr (), w)
      | Inl se \<Rightarrow>
          (if \<not> err_is se StorageNotFound then (Inl se, w)
           else (case pv_Move P tempPath finalPath (wd_st w) of
                   (Inl e, s1) \<Rightarrow> (Inl e, w\<lparr>wd_st := s1\<rparr>)
                 | (Inr _, s1) \<Rightarrow>
                     (case st_WithTx (rt_db R) (record_blob (rt_db R) quotaNs quota digest sz) (wd_db w) of
                        (Inl e, d1) \<Rightarrow> (Inl e, w\<lparr>wd_st := snd (pv_Delete P finalPath s1), wd_db := d1\<rparr>)
                      | (Inr _, d1) \<Rightarrow> (Inr (), w\<lparr>wd_st := s1, wd_db := d1\<rparr>)))))"

text \<open>The quota check and the finalization, once the content has been verified.\<close>

definition commitUpload ::
  "('s, 'w, 'd) router \<Rightarrow> unit res option \<Rightarrow> string \<Rightarrow> string \<Rightarrow> string \<Rightarrow> int \<Rightarrow> string \<Rightarrow> string \<Rightarrow>
   ('s, 'd) world \<Rightarrow> response \<times> ('s, 'd) world" where
  "commitUpload R shared fullRepo quotaNs digest sz tempPath finalPath w =
     (let P = rt_storage R; dropped = w\<lparr>wd_st := snd (pv_Delete P tempPath (wd_st w))\<rparr> in
      case st_CheckQuota (rt_db R) quotaNs (wd_db w) of
        Inl e \<Rightarrow> (err_500 e, dropped)
      | Inr quota \<Rightarrow>
          (if quota_exceeded quota sz
           then (json_error ''QUOTA_EXCEEDED'' (''namespace '' @ quotaNs @ '' has exceeded its quota of '' @
                   FormatInt (case quota of Some q \<Rightarrow> q_limit q | None \<Rightarrow> 0) @ '' bytes'') 413, dropped)
           else (case (case shared of
                         Some r \<Rightarrow> (r, w)
                       | None \<Rightarrow> finalize R quotaNs quota digest sz tempPath finalPath w) of
                   (Inl e, w1) \<Rightarrow> (err_500 e, w1)
                 | (Inr _, w1) \<Rightarrow>
                     (blob_created fullRepo digest, w1\<lparr>wd_st := snd (pv_Delete P tempPath (wd_st w1))\<rparr>))))"

text \<open>Hashing the session's object.\<close>

definition verifyUpload ::
  "('s, 'w, 'd) router \<Rightarrow> unit res option \<Rightarrow> string \<Rightarrow> string \<Rightarrow> string \<Rightarrow> string \<Rightarrow> string \<Rightarrow>
   ('s, 'd) world \<Rightarrow> response \<times> ('s, 'd) world" where
  "verifyUpload R shared fullRepo quotaNs digest tempPath finalPath w =
     (let P = rt_storage R in
      case pv_Reader P tempPath 0 (wd_st w) of
        Inl e \<Rightarrow> (err_500 e, w)
      | Inr rd \<Rightarrow>
          (case rd_stream rd of
             (cs, ReadErr e) \<Rightarrow> (err_500 e, w)
           | (cs, EOF) \<Rightarrow>
               (case rd_close rd of
                  Inl e \<Rightarrow> (err_500 e, w)
                | Inr _ \<Rightarrow>
                    (let content = concat cs; actualDigest = ''sha256:'' @ rt_sha256 R content in
                     if actualDigest \<noteq> digest
                     then (let m = ''digest mismatch: expected '' @ digest @ '', got '' @ actualDigest
                           in (reply 400 [(''Content-Type'', ''application/json''), (''X-Registry-Debug-Error'', m)]
                                 (ErrorsJSON ''DIGEST_INVALID'' m),
                               w\<lparr>wd_st := snd (pv_Delete P tempPath (wd_st w))\<rparr>))
                     else commitUpload R shared fullRepo quotaNs digest (int (length content)) tempPath finalPath w))))"

definition hasBody :: "request \<Rightarrow> bool" where
  "hasBody req \<longleftrightarrow> rq_body req \<noteq> None \<and> rq_content_length req \<noteq> 0"

definition putUpload ::
  "('s, 'w, 'd) router \<Rightarrow> unit res option \<Rightarrow> request \<Rightarrow> string \<Rightarrow> ('s, 'd) world \<Rightarrow> response \<times> ('s, 'd) world" where
  "putUpload R shared req uuid w =
     (let (fullRepo, quotaNs) = getRepoContext req; digest = rq_query req ''digest''; P = rt_storage R;
          tempPath = UploadPath fullRepo uuid; finalPath = getPath fullRepo digest in
      if digest = [] then (http_error [] ''digest query param required'' 400, w)
      else if map_option snd (rt_digest R digest) \<noteq> Some ''sha256''
      then (http_error [] ''invalid or unsupported digest'' 400, w)
      else case pv_Stat P finalPath (wd_st w) of
        Inr existingSize \<Rightarrow>
          (case st_PutBlob (rt_db R) digest existingSize ''application/octet-stream'' (wd_db w) of
             (Inl e, d1) \<Rightarrow> (err_500 e, w\<lparr>wd_db := d1\<rparr>)
           | (Inr _, d1) \<Rightarrow>
               (blob_created fullRepo digest, w\<lparr>wd_db := d1, wd_st := snd (pv_Delete P tempPath (wd_st w))\<rparr>))
      | Inl fe \<Rightarrow>
          (if \<not> err_is fe StorageNotFound then (err_500 fe, w)
           else
             (case (case pv_Stat P tempPath (wd_st w) of
                      Inr n \<Rightarrow> Inr n
                    | Inl te \<Rightarrow> (if err_is te StorageNotFound
                                then (if hasBody req then Inr 0 else Inl (http_error [] ''upload not found'' 404))
                                else Inl (err_500 te))) of
                Inl resp \<Rightarrow> (resp, w)
              | Inr existingSize \<Rightarrow>
                  (let remaining = maxUploadBytes - existingSize in
                   if hasBody req then
                     (if remaining < 0 \<or> rq_content_length req > remaining then (upload_too_large, w)
                      else (case appendBody P tempPath req remaining (wd_st w) of
                              (Some resp, s1) \<Rightarrow> (resp, w\<lparr>wd_st := s1\<rparr>)
                            | (None, s1) \<Rightarrow>
                                verifyUpload R shared fullRepo quotaNs digest tempPath finalPath (w\<lparr>wd_st := s1\<rparr>)))
                   else verifyUpload R shared fullRepo quotaNs digest tempPath finalPath w))))"

end
