(* ===== verification/Blob_Service.thy ===== *)
theory Blob_Service
  imports Blobs Postgres_Integrity
begin

text \<open>
  What the blob endpoints guarantee over any conforming storage provider and store: the locale
  joins the two interfaces with the router that uses them, and is interpreted on the in-memory
  provider with the PostgreSQL store.
\<close>

text \<open>A namespace's usage raised by \<open>n\<close>, and whether it stays within the limit.\<close>

definition charge :: "string \<Rightarrow> int \<Rightarrow> (string \<Rightarrow> (int \<times> int) option) \<Rightarrow> string \<Rightarrow> (int \<times> int) option" where
  "charge ns n qs = qs(ns := map_option (\<lambda>(l, x). (l, x + n)) (qs ns))"

definition fits :: "string \<Rightarrow> int \<Rightarrow> (string \<Rightarrow> (int \<times> int) option) \<Rightarrow> bool" where
  "fits ns n qs = (case qs ns of None \<Rightarrow> True | Some (l, x) \<Rightarrow> x + n \<le> l)"

locale blob_service =
  storage_provider P view canon sinv ready + registry_store S dinv quo man blb imm
  for P :: "('s, 'w) provider" and view canon sinv ready
    and S :: "'d store" and dinv quo man blb imm +
  fixes R :: "('s, 'w, 'd) router"
  assumes R_storage: "rt_storage R = P" and R_db: "rt_db R = S"
begin

lemma record_blob_ok:
  assumes "dinv d" "record_blob S ns q dg n d = (Inr u, d')"
  shows "dinv d' \<and> blb d' dg \<noteq> None \<and> man d' = man d \<and> imm d' = imm d \<and>
         quo d' = (if q = None then quo d else charge ns n (quo d)) \<and>
         (q \<noteq> None \<longrightarrow> (\<forall>l x. quo d ns = Some (l, x) \<longrightarrow> int64 (x + n)))"
proof -
  obtain d1 where pb: "st_PutBlob S dg n ''application/octet-stream'' d = (Inr (), d1)"
    and rest: "(case q of None \<Rightarrow> (Inr (), d1) | Some _ \<Rightarrow> st_UpdateQuotaUsage S ns n d1) = (Inr u, d')"
    using assms(2) by (auto simp: record_blob_def split: prod.splits sum.splits)
  note p = put_blob_ok [OF assms(1) pb] put_blob_inv [OF assms(1) pb]
  show ?thesis
  proof (cases q)
    case None
    then show ?thesis using p rest by auto
  next
    case (Some x)
    then have up: "st_UpdateQuotaUsage S ns n d1 = (Inr u, d')" using rest by simp
    have i1: "dinv d1" using p by blast
    from update_quota_ok [OF i1 up] update_quota_inv [OF i1 up] update_quota_range [OF i1 up] p Some
    show ?thesis by (auto simp: charge_def)
  qed
qed

lemma record_blob_inv: "dinv d \<Longrightarrow> record_blob S ns q dg n d = (r, d') \<Longrightarrow> dinv d'"
proof -
  assume a: "dinv d" "record_blob S ns q dg n d = (r, d')"
  obtain pr d1 where pb: "st_PutBlob S dg n ''application/octet-stream'' d = (pr, d1)" by force
  have i1: "dinv d1" using put_blob_inv [OF a(1) pb] by blast
  obtain ur d2 where up: "st_UpdateQuotaUsage S ns n d1 = (ur, d2)" by force
  show ?thesis using a pb up i1 update_quota_inv [OF i1 up]
    by (auto simp: record_blob_def split: sum.splits option.splits)
qed

text \<open>Recording under the quota that was checked charges exactly the size, and only if it fits.\<close>

lemma record_blob_tx:
  assumes "dinv d" "st_CheckQuota S ns d = Inr q" "\<not> quota_exceeded q n"
    and "st_WithTx S (record_blob S ns q dg n) d = (r, d')"
  shows "dinv d' \<and> man d' = man d \<and> imm d' = imm d \<and>
         (is_ok r \<longrightarrow> blb d' dg \<noteq> None \<and> quo d' = charge ns n (quo d) \<and> fits ns n (quo d)) \<and>
         (\<not> is_ok r \<longrightarrow> quo d' = quo d \<and> blb d' = blb d)"
proof (cases r)
  case (Inl e)
  then show ?thesis using tx_fail [OF assms(1) _, of "record_blob S ns q dg n" e d'] record_blob_inv assms by auto
next
  case (Inr u)
  then have "record_blob S ns q dg n d = (Inr (), d')" using tx_ok assms by blast
  note ok = record_blob_ok [OF assms(1) this]
  have cq: "quo d ns = map_option (\<lambda>q. (q_limit q, q_used q)) q" using check_quota assms by blast
  have "quo d' = charge ns n (quo d) \<and> fits ns n (quo d)"
    using ok cq assms(3) by (cases q) (auto simp: charge_def fits_def quota_exceeded_def fun_upd_idem)
  with ok Inr show ?thesis by auto
qed

text \<open>Appending: on success the object is the old content followed by the whole body, within the
  limit; a refusal touches no other object.\<close>

lemma appendBody_spec:
  assumes "sinv s" "0 \<le> remaining" "appendBody P path req remaining s = (r, s')"
  shows "sinv s' \<and> (\<forall>q. canon q \<noteq> canon path \<longrightarrow> view s' q = view s q) \<and>
    (r = None \<longrightarrow> snd (body_of req) = EOF \<and> int (length (concat (fst (body_of req)))) \<le> remaining \<and>
       view s' path = Some ((case view s path of None \<Rightarrow> [] | Some d \<Rightarrow> d) @ concat (fst (body_of req)))) \<and>
    (r \<noteq> None \<longrightarrow> 400 \<le> rs_status (the r))"
proof -
  let ?st = "max_bytes remaining (fst (body_of req)) (snd (body_of req))"
  obtain ra s1 where a: "pv_Appender P path s = (ra, s1)" by force
  note fr = appender_frame [OF assms(1) a]
  show ?thesis
  proof (cases ra)
    case (Inl e)
    then show ?thesis using assms(3) a fr by (auto simp: appendBody_def err_500_def)
  next
    case (Inr wr)
    let ?d = "case view s path of None \<Rightarrow> [] | Some d \<Rightarrow> d"
    have rd: "ready wr path s1 ?d" using appender_ready [OF assms(1)] a Inr by blast
    obtain ce cr s2 where c: "copy_close P wr ?st s1 = ((ce, cr), s2)" by (metis prod.exhaust)
    from fr have i1: "sinv s1" and f1: "\<forall>q. canon q \<noteq> canon path \<longrightarrow> view s1 q = view s q" by auto
    note cc = copy_close_spec [OF i1 rd c]
    show ?thesis
    proof (cases ce)
      case (Some e)
      obtain dr s3 where d: "pv_Delete P path s2 = (dr, s3)" by force
      have "s' = s3" "r \<noteq> None" "400 \<le> rs_status (the r)"
        using assms(3) a Inr c Some d by (auto simp: appendBody_def err_500_def upload_too_large_def)
      moreover have "sinv s3 \<and> (\<forall>q. canon q \<noteq> canon path \<longrightarrow> view s3 q = view s2 q)"
        using delete_frame [OF _ d] cc by blast
      ultimately show ?thesis using cc f1 by auto
    next
      case None
      show ?thesis
      proof (cases cr)
        case (Inl e)
        then show ?thesis using assms(3) a Inr c None cc f1 by (auto simp: appendBody_def err_500_def)
      next
        case (Inr u)
        with None cc have v: "snd ?st = EOF" "view s2 path = Some (?d @ concat (fst ?st))" by auto
        have b: "fst ?st = fst (body_of req) \<and> snd (body_of req) = EOF \<and> int (length (concat (fst (body_of req)))) \<le> remaining"
          using max_bytes_EOF [of remaining "fst (body_of req)" "snd (body_of req)" "fst ?st"] v(1) assms(2)
          by (metis prod.collapse)
        have "r = None" "s' = s2" using assms(3) a \<open>ra = Inr wr\<close> c None Inr by (auto simp: appendBody_def)
        then show ?thesis using v b cc f1 by auto
      qed
    qed
  qed
qed

text \<open>The outcome of a finalization, on the final object and the quota: nothing changed, or the
  content of the session was moved there and charged; a failed transaction may leave the moved
  object behind if it cannot be deleted.\<close>

lemma finalize_spec:
  assumes inv: "sinv (wd_st w)" "dinv (wd_db w)" and c: "view (wd_st w) temp = Some c" "canon temp \<noteq> canon final"
    and q: "st_CheckQuota S ns (wd_db w) = Inr q" "\<not> quota_exceeded q (int (length c))"
    and f: "finalize R ns q dg (int (length c)) temp final w = (r, w')"
  shows "sinv (wd_st w') \<and> dinv (wd_db w') \<and> man (wd_db w') = man (wd_db w) \<and>
    (\<forall>k. canon k \<noteq> canon temp \<longrightarrow> canon k \<noteq> canon final \<longrightarrow> view (wd_st w') k = view (wd_st w) k) \<and>
    (is_ok r \<longrightarrow> w' = w \<and> is_ok (pv_Stat P final (wd_st w)) \<or>
       view (wd_st w) final = None \<and> view (wd_st w') final = Some c \<and>
       quo (wd_db w') = charge ns (int (length c)) (quo (wd_db w)) \<and> fits ns (int (length c)) (quo (wd_db w))) \<and>
    (\<not> is_ok r \<longrightarrow> quo (wd_db w') = quo (wd_db w) \<and>
       (view (wd_st w') final = view (wd_st w) final \<or> view (wd_st w) final = None \<and> view (wd_st w') final = Some c))"
proof (cases "pv_Stat P final (wd_st w)")
  case (Inr n)
  then show ?thesis using f inv by (auto simp: finalize_def R_storage)
next
  case (Inl se)
  show ?thesis
  proof (cases "err_is se StorageNotFound")
    case False
    then show ?thesis using Inl f inv by (auto simp: finalize_def R_storage)
  next
    case True
    then have none: "view (wd_st w) final = None" using stat_missing inv Inl by blast
    obtain mr s1 where m: "pv_Move P temp final (wd_st w) = (mr, s1)" by force
    note mv = move_spec [OF inv(1) c m]
    obtain tr d1 where t: "st_WithTx S (record_blob S ns q dg (int (length c))) (wd_db w) = (tr, d1)" by force
    note tx = record_blob_tx [OF inv(2) q t]
    obtain dr s2 where d: "pv_Delete P final s1 = (dr, s2)" by force
    have ds: "sinv s2 \<and> (\<forall>k. canon k \<noteq> canon final \<longrightarrow> view s2 k = view s1 k) \<and> (view s2 final = None \<or> view s2 final = view s1 final)"
      using delete_spec [OF _ d] mv by blast
    have "(r, w') = (case mr of Inl e \<Rightarrow> (Inl e, w\<lparr>wd_st := s1\<rparr>)
        | Inr _ \<Rightarrow> (case tr of Inl e \<Rightarrow> (Inl e, w\<lparr>wd_st := s2, wd_db := d1\<rparr>) | Inr _ \<Rightarrow> (Inr (), w\<lparr>wd_st := s1, wd_db := d1\<rparr>)))"
      using f Inl True m t d by (auto simp: finalize_def R_storage R_db split: sum.splits)
    then show ?thesis using mv tx ds none inv by (cases mr; cases tr) auto
  qed
qed

text \<open>What any run of \<^verbatim>\<open>putUpload\<close> leaves behind. Either the final object and the quota are as
  before, and a 201 then means that the object exists (or that the provider reports an object it
  cannot read); or the object is new, its content hashes to the digest, and a 201 means that
  exactly its size was charged and fits the quota.\<close>

definition phantom :: "string \<Rightarrow> bool" where
  "phantom p \<longleftrightarrow> (\<exists>s n. sinv s \<and> pv_Stat P p s = Inr n \<and> view s p = None)"

definition outcome ::
  "string \<Rightarrow> string \<Rightarrow> string \<Rightarrow> string \<Rightarrow> ('s, 'd) world \<Rightarrow> response \<Rightarrow> ('s, 'd) world \<Rightarrow> bool" where
  "outcome ns dg temp final w resp w' \<longleftrightarrow>
     sinv (wd_st w') \<and> dinv (wd_db w') \<and> man (wd_db w') = man (wd_db w) \<and>
     (\<forall>k. canon k \<noteq> canon temp \<longrightarrow> canon k \<noteq> canon final \<longrightarrow> view (wd_st w') k = view (wd_st w) k) \<and>
     (view (wd_st w') final = view (wd_st w) final \<and> quo (wd_db w') = quo (wd_db w) \<and>
        (rs_status resp = 201 \<longrightarrow> view (wd_st w) final \<noteq> None \<or> phantom final) \<or>
      view (wd_st w) final = None \<and>
        (\<exists>c. view (wd_st w') final = Some c \<and> dg = ''sha256:'' @ rt_sha256 R c \<and>
           (if rs_status resp = 201
            then quo (wd_db w') = charge ns (int (length c)) (quo (wd_db w)) \<and> fits ns (int (length c)) (quo (wd_db w))
            else quo (wd_db w') = quo (wd_db w))))"

lemma outcome_refused:
  assumes "sinv s'" "dinv (wd_db w)" "rs_status resp \<noteq> 201" "view s' final = view (wd_st w) final"
    and "\<forall>k. canon k \<noteq> canon temp \<longrightarrow> canon k \<noteq> canon final \<longrightarrow> view s' k = view (wd_st w) k"
  shows "outcome ns dg temp final w resp (w\<lparr>wd_st := s'\<rparr>)"
  using assms by (simp add: outcome_def)

lemma delete_other:
  assumes "sinv s" "canon temp \<noteq> canon final"
  shows "sinv (snd (pv_Delete P temp s)) \<and> view (snd (pv_Delete P temp s)) final = view s final \<and>
    (\<forall>k. canon k \<noteq> canon temp \<longrightarrow> view (snd (pv_Delete P temp s)) k = view s k)"
  using delete_frame [OF assms(1), of temp "fst (pv_Delete P temp s)" "snd (pv_Delete P temp s)"] assms(2) by auto

text \<open>Two worlds that agree outside the session's object give the same outcome.\<close>

lemma outcome_before:
  assumes "outcome ns dg temp final (w\<lparr>wd_st := s1\<rparr>) resp w'"
    and "\<forall>k. canon k \<noteq> canon temp \<longrightarrow> view s1 k = view (wd_st w) k" "canon temp \<noteq> canon final"
  shows "outcome ns dg temp final w resp w'"
  using assms by (auto simp: outcome_def)

lemma outcome_after:
  assumes "outcome ns dg temp final w resp w1" "canon temp \<noteq> canon final" "rs_status resp' = rs_status resp"
  shows "outcome ns dg temp final w resp' (w1\<lparr>wd_st := snd (pv_Delete P temp (wd_st w1))\<rparr>)"
  using assms delete_other [of "wd_st w1" temp final] by (auto simp: outcome_def)

lemma commitUpload_spec:
  assumes inv: "sinv (wd_st w)" "dinv (wd_db w)" and c: "view (wd_st w) temp = Some c" "canon temp \<noteq> canon final"
    and dg: "dg = ''sha256:'' @ rt_sha256 R c"
    and f: "commitUpload R None repo ns dg (int (length c)) temp final w = (resp, w')"
  shows "outcome ns dg temp final w resp w'"
proof -
  let ?n = "int (length c)"
  have dropped: "rs_status rp \<noteq> 201 \<Longrightarrow> outcome ns dg temp final w rp (w\<lparr>wd_st := snd (pv_Delete P temp (wd_st w))\<rparr>)" for rp
    using delete_other [OF inv(1) c(2)] inv by (intro outcome_refused) auto
  show ?thesis
  proof (cases "st_CheckQuota S ns (wd_db w)")
    case (Inl e)
    then show ?thesis using f dropped by (auto simp: commitUpload_def R_db R_storage Let_def err_500_def)
  next
    case (Inr q)
    show ?thesis
    proof (cases "quota_exceeded q ?n")
      case True
      then show ?thesis using f dropped Inr by (auto simp: commitUpload_def R_db R_storage Let_def)
    next
      case False
      obtain r w1 where fin: "finalize R ns q dg ?n temp final w = (r, w1)" by force
      note fs = finalize_spec [OF inv c Inr False fin]
      have res: "(resp, w') = (case r of Inl e \<Rightarrow> (err_500 e, w1)
          | Inr _ \<Rightarrow> (blob_created repo dg, w1\<lparr>wd_st := snd (pv_Delete P temp (wd_st w1))\<rparr>))"
        using f Inr False fin by (auto simp: commitUpload_def R_db R_storage Let_def split: sum.splits)
      show ?thesis
      proof (cases r)
        case (Inl e)
        then show ?thesis using res fs dg by (auto simp: outcome_def err_500_def)
      next
        case (Inr u)
        have "outcome ns dg temp final w (blob_created repo dg) w1"
          using fs Inr dg inv unfolding outcome_def phantom_def is_ok_iff
          by (auto simp: blob_created_def)
        from outcome_after [OF this c(2)] Inr res show ?thesis by auto
      qed
    qed
  qed
qed

lemma verifyUpload_spec:
  assumes inv: "sinv (wd_st w)" "dinv (wd_db w)" and ne: "canon temp \<noteq> canon final"
    and f: "verifyUpload R None repo ns dg temp final w = (resp, w')"
  shows "outcome ns dg temp final w resp w'"
proof -
  have same: "rs_status rp \<noteq> 201 \<Longrightarrow> outcome ns dg temp final w rp w" for rp
    using inv outcome_refused [of "wd_st w" w rp final temp ns dg] by simp
  show ?thesis
  proof (cases "\<exists>rd cs u. pv_Reader P temp 0 (wd_st w) = Inr rd \<and> rd_stream rd = (cs, EOF) \<and> rd_close rd = Inr u")
    case False
    then show ?thesis using f same
      by (auto simp: verifyUpload_def R_storage err_500_def split: sum.splits prod.splits read_end.splits)
  next
    case True
    then obtain rd cs u where rd: "pv_Reader P temp 0 (wd_st w) = Inr rd" "rd_stream rd = (cs, EOF)" "rd_close rd = Inr u" by blast
    then obtain c where c: "view (wd_st w) temp = Some c" "concat cs = c" using reader_ok [OF inv(1) _ rd(1,2)] by auto
    show ?thesis
    proof (cases "''sha256:'' @ rt_sha256 R c = dg")
      case True
      then have "commitUpload R None repo ns dg (int (length c)) temp final w = (resp, w')"
        using f rd c by (simp add: verifyUpload_def R_storage Let_def)
      from commitUpload_spec [OF inv c(1) ne _ this] True show ?thesis by auto
    next
      case False
      then show ?thesis
        using f rd c delete_other [OF inv(1) ne] inv
        by (auto simp: verifyUpload_def R_storage Let_def intro!: outcome_refused)
    qed
  qed
qed

lemma putUpload_spec:
  assumes inv: "sinv (wd_st w)" "dinv (wd_db w)"
    and ctx: "getRepoContext req = (repo, ns)" "temp = UploadPath repo uuid" "final = getPath repo dg" "dg = rq_query req ''digest''"
    and ne: "canon temp \<noteq> canon final"
    and f: "putUpload R None req uuid w = (resp, w')"
  shows "outcome ns dg temp final w resp w'"
proof -
  have same: "rs_status rp \<noteq> 201 \<Longrightarrow> outcome ns dg temp final w rp w" for rp
    using inv outcome_refused [of "wd_st w" w rp final temp ns dg] by simp
  consider (bad) "dg = [] \<or> map_option snd (rt_digest R dg) \<noteq> Some ''sha256''"
    | (exists) n where "dg \<noteq> []" "map_option snd (rt_digest R dg) = Some ''sha256''" "pv_Stat P final (wd_st w) = Inr n"
    | (new) e where "dg \<noteq> []" "map_option snd (rt_digest R dg) = Some ''sha256''" "pv_Stat P final (wd_st w) = Inl e"
    by (cases "pv_Stat P final (wd_st w)") blast+
  then show ?thesis
  proof cases
    case bad
    then have "resp \<in> {http_error [] ''digest query param required'' 400, http_error [] ''invalid or unsupported digest'' 400}"
        "w' = w" using f ctx by (auto simp: putUpload_def Let_def split: if_splits)
    then show ?thesis using same by auto
  next
    case exists
    obtain pr d1 where pb: "st_PutBlob S dg n ''application/octet-stream'' (wd_db w) = (pr, d1)" by force
    have vis: "view (wd_st w) final \<noteq> None \<or> phantom final" using exists(3) inv by (auto simp: phantom_def)
    note del = delete_other [OF inv(1) ne]
    note i1 = put_blob_inv [OF inv(2) pb]
    have "(resp, w') = (case pr of Inl e \<Rightarrow> (err_500 e, w\<lparr>wd_db := d1\<rparr>)
        | Inr _ \<Rightarrow> (blob_created repo dg, w\<lparr>wd_db := d1, wd_st := snd (pv_Delete P temp (wd_st w))\<rparr>))"
      using f exists pb ctx by (auto simp: putUpload_def R_storage R_db Let_def split: sum.splits)
    then show ?thesis using i1 del vis inv
      by (cases pr) (auto simp: outcome_def blob_created_def err_500_def)
  next
    case new
    let ?ex = "case pv_Stat P temp (wd_st w) of Inr n \<Rightarrow> Inr n
        | Inl te \<Rightarrow> (if err_is te StorageNotFound then (if hasBody req then Inr 0 else Inl (http_error [] ''upload not found'' 404))
                    else Inl (err_500 te))"
    have res: "(resp, w') = (if \<not> err_is e StorageNotFound then (err_500 e, w)
        else case ?ex of Inl rp \<Rightarrow> (rp, w)
        | Inr n \<Rightarrow> if hasBody req
            then if maxUploadBytes - n < 0 \<or> rq_content_length req > maxUploadBytes - n then (upload_too_large, w)
                 else (case appendBody P temp req (maxUploadBytes - n) (wd_st w) of
                    (Some rp, s1) \<Rightarrow> (rp, w\<lparr>wd_st := s1\<rparr>)
                  | (None, s1) \<Rightarrow> verifyUpload R None repo ns dg temp final (w\<lparr>wd_st := s1\<rparr>))
            else verifyUpload R None repo ns dg temp final w)"
      unfolding f [symmetric] putUpload_def Let_def ctx(1) prod.case ctx(4) [symmetric] ctx(2) [symmetric] ctx(3) [symmetric]
        R_storage R_db
      using new by simp
    have exl: "?ex = Inl rp \<Longrightarrow> 400 \<le> rs_status rp" for rp
      by (auto simp: err_500_def split: sum.splits if_splits)
    consider (early) "w' = w" "400 \<le> rs_status resp"
      | (append) n where "0 \<le> maxUploadBytes - n" "(resp, w') = (case appendBody P temp req (maxUploadBytes - n) (wd_st w) of
                    (Some rp, s1) \<Rightarrow> (rp, w\<lparr>wd_st := s1\<rparr>)
                  | (None, s1) \<Rightarrow> verifyUpload R None repo ns dg temp final (w\<lparr>wd_st := s1\<rparr>))"
      | (verify) "verifyUpload R None repo ns dg temp final w = (resp, w')"
    proof (cases "err_is e StorageNotFound \<and> (\<exists>n. ?ex = Inr n)")
      case False
      show ?thesis
      proof (cases "err_is e StorageNotFound")
        case True
        with False obtain rp where rp: "?ex = Inl rp" by (cases ?ex) blast+
        with res True have "(resp, w') = (rp, w)" unfolding rp by simp
        with exl [OF rp] that(1) show ?thesis by simp
      next
        case False
        with res that(1) show ?thesis by (simp add: err_500_def)
      qed
    next
      case True
      then obtain n where n: "?ex = Inr n" by blast
      have r2: "(resp, w') = (if hasBody req
            then if maxUploadBytes - n < 0 \<or> rq_content_length req > maxUploadBytes - n then (upload_too_large, w)
                 else (case appendBody P temp req (maxUploadBytes - n) (wd_st w) of
                    (Some rp, s1) \<Rightarrow> (rp, w\<lparr>wd_st := s1\<rparr>)
                  | (None, s1) \<Rightarrow> verifyUpload R None repo ns dg temp final (w\<lparr>wd_st := s1\<rparr>))
            else verifyUpload R None repo ns dg temp final w)"
        using res True unfolding n by simp
      show ?thesis
      proof (cases "hasBody req \<and> \<not> (maxUploadBytes - n < 0 \<or> rq_content_length req > maxUploadBytes - n)")
        case True
        then show ?thesis using r2 by (intro that(2) [of n]) auto
      next
        case False
        then show ?thesis using r2 that(1,3) by (auto simp: upload_too_large_def split: if_splits)
      qed
    qed
    then show ?thesis
    proof cases
      case early
      then show ?thesis using same by auto
    next
      case append
      obtain ar s1 where a: "appendBody P temp req (maxUploadBytes - n) (wd_st w) = (ar, s1)" by force
      note as = appendBody_spec [OF inv(1) append(1) a]
      show ?thesis
      proof (cases ar)
        case (Some rp)
        then show ?thesis using as append(2) a inv ne by (auto intro!: outcome_refused)
      next
        case None
        then have "verifyUpload R None repo ns dg temp final (w\<lparr>wd_st := s1\<rparr>) = (resp, w')" using append(2) a by simp
        with as inv have "outcome ns dg temp final (w\<lparr>wd_st := s1\<rparr>) resp w'"
          by (intro verifyUpload_spec [OF _ _ ne]) auto
        then show ?thesis using outcome_before as ne by blast
      qed
    next
      case verify
      then show ?thesis using verifyUpload_spec [OF inv ne] by blast
    qed
  qed
qed

subsection \<open>Appending and mounting\<close>

lemma patchUpload_spec:
  assumes inv: "sinv s" and old: "view s temp = Some old" and temp: "temp = UploadPath (fst (getRepoContext req)) uuid"
    and f: "patchUpload R req uuid s = (resp, s')"
  shows "sinv s' \<and> (\<forall>k. canon k \<noteq> canon temp \<longrightarrow> view s' k = view s k) \<and>
    (if rs_status resp = 202
     then view s' temp = Some (old @ concat (fst (body_of req))) \<and>
          int (length (old @ concat (fst (body_of req)))) \<le> maxUploadBytes \<and>
          header_of resp ''Range'' = Some (range_to (int (length (old @ concat (fst (body_of req))))))
     else 400 \<le> rs_status resp)"
proof -
  have st: "pv_Stat P temp s = Inr (int (length old))" using stat_sees [OF inv old] .
  let ?rem = "maxUploadBytes - int (length old)"
  show ?thesis
  proof (cases "?rem < 0 \<or> rq_content_length req > ?rem")
    case True
    then show ?thesis using f st inv temp by (auto simp: patchUpload_def R_storage Let_def chunk_too_large_def)
  next
    case False
    obtain ar s1 where a: "appendBody P temp req ?rem s = (ar, s1)" by force
    have "0 \<le> ?rem" using False by simp
    note as = appendBody_spec [OF inv this a]
    show ?thesis
    proof (cases ar)
      case (Some rp)
      then have "resp = rp" "s' = s1" using f st False a temp by (auto simp: patchUpload_def R_storage Let_def)
      then show ?thesis using as Some by auto
    next
      case None
      then have v: "view s1 temp = Some (old @ concat (fst (body_of req)))" "sinv s1" using as old by auto
      then have "pv_Stat P temp s1 = Inr (int (length (old @ concat (fst (body_of req)))))" using stat_sees by blast
      then have "s' = s1" "resp = reply 202 [(''Location'', ''/v2/'' @ fst (getRepoContext req) @ ''/blobs/uploads/'' @ uuid),
                 (''Range'', range_to (int (length (old @ concat (fst (body_of req)))))), (''Docker-Upload-UUID'', uuid)] NoBody"
        using f st False a None temp by (auto simp: patchUpload_def R_storage Let_def)
      then show ?thesis using as None v by (auto simp: header_of_def)
    qed
  qed
qed

lemma mountCopy_spec:
  assumes inv: "sinv (wd_st w)" "dinv (wd_db w)" and ne: "canon from \<noteq> canon target"
    and q: "st_CheckQuota S ns (wd_db w) = Inr q" "\<not> quota_exceeded q n" and target: "target = getPath repo dg"
    and f: "mountCopy R repo ns from dg q n w = (ro, w')" "ro = Some resp" "rs_status resp = 201"
  shows "\<exists>c. view (wd_st w) from = Some c \<and> view (wd_st w') target = Some c \<and> sinv (wd_st w') \<and> dinv (wd_db w') \<and>
    (\<forall>k. canon k \<noteq> canon target \<longrightarrow> view (wd_st w') k = view (wd_st w) k) \<and>
    quo (wd_db w') = charge ns n (quo (wd_db w)) \<and> fits ns n (quo (wd_db w))"
proof -
  obtain rd where rd: "pv_Reader P from 0 (wd_st w) = Inr rd"
    using f by (cases "pv_Reader P from 0 (wd_st w)") (auto simp: mountCopy_def R_storage Let_def)
  obtain wr s1 where wr: "pv_Writer P target (wd_st w) = (Inr wr, s1)"
    using f rd by (auto simp: mountCopy_def R_storage target Let_def split: sum.splits prod.splits)
  obtain ce cr s2 where cc: "copy_close P wr (rd_stream rd) s1 = ((ce, cr), s2)" by (metis prod.exhaust)
  obtain tr d1 where t: "st_WithTx S (record_blob S ns q dg n) (wd_db w) = (tr, d1)" by force
  have ok: "ce = None \<and> is_ok cr \<and> is_ok tr \<and> w' = w\<lparr>wd_st := s2, wd_db := d1\<rparr>"
    using f rd wr cc t unfolding mountCopy_def R_storage R_db Let_def target [symmetric]
    by (auto simp: err_500_def is_ok_iff split: sum.splits option.splits)
  note w1 = writer_ready [OF inv(1) wr] writer_frame [OF inv(1) wr]
  from w1 have i1: "sinv s1" "ready wr target s1 []" by auto
  note c2 = copy_close_spec [OF i1 cc]
  then have v: "snd (rd_stream rd) = EOF" "view s2 target = Some (concat (fst (rd_stream rd)))" using ok by auto
  obtain c where c: "view (wd_st w) from = Some c" "concat (fst (rd_stream rd)) = c"
    using reader_ok [OF inv(1) _ rd, of "fst (rd_stream rd)"] v(1) by (auto simp: prod_eq_iff)
  note tx = record_blob_tx [OF inv(2) q t]
  show ?thesis using ok c v w1 c2 tx by auto
qed

text \<open>A mount that answers 201 leaves the target with the source's content, or as it was if it
  existed.\<close>

lemma startUpload_mount_spec:
  assumes inv: "sinv (wd_st w)" "dinv (wd_db w)" and ctx: "getRepoContext req = (repo, ns)"
    and dg: "rt_digest R (rq_query req ''mount'') = Some (dg, alg)"
    and paths: "from = getPath (rq_query req ''from'') dg" "target = getPath repo dg" "canon from \<noteq> canon target"
    and f: "mountBlob R req w = (Some resp, w')" "rs_status resp = 201"
  shows "(w' = w \<and> is_ok (pv_Stat P target (wd_st w)) \<or>
     (\<exists>c. view (wd_st w) target = None \<and> view (wd_st w) from = Some c \<and> view (wd_st w') target = Some c \<and>
        (\<forall>k. canon k \<noteq> canon target \<longrightarrow> view (wd_st w') k = view (wd_st w) k) \<and>
        quo (wd_db w') = charge ns (int (length c)) (quo (wd_db w)) \<and> fits ns (int (length c)) (quo (wd_db w)))) \<and>
     sinv (wd_st w') \<and> dinv (wd_db w')"
proof -
  obtain n where n: "pv_Stat P from (wd_st w) = Inr n"
    using f dg ctx by (auto simp: mountBlob_def R_storage paths Let_def split: sum.splits if_splits)
  show ?thesis
  proof (cases "pv_Stat P target (wd_st w)")
    case (Inr k)
    then show ?thesis using f dg ctx n inv by (auto simp: mountBlob_def R_storage paths Let_def split: if_splits)
  next
    case (Inl te)
    obtain q where q: "err_is te StorageNotFound" "st_CheckQuota S ns (wd_db w) = Inr q" "\<not> quota_exceeded q n"
        "mountCopy R repo ns from dg q n w = (Some resp, w')"
      using f dg ctx n Inl by (auto simp: mountBlob_def R_storage R_db paths Let_def err_500_def split: if_splits sum.splits)
    then have "view (wd_st w) target = None" using stat_missing inv(1) Inl by blast
    moreover have "view (wd_st w) from = Some c \<Longrightarrow> n = int (length c)" for c using stat_ok [OF inv(1) n] by blast
    ultimately show ?thesis
      using mountCopy_spec [OF inv paths(3) q(2,3) paths(2) q(4) refl f(2)] by auto
  qed
qed

end

text \<open>The in-memory provider with the PostgreSQL store.\<close>

definition on_mem_pg :: "(string \<Rightarrow> string \<Rightarrow> bool) \<Rightarrow> (mem, mem_writer, db) router \<Rightarrow> (mem, mem_writer, db) router" where
  "on_mem_pg bc R = R\<lparr>rt_db := pg_store bc, rt_storage := memory_provider\<rparr>"

lemma on_mem_pg_simps [simp]:
  "rt_db (on_mem_pg bc R) = pg_store bc" "rt_storage (on_mem_pg bc R) = memory_provider"
  "rt_sha256 (on_mem_pg bc R) = rt_sha256 R" "rt_digest (on_mem_pg bc R) = rt_digest R"
  "rt_json (on_mem_pg bc R) = rt_json R" "rt_refs (on_mem_pg bc R) = rt_refs R"
  "rt_report (on_mem_pg bc R) = rt_report R" "rt_upstream (on_mem_pg bc R) = rt_upstream R"
  "rt_proxy (on_mem_pg bc R) = rt_proxy R" "rt_vulnGate (on_mem_pg bc R) = rt_vulnGate R"
  "rt_uuid (on_mem_pg bc R) = rt_uuid R"
  by (simp_all add: on_mem_pg_def)

interpretation mp: blob_service memory_provider "\<lambda>m. m" "\<lambda>p. p" "\<lambda>_. True" mem_ready
  "pg_store bc" pg_inv pg_quo pg_man pg_blb pg_imm "on_mem_pg bc R" for bc R
  by unfold_locales simp_all

end
