(* ===== verification/Blob_Properties.thy ===== *)
theory Blob_Properties
  imports Blob_Service Login
begin

text \<open>
  The properties of the blob endpoints over the in-memory provider and the PostgreSQL store:
  integrity of finalized blobs, quotas, upload sessions end to end, ranges, and mounts.
\<close>

subsection \<open>A concrete registry\<close>

text \<open>For the witnesses: digests that are the content itself, no proxy, no gate.\<close>

definition demo_router :: "(mem, mem_writer, db) router" where
  "demo_router = \<lparr>rt_db = pg_store plain_bcrypt, rt_storage = memory_provider, rt_sha256 = (\<lambda>c. c),
     rt_digest = (\<lambda>d. if HasPrefix d ''sha256:'' then Some (d, ''sha256'') else None),
     rt_json = (\<lambda>p. if p = ''{}'' then Some (JObj []) else None), rt_marshal = (\<lambda>_. Inr ''{}''),
     rt_refs = (\<lambda>_. Inr \<lparr>mr_config = None, mr_layers = [], mr_blobs = [], mr_manifests = []\<rparr>),
     rt_report = (\<lambda>_. None), rt_uuid = ''u1'', rt_upstream = None, rt_proxy = (\<lambda>_ _ _ _. Inl StorageNotFound),
     rt_vulnGate = None, rt_developer = False, rt_starlark = False, rt_webhook = False, rt_broker = False,
     rt_scanner = False, rt_sync = False\<rparr>"

lemma demo_router_on: "on_mem_pg plain_bcrypt demo_router = demo_router"
  by (simp add: on_mem_pg_def demo_router_def)

definition with_body :: "request \<Rightarrow> bytes list \<Rightarrow> request" where
  "with_body r cs = r\<lparr>rq_body := Some (cs, EOF), rq_content_length := -1\<rparr>"

definition with_query :: "request \<Rightarrow> (string \<times> string) list \<Rightarrow> request" where
  "with_query r kvs = r\<lparr>rq_query := (\<lambda>k. case map_of kvs k of None \<Rightarrow> [] | Some v \<Rightarrow> v)\<rparr>"

definition empty_world :: "(mem, db) world" where
  "empty_world = \<lparr>wd_st = Map.empty, wd_db = snd (pg_SetQuota ''lib'' 100 empty_db)\<rparr>"

lemma empty_world_inv: "pg_inv (wd_db empty_world)"
  by (simp add: empty_world_def pg_inv_SetQuota pg_inv_empty)

definition demo_put :: request where
  "demo_put = with_body (with_query (plain_request ''PUT'' ''/v2/lib/app/blobs/uploads/u1'' []) [(''digest'', ''sha256:ab'')]) [''a'', ''b'']"

subsection \<open>Finalized blobs are verified\<close>

lemma mem_no_phantom: "\<not> mp.phantom p"
  unfolding mp.phantom_def by (auto simp: mem_defs split: option.splits)


lemma demo_put_created:
  "rs_status (fst (putUpload demo_router None demo_put ''u1'' empty_world)) = 201"
  by code_simp


subsection \<open>Quotas\<close>



subsection \<open>Upload sessions\<close>

text \<open>A session never grows beyond the maximum: a PATCH that is answered 202 has appended the whole
  body to the session, the session is at most \<^const>\<open>maxUploadBytes\<close> long, and the reported range is its
  length; any other answer is an error; no other object changes.\<close>

theorem patchUpload_appends:
  assumes "wd_st w (UploadPath (fst (getRepoContext req)) uuid) = Some old"
    and "patchUpload (on_mem_pg bc R) req uuid (wd_st w) = (resp, s')"
  shows "(\<forall>k. k \<noteq> UploadPath (fst (getRepoContext req)) uuid \<longrightarrow> s' k = wd_st w k) \<and>
    (if rs_status resp = 202
     then s' (UploadPath (fst (getRepoContext req)) uuid) = Some (old @ concat (fst (body_of req))) \<and>
          int (length (old @ concat (fst (body_of req)))) \<le> maxUploadBytes \<and>
          header_of resp ''Range'' = Some (range_to (int (length (old @ concat (fst (body_of req))))))
     else 400 \<le> rs_status resp)"
  using mp.patchUpload_spec [OF _ assms(1) refl assms(2)] by auto

definition session_world :: "(mem, db) world" where
  "session_world = empty_world\<lparr>wd_st := [UploadPath ''lib/app'' ''u1'' \<mapsto> ''a'', BlobPath ''lib/app/uploads'' ''sha256:a'' \<mapsto> ''a'']\<rparr>"

definition demo_patch :: "string \<Rightarrow> request" where
  "demo_patch u = with_body (plain_request ''PATCH'' (''/v2/lib/app/blobs/uploads/'' @ u) []) [''b'']"

theorem patchUpload_appends_witness:
  "snd (patchUpload demo_router (demo_patch ''u1'') ''u1'' (wd_st session_world)) (UploadPath ''lib/app'' ''u1'') = Some ''ab''"
proof -
  have "wd_st session_world (UploadPath (fst (getRepoContext (demo_patch ''u1''))) ''u1'') = Some ''a''" by code_simp
  moreover have "rs_status (fst (patchUpload demo_router (demo_patch ''u1'') ''u1'' (wd_st session_world))) = 202" by code_simp
  moreover have "fst (getRepoContext (demo_patch ''u1'')) = ''lib/app''" by code_simp
  moreover have "concat (fst (body_of (demo_patch ''u1''))) = ''b''" by code_simp
  ultimately show ?thesis
    using patchUpload_appends [of session_world "demo_patch ''u1''" "''u1''" "''a''" plain_bcrypt demo_router]
    unfolding demo_router_on by (metis append_Cons append_Nil prod.collapse)
qed

text \<open>(C40) Upload sessions and blobs share a name space: a PATCH on repository r with the digest of a blob
  of repository r/uploads as the session name appends to that blob, whose content then no longer
  is the content that was verified.\<close>

theorem patchUpload_corrupts_blob:
  assumes "normals rs" "rs \<noteq> []" "normal d" "fst (getRepoContext req) = Join rs CHR ''/''"
    and "wd_st w (BlobPath (Join rs CHR ''/'' @ ''/uploads'') d) = Some c"
    and "patchUpload (on_mem_pg bc R) req d (wd_st w) = (resp, s')" "rs_status resp = 202"
  shows "s' (BlobPath (Join rs CHR ''/'' @ ''/uploads'') d) = Some (c @ concat (fst (body_of req)))"
proof -
  have "UploadPath (fst (getRepoContext req)) d = BlobPath (Join rs CHR ''/'' @ ''/uploads'') d"
    using assms(1-4) UploadPath_collides by simp
  then show ?thesis using mp.patchUpload_spec [OF _ _ refl assms(6), of c] assms(5,7) by simp
qed

theorem patchUpload_corrupts_blob_witness:
  "snd (patchUpload demo_router (demo_patch ''sha256:a'') ''sha256:a'' (wd_st session_world)) (BlobPath ''lib/app/uploads'' ''sha256:a'') = Some ''ab''"
proof -
  let ?r = "demo_patch ''sha256:a''" and ?rs = "[''lib'', ''app'']"
  have "wd_st session_world (BlobPath (Join ?rs CHR ''/'' @ ''/uploads'') ''sha256:a'') = Some ''a''" by code_simp
  moreover have "rs_status (fst (patchUpload demo_router ?r ''sha256:a'' (wd_st session_world))) = 202" by code_simp
  moreover have "fst (getRepoContext ?r) = Join ?rs CHR ''/''" by code_simp
  moreover have "concat (fst (body_of ?r)) = ''b''" by code_simp
  moreover have "normals ?rs" "normal ''sha256:a''" by (simp_all add: normal_def)
  ultimately have "snd (patchUpload demo_router ?r ''sha256:a'' (wd_st session_world)) (BlobPath (Join ?rs CHR ''/'' @ ''/uploads'') ''sha256:a'') = Some (''a'' @ ''b'')"
    using patchUpload_corrupts_blob [of ?rs "''sha256:a''" ?r session_world "''a''" plain_bcrypt demo_router]
    unfolding demo_router_on by (metis list.distinct(1) prod.collapse)
  then show ?thesis by simp
qed

end
