(* ===== verification/Upload_Flow.thy ===== *)
theory Upload_Flow
  imports Blob_Properties
begin

text \<open>
  An upload from start to finish over the in-memory provider and the PostgreSQL store: every step
  succeeds and the blob read back is what was sent. Ranges and mounts.
\<close>

subsection \<open>The steps in memory\<close>

lemma mem_io_Copy:
  "io_Copy memory_provider (MemAppender p b) cs EOF m = ((MemAppender p (b @ concat cs), None), m)"
  by (induction cs arbitrary: b) (simp_all add: memory_provider_def)

lemma mem_appendBody:
  assumes "snd (body_of req) = EOF" "int (length (concat (fst (body_of req)))) \<le> n"
  shows "appendBody memory_provider p req n m =
    (None, m(p \<mapsto> (case m p of None \<Rightarrow> [] | Some d \<Rightarrow> d) @ concat (fst (body_of req))))"
  using assms mem_io_Copy [of p "[]"]
  by (simp add: appendBody_def copy_close_def max_bytes_fits mem_defs)

lemma mem_patch:
  assumes "m (UploadPath (fst (getRepoContext req)) u) = Some old" "snd (body_of req) = EOF"
    and "rq_content_length req \<le> int (length (concat (fst (body_of req))))"
    and "int (length (old @ concat (fst (body_of req)))) \<le> maxUploadBytes"
  shows "\<exists>resp. patchUpload (on_mem_pg bc R) req u m =
      (resp, m(UploadPath (fst (getRepoContext req)) u \<mapsto> old @ concat (fst (body_of req)))) \<and> rs_status resp = 202"
proof -
  let ?t = "UploadPath (fst (getRepoContext req)) u"
  have "appendBody memory_provider ?t req (maxUploadBytes - int (length old)) m =
      (None, m(?t \<mapsto> old @ concat (fst (body_of req))))"
    using mem_appendBody [of req "maxUploadBytes - int (length old)" ?t m] assms by simp
  with assms show ?thesis by (auto simp: patchUpload_def on_mem_pg_def Let_def mem_defs)
qed

fun patch_all :: "('s, 'w, 'd) router \<Rightarrow> request list \<Rightarrow> string \<Rightarrow> 's \<Rightarrow> response list \<times> 's" where
  "patch_all R [] u s = ([], s)"
| "patch_all R (r # rs) u s =
     (let (resp, s1) = patchUpload R r u s; (resps, s2) = patch_all R rs u s1 in (resp # resps, s2))"

definition chunk :: "request \<Rightarrow> bytes" where
  "chunk r = concat (fst (body_of r))"

lemma mem_patch_all:
  assumes "m (UploadPath repo u) = Some old"
    and "\<forall>r \<in> set reqs. fst (getRepoContext r) = repo \<and> snd (body_of r) = EOF \<and> rq_content_length r \<le> int (length (chunk r))"
    and "int (length (old @ concat (map chunk reqs))) \<le> maxUploadBytes"
  shows "\<exists>resps. patch_all (on_mem_pg bc R) reqs u m = (resps, m(UploadPath repo u \<mapsto> old @ concat (map chunk reqs))) \<and>
    length resps = length reqs \<and> (\<forall>r \<in> set resps. rs_status r = 202)"
  using assms
proof (induction reqs arbitrary: m old)
  case Nil
  then show ?case by (simp add: fun_upd_idem)
next
  case (Cons r rs)
  let ?m = "m(UploadPath repo u \<mapsto> old @ chunk r)"
  obtain resp where p: "patchUpload (on_mem_pg bc R) r u m = (resp, ?m)" "rs_status resp = 202"
    using mem_patch [of m r u old bc R] Cons.prems by (auto simp: chunk_def)
  have "\<exists>resps. patch_all (on_mem_pg bc R) rs u ?m = (resps, ?m(UploadPath repo u \<mapsto> (old @ chunk r) @ concat (map chunk rs))) \<and>
      length resps = length rs \<and> (\<forall>r \<in> set resps. rs_status r = 202)"
    by (rule Cons.IH) (use Cons.prems in auto)
  then obtain resps where "patch_all (on_mem_pg bc R) rs u ?m = (resps, m(UploadPath repo u \<mapsto> old @ chunk r @ concat (map chunk rs)))"
      "length resps = length rs" "\<forall>r \<in> set resps. rs_status r = 202" by (auto simp only: fun_upd_upd append_assoc)
  with p show ?case by (simp add: fun_upd_def)
qed

text \<open>Recording a blob on the PostgreSQL store succeeds when the charge fits.\<close>

lemma pg_record_blob:
  assumes "pg_inv d" "st_CheckQuota (pg_store bc) ns d = Inr q"
    and "case pg_quo d ns of None \<Rightarrow> True | Some (l, x) \<Rightarrow> 0 \<le> x \<and> x + n \<le> l \<and> l \<le> max_int64" "0 \<le> n"
  shows "\<not> quota_exceeded q n \<and> (\<exists>d'. st_WithTx (pg_store bc) (record_blob (pg_store bc) ns q dg n) d = (Inr (), d'))"
proof -
  have quo: "pg_quo d ns = map_option (\<lambda>q. (q_limit q, q_used q)) q" using pgs.check_quota assms by blast
  have ex: "\<not> quota_exceeded q n"
    using quo assms(3,4) by (cases q) (auto simp: quota_exceeded_def int64_def)
  obtain d1 where pb: "pg_PutBlob dg n ''application/octet-stream'' d = (Inr (), d1)" by (simp add: pg_PutBlob_def)
  have d1: "quotas d1 = quotas d" "ns_lookup ns d1 = ns_lookup ns d"
    using pb by (auto simp: pg_PutBlob_def ns_lookup_def split: if_splits)
  have "\<exists>d2. pg_UpdateQuotaUsage ns n d1 = (Inr (), d2)"
  proof (cases "ns_lookup ns d")
    case None
    then show ?thesis by (simp add: pg_UpdateQuotaUsage_def d1)
  next
    case (Some nid)
    have "int64 (qr_used qr + n)" if qr: "qr \<in> set (quotas d)" "qr_ns qr = nid" for qr
    proof -
      have "find (\<lambda>q. qr_ns q = nid) (quotas d) = Some qr"
        using find_unique_key [of qr_ns "quotas d" qr] qr assms(1) by (simp add: pg_inv_def)
      then show ?thesis using assms(3,4) Some by (simp add: pg_quo_def int64_def)
    qed
    then show ?thesis using Some by (auto simp: pg_UpdateQuotaUsage_def d1 list_ex_iff)
  qed
  with ex pb show ?thesis
    by (cases q) (auto simp: record_blob_def pg_store_def pg_WithTx_def)
qed

lemma mem_startSession:
  assumes "fst (getRepoContext req) = repo" "rt_uuid R \<noteq> []" "rq_query req ''mount'' = []"
  shows "\<exists>resp. startUpload (on_mem_pg bc R) req w =
     (resp, w\<lparr>wd_st := (wd_st w)(UploadPath repo (rt_uuid R) \<mapsto> [])\<rparr>) \<and> rs_status resp = 202"
  using assms BlobPath_uploads [of "rt_uuid R" repo]
  by (auto simp: startUpload_def startSession_def on_mem_pg_def getPath_def mem_defs Let_def)

lemma mem_putUpload:
  assumes inv: "pg_inv (wd_db w)" and temp: "temp = UploadPath repo u" and final: "final = getPath repo dg"
    and st: "wd_st w temp = Some c" "wd_st w final = None" "temp \<noteq> final"
    and req: "getRepoContext req = (repo, ns)" "\<not> hasBody req" "rq_query req ''digest'' = dg"
    and dg: "dg = ''sha256:'' @ rt_sha256 R c" "map_option snd (rt_digest R dg) = Some ''sha256''"
    and quota: "case pg_quo (wd_db w) ns of None \<Rightarrow> True | Some (l, x) \<Rightarrow> 0 \<le> x \<and> x + int (length c) \<le> l \<and> l \<le> max_int64"
  shows "\<exists>d'. putUpload (on_mem_pg bc R) None req u w =
     (blob_created repo dg, w\<lparr>wd_st := (wd_st w)(final \<mapsto> c, temp := None), wd_db := d'\<rparr>)"
proof -
  obtain q where q: "st_CheckQuota (pg_store bc) ns (wd_db w) = Inr q" by (simp add: pg_store_def pg_CheckQuota_def)
  obtain d' where d': "st_WithTx (pg_store bc) (record_blob (pg_store bc) ns q dg (int (length c))) (wd_db w) = (Inr (), d')"
      "\<not> quota_exceeded q (int (length c))" using pg_record_blob [OF inv q quota] by auto
  have fin: "finalize (on_mem_pg bc R) ns q dg (int (length c)) temp final w =
      (Inr (), w\<lparr>wd_st := (wd_st w)(final \<mapsto> c, temp := None), wd_db := d'\<rparr>)"
    using st d'(1) by (simp add: finalize_def on_mem_pg_def mem_defs)
  have "commitUpload (on_mem_pg bc R) None repo ns dg (int (length c)) temp final w =
      (blob_created repo dg, w\<lparr>wd_st := (wd_st w)(final \<mapsto> c, temp := None), wd_db := d'\<rparr>)"
    using q d'(2) fin by (simp add: commitUpload_def on_mem_pg_def mem_Delete_def memory_provider_def)
  then have "verifyUpload (on_mem_pg bc R) None repo ns dg temp final w =
      (blob_created repo dg, w\<lparr>wd_st := (wd_st w)(final \<mapsto> c, temp := None), wd_db := d'\<rparr>)"
    using st(1) dg(1) by (simp add: verifyUpload_def on_mem_pg_def mem_defs)
  moreover have "dg \<noteq> []" using dg(1) by simp
  ultimately show ?thesis
    using st req dg(2) temp final by (auto simp: putUpload_def on_mem_pg_def mem_defs Let_def)
qed

lemma mem_getBlob:
  assumes "fst (getRepoContext req) = repo" "rq_method req = ''GET''" "rq_header req ''Range'' = []" "rt_upstream R = None"
    and "m (getPath repo dg) = Some c"
  shows "rs_status (getBlob (on_mem_pg bc R) req dg m) = 200 \<and> rs_body (getBlob (on_mem_pg bc R) req dg m) = Data c"
  using assms by (simp add: getBlob_def proxied_def streamBlob_def on_mem_pg_def mem_defs split: prod.splits)

subsection \<open>Upload and download\<close>

text \<open>(C2) Round trip of a chunked upload: start a session, append any number of chunks whose total is
  within the maximum, finalize with the digest of their concatenation. If the content fits the
  quota and the blob is new, every step is answered with success, the blob read back by GET is exactly the
  concatenation of the chunks, and the session is gone.\<close>

theorem chunked_upload_roundtrip:
  assumes inv: "pg_inv (wd_db w)"
    and start: "fst (getRepoContext sreq) = repo" "rq_query sreq ''mount'' = []" "rt_uuid R \<noteq> []"
    and chunks: "\<forall>r \<in> set reqs. fst (getRepoContext r) = repo \<and> snd (body_of r) = EOF \<and> rq_content_length r \<le> int (length (chunk r))"
    and content: "content = concat (map chunk reqs)" "int (length content) \<le> maxUploadBytes"
    and put: "getRepoContext preq = (repo, ns)" "\<not> hasBody preq" "rq_query preq ''digest'' = dg"
      "dg = ''sha256:'' @ rt_sha256 R content" "map_option snd (rt_digest R dg) = Some ''sha256''"
    and get: "fst (getRepoContext greq) = repo" "rq_method greq = ''GET''" "rq_header greq ''Range'' = []" "rt_upstream R = None"
    and quota: "case pg_quo (wd_db w) ns of None \<Rightarrow> True
                | Some (l, x) \<Rightarrow> 0 \<le> x \<and> x + int (length content) \<le> l \<and> l \<le> max_int64"
    and fresh: "wd_st w (getPath repo dg) = None" "UploadPath repo (rt_uuid R) \<noteq> getPath repo dg"
  shows "let (r1, w1) = startUpload (on_mem_pg bc R) sreq w;
             (rs, s2) = patch_all (on_mem_pg bc R) reqs (rt_uuid R) (wd_st w1);
             (r3, w3) = putUpload (on_mem_pg bc R) None preq (rt_uuid R) (w1\<lparr>wd_st := s2\<rparr>);
             r4 = getBlob (on_mem_pg bc R) greq dg (wd_st w3)
         in rs_status r1 = 202 \<and> (\<forall>r \<in> set rs. rs_status r = 202) \<and> rs_status r3 = 201 \<and>
            rs_status r4 = 200 \<and> rs_body r4 = Data content \<and> wd_st w3 (UploadPath repo (rt_uuid R)) = None"
proof -
  let ?t = "UploadPath repo (rt_uuid R)" and ?f = "getPath repo dg"
  obtain r1 where 1: "startUpload (on_mem_pg bc R) sreq w = (r1, w\<lparr>wd_st := (wd_st w)(?t \<mapsto> [])\<rparr>)" "rs_status r1 = 202"
    using mem_startSession [OF start(1,3,2)] by blast
  obtain rs where 2: "patch_all (on_mem_pg bc R) reqs (rt_uuid R) ((wd_st w)(?t \<mapsto> [])) = (rs, (wd_st w)(?t \<mapsto> content))"
      "\<forall>r \<in> set rs. rs_status r = 202"
    using mem_patch_all [of "(wd_st w)(?t \<mapsto> [])" repo "rt_uuid R" "[]" reqs bc R] chunks content by auto
  obtain d' where 3: "putUpload (on_mem_pg bc R) None preq (rt_uuid R) (w\<lparr>wd_st := (wd_st w)(?t \<mapsto> content)\<rparr>) =
      (blob_created repo dg, w\<lparr>wd_st := (wd_st w)(?t \<mapsto> content, ?f \<mapsto> content, ?t := None), wd_db := d'\<rparr>)"
    using mem_putUpload [of "w\<lparr>wd_st := (wd_st w)(?t \<mapsto> content)\<rparr>" ?t repo "rt_uuid R" ?f dg content preq ns R bc]
      inv fresh put quota by auto
  have 4: "rs_status (getBlob (on_mem_pg bc R) greq dg ((wd_st w)(?t \<mapsto> content, ?f \<mapsto> content, ?t := None))) = 200 \<and>
      rs_body (getBlob (on_mem_pg bc R) greq dg ((wd_st w)(?t \<mapsto> content, ?f \<mapsto> content, ?t := None))) = Data content"
    using fresh(2) by (intro mem_getBlob [OF get]) auto
  show ?thesis using 1 2 3 4 by (simp add: blob_created_def)
qed

definition demo_start :: request where
  "demo_start = plain_request ''POST'' ''/v2/lib/app/blobs/uploads/'' []"

definition demo_finish :: request where
  "demo_finish = with_query (plain_request ''PUT'' ''/v2/lib/app/blobs/uploads/u1'' []) [(''digest'', ''sha256:bb'')]"

definition demo_get :: request where
  "demo_get = plain_request ''GET'' ''/v2/lib/app/blobs/sha256:bb'' []"

theorem chunked_upload_roundtrip_witness:
  "let (r1, w1) = startUpload demo_router demo_start empty_world;
       (rs, s2) = patch_all demo_router [demo_patch ''u1'', demo_patch ''u1''] (rt_uuid demo_router) (wd_st w1);
       (r3, w3) = putUpload demo_router None demo_finish (rt_uuid demo_router) (w1\<lparr>wd_st := s2\<rparr>);
       r4 = getBlob demo_router demo_get ''sha256:bb'' (wd_st w3)
   in rs_status r1 = 202 \<and> (\<forall>r \<in> set rs. rs_status r = 202) \<and> rs_status r3 = 201 \<and>
      rs_status r4 = 200 \<and> rs_body r4 = Data ''bb'' \<and> wd_st w3 (UploadPath ''lib/app'' (rt_uuid demo_router)) = None"
proof (rule chunked_upload_roundtrip [where bc = plain_bcrypt and R = demo_router, unfolded demo_router_on])
  show "pg_inv (wd_db empty_world)" by (rule empty_world_inv)
  show "fst (getRepoContext demo_start) = ''lib/app''" "rq_query demo_start ''mount'' = []" "rt_uuid demo_router \<noteq> []"
    "fst (getRepoContext demo_get) = ''lib/app''" "rq_method demo_get = ''GET''" "rq_header demo_get ''Range'' = []"
    "rt_upstream demo_router = None"
    by code_simp+
  show "\<forall>r \<in> set [demo_patch ''u1'', demo_patch ''u1'']. fst (getRepoContext r) = ''lib/app'' \<and> snd (body_of r) = EOF \<and>
      rq_content_length r \<le> int (length (chunk r))" by code_simp
  show "''bb'' = concat (map chunk [demo_patch ''u1'', demo_patch ''u1''])" by code_simp
  show "int (length ''bb'') \<le> maxUploadBytes" by (simp add: maxUploadBytes_def)
  show "getRepoContext demo_finish = (''lib/app'', ''lib'')" "\<not> hasBody demo_finish" "rq_query demo_finish ''digest'' = ''sha256:bb''"
    "''sha256:bb'' = ''sha256:'' @ rt_sha256 demo_router ''bb''" "map_option snd (rt_digest demo_router ''sha256:bb'') = Some ''sha256''"
    by code_simp+
  show "case pg_quo (wd_db empty_world) ''lib'' of None \<Rightarrow> True
      | Some (l, x) \<Rightarrow> 0 \<le> x \<and> x + int (length ''bb'') \<le> l \<and> l \<le> max_int64" by code_simp
  show "wd_st empty_world (getPath ''lib/app'' ''sha256:bb'') = None" by (simp add: empty_world_def)
  show "UploadPath ''lib/app'' (rt_uuid demo_router) \<noteq> getPath ''lib/app'' ''sha256:bb''" by code_simp
qed

subsection \<open>Ranges\<close>

lemma parseBlobRange_bounds:
  assumes "parseBlobRange h n = Inr (a, b)"
  shows "0 \<le> a \<and> a \<le> b \<and> b < n"
proof -
  obtain x y where sp: "SplitN (TrimPrefix h ''bytes='') CHR ''-'' 2 = [x, y]" and n: "0 < n"
    using assms by (auto simp: parseBlobRange_def split: if_splits list.splits)
  show ?thesis using assms n unfolding parseBlobRange_def sp
    by (auto simp: Let_def split: if_splits option.splits)
qed

lemma sep_not_digit: "\<not> is_digit CHR ''-''" "\<not> is_digit CHR '',''"
  by code_simp+

lemma parseBlobRange_print:
  assumes "0 \<le> a" "a < n" "a \<le> b" "int64 n" "int64 b"
  shows "parseBlobRange (''bytes='' @ FormatInt a @ ''-'' @ FormatInt b) n = Inr (a, min b (n - 1))"
proof -
  have da: "list_all is_digit (FormatInt a)" "list_all is_digit (FormatInt b)" using assms FormatInt_digits by auto
  then have nd: "CHR ''-'' \<notin> set (FormatInt a)" "CHR '','' \<notin> set (FormatInt a)" "CHR '','' \<notin> set (FormatInt b)"
    using list_all_not_mem sep_not_digit by blast+
  have ne: "FormatInt a \<noteq> []" "FormatInt b \<noteq> []" using assms by (auto simp: FormatInt_def FormatNat_nonempty)
  have sp: "SplitN (FormatInt a @ CHR ''-'' # FormatInt b) CHR ''-'' 2 = [FormatInt a, FormatInt b]"
    using nd(1) by (rule SplitN_2)
  have "CHR '','' \<notin> set (''bytes='' @ FormatInt a @ ''-'' @ FormatInt b)" using nd by simp
  then have nc: "\<not> Contains (''bytes='' @ FormatInt a @ ''-'' @ FormatInt b) '',''"
    unfolding Contains_def using Index_Some_split by (metis in_set_conv_decomp append_Cons not_None_eq append_Nil)
  have ia: "int64 a" using assms by (auto simp: int64_def)
  have tp: "TrimPrefix (''bytes='' @ x) ''bytes='' = x" "HasPrefix (''bytes='' @ x) ''bytes=''" for x
    by (rule TrimPrefix_append, rule HasPrefix_append)
  show ?thesis
    using assms ia ne sp nc tp [of "FormatInt a @ CHR ''-'' # FormatInt b"]
    by (auto simp: parseBlobRange_def min_def)
qed

text \<open>Ranges: whatever the Range header, a partial response carries exactly the bytes from a to b of the blob, with
  0 \<le> a \<le> b < size and the declared length; and the header a client prints for the bytes a to b is
  answered with those bytes, cut at the end of the blob.\<close>

theorem getBlob_range:
  assumes "fst (getRepoContext req) = repo" "rq_method req = ''GET''" "rt_upstream R = None"
    and "m (getPath repo dg) = Some c" "int64 (int (length c))" "rq_header req ''Range'' \<noteq> []"
  shows "(\<exists>a b. 0 \<le> a \<and> a \<le> b \<and> b < int (length c) \<and>
            parseBlobRange (rq_header req ''Range'') (int (length c)) = Inr (a, b) \<and>
            rs_status (getBlob (on_mem_pg bc R) req dg m) = 206 \<and>
            header_of (getBlob (on_mem_pg bc R) req dg m) ''Content-Length'' = Some (FormatInt (b - a + 1)) \<and>
            rs_body (getBlob (on_mem_pg bc R) req dg m) = Data (take (nat (b - a + 1)) (drop (nat a) c)) \<and>
            length (take (nat (b - a + 1)) (drop (nat a) c)) = nat (b - a + 1)) \<or>
         rs_status (getBlob (on_mem_pg bc R) req dg m) = 416 \<and>
            \<not> (\<exists>a b. 0 \<le> a \<and> a \<le> b \<and> a < int (length c) \<and> int64 b \<and>
                 rq_header req ''Range'' = ''bytes='' @ FormatInt a @ ''-'' @ FormatInt b)"
proof (cases "parseBlobRange (rq_header req ''Range'') (int (length c))")
  case (Inl e)
  then have "rs_status (getBlob (on_mem_pg bc R) req dg m) = 416"
    using assms by (simp add: getBlob_def proxied_def on_mem_pg_def mem_defs split: prod.splits)
  moreover have "\<not> (\<exists>a b. 0 \<le> a \<and> a \<le> b \<and> a < int (length c) \<and> int64 b \<and>
                 rq_header req ''Range'' = ''bytes='' @ FormatInt a @ ''-'' @ FormatInt b)"
    using Inl parseBlobRange_print assms(5) by auto
  ultimately show ?thesis by blast
next
  case (Inr ab)
  obtain a b where ab: "ab = (a, b)" by force
  note bd = parseBlobRange_bounds [OF Inr [unfolded ab]]
  have "getBlob (on_mem_pg bc R) req dg m = reply 206 ([(''Docker-Content-Digest'', dg), (''Accept-Ranges'', ''bytes'')] @
      [(''Content-Length'', FormatInt (b - a + 1)), (''Content-Range'', ''bytes '' @ FormatInt a @ ''-'' @ FormatInt b @ ''/'' @ FormatInt (int (length c)))])
      (Data (take (nat (b - a + 1)) (drop (nat a) c)))"
    using assms Inr ab bd by (simp add: getBlob_def proxied_def streamBlob_def on_mem_pg_def mem_defs split: prod.splits)
  moreover have "length (take (nat (b - a + 1)) (drop (nat a) c)) = nat (b - a + 1)" using bd by (auto simp: min_def)
  ultimately have "0 \<le> a \<and> a \<le> b \<and> b < int (length c) \<and>
            parseBlobRange (rq_header req ''Range'') (int (length c)) = Inr (a, b) \<and>
            rs_status (getBlob (on_mem_pg bc R) req dg m) = 206 \<and>
            header_of (getBlob (on_mem_pg bc R) req dg m) ''Content-Length'' = Some (FormatInt (b - a + 1)) \<and>
            rs_body (getBlob (on_mem_pg bc R) req dg m) = Data (take (nat (b - a + 1)) (drop (nat a) c)) \<and>
            length (take (nat (b - a + 1)) (drop (nat a) c)) = nat (b - a + 1)"
    using Inr ab bd by (simp add: header_of_def)
  then show ?thesis by blast
qed

theorem getBlob_range_witness:
  "rs_body (getBlob demo_router (plain_request ''GET'' ''/v2/lib/app/blobs/d'' []\<lparr>rq_header := (\<lambda>h. if h = ''Range'' then ''bytes=1-9'' else [])\<rparr>)
     ''d'' [getPath ''lib/app'' ''d'' \<mapsto> ''abc'']) = Data ''bc''"
proof -
  let ?r = "plain_request ''GET'' ''/v2/lib/app/blobs/d'' []\<lparr>rq_header := (\<lambda>h. if h = ''Range'' then ''bytes=1-9'' else [])\<rparr>"
  let ?m = "[getPath ''lib/app'' ''d'' \<mapsto> ''abc'']"
  have 1: "fst (getRepoContext ?r) = ''lib/app''" "rq_method ?r = ''GET''" "rt_upstream demo_router = None"
    "rq_header ?r ''Range'' \<noteq> []" by code_simp+
  have 2: "?m (getPath ''lib/app'' ''d'') = Some ''abc''" "int64 (int (length ''abc''))" by (simp_all add: int64_def)
  have 3: "parseBlobRange (rq_header ?r ''Range'') (int (length ''abc'')) = Inr (1, 2)" by code_simp
  have 4: "rs_status (getBlob demo_router ?r ''d'' ?m) \<noteq> 416" by code_simp
  from getBlob_range [of ?r "''lib/app''" demo_router ?m "''d''" "''abc''" plain_bcrypt, OF 1(1-3) 2 1(4), unfolded demo_router_on] 3 4
  obtain a b where "a = 1" "b = 2" "rs_body (getBlob demo_router ?r ''d'' ?m) = Data (take (nat (b - a + 1)) (drop (nat a) ''abc''))"
    by auto
  then show ?thesis by simp
qed

subsection \<open>Mounts\<close>

text \<open>A mount is not authorised at its source: a request that passes the middleware on the strength
  of a token for the target repository alone copies a blob out of any other repository. For every
  repository, digest and content: if the blob exists at the source and not at the target, has a
  supported digest, and fits the quota of the target, the mount is answered 201 and the target
  holds the content, with no check of the source against the token.\<close>

theorem mount_ignores_source_authorization:
  assumes auth: "Protect J m t req = Next (Some c)" "\<forall>e \<in> set (cl_access c). ae_name e \<noteq> rq_query req ''from''"
    and inv: "pg_inv (wd_db w)" and ctx: "getRepoContext req = (repo, ns)"
    and q: "rq_query req ''mount'' = dg" "dg \<noteq> []" "rq_query req ''from'' = from" "from \<noteq> []" "rt_digest R dg = Some (dg, ''sha256'')"
    and st: "wd_st w (getPath from dg) = Some secret" "wd_st w (getPath repo dg) = None"
    and quota: "case pg_quo (wd_db w) ns of None \<Rightarrow> True
                | Some (l, x) \<Rightarrow> 0 \<le> x \<and> x + int (length secret) \<le> l \<and> l \<le> max_int64"
  shows "\<exists>w'. startUpload (on_mem_pg bc R) req w = (blob_created repo dg, w') \<and> wd_st w' (getPath repo dg) = Some secret"
proof -
  obtain qo where qo: "st_CheckQuota (pg_store bc) ns (wd_db w) = Inr qo" by (simp add: pg_store_def pg_CheckQuota_def)
  obtain d' where d': "st_WithTx (pg_store bc) (record_blob (pg_store bc) ns qo dg (int (length secret))) (wd_db w) = (Inr (), d')"
      "\<not> quota_exceeded qo (int (length secret))" using pg_record_blob [OF inv qo quota] by auto
  have "mountCopy (on_mem_pg bc R) repo ns (getPath from dg) dg qo (int (length secret)) w =
      (Some (blob_created repo dg), w\<lparr>wd_st := (wd_st w)(getPath repo dg \<mapsto> secret), wd_db := d'\<rparr>)"
    using st d'(1) by (simp add: mountCopy_def on_mem_pg_def mem_defs copy_close_def)
  then have "mountBlob (on_mem_pg bc R) req w =
      (Some (blob_created repo dg), w\<lparr>wd_st := (wd_st w)(getPath repo dg \<mapsto> secret), wd_db := d'\<rparr>)"
    using ctx q st qo d'(2) by (simp add: mountBlob_def on_mem_pg_def mem_defs)
  then show ?thesis using q by (auto simp: startUpload_def)
qed

definition mount_request :: request where
  "mount_request = with_query (plain_request ''POST'' ''/v2/evil/app/blobs/uploads/'' ''Bearer tok'')
     [(''mount'', ''sha256:s''), (''from'', ''secret/app'')]"

definition evil_claims :: claims where
  "evil_claims = claims_of ''mallory'' 0 [\<lparr>ae_type = ''repository'', ae_name = ''evil/app'', ae_actions = [''push'']\<rparr>]"

theorem mount_ignores_source_authorization_witness:
  "\<exists>w'. startUpload demo_router mount_request (empty_world\<lparr>wd_st := [getPath ''secret/app'' ''sha256:s'' \<mapsto> ''s'']\<rparr>) =
        (blob_created ''evil/app'' ''sha256:s'', w') \<and> wd_st w' (getPath ''evil/app'' ''sha256:s'') = Some ''s''"
proof (rule mount_ignores_source_authorization [where bc = plain_bcrypt and R = demo_router, unfolded demo_router_on])
  show "Protect (one_token evil_claims) one_middleware 0 mount_request = Next (Some evil_claims)" by code_simp
  show "\<forall>e \<in> set (cl_access evil_claims). ae_name e \<noteq> rq_query mount_request ''from''" by code_simp
  show "pg_inv (wd_db (empty_world\<lparr>wd_st := [getPath ''secret/app'' ''sha256:s'' \<mapsto> ''s'']\<rparr>))"
    using empty_world_inv by simp
  show "getRepoContext mount_request = (''evil/app'', ''evil'')" "rq_query mount_request ''mount'' = ''sha256:s''"
    "rq_query mount_request ''from'' = ''secret/app''" "rt_digest demo_router ''sha256:s'' = Some (''sha256:s'', ''sha256'')"
    "wd_st (empty_world\<lparr>wd_st := [getPath ''secret/app'' ''sha256:s'' \<mapsto> ''s'']\<rparr>) (getPath ''evil/app'' ''sha256:s'') = None"
    by code_simp+
  show "case pg_quo (wd_db (empty_world\<lparr>wd_st := [getPath ''secret/app'' ''sha256:s'' \<mapsto> ''s'']\<rparr>)) ''evil'' of None \<Rightarrow> True
      | Some (l, x) \<Rightarrow> 0 \<le> x \<and> x + int (length ''s'') \<le> l \<and> l \<le> max_int64" by code_simp
qed simp_all

end
