(* ===== verification/Manifests.thy ===== *)
theory Manifests
  imports Router
begin

text \<open>
  The manifest endpoints of \<^verbatim>\<open>internal/api/v2/router.go\<close> and \<^verbatim>\<open>referrers.go\<close>: listings,
  pulling behind the vulnerability gate, pushing, deleting, and referrers. What a handler starts in the
  background or sends to other components is the list of its effects, in order.
\<close>

subsection \<open>Listings\<close>

definition page_limit :: "string \<Rightarrow> int" where
  "page_limit nStr =
     (if nStr = [] then 0
      else case ParseInt nStr of Some n \<Rightarrow> (if n > 0 then n else 0) | None \<Rightarrow> 0)"

definition next_link :: "string \<Rightarrow> int \<Rightarrow> string list \<Rightarrow> (string \<times> string) list" where
  "next_link url limit xs =
     (if limit > 0 \<and> int (length xs) = limit
      then [(''Link'', ''<'' @ url @ ''?n='' @ FormatInt limit @ ''&last='' @ last xs @ ''>; rel='' @ [CHR 0x22] @ ''next'' @ [CHR 0x22])]
      else [])"

definition getCatalog :: "('s, 'w, 'd) router \<Rightarrow> request \<Rightarrow> 'd \<Rightarrow> response" where
  "getCatalog R req d =
     (let limit = page_limit (rq_query req ''n'') in
      case st_ListRepositories (rt_db R) limit (rq_query req ''last'') d of
        Inl e \<Rightarrow> http_error [] (err_msg e) 500
      | Inr repos \<Rightarrow>
          reply 200 ((''Content-Type'', ''application/json'') # next_link ''/v2/_catalog'' limit repos)
            (JsonList ''repositories'' repos))"

definition getTags :: "('s, 'w, 'd) router \<Rightarrow> request \<Rightarrow> 'd \<Rightarrow> response" where
  "getTags R req d =
     (case proxied R req ''tags/list'' of
        Some resp \<Rightarrow> resp
      | None \<Rightarrow>
          (let fullRepo = fst (getRepoContext req); limit = page_limit (rq_query req ''n'') in
           case st_ListTags (rt_db R) fullRepo limit (rq_query req ''last'') d of
             Inl e \<Rightarrow> http_error [] (err_msg e) 500
           | Inr tags \<Rightarrow>
               reply 200 ((''Content-Type'', ''application/json'') #
                   next_link (''/v2/'' @ fullRepo @ ''/tags/list'') limit tags)
                 (JsonNamedList fullRepo ''tags'' tags)))"

subsection \<open>Pulling\<close>

definition blocked :: "vuln_gate \<Rightarrow> vulnerability \<Rightarrow> bool" where
  "blocked g v \<longleftrightarrow> ToUpper (vu_severity v) \<in> set (map ToUpper (vg_block g))"

definition checkVulnGate :: "('s, 'w, 'd) router \<Rightarrow> string \<Rightarrow> 'd \<Rightarrow> err option \<times> 'd" where
  "checkVulnGate R digest d =
     (case rt_vulnGate R of
        None \<Rightarrow> (None, d)
      | Some g \<Rightarrow>
          (if \<not> vg_enabled g then (None, d)
           else (case st_GetScanReport (rt_db R) digest ''trivy'' d of
                   (Inl _, d') \<Rightarrow>
                     ((if vg_allow_unscanned g then None else Some (ErrText ''image has not been scanned'')), d')
                 | (Inr dat, d') \<Rightarrow>
                     (case rt_report R dat of
                        None \<Rightarrow> (None, d')
                      | Some vs \<Rightarrow>
                          (map_option (\<lambda>v. ErrText (''image blocked: contains '' @ vu_severity v @ '' vulnerability '' @
                               vu_id v @ '' in '' @ vu_package v)) (find (blocked g) vs), d')))))"

definition getManifest ::
  "('s, 'w, 'd) router \<Rightarrow> request \<Rightarrow> string \<Rightarrow> 'd \<Rightarrow> response \<times> 'd" where
  "getManifest R req ref d =
     (case proxied R req ref of
        Some resp \<Rightarrow> (resp, d)
      | None \<Rightarrow>
          (case st_GetManifest (rt_db R) (fst (getRepoContext req)) ref d of
             (Inl e, d1) \<Rightarrow>
               ((if e = DbNotFound then http_error_json ''MANIFEST_UNKNOWN'' ''manifest unknown'' 404
                 else http_error [] (err_msg e) 500), d1)
           | (Inr (mediaType, digest, payload), d1) \<Rightarrow>
               (case checkVulnGate R digest d1 of
                  (Some e, d2) \<Rightarrow> (json_error ''DENIED'' (err_msg e) 403, d2)
                | (None, d2) \<Rightarrow>
                    (reply 200 [(''Content-Type'', mediaType), (''Docker-Content-Digest'', digest),
                        (''Content-Length'', FormatInt (int (length payload)))]
                       (if rq_method req = ''GET'' then Data payload else NoBody), d2))))"

subsection \<open>Referenced content\<close>

text \<open>Why a manifest's references are refused: a digest that is missing from the repository, or another
  error. The digest library's own message is not modelled.\<close>

datatype ref_error = RefMissing string | RefError err

definition bad_digest :: "string \<Rightarrow> string \<Rightarrow> ref_error" where
  "bad_digest kind d = RefError (WrapErr (''invalid referenced '' @ kind @ '' digest '' @ [CHR 0x22] @ d @ [CHR 0x22])
     (ErrText ''invalid checksum digest format''))"

fun check_blobs :: "('s, 'w, 'd) router \<Rightarrow> string \<Rightarrow> string list \<Rightarrow> 's \<Rightarrow> ref_error option" where
  "check_blobs R repo [] s = None"
| "check_blobs R repo (d # ds) s =
     (case rt_digest R d of
        None \<Rightarrow> Some (bad_digest ''blob'' d)
      | Some (dg, _) \<Rightarrow>
          (case pv_Stat (rt_storage R) (BlobPath repo dg) s of
             Inl e \<Rightarrow> Some (if err_is e StorageNotFound then RefMissing dg else RefError e)
           | Inr _ \<Rightarrow> check_blobs R repo ds s))"

fun check_manifests :: "('s, 'w, 'd) router \<Rightarrow> string \<Rightarrow> string list \<Rightarrow> 'd \<Rightarrow> ref_error option \<times> 'd" where
  "check_manifests R repo [] d = (None, d)"
| "check_manifests R repo (m # ms) d =
     (case rt_digest R m of
        None \<Rightarrow> (Some (bad_digest ''manifest'' m), d)
      | Some (dg, _) \<Rightarrow>
          (case st_GetManifest (rt_db R) repo dg d of
             (Inl e, d') \<Rightarrow> (Some (if err_is e DbNotFound then RefMissing dg else RefError e), d')
           | (Inr _, d') \<Rightarrow> check_manifests R repo ms d'))"

definition ref_blobs :: "manifest_refs \<Rightarrow> string list" where
  "ref_blobs refs = mr_layers refs @ mr_blobs refs @ (case mr_config refs of None \<Rightarrow> [] | Some c \<Rightarrow> [c])"

definition validateManifestReferences ::
  "('s, 'w, 'd) router \<Rightarrow> string \<Rightarrow> bytes \<Rightarrow> ('s, 'd) world \<Rightarrow> ref_error option \<times> ('s, 'd) world" where
  "validateManifestReferences R repository payload w =
     (case rt_refs R payload of
        Inl e \<Rightarrow> (Some (RefError e), w)
      | Inr refs \<Rightarrow>
          (case check_blobs R repository (ref_blobs refs) (wd_st w) of
             Some e \<Rightarrow> (Some e, w)
           | None \<Rightarrow>
               (case check_manifests R repository (mr_manifests refs) (wd_db w) of
                  (r, d') \<Rightarrow> (r, w\<lparr>wd_db := d'\<rparr>))))"

subsection \<open>Artifact metadata\<close>

definition str_field :: "(string \<times> json) list \<Rightarrow> string \<Rightarrow> string option" where
  "str_field kvs k = Option.bind (obj_get kvs k) as_str"

definition obj_field :: "(string \<times> json) list \<Rightarrow> string \<Rightarrow> (string \<times> json) list option" where
  "obj_field kvs k = Option.bind (obj_get kvs k) as_obj"

definition helm_chart :: string where
  "helm_chart = ''application/vnd.cncf.helm.chart.content.v1.tar+gzip''"

text \<open>The fields of a decoded manifest; JSON \<^verbatim>\<open>null\<close> decodes to a nil map, which has none.\<close>

definition manifest_fields :: "json option \<Rightarrow> (string \<times> json) list option" where
  "manifest_fields j = (case j of Some JNull \<Rightarrow> Some [] | Some (JObj kvs) \<Rightarrow> Some kvs | _ \<Rightarrow> None)"

definition extractArtifactMetadata ::
  "('s, 'w, 'd) router \<Rightarrow> bytes \<Rightarrow> string \<Rightarrow> string \<Rightarrow> artifact_metadata option" where
  "extractArtifactMetadata R manifestPayload mediaType digest =
     (case manifest_fields (rt_json R manifestPayload) of
        None \<Rightarrow> None
      | Some mf \<Rightarrow>
          (let atype = (case str_field mf ''artifactType'' of Some t \<Rightarrow> t | None \<Rightarrow> mediaType);
               subj = (case Option.bind (obj_field mf ''subject'') (\<lambda>s. str_field s ''digest'') of Some d \<Rightarrow> d | None \<Rightarrow> []);
               helm = (Option.bind (obj_field mf ''config'') (\<lambda>c. str_field c ''mediaType'') =
                         Some ''application/vnd.cncf.helm.config.v1+json'');
               ann = (\<lambda>k. if helm then (case Option.bind (obj_field mf ''annotations'') (\<lambda>a. str_field a k) of
                                          Some v \<Rightarrow> v | None \<Rightarrow> []) else [])
           in Some \<lparr>am_digest = digest, am_type = atype, am_subject = subj,
                    am_chart_name = ann ''org.opencontainers.image.title'',
                    am_chart_version = ann ''org.opencontainers.image.version'',
                    am_app_version = ann ''org.opencontainers.image.ref.name'',
                    am_json = (if mediaType = helm_chart \<or> atype = helm_chart
                               then (case rt_marshal R (the (rt_json R manifestPayload)) of Inr j \<Rightarrow> j | Inl _ \<Rightarrow> [])
                               else [])\<rparr>))"

subsection \<open>Pushing\<close>

definition maxManifestSize :: int where
  "maxManifestSize = 10485760"

text \<open>Step 1: an immutable tag is not overwritten; an error of the check is ignored.\<close>

definition tag_blocked :: "('s, 'w, 'd) router \<Rightarrow> string \<Rightarrow> string \<Rightarrow> 'd \<Rightarrow> bool" where
  "tag_blocked R fullRepo ref d \<longleftrightarrow>
     ref \<noteq> [] \<and> \<not> HasPrefix ref ''sha256:'' \<and> st_IsTagImmutable (rt_db R) fullRepo ref d = Inr True"

text \<open>Step 2: the body within the limit, as JSON.\<close>

definition read_manifest :: "('s, 'w, 'd) router \<Rightarrow> request \<Rightarrow> response + bytes" where
  "read_manifest R req =
     (if rq_content_length req > maxManifestSize
      then (let m = ''manifest exceeds maximum size of '' @ FormatInt maxManifestSize @ '' bytes'' in
            Inl (reply 413 [(''Content-Type'', ''application/json''), (''X-Registry-Debug-Error'', m)]
                   (ErrorsJSON ''MANIFEST_TOO_LARGE'' m)))
      else (case read_all (max_bytes maxManifestSize (fst (body_of req)) (snd (body_of req))) of
              Inl e \<Rightarrow> Inl (if err_is e MaxBytesError then http_error [] ''manifest exceeds maximum size'' 413
                           else http_error [] (err_msg e) 400)
            | Inr payload \<Rightarrow>
                (case manifest_fields (rt_json R payload) of
                   None \<Rightarrow> Inl (json_error ''MANIFEST_INVALID'' ''invalid JSON manifest'' 400)
                 | Some _ \<Rightarrow> Inr payload)))"

text \<open>Step 3: the manifest and the quota in one transaction.\<close>

definition record_manifest ::
  "'d store \<Rightarrow> string \<Rightarrow> string \<Rightarrow> string \<Rightarrow> string \<Rightarrow> string \<Rightarrow> bytes \<Rightarrow> quota option \<Rightarrow> 'd \<Rightarrow> unit res \<times> 'd" where
  "record_manifest S fullRepo quotaNs ref mediaType digest payload quota d =
     (case st_PutManifest S fullRepo ref mediaType digest payload d of
        (Inl e, d') \<Rightarrow> (Inl e, d')
      | (Inr _, d') \<Rightarrow>
          (case quota of None \<Rightarrow> (Inr (), d')
           | Some _ \<Rightarrow> st_UpdateQuotaUsage S quotaNs (int (length payload)) d'))"

definition push_effects ::
  "('s, 'w, 'd) router \<Rightarrow> request \<Rightarrow> string \<Rightarrow> event \<Rightarrow> effect list" where
  "push_effects R req mediaType ev =
     (if rt_starlark R then [RunHook ''push'' ev] else []) @
     (if rt_webhook R then [Webhook ''push'' ev] else []) @
     (if rt_broker R then [Publish ''push'' ev] else []) @
     (if rt_scanner R then [ScanImage (rq_host req) (ev_repository ev) (ev_reference ev) (ev_digest ev) mediaType] else []) @
     (if rt_sync R then [EnqueuePush (ev_namespace ev) (ev_repository ev) (ev_reference ev) (ev_digest ev)] else [])"

definition store_manifest ::
  "('s, 'w, 'd) router \<Rightarrow> request \<Rightarrow> string \<Rightarrow> string \<Rightarrow> string \<Rightarrow> bytes \<Rightarrow> bytes \<Rightarrow>
   ('s, 'd) world \<Rightarrow> (response \<times> effect list) \<times> ('s, 'd) world" where
  "store_manifest R req fullRepo quotaNs ref payload canonical w =
     (let S = rt_db R; mediaType = rq_header req ''Content-Type''; digest = ''sha256:'' @ rt_sha256 R payload in
      case st_CheckQuota S quotaNs (wd_db w) of
        Inl e \<Rightarrow> ((http_error [] (err_msg e) 500, []), w)
      | Inr quota \<Rightarrow>
          (if quota_exceeded quota (int (length payload))
           then ((json_error ''QUOTA_EXCEEDED'' (''namespace '' @ quotaNs @ '' has exceeded its quota of '' @
                    FormatInt (case quota of Some q \<Rightarrow> q_limit q | None \<Rightarrow> 0) @ '' bytes'') 413, []), w)
           else (case st_WithTx S (record_manifest S fullRepo quotaNs ref mediaType digest payload quota) (wd_db w) of
                   (Inl e, d1) \<Rightarrow> ((http_error [] (err_msg e) 500, []), w\<lparr>wd_db := d1\<rparr>)
                 | (Inr _, d1) \<Rightarrow>
                     (let d2 = (case extractArtifactMetadata R canonical mediaType digest of
                                  None \<Rightarrow> d1 | Some am \<Rightarrow> snd (st_SetArtifactMetadata S am d1));
                          ev = \<lparr>ev_namespace = quotaNs, ev_repository = fullRepo, ev_reference = ref, ev_digest = digest\<rparr>
                      in ((reply 201 [(''Docker-Distribution-Api-Version'', ''registry/2.0''), (''Docker-Content-Digest'', digest),
                              (''Location'', ''/v2/'' @ fullRepo @ ''/manifests/'' @ digest)] NoBody,
                           push_effects R req mediaType ev), w\<lparr>wd_db := d2\<rparr>)))))"

definition refuse_refs :: "ref_error \<Rightarrow> response" where
  "refuse_refs e =
     (case e of
        RefMissing dg \<Rightarrow> reply 400 [(''Content-Type'', ''application/json'')]
                          (ErrorsJSONDigest ''MANIFEST_BLOB_UNKNOWN'' ''blob unknown to registry'' dg)
      | RefError x \<Rightarrow> json_error ''MANIFEST_INVALID'' (err_msg x) 400)"

definition putManifest ::
  "('s, 'w, 'd) router \<Rightarrow> request \<Rightarrow> string \<Rightarrow> ('s, 'd) world \<Rightarrow> (response \<times> effect list) \<times> ('s, 'd) world" where
  "putManifest R req ref w =
     (let (fullRepo, quotaNs) = getRepoContext req in
      if tag_blocked R fullRepo ref (wd_db w)
      then ((json_error ''TAG_IMMUTABLE'' (''tag '' @ ref @ '' is immutable'') 409, []), w)
      else case read_manifest R req of
        Inl resp \<Rightarrow> ((resp, []), w)
      | Inr payload \<Rightarrow>
          (case rt_marshal R (the (rt_json R payload)) of
             Inl e \<Rightarrow> ((http_error [] (err_msg e) 500, []), w)
           | Inr canonical \<Rightarrow>
               (case validateManifestReferences R fullRepo payload w of
                  (Some e, w1) \<Rightarrow> ((refuse_refs e, []), w1)
                | (None, w1) \<Rightarrow> store_manifest R req fullRepo quotaNs ref payload canonical w1)))"

subsection \<open>Deleting\<close>

definition delete_effects :: "('s, 'w, 'd) router \<Rightarrow> event \<Rightarrow> effect list" where
  "delete_effects R ev =
     (if rt_webhook R then [Webhook ''delete'' ev] else []) @ (if rt_broker R then [Publish ''delete'' ev] else [])"

definition deleteManifest ::
  "('s, 'w, 'd) router \<Rightarrow> request \<Rightarrow> string \<Rightarrow> 'd \<Rightarrow> (response \<times> effect list) \<times> 'd" where
  "deleteManifest R req ref d =
     (let (fullRepo, quotaNs) = getRepoContext req; S = rt_db R in
      case st_GetManifest S fullRepo ref d of
        (Inl e, d1) \<Rightarrow>
          (((if e = DbNotFound then http_error_json ''MANIFEST_UNKNOWN'' ''manifest unknown'' 404
             else http_error [] (err_msg e) 500), []), d1)
      | (Inr (_, digest, payload), d1) \<Rightarrow>
          (case st_DeleteManifest S fullRepo ref d1 of
             (Inl e, d2) \<Rightarrow> ((http_error [] (err_msg e) 500, []), d2)
           | (Inr _, d2) \<Rightarrow>
               (let d3 = snd (st_UpdateQuotaUsage S quotaNs (- int (length payload)) d2);
                    ev = \<lparr>ev_namespace = quotaNs, ev_repository = fullRepo, ev_reference = ref, ev_digest = digest\<rparr>
                in ((reply 202 [(''Docker-Distribution-Api-Version'', ''registry/2.0'')] NoBody, delete_effects R ev), d3))))"

subsection \<open>Referrers\<close>

definition getReferrers :: "('s, 'w, 'd) router \<Rightarrow> request \<Rightarrow> string \<Rightarrow> 'd \<Rightarrow> response" where
  "getReferrers R req digest d =
     (case st_ListReferrers (rt_db R) digest (rq_query req ''artifactType'') d of
        Inl e \<Rightarrow> http_error [] ''failed to list referrers'' 500
      | Inr rs \<Rightarrow>
          reply 200 [(''Content-Type'', ''application/vnd.oci.image.index.v1+json''),
                     (''Docker-Distribution-Api-Version'', ''registry/2.0'')]
            (IndexJSON (map (\<lambda>r. (rf_digest r, rf_media r, rf_type r, rf_size r)) rs)))"

end
