(* ===== verification/Manifest_Service.thy ===== *)
theory Manifest_Service
  imports Manifests Upload_Flow
begin

text \<open>
  What the manifest endpoints guarantee: over any conforming store and provider, in the locale of
  the blob endpoints, and for the in-memory provider with the PostgreSQL store.
\<close>

subsection \<open>Over any conforming store\<close>

context blob_service
begin

lemma check_manifests_state:
  "dinv d \<Longrightarrow> check_manifests R repo ms d = (r, d') \<Longrightarrow>
     dinv d' \<and> quo d' = quo d \<and> man d' = man d \<and> blb d' = blb d \<and> imm d' = imm d"
proof (induction ms arbitrary: d)
  case (Cons m ms)
  obtain gr d1 where g: "st_GetManifest S repo (case rt_digest R m of Some (dg, _) \<Rightarrow> dg | None \<Rightarrow> []) d = (gr, d1)" by force
  note st = get_manifest_state [OF Cons.prems(1) g]
  show ?case using Cons.prems g st Cons.IH [of d1]
    by (auto simp: R_db split: option.splits sum.splits prod.splits)
qed simp

lemma validate_state:
  assumes "dinv (wd_db w)" "validateManifestReferences R repo pl w = (r, w')"
  shows "wd_st w' = wd_st w \<and> dinv (wd_db w') \<and> quo (wd_db w') = quo (wd_db w) \<and> man (wd_db w') = man (wd_db w) \<and>
    blb (wd_db w') = blb (wd_db w) \<and> imm (wd_db w') = imm (wd_db w)"
proof -
  obtain mr d1 where "check_manifests R repo (mr_manifests (case rt_refs R pl of Inr x \<Rightarrow> x)) (wd_db w) = (mr, d1)" by force
  then show ?thesis using assms check_manifests_state [OF assms(1)]
    by (auto simp: validateManifestReferences_def split: sum.splits option.splits prod.splits)
qed

text \<open>A manifest that passed the validation has all its blobs in the repository.\<close>

lemma check_blobs_ok:
  "check_blobs R repo ds s = None \<Longrightarrow> d \<in> set ds \<Longrightarrow>
     \<exists>dg alg n. rt_digest R d = Some (dg, alg) \<and> pv_Stat P (BlobPath repo dg) s = Inr n"
  by (induction ds) (auto simp: R_storage split: option.splits sum.splits prod.splits)

lemma record_manifest_ok:
  assumes "dinv d" "record_manifest S repo ns ref mt dg pl q d = (Inr u, d')"
  shows "dinv d' \<and> imm d' = imm d \<and> blb d' = blb d \<and>
         man d' = (man d)(parseRepoPath repo := (man d (parseRepoPath repo))(ref \<mapsto> (mt, dg, pl))) \<and>
         quo d' = (if q = None then quo d else charge ns (int (length pl)) (quo d)) \<and>
         (q \<noteq> None \<longrightarrow> (\<forall>l x. quo d ns = Some (l, x) \<longrightarrow> int64 (x + int (length pl))))"
proof -
  obtain d1 where pm: "st_PutManifest S repo ref mt dg pl d = (Inr (), d1)"
    and rest: "(case q of None \<Rightarrow> (Inr (), d1) | Some _ \<Rightarrow> st_UpdateQuotaUsage S ns (int (length pl)) d1) = (Inr u, d')"
    using assms(2) by (auto simp: record_manifest_def split: prod.splits sum.splits)
  note p = put_manifest_ok [OF assms(1) pm] put_manifest_inv [OF assms(1) pm]
  show ?thesis
  proof (cases q)
    case None
    then show ?thesis using p rest by auto
  next
    case (Some x)
    then have up: "st_UpdateQuotaUsage S ns (int (length pl)) d1 = (Inr u, d')" using rest by simp
    from update_quota_ok [OF p(2) up] update_quota_inv [OF p(2) up] update_quota_range [OF p(2) up] p Some
    show ?thesis by (auto simp: charge_def)
  qed
qed

lemma record_manifest_inv:
  assumes "dinv d" "record_manifest S repo ns ref mt dg pl q d = (r, d')"
  shows "dinv d'"
proof -
  obtain pr d1 where pm: "st_PutManifest S repo ref mt dg pl d = (pr, d1)" by force
  note i1 = put_manifest_inv [OF assms(1) pm]
  obtain ur d2 where up: "st_UpdateQuotaUsage S ns (int (length pl)) d1 = (ur, d2)" by force
  show ?thesis using assms pm up i1 update_quota_inv [OF i1 up]
    by (auto simp: record_manifest_def split: sum.splits option.splits)
qed

lemma record_manifest_tx:
  assumes "dinv d" "st_CheckQuota S ns d = Inr q" "\<not> quota_exceeded q (int (length pl))"
    and "st_WithTx S (record_manifest S repo ns ref mt dg pl q) d = (r, d')"
  shows "dinv d' \<and> imm d' = imm d \<and> blb d' = blb d \<and>
    (is_ok r \<longrightarrow> man d' = (man d)(parseRepoPath repo := (man d (parseRepoPath repo))(ref \<mapsto> (mt, dg, pl))) \<and>
       quo d' = charge ns (int (length pl)) (quo d) \<and> fits ns (int (length pl)) (quo d)) \<and>
    (\<not> is_ok r \<longrightarrow> quo d' = quo d \<and> man d' = man d)"
proof (cases r)
  case (Inl e)
  then show ?thesis
    using tx_fail [OF assms(1) _, of "record_manifest S repo ns ref mt dg pl q" e d'] record_manifest_inv assms by auto
next
  case (Inr u)
  then have "record_manifest S repo ns ref mt dg pl q d = (Inr (), d')" using tx_ok assms by blast
  note ok = record_manifest_ok [OF assms(1) this]
  have cq: "quo d ns = map_option (\<lambda>q. (q_limit q, q_used q)) q" using check_quota assms by blast
  have "quo d' = charge ns (int (length pl)) (quo d) \<and> fits ns (int (length pl)) (quo d)"
    using ok cq assms(3) by (cases q) (auto simp: charge_def fits_def quota_exceeded_def fun_upd_idem)
  with ok Inr show ?thesis by auto
qed

definition stored :: "string \<Rightarrow> string \<Rightarrow> string \<Rightarrow> string \<Rightarrow> bytes \<Rightarrow> 'd \<Rightarrow> 'd \<Rightarrow> bool" where
  "stored repo ns ref mt pl d d' \<longleftrightarrow>
     man d' = (man d)(parseRepoPath repo := (man d (parseRepoPath repo))(ref \<mapsto> (mt, ''sha256:'' @ rt_sha256 R pl, pl))) \<and>
     quo d' = charge ns (int (length pl)) (quo d) \<and> fits ns (int (length pl)) (quo d)"

lemma store_manifest_spec:
  assumes inv: "dinv (wd_db w)" and f: "store_manifest R req repo ns ref pl can w = ((resp, effs), w')"
  shows "wd_st w' = wd_st w \<and> dinv (wd_db w') \<and> imm (wd_db w') = imm (wd_db w) \<and>
    (if rs_status resp = 201 then stored repo ns ref (rq_header req ''Content-Type'') pl (wd_db w) (wd_db w')
     else man (wd_db w') = man (wd_db w) \<and> quo (wd_db w') = quo (wd_db w) \<and> effs = [])"
proof (cases "st_CheckQuota S ns (wd_db w)")
  case (Inl e)
  then show ?thesis using f inv by (auto simp: store_manifest_def R_db)
next
  case (Inr q)
  show ?thesis
  proof (cases "quota_exceeded q (int (length pl))")
    case True
    then show ?thesis using f inv Inr by (auto simp: store_manifest_def R_db)
  next
    case False
    let ?mt = "rq_header req ''Content-Type''" and ?dg = "''sha256:'' @ rt_sha256 R pl"
    obtain tr d1 where t: "st_WithTx S (record_manifest S repo ns ref ?mt ?dg pl q) (wd_db w) = (tr, d1)" by force
    note tx = record_manifest_tx [OF inv Inr False t]
    let ?d2 = "case extractArtifactMetadata R can ?mt ?dg of None \<Rightarrow> d1 | Some am \<Rightarrow> snd (st_SetArtifactMetadata S am d1)"
    have "dinv d1" using tx by blast
    from set_artifact_inv [OF this prod.collapse [symmetric]]
    have d2: "dinv ?d2 \<and> quo ?d2 = quo d1 \<and> man ?d2 = man d1 \<and> imm ?d2 = imm d1"
      using tx by (simp split: option.split)
    have "((resp, effs), w') = (case tr of Inl e \<Rightarrow> ((http_error [] (err_msg e) 500, []), w\<lparr>wd_db := d1\<rparr>)
        | Inr _ \<Rightarrow> ((resp, effs), w\<lparr>wd_db := ?d2\<rparr>)) \<and> (is_ok tr \<longrightarrow> rs_status resp = 201)"
      using f Inr False t by (auto simp: store_manifest_def R_db Let_def split: sum.splits)
    then show ?thesis using tx d2 by (cases tr) (auto simp: stored_def)
  qed
qed

lemma read_manifest_ok:
  assumes "read_manifest R req = Inr pl"
  shows "snd (body_of req) = EOF \<and> pl = concat (fst (body_of req)) \<and> int (length pl) \<le> maxManifestSize"
proof -
  let ?st = "max_bytes maxManifestSize (fst (body_of req)) (snd (body_of req))"
  have "read_all ?st = Inr pl" using assms by (auto simp: read_manifest_def Let_def split: if_splits sum.splits option.splits)
  then have "snd ?st = EOF" "pl = concat (fst ?st)" by (cases ?st; cases "snd ?st"; auto)+
  moreover have "0 \<le> maxManifestSize" by (simp add: maxManifestSize_def)
  ultimately show ?thesis
    using max_bytes_EOF [of maxManifestSize "fst (body_of req)" "snd (body_of req)" "fst ?st"] by (metis prod.collapse)
qed

lemma read_manifest_refused: "read_manifest R req = Inl resp \<Longrightarrow> 400 \<le> rs_status resp"
  by (auto simp: read_manifest_def Let_def split: if_splits sum.splits option.splits)

lemma putManifest_spec:
  assumes inv: "dinv (wd_db w)" and ctx: "getRepoContext req = (repo, ns)"
    and f: "putManifest R req ref w = ((resp, effs), w')"
  shows "wd_st w' = wd_st w \<and> dinv (wd_db w') \<and> imm (wd_db w') = imm (wd_db w) \<and>
    (if rs_status resp = 201
     then \<exists>refs. stored repo ns ref (rq_header req ''Content-Type'') (concat (fst (body_of req))) (wd_db w) (wd_db w') \<and>
        int (length (concat (fst (body_of req)))) \<le> maxManifestSize \<and>
        rt_refs R (concat (fst (body_of req))) = Inr refs \<and>
        (\<forall>d \<in> set (ref_blobs refs). \<exists>dg alg n. rt_digest R d = Some (dg, alg) \<and> pv_Stat P (BlobPath repo dg) (wd_st w) = Inr n)
     else man (wd_db w') = man (wd_db w) \<and> quo (wd_db w') = quo (wd_db w) \<and> effs = [])"
proof (cases "tag_blocked R repo ref (wd_db w)")
  case True
  then show ?thesis using f inv ctx by (auto simp: putManifest_def)
next
  case nb: False
  show ?thesis
  proof (cases "read_manifest R req")
    case (Inl rp)
    then show ?thesis using f inv ctx nb read_manifest_refused [OF Inl] by (auto simp: putManifest_def)
  next
    case (Inr pl)
    note rm = read_manifest_ok [OF Inr]
    show ?thesis
    proof (cases "rt_marshal R (the (rt_json R pl))")
      case (Inl e)
      then show ?thesis using f inv ctx nb Inr by (auto simp: putManifest_def)
    next
      case can: (Inr can)
      obtain vr w1 where v: "validateManifestReferences R repo pl w = (vr, w1)" by force
      note vs = validate_state [OF inv v]
      show ?thesis
      proof (cases vr)
        case (Some e)
        then show ?thesis using f ctx nb Inr can v vs
          by (auto simp: putManifest_def refuse_refs_def split: ref_error.splits)
      next
        case None
        then have st: "store_manifest R req repo ns ref pl can w1 = ((resp, effs), w')"
          using f ctx nb Inr can v by (auto simp: putManifest_def)
        obtain refs where refs: "rt_refs R pl = Inr refs" "check_blobs R repo (ref_blobs refs) (wd_st w) = None"
          using v None by (auto simp: validateManifestReferences_def split: sum.splits option.splits prod.splits)
        have "dinv (wd_db w1)" using vs by blast
        from store_manifest_spec [OF this st] vs rm refs check_blobs_ok [OF refs(2)] show ?thesis
          by (auto simp: stored_def)
      qed
    qed
  qed
qed

end

end
