(* ===== verification/Manifest_Properties.thy ===== *)
theory Manifest_Properties
  imports Manifest_Service
begin

text \<open>
  The properties of the manifest endpoints over the in-memory provider and the PostgreSQL store:
  what a push stores and charges, immutable tags, round trips, the vulnerability gate, and the
  accounting of quotas.
\<close>

subsection \<open>Pushing\<close>

text \<open>(C6) What a push does: it answers 201 only when the whole body, within 10 MiB, has been
  stored verbatim under the reference with its SHA-256 digest, every layer, blob and config the
  manifest names is in the repository, and exactly the length of the body was charged to the
  namespace within its quota; any other answer leaves every manifest and quota as it was and starts nothing. No blob is
  touched in either case.\<close>

theorem putManifest_stores:
  assumes "pg_inv (wd_db w)" "getRepoContext req = (repo, ns)"
    and "putManifest (on_mem_pg bc R) req ref w = ((resp, effs), w')"
  shows "wd_st w' = wd_st w \<and> pg_inv (wd_db w') \<and> pg_imm (wd_db w') = pg_imm (wd_db w) \<and>
    (let pl = concat (fst (body_of req)) in
     if rs_status resp = 201
     then int (length pl) \<le> maxManifestSize \<and>
        pg_man (wd_db w') = (pg_man (wd_db w))(parseRepoPath repo := (pg_man (wd_db w) (parseRepoPath repo))
            (ref \<mapsto> (rq_header req ''Content-Type'', ''sha256:'' @ rt_sha256 R pl, pl))) \<and>
        pg_quo (wd_db w') = charge ns (int (length pl)) (pg_quo (wd_db w)) \<and>
        fits ns (int (length pl)) (pg_quo (wd_db w)) \<and>
        (\<exists>refs. rt_refs R pl = Inr refs \<and>
           (\<forall>d \<in> set (ref_blobs refs). \<exists>dg alg. rt_digest R d = Some (dg, alg) \<and> wd_st w (BlobPath repo dg) \<noteq> None))
     else pg_man (wd_db w') = pg_man (wd_db w) \<and> pg_quo (wd_db w') = pg_quo (wd_db w) \<and> effs = [])"
proof -
  have R: "rt_sha256 (on_mem_pg bc R) = rt_sha256 R" "rt_refs (on_mem_pg bc R) = rt_refs R"
    "rt_digest (on_mem_pg bc R) = rt_digest R" by simp_all
  have st: "pv_Stat memory_provider p s = Inr n \<Longrightarrow> s p \<noteq> None" for p s n
    by (auto simp: mem_defs split: option.splits)
  note sp = mp.putManifest_spec [OF assms, unfolded R mp.stored_def]
  show ?thesis
  proof (cases "rs_status resp = 201")
    case True
    with sp st show ?thesis by (auto simp: Let_def) (metis option.distinct(1))
  next
    case False
    with sp show ?thesis by (simp add: Let_def)
  qed
qed

definition demo_push :: request where
  "demo_push = with_body (plain_request ''PUT'' ''/v2/lib/app/manifests/v1'' []) [''{'', ''}'']"

lemma demo_push_created: "rs_status (fst (fst (putManifest demo_router demo_push ''v1'' empty_world))) = 201"
  by code_simp

theorem putManifest_stores_witness:
  "pg_man (wd_db (snd (putManifest demo_router demo_push ''v1'' empty_world))) (''lib'', ''app'') ''v1'' =
     Some ([], ''sha256:{}'', ''{}'')"
proof -
  let ?p = "putManifest demo_router demo_push ''v1'' empty_world"
  have ctx: "getRepoContext demo_push = (''lib/app'', ''lib'')" and b: "concat (fst (body_of demo_push)) = ''{}''"
    and rp: "parseRepoPath ''lib/app'' = (''lib'', ''app'')" and ct: "rq_header demo_push ''Content-Type'' = []"
    and sh: "rt_sha256 demo_router ''{}'' = ''{}''"
    by code_simp+
  have "putManifest (on_mem_pg plain_bcrypt demo_router) demo_push ''v1'' empty_world = ((fst (fst ?p), snd (fst ?p)), snd ?p)"
    unfolding demo_router_on by simp
  from putManifest_stores [OF empty_world_inv ctx this] demo_push_created
  show ?thesis unfolding b rp ct sh Let_def by simp
qed

subsection \<open>Immutable tags\<close>

text \<open>(C9) A push never overwrites an immutable tag: whatever the request, it is answered 409 and
  nothing changes or is started.\<close>

theorem putManifest_immutable:
  assumes "getRepoContext req = (repo, ns)" "pg_imm (wd_db w) (parseRepoPath repo) ref"
    and "ref \<noteq> []" "\<not> HasPrefix ref ''sha256:''"
  shows "\<exists>resp. putManifest (on_mem_pg bc R) req ref w = ((resp, []), w) \<and> rs_status resp = 409"
  using assms
  by (auto simp: putManifest_def tag_blocked_def pg_IsTagImmutable_imm)

theorem putManifest_immutable_witness:
  "\<exists>resp. putManifest demo_router demo_push ''v1'' (empty_world\<lparr>wd_db := snd (pg_SetTagImmutable ''lib/app'' ''v1'' True two_tags)\<rparr>) =
     ((resp, []), empty_world\<lparr>wd_db := snd (pg_SetTagImmutable ''lib/app'' ''v1'' True two_tags)\<rparr>) \<and> rs_status resp = 409"
proof (rule putManifest_immutable [where bc = plain_bcrypt and R = demo_router, unfolded demo_router_on])
  show "getRepoContext demo_push = (''lib/app'', ''lib'')" by code_simp
  show "pg_imm (wd_db (empty_world\<lparr>wd_db := snd (pg_SetTagImmutable ''lib/app'' ''v1'' True two_tags)\<rparr>)) (parseRepoPath ''lib/app'') ''v1''"
    by code_simp
  show "\<not> HasPrefix ''v1'' ''sha256:''" by code_simp
qed simp

subsection \<open>Push and pull\<close>

lemma pushed_is_served:
  assumes "pg_inv (wd_db w)" "getRepoContext req = (repo, ns)"
    and "putManifest (on_mem_pg bc R) req ref w = ((resp, effs), w')" "rs_status resp = 201"
    and "\<forall>m \<in> set (repo_manifests (parseRepoPath repo) (wd_db w')). mf_digest m = ref \<longrightarrow> mf_ref m = ref"
    and "fst (getRepoContext greq) = repo" "rq_method greq = ''GET''" "rt_upstream R = None" "rt_vulnGate R = None"
  shows "getManifest (on_mem_pg bc R) greq ref (wd_db w') =
    (reply 200 [(''Content-Type'', rq_header req ''Content-Type''),
        (''Docker-Content-Digest'', ''sha256:'' @ rt_sha256 R (concat (fst (body_of req)))),
        (''Content-Length'', FormatInt (int (length (concat (fst (body_of req))))))]
       (Data (concat (fst (body_of req)))), wd_db w')"
proof -
  have R: "rt_sha256 (on_mem_pg bc R) = rt_sha256 R" by simp
  note sp = mp.putManifest_spec [OF assms(1-3), unfolded R mp.stored_def]
  then have inv: "pg_inv (wd_db w')" and man: "pg_man (wd_db w') (parseRepoPath repo) ref =
      Some (rq_header req ''Content-Type'', ''sha256:'' @ rt_sha256 R (concat (fst (body_of req))), concat (fst (body_of req)))"
    using assms(4) by auto
  have "pg_GetManifest repo ref (wd_db w') =
      (Inr (rq_header req ''Content-Type'', ''sha256:'' @ rt_sha256 R (concat (fst (body_of req))), concat (fst (body_of req))), wd_db w')"
    using assms(5) by (intro pg_GetManifest_by_ref [OF inv man]) auto
  then show ?thesis using assms(6-9)
    by (simp add: getManifest_def proxied_def checkVulnGate_def split: prod.splits)
qed

text \<open>(C10) Round trip of a manifest: after a push answered 201, a GET of the reference on the same
  repository is answered 200 with the pushed bytes, their media type, digest and length (without a
  vulnerability gate or proxy, and if no manifest of the repository has the reference as its digest).\<close>

theorem push_then_pull:
  assumes "pg_inv (wd_db w)" "getRepoContext req = (repo, ns)"
    and "putManifest (on_mem_pg bc R) req ref w = ((resp, effs), w')" "rs_status resp = 201"
    and "\<forall>m \<in> set (repo_manifests (parseRepoPath repo) (wd_db w')). mf_digest m = ref \<longrightarrow> mf_ref m = ref"
    and "fst (getRepoContext greq) = repo" "rq_method greq = ''GET''" "rt_upstream R = None" "rt_vulnGate R = None"
  shows "getManifest (on_mem_pg bc R) greq ref (wd_db w') =
    (reply 200 [(''Content-Type'', rq_header req ''Content-Type''),
        (''Docker-Content-Digest'', ''sha256:'' @ rt_sha256 R (concat (fst (body_of req)))),
        (''Content-Length'', FormatInt (int (length (concat (fst (body_of req))))))]
       (Data (concat (fst (body_of req)))), wd_db w')"
  using assms by (rule pushed_is_served)

definition demo_pull :: request where
  "demo_pull = plain_request ''GET'' ''/v2/lib/app/manifests/v1'' []"

theorem push_then_pull_witness:
  "rs_body (fst (getManifest demo_router demo_pull ''v1'' (wd_db (snd (putManifest demo_router demo_push ''v1'' empty_world))))) = Data ''{}''"
proof -
  let ?p = "putManifest demo_router demo_push ''v1'' empty_world"
  have ctx: "getRepoContext demo_push = (''lib/app'', ''lib'')" and b: "concat (fst (body_of demo_push)) = ''{}''" by code_simp+
  have p: "putManifest (on_mem_pg plain_bcrypt demo_router) demo_push ''v1'' empty_world = ((fst (fst ?p), snd (fst ?p)), snd ?p)"
    unfolding demo_router_on by simp
  have u: "\<forall>m \<in> set (repo_manifests (parseRepoPath ''lib/app'') (wd_db (snd ?p))). mf_digest m = ''v1'' \<longrightarrow> mf_ref m = ''v1''"
    by code_simp
  have g: "fst (getRepoContext demo_pull) = ''lib/app''" "rq_method demo_pull = ''GET''" "rt_upstream demo_router = None"
    "rt_vulnGate demo_router = None" by code_simp+
  show ?thesis
    using push_then_pull [OF empty_world_inv ctx p demo_push_created u g] unfolding b demo_router_on by simp
qed

subsection \<open>The vulnerability gate\<close>

definition gate_passes :: "('s, 'w, 'd) router \<Rightarrow> vuln_gate \<Rightarrow> bytes option \<Rightarrow> bool" where
  "gate_passes R g report =
     (case report of
        None \<Rightarrow> vg_allow_unscanned g
      | Some dat \<Rightarrow> (case rt_report R dat of
                       None \<Rightarrow> True
                     | Some vs \<Rightarrow> \<forall>v \<in> set vs. ToUpper (vu_severity v) \<notin> ToUpper ` set (vg_block g)))"

text \<open>What the enabled gate decides: a manifest that exists is served exactly when its report
  under the name \<^verbatim>\<open>trivy\<close> lists no vulnerability of a blocked severity, compared without regard to
  case; a report that cannot be decoded counts as clean, a missing one as the configuration says. A refusal is a 403 that
  carries no byte of the manifest.\<close>

theorem vuln_gate_decides:
  assumes "rt_vulnGate R = Some g" "vg_enabled g" "rt_upstream R = None"
    and "pg_GetManifest (fst (getRepoContext req)) ref d = (Inr (mt, dg, pl), d)"
    and "getManifest (on_mem_pg bc R) req ref d = (resp, d')"
  shows "if gate_passes R g (case fst (pg_GetScanReport dg ''trivy'' d) of Inl _ \<Rightarrow> None | Inr dat \<Rightarrow> Some dat)
         then rs_status resp = 200 \<and> header_of resp ''Docker-Content-Digest'' = Some dg \<and>
              (rq_method req = ''GET'' \<longrightarrow> rs_body resp = Data pl)
         else rs_status resp = 403 \<and> (\<exists>m. rs_body resp = ErrorsJSON ''DENIED'' m)"
proof -
  have fb: "find (blocked g) vs = None \<longleftrightarrow> (\<forall>v \<in> set vs. ToUpper (vu_severity v) \<notin> ToUpper ` set (vg_block g))" for vs
    by (auto simp: find_None_iff blocked_def)
  let ?r = "fst (pg_GetScanReport dg ''trivy'' d)"
  obtain q where q: "pg_GetScanReport dg ''trivy'' d = (q, d)" by (simp add: pg_GetScanReport_def)
  have gate: "checkVulnGate (on_mem_pg bc R) dg d = (case q of
      Inl _ \<Rightarrow> ((if vg_allow_unscanned g then None else Some (ErrText ''image has not been scanned'')), d)
    | Inr dat \<Rightarrow> (case rt_report R dat of None \<Rightarrow> (None, d)
        | Some vs \<Rightarrow> (map_option (\<lambda>v. ErrText (''image blocked: contains '' @ vu_severity v @ '' vulnerability '' @
                               vu_id v @ '' in '' @ vu_package v)) (find (blocked g) vs), d)))"
    using assms(1,2) q by (cases q) (auto simp: checkVulnGate_def split: option.split)
  have gm: "getManifest (on_mem_pg bc R) req ref d = (case checkVulnGate (on_mem_pg bc R) dg d of
        (Some e, d2) \<Rightarrow> (json_error ''DENIED'' (err_msg e) 403, d2)
      | (None, d2) \<Rightarrow> (reply 200 [(''Content-Type'', mt), (''Docker-Content-Digest'', dg),
                        (''Content-Length'', FormatInt (int (length pl)))]
                       (if rq_method req = ''GET'' then Data pl else NoBody), d2))"
    using assms(3,4) by (simp add: getManifest_def proxied_def split: prod.splits)
  show ?thesis
  proof (cases "gate_passes R g (case q of Inl _ \<Rightarrow> None | Inr dat \<Rightarrow> Some dat)")
    case True
    then have "checkVulnGate (on_mem_pg bc R) dg d = (None, d)"
      unfolding gate by (auto simp: gate_passes_def fb split: sum.splits option.splits if_splits)
    with gm True assms(5) q show ?thesis by (simp add: header_of_def)
  next
    case False
    then obtain e where "checkVulnGate (on_mem_pg bc R) dg d = (Some e, d)"
      unfolding gate by (cases q) (auto simp: gate_passes_def fb [symmetric] split: option.splits if_splits)
    with gm False assms(5) q show ?thesis by simp
  qed
qed

definition gated_router :: "(mem, mem_writer, db) router" where
  "gated_router = demo_router\<lparr>rt_vulnGate := Some \<lparr>vg_enabled = True, vg_allow_unscanned = False, vg_block = [''critical'']\<rparr>,
     rt_report := (\<lambda>_. Some [\<lparr>vu_id = ''CVE-1'', vu_package = ''p'', vu_severity = ''CRITICAL''\<rparr>])\<rparr>"

lemma gated_router_on: "on_mem_pg plain_bcrypt gated_router = gated_router"
  by (simp add: on_mem_pg_def gated_router_def demo_router_def)

theorem vuln_gate_decides_witness:
  "rs_status (fst (getManifest gated_router demo_pull ''v1'' (snd (pg_SaveScanReport ''sha256:aa'' ''trivy'' [] two_tags)))) = 403"
proof -
  let ?d = "snd (pg_SaveScanReport ''sha256:aa'' ''trivy'' [] two_tags)"
    and ?g = "\<lparr>vg_enabled = True, vg_allow_unscanned = False, vg_block = [''critical'']\<rparr>"
  have 1: "rt_vulnGate gated_router = Some ?g" "vg_enabled ?g" "rt_upstream gated_router = None"
    by (simp_all add: gated_router_def demo_router_def)
  have 2: "pg_GetManifest (fst (getRepoContext demo_pull)) ''v1'' ?d = (Inr (''mt'', ''sha256:aa'', ''x''), ?d)"
    by (rule prod_eqI) (code_simp, simp add: pg_GetManifest_def split: option.splits)
  have 3: "\<not> gate_passes gated_router ?g (case fst (pg_GetScanReport ''sha256:aa'' ''trivy'' ?d) of Inl _ \<Rightarrow> None | Inr dat \<Rightarrow> Some dat)"
    by code_simp
  show ?thesis
    using vuln_gate_decides [OF 1 2, of plain_bcrypt, unfolded gated_router_on, OF prod.collapse [symmetric]] 3 by simp
qed

text \<open>The gate never sees the registry's own scanners: they store their reports as
  \<^verbatim>\<open>trivy-embedded\<close>, \<^verbatim>\<open>darkscan\<close> and the like, and the gate reads \<^verbatim>\<open>trivy\<close>. As long as no
  report is stored under that name, an enabled gate that refuses unscanned images refuses every
  pull, and one that allows them serves every image whatever its reports say.\<close>

theorem vuln_gate_inert:
  assumes "rt_vulnGate R = Some g" "vg_enabled g" "\<forall>r \<in> set (scans d). sr_scanner r \<noteq> ''trivy''"
  shows "checkVulnGate (on_mem_pg bc R) dg d =
    ((if vg_allow_unscanned g then None else Some (ErrText ''image has not been scanned'')), d)"
proof -
  have "find (\<lambda>r. sr_digest r = dg \<and> sr_scanner r = ''trivy'') (scans d) = None"
    using assms(3) by (auto simp: find_None_iff)
  with assms(1,2) show ?thesis by (simp add: checkVulnGate_def pg_GetScanReport_def)
qed

theorem vuln_gate_inert_witness:
  "fst (checkVulnGate gated_router ''sha256:aa'' (snd (pg_SaveScanReport ''sha256:aa'' ''trivy-embedded'' [] two_tags))) =
     Some (ErrText ''image has not been scanned'')"
proof -
  let ?d = "snd (pg_SaveScanReport ''sha256:aa'' ''trivy-embedded'' [] two_tags)"
    and ?g = "\<lparr>vg_enabled = True, vg_allow_unscanned = False, vg_block = [''critical'']\<rparr>"
  have "rt_vulnGate gated_router = Some ?g" "vg_enabled ?g" by (simp_all add: gated_router_def)
  moreover have "\<forall>r \<in> set (scans ?d). sr_scanner r \<noteq> ''trivy''" by code_simp
  ultimately show ?thesis
    using vuln_gate_inert [of gated_router ?g ?d plain_bcrypt "''sha256:aa''"] unfolding gated_router_on by simp
qed

subsection \<open>Accounting\<close>

text \<open>A repository without a namespace escapes its quota: the database files it under the
  namespace \<^verbatim>\<open>library\<close>, but the handler checks and charges the empty namespace. A push to a name
  without a slash never changes the usage of \<^verbatim>\<open>library\<close>, whatever its limit.\<close>

theorem library_quota_bypass:
  assumes "pg_inv (wd_db w)" "CHR ''/'' \<notin> set (fst (getRepoContext req))"
    and "putManifest (on_mem_pg bc R) req ref w = ((resp, effs), w')"
  shows "fst (parseRepoPath (fst (getRepoContext req))) = ''library'' \<and>
         pg_quo (wd_db w') ''library'' = pg_quo (wd_db w) ''library''"
proof -
  obtain repo ns where ctx: "getRepoContext req = (repo, ns)" by force
  then have ns: "ns = []" using assms(2) by (auto simp: getRepoContext_def Let_def Split_id)
  have "pg_quo (wd_db w') ''library'' = pg_quo (wd_db w) ''library''"
    using mp.putManifest_spec [OF assms(1) ctx assms(3)] by (auto simp: mp.stored_def charge_def ns split: if_splits)
  then show ?thesis using assms(2) by (simp add: parseRepoPath_bare)
qed

definition bare_push :: request where
  "bare_push = with_body (plain_request ''PUT'' ''/v2/app/manifests/v1'' []) [''{}'']"

definition tight_world :: "(mem, db) world" where
  "tight_world = \<lparr>wd_st = Map.empty, wd_db = snd (pg_SetQuota ''library'' 1 empty_db)\<rparr>"

lemma tight_world_inv: "pg_inv (wd_db tight_world)"
  by (simp add: tight_world_def pg_inv_SetQuota pg_inv_empty)

theorem library_quota_bypass_witness:
  "rs_status (fst (fst (putManifest demo_router bare_push ''v1'' tight_world))) = 201 \<and>
   pg_quo (wd_db (snd (putManifest demo_router bare_push ''v1'' tight_world))) ''library'' = pg_quo (wd_db tight_world) ''library''"
proof -
  let ?p = "putManifest demo_router bare_push ''v1'' tight_world"
  have "CHR ''/'' \<notin> set (fst (getRepoContext bare_push))" by code_simp
  moreover have "putManifest (on_mem_pg plain_bcrypt demo_router) bare_push ''v1'' tight_world = ((fst (fst ?p), snd (fst ?p)), snd ?p)"
    unfolding demo_router_on by simp
  moreover have "rs_status (fst (fst ?p)) = 201" by code_simp
  ultimately show ?thesis using library_quota_bypass [OF tight_world_inv] by blast
qed

text \<open>The usage of a namespace drifts from what it stores: pushing the same manifest to the
  same tag twice charges it twice although one manifest is stored, and deleting by digest removes
  every tag of the digest but gives back the bytes of one. Starting from an empty namespace and
  deleting everything that was pushed, the usage is not zero.\<close>

theorem quota_drift:
  "let w1 = snd (putManifest demo_router demo_push ''v1'' empty_world);
       w2 = snd (putManifest demo_router demo_push ''v1'' w1);
       w3 = snd (putManifest demo_router demo_push ''v2'' w2);
       (r, d) = deleteManifest demo_router (plain_request ''DELETE'' ''/v2/lib/app/manifests/sha256:{}'' []) ''sha256:{}'' (wd_db w3)
   in pg_quo (wd_db w1) ''lib'' = Some (100, 2) \<and> pg_quo (wd_db w2) ''lib'' = Some (100, 4) \<and>
      length (manifests (wd_db w2)) = 1 \<and> rs_status (fst r) = 202 \<and> manifests d = [] \<and> pg_quo d ''lib'' = Some (100, 4)"
  by code_simp

end
