(* ===== verification/Events.thy ===== *)
theory Events
  imports Http "HOL-Library.Sublist"
begin

text \<open>
  The event broker and its streams, \<^verbatim>\<open>internal/events/broker.go\<close>: subscribers are buffered
  channels of 64 events, publishing skips the full ones, and a connection drains its channel into
  the response until its client goes away. A step is one critical section of the broker's mutex, the
  closing of a channel, or one turn of a connection's loop; steps of different goroutines interleave.
\<close>

record sse_event =
  se_event :: string
  se_time :: int
  se_data :: "string \<Rightarrow> string option"

definition data_of :: "sse_event \<Rightarrow> string \<Rightarrow> string" where
  "data_of e k = (case se_data e k of None \<Rightarrow> [] | Some v \<Rightarrow> v)"

text \<open>The two kinds of stream, with the query parameter that narrows them.\<close>

datatype stream_kind = ServeSSE string | ServeScanSSE string

fun wants :: "stream_kind \<Rightarrow> sse_event \<Rightarrow> bool" where
  "wants (ServeSSE namespace) e \<longleftrightarrow> namespace = [] \<or> data_of e ''namespace'' = namespace"
| "wants (ServeScanSSE digest) e \<longleftrightarrow> se_event e = ''scan.complete'' \<and> (digest = [] \<or> data_of e ''digest'' = digest)"

subsection \<open>Channels and the broker\<close>

definition chan_cap :: nat where
  "chan_cap = 64"

record channel =
  ch_buf :: "sse_event list"
  ch_closed :: bool

record broker =
  br_subs :: "nat list" \<comment> \<open>the keys of \<open>subscribers\<close>\<close>
  br_chan :: "nat \<Rightarrow> channel"
  br_next :: nat

definition NewBroker :: broker where
  "NewBroker = \<lparr>br_subs = [], br_chan = (\<lambda>_. \<lparr>ch_buf = [], ch_closed = False\<rparr>), br_next = 0\<rparr>"

text \<open>A send in a \<^verbatim>\<open>select\<close> with a default: \<open>None\<close> is the panic of a send on a closed channel.\<close>

definition try_send :: "sse_event \<Rightarrow> channel \<Rightarrow> channel option" where
  "try_send e c =
     (if ch_closed c then None
      else if length (ch_buf c) < chan_cap then Some (c\<lparr>ch_buf := ch_buf c @ [e]\<rparr>)
      else Some c)"

fun publish_to :: "sse_event \<Rightarrow> nat list \<Rightarrow> broker \<Rightarrow> broker option" where
  "publish_to e [] b = Some b"
| "publish_to e (i # is) b =
     (case try_send e (br_chan b i) of
        None \<Rightarrow> None
      | Some c \<Rightarrow> publish_to e is (b\<lparr>br_chan := (br_chan b)(i := c)\<rparr>))"

definition broker_Publish :: "sse_event \<Rightarrow> broker \<Rightarrow> broker option" where
  "broker_Publish e b = publish_to e (br_subs b) b"

definition subscribe :: "broker \<Rightarrow> nat \<times> broker" where
  "subscribe b =
     (br_next b, b\<lparr>br_subs := br_subs b @ [br_next b],
        br_chan := (br_chan b)(br_next b := \<lparr>ch_buf = [], ch_closed = False\<rparr>), br_next := Suc (br_next b)\<rparr>)"

text \<open>\<^verbatim>\<open>unsubscribe\<close> removes the channel under the lock and closes it after.\<close>

definition unsubscribe_delete :: "nat \<Rightarrow> broker \<Rightarrow> broker" where
  "unsubscribe_delete i b = b\<lparr>br_subs := filter (\<lambda>j. j \<noteq> i) (br_subs b)\<rparr>"

definition unsubscribe_close :: "nat \<Rightarrow> broker \<Rightarrow> broker option" where
  "unsubscribe_close i b =
     (if ch_closed (br_chan b i) then None
      else Some (b\<lparr>br_chan := (br_chan b)(i := (br_chan b i)\<lparr>ch_closed := True\<rparr>)\<rparr>))"

subsection \<open>Connections\<close>

text \<open>A connection: its channel, what it wrote, and where it is. The events published while it was
  subscribed, and those of them it was skipped for, are recorded for the statements.\<close>

datatype conn_phase = Serving | Closing | Gone

record conn =
  cn_kind :: stream_kind
  cn_chan :: nat
  cn_phase :: conn_phase
  cn_out :: "sse_event list"
  cn_since :: "sse_event list"
  cn_skipped :: nat

record sse_state =
  ss_broker :: broker
  ss_conns :: "conn list"

definition sse_init :: sse_state where
  "sse_init = \<lparr>ss_broker = NewBroker, ss_conns = []\<rparr>"

definition note_publish :: "broker \<Rightarrow> sse_event \<Rightarrow> conn \<Rightarrow> conn" where
  "note_publish b e c =
     (if cn_phase c = Serving
      then c\<lparr>cn_since := cn_since c @ [e],
             cn_skipped := cn_skipped c + (if length (ch_buf (br_chan b (cn_chan c))) < chan_cap then 0 else 1)\<rparr>
      else c)"

definition sse_publish :: "sse_event \<Rightarrow> sse_state \<Rightarrow> sse_state option" where
  "sse_publish e s =
     map_option (\<lambda>b. \<lparr>ss_broker = b, ss_conns = map (note_publish (ss_broker s) e) (ss_conns s)\<rparr>)
       (broker_Publish e (ss_broker s))"

text \<open>The headers and the ping, then \<^verbatim>\<open>subscribe\<close>.\<close>

definition sse_connect :: "stream_kind \<Rightarrow> sse_state \<Rightarrow> sse_state" where
  "sse_connect kind s =
     (let (i, b) = subscribe (ss_broker s) in
      \<lparr>ss_broker = b, ss_conns = ss_conns s @ [\<lparr>cn_kind = kind, cn_chan = i, cn_phase = Serving,
         cn_out = [], cn_since = [], cn_skipped = 0\<rparr>]\<rparr>)"

text \<open>One turn of the loop that receives an event: it is written, or skipped by \<^verbatim>\<open>continue\<close>.\<close>

definition sse_turn :: "nat \<Rightarrow> sse_state \<Rightarrow> sse_state option" where
  "sse_turn k s =
     (if k < length (ss_conns s) \<and> cn_phase (ss_conns s ! k) = Serving then
        (let c = ss_conns s ! k; ch = br_chan (ss_broker s) (cn_chan c) in
         case ch_buf ch of
           [] \<Rightarrow> None
         | e # es \<Rightarrow>
             Some \<lparr>ss_broker = (ss_broker s)\<lparr>br_chan := (br_chan (ss_broker s))(cn_chan c := ch\<lparr>ch_buf := es\<rparr>)\<rparr>,
                   ss_conns = (ss_conns s)[k := c\<lparr>cn_out := cn_out c @ (if wants (cn_kind c) e then [e] else [])\<rparr>]\<rparr>)
      else None)"

text \<open>The client goes away: the deferred \<^verbatim>\<open>unsubscribe\<close>, in its two parts.\<close>

definition sse_leave :: "nat \<Rightarrow> sse_state \<Rightarrow> sse_state option" where
  "sse_leave k s =
     (if k < length (ss_conns s) \<and> cn_phase (ss_conns s ! k) = Serving
      then Some \<lparr>ss_broker = unsubscribe_delete (cn_chan (ss_conns s ! k)) (ss_broker s),
                 ss_conns = (ss_conns s)[k := (ss_conns s ! k)\<lparr>cn_phase := Closing\<rparr>]\<rparr>
      else None)"

definition sse_close :: "nat \<Rightarrow> sse_state \<Rightarrow> sse_state option" where
  "sse_close k s =
     (if k < length (ss_conns s) \<and> cn_phase (ss_conns s ! k) = Closing
      then map_option (\<lambda>b. \<lparr>ss_broker = b, ss_conns = (ss_conns s)[k := (ss_conns s ! k)\<lparr>cn_phase := Gone\<rparr>]\<rparr>)
             (unsubscribe_close (cn_chan (ss_conns s ! k)) (ss_broker s))
      else None)"

inductive sse_reach :: "sse_state \<Rightarrow> bool" where
  Init: "sse_reach sse_init"
| Publish: "sse_reach s \<Longrightarrow> sse_publish e s = Some s' \<Longrightarrow> sse_reach s'"
| Connect: "sse_reach s \<Longrightarrow> sse_reach (sse_connect kind s)"
| Turn: "sse_reach s \<Longrightarrow> sse_turn k s = Some s' \<Longrightarrow> sse_reach s'"
| Leave: "sse_reach s \<Longrightarrow> sse_leave k s = Some s' \<Longrightarrow> sse_reach s'"
| Close: "sse_reach s \<Longrightarrow> sse_close k s = Some s' \<Longrightarrow> sse_reach s'"

subsection \<open>Invariant\<close>

text \<open>Connections have distinct channels; a channel is subscribed exactly while its connection serves, and
  closed exactly when it is gone.\<close>

definition serving :: "conn list \<Rightarrow> nat list" where
  "serving cs = filter (\<lambda>k. cn_phase (cs ! k) = Serving) [0..<length cs]"

lemma serving_update:
  "k < length cs \<Longrightarrow> (cn_phase c = Serving \<longleftrightarrow> cn_phase (cs ! k) = Serving) \<Longrightarrow> serving (cs[k := c]) = serving cs"
  "k < length cs \<Longrightarrow> cn_phase c \<noteq> Serving \<Longrightarrow> serving (cs[k := c]) = filter (\<lambda>j. j \<noteq> k) (serving cs)"
  unfolding serving_def length_list_update filter_filter by (rule filter_cong; auto simp: nth_list_update)+

definition conns_wf :: "sse_state \<Rightarrow> bool" where
  "conns_wf s \<longleftrightarrow>
     map cn_chan (ss_conns s) = [0..<br_next (ss_broker s)] \<and>
     br_subs (ss_broker s) = serving (ss_conns s) \<and>
     (\<forall>c \<in> set (ss_conns s). ch_closed (br_chan (ss_broker s) (cn_chan c)) \<longleftrightarrow> cn_phase c = Gone)"

definition conn_ok :: "broker \<Rightarrow> conn \<Rightarrow> bool" where
  "conn_ok b c \<longleftrightarrow>
     (let buf = ch_buf (br_chan b (cn_chan c)); got = cn_out c @ filter (wants (cn_kind c)) buf in
      length buf \<le> chan_cap \<and> subseq got (filter (wants (cn_kind c)) (cn_since c)) \<and>
      (cn_skipped c = 0 \<longrightarrow> got = filter (wants (cn_kind c)) (cn_since c)))"

definition sse_inv :: "sse_state \<Rightarrow> bool" where
  "sse_inv s \<longleftrightarrow> conns_wf s \<and> (\<forall>c \<in> set (ss_conns s). conn_ok (ss_broker s) c)"

lemma conns_wfD:
  assumes "conns_wf s"
  shows "length (ss_conns s) = br_next (ss_broker s)"
    and "k < length (ss_conns s) \<Longrightarrow> cn_chan (ss_conns s ! k) = k"
    and "k < length (ss_conns s) \<Longrightarrow> k \<in> set (br_subs (ss_broker s)) \<longleftrightarrow> cn_phase (ss_conns s ! k) = Serving"
    and "k < length (ss_conns s) \<Longrightarrow> ch_closed (br_chan (ss_broker s) k) \<longleftrightarrow> cn_phase (ss_conns s ! k) = Gone"
    and "i \<in> set (br_subs (ss_broker s)) \<Longrightarrow> i < length (ss_conns s)"
    and "distinct (br_subs (ss_broker s))"
proof -
  have m: "map cn_chan (ss_conns s) = [0..<br_next (ss_broker s)]" using assms by (simp add: conns_wf_def)
  show len: "length (ss_conns s) = br_next (ss_broker s)" using arg_cong [OF m, of length] by simp
  have nth: "cn_chan (ss_conns s ! j) = j" if "j < length (ss_conns s)" for j
    using arg_cong [OF m, of "\<lambda>xs. xs ! j"] that len by simp
  have subs: "br_subs (ss_broker s) = serving (ss_conns s)" using assms by (simp add: conns_wf_def)
  show "k < length (ss_conns s) \<Longrightarrow> cn_chan (ss_conns s ! k) = k" by (rule nth)
  show "k < length (ss_conns s) \<Longrightarrow> ch_closed (br_chan (ss_broker s) k) \<longleftrightarrow> cn_phase (ss_conns s ! k) = Gone"
    using assms nth [of k] nth_mem [of k "ss_conns s"] unfolding conns_wf_def by metis
  show "k < length (ss_conns s) \<Longrightarrow> k \<in> set (br_subs (ss_broker s)) \<longleftrightarrow> cn_phase (ss_conns s ! k) = Serving"
    "i \<in> set (br_subs (ss_broker s)) \<Longrightarrow> i < length (ss_conns s)" "distinct (br_subs (ss_broker s))"
    unfolding subs by (auto simp: serving_def)
qed

lemma conns_wfI:
  assumes "length (ss_conns s) = br_next (ss_broker s)" "\<And>k. k < length (ss_conns s) \<Longrightarrow> cn_chan (ss_conns s ! k) = k"
    and "br_subs (ss_broker s) = serving (ss_conns s)"
    and "\<And>k. k < length (ss_conns s) \<Longrightarrow> ch_closed (br_chan (ss_broker s) k) \<longleftrightarrow> cn_phase (ss_conns s ! k) = Gone"
  shows "conns_wf s"
  unfolding conns_wf_def
proof (intro conjI ballI)
  show "map cn_chan (ss_conns s) = [0..<br_next (ss_broker s)]" using assms(1,2) by (intro nth_equalityI) auto
  fix c assume "c \<in> set (ss_conns s)"
  then obtain k where "k < length (ss_conns s)" "c = ss_conns s ! k" by (metis in_set_conv_nth)
  then show "ch_closed (br_chan (ss_broker s) (cn_chan c)) \<longleftrightarrow> cn_phase c = Gone" using assms(2,4) by simp
qed (rule assms(3))

subsection \<open>Publishing\<close>

definition offer :: "sse_event \<Rightarrow> channel \<Rightarrow> channel" where
  "offer e c = (if length (ch_buf c) < chan_cap then c\<lparr>ch_buf := ch_buf c @ [e]\<rparr> else c)"

lemma publish_to_open:
  "distinct is \<Longrightarrow> \<forall>i \<in> set is. \<not> ch_closed (br_chan b i) \<Longrightarrow>
   publish_to e is b = Some (b\<lparr>br_chan := (\<lambda>j. if j \<in> set is then offer e (br_chan b j) else br_chan b j)\<rparr>)"
proof (induction "is" arbitrary: b)
  case (Cons i "is")
  have "try_send e (br_chan b i) = Some (offer e (br_chan b i))" using Cons.prems(2) by (simp add: try_send_def offer_def)
  then show ?case using Cons by (auto simp: fun_eq_iff)
qed simp

text \<open>No published event meets a closed channel.\<close>

lemma publish_no_panic:
  assumes "conns_wf s"
  shows "broker_Publish e (ss_broker s) = Some ((ss_broker s)\<lparr>br_chan :=
    (\<lambda>j. if j \<in> set (br_subs (ss_broker s)) then offer e (br_chan (ss_broker s) j) else br_chan (ss_broker s) j)\<rparr>)"
proof -
  have "\<not> ch_closed (br_chan (ss_broker s) i)" if i: "i \<in> set (br_subs (ss_broker s))" for i
    using conns_wfD(3,4) [OF assms conns_wfD(5) [OF assms i]] i by simp
  then show ?thesis unfolding broker_Publish_def by (intro publish_to_open [OF conns_wfD(6) [OF assms]]) blast
qed

lemma note_publish_simps [simp]:
  "cn_chan (note_publish b e c) = cn_chan c" "cn_phase (note_publish b e c) = cn_phase c"
  "cn_out (note_publish b e c) = cn_out c" "cn_kind (note_publish b e c) = cn_kind c"
  by (simp_all add: note_publish_def)

lemma offer_closed [simp]: "ch_closed (offer e c) = ch_closed c"
  by (simp add: offer_def)

lemma conn_ok_publish:
  assumes "conn_ok b c" "br_chan b' (cn_chan c) = (if cn_phase c = Serving then offer e (br_chan b (cn_chan c)) else br_chan b (cn_chan c))"
  shows "conn_ok b' (note_publish b e c)"
  using assms
  by (auto simp: conn_ok_def note_publish_def offer_def Let_def append_assoc [symmetric]
      simp del: append_assoc intro: list_emb_prefix)

lemma sse_inv_publish: "sse_inv s \<Longrightarrow> sse_publish e s = Some s' \<Longrightarrow> sse_inv s'"
proof -
  assume inv: "sse_inv s" and st: "sse_publish e s = Some s'"
  then have wf: "conns_wf s" by (simp add: sse_inv_def)
  let ?b = "(ss_broker s)\<lparr>br_chan :=
    (\<lambda>j. if j \<in> set (br_subs (ss_broker s)) then offer e (br_chan (ss_broker s) j) else br_chan (ss_broker s) j)\<rparr>"
  have s': "s' = \<lparr>ss_broker = ?b, ss_conns = map (note_publish (ss_broker s) e) (ss_conns s)\<rparr>"
    using st publish_no_panic [OF wf, of e] by (simp add: sse_publish_def)
  have "conns_wf s'"
  proof (rule conns_wfI)
    show "br_subs (ss_broker s') = serving (ss_conns s')"
      using wf by (auto simp: s' conns_wf_def serving_def intro: filter_cong)
  qed (use conns_wfD(1,2,4) [OF wf] in \<open>simp_all add: s'\<close>)
  moreover have "conn_ok ?b (note_publish (ss_broker s) e c)" if c: "c \<in> set (ss_conns s)" for c
  proof -
    obtain k where k: "k < length (ss_conns s)" "c = ss_conns s ! k" using c by (metis in_set_conv_nth)
    have "conn_ok (ss_broker s) c" using inv c by (simp add: sse_inv_def)
    then show ?thesis by (rule conn_ok_publish) (use conns_wfD(2,3) [OF wf k(1)] k(2) in auto)
  qed
  ultimately show "sse_inv s'" by (auto simp: sse_inv_def s')
qed

lemma conn_ok_cong: "br_chan b' (cn_chan c) = br_chan b (cn_chan c) \<Longrightarrow> conn_ok b' c = conn_ok b c"
  by (simp add: conn_ok_def)

lemma sse_inv_connect: "sse_inv s \<Longrightarrow> sse_inv (sse_connect kind s)"
proof -
  assume inv: "sse_inv s"
  then have wf: "conns_wf s" by (simp add: sse_inv_def)
  let ?s = "sse_connect kind s"
  have "conns_wf ?s"
  proof (rule conns_wfI)
    show "br_subs (ss_broker ?s) = serving (ss_conns ?s)"
      using wf conns_wfD(1) [OF wf]
      by (auto simp: sse_connect_def subscribe_def conns_wf_def serving_def nth_append intro: filter_cong)
  qed (use conns_wfD(1,2,4) [OF wf] in \<open>auto simp: sse_connect_def subscribe_def nth_append\<close>)
  moreover have "conn_ok (ss_broker ?s) c" if c: "c \<in> set (ss_conns s)" for c
  proof -
    obtain k where k: "k < length (ss_conns s)" "c = ss_conns s ! k" using c by (metis in_set_conv_nth)
    have "cn_chan c \<noteq> br_next (ss_broker s)" using conns_wfD(1,2) [OF wf] k by auto
    then show ?thesis using inv c by (simp add: sse_inv_def sse_connect_def subscribe_def conn_ok_def)
  qed
  moreover have "ss_conns ?s = ss_conns s @ [last (ss_conns ?s)]" "conn_ok (ss_broker ?s) (last (ss_conns ?s))"
    by (simp_all add: sse_connect_def subscribe_def conn_ok_def)
  ultimately show ?thesis unfolding sse_inv_def by (metis UnE empty_iff empty_set insert_iff list.simps(15) set_append)
qed

text \<open>A step of one connection.\<close>

lemma sse_inv_conn:
  assumes inv: "sse_inv s" and k: "k < length (ss_conns s)"
    and s': "s' = \<lparr>ss_broker = b, ss_conns = (ss_conns s)[k := c]\<rparr>" "cn_chan c = k" "br_next b = br_next (ss_broker s)"
    and other: "\<And>j. j \<noteq> k \<Longrightarrow> br_chan b j = br_chan (ss_broker s) j"
    and subs: "br_subs b = serving ((ss_conns s)[k := c])"
    and closed: "ch_closed (br_chan b k) \<longleftrightarrow> cn_phase c = Gone" and ok: "conn_ok b c"
  shows "sse_inv s'"
proof -
  have wf: "conns_wf s" using inv by (simp add: sse_inv_def)
  have "conns_wf s'"
    by (rule conns_wfI) (use conns_wfD(1,2,4) [OF wf] k other closed subs s'(2,3) in \<open>auto simp: s'(1) nth_list_update\<close>)
  moreover have "conn_ok b d" if d: "d \<in> set ((ss_conns s)[k := c])" for d
  proof (cases "d = c")
    case False
    obtain j where j0: "j < length (ss_conns s)" "d = (ss_conns s)[k := c] ! j"
      using d by (metis in_set_conv_nth length_list_update)
    with False k have j: "j < length (ss_conns s)" "d = ss_conns s ! j" "j \<noteq> k"
      by (auto simp: nth_list_update split: if_splits)
    then have "br_chan b (cn_chan d) = br_chan (ss_broker s) (cn_chan d)" using other conns_wfD(2) [OF wf j(1)] by simp
    then show ?thesis by (rule conn_ok_cong [THEN iffD2]) (use inv j(1,2) in \<open>simp add: sse_inv_def\<close>)
  qed (simp add: ok)
  ultimately show ?thesis by (simp add: sse_inv_def s'(1))
qed

lemma sse_inv_turn: "sse_inv s \<Longrightarrow> sse_turn k s = Some s' \<Longrightarrow> sse_inv s'"
proof -
  assume inv: "sse_inv s" and st: "sse_turn k s = Some s'"
  then have wf: "conns_wf s" by (simp add: sse_inv_def)
  let ?c = "ss_conns s ! k"
  let ?ch = "br_chan (ss_broker s) k"
  from st have k: "k < length (ss_conns s)" and ph: "cn_phase ?c = Serving" by (auto simp: sse_turn_def split: if_splits)
  note wk = conns_wfD(2-4) [OF wf k]
  from st k ph wk(1) obtain e es where e: "ch_buf ?ch = e # es"
    and s': "s' = \<lparr>ss_broker = (ss_broker s)\<lparr>br_chan := (br_chan (ss_broker s))(k := ?ch\<lparr>ch_buf := es\<rparr>)\<rparr>,
      ss_conns = (ss_conns s)[k := ?c\<lparr>cn_out := cn_out ?c @ (if wants (cn_kind ?c) e then [e] else [])\<rparr>]\<rparr>"
    by (auto simp: sse_turn_def Let_def split: list.splits)
  have "conn_ok (ss_broker s) ?c" using inv k by (simp add: sse_inv_def)
  moreover have "serving ((ss_conns s)[k := ?c\<lparr>cn_out := x\<rparr>]) = br_subs (ss_broker s)" for x
    using wf serving_update(1) [OF k, of "?c\<lparr>cn_out := x\<rparr>"] by (simp add: conns_wf_def)
  ultimately show ?thesis
    by (intro sse_inv_conn [OF inv k s']) (use e wk ph in \<open>auto simp: conn_ok_def Let_def\<close>)
qed

lemma sse_inv_leave: "sse_inv s \<Longrightarrow> sse_leave k s = Some s' \<Longrightarrow> sse_inv s'"
proof -
  assume inv: "sse_inv s" and st: "sse_leave k s = Some s'"
  then have wf: "conns_wf s" by (simp add: sse_inv_def)
  let ?c = "ss_conns s ! k"
  from st have k: "k < length (ss_conns s)" and ph: "cn_phase ?c = Serving" by (auto simp: sse_leave_def split: if_splits)
  note wk = conns_wfD(2-4) [OF wf k]
  have s': "s' = \<lparr>ss_broker = unsubscribe_delete k (ss_broker s), ss_conns = (ss_conns s)[k := ?c\<lparr>cn_phase := Closing\<rparr>]\<rparr>"
    using st k ph wk(1) by (simp add: sse_leave_def)
  have "conn_ok (ss_broker s) ?c" using inv k by (simp add: sse_inv_def)
  moreover have "filter (\<lambda>j. j \<noteq> k) (br_subs (ss_broker s)) = serving ((ss_conns s)[k := ?c\<lparr>cn_phase := Closing\<rparr>])"
    using wf serving_update(2) [OF k, of "?c\<lparr>cn_phase := Closing\<rparr>"] by (simp add: conns_wf_def)
  ultimately show ?thesis
    by (intro sse_inv_conn [OF inv k s']) (use wk ph in \<open>auto simp: conn_ok_def Let_def unsubscribe_delete_def\<close>)
qed

lemma sse_inv_close: "sse_inv s \<Longrightarrow> sse_close k s = Some s' \<Longrightarrow> sse_inv s'"
proof -
  assume inv: "sse_inv s" and st: "sse_close k s = Some s'"
  then have wf: "conns_wf s" by (simp add: sse_inv_def)
  let ?c = "ss_conns s ! k"
  from st have k: "k < length (ss_conns s)" and ph: "cn_phase ?c = Closing" by (auto simp: sse_close_def split: if_splits)
  note wk = conns_wfD(2-4) [OF wf k]
  have s': "s' = \<lparr>ss_broker = (ss_broker s)\<lparr>br_chan := (br_chan (ss_broker s))(k := (br_chan (ss_broker s) k)\<lparr>ch_closed := True\<rparr>)\<rparr>,
      ss_conns = (ss_conns s)[k := ?c\<lparr>cn_phase := Gone\<rparr>]\<rparr>"
    using st k ph wk by (simp add: sse_close_def unsubscribe_close_def)
  have "conn_ok (ss_broker s) ?c" using inv k by (simp add: sse_inv_def)
  moreover have "br_subs (ss_broker s) = serving ((ss_conns s)[k := ?c\<lparr>cn_phase := Gone\<rparr>])"
    using wf ph serving_update(1) [OF k, of "?c\<lparr>cn_phase := Gone\<rparr>"] by (simp add: conns_wf_def)
  ultimately show ?thesis
    by (intro sse_inv_conn [OF inv k s']) (use wk ph in \<open>auto simp: conn_ok_def Let_def\<close>)
qed

lemma sse_reach_inv: "sse_reach s \<Longrightarrow> sse_inv s"
proof (induction rule: sse_reach.induct)
  case Init
  show ?case by (simp add: sse_inv_def conns_wf_def sse_init_def NewBroker_def serving_def)
qed (auto intro: sse_inv_publish sse_inv_connect sse_inv_turn sse_inv_leave sse_inv_close)

subsection \<open>Properties\<close>

text \<open>(C19) The broker never panics, however subscribing, publishing and unsubscribing interleave: no event is
  sent on a closed channel and no channel is closed twice.\<close>

theorem broker_no_panic:
  assumes "sse_reach s"
  shows "sse_publish e s \<noteq> None \<and>
    (k < length (ss_conns s) \<and> cn_phase (ss_conns s ! k) = Closing \<longrightarrow> sse_close k s \<noteq> None)"
proof -
  have wf: "conns_wf s" using sse_reach_inv [OF assms] by (simp add: sse_inv_def)
  show ?thesis using publish_no_panic [OF wf, of e] conns_wfD(2,4) [OF wf, of k]
    by (auto simp: sse_publish_def sse_close_def unsubscribe_close_def)
qed

definition demo_event :: "string \<Rightarrow> sse_event" where
  "demo_event ns = \<lparr>se_event = ''push'', se_time = 0, se_data = [''namespace'' \<mapsto> ns]\<rparr>"

definition demo_sse :: sse_state where
  "demo_sse = the (sse_publish (demo_event ''b'') (the (sse_turn 0 (the (sse_publish (demo_event ''a'')
     (sse_connect (ServeSSE ''a'') sse_init))))))"

lemma demo_sse_reach: "sse_reach demo_sse"
proof -
  let ?s1 = "sse_connect (ServeSSE ''a'') sse_init"
  let ?s2 = "the (sse_publish (demo_event ''a'') ?s1)"
  let ?s3 = "the (sse_turn 0 ?s2)"
  have "sse_publish (demo_event ''a'') ?s1 \<noteq> None" "sse_turn 0 ?s2 \<noteq> None" "sse_publish (demo_event ''b'') ?s3 \<noteq> None"
    by code_simp+
  then have 1: "sse_publish (demo_event ''a'') ?s1 = Some ?s2" and 2: "sse_turn 0 ?s2 = Some ?s3"
    and 3: "sse_publish (demo_event ''b'') ?s3 = Some demo_sse" unfolding demo_sse_def by simp_all
  show ?thesis
    by (rule sse_reach.Publish [OF sse_reach.Turn [OF sse_reach.Publish [OF sse_reach.Connect [OF sse_reach.Init] 1] 2] 3])
qed

theorem broker_no_panic_witness: "sse_publish (demo_event ''c'') demo_sse \<noteq> None"
  using broker_no_panic [OF demo_sse_reach] by blast

text \<open>What a stream delivers: the events written and still buffered are, in order, wanted events published
  since the connection subscribed, and all of them unless some publish found 64 events pending. A stream
  for a namespace never carries an event of another.\<close>

theorem sse_delivers:
  assumes "sse_reach s" "c \<in> set (ss_conns s)"
  shows "let buf = ch_buf (br_chan (ss_broker s) (cn_chan c)); w = wants (cn_kind c) in
    length buf \<le> 64 \<and> subseq (cn_out c) (filter w (cn_since c)) \<and>
    (cn_skipped c = 0 \<longrightarrow> cn_out c @ filter w buf = filter w (cn_since c)) \<and>
    (\<forall>ns e. cn_kind c = ServeSSE ns \<longrightarrow> ns \<noteq> [] \<longrightarrow> e \<in> set (cn_out c) \<longrightarrow> data_of e ''namespace'' = ns)"
proof -
  let ?w = "wants (cn_kind c)"
  have ok: "conn_ok (ss_broker s) c" using sse_reach_inv [OF assms(1)] assms(2) by (simp add: sse_inv_def)
  have "subseq (cn_out c) (cn_out c @ filter ?w (ch_buf (br_chan (ss_broker s) (cn_chan c))))"
    by (intro list_emb_prefix) simp
  then have sub: "subseq (cn_out c) (filter ?w (cn_since c))"
    using ok by (auto simp: conn_ok_def Let_def intro: subseq_order.trans)
  have "?w e" if "e \<in> set (cn_out c)" for e
    by (rule list_emb_set [OF sub that]) auto
  then show ?thesis using ok sub by (auto simp: conn_ok_def Let_def chan_cap_def)
qed

theorem sse_delivers_witness:
  "cn_out (ss_conns demo_sse ! 0) @ filter (wants (ServeSSE ''a'')) (ch_buf (br_chan (ss_broker demo_sse) 0)) =
     filter (wants (ServeSSE ''a'')) (cn_since (ss_conns demo_sse ! 0)) \<and> length (cn_since (ss_conns demo_sse ! 0)) = 2"
proof -
  let ?c = "ss_conns demo_sse ! 0"
  have l: "length (ss_conns demo_sse) = 1" and c: "cn_skipped ?c = 0" "cn_chan ?c = 0" "cn_kind ?c = ServeSSE ''a''"
    "length (cn_since ?c) = 2" by code_simp+
  have "?c \<in> set (ss_conns demo_sse)" using l by (intro nth_mem) simp
  from sse_delivers [OF demo_sse_reach this] c show ?thesis by (simp add: Let_def)
qed

end
