(* ===== verification/Policy.thy ===== *)
theory Policy
  imports Router Postgres_Integrity
begin

text \<open>
  The policy enforcer, \<^verbatim>\<open>internal/policy/cel.go\<close>: the rules it loads from the store, the
  cache of its verdicts, and the middleware that answers for a request or passes it on. The CEL library
  is a parameter: compiling an expression to a program, and evaluating a program on the variables of a
  request, which yields a boolean, some other value, or an error.
\<close>

subsection \<open>State\<close>

record cel_vars =
  cv_method :: string
  cv_namespace :: string
  cv_repository :: string
  cv_reference :: string
  cv_signature_is_valid :: bool
  cv_signature_issuer :: string
  cv_critical :: int
  cv_high :: int

record 'p cel_lib =
  ce_compile :: "string \<Rightarrow> 'p option" \<comment> \<open>\<open>Compile\<close> and \<open>Program\<close>\<close>
  ce_eval :: "'p \<Rightarrow> cel_vars \<Rightarrow> bool option res" \<comment> \<open>\<open>ContextEval\<close>; \<open>None\<close> is not a boolean\<close>

record 'p enforcer =
  en_rules :: "'p list"
  en_cache :: "string \<Rightarrow> (bool \<times> int) option" \<comment> \<open>verdict and expiry\<close>

definition resultCacheTTL :: int where
  "resultCacheTTL = 30"

subsection \<open>Rules\<close>

definition ReloadPolicies :: "'p cel_lib \<Rightarrow> 'd store \<Rightarrow> 'p enforcer \<Rightarrow> 'd \<Rightarrow> unit res \<times> 'p enforcer" where
  "ReloadPolicies L S e d =
     (case st_ListPolicies S d of
        Inl er \<Rightarrow> (Inl er, e)
      | Inr ps \<Rightarrow> (Inr (), e\<lparr>en_rules := List.map_filter (\<lambda>p. ce_compile L (po_expr p)) ps, en_cache := (\<lambda>_. None)\<rparr>))"

definition NewEnforcer :: "'p cel_lib \<Rightarrow> 'd store \<Rightarrow> 'd \<Rightarrow> 'p enforcer" where
  "NewEnforcer L S d = snd (ReloadPolicies L S \<lparr>en_rules = [], en_cache = (\<lambda>_. None)\<rparr> d)"

definition AddRule :: "'p cel_lib \<Rightarrow> 'd store \<Rightarrow> string \<Rightarrow> 'p enforcer \<Rightarrow> 'd \<Rightarrow> unit res \<times> 'p enforcer \<times> 'd" where
  "AddRule L S expression e d =
     (case ce_compile L expression of
        None \<Rightarrow> (Inl (ErrText ''compile error''), e, d)
      | Some _ \<Rightarrow>
          (case st_AddPolicy S expression d of
             (Inl er, d') \<Rightarrow> (Inl (ErrText (''failed to persist policy: '' @ err_msg er)), e, d')
           | (Inr _, d') \<Rightarrow> (case ReloadPolicies L S e d' of (r, e') \<Rightarrow> (r, e', d'))))"

subsection \<open>The parameters of a route\<close>

fun bind_segs :: "seg list \<Rightarrow> string list \<Rightarrow> (string \<times> string) list" where
  "bind_segs (Param n # ps) (s # ss) = (n, s) # bind_segs ps ss"
| "bind_segs (Fixed _ # ps) (_ # ss) = bind_segs ps ss"
| "bind_segs _ _ = []"

text \<open>\<^verbatim>\<open>chi.URLParam\<close>: empty for a parameter the route does not have.\<close>

definition URLParam :: "request \<Rightarrow> string \<Rightarrow> string" where
  "URLParam req k =
     (case matching_routes req of
        [] \<Rightarrow> []
      | (pat, _) # _ \<Rightarrow>
          (case map_of (bind_segs pat (Split (drop 4 (rq_path req)) CHR ''/'')) k of None \<Rightarrow> [] | Some v \<Rightarrow> v))"

definition policy_ref :: "request \<Rightarrow> string" where
  "policy_ref req =
     (let ref = URLParam req ''reference'';
          ref = (if ref = [] then URLParam req ''digest'' else ref)
      in if ref = [] then URLParam req ''uuid'' else ref)"

subsection \<open>The verdict\<close>

definition cacheKey :: "request \<Rightarrow> string" where
  "cacheKey req = rq_method req @ '':'' @ URLParam req ''namespace'' @ ''/'' @ URLParam req ''repo'' @ '':'' @ policy_ref req"

text \<open>\<^verbatim>\<open>strings.Replace(digest, ":", "-", 1) + ".sig"\<close>.\<close>

fun replace_first :: "char \<Rightarrow> char \<Rightarrow> string \<Rightarrow> string" where
  "replace_first a b [] = []"
| "replace_first a b (c # cs) = (if c = a then b # cs else c # replace_first a b cs)"

definition sigTag :: "string \<Rightarrow> string" where
  "sigTag digest = replace_first CHR '':'' CHR ''-'' digest @ ''.sig''"

definition count_severity :: "string \<Rightarrow> vulnerability list \<Rightarrow> int" where
  "count_severity sev vs = int (length (filter (\<lambda>v. vu_severity v = sev) vs))"

text \<open>What is looked up for a pull: whether the manifest has a signature tag, and the counts of its
  report. \<open>report\<close> decodes a stored report.\<close>

definition pull_facts ::
  "'d store \<Rightarrow> (bytes \<Rightarrow> vulnerability list option) \<Rightarrow> string \<Rightarrow> string \<Rightarrow> 'd \<Rightarrow> (bool \<times> int \<times> int) \<times> 'd" where
  "pull_facts S report repoPath ref d =
     (case st_GetManifest S repoPath ref d of
        (Inl _, d1) \<Rightarrow> ((False, 0, 0), d1)
      | (Inr (_, digest, _), d1) \<Rightarrow>
          (case st_GetManifest S repoPath (sigTag digest) d1 of
             (sig, d2) \<Rightarrow>
               (case st_GetScanReport S digest ''trivy-embedded'' d2 of
                  (rep, d3) \<Rightarrow>
                    ((is_ok sig,
                      (case rep of Inl _ \<Rightarrow> (0, 0)
                       | Inr dat \<Rightarrow> (case report dat of None \<Rightarrow> (0, 0)
                                    | Some vs \<Rightarrow> (count_severity ''CRITICAL'' vs, count_severity ''HIGH'' vs)))), d3))))"

definition request_vars ::
  "'d store \<Rightarrow> (bytes \<Rightarrow> vulnerability list option) \<Rightarrow> request \<Rightarrow> 'd \<Rightarrow> cel_vars \<times> 'd" where
  "request_vars S report req d =
     (let ns = URLParam req ''namespace''; repo = URLParam req ''repo''; ref = policy_ref req;
          ((sig, crit, high), d') =
            (if rq_method req = ''GET'' \<or> rq_method req = ''HEAD''
             then pull_facts S report (path_Join [ns, repo]) ref d
             else ((False, 0, 0), d))
      in (\<lparr>cv_method = ToUpper (rq_method req), cv_namespace = ns, cv_repository = repo, cv_reference = ref,
           cv_signature_is_valid = sig, cv_signature_issuer = (if sig then ''cosign'' else []),
           cv_critical = crit, cv_high = high\<rparr>, d'))"

text \<open>The loop over the rules: the first error or false verdict ends it.\<close>

fun eval_rules :: "'p cel_lib \<Rightarrow> cel_vars \<Rightarrow> 'p list \<Rightarrow> bool res" where
  "eval_rules L vars [] = Inr True"
| "eval_rules L vars (p # ps) =
     (case ce_eval L p vars of
        Inl er \<Rightarrow> Inl er
      | Inr out \<Rightarrow> if out = Some False then Inr False else eval_rules L vars ps)"

definition policy_denied :: response where
  "policy_denied = http_error_json ''DENIED'' ''transaction blocked by registry security policy'' 403"

definition policy_failed :: response where
  "policy_failed = http_error_json ''POLICY_ERROR'' ''internal policy enforcement failure'' 500"

text \<open>Answers the request (\<open>Some\<close>) or passes it on (\<open>None\<close>). \<open>ta\<close> and \<open>tb\<close> are the clock at the lookup and
  at the store of the cached verdict.\<close>

definition enforce ::
  "'p cel_lib \<Rightarrow> 'd store \<Rightarrow> (bytes \<Rightarrow> vulnerability list option) \<Rightarrow> int \<Rightarrow> int \<Rightarrow> request \<Rightarrow>
   'p enforcer \<Rightarrow> 'd \<Rightarrow> response option \<times> 'p enforcer \<times> 'd" where
  "enforce L S report ta tb req e d =
     (if en_rules e = [] then (None, e, d)
      else
        (let k = cacheKey req;
             evaluate = (\<lambda>e. case request_vars S report req d of (vars, d') \<Rightarrow>
               (case eval_rules L vars (en_rules e) of
                  Inl _ \<Rightarrow> (Some policy_failed, e, d')
                | Inr allowed \<Rightarrow>
                    ((if allowed then None else Some policy_denied),
                     e\<lparr>en_cache := (en_cache e)(k := Some (allowed, tb + resultCacheTTL))\<rparr>, d')))
         in case en_cache e k of
              None \<Rightarrow> evaluate e
            | Some (allowed, expiry) \<Rightarrow>
                (if ta < expiry then ((if allowed then None else Some policy_denied), e, d)
                 else evaluate (e\<lparr>en_cache := (en_cache e)(k := None)\<rparr>))))"

subsection \<open>Properties\<close>

lemma eval_rules_true_iff:
  "eval_rules L vars ps = Inr True \<longleftrightarrow> (\<forall>p \<in> set ps. \<exists>out. ce_eval L p vars = Inr out \<and> out \<noteq> Some False)"
  by (induction ps) (auto split: sum.splits)

lemma eval_rules_error: "eval_rules L vars ps \<noteq> Inl er \<or> (\<exists>p \<in> set ps. ce_eval L p vars = Inl er)"
  by (induction ps) (auto split: sum.splits)

text \<open>No cached verdict that is still valid.\<close>

definition fresh_key :: "int \<Rightarrow> request \<Rightarrow> 'p enforcer \<Rightarrow> bool" where
  "fresh_key t req e = (case en_cache e (cacheKey req) of None \<Rightarrow> True | Some (_, expiry) \<Rightarrow> expiry \<le> t)"

lemma enforce_fresh:
  assumes "en_rules e \<noteq> []" "fresh_key ta req e" "request_vars S report req d = (vars, d')"
  shows "fst (enforce L S report ta tb req e d) =
      (case eval_rules L vars (en_rules e) of Inl _ \<Rightarrow> Some policy_failed | Inr b \<Rightarrow> if b then None else Some policy_denied)"
    and "eval_rules L vars (en_rules e) = Inr b \<Longrightarrow>
      en_cache (fst (snd (enforce L S report ta tb req e d))) (cacheKey req) = Some (b, tb + 30) \<and>
      en_rules (fst (snd (enforce L S report ta tb req e d))) = en_rules e"
  using assms
  by (auto simp: enforce_def fresh_key_def resultCacheTTL_def Let_def split: option.splits sum.splits prod.splits)


text \<open>A rule that asks for a signature, over a toy evaluator.\<close>

definition demo_cel :: "string cel_lib" where
  "demo_cel = \<lparr>ce_compile = (\<lambda>s. if s = [] then None else Some s),
     ce_eval = (\<lambda>p v. if p = ''signed'' then Inr (Some (cv_signature_is_valid v)) else Inl (ErrText ''no such variable''))\<rparr>"

definition signed_db :: db where
  "signed_db = snd (pg_PutManifest ''lib/app'' ''sha256-aa.sig'' ''mt'' ''sha256:bb'' ''y''
     (snd (pg_PutManifest ''lib/app'' ''v1'' ''mt'' ''sha256:aa'' ''x'' empty_db)))"

definition demo_enforcer :: "string enforcer" where
  "demo_enforcer = \<lparr>en_rules = [''signed''], en_cache = (\<lambda>_. None)\<rparr>"

definition pull_of :: "string \<Rightarrow> string \<Rightarrow> request" where
  "pull_of repo ref = plain_request ''GET'' (''/v2/'' @ repo @ ''/manifests/'' @ ref) []"

lemma enforce_triple: "enforce L S report ta tb req e d =
    (fst (enforce L S report ta tb req e d), fst (snd (enforce L S report ta tb req e d)), snd (snd (enforce L S report ta tb req e d)))"
  by simp


lemma map_filter_mem: "x \<in> set (List.map_filter f xs) \<longleftrightarrow> (\<exists>y \<in> set xs. f y = Some x)"
  by (force simp: List.map_filter_def)

text \<open>A rule takes effect at once: after \<^verbatim>\<open>AddRule\<close> reports success on the PostgreSQL store, no request on
  which the new rule yields false is passed on, whatever verdicts were cached before.\<close>

theorem AddRule_takes_effect:
  assumes "AddRule L (pg_store bc) ex e d = (Inr u, e', d')" "ce_compile L ex = Some p"
    and "request_vars S report req d1 = (vars, d2)" "ce_eval L p vars = Inr (Some False)"
  shows "fst (enforce L S report ta tb req e' d1) \<noteq> None"
proof -
  have d': "d' = snd (pg_AddPolicy ex d)" and e': "e' = snd (ReloadPolicies L (pg_store bc) e d')"
    using assms(1,2) by (auto simp: AddRule_def pg_store_def pg_AddPolicy_def split: prod.splits)
  have "ex \<in> po_expr ` set (policies d')" by (auto simp: d' pg_AddPolicy_def list_ex_iff)
  then have "p \<in> set (en_rules e')" and c: "en_cache e' = (\<lambda>_. None)"
    using assms(2) by (auto simp: e' ReloadPolicies_def pg_store_def pg_ListPolicies_def map_filter_mem)
  then have "eval_rules L vars (en_rules e') \<noteq> Inr True" "en_rules e' \<noteq> []"
    using assms(4) by (force simp: eval_rules_true_iff)+
  then show ?thesis
    using enforce_fresh(1) [of e' ta req S report d1 vars d2 L tb] c assms(3)
    by (auto simp: fresh_key_def split: sum.splits if_splits)
qed

theorem AddRule_takes_effect_witness:
  "fst (enforce demo_cel (pg_store (\<lambda>_ _. False)) (\<lambda>_. None) 0 0 (pull_of ''lib/app'' ''v2'')
     (fst (snd (AddRule demo_cel (pg_store (\<lambda>_ _. False)) ''signed'' demo_enforcer signed_db))) signed_db) \<noteq> None"
proof -
  let ?S = "pg_store (\<lambda>_ _. False)"
  let ?a = "AddRule demo_cel ?S ''signed'' demo_enforcer signed_db"
  let ?v = "fst (request_vars ?S (\<lambda>_. None) (pull_of ''lib/app'' ''v2'') signed_db)"
  have "fst ?a = Inr ()" by code_simp
  then have a: "?a = (Inr (), fst (snd ?a), snd (snd ?a))" by (metis prod.collapse)
  have "\<not> cv_signature_is_valid ?v" by code_simp
  then have "ce_eval demo_cel ''signed'' ?v = Inr (Some False)" "ce_compile demo_cel ''signed'' = Some ''signed''"
    by (simp_all add: demo_cel_def)
  with AddRule_takes_effect [OF a _ prod.collapse [symmetric], of "''signed''" ?S] show ?thesis by blast
qed

subsection \<open>Nested repositories\<close>

text \<open>A pull of a manifest, by the segments of its path.\<close>

definition pull_path :: "string list \<Rightarrow> string \<Rightarrow> request \<Rightarrow> bool" where
  "pull_path repo ref req \<longleftrightarrow> rq_method req = ''GET'' \<and> (\<forall>p \<in> set (repo @ [ref]). CHR ''/'' \<notin> set p) \<and>
     rq_path req = ''/v2/'' @ Join (repo @ [''manifests'', ref]) CHR ''/''"

lemma pull_path_segs: "pull_path repo ref req \<Longrightarrow> Split (drop 4 (rq_path req)) CHR ''/'' = repo @ [''manifests'', ref]"
  by (auto simp: pull_path_def intro!: Split_Join)

lemma get_routes:
  "filter (\<lambda>(m, pat, h). m = ''GET'') routes =
     concat (map (\<lambda>pre. map (\<lambda>(pat, h). (''GET'', pre @ pat, h))
       [([Fixed ''tags'', Fixed ''list''], H_getTags), ([Fixed ''manifests'', Param ''reference''], H_getManifest),
        ([Fixed ''referrers'', Param ''digest''], H_getReferrers), ([Fixed ''blobs'', Param ''digest''], H_getBlob),
        ([Fixed ''blobs'', Fixed ''uploads'', Param ''uuid''], H_getUploadProgress)]) repo_prefixes)"
  by code_simp

lemma matching_get:
  assumes "pull_path repo ref req"
  shows "matching_routes req = map snd (filter (\<lambda>(m, pat, h). seg_matches pat (repo @ [''manifests'', ref])) (filter (\<lambda>(m, pat, h). m = ''GET'') routes))"
proof -
  have "HasPrefix (rq_path req) ''/v2/''" "rq_method req = ''GET''" using assms by (auto simp: pull_path_def HasPrefix_def)
  then show ?thesis
    by (simp add: matching_routes_def pull_path_segs [OF assms] filter_filter case_prod_unfold conj_commute)
qed

lemma pull_path_match:
  "pull_path [ns, name] ref req \<Longrightarrow>
     matching_routes req = [([Param ''namespace'', Param ''repo'', Fixed ''manifests'', Param ''reference''], H_getManifest)]"
  "pull_path [org, ns, name] ref req \<Longrightarrow>
     matching_routes req = [([Param ''org'', Param ''namespace'', Param ''repo'', Fixed ''manifests'', Param ''reference''], H_getManifest)]"
  by (simp_all add: matching_get get_routes repo_prefixes_def)

lemma pull_path_params:
  assumes "pull_path [ns, name] ref req \<or> pull_path [org, ns, name] ref req"
  shows "URLParam req ''namespace'' = ns \<and> URLParam req ''repo'' = name \<and> policy_ref req = ref \<and> rq_method req = ''GET''"
  using assms
proof
  assume p: "pull_path [ns, name] ref req"
  have "rq_method req = ''GET''" using p by (simp add: pull_path_def)
  then show ?thesis
    by (cases "ref = []") (simp_all add: URLParam_def policy_ref_def pull_path_match(1) [OF p] pull_path_segs [OF p] Let_def)
next
  assume p: "pull_path [org, ns, name] ref req"
  have "rq_method req = ''GET''" using p by (simp add: pull_path_def)
  then show ?thesis
    by (cases "ref = []") (simp_all add: URLParam_def policy_ref_def pull_path_match(2) [OF p] pull_path_segs [OF p] Let_def)
qed

text \<open>The policy looks at the wrong repository: for a pull from \<^verbatim>\<open>org/namespace/repo\<close> the enforcer computes the
  variables, the lookups of manifest, signature and report, and the key of the cached verdict from
  \<^verbatim>\<open>namespace/repo\<close> alone, so they are those of a pull from that repository, while the handler serves
  the manifest of the other.\<close>

theorem policy_ignores_org:
  assumes "pull_path [org, ns, repo] ref r1" "pull_path [ns, repo] ref r2"
  shows "cacheKey r1 = cacheKey r2 \<and> request_vars S report r1 d = request_vars S report r2 d \<and>
    enforce L S report ta tb r1 e d = enforce L S report ta tb r2 e d"
proof -
  note p = pull_path_params [OF disjI2, OF assms(1)] pull_path_params [OF disjI1, OF assms(2)]
  have "cacheKey r1 = cacheKey r2" and "request_vars S report r1 d = request_vars S report r2 d"
    using p by (simp_all add: cacheKey_def request_vars_def)
  then show ?thesis by (simp add: enforce_def)
qed

theorem policy_ignores_org_witness:
  "fst (enforce demo_cel (pg_store (\<lambda>_ _. False)) (\<lambda>_. None) 0 0 (pull_of ''evil/lib/app'' ''v1'') demo_enforcer signed_db) =
   fst (enforce demo_cel (pg_store (\<lambda>_ _. False)) (\<lambda>_. None) 0 0 (pull_of ''lib/app'' ''v1'') demo_enforcer signed_db) \<and>
   fst (getRepoContext (pull_of ''evil/lib/app'' ''v1'')) = ''evil/lib/app''"
proof -
  have "pull_path [''evil'', ''lib'', ''app''] ''v1'' (pull_of ''evil/lib/app'' ''v1'')"
    "pull_path [''lib'', ''app''] ''v1'' (pull_of ''lib/app'' ''v1'')" by code_simp+
  from policy_ignores_org [OF this] have "fst (enforce demo_cel (pg_store (\<lambda>_ _. False)) (\<lambda>_. None) 0 0 (pull_of ''evil/lib/app'' ''v1'') demo_enforcer signed_db) =
    fst (enforce demo_cel (pg_store (\<lambda>_ _. False)) (\<lambda>_. None) 0 0 (pull_of ''lib/app'' ''v1'') demo_enforcer signed_db)" by metis
  moreover have "fst (getRepoContext (pull_of ''evil/lib/app'' ''v1'')) = ''evil/lib/app''" by code_simp
  ultimately show ?thesis by blast
qed

end
