(* ===== verification/Server.thy ===== *)
theory Server
  imports Login Upload_Flow Manifest_Properties Events Policy
begin

text \<open>
  The whole server as \<^verbatim>\<open>Register\<close> of \<^verbatim>\<open>internal/api/v2/router.go\<close> puts it together: the token
  endpoints, the API root, the catalogue, the event stream and the repository routes, each behind the
  middleware it is registered with. A request is served against the state of the storage, the database and
  the policy enforcer. The answers of the routing library to requests without a route and of the rate
  limiter to requests beyond the limit are parameters.
\<close>

subsection \<open>Serving a request\<close>

record ('k, 'p, 's, 'w, 'd) server =
  sv_router :: "('s, 'w, 'd) router"
  sv_jwt :: "'k jwt_lib"
  sv_auth :: "'k middleware"
  sv_login :: "('k, 'd) handler_env"
  sv_cel :: "'p cel_lib"
  sv_limit :: "request \<Rightarrow> response option" \<comment> \<open>\<open>httprate.LimitByIP\<close>\<close>
  sv_unrouted :: "request \<Rightarrow> response" \<comment> \<open>chi's 404 and 405\<close>
  sv_now :: int
  sv_later :: int \<comment> \<open>the clock when a verdict is cached\<close>

type_synonym ('p, 's, 'd) server_state = "('s, 'd) world \<times> 'p enforcer option"

text \<open>A request is answered, turned into an event stream, or ends in a panic.\<close>

datatype served = Reply response | Stream stream_kind | Panicked

definition run_handler ::
  "('s, 'w, 'd) router \<Rightarrow> handler \<Rightarrow> request \<Rightarrow> ('s, 'd) world \<Rightarrow> (response \<times> effect list) \<times> ('s, 'd) world" where
  "run_handler R h req w =
     (let reference = URLParam req ''reference''; digest = URLParam req ''digest''; uuid = URLParam req ''uuid'' in
      case h of
        H_getTags \<Rightarrow> ((getTags R req (wd_db w), []), w)
      | H_getManifest \<Rightarrow> (case getManifest R req reference (wd_db w) of (r, d) \<Rightarrow> ((r, []), w\<lparr>wd_db := d\<rparr>))
      | H_putManifest \<Rightarrow> putManifest R req reference w
      | H_deleteManifest \<Rightarrow> (case deleteManifest R req reference (wd_db w) of (r, d) \<Rightarrow> (r, w\<lparr>wd_db := d\<rparr>))
      | H_getReferrers \<Rightarrow> ((getReferrers R req digest (wd_db w), []), w)
      | H_getBlob \<Rightarrow> ((getBlob R req digest (wd_st w), []), w)
      | H_headBlob \<Rightarrow> ((headBlob R req digest (wd_st w), []), w)
      | H_startUpload \<Rightarrow> (case startUpload R req w of (r, w') \<Rightarrow> ((r, []), w'))
      | H_getUploadProgress \<Rightarrow> ((getUploadProgress R req uuid (wd_st w), []), w)
      | H_patchUpload \<Rightarrow> (case patchUpload R req uuid (wd_st w) of (r, s) \<Rightarrow> ((r, []), w\<lparr>wd_st := s\<rparr>))
      | H_putUpload \<Rightarrow> (case putUpload R None req uuid w of (r, w') \<Rightarrow> ((r, []), w')))"

text \<open>The repository group: authentication, then the policy if there is an enforcer, then the handler.\<close>

definition serve_repo ::
  "('k, 'p, 's, 'w, 'd) server \<Rightarrow> handler \<Rightarrow> request \<Rightarrow> ('p, 's, 'd) server_state \<Rightarrow>
   (response \<times> effect list) \<times> ('p, 's, 'd) server_state" where
  "serve_repo V h req st =
     (let (w, eo) = st; R = sv_router V in
      case Protect (sv_jwt V) (sv_auth V) (sv_now V) req of
        Answer resp \<Rightarrow> ((resp, []), st)
      | Next _ \<Rightarrow>
          (case eo of
             None \<Rightarrow> (case run_handler R h req w of (r, w') \<Rightarrow> (r, w', None))
           | Some e \<Rightarrow>
               (case enforce (sv_cel V) (rt_db R) (rt_report R) (sv_now V) (sv_later V) req e (wd_db w) of
                  (Some resp, e', d') \<Rightarrow> ((resp, []), w\<lparr>wd_db := d'\<rparr>, Some e')
                | (None, e', d') \<Rightarrow> (case run_handler R h req (w\<lparr>wd_db := d'\<rparr>) of (r, w') \<Rightarrow> (r, w', Some e')))))"

definition sseEvents :: "('s, 'w, 'd) router \<Rightarrow> request \<Rightarrow> served" where
  "sseEvents R req =
     (if rt_broker R then Stream (ServeSSE (rq_query req ''namespace''))
      else Reply (http_error [] ''event streaming not available'' 503))"

text \<open>The header every answer below \<^verbatim>\<open>/v2\<close> carries.\<close>

definition with_version :: "response \<Rightarrow> response" where
  "with_version r =
     (if header_of r ''Docker-Distribution-Api-Version'' = None
      then r\<lparr>rs_headers := (''Docker-Distribution-Api-Version'', ''registry/2.0'') # rs_headers r\<rparr> else r)"

definition versioned :: "served \<Rightarrow> served" where
  "versioned x = (case x of Reply r \<Rightarrow> Reply (with_version r) | _ \<Rightarrow> x)"

text \<open>The routes below \<^verbatim>\<open>/v2\<close>; \<open>rest\<close> are the segments after it. The catalogue and the events are mounted as
  routers of their own, so their middleware also runs for paths they do not have.\<close>

definition serve_v2 ::
  "('k, 'p, 's, 'w, 'd) server \<Rightarrow> request \<Rightarrow> ('p, 's, 'd) server_state \<Rightarrow>
   (served \<times> effect list) \<times> ('p, 's, 'd) server_state" where
  "serve_v2 V req st =
     (let R = sv_router V; p = rq_path req;
          guarded = (\<lambda>f. case Protect (sv_jwt V) (sv_auth V) (sv_now V) req of Answer resp \<Rightarrow> Reply resp | Next _ \<Rightarrow> f);
          under = (\<lambda>m. p = m \<or> HasPrefix p (m @ ''/''));
          root = (\<lambda>m. rq_method req = ''GET'' \<and> (p = m \<or> p = m @ ''/''))
      in if root ''/v2'' then ((Reply (baseCheck R req), []), st)
         else if under ''/v2/_catalog'' then
           ((guarded (Reply (if root ''/v2/_catalog'' then getCatalog R req (wd_db (fst st)) else sv_unrouted V req)), []), st)
         else if under ''/v2/_events'' then
           ((guarded (if root ''/v2/_events'' then sseEvents R req else Reply (sv_unrouted V req)), []), st)
         else (case matching_routes req of
                 [] \<Rightarrow> ((Reply (sv_unrouted V req), []), st)
               | (_, h) # _ \<Rightarrow> (case serve_repo V h req st of ((r, effs), st') \<Rightarrow> ((Reply r, effs), st'))))"

definition serve ::
  "('k, 'p, 's, 'w, 'd) server \<Rightarrow> request \<Rightarrow> ('p, 's, 'd) server_state \<Rightarrow>
   (served \<times> effect list) \<times> ('p, 's, 'd) server_state" where
  "serve V req st =
     (let p = rq_path req; (w, eo) = st in
      if p = ''/auth/token'' \<and> rq_method req \<in> {''GET'', ''POST''} then
        (case sv_limit V req of
           Some resp \<Rightarrow> ((Reply resp, []), st)
         | None \<Rightarrow>
             (case tokenHandler (sv_login V) req (wd_db w) of
                (Respond r, d) \<Rightarrow> ((Reply r, []), w\<lparr>wd_db := d\<rparr>, eo)
              | (Panic, d) \<Rightarrow> ((Panicked, []), w\<lparr>wd_db := d\<rparr>, eo)))
      else if p = ''/auth/refresh'' \<and> rq_method req = ''POST''
      then ((Reply (refreshHandler (sv_login V) req (wd_db w)), []), st)
      else if p = ''/v2'' \<or> HasPrefix p ''/v2/''
      then (case serve_v2 V req st of ((r, effs), st') \<Rightarrow> ((versioned r, effs), st'))
      else ((Reply (sv_unrouted V req), []), st))"

subsection \<open>What a request may change\<close>

text \<open>The change from \<open>w\<close> to \<open>w'\<close> is confined to one repository, one namespace's quota and some objects.\<close>

definition confined ::
  "string \<times> string \<Rightarrow> string \<Rightarrow> string set \<Rightarrow> (mem, db) world \<Rightarrow> (mem, db) world \<Rightarrow> bool" where
  "confined nr ns K w w' \<longleftrightarrow>
     (pg_inv (wd_db w) \<longrightarrow> pg_inv (wd_db w') \<and> (\<forall>x. x \<noteq> nr \<longrightarrow> pg_man (wd_db w') x = pg_man (wd_db w) x) \<and>
        (\<forall>x. x \<noteq> ns \<longrightarrow> pg_quo (wd_db w') x = pg_quo (wd_db w) x)) \<and>
     (\<forall>k. k \<notin> K \<longrightarrow> wd_st w' k = wd_st w k)"

lemma confined_refl [simp, intro]: "confined nr ns K w w"
  by (simp add: confined_def)

lemma confined_trans: "confined nr ns K w w1 \<Longrightarrow> confined nr ns K w1 w2 \<Longrightarrow> confined nr ns K w w2"
  by (simp add: confined_def)

lemma confined_mono: "confined nr ns K w w' \<Longrightarrow> K \<subseteq> K' \<Longrightarrow> confined nr ns K' w w'"
  by (auto simp: confined_def)

lemma confined_st: "(\<And>k. k \<notin> K \<Longrightarrow> s' k = wd_st w k) \<Longrightarrow> confined nr ns K w (w\<lparr>wd_st := s'\<rparr>)"
  by (simp add: confined_def)

text \<open>A change of the database alone.\<close>

definition db_confined :: "string \<times> string \<Rightarrow> string \<Rightarrow> db \<Rightarrow> db \<Rightarrow> bool" where
  "db_confined nr ns d d' \<longleftrightarrow>
     (pg_inv d \<longrightarrow> pg_inv d' \<and> (\<forall>x. x \<noteq> nr \<longrightarrow> pg_man d' x = pg_man d x) \<and> (\<forall>x. x \<noteq> ns \<longrightarrow> pg_quo d' x = pg_quo d x))"

lemma db_confined_refl [simp, intro]: "db_confined nr ns d d"
  by (simp add: db_confined_def)

lemma db_confined_trans: "db_confined nr ns d d1 \<Longrightarrow> db_confined nr ns d1 d2 \<Longrightarrow> db_confined nr ns d d2"
  by (simp add: db_confined_def)

lemma db_confined_all:
  assumes "\<And>nr n. db_confined nr n d d'" "pg_inv d"
  shows "pg_inv d' \<and> pg_man d' = pg_man d \<and> pg_quo d' = pg_quo d"
proof -
  have "pg_man d' (a, b) = pg_man d (a, b)" for a b
    using assms(1) [of "(CHR ''x'' # a, b)"] assms(2) by (simp add: db_confined_def)
  moreover have "pg_quo d' n = pg_quo d n" for n
    using assms(1) [of _ "CHR ''x'' # n"] assms(2) by (simp add: db_confined_def)
  ultimately show ?thesis using assms by (auto simp: fun_eq_iff db_confined_def)
qed

lemma confined_split:
  "confined nr ns K w w' \<longleftrightarrow> db_confined nr ns (wd_db w) (wd_db w') \<and> (\<forall>k. k \<notin> K \<longrightarrow> wd_st w' k = wd_st w k)"
  by (auto simp: confined_def db_confined_def)

subsection \<open>The database operations\<close>

lemma db_confined_update: "db_confined nr ns d (snd (pg_UpdateQuotaUsage ns n d))"
proof (cases "pg_UpdateQuotaUsage ns n d")
  case (Pair r d')
  have "r = Inr () \<or> d' = d" using Pair by (auto simp: pg_UpdateQuotaUsage_def split: option.splits if_splits)
  then show ?thesis using Pair pg_UpdateQuotaUsage_spec [of d ns n r d'] by (auto simp: db_confined_def)
qed

lemma db_confined_PutBlob: "db_confined nr ns d (snd (pg_PutBlob dg n mt d))"
  using pg_PutBlob_spec [of d dg n mt] by (cases "pg_PutBlob dg n mt d") (auto simp: db_confined_def)

lemma db_confined_PutManifest: "db_confined (parseRepoPath repo) ns d (snd (pg_PutManifest repo ref mt dg pl d))"
  using pg_PutManifest_spec [of d repo ref mt dg pl] by (cases "pg_PutManifest repo ref mt dg pl d") (auto simp: db_confined_def)

lemma db_confined_Artifact: "db_confined nr ns d (snd (pg_SetArtifactMetadata a d))"
  using pg_SetArtifactMetadata_spec [of d a] by (cases "pg_SetArtifactMetadata a d") (auto simp: db_confined_def)

lemma db_confined_WithTx:
  "(\<And>r d'. f d = (r, d') \<Longrightarrow> db_confined nr ns d d') \<Longrightarrow> db_confined nr ns d (snd (pg_WithTx f d))"
  by (auto simp: pg_WithTx_def split: prod.splits sum.splits)

text \<open>The views read four tables.\<close>

lemma views_frame:
  assumes "namespaces d' = namespaces d" "repositories d' = repositories d" "manifests d' = manifests d" "quotas d' = quotas d"
  shows "pg_man d' = pg_man d" "pg_quo d' = pg_quo d" "pg_imm d' = pg_imm d"
  using assms by (simp_all add: fun_eq_iff pg_man_def pg_quo_def pg_imm_def mf_find_def ns_lookup_def repo_lookup_def repo_in_def)

lemma db_confined_side:
  "db_confined nr ns d (snd (pg_CreateUser u h scs d))" "db_confined nr ns d (snd (pg_UpdateUser u scs d))"
  "db_confined nr ns d (snd (pg_UpdateAccessTokenLastUsed tid d))" "db_confined nr ns d (snd (pg_RecordLoginAttempt u ip ok d))"
  unfolding db_confined_def
  by (intro impI conjI allI; (simp add: pg_inv_side_tables)?; rule views_frame [THEN fun_cong];
      simp add: pg_CreateUser_def pg_UpdateUser_def pg_UpdateAccessTokenLastUsed_def pg_RecordLoginAttempt_def)+

lemma find_filter_keep: "(\<And>m. R m \<Longrightarrow> Q m) \<Longrightarrow> find R (filter Q xs) = find R xs"
  by (induction xs) auto

lemma manifests_lookups [simp]:
  "repo_lookup x (d\<lparr>manifests := ms\<rparr>) = repo_lookup x d" "ns_lookup n (d\<lparr>manifests := ms\<rparr>) = ns_lookup n d"
  by (simp_all add: repo_lookup_def repo_in_def ns_lookup_def)

lemma db_confined_Delete: "db_confined (parseRepoPath repo) ns d (snd (pg_DeleteManifest repo ref d))"
proof -
  let ?d = "d\<lparr>manifests := filter (\<lambda>m. \<not> (row_matches ref m \<and> repo_lookup (parseRepoPath repo) d = Some (mf_repo m))) (manifests d)\<rparr>"
  have man: "pg_man ?d x = pg_man d x" if inv: "pg_inv d" "x \<noteq> parseRepoPath repo" for x
  proof (cases "repo_lookup x d")
    case (Some i)
    have "repo_lookup (parseRepoPath repo) d \<noteq> Some i" using repo_lookup_inj [of d x i "parseRepoPath repo"] that Some by blast
    then have "mf_find i r ?d = mf_find i r d" for r
      by (simp add: mf_find_def, intro find_filter_keep) auto
    then show ?thesis using Some by (simp add: pg_man_def fun_eq_iff)
  qed (simp add: pg_man_def fun_eq_iff)
  have quo: "pg_quo ?d = pg_quo d" by (simp add: pg_quo_def fun_eq_iff)
  have "snd (pg_DeleteManifest repo ref d) \<in> {d, ?d}" by (simp add: pg_DeleteManifest_def Let_def)
  then show ?thesis using pg_inv_filter(1) man quo by (auto simp: db_confined_def)
qed

subsection \<open>The handlers\<close>

lemma pg_sels:
  "st_WithTx (pg_store bc) = pg_WithTx" "st_PutBlob (pg_store bc) = pg_PutBlob" "st_CheckQuota (pg_store bc) = pg_CheckQuota"
  "st_PutManifest (pg_store bc) = pg_PutManifest" "st_DeleteManifest (pg_store bc) = pg_DeleteManifest"
  "st_UpdateQuotaUsage (pg_store bc) = pg_UpdateQuotaUsage" "st_SetArtifactMetadata (pg_store bc) = pg_SetArtifactMetadata"
  by (simp_all add: pg_store_def)

lemma mem_sels:
  "pv_Writer memory_provider p s = (Inr (MemWriter p []), s)" "pv_Appender memory_provider p s = (Inr (MemAppender p []), s)"
  "pv_Delete memory_provider p s = (Inr (), s(p := None))" "pv_Stat memory_provider = mem_Stat"
  "pv_Reader memory_provider = mem_Reader" "pv_Move memory_provider = mem_Move"
  by (simp_all add: mem_defs fun_eq_iff)

lemma mem_copy_close_frame:
  assumes "mem_ready wr p s d" "copy_close memory_provider wr st s = (r, s')" "k \<noteq> p"
  shows "s' k = s k"
  using memp.copy_close_spec [OF TrueI assms(1), of st "fst r" "snd r" s'] assms by simp

lemma mem_appendBody_frame: "k \<noteq> p \<Longrightarrow> snd (appendBody memory_provider p req n s) k = s k"
  using mem_copy_close_frame [of "MemAppender p []" p s]
  by (auto simp: appendBody_def mem_defs split: prod.splits option.splits sum.splits)

lemma mem_Delete_frame [simp]: "k \<noteq> p \<Longrightarrow> snd (pv_Delete memory_provider p s) k = s k"
  by (simp add: mem_defs)

lemma confined_record_blob:
  "db_confined nr ns d (snd (pg_WithTx (record_blob (pg_store bc) ns q dg n) d))"
proof (rule db_confined_WithTx)
  fix r d' assume "record_blob (pg_store bc) ns q dg n d = (r, d')"
  then have "d' \<in> {snd (pg_PutBlob dg n ''application/octet-stream'' d),
      snd (pg_UpdateQuotaUsage ns n (snd (pg_PutBlob dg n ''application/octet-stream'' d)))}"
    by (auto simp: record_blob_def pg_store_def split: prod.splits sum.splits option.splits)
  then show "db_confined nr ns d d'"
    using db_confined_PutBlob db_confined_update db_confined_trans by blast
qed

text \<open>Once the handlers are taken apart, what is left is the frame of their operations.\<close>

lemma confined_finalize:
  "confined nr ns {temp, final} w (snd (finalize (on_mem_pg bc R) ns q dg n temp final w))"
  using confined_record_blob [of nr ns "wd_db w" bc q dg n]
  by (auto simp: finalize_def confined_split mem_defs pg_store_def Let_def split: sum.splits prod.splits option.splits)

lemma confined_commit:
  "confined nr ns {temp, final} w (snd (commitUpload (on_mem_pg bc R) None repo ns dg n temp final w))"
proof -
  have drop: "confined nr ns {temp, final} v (v\<lparr>wd_st := snd (pv_Delete memory_provider temp (wd_st v))\<rparr>)" for v
    by (rule confined_st) simp
  have "confined nr ns {temp, final} w (w1\<lparr>wd_st := snd (pv_Delete memory_provider temp (wd_st w1))\<rparr>)"
    if "finalize (on_mem_pg bc R) ns q dg n temp final w = (r, w1)" for r q w1
    using confined_finalize [of nr ns temp final w bc R q dg n] that confined_trans [OF _ drop] by simp
  then show ?thesis
    using drop [of w] confined_finalize [of nr ns temp final w bc R _ dg n]
    by (auto simp: commitUpload_def Let_def split: sum.splits prod.splits if_splits) (metis snd_conv)+
qed

lemma confined_verify:
  "confined nr ns {temp, final} w (snd (verifyUpload (on_mem_pg bc R) None repo ns dg temp final w))"
  using confined_commit [of nr ns temp final w bc R repo dg] confined_st [of "{temp, final}" "snd (pv_Delete memory_provider temp (wd_st w))" w nr ns]
  by (auto simp: verifyUpload_def Let_def split: sum.splits prod.splits read_end.splits if_splits)

lemma confined_putUpload:
  assumes "getRepoContext req = (repo, ns)"
  shows "confined nr ns {UploadPath repo uuid, getPath repo (rq_query req ''digest'')} w (snd (putUpload (on_mem_pg bc R) None req uuid w))"
proof -
  let ?temp = "UploadPath repo uuid" and ?dg = "rq_query req ''digest''"
  let ?final = "getPath repo ?dg"
  have ap: "confined nr ns {?temp, ?final} w (w\<lparr>wd_st := s1\<rparr>)" if "appendBody memory_provider ?temp req n (wd_st w) = (r, s1)" for n r s1
    using mem_appendBody_frame [of _ ?temp req n "wd_st w"] that by (intro confined_st) auto
  have ver: "confined nr ns {?temp, ?final} w (snd (verifyUpload (on_mem_pg bc R) None repo ns ?dg ?temp ?final (w\<lparr>wd_st := s1\<rparr>)))"
    if "appendBody memory_provider ?temp req n (wd_st w) = (r, s1)" for n r s1
    by (rule confined_trans [OF ap [OF that] confined_verify])
  have put: "confined nr ns {?temp, ?final} w (w\<lparr>wd_db := d1, wd_st := snd (pv_Delete memory_provider ?temp (wd_st w))\<rparr>)"
    "confined nr ns {?temp, ?final} w (w\<lparr>wd_db := d1\<rparr>)"
    if "pg_PutBlob ?dg n mt (wd_db w) = (r, d1)" for n mt r d1
    using db_confined_PutBlob [of nr ns "wd_db w" ?dg n mt] that by (simp_all add: confined_split)
  note ver0 = confined_verify [of nr ns ?temp ?final w bc R repo ?dg]
  show ?thesis
  proof (cases "?dg = [] \<or> map_option snd (rt_digest R ?dg) \<noteq> Some ''sha256''")
    case True
    then show ?thesis unfolding putUpload_def assms Let_def prod.case on_mem_pg_simps by auto
  next
    case False
    then have dg: "?dg \<noteq> []" "map_option snd (rt_digest R ?dg) = Some ''sha256''" by auto
    show ?thesis
    proof (cases "pv_Stat memory_provider ?final (wd_st w)")
      case (Inr n)
      obtain r d1 where "pg_PutBlob ?dg n ''application/octet-stream'' (wd_db w) = (r, d1)" by force
      with put [OF this] dg Inr show ?thesis
        unfolding putUpload_def assms Let_def prod.case on_mem_pg_simps pg_sels by (auto split: sum.splits)
    next
      case (Inl e)
      have app: "confined nr ns {?temp, ?final} w (snd (case appendBody memory_provider ?temp req n (wd_st w) of
          (Some resp, s1) \<Rightarrow> (resp, w\<lparr>wd_st := s1\<rparr>)
        | (None, s1) \<Rightarrow> verifyUpload (on_mem_pg bc R) None repo ns ?dg ?temp ?final (w\<lparr>wd_st := s1\<rparr>)))" for n
        using ap [of n] ver [of n] by (cases "appendBody memory_provider ?temp req n (wd_st w)") (auto split: option.splits)
      show ?thesis
        unfolding putUpload_def assms Let_def prod.case on_mem_pg_simps dg(2)
        using dg(1) Inl by (auto simp: app ver0 split: sum.split)
    qed
  qed
qed

lemma mem_appendBody_frameD: "appendBody memory_provider p req n s = (r, s1) \<Longrightarrow> k \<noteq> p \<Longrightarrow> s1 k = s k"
  using mem_appendBody_frame [of k p req n s] by simp

lemma confined_patch:
  assumes "fst (getRepoContext req) = repo"
  shows "confined nr ns {UploadPath repo uuid} w (w\<lparr>wd_st := snd (patchUpload (on_mem_pg bc R) req uuid (wd_st w))\<rparr>)"
  using assms by (intro confined_st)
    (auto simp: patchUpload_def Let_def dest: mem_appendBody_frameD split: sum.splits prod.splits option.splits)

lemma confined_mountCopy:
  "confined nr ns {getPath repo dg} w (snd (mountCopy (on_mem_pg bc R) repo ns src dg q n w))"
proof -
  have fr: "s2 k = wd_st w k" if "copy_close memory_provider (MemWriter (getPath repo dg) []) st (wd_st w) = (r, s2)" "k \<noteq> getPath repo dg" for st r s2 k
    using mem_copy_close_frame [of "MemWriter (getPath repo dg) []" "getPath repo dg" "wd_st w" "[]" st r s2 k] that by simp
  show ?thesis
    unfolding mountCopy_def Let_def on_mem_pg_simps
    using confined_record_blob [of nr ns "wd_db w" bc q dg n]
    by (auto simp: confined_split mem_sels pg_sels dest: fr split: sum.splits prod.splits option.splits)
qed

text \<open>The objects a request to a repository may touch: its upload sessions and its blobs.\<close>

definition repo_objects :: "('s, 'w, 'd) router \<Rightarrow> string \<Rightarrow> string set" where
  "repo_objects R repo =
     {UploadPath repo u |u. CHR ''/'' \<notin> set u} \<union> {getPath repo (''uploads/'' @ rt_uuid R)} \<union>
     {getPath repo t |t. rt_digest R t \<noteq> None} \<union> {getPath repo dg |t dg alg. rt_digest R t = Some (dg, alg)}"

lemma repo_objectsI:
  "CHR ''/'' \<notin> set u \<Longrightarrow> UploadPath repo u \<in> repo_objects R repo" "getPath repo (''uploads/'' @ rt_uuid R) \<in> repo_objects R repo"
  "rt_digest R t \<noteq> None \<Longrightarrow> getPath repo t \<in> repo_objects R repo"
  "rt_digest R t = Some (dg, alg) \<Longrightarrow> getPath repo dg \<in> repo_objects R repo"
  unfolding repo_objects_def by blast+

lemma confined_startUpload:
  assumes "getRepoContext req = (repo, ns)"
  shows "confined nr ns (repo_objects R repo) w (snd (startUpload (on_mem_pg bc R) req w))"
proof -
  have sess: "confined nr ns (repo_objects R repo) v (snd (startSession (on_mem_pg bc R) req v))" for v
    using repo_objectsI(2) [of repo R] by (auto simp: startSession_def confined_split assms mem_sels mem_defs Let_def)
  have mnt: "confined nr ns (repo_objects R repo) w (snd (mountBlob (on_mem_pg bc R) req w))"
  proof -
    have "confined nr ns (repo_objects R repo) w (snd (mountCopy (on_mem_pg bc R) repo ns src dg q n w))"
      if "rt_digest R t = Some (dg, alg)" for t alg src dg q n
      by (rule confined_mono [OF confined_mountCopy]) (use that in \<open>auto intro: repo_objectsI\<close>)
    then show ?thesis unfolding mountBlob_def assms Let_def prod.case on_mem_pg_simps
      by (auto split: sum.splits prod.splits option.splits if_splits)
  qed
  show ?thesis
    using sess [of w] mnt confined_trans [OF mnt sess] by (auto simp: startUpload_def split: prod.splits option.splits)
qed

lemma pg_GetManifest_state [simp]: "snd (pg_GetManifest repo ref d) = d"
  by (simp add: pg_GetManifest_def split: option.splits)

lemma pg_GetManifest_stateD: "pg_GetManifest repo ref d = (r, d') \<Longrightarrow> d' = d"
  using pg_GetManifest_state [of repo ref d] by simp

lemma confined_validate:
  "snd (validateManifestReferences (on_mem_pg bc R) repo pl w) = w"
proof -
  have "snd (check_manifests (on_mem_pg bc R) repo ds d) = d" for ds d
    by (induction ds arbitrary: d) (auto dest!: pg_GetManifest_stateD split: prod.splits sum.splits option.splits if_splits)
  then have "check_manifests (on_mem_pg bc R) repo ds d = (r, d') \<Longrightarrow> d' = d" for ds d r d' by (metis snd_conv)
  then show ?thesis
    by (auto simp: validateManifestReferences_def split: sum.splits prod.splits option.splits)
qed

lemma confined_putManifest:
  assumes "getRepoContext req = (repo, ns)"
  shows "confined (parseRepoPath repo) ns K w (snd (putManifest (on_mem_pg bc R) req ref w))"
proof -
  let ?nr = "parseRepoPath repo"
  have tx: "db_confined ?nr ns d (snd (pg_WithTx (record_manifest (pg_store bc) repo ns ref mt dg pl q) d))" for d mt dg pl q
  proof (rule db_confined_WithTx)
    fix r d' assume "record_manifest (pg_store bc) repo ns ref mt dg pl q d = (r, d')"
    then have "d' \<in> {snd (pg_PutManifest repo ref mt dg pl d),
        snd (pg_UpdateQuotaUsage ns (int (length pl)) (snd (pg_PutManifest repo ref mt dg pl d)))}"
      by (auto simp: record_manifest_def pg_sels split: prod.splits sum.splits option.splits)
    then show "db_confined ?nr ns d d'"
      using db_confined_PutManifest db_confined_update db_confined_trans by blast
  qed
  have store: "confined ?nr ns K w (snd (store_manifest (on_mem_pg bc R) req repo ns ref pl can w))" for pl can
    unfolding store_manifest_def Let_def on_mem_pg_simps pg_sels
    using tx [of "wd_db w"] db_confined_trans [OF tx db_confined_Artifact]
    by (auto simp: confined_split split: sum.splits prod.splits option.splits) (metis snd_conv)+
  show ?thesis
    using store by (auto simp: putManifest_def assms confined_validate split: sum.splits prod.splits option.splits) (metis confined_validate snd_conv confined_refl)+
qed

lemma confined_deleteManifest:
  assumes "getRepoContext req = (repo, ns)"
  shows "db_confined (parseRepoPath repo) ns d (snd (deleteManifest (on_mem_pg bc R) req ref d))"
  using db_confined_Delete [of repo ns d ref] db_confined_trans [OF db_confined_Delete db_confined_update]
  by (auto simp: deleteManifest_def assms pg_sels Let_def dest!: pg_GetManifest_stateD split: sum.splits prod.splits) (metis snd_conv)+

lemma pg_GetScanReport_state [simp]: "snd (pg_GetScanReport dg sc d) = d"
  by (simp add: pg_GetScanReport_def split: option.splits)

lemma pg_GetScanReport_stateD: "pg_GetScanReport dg sc d = (r, d') \<Longrightarrow> d' = d"
  using pg_GetScanReport_state [of dg sc d] by simp

lemmas pg_readD = pg_GetManifest_stateD pg_GetScanReport_stateD

lemma getManifest_state: "snd (getManifest (on_mem_pg bc R) req ref d) = d"
  by (auto simp: getManifest_def checkVulnGate_def dest!: pg_readD split: option.splits sum.splits prod.splits)

lemma enforce_state: "enforce L (pg_store bc) report ta tb req e d = (r, e', d') \<Longrightarrow> d' = d"
proof -
  have "request_vars (pg_store bc) report req d = (vars, d1) \<Longrightarrow> d1 = d" for vars d1
    by (auto simp: request_vars_def pull_facts_def Let_def dest!: pg_readD split: option.splits sum.splits prod.splits if_splits)
  then show "enforce L (pg_store bc) report ta tb req e d = (r, e', d') \<Longrightarrow> ?thesis"
    by (auto simp: enforce_def Let_def split: option.splits sum.splits prod.splits if_splits)
qed

lemma URLParam_no_slash: "CHR ''/'' \<notin> set (URLParam req k)"
proof -
  have "map_of (bind_segs pat ss) k = Some v \<Longrightarrow> v \<in> set ss" for pat ss v
    by (induction pat ss rule: bind_segs.induct) (auto split: if_splits)
  then have "CHR ''/'' \<notin> set v" if "map_of (bind_segs pat (Split p CHR ''/'')) k = Some v" for pat p v
    using that Split_no_sep by blast
  then show ?thesis by (simp add: URLParam_def split: list.split option.split)
qed

definition reading :: "handler \<Rightarrow> bool" where
  "reading h \<longleftrightarrow> h \<in> {H_getTags, H_getManifest, H_getReferrers, H_getBlob, H_headBlob, H_getUploadProgress}"

lemma run_handler_reading: "reading h \<Longrightarrow> snd (run_handler (on_mem_pg bc R) h req w) = w"
  using getManifest_state [of bc R req "URLParam req ''reference''" "wd_db w"]
  by (auto simp: reading_def run_handler_def split: prod.splits)

lemma run_handler_confined:
  assumes "getRepoContext req = (repo, ns)"
  shows "confined (parseRepoPath repo) ns (repo_objects R repo) w (snd (run_handler (on_mem_pg bc R) h req w))"
proof -
  let ?u = "URLParam req ''uuid''" and ?r = "URLParam req ''reference''" and ?dg = "rq_query req ''digest''"
  have up: "UploadPath repo ?u \<in> repo_objects R repo" using repo_objectsI(1) URLParam_no_slash by blast
  have put: "confined (parseRepoPath repo) ns (repo_objects R repo) w (snd (putUpload (on_mem_pg bc R) None req ?u w))"
  proof (cases "rt_digest R ?dg")
    case None
    then have "snd (putUpload (on_mem_pg bc R) None req ?u w) = w"
      unfolding putUpload_def assms Let_def prod.case on_mem_pg_simps by auto
    then show ?thesis by simp
  next
    case (Some x)
    then have "getPath repo ?dg \<in> repo_objects R repo" by (intro repo_objectsI(3)) simp
    then show ?thesis using up by (intro confined_mono [OF confined_putUpload [OF assms]]) auto
  qed
  have patch: "confined (parseRepoPath repo) ns (repo_objects R repo) w (w\<lparr>wd_st := snd (patchUpload (on_mem_pg bc R) req ?u (wd_st w))\<rparr>)"
    using up assms by (intro confined_mono [OF confined_patch]) auto
  have del: "confined (parseRepoPath repo) ns (repo_objects R repo) w (w\<lparr>wd_db := snd (deleteManifest (on_mem_pg bc R) req ?r (wd_db w))\<rparr>)"
    using confined_deleteManifest [OF assms] by (simp add: confined_split)
  show ?thesis
  proof (cases "reading h")
    case True
    then show ?thesis by (simp add: run_handler_reading)
  next
    case False
    then show ?thesis
      using put patch del confined_putManifest [OF assms] confined_startUpload [OF assms, of "parseRepoPath repo" R w bc]
      by (cases h) (auto simp: reading_def run_handler_def split: prod.splits)
  qed
qed

text \<open>The handlers that change something are registered under methods that need the right to push.\<close>

lemma writing_route: "(pat, h) \<in> set (matching_routes req) \<Longrightarrow> \<not> reading h \<Longrightarrow> getRequiredAction req = ''push''"
proof -
  have "list_all (\<lambda>(m, pat, h). reading h \<or> m \<in> {''PUT'', ''DELETE'', ''POST'', ''PATCH''}) routes"
    unfolding reading_def by code_simp
  then show "(pat, h) \<in> set (matching_routes req) \<Longrightarrow> \<not> reading h \<Longrightarrow> ?thesis"
    by (auto simp: matching_routes_def getRequiredAction_def list_all_iff split: if_splits)
qed

text \<open>A request has the right to push to the repository of its path.\<close>

definition may_push :: "('k, 'p, 's, 'w, 'd) server \<Rightarrow> request \<Rightarrow> bool" where
  "may_push V req \<longleftrightarrow>
     mw_developer (sv_auth V) \<or>
     (\<exists>c e. Protect (sv_jwt V) (sv_auth V) (sv_now V) req = Next (Some c) \<and> e \<in> set (cl_access c) \<and>
        ae_type e = ''repository'' \<and> ae_name e = extractRepo (rq_path req) \<and>
        (''push'' \<in> set (ae_actions e) \<or> ''*'' \<in> set (ae_actions e)))"

lemma Next_may_push:
  assumes "Protect (sv_jwt V) (sv_auth V) (sv_now V) req = Next oc" "getRequiredAction req = ''push''"
    and "rq_path req \<notin> {''/v2/'', ''/v2/_catalog''}"
  shows "may_push V req"
proof (cases "mw_developer (sv_auth V)")
  case False
  note n = assms(1) [unfolded Protect_Next_cases [OF False] Let_def]
  then have "\<exists>c e. oc = Some c \<and> e \<in> set (cl_access c) \<and> entry_authorizes req e" using assms(2,3) by (auto simp: entry_authorizes_def)
  then show ?thesis using assms by (fastforce simp: may_push_def entry_authorizes_def)
qed (simp add: may_push_def)

lemma serve_repo_confined:
  assumes "getRepoContext req = (repo, ns)" "sv_router V = on_mem_pg bc R"
    and f: "serve_repo V h req (w, eo) = (r, w', eo')"
  shows "confined (parseRepoPath repo) ns (repo_objects R repo) w w'"
    and "w' \<noteq> w \<Longrightarrow> \<not> reading h \<and> (\<exists>oc. Protect (sv_jwt V) (sv_auth V) (sv_now V) req = Next oc)"
proof -
  have "w' = w \<or> w' = snd (run_handler (on_mem_pg bc R) h req w) \<and> (\<exists>oc. Protect (sv_jwt V) (sv_auth V) (sv_now V) req = Next oc)"
    using f by (auto simp: serve_repo_def assms(2) Let_def dest!: enforce_state split: verdict.splits option.splits prod.splits)
  then show "confined (parseRepoPath repo) ns (repo_objects R repo) w w'"
    and "w' \<noteq> w \<Longrightarrow> \<not> reading h \<and> (\<exists>oc. Protect (sv_jwt V) (sv_auth V) (sv_now V) req = Next oc)"
    using run_handler_confined [OF assms(1)] run_handler_reading by auto
qed

lemma login_confined:
  assumes "he_store E = pg_store bc"
  shows "db_confined nr ns d (snd (tokenHandler E req d))"
proof -
  note side = db_confined_side [of nr ns]
  have tl: "db_confined nr ns d (snd (token_login E req u p d))" for u p
    using side by (auto simp: token_login_def assms pg_store_def Let_def split: sum.splits option.splits)
  have dl: "db_confined nr ns d (snd (db_login E req u p d))" for u p
    using side(1) [of d "''admin''" _ "[''*'']"] side(4)
    by (auto simp: db_login_def assms pg_store_def Let_def split: sum.splits prod.splits) (metis snd_conv)+
  have pl: "db_confined nr ns d (snd (password_login E req u p d))" for u p
    using dl [of u p] side(1) [of d u "''ldap_managed_user''"] side(2) [of d u]
    by (auto simp: password_login_def assms pg_store_def Let_def split: sum.splits prod.splits option.splits) (metis snd_conv)+
  have it: "db_confined nr ns d1 (snd (issue_token E req u n d1))" for u n d1
    using side(4) by (auto simp: issue_token_def assms pg_store_def Let_def split: option.splits sum.splits)
  have "db_confined nr ns d (snd (case (if b then token_login E req u p d else password_login E req u p d) of
      (Refused resp, s') \<Rightarrow> (Respond resp, s') | (Passed None _, s') \<Rightarrow> (Panic, s')
    | (Passed (Some u) name, s') \<Rightarrow> issue_token E req u name s'))" for b u p
  proof (cases "if b then token_login E req u p d else password_login E req u p d")
    case (Pair a d1)
    then have "db_confined nr ns d d1" using tl [of u p] pl [of u p] by (auto split: if_splits)
    then show ?thesis using Pair db_confined_trans [OF _ it] by (simp split: authn.split option.split)
  qed
  then show ?thesis by (auto simp: tokenHandler_def split: option.split)
qed

lemma no_route_at_root: "rq_path req = ''/v2/'' \<Longrightarrow> matching_routes req = []"
proof -
  have "list_all (\<lambda>(m, pat, h). 3 \<le> length pat) routes" by code_simp
  then have "\<not> seg_matches pat [[]]" if "(m, pat, h) \<in> set routes" for m pat h
    using that by (auto simp: list_all_iff dest!: seg_matches_length)
  then show "rq_path req = ''/v2/'' \<Longrightarrow> ?thesis" by (auto simp: matching_routes_def filter_empty_conv)
qed

lemma serve_cases:
  assumes "sv_router V = on_mem_pg bc R" "serve V req (w, eo) = ((r, effs), w', eo')"
  shows "w' = w \<or> w' = w\<lparr>wd_db := snd (tokenHandler (sv_login V) req (wd_db w))\<rparr> \<or>
    (\<exists>pat h x. (pat, h) \<in> set (matching_routes req) \<and> rq_path req \<notin> {''/v2/'', ''/v2/_catalog''} \<and>
       serve_repo V h req (w, eo) = (x, w', eo'))"
proof -
  have v2: "w1 = w \<or> (\<exists>pat h x. (pat, h) \<in> set (matching_routes req) \<and> rq_path req \<notin> {''/v2/'', ''/v2/_catalog''} \<and>
       serve_repo V h req (w, eo) = (x, w1, eo1))"
    if "serve_v2 V req (w, eo) = (x, w1, eo1)" for x w1 eo1
  proof (cases "matching_routes req")
    case Nil
    then show ?thesis using that by (auto simp: serve_v2_def Let_def split: if_splits)
  next
    case (Cons a as)
    then have "rq_path req \<noteq> ''/v2/''" using no_route_at_root by auto
    then show ?thesis using that Cons
      by (cases a) (fastforce simp: serve_v2_def Let_def split: if_splits prod.splits)
  qed
  show ?thesis using assms(2)
    by (auto simp: serve_def Let_def dest!: v2 split: if_splits option.splits prod.splits outcome.splits)
qed


text \<open>A server on the in-memory provider with one account, and a client whose token may push to one repository.\<close>

definition demo_server :: "(nat, string, mem, mem_writer, db) server" where
  "demo_server = \<lparr>sv_router = demo_router,
     sv_jwt = one_token (claims_of ''bob'' 0 [\<lparr>ae_type = ''repository'', ae_name = ''lib/app'', ae_actions = [''push'']\<rparr>]),
     sv_auth = one_middleware, sv_login = bob_env, sv_cel = demo_cel, sv_limit = (\<lambda>_. None),
     sv_unrouted = (\<lambda>_. http_error [] ''404 page not found'' 404), sv_now = 0, sv_later = 0\<rparr>"

definition authorized :: "request \<Rightarrow> request" where
  "authorized r = r\<lparr>rq_header := (\<lambda>k. if k = ''Authorization'' then ''Bearer tok'' else rq_header r k)\<rparr>"


end
