(* ===== verification/Upload_Lock.thy ===== *)
theory Upload_Lock
  imports Router
begin

text \<open>
  The locks that serialise the mutations of an upload session: \<^verbatim>\<open>uploadLock\<close> and
  \<^verbatim>\<open>lockUpload\<close> of \<^verbatim>\<open>internal/api/v2/router.go\<close>, with the appends that the handlers
  of \<^verbatim>\<open>PATCH\<close> make between taking and releasing a lock. Requests are threads; a step is one
  critical section of \<^verbatim>\<open>uploadLocksMu\<close>, one operation on the mutex of an entry, or one write
  to the session's object. Entries are heap objects, because the code's argument is about their
  identity: an entry must not be dropped from the map while a request is still queued on it.
\<close>

subsection \<open>State\<close>

record upload_lock =
  ul_mu :: "nat option" \<comment> \<open>the thread that holds the mutex\<close>
  ul_refs :: int

text \<open>Where a request is. \<open>Queued\<close> has taken its reference and not the mutex; \<open>Holding\<close> carries the
  writes still to do; \<open>Leaving\<close> has released the mutex and not its reference.\<close>

datatype phase =
    Idle
  | Queued string nat "bytes list"
  | Holding string nat "bytes list"
  | Leaving string nat

record lock_state =
  lk_locks :: "string \<Rightarrow> nat option" \<comment> \<open>\<open>uploadLocks\<close>\<close>
  lk_heap :: "nat \<Rightarrow> upload_lock"
  lk_next :: nat
  lk_phase :: "nat \<Rightarrow> phase"
  lk_obj :: "string \<Rightarrow> bytes" \<comment> \<open>the session's object\<close>
  lk_req :: "nat \<Rightarrow> bytes list" \<comment> \<open>the body a thread was given\<close>
  lk_done :: "string \<Rightarrow> bytes list list" \<comment> \<open>the bodies finished so far, oldest first\<close>

definition lock_init :: "(string \<Rightarrow> bytes) \<Rightarrow> lock_state" where
  "lock_init objs = \<lparr>lk_locks = (\<lambda>_. None), lk_heap = (\<lambda>_. \<lparr>ul_mu = None, ul_refs = 0\<rparr>), lk_next = 0,
     lk_phase = (\<lambda>_. Idle), lk_obj = objs, lk_req = (\<lambda>_. []), lk_done = (\<lambda>_. [])\<rparr>"

subsection \<open>Steps\<close>

text \<open>The first half of \<^verbatim>\<open>lockUpload\<close>: find or create the entry and take a reference.\<close>

definition lock_enter :: "nat \<Rightarrow> string \<Rightarrow> bytes list \<Rightarrow> lock_state \<Rightarrow> lock_state option" where
  "lock_enter t key body s =
     (if lk_phase s t \<noteq> Idle then None
      else
        (let (a, s1) = (case lk_locks s key of
               Some a \<Rightarrow> (a, s)
             | None \<Rightarrow> (lk_next s, s\<lparr>lk_heap := (lk_heap s)(lk_next s := \<lparr>ul_mu = None, ul_refs = 0\<rparr>),
                          lk_locks := (lk_locks s)(key := Some (lk_next s)), lk_next := Suc (lk_next s)\<rparr>));
             e = lk_heap s1 a
         in Some (s1\<lparr>lk_heap := (lk_heap s1)(a := e\<lparr>ul_refs := ul_refs e + 1\<rparr>),
                     lk_phase := (lk_phase s1)(t := Queued key a body),
                     lk_req := (lk_req s1)(t := body)\<rparr>)))"

text \<open>\<^verbatim>\<open>entry.mu.Lock()\<close> returns only when the mutex is free.\<close>

definition lock_acquire :: "nat \<Rightarrow> lock_state \<Rightarrow> lock_state option" where
  "lock_acquire t s =
     (case lk_phase s t of
        Queued key a body \<Rightarrow>
          (if ul_mu (lk_heap s a) \<noteq> None then None
           else Some (s\<lparr>lk_heap := (lk_heap s)(a := (lk_heap s a)\<lparr>ul_mu := Some t\<rparr>),
                        lk_phase := (lk_phase s)(t := Holding key a body)\<rparr>))
      | _ \<Rightarrow> None)"

text \<open>One write of the appender to the session's object.\<close>

definition lock_write :: "nat \<Rightarrow> lock_state \<Rightarrow> lock_state option" where
  "lock_write t s =
     (case lk_phase s t of
        Holding key a (c # cs) \<Rightarrow>
          Some (s\<lparr>lk_obj := (lk_obj s)(key := lk_obj s key @ c), lk_phase := (lk_phase s)(t := Holding key a cs)\<rparr>)
      | _ \<Rightarrow> None)"

text \<open>The first line of the function \<^verbatim>\<open>lockUpload\<close> returns, run when the handler is done.\<close>

definition lock_unlock :: "nat \<Rightarrow> lock_state \<Rightarrow> lock_state option" where
  "lock_unlock t s =
     (case lk_phase s t of
        Holding key a [] \<Rightarrow>
          Some (s\<lparr>lk_heap := (lk_heap s)(a := (lk_heap s a)\<lparr>ul_mu := None\<rparr>),
                  lk_phase := (lk_phase s)(t := Leaving key a),
                  lk_done := (lk_done s)(key := lk_done s key @ [lk_req s t])\<rparr>)
      | _ \<Rightarrow> None)"

text \<open>The rest of it: give the reference back, and drop the entry with the last one.\<close>

definition lock_leave :: "nat \<Rightarrow> lock_state \<Rightarrow> lock_state option" where
  "lock_leave t s =
     (case lk_phase s t of
        Leaving key a \<Rightarrow>
          (let e = (lk_heap s a)\<lparr>ul_refs := ul_refs (lk_heap s a) - 1\<rparr> in
           Some (s\<lparr>lk_heap := (lk_heap s)(a := e),
                   lk_locks := (if ul_refs e = 0 then (lk_locks s)(key := None) else lk_locks s),
                   lk_phase := (lk_phase s)(t := Idle)\<rparr>))
      | _ \<Rightarrow> None)"

inductive lock_step :: "nat \<Rightarrow> lock_state \<Rightarrow> lock_state \<Rightarrow> bool" where
  Enter: "lock_enter t key body s = Some s' \<Longrightarrow> lock_step t s s'"
| Acquire: "lock_acquire t s = Some s' \<Longrightarrow> lock_step t s s'"
| Write: "lock_write t s = Some s' \<Longrightarrow> lock_step t s s'"
| Unlock: "lock_unlock t s = Some s' \<Longrightarrow> lock_step t s s'"
| Leave: "lock_leave t s = Some s' \<Longrightarrow> lock_step t s s'"

inductive lock_reach :: "(string \<Rightarrow> bytes) \<Rightarrow> lock_state \<Rightarrow> bool" for objs where
  Init: "lock_reach objs (lock_init objs)"
| Step: "lock_reach objs s \<Longrightarrow> lock_step t s s' \<Longrightarrow> lock_reach objs s'"

text \<open>Runs in which only the requests already under way make steps.\<close>

inductive lock_steps :: "lock_state \<Rightarrow> lock_state \<Rightarrow> bool" where
  Done: "lock_steps s s"
| More: "lock_step t s s1 \<Longrightarrow> lk_phase s t \<noteq> Idle \<Longrightarrow> lock_steps s1 s2 \<Longrightarrow> lock_steps s s2"

text \<open>A schedule: which request makes which step next.\<close>

datatype lock_op = OEnter nat string "bytes list" | OAcquire nat | OWrite nat | OUnlock nat | OLeave nat

fun lock_do :: "lock_op \<Rightarrow> lock_state \<Rightarrow> lock_state option" where
  "lock_do (OEnter t k b) = lock_enter t k b"
| "lock_do (OAcquire t) = lock_acquire t"
| "lock_do (OWrite t) = lock_write t"
| "lock_do (OUnlock t) = lock_unlock t"
| "lock_do (OLeave t) = lock_leave t"

fun lock_run :: "lock_op list \<Rightarrow> lock_state \<Rightarrow> lock_state option" where
  "lock_run [] s = Some s"
| "lock_run (x # xs) s = Option.bind (lock_do x s) (lock_run xs)"

lemma lock_reach_run: "lock_run xs s = Some s' \<Longrightarrow> lock_reach objs s \<Longrightarrow> lock_reach objs s'"
proof (induction xs arbitrary: s)
  case (Cons x xs)
  then obtain s1 where "lock_do x s = Some s1" "lock_run xs s1 = Some s'" by (auto split: bind_splits)
  moreover from this have "\<exists>t. lock_step t s s1" by (cases x) (auto intro: lock_step.intros)
  ultimately show ?case using Cons by (blast intro: lock_reach.Step)
qed simp

subsection \<open>Invariant\<close>

fun active :: "phase \<Rightarrow> (string \<times> nat) option" where
  "active Idle = None"
| "active (Queued k a _) = Some (k, a)"
| "active (Holding k a _) = Some (k, a)"
| "active (Leaving k a) = Some (k, a)"

fun holds :: "string \<Rightarrow> nat \<Rightarrow> phase \<Rightarrow> bool" where
  "holds k a (Holding k' a' _) \<longleftrightarrow> k = k' \<and> a = a'"
| "holds k a _ \<longleftrightarrow> False"

lemma holds_active: "holds k a p \<Longrightarrow> active p = Some (k, a)"
  by (cases p) auto

definition users :: "nat \<Rightarrow> lock_state \<Rightarrow> nat set" where
  "users a s = {t. \<exists>k. active (lk_phase s t) = Some (k, a)}"

text \<open>The map and the reference counts: an entry in the map is referenced, by exactly the requests that
  use it, and a request's entry is the one in the map.\<close>

definition refs_inv :: "lock_state \<Rightarrow> bool" where
  "refs_inv s \<longleftrightarrow>
     (\<forall>k a. lk_locks s k = Some a \<longrightarrow> a < lk_next s \<and> finite (users a s) \<and> users a s \<noteq> {} \<and>
        ul_refs (lk_heap s a) = int (card (users a s))) \<and>
     (\<forall>k k' a. lk_locks s k = Some a \<longrightarrow> lk_locks s k' = Some a \<longrightarrow> k = k') \<and>
     (\<forall>t k a. active (lk_phase s t) = Some (k, a) \<longrightarrow> lk_locks s k = Some a)"

lemma refs_invD:
  assumes "refs_inv s"
  shows "lk_locks s k = Some a \<Longrightarrow> a < lk_next s \<and> finite (users a s) \<and> users a s \<noteq> {} \<and>
           ul_refs (lk_heap s a) = int (card (users a s))"
    and "lk_locks s k = Some a \<Longrightarrow> lk_locks s k' = Some a \<Longrightarrow> k = k'"
    and "active (lk_phase s t) = Some (k, a) \<Longrightarrow> lk_locks s k = Some a"
  using assms by (auto simp: refs_inv_def)

text \<open>The mutex of an entry is held by the one request that is \<open>Holding\<close> it.\<close>

definition mutex_inv :: "lock_state \<Rightarrow> bool" where
  "mutex_inv s \<longleftrightarrow>
     (\<forall>k a t. lk_locks s k = Some a \<longrightarrow> (ul_mu (lk_heap s a) = Some t \<longleftrightarrow> holds k a (lk_phase s t)))"

lemma mutex_invD:
  "mutex_inv s \<Longrightarrow> lk_locks s k = Some a \<Longrightarrow> ul_mu (lk_heap s a) = Some t \<longleftrightarrow> holds k a (lk_phase s t)"
  by (simp add: mutex_inv_def)

text \<open>The object is the original content, the finished bodies, and what the holder has written.\<close>

definition log_inv :: "(string \<Rightarrow> bytes) \<Rightarrow> lock_state \<Rightarrow> bool" where
  "log_inv objs s \<longleftrightarrow>
     (\<forall>k. (\<forall>t a. \<not> holds k a (lk_phase s t)) \<longrightarrow> lk_obj s k = objs k @ concat (map concat (lk_done s k))) \<and>
     (\<forall>t k a cs. lk_phase s t = Holding k a cs \<longrightarrow>
        lk_obj s k @ concat cs = objs k @ concat (map concat (lk_done s k)) @ concat (lk_req s t)) \<and>
     (\<forall>t k a cs. lk_phase s t = Queued k a cs \<longrightarrow> cs = lk_req s t)"

lemma log_invD:
  assumes "log_inv objs s"
  shows "(\<And>t a. \<not> holds k a (lk_phase s t)) \<Longrightarrow> lk_obj s k = objs k @ concat (map concat (lk_done s k))"
    and "lk_phase s t = Holding k a cs \<Longrightarrow>
      lk_obj s k @ concat cs = objs k @ concat (map concat (lk_done s k)) @ concat (lk_req s t)"
    and "lk_phase s t = Queued k a cs \<Longrightarrow> cs = lk_req s t"
  using assms by (auto simp: log_inv_def)

lemma log_invI:
  assumes "\<And>k. (\<And>t a. \<not> holds k a (lk_phase s t)) \<Longrightarrow> lk_obj s k = objs k @ concat (map concat (lk_done s k))"
    and "\<And>t k a cs. lk_phase s t = Holding k a cs \<Longrightarrow>
      lk_obj s k @ concat cs = objs k @ concat (map concat (lk_done s k)) @ concat (lk_req s t)"
    and "\<And>t k a cs. lk_phase s t = Queued k a cs \<Longrightarrow> cs = lk_req s t"
  shows "log_inv objs s"
  using assms by (auto simp: log_inv_def)

lemma users_cong: "lk_phase s' = (lk_phase s)(t := p) \<Longrightarrow>
    users a s' = (if \<exists>k. active p = Some (k, a) then insert t (users a s) else users a s - {t})"
  by (auto simp: users_def)

lemma idle_not_user: "lk_phase s t = Idle \<Longrightarrow> t \<notin> users a s"
  by (auto simp: users_def)

text \<open>A step that keeps what a request uses keeps the reference counts.\<close>

lemma refs_inv_same:
  assumes "refs_inv s" "lk_locks s' = lk_locks s" "lk_next s' = lk_next s"
    "\<And>t. active (lk_phase s' t) = active (lk_phase s t)" "\<And>a. ul_refs (lk_heap s' a) = ul_refs (lk_heap s a)"
  shows "refs_inv s'"
proof -
  have "users a s' = users a s" for a using assms(4) by (simp add: users_def)
  with assms show ?thesis by (simp add: refs_inv_def)
qed

lemma refs_inv_enter: "refs_inv s \<Longrightarrow> lock_enter t k b s = Some s' \<Longrightarrow> refs_inv s'"
proof -
  assume inv: "refs_inv s" and st: "lock_enter t k b s = Some s'"
  then have idle: "lk_phase s t = Idle" by (auto simp: lock_enter_def split: if_splits)
  show "refs_inv s'"
  proof (cases "lk_locks s k")
    case (Some a)
    with st idle have s': "s' = s\<lparr>lk_heap := (lk_heap s)(a := (lk_heap s a)\<lparr>ul_refs := ul_refs (lk_heap s a) + 1\<rparr>),
        lk_phase := (lk_phase s)(t := Queued k a b), lk_req := (lk_req s)(t := b)\<rparr>"
      by (simp add: lock_enter_def Let_def)
    have u: "users a' s' = (if a' = a then insert t (users a s) else users a' s)" for a'
      using idle_not_user [OF idle] by (subst users_cong [of s' s t "Queued k a b"]) (auto simp: s')
    show ?thesis
      using inv Some idle_not_user [OF idle, of a] unfolding refs_inv_def u by (auto simp: s')
  next
    case None
    let ?a = "lk_next s"
    from None st idle have s': "s' = s\<lparr>lk_heap := (lk_heap s)(?a := \<lparr>ul_mu = None, ul_refs = 1\<rparr>),
        lk_locks := (lk_locks s)(k \<mapsto> ?a), lk_next := Suc ?a,
        lk_phase := (lk_phase s)(t := Queued k ?a b), lk_req := (lk_req s)(t := b)\<rparr>"
      by (auto simp: lock_enter_def Let_def)
    have none: "users ?a s = {}" using inv by (fastforce simp: refs_inv_def users_def)
    have u: "users a' s' = (if a' = ?a then {t} else users a' s)" for a'
      using idle_not_user [OF idle] none by (subst users_cong [of s' s t "Queued k ?a b"]) (auto simp: s')
    show ?thesis
      using inv None unfolding refs_inv_def u by (auto simp: s' less_Suc_eq)
  qed
qed

lemma refs_inv_leave: "refs_inv s \<Longrightarrow> lock_leave t s = Some s' \<Longrightarrow> refs_inv s'"
proof -
  assume inv: "refs_inv s" and st: "lock_leave t s = Some s'"
  then obtain k a where ph: "lk_phase s t = Leaving k a" by (auto simp: lock_leave_def split: phase.splits)
  have la: "lk_locks s k = Some a" using refs_invD(3) [OF inv, of t] ph by simp
  have tu: "t \<in> users a s" "\<And>a'. a' \<noteq> a \<Longrightarrow> t \<notin> users a' s" using ph by (auto simp: users_def)
  have fin: "finite (users a s)" and cnt: "ul_refs (lk_heap s a) = int (card (users a s))"
    using inv la by (auto simp: refs_inv_def)
  have c1: "ul_refs (lk_heap s a) - 1 = int (card (users a s - {t}))"
    using tu(1) fin cnt card_gt_0_iff [of "users a s"] by (auto simp: card_Diff_singleton)
  have z: "ul_refs (lk_heap s a) - 1 = 0 \<longleftrightarrow> users a s - {t} = {}" unfolding c1 using fin by simp
  have s': "s' = s\<lparr>lk_heap := (lk_heap s)(a := (lk_heap s a)\<lparr>ul_refs := ul_refs (lk_heap s a) - 1\<rparr>),
      lk_locks := (if users a s - {t} = {} then (lk_locks s)(k := None) else lk_locks s),
      lk_phase := (lk_phase s)(t := Idle)\<rparr>"
    using st ph z by (simp add: lock_leave_def)
  have u: "users a' s' = (if a' = a then users a s - {t} else users a' s)" for a'
    using tu by (subst users_cong [of s' s t Idle]) (auto simp: s')
  have other: "\<not> users a s \<subseteq> {t}" if "active (lk_phase s t') = Some (k, a')" "t' \<noteq> t" for t' a'
    using that refs_invD(3) [OF inv that(1)] la by (auto simp: users_def)
  show ?thesis
    using inv la c1 fin other unfolding refs_inv_def u by (auto simp: s')
qed

lemma refs_inv_mutex: "refs_inv s \<Longrightarrow> lock_acquire t s = Some s' \<or> lock_unlock t s = Some s' \<Longrightarrow> refs_inv s'"
  by (erule refs_inv_same) (auto simp: lock_acquire_def lock_unlock_def split: phase.splits list.splits if_splits)

lemma refs_inv_write: "refs_inv s \<Longrightarrow> lock_write t s = Some s' \<Longrightarrow> refs_inv s'"
  by (erule refs_inv_same) (auto simp: lock_write_def split: phase.splits list.splits)

lemma refs_inv_step: "lock_step t s s' \<Longrightarrow> refs_inv s \<Longrightarrow> refs_inv s'"
  by (induction rule: lock_step.induct) (blast intro: refs_inv_enter refs_inv_leave refs_inv_mutex refs_inv_write)+

lemma one_holder:
  assumes "refs_inv s" "mutex_inv s" "holds k a (lk_phase s t)" "holds k a' (lk_phase s t')"
  shows "t' = t"
proof -
  note l = holds_active [OF assms(3)] holds_active [OF assms(4)]
  have la: "lk_locks s k = Some a" and "a' = a" using refs_invD(3) [OF assms(1) l(1)] refs_invD(3) [OF assms(1) l(2)] by simp_all
  then show ?thesis using mutex_invD [OF assms(2) la, of t] mutex_invD [OF assms(2) la, of t'] assms(3,4) by simp
qed

text \<open>A step after which the same requests hold the mutexes that are still in the map.\<close>

lemma mutex_inv_keep:
  assumes "mutex_inv s" "\<And>k a. lk_locks s' k = Some a \<Longrightarrow> lk_locks s k = Some a \<and> ul_mu (lk_heap s' a) = ul_mu (lk_heap s a)"
    and "\<And>k a t. holds k a (lk_phase s' t) = holds k a (lk_phase s t)"
  shows "mutex_inv s'"
  using assms by (simp add: mutex_inv_def)

lemma mutex_inv_frame:
  "mutex_inv s \<Longrightarrow> lock_write t s = Some s' \<or> lock_leave t s = Some s' \<Longrightarrow> mutex_inv s'"
  by (erule mutex_inv_keep)
    (auto simp: lock_write_def lock_leave_def Let_def split: phase.splits list.splits if_splits)

lemma mutex_inv_enter: "refs_inv s \<Longrightarrow> mutex_inv s \<Longrightarrow> lock_enter t k b s = Some s' \<Longrightarrow> mutex_inv s'"
proof -
  assume inv: "refs_inv s" "mutex_inv s" and st: "lock_enter t k b s = Some s'"
  then have idle: "lk_phase s t = Idle" by (auto simp: lock_enter_def split: if_splits)
  show "mutex_inv s'"
  proof (cases "lk_locks s k")
    case (Some a)
    from inv(2) show ?thesis
      by (rule mutex_inv_keep) (use st idle Some in \<open>auto simp: lock_enter_def Let_def split: if_splits\<close>)
  next
    case None
    have new: "lk_locks s k' \<noteq> Some (lk_next s)" for k' using refs_invD(1) [OF inv(1), of k' "lk_next s"] by auto
    have "\<not> holds k a (lk_phase s t')" for t' a using refs_invD(3) [OF inv(1), of t' k a] None holds_active by fastforce
    with None inv(2) st idle new show ?thesis by (auto simp: lock_enter_def Let_def mutex_inv_def split: if_splits)
  qed
qed

text \<open>Taking or releasing the mutex of the entry a request uses.\<close>

lemma mutex_inv_set:
  assumes inv: "refs_inv s" "mutex_inv s" and ph: "active (lk_phase s t) = Some (k, a)"
    and s': "lk_locks s' = lk_locks s" "\<And>a'. ul_mu (lk_heap s' a') = (if a' = a then m else ul_mu (lk_heap s a'))"
    and p: "lk_phase s' = (lk_phase s)(t := p)" "\<And>k' a'. holds k' a' p \<longleftrightarrow> m = Some t \<and> k' = k \<and> a' = a"
    and free: "\<And>t'. t' \<noteq> t \<Longrightarrow> \<not> holds k a (lk_phase s t')" "m = None \<or> m = Some t"
  shows "mutex_inv s'"
  unfolding mutex_inv_def
proof (intro allI impI)
  fix k' a' t' assume "lk_locks s' k' = Some a'"
  then have l: "lk_locks s k' = Some a'" by (simp add: s')
  have la: "lk_locks s k = Some a" using refs_invD(3) [OF inv(1) ph] .
  have kk: "a' = a \<Longrightarrow> k' = k" using refs_invD(2) [OF inv(1) la] l by blast
  have t: "holds k' a' (lk_phase s t) \<Longrightarrow> a' = a" using ph holds_active [of k' a' "lk_phase s t"] by auto
  show "ul_mu (lk_heap s' a') = Some t' \<longleftrightarrow> holds k' a' (lk_phase s' t')"
  proof (cases "a' = a")
    case True
    then have "holds k' a' (lk_phase s' t') \<longleftrightarrow> t' = t \<and> m = Some t" using kk free(1) [of t'] p by auto
    with True free(2) show ?thesis by (auto simp: s'(2))
  next
    case False
    then have "holds k' a' (lk_phase s' t') \<longleftrightarrow> holds k' a' (lk_phase s t')" using t p by auto
    with False show ?thesis using mutex_invD [OF inv(2) l, of t'] by (simp add: s'(2))
  qed
qed

lemma mutex_inv_acquire: "refs_inv s \<Longrightarrow> mutex_inv s \<Longrightarrow> lock_acquire t s = Some s' \<Longrightarrow> mutex_inv s'"
proof -
  assume inv: "refs_inv s" "mutex_inv s" and st: "lock_acquire t s = Some s'"
  then obtain k a cs where ph: "lk_phase s t = Queued k a cs" and free: "ul_mu (lk_heap s a) = None"
    and s': "s' = s\<lparr>lk_heap := (lk_heap s)(a := (lk_heap s a)\<lparr>ul_mu := Some t\<rparr>), lk_phase := (lk_phase s)(t := Holding k a cs)\<rparr>"
    by (auto simp: lock_acquire_def split: phase.splits if_splits)
  have la: "lk_locks s k = Some a" using refs_invD(3) [OF inv(1), of t k a] ph by simp
  show ?thesis
    by (rule mutex_inv_set [OF inv, of t k a s' "Some t" "Holding k a cs"])
      (use ph mutex_invD [OF inv(2) la] free in \<open>auto simp: s'\<close>)
qed

lemma mutex_inv_unlock: "refs_inv s \<Longrightarrow> mutex_inv s \<Longrightarrow> lock_unlock t s = Some s' \<Longrightarrow> mutex_inv s'"
proof -
  assume inv: "refs_inv s" "mutex_inv s" and st: "lock_unlock t s = Some s'"
  then obtain k a where ph: "lk_phase s t = Holding k a []"
    and s': "s' = s\<lparr>lk_heap := (lk_heap s)(a := (lk_heap s a)\<lparr>ul_mu := None\<rparr>), lk_phase := (lk_phase s)(t := Leaving k a),
       lk_done := (lk_done s)(k := lk_done s k @ [lk_req s t])\<rparr>"
    by (auto simp: lock_unlock_def split: phase.splits list.splits)
  have "holds k a (lk_phase s t') \<Longrightarrow> t' = t" for t' using one_holder [OF inv, of k a t a t'] ph by simp
  then show ?thesis
    by (intro mutex_inv_set [OF inv, of t k a s' None "Leaving k a"]) (auto simp: s' ph)
qed

lemma mutex_inv_step: "lock_step t s s' \<Longrightarrow> refs_inv s \<Longrightarrow> mutex_inv s \<Longrightarrow> mutex_inv s'"
  by (induction rule: lock_step.induct)
    (blast intro: mutex_inv_enter mutex_inv_acquire mutex_inv_unlock mutex_inv_frame)+

text \<open>A step that leaves the objects, the log and the holders alone.\<close>

lemma log_inv_frame:
  assumes inv: "log_inv objs s" and o: "lk_obj s' = lk_obj s" "lk_done s' = lk_done s"
    and p: "lk_phase s' = (lk_phase s)(t := p)" "\<And>k a. \<not> holds k a (lk_phase s t)" "\<And>k a. \<not> holds k a p"
    and r: "\<And>u. u \<noteq> t \<Longrightarrow> lk_req s' u = lk_req s u" "\<And>k a cs. p = Queued k a cs \<Longrightarrow> cs = lk_req s' t"
  shows "log_inv objs s'"
proof (rule log_invI)
  fix k assume n: "\<And>u a. \<not> holds k a (lk_phase s' u)"
  have "\<not> holds k a (lk_phase s u)" for u a using p(1,2) n [where a = a and u = u] by (cases "u = t") auto
  then show "lk_obj s' k = objs k @ concat (map concat (lk_done s' k))" using log_invD(1) [OF inv] o by simp
next
  fix u k a cs assume "lk_phase s' u = Holding k a cs"
  then have "lk_phase s u = Holding k a cs" "u \<noteq> t" using p(1) p(3) [of k a] by (auto split: if_splits)
  then show "lk_obj s' k @ concat cs = objs k @ concat (map concat (lk_done s' k)) @ concat (lk_req s' u)"
    using log_invD(2) [OF inv] o r(1) by simp
next
  fix u k a cs assume "lk_phase s' u = Queued k a cs"
  then show "cs = lk_req s' u" using p(1) r log_invD(3) [OF inv] by (auto split: if_splits)
qed

lemma log_inv_enter: "log_inv objs s \<Longrightarrow> lock_enter t k b s = Some s' \<Longrightarrow> log_inv objs s'"
  by (rule log_inv_frame [of objs s s' t "lk_phase s' t"])
    (auto simp: lock_enter_def Let_def fun_eq_iff split: option.splits if_splits)

lemma log_inv_leave: "log_inv objs s \<Longrightarrow> lock_leave t s = Some s' \<Longrightarrow> log_inv objs s'"
  by (rule log_inv_frame [of objs s s' t Idle]) (auto simp: lock_leave_def Let_def split: phase.splits)

text \<open>A step of the one request that holds or takes the lock of a key.\<close>

lemma log_inv_holder:
  assumes inv: "log_inv objs s" and one: "\<And>u a. u \<noteq> t \<Longrightarrow> \<not> holds k a (lk_phase s u)"
    and p: "lk_phase s' = (lk_phase s)(t := p)" "\<And>k' a. k' \<noteq> k \<Longrightarrow> \<not> holds k' a (lk_phase s t)" "\<And>k' a' cs. p \<noteq> Queued k' a' cs"
    and o: "\<And>k'. k' \<noteq> k \<Longrightarrow> lk_obj s' k' = lk_obj s k'" "\<And>k'. k' \<noteq> k \<Longrightarrow> lk_done s' k' = lk_done s k'" "lk_req s' = lk_req s"
    and k: "\<And>k' a cs. p = Holding k' a cs \<Longrightarrow> k' = k \<and>
        lk_obj s' k @ concat cs = objs k @ concat (map concat (lk_done s' k)) @ concat (lk_req s t)"
      "(\<And>a. \<not> holds k a p) \<Longrightarrow> lk_obj s' k = objs k @ concat (map concat (lk_done s' k))"
  shows "log_inv objs s'"
proof (rule log_invI)
  fix k' assume n: "\<And>u a. \<not> holds k' a (lk_phase s' u)"
  show "lk_obj s' k' = objs k' @ concat (map concat (lk_done s' k'))"
  proof (cases "k' = k")
    case True then show ?thesis using k(2) n [where u = t] p(1) by simp
  next
    case False
    then have "\<not> holds k' a (lk_phase s u)" for u a using n [where a = a and u = u] p(1,2) False by (cases "u = t") auto
    with False show ?thesis using log_invD(1) [OF inv] o by simp
  qed
next
  fix u k' a cs assume h: "lk_phase s' u = Holding k' a cs"
  show "lk_obj s' k' @ concat cs = objs k' @ concat (map concat (lk_done s' k')) @ concat (lk_req s' u)"
  proof (cases "u = t")
    case True then show ?thesis using h p(1) k(1) o(3) by auto
  next
    case False
    then have ph: "lk_phase s u = Holding k' a cs" using h p(1) by simp
    then have "k' \<noteq> k" using one [OF False, of a] by auto
    then show ?thesis using log_invD(2) [OF inv ph] o by simp
  qed
next
  fix u k' a cs assume "lk_phase s' u = Queued k' a cs"
  then show "cs = lk_req s' u" using p(1,3) o(3) log_invD(3) [OF inv] by (auto split: if_splits)
qed

lemma log_inv_acquire:
  assumes "refs_inv s" "mutex_inv s" "log_inv objs s" "lock_acquire t s = Some s'"
  shows "log_inv objs s'"
proof -
  obtain k a cs where ph: "lk_phase s t = Queued k a cs" and free: "ul_mu (lk_heap s a) = None"
    and s': "s' = s\<lparr>lk_heap := (lk_heap s)(a := (lk_heap s a)\<lparr>ul_mu := Some t\<rparr>), lk_phase := (lk_phase s)(t := Holding k a cs)\<rparr>"
    using assms(4) by (auto simp: lock_acquire_def split: phase.splits if_splits)
  have la: "lk_locks s k = Some a" using refs_invD(3) [OF assms(1), of t k a] ph by simp
  have none: "\<not> holds k a' (lk_phase s u)" for u a'
    using refs_invD(3) [OF assms(1), of u k a'] la free mutex_invD [OF assms(2) la, of u] holds_active by fastforce
  show ?thesis
    by (rule log_inv_holder [OF assms(3), of t k s' "Holding k a cs"])
      (use none log_invD(1,3) [OF assms(3)] ph in \<open>auto simp: s'\<close>)
qed

lemma log_inv_write:
  assumes "refs_inv s" "mutex_inv s" "log_inv objs s" "lock_write t s = Some s'"
  shows "log_inv objs s'"
proof -
  obtain k a c cs where ph: "lk_phase s t = Holding k a (c # cs)"
    and s': "s' = s\<lparr>lk_obj := (lk_obj s)(k := lk_obj s k @ c), lk_phase := (lk_phase s)(t := Holding k a cs)\<rparr>"
    using assms(4) by (auto simp: lock_write_def split: phase.splits list.splits)
  have "u \<noteq> t \<Longrightarrow> \<not> holds k a' (lk_phase s u)" for u a' using one_holder [OF assms(1,2), of k a t a' u] ph by auto
  then show ?thesis
    by (rule log_inv_holder [OF assms(3), of t k s' "Holding k a cs"])
      (use log_invD(2) [OF assms(3) ph] ph in \<open>auto simp: s'\<close>)
qed

lemma log_inv_unlock:
  assumes "refs_inv s" "mutex_inv s" "log_inv objs s" "lock_unlock t s = Some s'"
  shows "log_inv objs s'"
proof -
  obtain k a where ph: "lk_phase s t = Holding k a []"
    and s': "s' = s\<lparr>lk_heap := (lk_heap s)(a := (lk_heap s a)\<lparr>ul_mu := None\<rparr>), lk_phase := (lk_phase s)(t := Leaving k a),
       lk_done := (lk_done s)(k := lk_done s k @ [lk_req s t])\<rparr>"
    using assms(4) by (auto simp: lock_unlock_def split: phase.splits list.splits)
  have "u \<noteq> t \<Longrightarrow> \<not> holds k a' (lk_phase s u)" for u a' using one_holder [OF assms(1,2), of k a t a' u] ph by auto
  then show ?thesis
    by (rule log_inv_holder [OF assms(3), of t k s' "Leaving k a"])
      (use log_invD(2) [OF assms(3) ph] ph in \<open>auto simp: s'\<close>)
qed

lemma lock_reach_inv: "lock_reach objs s \<Longrightarrow> refs_inv s \<and> mutex_inv s \<and> log_inv objs s"
proof (induction rule: lock_reach.induct)
  case Init
  then show ?case by (simp add: lock_init_def refs_inv_def mutex_inv_def log_inv_def)
next
  case (Step s t s')
  from Step.hyps(2) Step.IH have "log_inv objs s'"
    by (cases rule: lock_step.cases) (blast intro: log_inv_enter log_inv_leave log_inv_acquire log_inv_write log_inv_unlock)+
  with Step show ?case using refs_inv_step mutex_inv_step by blast
qed

text \<open>A holder can finish its writes and release the mutex, with no other request moving.\<close>

lemma holder_finishes:
  "lk_phase s h = Holding k a ds \<Longrightarrow>
   \<exists>s'. lock_steps s s' \<and> (\<forall>u. u \<noteq> h \<longrightarrow> lk_phase s' u = lk_phase s u) \<and> ul_mu (lk_heap s' a) = None"
proof (induction ds arbitrary: s)
  case Nil
  let ?s = "s\<lparr>lk_heap := (lk_heap s)(a := (lk_heap s a)\<lparr>ul_mu := None\<rparr>), lk_phase := (lk_phase s)(h := Leaving k a),
     lk_done := (lk_done s)(k := lk_done s k @ [lk_req s h])\<rparr>"
  have "lock_step h s ?s" by (rule lock_step.Unlock) (simp add: lock_unlock_def Nil)
  then have "lock_steps s ?s" by (rule lock_steps.More) (simp_all add: Nil lock_steps.Done)
  then show ?case by (intro exI [of _ ?s]) simp
next
  case (Cons d ds)
  let ?s = "s\<lparr>lk_obj := (lk_obj s)(k := lk_obj s k @ d), lk_phase := (lk_phase s)(h := Holding k a ds)\<rparr>"
  have st: "lock_step h s ?s" by (rule lock_step.Write) (simp add: lock_write_def Cons)
  obtain s' where "lock_steps ?s s'" "\<forall>u. u \<noteq> h \<longrightarrow> lk_phase s' u = lk_phase ?s u" "ul_mu (lk_heap s' a) = None"
    using Cons.IH [of ?s] by auto
  with lock_steps.More [OF st] Cons.prems show ?case by (intro exI [of _ s']) auto
qed

lemma lock_steps_trans: "lock_steps s s1 \<Longrightarrow> lock_steps s1 s2 \<Longrightarrow> lock_steps s s2"
  by (induction rule: lock_steps.induct) (auto intro: lock_steps.intros)

lemma lock_acquire_free:
  assumes "lk_phase s t = Queued k a cs" "ul_mu (lk_heap s a) = None"
  shows "\<exists>s'. lock_steps s s' \<and> lk_phase s' t = Holding k a cs"
proof -
  obtain s' where s': "lock_acquire t s = Some s'" "lk_phase s' t = Holding k a cs"
    using assms by (simp add: lock_acquire_def)
  then have "lock_steps s s'" using assms by (auto intro: lock_steps.intros lock_step.Acquire)
  with s' show ?thesis by blast
qed

subsection \<open>Properties\<close>

text \<open>Requests on the same upload session exclude each other: in every reachable state at most one
  request is between taking and releasing the lock of a key, although entries are created and dropped
  on the fly.\<close>

theorem uploads_exclude:
  assumes "lock_reach objs s" "lk_phase s t = Holding k a cs" "lk_phase s t' = Holding k a' cs'"
  shows "t = t' \<and> a = a'"
  using one_holder [of s k a' t' a t] lock_reach_inv [OF assms(1)] assms(2,3) by auto

text \<open>Two requests on one session; the second one is queued while the first writes, and a third comes
  when the first has left.\<close>

definition demo_objs :: "string \<Rightarrow> bytes" where
  "demo_objs k = (if k = ''k'' then ''ab'' else [])"

definition demo_schedule :: "lock_op list" where
  "demo_schedule = [OEnter 1 ''k'' [''1'', ''2''], OAcquire 1, OWrite 1, OEnter 2 ''k'' [''3'', ''4''], OWrite 1, OUnlock 1, OLeave 1,
     OEnter 3 ''k'' [''5''], OAcquire 2, OWrite 2, OWrite 2]"

definition demo_locked :: lock_state where
  "demo_locked = the (lock_run demo_schedule (lock_init demo_objs))"

definition demo_unlocked :: lock_state where
  "demo_unlocked = the (lock_run [OUnlock 2] demo_locked)"

lemma demo_locked_reach: "lock_reach demo_objs demo_locked"
proof -
  have "lock_run demo_schedule (lock_init demo_objs) \<noteq> None" by code_simp
  then show ?thesis unfolding demo_locked_def by (auto intro: lock_reach_run lock_reach.Init)
qed

lemma demo_unlocked_reach: "lock_reach demo_objs demo_unlocked"
proof -
  have "lock_run [OUnlock 2] demo_locked \<noteq> None" by code_simp
  then have "lock_run [OUnlock 2] demo_locked = Some demo_unlocked" unfolding demo_unlocked_def by simp
  then show ?thesis by (rule lock_reach_run [OF _ demo_locked_reach])
qed

theorem uploads_exclude_witness:
  "lk_phase demo_locked 2 = Holding ''k'' 0 [] \<and> (\<forall>a cs. lk_phase demo_locked 3 \<noteq> Holding ''k'' a cs)"
proof -
  have "lk_phase demo_locked 2 = Holding ''k'' 0 []" by code_simp
  with uploads_exclude [OF demo_locked_reach this, of 3] show ?thesis by auto
qed



text \<open>No lock leaks and none is dropped early: an entry is in the map exactly as long as some request
  uses it, with as many references as there are such requests; with no request left the map is empty.\<close>

theorem upload_locks_counted:
  assumes "lock_reach objs s"
  shows "(lk_locks s k = Some a \<longrightarrow> ul_refs (lk_heap s a) = int (card (users a s)) \<and> 0 < card (users a s)) \<and>
    (active (lk_phase s t) = Some (k, a) \<longrightarrow> lk_locks s k = Some a) \<and>
    ((\<forall>t. lk_phase s t = Idle) \<longrightarrow> lk_locks s = (\<lambda>_. None))"
proof -
  have inv: "refs_inv s" using lock_reach_inv [OF assms] by blast
  have "lk_locks s k' = None" if "\<forall>t. lk_phase s t = Idle" for k'
    using that refs_invD(1) [OF inv, of k'] by (cases "lk_locks s k'") (auto simp: users_def)
  then show ?thesis using refs_invD(1,3) [OF inv] by (auto simp: card_gt_0_iff)
qed

theorem upload_locks_counted_witness:
  "lk_locks demo_locked ''k'' = Some 0 \<and> ul_refs (lk_heap demo_locked 0) = 2 \<and> card (users 0 demo_locked) = 2"
proof -
  have "lk_locks demo_locked ''k'' = Some 0" "ul_refs (lk_heap demo_locked 0) = 2" by code_simp+
  with upload_locks_counted [OF demo_locked_reach, of "''k''" 0] show ?thesis by auto
qed

text \<open>(C32) No request waits for ever by the fault of the lock: from every reachable state in which a request is
  queued, steps of the requests already under way bring it to hold the lock.\<close>

theorem upload_lock_progress:
  assumes "lock_reach objs s" "lk_phase s t = Queued k a cs"
  shows "\<exists>s'. lock_steps s s' \<and> lk_phase s' t = Holding k a cs"
proof (cases "ul_mu (lk_heap s a)")
  case None
  then show ?thesis using lock_acquire_free assms(2) by blast
next
  case (Some h)
  have inv: "refs_inv s" "mutex_inv s" using lock_reach_inv [OF assms(1)] by auto
  then have "lk_locks s k = Some a" using refs_invD(3) [of s t k a] assms(2) by simp
  then have "holds k a (lk_phase s h)" using mutex_invD [OF inv(2)] Some by blast
  then obtain ds where h: "lk_phase s h = Holding k a ds" by (cases "lk_phase s h") auto
  obtain s1 where s1: "lock_steps s s1" "\<forall>u. u \<noteq> h \<longrightarrow> lk_phase s1 u = lk_phase s u" "ul_mu (lk_heap s1 a) = None"
    using holder_finishes [OF h] by blast
  have "lk_phase s1 t = Queued k a cs" using s1(2) assms(2) h by (cases "t = h") auto
  then show ?thesis using lock_acquire_free s1(1,3) lock_steps_trans by blast
qed

theorem upload_lock_progress_witness:
  "\<exists>s'. lock_steps demo_locked s' \<and> lk_phase s' 3 = Holding ''k'' 0 [''5'']"
proof -
  have "lk_phase demo_locked 3 = Queued ''k'' 0 [''5'']" by code_simp
  then show ?thesis by (rule upload_lock_progress [OF demo_locked_reach])
qed

end
