(* ===== verification/Webhooks.thy ===== *)
theory Webhooks
  imports Http "HOL-Library.Word"
begin

text \<open>
  The webhook dispatcher, \<^verbatim>\<open>internal/webhooks/webhooks.go\<close>: the guard against requests to
  internal addresses, the fan-out of an event to the endpoints, and delivery with retries. What the
  network does is a parameter: parsing a URL and an address, resolving a name, and the answer to
  each attempt of a delivery.
\<close>

unbundle bit_operations_syntax

subsection \<open>Addresses\<close>

text \<open>\<^verbatim>\<open>net.IP\<close>: 4 or 16 bytes.\<close>

type_synonym ip = "8 word list"

record ip_net =
  in_ip :: ip
  in_mask :: ip

definition To4 :: "ip \<Rightarrow> ip option" where
  "To4 a =
     (if length a = 4 then Some a
      else if length a = 16 \<and> take 10 a = replicate 10 0 \<and> a ! 10 = 255 \<and> a ! 11 = 255 then Some (drop 12 a)
      else None)"

text \<open>\<^verbatim>\<open>net.IPv4\<close>, the 16-byte form \<^verbatim>\<open>ParseIP\<close> returns for a dotted address.\<close>

definition ipv4 :: "8 word \<Rightarrow> 8 word \<Rightarrow> 8 word \<Rightarrow> 8 word \<Rightarrow> ip" where
  "ipv4 a b c d = replicate 10 0 @ [255, 255, a, b, c, d]"

fun mask_bytes :: "nat \<Rightarrow> nat \<Rightarrow> ip" where
  "mask_bytes ones 0 = []"
| "mask_bytes ones (Suc n) =
     (if 8 \<le> ones then 255 else push_bit (8 - ones) (mask ones)) # mask_bytes (ones - 8) n"

definition CIDRMask :: "nat \<Rightarrow> nat \<Rightarrow> ip" where
  "CIDRMask ones bits = mask_bytes ones (bits div 8)"

text \<open>\<^verbatim>\<open>IPNet.Contains\<close>, with the network and mask brought to the same length.\<close>

definition network_and_mask :: "ip_net \<Rightarrow> (ip \<times> ip) option" where
  "network_and_mask n =
     (let nn = (case To4 (in_ip n) of Some x \<Rightarrow> x | None \<Rightarrow> in_ip n) in
      if length nn \<noteq> 4 \<and> length nn \<noteq> 16 then None
      else if length (in_mask n) = 4 then (if length nn = 4 then Some (nn, in_mask n) else None)
      else if length (in_mask n) = 16 then Some (nn, if length nn = 4 then drop 12 (in_mask n) else in_mask n)
      else None)"

definition net_Contains :: "ip_net \<Rightarrow> ip \<Rightarrow> bool" where
  "net_Contains n a =
     (let x = (case To4 a of Some y \<Rightarrow> y | None \<Rightarrow> a) in
      case network_and_mask n of
        None \<Rightarrow> x = []
      | Some (nn, m) \<Rightarrow> length x = length nn \<and> list_all2 (\<lambda>u v. u = v) (map2 (AND) nn m) (map2 (AND) x m))"

subsection \<open>The guard\<close>

record net_lib =
  nl_hostname :: "string \<Rightarrow> string option" \<comment> \<open>\<open>url.Parse\<close> and \<open>Hostname\<close>\<close>
  nl_parseIP :: "string \<Rightarrow> ip option"
  nl_lookup :: "string \<Rightarrow> string list option" \<comment> \<open>\<open>net.LookupHost\<close>\<close>

definition disallowed :: "ip_net list" where
  "disallowed =
     [\<lparr>in_ip = ipv4 127 0 0 0, in_mask = CIDRMask 8 32\<rparr>,
      \<lparr>in_ip = ipv4 169 254 0 0, in_mask = CIDRMask 16 32\<rparr>,
      \<lparr>in_ip = ipv4 10 0 0 0, in_mask = CIDRMask 8 32\<rparr>,
      \<lparr>in_ip = ipv4 172 16 0 0, in_mask = CIDRMask 12 32\<rparr>,
      \<lparr>in_ip = ipv4 192 168 0 0, in_mask = CIDRMask 16 32\<rparr>]"

definition ipv6Loopback :: ip_net where
  "ipv6Loopback = \<lparr>in_ip = replicate 15 0 @ [1], in_mask = CIDRMask 128 128\<rparr>"

definition ipv6ULA :: ip_net where
  "ipv6ULA = \<lparr>in_ip = 0xFC # replicate 15 0, in_mask = CIDRMask 7 128\<rparr>"

definition blocked_ip :: "ip \<Rightarrow> bool" where
  "blocked_ip a \<longleftrightarrow> net_Contains ipv6Loopback a \<or> net_Contains ipv6ULA a \<or> list_ex (\<lambda>n. net_Contains n a) disallowed"

definition isDisallowedWebhookHost :: "net_lib \<Rightarrow> string \<Rightarrow> bool" where
  "isDisallowedWebhookHost N rawURL =
     (case nl_hostname N rawURL of
        None \<Rightarrow> True
      | Some host \<Rightarrow>
          host = [] \<or>
          (case nl_parseIP N host of
             Some a \<Rightarrow> blocked_ip a
           | None \<Rightarrow>
               (case nl_lookup N host of
                  None \<Rightarrow> True
                | Some resolved \<Rightarrow> list_ex blocked_ip (List.map_filter (nl_parseIP N) resolved))))"

subsection \<open>Delivery\<close>

definition maxAttempts :: nat where
  "maxAttempts = 5"

text \<open>\<^verbatim>\<open>deliver\<close> succeeds when the endpoint answers below 400; \<open>post\<close> is the client's answer to
  the attempt.\<close>

definition deliver :: "(nat \<Rightarrow> nat res) \<Rightarrow> nat \<Rightarrow> unit res" where
  "deliver post attempt =
     (case post attempt of
        Inl e \<Rightarrow> Inl e
      | Inr status \<Rightarrow> if 400 \<le> status then Inl (ErrText (''status '' @ FormatInt (int status))) else Inr ())"

text \<open>The loop: whether the body was delivered, and the seconds slept between the attempts.\<close>

function deliver_from :: "(nat \<Rightarrow> nat res) \<Rightarrow> nat \<Rightarrow> bool \<times> nat list" where
  "deliver_from post attempt =
     (if maxAttempts < attempt then (False, [])
      else (case deliver post attempt of
              Inr _ \<Rightarrow> (True, [])
            | Inl _ \<Rightarrow>
                if attempt = maxAttempts then (False, [])
                else (let (ok, ds) = deliver_from post (attempt + 1) in (ok, 2 ^ (attempt - 1) # ds))))"
  by pat_completeness auto
termination
  by (relation "measure (\<lambda>(_, attempt). Suc maxAttempts - attempt)") (auto simp: maxAttempts_def)

declare deliver_from.simps [simp del]

definition deliverWithRetry :: "(nat \<Rightarrow> nat res) \<Rightarrow> bool \<times> nat list" where
  "deliverWithRetry post = deliver_from post 1"

text \<open>\<^verbatim>\<open>Dispatch\<close> starts a delivery for every endpoint the guard lets through.\<close>

definition Dispatch :: "net_lib \<Rightarrow> string list \<Rightarrow> string list" where
  "Dispatch N endpoints = filter (\<lambda>e. \<not> isDisallowedWebhookHost N e) endpoints"

subsection \<open>What the guard blocks\<close>

lemma To4_ipv4 [simp]: "To4 (ipv4 a b c d) = Some [a, b, c, d]"
  by (simp add: To4_def ipv4_def numeral_eq_Suc)

text \<open>The high bits of a byte.\<close>

lemma unat_high: "n \<le> 8 \<Longrightarrow> unat ((b :: 8 word) AND push_bit n (mask (8 - n))) = unat b div 2 ^ n * 2 ^ n"
proof -
  assume n: "n \<le> 8"
  have "b AND push_bit n (mask (8 - n)) = push_bit n (drop_bit n b)"
    by (rule bit_word_eqI) (use n in \<open>auto simp: bit_simps\<close>)
  moreover have u: "unat b < 256" by (rule order_less_le_trans [OF unsigned_less]) simp
  moreover have "unat (push_bit n (drop_bit n b)) = take_bit 8 (push_bit n (drop_bit n (unat b)))"
    using u by (simp only: unsigned_push_bit_eq unsigned_drop_bit_eq) (simp add: take_bit_nat_eq_self)
  moreover have "unat b div 2 ^ n * 2 ^ n < 256" using u by (meson div_times_less_eq_dividend le_less_trans)
  ultimately show ?thesis by (simp add: take_bit_nat_eq_self push_bit_eq_mult drop_bit_eq_div)
qed

lemma high_nibble: "(b :: 8 word) AND 240 = 16 \<longleftrightarrow> 16 \<le> b \<and> b \<le> 31"
proof -
  have "unat (b AND 240) = unat b div 16 * 16" using unat_high [of 4 b] by (simp add: mask_eq_exp_minus_1)
  then have "b AND 240 = 16 \<longleftrightarrow> unat b div 16 * 16 = 16" by (simp add: word_unat_eq_iff)
  also have "\<dots> \<longleftrightarrow> 16 \<le> unat b \<and> unat b \<le> 31" by presburger
  finally show ?thesis by (simp add: word_le_nat_alt)
qed

lemma high_seven: "(b :: 8 word) AND 254 = 252 \<longleftrightarrow> 252 \<le> b \<and> b \<le> 253"
proof -
  have "unat (b AND 254) = unat b div 2 * 2" using unat_high [of 1 b] by (simp add: mask_eq_exp_minus_1)
  then have "b AND 254 = 252 \<longleftrightarrow> unat b div 2 * 2 = 252" by (simp add: word_unat_eq_iff)
  also have "\<dots> \<longleftrightarrow> 252 \<le> unat b \<and> unat b \<le> 253" by presburger
  finally show ?thesis by (simp add: word_le_nat_alt)
qed

lemma all_bits: "(b :: 8 word) AND 255 = b" "255 AND (b :: 8 word) = b"
proof -
  have "unat (b AND 255) = unat b" using unat_high [of 0 b] by (simp add: mask_eq_exp_minus_1)
  then show "b AND 255 = b" by (simp add: word_unat_eq_iff)
  then show "255 AND b = b" by (simp add: and.commute)
qed

lemmas byte_masks = high_nibble high_seven all_bits

definition internal_v4 :: "8 word \<Rightarrow> 8 word \<Rightarrow> bool" where
  "internal_v4 a b \<longleftrightarrow> a = 127 \<or> a = 10 \<or> a = 169 \<and> b = 254 \<or> a = 192 \<and> b = 168 \<or> a = 172 \<and> 16 \<le> b \<and> b \<le> 31"

definition internal_ip :: "ip \<Rightarrow> bool" where
  "internal_ip a =
     (case To4 a of
        Some v4 \<Rightarrow> internal_v4 (v4 ! 0) (v4 ! 1)
      | None \<Rightarrow> a = replicate 15 0 @ [1] \<or> 252 \<le> a ! 0 \<and> a ! 0 \<le> 253)"

lemma mask_values:
  "CIDRMask 8 32 = [255, 0, 0, 0]" "CIDRMask 16 32 = [255, 255, 0, 0]" "CIDRMask 12 32 = [255, 240, 0, 0]"
  "CIDRMask 128 128 = replicate 16 255" "CIDRMask 7 128 = 254 # replicate 15 0"
  by code_simp+

lemma list4: "length xs = 4 \<Longrightarrow> \<exists>a b c d. xs = [a, b, c, d]"
  by (auto simp: length_Suc_conv numeral_eq_Suc)

lemma contains_some:
  "network_and_mask n = Some (nn, m) \<Longrightarrow> x = (case To4 a of Some y \<Rightarrow> y | None \<Rightarrow> a) \<Longrightarrow>
   net_Contains n a \<longleftrightarrow> length x = length nn \<and> map2 (AND) nn m = map2 (AND) x m"
  by (auto simp: net_Contains_def Let_def list.rel_eq split: option.splits)

lemma networks:
  "network_and_mask \<lparr>in_ip = ipv4 p q r s, in_mask = CIDRMask 8 32\<rparr> = Some ([p, q, r, s], [255, 0, 0, 0])"
  "network_and_mask \<lparr>in_ip = ipv4 p q r s, in_mask = CIDRMask 16 32\<rparr> = Some ([p, q, r, s], [255, 255, 0, 0])"
  "network_and_mask \<lparr>in_ip = ipv4 p q r s, in_mask = CIDRMask 12 32\<rparr> = Some ([p, q, r, s], [255, 240, 0, 0])"
  by (simp_all add: network_and_mask_def mask_values)

lemma networks6:
  "network_and_mask ipv6Loopback = Some (replicate 15 0 @ [1], replicate 16 255)"
  "network_and_mask ipv6ULA = Some (0xFC # replicate 15 0, 254 # replicate 15 0)"
  by (simp_all add: network_and_mask_def mask_values ipv6Loopback_def ipv6ULA_def To4_def take_Cons' nth_append Let_def)

lemma blocked_v4:
  assumes "To4 x = Some [a, b, c, d]"
  shows "blocked_ip x \<longleftrightarrow> internal_v4 a b"
proof -
  note c = contains_some [where a = x, simplified assms option.case, OF _ refl]
  have "\<not> net_Contains ipv6Loopback x" "\<not> net_Contains ipv6ULA x"
    by (simp_all add: c [OF networks6(1)] c [OF networks6(2)])
  then show ?thesis
    by (auto simp: blocked_ip_def disallowed_def c [OF networks(1)] c [OF networks(2)] c [OF networks(3)]
        byte_masks internal_v4_def)
qed

lemma blocked_v6:
  assumes "To4 x = None" "length x = 16"
  shows "blocked_ip x \<longleftrightarrow> x = replicate 15 0 @ [1] \<or> 252 \<le> x ! 0 \<and> x ! 0 \<le> 253"
proof -
  note c = contains_some [where a = x, simplified assms option.case, OF _ refl]
  have m: "map2 (AND) xs (replicate (length xs) 255) = (xs :: ip)" for xs by (induction xs) (auto simp: all_bits)
  obtain y ys where x: "x = y # ys" "length ys = 15" using assms(2) by (cases x) auto
  have z: "map2 (AND) ys (replicate (length ys) 0) = replicate (length ys) (0 :: 8 word)" for ys by (induction ys) auto
  have "net_Contains ipv6Loopback x \<longleftrightarrow> x = replicate 15 0 @ [1]"
    using c [OF networks6(1)] assms(2) m [of x] m [of "replicate 15 0 @ [1]"] by auto
  moreover have "net_Contains ipv6ULA x \<longleftrightarrow> 252 \<le> x ! 0 \<and> x ! 0 \<le> 253"
    using c [OF networks6(2)] x z [of ys] z [of "replicate 15 0"] high_seven [of y] by (auto simp: x)
  moreover have "\<not> list_ex (\<lambda>n. net_Contains n x) disallowed"
    by (simp add: disallowed_def c [OF networks(1)] c [OF networks(2)] c [OF networks(3)] assms)
  ultimately show ?thesis by (simp add: blocked_ip_def)
qed

lemma blocked_ip_iff: "length x = 16 \<Longrightarrow> blocked_ip x \<longleftrightarrow> internal_ip x"
proof (cases "To4 x")
  case None
  assume "length x = 16"
  with None blocked_v6 show ?thesis by (simp add: internal_ip_def)
next
  case (Some y)
  then have "length y = 4" by (auto simp: To4_def split: if_splits)
  then obtain a b c d where "y = [a, b, c, d]" using list4 by blast
  with Some blocked_v4 show ?thesis by (simp add: internal_ip_def)
qed

text \<open>(C22) Where a webhook may go: an endpoint is contacted exactly when its URL has a host, and the host is an
  address, or resolves to addresses, none of which is IPv4 loopback, link-local or private
  (\<^verbatim>\<open>127/8\<close>, \<^verbatim>\<open>169.254/16\<close>, \<^verbatim>\<open>10/8\<close>, \<^verbatim>\<open>172.16/12\<close>, \<^verbatim>\<open>192.168/16\<close>, also in the IPv6-mapped form), \<^verbatim>\<open>::1\<close> or in
  \<^verbatim>\<open>fc00::/7\<close>. Addresses are compared by the masks of the code, here by their ranges.\<close>

theorem Dispatch_reaches:
  assumes "\<And>s a. nl_parseIP N s = Some a \<Longrightarrow> length a = 16"
  shows "e \<in> set (Dispatch N endpoints) \<longleftrightarrow> e \<in> set endpoints \<and>
    (\<exists>h. nl_hostname N e = Some h \<and> h \<noteq> [] \<and>
       (case nl_parseIP N h of
          Some a \<Rightarrow> \<not> internal_ip a
        | None \<Rightarrow> \<exists>as. nl_lookup N h = Some as \<and> (\<forall>s \<in> set as. \<forall>a. nl_parseIP N s = Some a \<longrightarrow> \<not> internal_ip a)))"
proof -
  have b: "nl_parseIP N s = Some a \<Longrightarrow> blocked_ip a \<longleftrightarrow> internal_ip a" for s a
    using blocked_ip_iff assms by blast
  have f: "list_ex blocked_ip (List.map_filter (nl_parseIP N) as) \<longleftrightarrow>
      (\<exists>s \<in> set as. \<exists>a. nl_parseIP N s = Some a \<and> internal_ip a)" for as
    using b by (auto simp: list_ex_iff List.map_filter_def) (metis option.sel)+
  show ?thesis
    by (auto simp: Dispatch_def isDisallowedWebhookHost_def f b split: option.splits)
qed

definition demo_net :: net_lib where
  "demo_net = \<lparr>nl_hostname = (\<lambda>u. Some u),
     nl_parseIP = (\<lambda>s. if s = ''a'' then Some (ipv4 172 31 0 1) else if s = ''b'' then Some (0xFE # 0x80 # replicate 14 0) else None),
     nl_lookup = (\<lambda>h. if h = ''c'' then Some [''b'', ''a''] else None)\<rparr>"

theorem Dispatch_reaches_witness: "''b'' \<in> set (Dispatch demo_net [''a'', ''b'', ''c''])"
proof -
  have p: "length a = 16" if "nl_parseIP demo_net s = Some a" for s a
    using that by (auto simp: demo_net_def ipv4_def split: if_splits)
  have "(0xFE :: 8 word) # 0x80 # replicate 14 0 \<noteq> replicate 15 0 @ [1]" by (simp add: numeral_eq_Suc)
  then have "\<not> internal_ip (0xFE # 0x80 # replicate 14 0)"
    by (simp add: internal_ip_def To4_def take_Cons' word_le_nat_alt)
  then show ?thesis
    by (intro Dispatch_reaches [of demo_net, OF p, THEN iffD2]) (simp_all add: demo_net_def)
qed

lemma deliver_from_step:
  "1 \<le> k \<Longrightarrow> k < 5 \<Longrightarrow> deliver_from post k =
     (if is_ok (deliver post k) then (True, []) else (fst (deliver_from post (k + 1)), 2 ^ (k - 1) # snd (deliver_from post (k + 1))))"
  "deliver_from post 5 = (is_ok (deliver post 5), [])"
  by (subst deliver_from.simps; auto simp: maxAttempts_def is_ok_def split: sum.splits prod.splits)+

lemma deliver_ok: "deliver post k = Inr () \<longleftrightarrow> is_ok (deliver post k)"
  by (cases "deliver post k") (auto simp: is_ok_def)

text \<open>A delivery ends after at most five attempts and 15 seconds of waiting: it succeeds exactly when one
  of the five attempts does, and sleeps 1, 2, 4 and 8 seconds between them, as far as it gets.\<close>

theorem deliverWithRetry_bounded:
  "let (ok, ds) = deliverWithRetry post in
     (ok \<longleftrightarrow> (\<exists>k \<in> {1..5}. deliver post k = Inr ())) \<and> prefix ds [1, 2, 4, 8] \<and> sum_list ds \<le> 15 \<and>
     (\<forall>i < length ds. \<not> is_ok (deliver post (Suc i)))"
proof -
  have five: "{1..5} = {1, 2, 3, 4, 5 :: nat}" by auto
  have two: "Suc (Suc 0) = 2" by simp
  have upto: "(\<forall>i < 2. P (Suc i)) \<longleftrightarrow> P 1 \<and> P 2" "(\<forall>i < 3. P (Suc i)) \<longleftrightarrow> P 1 \<and> P 2 \<and> P 3"
    "(\<forall>i < 4. P (Suc i)) \<longleftrightarrow> P 1 \<and> P 2 \<and> P 3 \<and> P 4" for P :: "nat \<Rightarrow> bool"
    by (auto simp: numeral_eq_Suc All_less_Suc)
  note un = deliver_from_step(1) [of 1 post] deliver_from_step(1) [of 2 post] deliver_from_step(1) [of 3 post]
    deliver_from_step(1) [of 4 post] deliver_from_step(2)
  note up = upto [where P = "\<lambda>k. \<not> is_ok (deliver post k)"]
  show ?thesis
    unfolding deliverWithRetry_def deliver_ok five
    by (simp add: un All_less_Suc two up One_nat_def [symmetric] del: One_nat_def)
qed

theorem deliverWithRetry_bounded_witness:
  "deliverWithRetry (\<lambda>k. if k = 3 then Inr 200 else Inr 503) = (True, [1, 2]) \<and>
   (\<exists>k \<in> {1..5}. deliver (\<lambda>k. if k = 3 then Inr 200 else Inr 503) k = Inr ())"
proof -
  let ?post = "\<lambda>k. if k = 3 then Inr 200 else Inr (503 :: nat)"
  have "deliverWithRetry ?post = (True, [1, 2])"
    by (simp add: deliverWithRetry_def deliver_from_step deliver_def)
  then show ?thesis using deliverWithRetry_bounded [of ?post] by simp
qed

end
