(* ===== verification/Cached.thy ===== *)
theory Cached
  imports Manifest_Properties
begin

text \<open>
  The caching store, \<^verbatim>\<open>internal/cache/cached_db.go\<close> with the keys of \<^verbatim>\<open>internal/cache/redis.go\<close>: it wraps
  a store and keeps manifests and scan reports in Redis. The Redis client is a parameter, as is the JSON encoding of a
  cached manifest. Whatever Redis answers, the wrapped store keeps the promises of \<^verbatim>\<open>registry_store\<close>, so the
  guarantees of the handlers for pushes and quotas carry over; what a pull returns may be stale, or another
  repository's.
\<close>

subsection \<open>Keys\<close>

definition BuildManifestKey :: "string \<Rightarrow> string \<Rightarrow> string \<Rightarrow> string" where
  "BuildManifestKey namespace repo reference = ''manifest:'' @ namespace @ ''/'' @ repo @ '':'' @ reference"

definition BuildScanReportKey :: "string \<Rightarrow> string \<Rightarrow> string" where
  "BuildScanReportKey digest scanner = ''scan:'' @ digest @ '':'' @ scanner"

text \<open>The client: a read yields a value, a miss or an error; the errors of writes are ignored by the code, so a
  write is a function on the state of the server.\<close>

record 'c redis =
  rd_Get :: "string \<Rightarrow> 'c \<Rightarrow> bytes option res"
  rd_Set :: "string \<Rightarrow> bytes \<Rightarrow> int \<Rightarrow> 'c \<Rightarrow> 'c"
  rd_Delete :: "string \<Rightarrow> 'c \<Rightarrow> 'c"
  rd_marshal :: "manifest \<Rightarrow> bytes option"
  rd_unmarshal :: "bytes \<Rightarrow> manifest option"

record ttl_config =
  tl_Manifest :: int
  tl_ScanReport :: int

subsection \<open>Cached operations\<close>

text \<open>\<^verbatim>\<open>redis.Get\<close> with the code's test for an error or a miss.\<close>

definition cache_hit :: "'c redis \<Rightarrow> string \<Rightarrow> 'c \<Rightarrow> bytes option" where
  "cache_hit rd k c = (case rd_Get rd k c of Inl _ \<Rightarrow> None | Inr v \<Rightarrow> v)"

definition cs_GetManifest ::
  "'c redis \<Rightarrow> ttl_config \<Rightarrow> 'd store \<Rightarrow> string \<Rightarrow> string \<Rightarrow> 'd \<times> 'c \<Rightarrow> manifest res \<times> 'd \<times> 'c" where
  "cs_GetManifest rd ttl S repo reference s =
     (let (d, c) = s; k = BuildManifestKey [] repo reference in
      case Option.bind (cache_hit rd k c) (rd_unmarshal rd) of
        Some m \<Rightarrow> (Inr m, d, c)
      | None \<Rightarrow>
          (case st_GetManifest S repo reference d of
             (Inl e, d') \<Rightarrow> (Inl e, d', c)
           | (Inr m, d') \<Rightarrow>
               (Inr m, d', (case rd_marshal rd m of None \<Rightarrow> c | Some v \<Rightarrow> rd_Set rd k v (tl_Manifest ttl) c))))"

definition cs_PutManifest ::
  "'c redis \<Rightarrow> 'd store \<Rightarrow> string \<Rightarrow> string \<Rightarrow> string \<Rightarrow> string \<Rightarrow> bytes \<Rightarrow> 'd \<times> 'c \<Rightarrow> unit res \<times> 'd \<times> 'c" where
  "cs_PutManifest rd S repo reference mediaType digest payload s =
     (let (d, c) = s in
      case st_PutManifest S repo reference mediaType digest payload d of
        (Inl e, d') \<Rightarrow> (Inl e, d', c)
      | (Inr _, d') \<Rightarrow> (Inr (), d', rd_Delete rd (BuildManifestKey [] repo reference) c))"

definition cs_DeleteManifest ::
  "'c redis \<Rightarrow> 'd store \<Rightarrow> string \<Rightarrow> string \<Rightarrow> 'd \<times> 'c \<Rightarrow> unit res \<times> 'd \<times> 'c" where
  "cs_DeleteManifest rd S repo reference s =
     (let (d, c) = s in
      case st_DeleteManifest S repo reference d of
        (Inl e, d') \<Rightarrow> (Inl e, d', c)
      | (Inr _, d') \<Rightarrow> (Inr (), d', rd_Delete rd (BuildManifestKey [] repo reference) c))"

definition cs_GetScanReport ::
  "'c redis \<Rightarrow> ttl_config \<Rightarrow> 'd store \<Rightarrow> string \<Rightarrow> string \<Rightarrow> 'd \<times> 'c \<Rightarrow> bytes res \<times> 'd \<times> 'c" where
  "cs_GetScanReport rd ttl S digest scanner s =
     (let (d, c) = s; k = BuildScanReportKey digest scanner in
      case cache_hit rd k c of
        Some v \<Rightarrow> (Inr v, d, c)
      | None \<Rightarrow>
          (case st_GetScanReport S digest scanner d of
             (Inl e, d') \<Rightarrow> (Inl e, d', c)
           | (Inr v, d') \<Rightarrow> (Inr v, d', rd_Set rd k v (tl_ScanReport ttl) c)))"

definition cs_SaveScanReport ::
  "'c redis \<Rightarrow> ttl_config \<Rightarrow> 'd store \<Rightarrow> string \<Rightarrow> string \<Rightarrow> bytes \<Rightarrow> 'd \<times> 'c \<Rightarrow> unit res \<times> 'd \<times> 'c" where
  "cs_SaveScanReport rd ttl S digest scanner dat s =
     (let (d, c) = s in
      case st_SaveScanReport S digest scanner dat d of
        (Inl e, d') \<Rightarrow> (Inl e, d', c)
      | (Inr _, d') \<Rightarrow> (Inr (), d', rd_Set rd (BuildScanReportKey digest scanner) dat (tl_ScanReport ttl) c))"

text \<open>\<^verbatim>\<open>WithTx\<close> hands its function on. The function works on the caching store, so what it does to the cache stays
  when the transaction is rolled back.\<close>

definition cs_WithTx ::
  "'d store \<Rightarrow> ('d \<times> 'c \<Rightarrow> unit res \<times> 'd \<times> 'c) \<Rightarrow> 'd \<times> 'c \<Rightarrow> unit res \<times> 'd \<times> 'c" where
  "cs_WithTx S fn s =
     (let (d, c) = s; (r, d') = st_WithTx S (\<lambda>d0. case fn (d0, c) of (r, d1, _) \<Rightarrow> (r, d1)) d
      in (r, d', snd (snd (fn s))))"

text \<open>The methods that are passed on.\<close>

definition pass :: "('d \<Rightarrow> 'a \<times> 'd) \<Rightarrow> 'd \<times> 'c \<Rightarrow> 'a \<times> 'd \<times> 'c" where
  "pass f s = (case f (fst s) of (r, d') \<Rightarrow> (r, d', snd s))"

definition cached_store :: "'c redis \<Rightarrow> ttl_config \<Rightarrow> 'd store \<Rightarrow> ('d \<times> 'c) store" where
  "cached_store rd ttl S =
     \<lparr>st_ListRepositories = (\<lambda>n l s. st_ListRepositories S n l (fst s)),
      st_ListTags = (\<lambda>r n l s. st_ListTags S r n l (fst s)),
      st_PutManifest = cs_PutManifest rd S, st_GetManifest = cs_GetManifest rd ttl S,
      st_DeleteManifest = cs_DeleteManifest rd S,
      st_SetTagImmutable = (\<lambda>r t b. pass (st_SetTagImmutable S r t b)),
      st_IsTagImmutable = (\<lambda>r t s. st_IsTagImmutable S r t (fst s)),
      st_PutBlob = (\<lambda>dg n m. pass (st_PutBlob S dg n m)),
      st_SaveScanReport = cs_SaveScanReport rd ttl S, st_GetScanReport = cs_GetScanReport rd ttl S,
      st_GetUserByUsername = (\<lambda>u s. st_GetUserByUsername S u (fst s)),
      st_AuthenticateUser = (\<lambda>u p s. st_AuthenticateUser S u p (fst s)),
      st_CreateUser = (\<lambda>u h sc. pass (st_CreateUser S u h sc)),
      st_UpdateUser = (\<lambda>u sc. pass (st_UpdateUser S u sc)),
      st_CheckQuota = (\<lambda>ns s. st_CheckQuota S ns (fst s)),
      st_UpdateQuotaUsage = (\<lambda>ns n. pass (st_UpdateQuotaUsage S ns n)),
      st_ListAccessTokens = (\<lambda>u s. st_ListAccessTokens S u (fst s)),
      st_UpdateAccessTokenLastUsed = (\<lambda>i. pass (st_UpdateAccessTokenLastUsed S i)),
      st_ListPolicies = (\<lambda>s. st_ListPolicies S (fst s)), st_AddPolicy = (\<lambda>x. pass (st_AddPolicy S x)),
      st_SetArtifactMetadata = (\<lambda>m. pass (st_SetArtifactMetadata S m)),
      st_ListReferrers = (\<lambda>dg t s. st_ListReferrers S dg t (fst s)),
      st_RecordLoginAttempt = (\<lambda>u ip ok. pass (st_RecordLoginAttempt S u ip ok)),
      st_CountRecentFailedLogins = (\<lambda>u t s. st_CountRecentFailedLogins S u t (fst s)),
      st_CreateNamespace = (\<lambda>x. pass (st_CreateNamespace S x)),
      st_CreateRepository = (\<lambda>n r. pass (st_CreateRepository S n r)),
      st_ListManifests = (\<lambda>s. st_ListManifests S (fst s)),
      st_BlobExists = (\<lambda>dg s. st_BlobExists S dg (fst s)),
      st_GetBlobSize = (\<lambda>dg s. st_GetBlobSize S dg (fst s)),
      st_ListBlobs = (\<lambda>s. st_ListBlobs S (fst s)),
      st_DeleteBlob = (\<lambda>dg. pass (st_DeleteBlob S dg)),
      st_ListScanReports = (\<lambda>s. st_ListScanReports S (fst s)),
      st_GetUserByToken = (\<lambda>t s. st_GetUserByToken S t (fst s)),
      st_ListUsers = (\<lambda>s. st_ListUsers S (fst s)),
      st_DeleteUser = (\<lambda>u. pass (st_DeleteUser S u)),
      st_UpdateUserPassword = (\<lambda>u h. pass (st_UpdateUserPassword S u h)),
      st_CreateGroup = (\<lambda>g. pass (st_CreateGroup S g)),
      st_AddUserToGroup = (\<lambda>u g. pass (st_AddUserToGroup S u g)),
      st_ListGroups = (\<lambda>s. st_ListGroups S (fst s)),
      st_SetQuota = (\<lambda>ns n. pass (st_SetQuota S ns n)),
      st_ListQuotas = (\<lambda>s. st_ListQuotas S (fst s)),
      st_CreateAccessToken = (\<lambda>u n h sc ex. pass (st_CreateAccessToken S u n h sc ex)),
      st_GetAccessTokenByHash = (\<lambda>h s. st_GetAccessTokenByHash S h (fst s)),
      st_DeleteAccessToken = (\<lambda>i. pass (st_DeleteAccessToken S i)),
      st_DeletePolicy = (\<lambda>i. pass (st_DeletePolicy S i)),
      st_ListUpstreams = (\<lambda>s. st_ListUpstreams S (fst s)),
      st_GetArtifactMetadata = (\<lambda>dg s. st_GetArtifactMetadata S dg (fst s)),
      st_ListArtifactsByType = (\<lambda>t n s. st_ListArtifactsByType S t n (fst s)),
      st_WriteAuditLog = (\<lambda>e. pass (st_WriteAuditLog S e)),
      st_ListAuditLogs = (\<lambda>n s. st_ListAuditLogs S n (fst s)),
      st_WithTx = cs_WithTx S\<rparr>"

lemma cached_store_simps [simp]:
  "st_PutManifest (cached_store rd ttl S) = cs_PutManifest rd S"
  "st_GetManifest (cached_store rd ttl S) = cs_GetManifest rd ttl S"
  "st_DeleteManifest (cached_store rd ttl S) = cs_DeleteManifest rd S"
  "st_IsTagImmutable (cached_store rd ttl S) = (\<lambda>r t s. st_IsTagImmutable S r t (fst s))"
  "st_PutBlob (cached_store rd ttl S) = (\<lambda>dg n m. pass (st_PutBlob S dg n m))"
  "st_CheckQuota (cached_store rd ttl S) = (\<lambda>ns s. st_CheckQuota S ns (fst s))"
  "st_UpdateQuotaUsage (cached_store rd ttl S) = (\<lambda>ns n. pass (st_UpdateQuotaUsage S ns n))"
  "st_SetArtifactMetadata (cached_store rd ttl S) = (\<lambda>m. pass (st_SetArtifactMetadata S m))"
  "st_WithTx (cached_store rd ttl S) = cs_WithTx S"
  by (simp_all add: cached_store_def)

lemma pass_eq: "pass f s = (r, s') \<Longrightarrow> f (fst s) = (r, fst s') \<and> snd s' = snd s"
  by (auto simp: pass_def split: prod.splits)

subsection \<open>The promises carry over\<close>

context registry_store
begin

lemma cs_GetManifest_state:
  assumes "inv (fst s)" "cs_GetManifest rd ttl S repo ref s = (mr, s')"
  shows "inv (fst s') \<and> quo (fst s') = quo (fst s) \<and> man (fst s') = man (fst s) \<and> blb (fst s') = blb (fst s) \<and> imm (fst s') = imm (fst s)"
proof -
  obtain mr0 d' where "st_GetManifest S repo ref (fst s) = (mr0, d')" by force
  with assms get_manifest_state [OF assms(1) this] show ?thesis
    by (auto simp: cs_GetManifest_def Let_def split: prod.splits option.splits sum.splits)
qed

lemma cs_PutManifest_eq:
  assumes "cs_PutManifest rd S repo ref mt dg pl s = (r, s')"
  shows "\<exists>r0. st_PutManifest S repo ref mt dg pl (fst s) = (r0, fst s') \<and> is_ok r0 = is_ok r"
  using assms by (auto simp: cs_PutManifest_def Let_def split: prod.splits sum.splits)

lemma cached_registry_store:
  "registry_store (cached_store rd ttl S) (\<lambda>s. inv (fst s)) (\<lambda>s. quo (fst s)) (\<lambda>s. man (fst s)) (\<lambda>s. blb (fst s)) (\<lambda>s. imm (fst s))"
proof (unfold_locales, goal_cases)
  case 1 then show ?case using check_quota by simp
next
  case 2 then show ?case using immutable_ok by simp
next
  case 3 then show ?case using cs_GetManifest_state by simp
next
  case 4 then show ?case using update_quota_ok pass_eq by (metis cached_store_simps(7))
next
  case 5 then show ?case using update_quota_range pass_eq by (metis cached_store_simps(7))
next
  case 6 then show ?case using update_quota_inv pass_eq by (metis cached_store_simps(7))
next
  case 7 then show ?case using put_blob_ok pass_eq by (metis cached_store_simps(5))
next
  case 8 then show ?case using put_blob_inv pass_eq by (metis cached_store_simps(5))
next
  case (9 s repo ref mt dg pl u s')
  then obtain r0 where "st_PutManifest S repo ref mt dg pl (fst s) = (r0, fst s')" "is_ok r0"
    using cs_PutManifest_eq by fastforce
  then show ?case using put_manifest_ok [OF 9(1)] by (auto simp: is_ok_iff)
next
  case (10 s repo ref mt dg pl ru s')
  then obtain r0 where "st_PutManifest S repo ref mt dg pl (fst s) = (r0, fst s')"
    using cs_PutManifest_eq by fastforce
  then show ?case using put_manifest_inv [OF 10(1)] by blast
next
  case 11 then show ?case using set_artifact_inv pass_eq by (metis cached_store_simps(8))
next
  case (12 s f u s')
  obtain d c where s: "s = (d, c)" by force
  let ?g = "\<lambda>d0. case f (d0, c) of (r, d1, _) \<Rightarrow> (r, d1)"
  from 12(2) have tx: "st_WithTx S ?g d = (Inr u, fst s')" and "snd s' = snd (snd (f s))"
    by (auto simp: cs_WithTx_def s split: prod.splits)
  moreover have "?g d = (Inr (), fst s')" using tx_ok [OF _ tx] 12(1) s by simp
  ultimately show ?case by (cases "f s") (auto simp: s)
next
  case (13 s f e s')
  obtain d c where s: "s = (d, c)" by force
  let ?g = "\<lambda>d0. case f (d0, c) of (r, d1, _) \<Rightarrow> (r, d1)"
  from 13(3) have tx: "st_WithTx S ?g d = (Inl e, fst s')" by (auto simp: cs_WithTx_def s split: prod.splits)
  have "inv t" if g: "?g d = (r, t)" for r t
  proof -
    obtain q d1 c1 where q: "f (d, c) = (q, d1, c1)" by (metis prod.exhaust)
    then have "inv d1" using 13(2) [of q "(d1, c1)"] s by simp
    with g q show ?thesis by simp
  qed
  then show ?case using tx_fail [OF _ _ tx] 13(1) s by simp
qed

end

text \<open>The PostgreSQL store behind a cache, and the handlers over it.\<close>

interpretation cpg: registry_store "cached_store rd ttl (pg_store bc)" "\<lambda>s. pg_inv (fst s)" "\<lambda>s. pg_quo (fst s)"
  "\<lambda>s. pg_man (fst s)" "\<lambda>s. pg_blb (fst s)" "\<lambda>s. pg_imm (fst s)" for rd ttl bc
  by (rule pgs.cached_registry_store)

definition on_mem_cached ::
  "'c redis \<Rightarrow> ttl_config \<Rightarrow> (string \<Rightarrow> string \<Rightarrow> bool) \<Rightarrow> (mem, mem_writer, db \<times> 'c) router \<Rightarrow> (mem, mem_writer, db \<times> 'c) router" where
  "on_mem_cached rd ttl bc R = R\<lparr>rt_db := cached_store rd ttl (pg_store bc), rt_storage := memory_provider\<rparr>"

lemma on_mem_cached_simps [simp]:
  "rt_db (on_mem_cached rd ttl bc R) = cached_store rd ttl (pg_store bc)" "rt_storage (on_mem_cached rd ttl bc R) = memory_provider"
  "rt_sha256 (on_mem_cached rd ttl bc R) = rt_sha256 R"
  by (simp_all add: on_mem_cached_def)

interpretation mpc: blob_service memory_provider "\<lambda>m. m" "\<lambda>p. p" "\<lambda>_. True" mem_ready
  "cached_store rd ttl (pg_store bc)" "\<lambda>s. pg_inv (fst s)" "\<lambda>s. pg_quo (fst s)" "\<lambda>s. pg_man (fst s)" "\<lambda>s. pg_blb (fst s)"
  "\<lambda>s. pg_imm (fst s)" "on_mem_cached rd ttl bc R" for rd ttl bc R
  by unfold_locales simp_all

subsection \<open>What the code relies on of Redis\<close>

definition redis_ok :: "'c redis \<Rightarrow> bool" where
  "redis_ok rd \<longleftrightarrow>
     (\<forall>k v t c. rd_Get rd k (rd_Set rd k v t c) = Inr (Some v)) \<and>
     (\<forall>k k' v t c. k' \<noteq> k \<longrightarrow> rd_Get rd k' (rd_Set rd k v t c) = rd_Get rd k' c) \<and>
     (\<forall>k c. rd_Get rd k (rd_Delete rd k c) = Inr None) \<and>
     (\<forall>k k' c. k' \<noteq> k \<longrightarrow> rd_Get rd k' (rd_Delete rd k c) = rd_Get rd k' c) \<and>
     (\<forall>m. \<exists>v. rd_marshal rd m = Some v \<and> rd_unmarshal rd v = Some m)"

lemma redis_okD:
  assumes "redis_ok rd"
  shows "rd_Get rd k (rd_Set rd k v t c) = Inr (Some v)" "rd_Get rd k (rd_Delete rd k c) = Inr None"
    "k' \<noteq> k \<Longrightarrow> rd_Get rd k' (rd_Delete rd k c) = rd_Get rd k' c"
    "\<exists>v. rd_marshal rd m = Some v \<and> rd_unmarshal rd v = Some m"
  using assms unfolding redis_ok_def by blast+

text \<open>An instance: entries in a map that never expire, manifests written with the lengths of their first two parts.\<close>

definition lp_enc :: "string \<Rightarrow> string" where
  "lp_enc a = replicate (length a) (CHR 0x01) @ CHR 0x00 # a"

definition lp_dec :: "string \<Rightarrow> string \<times> string" where
  "lp_dec s = (let n = length (takeWhile (\<lambda>c. c = CHR 0x01) s); r = drop (Suc n) s in (take n r, drop n r))"

lemma lp_dec_enc: "lp_dec (lp_enc a @ r) = (a, r)"
proof -
  have "takeWhile (\<lambda>c. c = CHR 0x01) (replicate n (CHR 0x01) @ CHR 0x00 # x) = replicate n (CHR 0x01)" for n x
    by (induction n) auto
  then show ?thesis by (simp add: lp_enc_def lp_dec_def Let_def)
qed

definition map_redis :: "(string \<Rightarrow> bytes option) redis" where
  "map_redis = \<lparr>rd_Get = (\<lambda>k c. Inr (c k)), rd_Set = (\<lambda>k v t c. c(k \<mapsto> v)), rd_Delete = (\<lambda>k c. c(k := None)),
     rd_marshal = (\<lambda>(mt, dg, pl). Some (lp_enc mt @ lp_enc dg @ pl)),
     rd_unmarshal = (\<lambda>s. let (mt, r) = lp_dec s; (dg, pl) = lp_dec r in Some (mt, dg, pl))\<rparr>"

lemma map_redis_ok: "redis_ok map_redis"
  by (auto simp: redis_ok_def map_redis_def lp_dec_enc)

definition no_ttl :: ttl_config where
  "no_ttl = \<lparr>tl_Manifest = 300, tl_ScanReport = 300\<rparr>"

lemma cs_GetManifest_cached:
  assumes "redis_ok rd" "cs_GetManifest rd ttl S repo ref s = (Inr m, s')" "BuildManifestKey [] repo' ref' = BuildManifestKey [] repo ref"
    and "\<forall>k. k = BuildManifestKey [] repo ref \<longrightarrow> cache_hit rd k c = cache_hit rd k (snd s')"
  shows "cs_GetManifest rd ttl S' repo' ref' (d, c) = (Inr m, d, c)"
proof -
  obtain d0 c0 where s: "s = (d0, c0)" by force
  obtain v where v: "rd_marshal rd m = Some v" "rd_unmarshal rd v = Some m" using redis_okD(4) [OF assms(1)] by blast
  have "Option.bind (cache_hit rd (BuildManifestKey [] repo ref) (snd s')) (rd_unmarshal rd) = Some m"
  proof (cases "Option.bind (cache_hit rd (BuildManifestKey [] repo ref) c0) (rd_unmarshal rd)")
    case (Some m')
    then show ?thesis using assms(2) by (auto simp: cs_GetManifest_def Let_def s)
  next
    case None
    then have "snd s' = rd_Set rd (BuildManifestKey [] repo ref) v (tl_Manifest ttl) c0"
      using assms(2) v(1) by (auto simp: cs_GetManifest_def Let_def s split: prod.splits sum.splits)
    then show ?thesis using redis_okD(1) [OF assms(1)] v(2) by (simp add: cache_hit_def)
  qed
  then show ?thesis using assms(3,4) by (auto simp: cs_GetManifest_def)
qed

subsection \<open>Properties\<close>


definition cached_router :: "(mem, mem_writer, db \<times> (string \<Rightarrow> bytes option)) router" where
  "cached_router = \<lparr>rt_db = cached_store map_redis no_ttl (pg_store plain_bcrypt), rt_storage = memory_provider, rt_sha256 = (\<lambda>c. c),
     rt_digest = rt_digest demo_router, rt_json = rt_json demo_router, rt_marshal = rt_marshal demo_router,
     rt_refs = rt_refs demo_router, rt_report = rt_report demo_router, rt_uuid = rt_uuid demo_router,
     rt_upstream = None, rt_proxy = rt_proxy demo_router, rt_vulnGate = None, rt_developer = False,
     rt_starlark = False, rt_webhook = False, rt_broker = False, rt_scanner = False, rt_sync = False\<rparr>"

definition cached_world :: "(mem, db \<times> (string \<Rightarrow> bytes option)) world" where
  "cached_world = \<lparr>wd_st = Map.empty, wd_db = (empty_db, Map.empty)\<rparr>"


text \<open>Reading through the cache after writing through it gives what was written: \<^verbatim>\<open>PutManifest\<close> drops the entry of
  its reference, so the next read of the reference comes from the database.\<close>

theorem cached_put_then_get:
  assumes "redis_ok rd" "pg_inv (fst s)" "cs_PutManifest rd (pg_store bc) repo ref mt dg pl s = (Inr u, s')"
    and "\<forall>m \<in> set (repo_manifests (parseRepoPath repo) (fst s')). mf_digest m = ref \<longrightarrow> mf_ref m = ref"
  shows "fst (cs_GetManifest rd ttl (pg_store bc) repo ref s') = Inr (mt, dg, pl)"
proof -
  obtain d c where s: "s = (d, c)" by force
  obtain d' where put: "pg_PutManifest repo ref mt dg pl d = (Inr (), d')"
    and s': "s' = (d', rd_Delete rd (BuildManifestKey [] repo ref) c)"
    using assms(3) by (auto simp: cs_PutManifest_def s pg_store_def split: prod.splits sum.splits)
  have inv: "pg_inv d'" and man: "pg_man d' (parseRepoPath repo) ref = Some (mt, dg, pl)"
    using pg_PutManifest_spec [OF _ put] assms(2) s by auto
  have "pg_GetManifest repo ref d' = (Inr (mt, dg, pl), d')"
    using assms(4) s' by (intro pg_GetManifest_by_ref [OF inv man]) auto
  then show ?thesis using redis_okD(2) [OF assms(1)] by (simp add: cs_GetManifest_def Let_def s' cache_hit_def)
qed

theorem cached_put_then_get_witness:
  "fst (cs_GetManifest map_redis no_ttl (pg_store plain_bcrypt) ''lib/app'' ''v1''
     (snd (cs_PutManifest map_redis (pg_store plain_bcrypt) ''lib/app'' ''v1'' ''mt'' ''sha256:aa'' ''x'' (empty_db, Map.empty)))) =
     Inr (''mt'', ''sha256:aa'', ''x'')"
proof -
  let ?p = "cs_PutManifest map_redis (pg_store plain_bcrypt) ''lib/app'' ''v1'' ''mt'' ''sha256:aa'' ''x'' (empty_db, Map.empty)"
  have "fst ?p = Inr ()" by code_simp
  then have p: "?p = (Inr (), snd ?p)" by (metis prod.collapse)
  have "\<forall>m \<in> set (repo_manifests (parseRepoPath ''lib/app'') (fst (snd ?p))). mf_digest m = ''v1'' \<longrightarrow> mf_ref m = ''v1''" by code_simp
  then show ?thesis using cached_put_then_get [OF map_redis_ok _ p] pg_inv_empty by simp
qed

text \<open>A deleted image is still served: deleting a manifest by its digest drops the cache entry of the digest, not those of
  its tags, so a tag that was pulled before is answered from the cache with the deleted manifest until its entry
  expires.\<close>

theorem cache_serves_deleted:
  assumes "redis_ok rd" "cs_GetManifest rd ttl S repo tag s = (Inr (mt, dg, pl), s1)" "tag \<noteq> dg"
    and "cs_DeleteManifest rd S repo dg s1 = (Inr u, s2)"
  shows "fst (cs_GetManifest rd ttl S repo tag s2) = Inr (mt, dg, pl)"
proof -
  obtain d c where s1: "s1 = (d, c)" by force
  obtain d' where s2: "s2 = (d', rd_Delete rd (BuildManifestKey [] repo dg) c)"
    using assms(4) by (auto simp: cs_DeleteManifest_def s1 split: prod.splits sum.splits)
  have "BuildManifestKey [] repo tag \<noteq> BuildManifestKey [] repo dg" using assms(3) by (simp add: BuildManifestKey_def)
  then have "cache_hit rd (BuildManifestKey [] repo tag) (snd s2) = cache_hit rd (BuildManifestKey [] repo tag) (snd s1)"
    using redis_okD(3) [OF assms(1)] by (simp add: cache_hit_def s1 s2)
  then show ?thesis using cs_GetManifest_cached [OF assms(1,2) refl, of "snd s2" S "fst s2"] by simp
qed

theorem cache_serves_deleted_witness:
  "fst (cs_GetManifest map_redis no_ttl (pg_store plain_bcrypt) ''lib/app'' ''v1''
     (snd (cs_DeleteManifest map_redis (pg_store plain_bcrypt) ''lib/app'' ''sha256:aa''
        (snd (cs_GetManifest map_redis no_ttl (pg_store plain_bcrypt) ''lib/app'' ''v1'' (two_tags, Map.empty)))))) =
     Inr (''mt'', ''sha256:aa'', ''x'')"
proof -
  let ?g = "cs_GetManifest map_redis no_ttl (pg_store plain_bcrypt) ''lib/app'' ''v1'' (two_tags, Map.empty)"
  let ?d = "cs_DeleteManifest map_redis (pg_store plain_bcrypt) ''lib/app'' ''sha256:aa'' (snd ?g)"
  have "fst ?g = Inr (''mt'', ''sha256:aa'', ''x'')" "fst ?d = Inr ()" by code_simp+
  then have "?g = (Inr (''mt'', ''sha256:aa'', ''x''), snd ?g)" "?d = (Inr (), snd ?d)" by (metis prod.collapse)+
  from cache_serves_deleted [OF map_redis_ok this(1) _ this(2)] show ?thesis by simp
qed

text \<open>A cached manifest can be another repository's: the key joins repository and reference by a colon, which both may
  contain. Once the repository \<open>repo:sha256\<close> has been asked for its tag \<open>h\<close>, a pull of the digest \<open>sha256:h\<close> from \<open>repo\<close> is answered
  from the cache with that repository's manifest.\<close>

theorem cache_poisoning:
  assumes "redis_ok rd" "cs_GetManifest rd ttl S (repo @ '':sha256'') h s = (Inr m, s')"
  shows "fst (cs_GetManifest rd ttl S repo (''sha256:'' @ h) s') = Inr m"
  using cs_GetManifest_cached [OF assms, of repo "''sha256:'' @ h" "snd s'" S "fst s'"] by (simp add: BuildManifestKey_def)

theorem cache_poisoning_witness:
  "let s0 = (snd (pg_PutManifest ''lib/app:sha256'' ''aa'' ''mt'' ''sha256:ee'' ''evil'' two_tags), Map.empty);
       s1 = snd (cs_GetManifest map_redis no_ttl (pg_store plain_bcrypt) ''lib/app:sha256'' ''aa'' s0)
   in fst (cs_GetManifest map_redis no_ttl (pg_store plain_bcrypt) ''lib/app'' ''sha256:aa'' s1) = Inr (''mt'', ''sha256:ee'', ''evil'')"
proof -
  let ?s0 = "(snd (pg_PutManifest ''lib/app:sha256'' ''aa'' ''mt'' ''sha256:ee'' ''evil'' two_tags), Map.empty)"
  let ?g = "cs_GetManifest map_redis no_ttl (pg_store plain_bcrypt) (''lib/app'' @ '':sha256'') ''aa'' ?s0"
  have "fst ?g = Inr (''mt'', ''sha256:ee'', ''evil'')" by code_simp
  then have "?g = (Inr (''mt'', ''sha256:ee'', ''evil''), snd ?g)" by (metis prod.collapse)
  from cache_poisoning [OF map_redis_ok this] show ?thesis by (simp add: Let_def)
qed

end
