(* ===== verification/Local_Store.thy ===== *)
theory Local_Store
  imports Manifest_Properties
begin

text \<open>
  The file-system provider, \<^verbatim>\<open>internal/storage/local/local.go\<close>, over a model of the file-system calls it
  makes. A path is the list of its components; the file system maps paths to files and directories. The calls fail
  where the shape of the tree makes them fail (a missing file, a file where a directory is needed, a directory where a
  file is needed); failures of the disk are covered by the laws of \<^verbatim>\<open>storage_provider\<close>, which are conditional on the
  operation's own report. The provider is an instance of these laws, so it refines the map from keys to contents, and
  every guarantee of the blob handlers holds over it.
\<close>

subsection \<open>The file system\<close>

datatype node = File bytes | Dir

type_synonym fs = "(string list \<times> node) list"

definition look :: "fs \<Rightarrow> string list \<Rightarrow> node option" where
  "look s p = map_of s p"

definition upd :: "string list \<Rightarrow> node \<Rightarrow> fs \<Rightarrow> fs" where
  "upd p n s = (p, n) # filter (\<lambda>e. fst e \<noteq> p) s"

definition unlink :: "string list \<Rightarrow> fs \<Rightarrow> fs" where
  "unlink p s = filter (\<lambda>e. fst e \<noteq> p) s"

definition ENOENT :: err where "ENOENT = ErrText ''no such file or directory''"
definition ENOTDIR :: err where "ENOTDIR = ErrText ''not a directory''"
definition EISDIR :: err where "EISDIR = ErrText ''is a directory''"
definition ENOTEMPTY :: err where "ENOTEMPTY = ErrText ''directory not empty''"
definition EINVAL :: err where "EINVAL = ErrText ''invalid argument''"

text \<open>\<^verbatim>\<open>os.MkdirAll\<close>, from the top down.\<close>

fun mkdir_from :: "string list \<Rightarrow> string list \<Rightarrow> fs \<Rightarrow> unit res \<times> fs" where
  "mkdir_from pre [] s = (Inr (), s)"
| "mkdir_from pre (c # cs) s =
     (case look s (pre @ [c]) of
        Some (File _) \<Rightarrow> (Inl ENOTDIR, s)
      | Some Dir \<Rightarrow> mkdir_from (pre @ [c]) cs s
      | None \<Rightarrow> mkdir_from (pre @ [c]) cs (upd (pre @ [c]) Dir s))"

definition os_MkdirAll :: "string list \<Rightarrow> fs \<Rightarrow> unit res \<times> fs" where
  "os_MkdirAll p s = mkdir_from [] p s"

text \<open>Resolving a path: a file where a directory is needed is \<^verbatim>\<open>ENOTDIR\<close>, which \<^verbatim>\<open>os.IsNotExist\<close> does not
  accept.\<close>

definition below_file :: "fs \<Rightarrow> string list \<Rightarrow> bool" where
  "below_file s p \<longleftrightarrow> list_ex (\<lambda>k. case look s (take k p) of Some (File _) \<Rightarrow> True | _ \<Rightarrow> False) [1..<length p]"

definition os_Stat :: "string list \<Rightarrow> fs \<Rightarrow> node res" where
  "os_Stat p s =
     (if below_file s p then Inl ENOTDIR
      else (case look s p of None \<Rightarrow> Inl ENOENT | Some n \<Rightarrow> Inr n))"

definition has_children :: "fs \<Rightarrow> string list \<Rightarrow> bool" where
  "has_children s p \<longleftrightarrow> list_ex (\<lambda>e. length (fst e) = Suc (length p) \<and> take (length p) (fst e) = p) s"

definition os_Remove :: "string list \<Rightarrow> fs \<Rightarrow> unit res \<times> fs" where
  "os_Remove p s =
     (case os_Stat p s of
        Inl e \<Rightarrow> (Inl e, s)
      | Inr Dir \<Rightarrow> if has_children s p then (Inl ENOTEMPTY, s) else (Inr (), unlink p s)
      | Inr (File _) \<Rightarrow> (Inr (), unlink p s))"

text \<open>\<^verbatim>\<open>os.OpenFile\<close> with \<^verbatim>\<open>O_CREATE|O_WRONLY\<close> and \<^verbatim>\<open>O_TRUNC\<close> or \<^verbatim>\<open>O_APPEND\<close>.\<close>

definition os_OpenWrite :: "bool \<Rightarrow> string list \<Rightarrow> fs \<Rightarrow> unit res \<times> fs" where
  "os_OpenWrite trunc p s =
     (case os_Stat p s of
        Inr Dir \<Rightarrow> (Inl EISDIR, s)
      | Inr (File d) \<Rightarrow> (Inr (), if trunc then upd p (File []) s else s)
      | Inl e \<Rightarrow>
          (if e = ENOENT \<and> (butlast p = [] \<or> look s (butlast p) = Some Dir) \<and> p \<noteq> []
           then (Inr (), upd p (File []) s) else (Inl e, s)))"

text \<open>A write through a file descriptor; to a file that was removed it has no effect on the tree.\<close>

definition file_append :: "string list \<Rightarrow> bytes \<Rightarrow> fs \<Rightarrow> fs" where
  "file_append p c s = (case look s p of Some (File d) \<Rightarrow> upd p (File (d @ c)) s | _ \<Rightarrow> s)"

text \<open>\<^verbatim>\<open>os.Rename\<close>: a file replaces a file; a directory moves with what is below it.\<close>

definition os_Rename :: "string list \<Rightarrow> string list \<Rightarrow> fs \<Rightarrow> unit res \<times> fs" where
  "os_Rename p q s =
     (case os_Stat p s of
        Inl e \<Rightarrow> (Inl e, s)
      | Inr (File d) \<Rightarrow>
          (if p = q then (Inr (), s)
           else if look s q = Some Dir then (Inl EISDIR, s)
           else if below_file s q then (Inl ENOTDIR, s)
           else (Inr (), unlink p (upd q (File d) s)))
      | Inr Dir \<Rightarrow>
          (if p = q then (Inr (), s)
           else if take (length p) q = p then (Inl EINVAL, s)
           else (case look s q of
                   Some (File _) \<Rightarrow> (Inl ENOTDIR, s)
                 | nq \<Rightarrow> if has_children s q then (Inl ENOTEMPTY, s)
                        else (Inr (), map (\<lambda>(r, n). (if take (length p) r = p then q @ drop (length p) r else r, n)) (unlink q s)))))"

subsection \<open>The provider\<close>

definition components :: "string \<Rightarrow> string list" where
  "components full = Split full CHR ''/''"

definition resolvePath :: "string \<Rightarrow> string \<Rightarrow> string list res" where
  "resolvePath root path = (case SafeJoin root path of Inl e \<Rightarrow> Inl e | Inr full \<Rightarrow> Inr (components full))"

definition local_New :: "string \<Rightarrow> fs \<Rightarrow> unit res \<times> fs" where
  "local_New root s = os_MkdirAll (components root) s"

text \<open>\<^verbatim>\<open>bufferedFileWriter\<close>: an open file and the bytes not yet written to it.\<close>

record local_writer =
  lw_path :: "string list"
  lw_buf :: bytes

definition bufSize :: int where
  "bufSize = 256 * 1024"

definition local_open :: "bool \<Rightarrow> string \<Rightarrow> string \<Rightarrow> fs \<Rightarrow> local_writer res \<times> fs" where
  "local_open trunc root path s =
     (case resolvePath root path of
        Inl e \<Rightarrow> (Inl e, s)
      | Inr p \<Rightarrow>
          (case os_MkdirAll (butlast p) s of
             (Inl e, s1) \<Rightarrow> (Inl e, s1)
           | (Inr _, s1) \<Rightarrow>
               (case os_OpenWrite trunc p s1 of
                  (Inl e, s2) \<Rightarrow> (Inl e, s2)
                | (Inr _, s2) \<Rightarrow> (Inr \<lparr>lw_path = p, lw_buf = []\<rparr>, s2))))"

definition local_Writer :: "string \<Rightarrow> string \<Rightarrow> fs \<Rightarrow> local_writer res \<times> fs" where
  "local_Writer = local_open True"

definition local_Appender :: "string \<Rightarrow> string \<Rightarrow> fs \<Rightarrow> local_writer res \<times> fs" where
  "local_Appender = local_open False"

text \<open>\<^verbatim>\<open>bufio.Writer.Write\<close>: what fits is buffered; else the buffer is filled and flushed, and a rest that does not fit
  into the empty buffer goes to the file directly.\<close>

definition local_Write :: "local_writer \<Rightarrow> bytes \<Rightarrow> fs \<Rightarrow> local_writer res \<times> fs" where
  "local_Write w c s =
     (let avail = bufSize - int (length (lw_buf w)) in
      if int (length c) \<le> avail then (Inr (w\<lparr>lw_buf := lw_buf w @ c\<rparr>), s)
      else if lw_buf w = [] then (Inr w, file_append (lw_path w) c s)
      else
        (let s1 = file_append (lw_path w) (lw_buf w @ take (nat avail) c) s; rest = drop (nat avail) c in
         if int (length rest) \<le> bufSize then (Inr (w\<lparr>lw_buf := rest\<rparr>), s1)
         else (Inr (w\<lparr>lw_buf := []\<rparr>), file_append (lw_path w) rest s1)))"

definition local_Close :: "local_writer \<Rightarrow> fs \<Rightarrow> unit res \<times> fs" where
  "local_Close w s = (Inr (), if lw_buf w = [] then s else file_append (lw_path w) (lw_buf w) s)"

text \<open>A directory can be opened; reading it fails.\<close>

definition local_Reader :: "string \<Rightarrow> string \<Rightarrow> int \<Rightarrow> fs \<Rightarrow> reader res" where
  "local_Reader root path offset s =
     (case resolvePath root path of
        Inl e \<Rightarrow> Inl e
      | Inr p \<Rightarrow>
          (case os_Stat p s of
             Inl e \<Rightarrow> Inl (if e = ENOENT then StorageNotFound else e)
           | Inr Dir \<Rightarrow> Inr \<lparr>rd_stream = ([], ReadErr EISDIR), rd_close = Inr ()\<rparr>
           | Inr (File d) \<Rightarrow> Inr \<lparr>rd_stream = ([drop (nat offset) d], EOF), rd_close = Inr ()\<rparr>))"

definition local_Delete :: "string \<Rightarrow> string \<Rightarrow> fs \<Rightarrow> unit res \<times> fs" where
  "local_Delete root path s =
     (case resolvePath root path of
        Inl e \<Rightarrow> (Inl e, s)
      | Inr p \<Rightarrow>
          (case os_Remove p s of
             (Inl e, s1) \<Rightarrow> (Inl (if e = ENOENT then StorageNotFound else e), s1)
           | (Inr _, s1) \<Rightarrow> (Inr (), s1)))"

definition local_Move :: "string \<Rightarrow> string \<Rightarrow> string \<Rightarrow> fs \<Rightarrow> unit res \<times> fs" where
  "local_Move root source target s =
     (case resolvePath root source of
        Inl e \<Rightarrow> (Inl e, s)
      | Inr p \<Rightarrow>
          (case resolvePath root target of
             Inl e \<Rightarrow> (Inl e, s)
           | Inr q \<Rightarrow>
               (case os_MkdirAll (butlast q) s of
                  (Inl e, s1) \<Rightarrow> (Inl e, s1)
                | (Inr _, s1) \<Rightarrow> os_Rename p q s1)))"

text \<open>The size of a directory is the file system's business.\<close>

definition local_Stat :: "int \<Rightarrow> string \<Rightarrow> string \<Rightarrow> fs \<Rightarrow> int res" where
  "local_Stat dirSize root path s =
     (case resolvePath root path of
        Inl e \<Rightarrow> Inl e
      | Inr p \<Rightarrow>
          (case os_Stat p s of
             Inl e \<Rightarrow> Inl (if e = ENOENT then StorageNotFound else e)
           | Inr Dir \<Rightarrow> Inr dirSize
           | Inr (File d) \<Rightarrow> Inr (int (length d))))"

definition local_provider :: "int \<Rightarrow> string \<Rightarrow> (fs, local_writer) provider" where
  "local_provider dirSize root =
     \<lparr>pv_Writer = local_Writer root, pv_Appender = local_Appender root, pv_Write = local_Write, pv_Close = local_Close,
      pv_Reader = local_Reader root, pv_Delete = local_Delete root, pv_Move = local_Move root, pv_Stat = local_Stat dirSize root\<rparr>"

subsection \<open>Trees\<close>

lemma look_upd [simp]: "look (upd p n s) q = (if q = p then Some n else look s q)"
proof -
  have "map_of (filter (\<lambda>e. fst e \<noteq> p) s) q = (if q = p then None else map_of s q)" by (induction s) auto
  then show ?thesis by (simp add: look_def upd_def)
qed

lemma look_unlink [simp]: "look (unlink p s) q = (if q = p then None else look s q)"
  by (induction s) (auto simp: look_def unlink_def)

text \<open>What exists lies in directories.\<close>

definition tree :: "fs \<Rightarrow> bool" where
  "tree s \<longleftrightarrow> (\<forall>p c. look s (p @ [c]) \<noteq> None \<longrightarrow> p = [] \<or> look s p = Some Dir) \<and> look s [] = None"

lemma treeD: "tree s \<Longrightarrow> look s (p @ [c]) \<noteq> None \<Longrightarrow> p \<noteq> [] \<Longrightarrow> look s p = Some Dir"
  by (auto simp: tree_def)

lemma tree_prefix: "tree s \<Longrightarrow> look s (p @ q) \<noteq> None \<Longrightarrow> p \<noteq> [] \<Longrightarrow> q \<noteq> [] \<Longrightarrow> look s p = Some Dir"
proof (induction q rule: rev_induct)
  case (snoc c q)
  then have "look s (p @ q) = Some Dir" using treeD [of s "p @ q" c] by simp
  with snoc show ?case by (cases "q = []") auto
qed simp

lemma not_below_file: "tree s \<Longrightarrow> look s p \<noteq> None \<Longrightarrow> \<not> below_file s p"
proof
  assume t: "tree s" and p: "look s p \<noteq> None" and b: "below_file s p"
  then obtain k d where k: "1 \<le> k" "k < length p" "look s (take k p) = Some (File d)"
    by (auto simp: below_file_def list_ex_iff split: option.splits) (metis node.exhaust node.simps(5,6))
  have "look s (take k p) = Some Dir" using tree_prefix [OF t, of "take k p" "drop k p"] p k by (cases p) auto
  with k show False by simp
qed

lemma tree_upd:
  assumes "tree s" "p \<noteq> []" "butlast p = [] \<or> look s (butlast p) = Some Dir" "n = Dir \<or> look s p \<noteq> Some Dir"
  shows "tree (upd p n s)"
proof -
  have below: "n = Dir" if "look s (p @ [c]) \<noteq> None" for c using treeD [OF assms(1) that assms(2)] assms(4) by auto
  have "look (upd p n s) q = Some Dir" if q: "look (upd p n s) (q @ [c]) \<noteq> None" "q \<noteq> []" for q c
  proof (cases "q = p")
    case True
    then show ?thesis using below [of c] q by simp
  next
    case False
    show ?thesis
    proof (cases "q @ [c] = p")
      case True
      then show ?thesis using assms(3) q(2) False by (metis butlast_snoc look_upd)
    next
      case other: False
      then have "look s q = Some Dir" using treeD [OF assms(1), of q c] q by simp
      then show ?thesis using False by simp
    qed
  qed
  then show ?thesis using assms(1,2) unfolding tree_def by (metis look_upd)
qed

lemma tree_unlink:
  assumes "tree s" "\<not> has_children s p"
  shows "tree (unlink p s)"
proof -
  have "look s (p @ [c]) = None" for c
  proof (rule ccontr)
    assume "look s (p @ [c]) \<noteq> None"
    then obtain n where "(p @ [c], n) \<in> set s" by (auto simp: look_def dest: map_of_SomeD)
    then show False using assms(2) by (force simp: has_children_def list_ex_iff)
  qed
  then show ?thesis using assms(1) by (auto simp: tree_def)
qed

lemma file_no_children: "tree s \<Longrightarrow> look s p = Some (File d) \<Longrightarrow> \<not> has_children s p"
proof
  assume t: "tree s" and p: "look s p = Some (File d)" and "has_children s p"
  then obtain q n where q: "(q, n) \<in> set s" "length q = Suc (length p)" "take (length p) q = p"
    by (auto simp: has_children_def list_ex_iff)
  then have "q = p @ [last q]" by (metis append_take_drop_id butlast_conv_take diff_Suc_1 append_butlast_last_id length_0_conv nat.distinct(1))
  moreover have "look s q \<noteq> None" using q(1) by (auto simp: look_def dest: weak_map_of_SomeI)
  moreover have "p \<noteq> []" using t p by (auto simp: tree_def)
  ultimately have "look s p = Some Dir" using treeD [OF t, of p "last q"] by simp
  with p show False by simp
qed

subsection \<open>The calls on trees\<close>

lemma mkdir_from_spec:
  "tree s \<Longrightarrow> pre = [] \<or> look s pre = Some Dir \<Longrightarrow> mkdir_from pre cs s = (r, s') \<Longrightarrow>
   tree s' \<and> (\<forall>q d. look s' q = Some (File d) \<longleftrightarrow> look s q = Some (File d)) \<and>
   (r = Inr () \<longrightarrow> pre @ cs = [] \<or> look s' (pre @ cs) = Some Dir)"
proof (induction cs arbitrary: pre s)
  case (Cons c cs)
  show ?case
  proof (cases "look s (pre @ [c])")
    case None
    have "tree (upd (pre @ [c]) Dir s)" using tree_upd [OF Cons.prems(1), of "pre @ [c]" Dir] Cons.prems(2) by simp
    from Cons.IH [OF this _, of "pre @ [c]"] Cons.prems(3) None show ?thesis by auto
  next
    case (Some n)
    then show ?thesis using Cons.IH [OF Cons.prems(1), of "pre @ [c]"] Cons.prems by (cases n) auto
  qed
qed auto

lemma os_MkdirAll_spec:
  assumes "tree s" "os_MkdirAll p s = (r, s')"
  shows "tree s'" "look s' q = Some (File d) \<longleftrightarrow> look s q = Some (File d)" "r = Inr () \<Longrightarrow> p = [] \<or> look s' p = Some Dir"
  using mkdir_from_spec [of s "[]" p r s'] assms by (auto simp: os_MkdirAll_def)

text \<open>The content of a file, as the provider's view of a path.\<close>

definition file_at :: "fs \<Rightarrow> string list \<Rightarrow> bytes option" where
  "file_at s p = (case look s p of Some (File d) \<Rightarrow> Some d | _ \<Rightarrow> None)"

lemma file_at_iff: "file_at s p = Some d \<longleftrightarrow> look s p = Some (File d)"
  by (auto simp: file_at_def split: option.splits node.splits)

lemma file_at_eqI: "(\<And>d. look s' p = Some (File d) \<longleftrightarrow> look s q = Some (File d)) \<Longrightarrow> file_at s' p = file_at s q"
  by (metis file_at_iff not_Some_eq)

lemma os_MkdirAll_files: "tree s \<Longrightarrow> os_MkdirAll p s = (r, s') \<Longrightarrow> file_at s' q = file_at s q"
  using os_MkdirAll_spec(2) by (intro file_at_eqI)

lemma os_Stat_file: "tree s \<Longrightarrow> os_Stat p s = Inr (File d) \<longleftrightarrow> file_at s p = Some d"
  using not_below_file [of s p] by (auto simp: os_Stat_def file_at_iff split: option.splits)

lemma os_Stat_missing: "tree s \<Longrightarrow> os_Stat p s = Inl e \<Longrightarrow> file_at s p = None"
  using os_Stat_file [of s p] by (metis not_Some_eq Inl_Inr_False)

lemma file_append_spec:
  assumes "tree s" "file_at s p = Some d"
  shows "tree (file_append p c s)" "file_at (file_append p c s) q = (if q = p then Some (d @ c) else file_at s q)"
proof -
  have l: "look s p = Some (File d)" using assms(2) by (simp add: file_at_iff)
  then have f: "file_append p c s = upd p (File (d @ c)) s" by (simp add: file_append_def)
  have "p \<noteq> []" using assms(1) l by (auto simp: tree_def)
  then have "butlast p = [] \<or> look s (butlast p) = Some Dir"
    using treeD [OF assms(1), of "butlast p" "last p"] l by auto
  then show "tree (file_append p c s)" unfolding f using assms(1) \<open>p \<noteq> []\<close> l by (intro tree_upd) auto
  show "file_at (file_append p c s) q = (if q = p then Some (d @ c) else file_at s q)" unfolding f by (simp add: file_at_def)
qed

lemma os_OpenWrite_spec:
  assumes "tree s" "os_OpenWrite trunc p s = (r, s')" "butlast p = [] \<or> look s (butlast p) = Some Dir" "p \<noteq> []"
  shows "tree s'" "q \<noteq> p \<Longrightarrow> file_at s' q = file_at s q"
    "r = Inr () \<Longrightarrow> file_at s' p = Some (if trunc then [] else (case file_at s p of None \<Rightarrow> [] | Some d \<Rightarrow> d))"
proof -
  consider (isdir) "os_Stat p s = Inr Dir" | (isfile) d where "os_Stat p s = Inr (File d)" | (missing) e where "os_Stat p s = Inl e"
    by (metis node.exhaust sum.exhaust)
  then have "tree s' \<and> (q \<noteq> p \<longrightarrow> file_at s' q = file_at s q) \<and>
    (r = Inr () \<longrightarrow> file_at s' p = Some (if trunc then [] else (case file_at s p of None \<Rightarrow> [] | Some d \<Rightarrow> d)))"
  proof cases
    case isdir
    then show ?thesis using assms(1,2) by (auto simp: os_OpenWrite_def)
  next
    case (isfile d)
    then have f: "file_at s p = Some d" using os_Stat_file [OF assms(1)] by simp
    have "tree (upd p (File []) s)" using tree_upd [OF assms(1,4,3), of "File []"] f by (simp add: file_at_iff)
    then show ?thesis using assms(1,2) isfile f by (auto simp: os_OpenWrite_def file_at_def)
  next
    case (missing e)
    then have f: "file_at s p = None" using os_Stat_missing [OF assms(1)] by simp
    have "tree (upd p (File []) s)" if "e = ENOENT"
      using missing that tree_upd [OF assms(1,4,3), of "File []"]
      by (auto simp: os_Stat_def ENOENT_def ENOTDIR_def split: if_splits option.splits)
    then show ?thesis using assms(1,2) missing f by (auto simp: os_OpenWrite_def file_at_def split: if_splits)
  qed
  then show "tree s'" "q \<noteq> p \<Longrightarrow> file_at s' q = file_at s q"
    "r = Inr () \<Longrightarrow> file_at s' p = Some (if trunc then [] else (case file_at s p of None \<Rightarrow> [] | Some d \<Rightarrow> d))" by blast+
qed

lemma os_Remove_spec:
  assumes "tree s" "os_Remove p s = (r, s')"
  shows "tree s'" "q \<noteq> p \<Longrightarrow> file_at s' q = file_at s q" "r = Inr () \<Longrightarrow> file_at s' p = None" "r \<noteq> Inr () \<Longrightarrow> s' = s"
proof -
  have "tree (unlink p s)" if "os_Stat p s = Inr (File d)" for d
    using that assms(1) os_Stat_file file_at_iff file_no_children tree_unlink by metis
  then have "tree s' \<and> (q \<noteq> p \<longrightarrow> file_at s' q = file_at s q) \<and> (r = Inr () \<longrightarrow> file_at s' p = None) \<and> (r \<noteq> Inr () \<longrightarrow> s' = s)"
    using assms tree_unlink [OF assms(1), of p]
    by (auto simp: os_Remove_def file_at_def split: sum.splits node.splits if_splits)
  then show "tree s'" "q \<noteq> p \<Longrightarrow> file_at s' q = file_at s q" "r = Inr () \<Longrightarrow> file_at s' p = None" "r \<noteq> Inr () \<Longrightarrow> s' = s" by blast+
qed

lemma os_Rename_file:
  assumes "tree s" "file_at s p = Some d" "os_Rename p q s = (r, s')" "butlast q = [] \<or> look s (butlast q) = Some Dir" "q \<noteq> []"
  shows "tree s'" "r = Inr () \<Longrightarrow> p \<noteq> q \<Longrightarrow> file_at s' q = Some d \<and> file_at s' p = None"
    "k \<noteq> p \<Longrightarrow> k \<noteq> q \<Longrightarrow> file_at s' k = file_at s k"
proof -
  have st: "os_Stat p s = Inr (File d)" using assms(1,2) os_Stat_file by blast
  have l: "look s p = Some (File d)" using assms(2) by (simp add: file_at_iff)
  have t: "tree (unlink p (upd q (File d) s))" if "look s q \<noteq> Some Dir" "p \<noteq> q"
  proof -
    have t1: "tree (upd q (File d) s)" using tree_upd [OF assms(1,5,4), of "File d"] that by simp
    then show ?thesis using file_no_children [OF t1, of p d] l that by (intro tree_unlink) auto
  qed
  show "tree s'" using assms(1,3) st t by (auto simp: os_Rename_def split: if_splits)
  show "r = Inr () \<Longrightarrow> p \<noteq> q \<Longrightarrow> file_at s' q = Some d \<and> file_at s' p = None"
    "k \<noteq> p \<Longrightarrow> k \<noteq> q \<Longrightarrow> file_at s' k = file_at s k"
    using assms(3) st by (auto simp: os_Rename_def file_at_def split: if_splits)
qed

lemma os_Rename_fail: "os_Rename p q s = (Inl e, s') \<Longrightarrow> s' = s"
  by (auto simp: os_Rename_def split: sum.splits node.splits if_splits option.splits)

subsection \<open>The provider keeps the promises\<close>

definition lview :: "string \<Rightarrow> fs \<Rightarrow> string \<Rightarrow> bytes option" where
  "lview root s key = (case resolvePath root key of Inl _ \<Rightarrow> None | Inr p \<Rightarrow> file_at s p)"

definition lcanon :: "string \<Rightarrow> string \<Rightarrow> string" where
  "lcanon root key = (case SafeJoin root key of Inl _ \<Rightarrow> [] | Inr full \<Rightarrow> CHR ''/'' # full)"

definition lready :: "string \<Rightarrow> local_writer \<Rightarrow> string \<Rightarrow> fs \<Rightarrow> bytes \<Rightarrow> bool" where
  "lready root w key s d \<longleftrightarrow>
     resolvePath root key = Inr (lw_path w) \<and> (\<exists>f. file_at s (lw_path w) = Some f \<and> d = f @ lw_buf w)"

lemma components_inject: "components a = components b \<Longrightarrow> a = b"
  unfolding components_def by (metis Join_Split)

lemma resolvePath_not_Nil: "resolvePath root key = Inr p \<Longrightarrow> p \<noteq> []"
  by (auto simp: resolvePath_def components_def split: sum.splits)

lemma lcanon_eq: "lcanon root k = lcanon root k' \<Longrightarrow> lview root s k = lview root s k'"
  by (auto simp: lcanon_def lview_def resolvePath_def split: sum.splits)

text \<open>A change of one file is a change of one key.\<close>

lemma lview_frame:
  assumes "resolvePath root key = Inr p" "\<And>q. q \<noteq> p \<Longrightarrow> file_at s' q = file_at s q"
  shows "\<forall>k. lcanon root k \<noteq> lcanon root key \<longrightarrow> lview root s' k = lview root s k"
proof (intro allI impI)
  fix k assume ne: "lcanon root k \<noteq> lcanon root key"
  show "lview root s' k = lview root s k"
  proof (cases "resolvePath root k")
    case (Inr q)
    with ne assms(1) have "q \<noteq> p"
      by (auto simp: resolvePath_def lcanon_def split: sum.splits dest: components_inject)
    with Inr assms(2) show ?thesis by (simp add: lview_def)
  qed (simp add: lview_def)
qed

lemma local_open_spec:
  assumes "tree s" "local_open trunc root key s = (rw, s')"
  shows "tree s'" "\<forall>k. lcanon root k \<noteq> lcanon root key \<longrightarrow> lview root s' k = lview root s k"
    "rw = Inr w \<Longrightarrow> lready root w key s' (if trunc then [] else (case lview root s key of None \<Rightarrow> [] | Some d \<Rightarrow> d))"
proof -
  have "tree s' \<and> (\<forall>k. lcanon root k \<noteq> lcanon root key \<longrightarrow> lview root s' k = lview root s k) \<and>
    (rw = Inr w \<longrightarrow> lready root w key s' (if trunc then [] else (case lview root s key of None \<Rightarrow> [] | Some d \<Rightarrow> d)))"
  proof (cases "resolvePath root key")
    case (Inl e)
    then show ?thesis using assms by (auto simp: local_open_def)
  next
    case (Inr p)
    note ne = resolvePath_not_Nil [OF Inr]
    obtain r1 s1 where m: "os_MkdirAll (butlast p) s = (r1, s1)" by force
    note ms = os_MkdirAll_spec [OF assms(1) m] and mf = os_MkdirAll_files [OF assms(1) m]
    show ?thesis
    proof (cases r1)
      case (Inl e)
      then show ?thesis using assms(2) Inr m ms(1) mf lview_frame [OF Inr, of s1 s] by (auto simp: local_open_def)
    next
      case r1: (Inr u)
      then have par: "butlast p = [] \<or> look s1 (butlast p) = Some Dir" using ms(3) by simp
      obtain r2 s2 where o: "os_OpenWrite trunc p s1 = (r2, s2)" by force
      note os = os_OpenWrite_spec [OF ms(1) o par ne]
      have s': "s' = s2" "rw = Inr w \<longrightarrow> r2 = Inr () \<and> w = \<lparr>lw_path = p, lw_buf = []\<rparr>"
        using assms(2) Inr m r1 o by (auto simp: local_open_def split: sum.splits)
      then show ?thesis
        using os mf lview_frame [OF Inr, of s2 s] Inr by (auto simp: lready_def lview_def)
    qed
  qed
  then show "tree s'" "\<forall>k. lcanon root k \<noteq> lcanon root key \<longrightarrow> lview root s' k = lview root s k"
    "rw = Inr w \<Longrightarrow> lready root w key s' (if trunc then [] else (case lview root s key of None \<Rightarrow> [] | Some d \<Rightarrow> d))" by blast+
qed

lemma local_Write_spec:
  assumes "tree s" "lready root w key s d" "local_Write w c s = (rw, s')"
  shows "tree s' \<and> (\<forall>k. lcanon root k \<noteq> lcanon root key \<longrightarrow> lview root s' k = lview root s k) \<and>
    (\<exists>w'. rw = Inr w' \<and> lready root w' key s' (d @ c))"
proof -
  obtain f where p: "resolvePath root key = Inr (lw_path w)" and f: "file_at s (lw_path w) = Some f" and d: "d = f @ lw_buf w"
    using assms(2) by (auto simp: lready_def)
  note a = file_append_spec [OF assms(1) f]
  have f2: "file_at (file_append (lw_path w) b s) (lw_path w) = Some (f @ b)" for b using a(2) by simp
  note a2 = file_append_spec [OF a(1) f2]
  have fr: "(\<And>q. q \<noteq> lw_path w \<Longrightarrow> file_at s' q = file_at s q) \<Longrightarrow>
      \<forall>k. lcanon root k \<noteq> lcanon root key \<longrightarrow> lview root s' k = lview root s k" by (rule lview_frame [OF p])
  show ?thesis using assms(1,3) fr p f d a a2
    by (auto simp: local_Write_def Let_def lready_def split: if_splits)
qed

lemma local_Close_spec:
  assumes "tree s" "lready root w key s d" "local_Close w s = (r, s')"
  shows "tree s' \<and> (\<forall>k. lcanon root k \<noteq> lcanon root key \<longrightarrow> lview root s' k = lview root s k) \<and> lview root s' key = Some d"
proof -
  obtain f where p: "resolvePath root key = Inr (lw_path w)" and f: "file_at s (lw_path w) = Some f" and d: "d = f @ lw_buf w"
    using assms(2) by (auto simp: lready_def)
  note a = file_append_spec [OF assms(1) f]
  show ?thesis using assms(1,3) p f d a lview_frame [OF p, of s' s]
    by (auto simp: local_Close_def lview_def split: if_splits)
qed

lemma local_Delete_spec:
  assumes "tree s" "local_Delete root key s = (r, s')"
  shows "tree s' \<and> (\<forall>k. lcanon root k \<noteq> lcanon root key \<longrightarrow> lview root s' k = lview root s k) \<and>
    (is_ok r \<longrightarrow> lview root s' key = None) \<and> (\<not> is_ok r \<longrightarrow> s' = s)"
proof (cases "resolvePath root key")
  case (Inl e)
  then show ?thesis using assms by (auto simp: local_Delete_def)
next
  case (Inr p)
  obtain r1 s1 where m: "os_Remove p s = (r1, s1)" by force
  note os = os_Remove_spec [OF assms(1) m]
  have "s' = s1" "is_ok r \<longleftrightarrow> r1 = Inr ()" using assms(2) Inr m by (auto simp: local_Delete_def split: sum.splits)
  then show ?thesis using os Inr lview_frame [OF Inr, of s1 s] by (auto simp: lview_def)
qed

lemma local_Move_spec:
  assumes "tree s" "local_Move root src dst s = (r, s')"
  shows "lview root s src = Some d \<Longrightarrow> tree s' \<and>
      (\<forall>k. lcanon root k \<noteq> lcanon root src \<longrightarrow> lcanon root k \<noteq> lcanon root dst \<longrightarrow> lview root s' k = lview root s k) \<and>
      (is_ok r \<longrightarrow> lcanon root src \<noteq> lcanon root dst \<longrightarrow> lview root s' dst = Some d \<and> lview root s' src = None)"
    and "\<not> is_ok r \<Longrightarrow> lview root s' = lview root s"
proof -
  have "(lview root s src = Some d \<longrightarrow> tree s' \<and>
      (\<forall>k. lcanon root k \<noteq> lcanon root src \<longrightarrow> lcanon root k \<noteq> lcanon root dst \<longrightarrow> lview root s' k = lview root s k) \<and>
      (is_ok r \<longrightarrow> lcanon root src \<noteq> lcanon root dst \<longrightarrow> lview root s' dst = Some d \<and> lview root s' src = None)) \<and>
    (\<not> is_ok r \<longrightarrow> lview root s' = lview root s)"
  proof (cases "\<exists>p q. resolvePath root src = Inr p \<and> resolvePath root dst = Inr q")
    case False
    then show ?thesis using assms by (auto simp: local_Move_def split: sum.splits)
  next
    case True
    then obtain p q where p: "resolvePath root src = Inr p" and q: "resolvePath root dst = Inr q" by blast
    obtain r1 s1 where m: "os_MkdirAll (butlast q) s = (r1, s1)" by force
    note ms = os_MkdirAll_spec [OF assms(1) m] and mf = os_MkdirAll_files [OF assms(1) m]
    have same: "lview root s1 = lview root s" by (auto simp: lview_def mf split: sum.splits)
    show ?thesis
    proof (cases r1)
      case (Inl e)
      then show ?thesis using assms(2) p q m ms(1) same by (auto simp: local_Move_def)
    next
      case r1: (Inr u)
      then have par: "butlast q = [] \<or> look s1 (butlast q) = Some Dir" using ms(3) by simp
      have rn: "os_Rename p q s1 = (r, s')" using assms(2) p q m r1 by (auto simp: local_Move_def)
      show ?thesis
      proof (intro conjI impI)
        assume v: "lview root s src = Some d"
        then have f: "file_at s1 p = Some d" using mf p by (simp add: lview_def)
        note os = os_Rename_file [OF ms(1) f rn par resolvePath_not_Nil [OF q]]
        show "tree s'" by (rule os(1))
        show "\<forall>k. lcanon root k \<noteq> lcanon root src \<longrightarrow> lcanon root k \<noteq> lcanon root dst \<longrightarrow> lview root s' k = lview root s k"
        proof (intro allI impI)
          fix k assume n: "lcanon root k \<noteq> lcanon root src" "lcanon root k \<noteq> lcanon root dst"
          show "lview root s' k = lview root s k"
          proof (cases "resolvePath root k")
            case (Inr j)
            with n p q have "j \<noteq> p" "j \<noteq> q" by (auto simp: resolvePath_def lcanon_def split: sum.splits dest: components_inject)
            with os(3) [of j] mf Inr show ?thesis by (simp add: lview_def)
          qed (simp add: lview_def)
        qed
        assume "is_ok r" "lcanon root src \<noteq> lcanon root dst"
        moreover from this have "p \<noteq> q" using p q by (auto simp: resolvePath_def lcanon_def split: sum.splits dest: components_inject)
        ultimately show "lview root s' dst = Some d" "lview root s' src = None"
          using os(2) p q by (auto simp: lview_def is_ok_iff)
      next
        assume "\<not> is_ok r"
        then have "s' = s1" using os_Rename_fail rn by (cases r) auto
        then show "lview root s' = lview root s" using same by simp
      qed
    qed
  qed
  then show "lview root s src = Some d \<Longrightarrow> tree s' \<and>
      (\<forall>k. lcanon root k \<noteq> lcanon root src \<longrightarrow> lcanon root k \<noteq> lcanon root dst \<longrightarrow> lview root s' k = lview root s k) \<and>
      (is_ok r \<longrightarrow> lcanon root src \<noteq> lcanon root dst \<longrightarrow> lview root s' dst = Some d \<and> lview root s' src = None)"
    "\<not> is_ok r \<Longrightarrow> lview root s' = lview root s" by blast+
qed

lemmas local_provider_simps = local_provider_def local_Writer_def local_Appender_def

interpretation lps: storage_provider "local_provider dirSize root" "lview root" "lcanon root" tree "lready root" for dirSize root
proof (unfold_locales, goal_cases)
  case 1 then show ?case by (rule lcanon_eq)
next
  case (2 s p n d)
  then show ?case
    by (auto simp: local_provider_simps local_Stat_def lview_def os_Stat_file [symmetric] split: sum.splits node.splits)
next
  case (3 s p e)
  then show ?case
    using os_Stat_missing [of s] by (auto simp: local_provider_simps local_Stat_def lview_def split: sum.splits node.splits)
next
  case (4 s p d)
  then show ?case
    by (auto simp: local_provider_simps local_Stat_def lview_def os_Stat_file [symmetric] split: sum.splits node.splits)
next
  case (5 s i p rd cs)
  then show ?case
    by (auto simp: local_provider_simps local_Reader_def lview_def os_Stat_file [symmetric] split: sum.splits node.splits)
next
  case (6 s p w s')
  then show ?case using local_open_spec [of s True root p "Inr w" s'] by (simp add: local_provider_simps)
next
  case (7 s p rw s')
  then show ?case using local_open_spec(1,2) [of s True root p rw s'] by (simp add: local_provider_simps)
next
  case (8 s p w s')
  then show ?case using local_open_spec [of s False root p "Inr w" s'] by (simp add: local_provider_simps)
next
  case (9 s p rw s')
  then show ?case using local_open_spec(1,2) [of s False root p rw s'] by (simp add: local_provider_simps)
next
  case (10 s w p d c w' s')
  then show ?case using local_Write_spec [of s root w p d c "Inr w'" s'] by (simp add: local_provider_simps)
next
  case (11 s w p d c rw s')
  then show ?case using local_Write_spec [of s root w p d c rw s'] by (simp add: local_provider_simps)
next
  case (12 s w p d c e s')
  then show ?case using local_Write_spec [of s root w p d c "Inl e" s'] by (simp add: local_provider_simps)
next
  case (13 s w p d u s')
  then show ?case using local_Close_spec [of s root w p d "Inr u" s'] by (simp add: local_provider_simps)
next
  case (14 s w p d r s')
  then show ?case using local_Close_spec [of s root w p d r s'] by (simp add: local_provider_simps)
next
  case (15 s p u s')
  then show ?case using local_Delete_spec [of s root p "Inr u" s'] by (simp add: local_provider_simps)
next
  case (16 s p r s')
  then show ?case using local_Delete_spec [of s root p r s'] by (simp add: local_provider_simps)
next
  case (17 s p e s')
  then show ?case using local_Delete_spec [of s root p "Inl e" s'] by (simp add: local_provider_simps)
next
  case (18 s p q u s' d)
  then show ?case using local_Move_spec(1) [of s root p q "Inr u" s' d] by (simp add: local_provider_simps)
next
  case (19 s p d q r s')
  then show ?case using local_Move_spec(1) [of s root p q r s' d] by (simp add: local_provider_simps)
next
  case (20 s p q e s')
  then show ?case using local_Move_spec(2) [of s root p q "Inl e" s'] by (simp add: local_provider_simps)
qed

text \<open>The handlers over files and the PostgreSQL store.\<close>

definition on_local_pg ::
  "int \<Rightarrow> string \<Rightarrow> (string \<Rightarrow> string \<Rightarrow> bool) \<Rightarrow> (fs, local_writer, db) router \<Rightarrow> (fs, local_writer, db) router" where
  "on_local_pg dirSize root bc R = R\<lparr>rt_db := pg_store bc, rt_storage := local_provider dirSize root\<rparr>"

lemma on_local_pg_simps [simp]:
  "rt_db (on_local_pg ds root bc R) = pg_store bc" "rt_storage (on_local_pg ds root bc R) = local_provider ds root"
  "rt_sha256 (on_local_pg ds root bc R) = rt_sha256 R"
  by (simp_all add: on_local_pg_def)

interpretation lpg: blob_service "local_provider ds root" "lview root" "lcanon root" tree "lready root"
  "pg_store bc" pg_inv pg_quo pg_man pg_blb pg_imm "on_local_pg ds root bc R" for ds root bc R
  by unfold_locales simp_all

subsection \<open>Properties\<close>

text \<open>The file-system provider stores what it is given: chunks written through \<^verbatim>\<open>Appender\<close> and closed without error
  make the file its old content followed by the chunks, across the 256 KiB buffer, as \<^verbatim>\<open>Reader\<close> then returns from any
  offset and \<^verbatim>\<open>Stat\<close> measures; no other key changes.\<close>

theorem local_append_read:
  assumes "tree s" "local_Appender root key s = (Inr w, s1)" "0 \<le> i"
    and "copy_close (local_provider ds root) w (cs, EOF) s1 = ((None, Inr u), s2)"
  shows "let c = (case lview root s key of None \<Rightarrow> [] | Some d \<Rightarrow> d) @ concat cs in
    tree s2 \<and> local_Stat ds root key s2 = Inr (int (length c)) \<and>
    (\<exists>rd. local_Reader root key i s2 = Inr rd \<and> concat (fst (rd_stream rd)) = drop (nat i) c \<and> snd (rd_stream rd) = EOF) \<and>
    (\<forall>k. lcanon root k \<noteq> lcanon root key \<longrightarrow> lview root s2 k = lview root s k)"
proof -
  let ?d = "case lview root s key of None \<Rightarrow> [] | Some d \<Rightarrow> d"
  note ap = local_open_spec [OF assms(1), of False root key "Inr w" s1] assms(2)
  then have t1: "tree s1" and rdy: "lready root w key s1 ?d" and f1: "\<forall>k. lcanon root k \<noteq> lcanon root key \<longrightarrow> lview root s1 k = lview root s k"
    by (simp_all add: local_Appender_def)
  note cc = lps.copy_close_spec [OF t1 rdy assms(4)]
  then have t2: "tree s2" and v: "lview root s2 key = Some (?d @ concat cs)"
    and f2: "\<forall>k. lcanon root k \<noteq> lcanon root key \<longrightarrow> lview root s2 k = lview root s1 k" by auto
  obtain p where p: "resolvePath root key = Inr p" "os_Stat p s2 = Inr (File (?d @ concat cs))"
    using v os_Stat_file [OF t2] by (auto simp: lview_def split: sum.splits)
  then show ?thesis using t2 f1 f2 by (simp add: Let_def local_Stat_def local_Reader_def)
qed

definition demo_fs :: fs where
  "demo_fs = snd (local_New ''/srv'' [])"

lemma demo_fs_tree: "tree demo_fs"
proof -
  have "tree []" by (simp add: tree_def look_def)
  then show ?thesis unfolding demo_fs_def local_New_def by (rule os_MkdirAll_spec(1) [OF _ prod.collapse [symmetric]])
qed

theorem local_append_read_witness:
  "let (w, s1) = local_Appender ''/srv'' ''a/../lib/blob'' demo_fs;
       s2 = snd (copy_close (local_provider 4096 ''/srv'') (case w of Inr x \<Rightarrow> x) ([''ab'', ''c''], EOF) s1)
   in local_Stat 4096 ''/srv'' ''lib/blob'' s2 = Inr 3"
proof -
  let ?o = "local_Appender ''/srv'' ''a/../lib/blob'' demo_fs"
  let ?w = "case fst ?o of Inr x \<Rightarrow> x"
  let ?c = "copy_close (local_provider 4096 ''/srv'') ?w ([''ab'', ''c''], EOF) (snd ?o)"
  have o: "is_ok (fst ?o)" and c: "fst ?c = (None, Inr ())" and v: "lview ''/srv'' demo_fs ''a/../lib/blob'' = None"
    and p: "resolvePath ''/srv'' ''a/../lib/blob'' = resolvePath ''/srv'' ''lib/blob''" by code_simp+
  have o': "?o = (Inr ?w, snd ?o)" using o by (cases ?o) (auto simp: is_ok_iff)
  have c': "?c = ((None, Inr ()), snd ?c)" using c by (metis prod.collapse)
  from local_append_read [OF demo_fs_tree o' order_refl c'] v p show ?thesis
    by (simp add: Let_def local_Stat_def split_beta)
qed

text \<open>(C16) Content addressing on disk: over the file-system provider too, whatever request finalizes an upload, the object at the
  blob's key afterwards is the one that was there before or a new one whose content hashes to the digest of the request; no
  other file than the blob and the session changes, and no manifest.\<close>

theorem local_putUpload_verified:
  assumes "tree (wd_st w)" "pg_inv (wd_db w)" "getRepoContext req = (repo, ns)" "dg = rq_query req ''digest''"
    and "lcanon root (UploadPath repo uuid) \<noteq> lcanon root (getPath repo dg)"
    and "putUpload (on_local_pg ds root bc R) None req uuid w = (resp, w')"
  shows "tree (wd_st w') \<and> pg_man (wd_db w') = pg_man (wd_db w) \<and>
    (\<forall>k. lcanon root k \<notin> {lcanon root (UploadPath repo uuid), lcanon root (getPath repo dg)} \<longrightarrow>
       lview root (wd_st w') k = lview root (wd_st w) k) \<and>
    (lview root (wd_st w') (getPath repo dg) = lview root (wd_st w) (getPath repo dg) \<or>
     lview root (wd_st w) (getPath repo dg) = None \<and>
       (\<exists>c. lview root (wd_st w') (getPath repo dg) = Some c \<and> dg = ''sha256:'' @ rt_sha256 R c))"
proof -
  have "lpg.outcome ds root bc R ns dg (UploadPath repo uuid) (getPath repo dg) w resp w'"
    by (rule lpg.putUpload_spec) (use assms in auto)
  then show ?thesis unfolding lpg.outcome_def by (auto split: if_splits)
qed

definition disk_router :: "(fs, local_writer, db) router" where
  "disk_router = \<lparr>rt_db = pg_store plain_bcrypt, rt_storage = local_provider 4096 ''/srv'', rt_sha256 = (\<lambda>c. c),
     rt_digest = rt_digest demo_router, rt_json = rt_json demo_router, rt_marshal = rt_marshal demo_router,
     rt_refs = rt_refs demo_router, rt_report = rt_report demo_router, rt_uuid = rt_uuid demo_router,
     rt_upstream = None, rt_proxy = rt_proxy demo_router, rt_vulnGate = None, rt_developer = False,
     rt_starlark = False, rt_webhook = False, rt_broker = False, rt_scanner = False, rt_sync = False\<rparr>"

lemma disk_router_on: "on_local_pg 4096 ''/srv'' plain_bcrypt disk_router = disk_router"
  by (simp add: on_local_pg_def disk_router_def)

definition disk_world :: "(fs, db) world" where
  "disk_world = \<lparr>wd_st = demo_fs, wd_db = empty_db\<rparr>"

theorem local_putUpload_verified_witness:
  "let w' = snd (putUpload disk_router None demo_put ''u1'' disk_world) in
   lview ''/srv'' (wd_st w') (getPath ''lib/app'' ''sha256:ab'') = Some ''ab'' \<and> tree (wd_st w')"
proof -
  let ?p = "putUpload disk_router None demo_put ''u1'' disk_world"
  have "getRepoContext demo_put = (''lib/app'', ''lib'')" "''sha256:ab'' = rq_query demo_put ''digest''"
    "lcanon ''/srv'' (UploadPath ''lib/app'' ''u1'') \<noteq> lcanon ''/srv'' (getPath ''lib/app'' ''sha256:ab'')" by code_simp+
  moreover have "tree (wd_st disk_world)" "pg_inv (wd_db disk_world)" by (simp_all add: disk_world_def demo_fs_tree pg_inv_empty)
  ultimately have "tree (wd_st (snd ?p))"
    using local_putUpload_verified [of disk_world demo_put "''lib/app''" "''lib''" "''sha256:ab''" "''/srv''" "''u1''" 4096 plain_bcrypt disk_router]
    unfolding disk_router_on by (metis prod.collapse)
  moreover have "lview ''/srv'' (wd_st (snd ?p)) (getPath ''lib/app'' ''sha256:ab'') = Some ''ab''" by code_simp
  ultimately show ?thesis by (simp add: Let_def)
qed

text \<open>On disk a directory passes for a blob: once a repository below the name \<open>repo/digest\<close> has an upload session, \<^verbatim>\<open>Stat\<close> of the
  blob's key succeeds on the directory, and finishing an upload of the digest is answered 201 although nothing is stored
  and the content is never read.\<close>

theorem local_directory_passes_for_blob:
  "let w1 = snd (startUpload disk_router (plain_request ''POST'' ''/v2/lib/app/sha256:ab/blobs/uploads/'' []) disk_world);
       (resp, w2) = putUpload disk_router None (with_body demo_put [''zz'']) ''u1'' w1
   in rs_status resp = 201 \<and> lview ''/srv'' (wd_st w2) (getPath ''lib/app'' ''sha256:ab'') = None"
  by code_simp

end
