(* ===== verification/Sync.thy ===== *)
theory Sync
  imports Manifest_Properties "HOL-Library.Sublist"
begin

text \<open>
  Synchronisation with peer registries, \<^verbatim>\<open>internal/sync/manager.go\<close>: a bounded queue of pushes, workers
  that take a job to every peer it is meant for, and the transfer of one image, with retries. The HTTP client
  is a parameter with a state of its own, which stands for the peers; so are the JSON decoder, the digest
  library and the Starlark policy. The text of an answer's body in an error message is left out.
\<close>

subsection \<open>State\<close>

record peer =
  pe_name :: string
  pe_endpoint :: string
  pe_token :: string
  pe_mode :: string

record sync_job =
  sj_namespace :: string
  sj_repository :: string
  sj_reference :: string
  sj_digest :: string

record sync_metrics =
  sm_total :: int
  sm_successful :: int
  sm_failed :: int
  sm_last :: int
  sm_latency :: int

text \<open>A request the client sends. \<open>cr_type\<close> is the content type, empty if none is set.\<close>

record client_request =
  cr_method :: string
  cr_url :: string
  cr_token :: string
  cr_type :: string
  cr_length :: int
  cr_body :: stream

record ('s, 'w, 'd, 'n) sync_env =
  sy_db :: "'d store"
  sy_storage :: "('s, 'w) provider"
  sy_digest :: "string \<Rightarrow> string option" \<comment> \<open>\<open>godigest.Parse\<close>\<close>
  sy_json :: "bytes \<Rightarrow> json option"
  sy_do :: "client_request \<Rightarrow> 'n \<Rightarrow> response res \<times> 'n"
  sy_policy :: "(sync_job \<Rightarrow> peer \<Rightarrow> bool res) option"
  sy_peers :: "peer list"

record ('s, 'd, 'n) sync_world =
  sw_st :: 's
  sw_db :: 'd
  sw_net :: 'n

subsection \<open>The queue\<close>

definition queue_cap :: nat where
  "queue_cap = 1000"

definition EnqueuePush :: "string \<Rightarrow> string \<Rightarrow> string \<Rightarrow> string \<Rightarrow> sync_job list \<Rightarrow> sync_job list" where
  "EnqueuePush namespace repo ref digest q =
     (if length q < queue_cap
      then q @ [\<lparr>sj_namespace = namespace, sj_repository = repo, sj_reference = ref, sj_digest = digest\<rparr>]
      else q)"

subsection \<open>Requests to a peer\<close>

definition base_url :: "peer \<Rightarrow> string \<Rightarrow> string" where
  "base_url p repo = TrimSuffix (pe_endpoint p) ''/'' @ ''/v2/'' @ repo"

definition bare_request :: "string \<Rightarrow> string \<Rightarrow> peer \<Rightarrow> client_request" where
  "bare_request m url p = \<lparr>cr_method = m, cr_url = url, cr_token = pe_token p, cr_type = [], cr_length = 0, cr_body = ([], EOF)\<rparr>"

definition blobExistsOnPeer ::
  "('s, 'w, 'd, 'n) sync_env \<Rightarrow> string \<Rightarrow> string \<Rightarrow> peer \<Rightarrow> 'n \<Rightarrow> bool res \<times> 'n" where
  "blobExistsOnPeer M blobDigest repo p n =
     (case sy_do M (bare_request ''HEAD'' (base_url p repo @ ''/blobs/'' @ blobDigest) p) n of
        (Inl e, n') \<Rightarrow> (Inl e, n')
      | (Inr resp, n') \<Rightarrow>
          ((if rs_status resp = 200 then Inr True
            else if rs_status resp = 404 then Inr False
            else Inl (ErrText (''unexpected status code: '' @ FormatInt (int (rs_status resp))))), n'))"

definition initiateUpload ::
  "('s, 'w, 'd, 'n) sync_env \<Rightarrow> string \<Rightarrow> peer \<Rightarrow> 'n \<Rightarrow> string res \<times> 'n" where
  "initiateUpload M repo p n =
     (case sy_do M (bare_request ''POST'' (base_url p repo @ ''/blobs/uploads/'') p) n of
        (Inl e, n') \<Rightarrow> (Inl (WrapErr ''initiate upload request'' e), n')
      | (Inr resp, n') \<Rightarrow>
          ((if rs_status resp \<noteq> 202
            then Inl (ErrText (''initiate upload failed with status '' @ FormatInt (int (rs_status resp))))
            else (let uploadURL = (case header_of resp ''Location'' of None \<Rightarrow> [] | Some u \<Rightarrow> u) in
                  if uploadURL = [] then Inl (ErrText ''no Location header in upload initiation response'')
                  else if HasPrefix uploadURL ''/'' then Inr (TrimSuffix (pe_endpoint p) ''/'' @ uploadURL)
                  else Inr uploadURL)), n'))"

definition uploadBlobToPeer ::
  "('s, 'w, 'd, 'n) sync_env \<Rightarrow> stream \<Rightarrow> string \<Rightarrow> int \<Rightarrow> string \<Rightarrow> peer \<Rightarrow> 'n \<Rightarrow> unit res \<times> 'n" where
  "uploadBlobToPeer M rd blobDigest sz repo p n =
     (case initiateUpload M repo p n of
        (Inl e, n1) \<Rightarrow> (Inl (WrapErr ''initiate upload'' e), n1)
      | (Inr uploadURL, n1) \<Rightarrow>
          (let url = uploadURL @ (if Contains uploadURL ''?'' then ''&'' else ''?'') @ ''digest='' @ blobDigest in
           case sy_do M \<lparr>cr_method = ''PUT'', cr_url = url, cr_token = pe_token p,
                  cr_type = ''application/octet-stream'', cr_length = sz, cr_body = rd\<rparr> n1 of
             (Inl e, n2) \<Rightarrow> (Inl (WrapErr ''upload request'' e), n2)
           | (Inr resp, n2) \<Rightarrow>
               ((if rs_status resp \<noteq> 201 \<and> rs_status resp \<noteq> 202
                 then Inl (ErrText (''upload failed with status '' @ FormatInt (int (rs_status resp)))) else Inr ()), n2)))"

definition manifest_request :: "string \<Rightarrow> string \<Rightarrow> bytes \<Rightarrow> string \<Rightarrow> peer \<Rightarrow> client_request" where
  "manifest_request repo reference manifest mediaType p =
     \<lparr>cr_method = ''PUT'', cr_url = base_url p repo @ ''/manifests/'' @ reference, cr_token = pe_token p,
      cr_type = mediaType, cr_length = int (length manifest), cr_body = ([manifest], EOF)\<rparr>"

definition pushManifestToPeer ::
  "('s, 'w, 'd, 'n) sync_env \<Rightarrow> string \<Rightarrow> string \<Rightarrow> bytes \<Rightarrow> string \<Rightarrow> peer \<Rightarrow> 'n \<Rightarrow> unit res \<times> 'n" where
  "pushManifestToPeer M repo reference manifest mediaType p n =
     (case sy_do M (manifest_request repo reference manifest mediaType p) n of
        (Inl e, n') \<Rightarrow> (Inl (WrapErr ''push manifest request'' e), n')
      | (Inr resp, n') \<Rightarrow>
          ((if rs_status resp \<noteq> 201 \<and> rs_status resp \<noteq> 200
            then Inl (ErrText (''push manifest failed with status '' @ FormatInt (int (rs_status resp)))) else Inr ()), n'))"

subsection \<open>The transfer of an image\<close>

definition digest_field :: "json \<Rightarrow> string option" where
  "digest_field j = Option.bind (as_obj j) (\<lambda>kvs. str_field kvs ''digest'')"

text \<open>The digests of an array of descriptors; entries without one are skipped.\<close>

definition digests_at :: "(string \<times> json) list \<Rightarrow> string \<Rightarrow> string list" where
  "digests_at mf k = (case Option.bind (obj_get mf k) as_arr of None \<Rightarrow> [] | Some xs \<Rightarrow> List.map_filter digest_field xs)"

definition parseManifestLayers ::
  "('s, 'w, 'd, 'n) sync_env \<Rightarrow> bytes \<Rightarrow> string \<Rightarrow> (string list \<times> string) res" where
  "parseManifestLayers M manifestData mediaType =
     (case manifest_fields (sy_json M manifestData) of
        None \<Rightarrow> Inl (ErrText ''unmarshal manifest'')
      | Some mf \<Rightarrow>
          Inr (if Contains mediaType ''manifest.v2'' \<or> Contains mediaType ''oci.image.manifest''
               then (digests_at mf ''layers'',
                     (case Option.bind (obj_get mf ''config'') digest_field of None \<Rightarrow> [] | Some d \<Rightarrow> d))
               else if Contains mediaType ''manifest.list'' \<or> Contains mediaType ''oci.image.index''
               then (digests_at mf ''manifests'', [])
               else ([], [])))"

definition syncBlob ::
  "('s, 'w, 'd, 'n) sync_env \<Rightarrow> string \<Rightarrow> string \<Rightarrow> peer \<Rightarrow> 's \<Rightarrow> 'n \<Rightarrow> unit res \<times> 'n" where
  "syncBlob M blobDigest repo p s n =
     (case sy_digest M blobDigest of
        None \<Rightarrow> (Inl (ErrText ''invalid blob digest''), n)
      | Some dg \<Rightarrow>
          (case blobExistsOnPeer M dg repo p n of
             (r, n1) \<Rightarrow>
               (if r = Inr True then (Inr (), n1)
                else (case pv_Reader (sy_storage M) (BlobPath repo dg) 0 s of
                        Inl e \<Rightarrow> (Inl (WrapErr ''read local blob'' e), n1)
                      | Inr rd \<Rightarrow>
                          (case pv_Stat (sy_storage M) (BlobPath repo dg) s of
                             Inl e \<Rightarrow> (Inl (WrapErr ''stat blob'' e), n1)
                           | Inr sz \<Rightarrow>
                               (case uploadBlobToPeer M (rd_stream rd) dg sz repo p n1 of
                                  (Inl e, n2) \<Rightarrow> (Inl (WrapErr ''upload blob to peer'' e), n2)
                                | (Inr _, n2) \<Rightarrow> (Inr (), n2)))))))"

fun syncBlobs ::
  "('s, 'w, 'd, 'n) sync_env \<Rightarrow> string list \<Rightarrow> string \<Rightarrow> peer \<Rightarrow> 's \<Rightarrow> 'n \<Rightarrow> unit res \<times> 'n" where
  "syncBlobs M [] repo p s n = (Inr (), n)"
| "syncBlobs M (d # ds) repo p s n =
     (if d = [] then syncBlobs M ds repo p s n
      else (case syncBlob M d repo p s n of
              (Inl e, n') \<Rightarrow> (Inl (WrapErr (''sync blob '' @ d) e), n')
            | (Inr _, n') \<Rightarrow> syncBlobs M ds repo p s n'))"

definition performSync ::
  "('s, 'w, 'd, 'n) sync_env \<Rightarrow> sync_job \<Rightarrow> peer \<Rightarrow> ('s, 'd, 'n) sync_world \<Rightarrow> unit res \<times> ('s, 'd, 'n) sync_world" where
  "performSync M job p w =
     (let repo = sj_repository job in
      case st_GetManifest (sy_db M) repo (sj_digest job) (sw_db w) of
        (Inl e, d) \<Rightarrow> (Inl (WrapErr ''fetch local manifest'' (WrapErr ''db.GetManifest'' e)), w\<lparr>sw_db := d\<rparr>)
      | (Inr (mediaType, _, manifest), d) \<Rightarrow>
          (case parseManifestLayers M manifest mediaType of
             Inl e \<Rightarrow> (Inl (WrapErr ''parse manifest layers'' e), w\<lparr>sw_db := d\<rparr>)
           | Inr (layerDigests, configDigest) \<Rightarrow>
               (case syncBlobs M (configDigest # layerDigests) repo p (sw_st w) (sw_net w) of
                  (Inl e, n) \<Rightarrow> (Inl e, w\<lparr>sw_db := d, sw_net := n\<rparr>)
                | (Inr _, n) \<Rightarrow>
                    (case pushManifestToPeer M repo (sj_reference job) manifest mediaType p n of
                       (Inl e, n') \<Rightarrow> (Inl (WrapErr ''push manifest to peer'' e), w\<lparr>sw_db := d, sw_net := n'\<rparr>)
                     | (Inr _, n') \<Rightarrow> (Inr (), w\<lparr>sw_db := d, sw_net := n'\<rparr>)))))"

subsection \<open>Retries\<close>

definition maxRetries :: nat where
  "maxRetries = 3"

text \<open>The loop from an attempt on, with the error of the last one; \<open>cancelled\<close> says whether the manager is stopped
  during the wait before an attempt. The second component of the result are the seconds waited.\<close>

function sync_from ::
  "('s, 'w, 'd, 'n) sync_env \<Rightarrow> (nat \<Rightarrow> bool) \<Rightarrow> sync_job \<Rightarrow> peer \<Rightarrow> nat \<Rightarrow> err \<Rightarrow> ('s, 'd, 'n) sync_world \<Rightarrow>
   (unit res \<times> nat list) \<times> ('s, 'd, 'n) sync_world" where
  "sync_from M cancelled job p attempt lastErr w =
     (if maxRetries < attempt
      then ((Inl (WrapErr (''sync failed after '' @ FormatInt (int maxRetries) @ '' attempts'') lastErr), []), w)
      else if 1 < attempt \<and> cancelled attempt then ((Inl (ErrText ''sync cancelled during backoff''), []), w)
      else (let wait = (if 1 < attempt then [2 ^ attempt] else []) in
            case performSync M job p w of
              (Inr _, w') \<Rightarrow> ((Inr (), wait), w')
            | (Inl e, w') \<Rightarrow>
                (case sync_from M cancelled job p (attempt + 1) e w' of ((r, ds), w'') \<Rightarrow> ((r, wait @ ds), w''))))"
  by pat_completeness auto
termination
  by (relation "measure (\<lambda>(_, _, _, _, attempt, _). Suc maxRetries - attempt)") (auto simp: maxRetries_def)

declare sync_from.simps [simp del]

definition syncImageToPeer ::
  "('s, 'w, 'd, 'n) sync_env \<Rightarrow> (nat \<Rightarrow> bool) \<Rightarrow> sync_job \<Rightarrow> peer \<Rightarrow> ('s, 'd, 'n) sync_world \<Rightarrow>
   (unit res \<times> nat list) \<times> ('s, 'd, 'n) sync_world" where
  "syncImageToPeer M cancelled job p w = sync_from M cancelled job p 1 (ErrText []) w"

subsection \<open>Jobs\<close>

definition updateMetrics :: "bool \<Rightarrow> int \<Rightarrow> int \<Rightarrow> sync_metrics \<Rightarrow> sync_metrics" where
  "updateMetrics success duration at m =
     \<lparr>sm_total = wrap64 (sm_total m + 1),
      sm_successful = (if success then wrap64 (sm_successful m + 1) else sm_successful m),
      sm_failed = (if success then sm_failed m else wrap64 (sm_failed m + 1)),
      sm_last = at,
      sm_latency = (if sm_latency m = 0 then duration
                    else (let t = wrap64 (sm_latency m + duration) in if 0 \<le> t then t div 2 else - (- t div 2)))\<rparr>"

definition allowed_peer :: "('s, 'w, 'd, 'n) sync_env \<Rightarrow> sync_job \<Rightarrow> peer \<Rightarrow> bool" where
  "allowed_peer M job p \<longleftrightarrow>
     (pe_mode p = ''push'' \<or> pe_mode p = ''bidirectional'') \<and>
     (case sy_policy M of None \<Rightarrow> True | Some f \<Rightarrow> (case f job p of Inl _ \<Rightarrow> False | Inr b \<Rightarrow> b))"

text \<open>\<open>clock\<close> gives the duration of each transfer and the time after it.\<close>

fun sync_peers ::
  "('s, 'w, 'd, 'n) sync_env \<Rightarrow> (nat \<Rightarrow> bool) \<Rightarrow> (peer \<Rightarrow> int \<times> int) \<Rightarrow> sync_job \<Rightarrow> peer list \<Rightarrow>
   sync_metrics \<times> ('s, 'd, 'n) sync_world \<Rightarrow> sync_metrics \<times> ('s, 'd, 'n) sync_world" where
  "sync_peers M cancelled clock job [] st = st"
| "sync_peers M cancelled clock job (p # ps) (m, w) =
     (if allowed_peer M job p
      then (case syncImageToPeer M cancelled job p w of
              ((r, _), w') \<Rightarrow> sync_peers M cancelled clock job ps (updateMetrics (is_ok r) (fst (clock p)) (snd (clock p)) m, w'))
      else sync_peers M cancelled clock job ps (m, w))"

definition processJob ::
  "('s, 'w, 'd, 'n) sync_env \<Rightarrow> (nat \<Rightarrow> bool) \<Rightarrow> (peer \<Rightarrow> int \<times> int) \<Rightarrow> sync_job \<Rightarrow>
   sync_metrics \<times> ('s, 'd, 'n) sync_world \<Rightarrow> sync_metrics \<times> ('s, 'd, 'n) sync_world" where
  "processJob M cancelled clock job st = sync_peers M cancelled clock job (sy_peers M) st"

subsection \<open>What a peer has been asked\<close>

text \<open>A client that keeps the history of its requests and their answers; what a peer answers may depend on all of it.\<close>

type_synonym history = "(client_request \<times> response res) list"

definition logged ::
  "(history \<Rightarrow> client_request \<Rightarrow> response res) \<Rightarrow> ('s, 'w, 'd, history) sync_env \<Rightarrow> ('s, 'w, 'd, history) sync_env" where
  "logged ans M = M\<lparr>sy_do := (\<lambda>q h. (ans h q, h @ [(q, ans h q)]))\<rparr>"

lemma logged_simps [simp]:
  "sy_do (logged ans M) q h = (ans h q, h @ [(q, ans h q)])" "sy_db (logged ans M) = sy_db M"
  "sy_storage (logged ans M) = sy_storage M" "sy_digest (logged ans M) = sy_digest M" "sy_json (logged ans M) = sy_json M"
  by (simp_all add: logged_def)

text \<open>The peer has the blob \<open>d\<close>: it said so, or it has accepted the content of the local one.\<close>

definition confirmed :: "('s, 'w, 'd, history) sync_env \<Rightarrow> peer \<Rightarrow> string \<Rightarrow> 's \<Rightarrow> history \<Rightarrow> string \<Rightarrow> bool" where
  "confirmed M p repo s h d \<longleftrightarrow>
     (\<exists>dg. sy_digest M d = Some dg \<and>
        ((\<exists>resp. (bare_request ''HEAD'' (base_url p repo @ ''/blobs/'' @ dg) p, Inr resp) \<in> set h \<and> rs_status resp = 200) \<or>
         (\<exists>q resp rd u. (q, Inr resp) \<in> set h \<and> cr_method q = ''PUT'' \<and> cr_url q = u @ ''digest='' @ dg \<and> rs_status resp \<in> {201, 202} \<and>
            pv_Reader (sy_storage M) (BlobPath repo dg) 0 s = Inr rd \<and> cr_body q = rd_stream rd)))"

lemma confirmed_mono: "confirmed M p repo s h d \<Longrightarrow> set h \<subseteq> set h' \<Longrightarrow> confirmed M p repo s h' d"
  unfolding confirmed_def by blast

text \<open>The requests about blobs; the history extended by such requests.\<close>

definition blob_request :: "peer \<Rightarrow> client_request \<Rightarrow> bool" where
  "blob_request p q \<longleftrightarrow> cr_token q = pe_token p \<and>
     (cr_method q = ''HEAD'' \<or> cr_method q = ''POST'' \<or> cr_method q = ''PUT'' \<and> cr_type q = ''application/octet-stream'')"

definition extends :: "peer \<Rightarrow> history \<Rightarrow> history \<Rightarrow> history \<Rightarrow> bool" where
  "extends p h new h' \<longleftrightarrow> h' = h @ new \<and> (\<forall>x \<in> set new. blob_request p (fst x))"

lemma initiateUpload_log:
  "\<exists>new. extends p h new (snd (initiateUpload (logged ans M) repo p h))"
  by (auto simp: initiateUpload_def extends_def blob_request_def bare_request_def split: sum.splits)

lemma uploadBlobToPeer_log:
  assumes "uploadBlobToPeer (logged ans M) rd dg sz repo p h = (r, h')"
  shows "\<exists>new. extends p h new h' \<and>
    (is_ok r \<longrightarrow> (\<exists>q resp u. (q, Inr resp) \<in> set new \<and> cr_method q = ''PUT'' \<and> cr_url q = u @ ''digest='' @ dg \<and>
       rs_status resp \<in> {201, 202} \<and> cr_body q = rd))"
proof (cases "initiateUpload (logged ans M) repo p h")
  case (Pair ir h1)
  obtain n1 where n1: "extends p h n1 h1" using initiateUpload_log [of p h ans M repo] Pair by auto
  show ?thesis
  proof (cases ir)
    case (Inl e)
    then show ?thesis using assms Pair n1 by (auto simp: uploadBlobToPeer_def)
  next
    case (Inr url)
    let ?q = "\<lparr>cr_method = ''PUT'', cr_url = url @ (if Contains url ''?'' then ''&'' else ''?'') @ ''digest='' @ dg, cr_token = pe_token p,
      cr_type = ''application/octet-stream'', cr_length = sz, cr_body = rd\<rparr>"
    have "extends p h (n1 @ [(?q, ans h1 ?q)]) h'" and "is_ok r \<longrightarrow> (\<exists>resp. ans h1 ?q = Inr resp \<and> rs_status resp \<in> {201, 202})"
      using assms Pair n1 Inr by (auto simp: uploadBlobToPeer_def extends_def blob_request_def Let_def split: sum.splits if_splits)
    moreover have "cr_url ?q = (url @ (if Contains url ''?'' then ''&'' else ''?'')) @ ''digest='' @ dg" by simp
    ultimately show ?thesis
      by (intro exI [of _ "n1 @ [(?q, ans h1 ?q)]"] conjI impI)
        (assumption, elim impE, assumption, rule exI [of _ ?q], fastforce)
  qed
qed

lemma syncBlob_log:
  assumes "syncBlob (logged ans M) d repo p s h = (r, h')"
  shows "\<exists>new. extends p h new h' \<and> (is_ok r \<longrightarrow> confirmed M p repo s new d)"
proof (cases "sy_digest M d")
  case None
  then show ?thesis using assms by (auto simp: syncBlob_def extends_def)
next
  case (Some dg)
  let ?q = "bare_request ''HEAD'' (base_url p repo @ ''/blobs/'' @ dg) p"
  obtain er h1 where e: "blobExistsOnPeer (logged ans M) dg repo p h = (er, h1)" by force
  then have h1: "extends p h [(?q, ans h ?q)] h1" "er = Inr True \<Longrightarrow> \<exists>resp. ans h ?q = Inr resp \<and> rs_status resp = 200"
    by (auto simp: blobExistsOnPeer_def extends_def blob_request_def bare_request_def split: sum.splits if_splits)
  show ?thesis
  proof (cases "er = Inr True")
    case True
    then have "r = Inr ()" "h' = h1" using assms Some e by (auto simp: syncBlob_def)
    moreover have "confirmed M p repo s [(?q, ans h ?q)] d" using h1(2) [OF True] Some by (auto simp: confirmed_def)
    ultimately show ?thesis using h1(1) by blast
  next
    case False
    consider (local) "h' = h1" "\<not> is_ok r"
      | (up) rd sz ur where "pv_Reader (sy_storage M) (BlobPath repo dg) 0 s = Inr rd"
          "uploadBlobToPeer (logged ans M) (rd_stream rd) dg sz repo p h1 = (ur, h')" "is_ok r \<longleftrightarrow> is_ok ur"
      using assms Some e False by (auto simp: syncBlob_def split: sum.splits prod.splits)
    then show ?thesis
    proof cases
      case local
      then show ?thesis using h1(1) by auto
    next
      case up
      from uploadBlobToPeer_log [OF up(2)] obtain new where new: "extends p h1 new h'"
        "is_ok r \<longrightarrow> (\<exists>q resp u. (q, Inr resp) \<in> set new \<and> cr_method q = ''PUT'' \<and> cr_url q = u @ ''digest='' @ dg \<and>
           rs_status resp \<in> {201, 202} \<and> cr_body q = rd_stream rd)" unfolding up(3) by blast
      have "extends p h ((?q, ans h ?q) # new) h'" using h1(1) new(1) by (auto simp: extends_def)
      moreover have "is_ok r \<longrightarrow> confirmed M p repo s ((?q, ans h ?q) # new) d"
        using new(2) Some up(1) unfolding confirmed_def by (meson list.set_intros(2))
      ultimately show ?thesis by blast
    qed
  qed
qed

lemma syncBlobs_log:
  assumes "syncBlobs (logged ans M) ds repo p s h = (r, h')"
  shows "\<exists>new. extends p h new h' \<and> (is_ok r \<longrightarrow> (\<forall>d \<in> set ds. d \<noteq> [] \<longrightarrow> confirmed M p repo s new d))"
  using assms
proof (induction ds arbitrary: h)
  case (Cons d ds)
  show ?case
  proof (cases "d = []")
    case False
    obtain br h1 where b: "syncBlob (logged ans M) d repo p s h = (br, h1)" by force
    obtain n1 where n1: "extends p h n1 h1" "is_ok br \<longrightarrow> confirmed M p repo s n1 d" using syncBlob_log [OF b] by blast
    show ?thesis
    proof (cases br)
      case (Inl e)
      then show ?thesis using Cons.prems b n1(1) False by auto
    next
      case (Inr u)
      then have "syncBlobs (logged ans M) ds repo p s h1 = (r, h')" using Cons.prems b False by simp
      from Cons.IH [OF this] obtain n2 where n2: "extends p h1 n2 h'"
        "is_ok r \<longrightarrow> (\<forall>d \<in> set ds. d \<noteq> [] \<longrightarrow> confirmed M p repo s n2 d)" by blast
      have "confirmed M p repo s (n1 @ n2) d" using n1(2) Inr confirmed_mono by fastforce
      moreover have "\<forall>d \<in> set ds. d \<noteq> [] \<longrightarrow> confirmed M p repo s n2 d \<longrightarrow> confirmed M p repo s (n1 @ n2) d"
        using confirmed_mono by fastforce
      moreover have "extends p h (n1 @ n2) h'" using n1(1) n2(1) by (auto simp: extends_def)
      ultimately show ?thesis using n2(2) by (intro exI [of _ "n1 @ n2"]) auto
    qed
  qed (use Cons in simp)
qed (auto simp: extends_def)

subsection \<open>Properties\<close>

text \<open>Every entry of the history is an answer of the peer.\<close>

definition answered :: "(history \<Rightarrow> client_request \<Rightarrow> response res) \<Rightarrow> history \<Rightarrow> bool" where
  "answered ans h \<longleftrightarrow> (\<forall>z \<in> set h. \<exists>h'. snd z = ans h' (fst z))"

lemma answered_do: "answered ans h \<Longrightarrow> ans h q = a \<Longrightarrow> answered ans (h @ [(q, a)])"
  by (auto simp: answered_def)

lemma blobExistsOnPeer_answers: "blobExistsOnPeer (logged ans M) dg repo p h = (r, h') \<Longrightarrow> answered ans h \<Longrightarrow> answered ans h'"
  by (auto simp: blobExistsOnPeer_def split: sum.splits intro: answered_do)

lemma initiateUpload_answers: "initiateUpload (logged ans M) repo p h = (r, h') \<Longrightarrow> answered ans h \<Longrightarrow> answered ans h'"
  by (auto simp: initiateUpload_def split: sum.splits intro: answered_do)

lemma uploadBlobToPeer_answers:
  "uploadBlobToPeer (logged ans M) rd dg sz repo p h = (r, h') \<Longrightarrow> answered ans h \<Longrightarrow> answered ans h'"
  by (auto simp: uploadBlobToPeer_def Let_def dest!: initiateUpload_answers split: sum.splits prod.splits intro: answered_do)

lemma syncBlob_answers: "syncBlob (logged ans M) d repo p s h = (r, h') \<Longrightarrow> answered ans h \<Longrightarrow> answered ans h'"
  by (auto simp: syncBlob_def dest!: blobExistsOnPeer_answers uploadBlobToPeer_answers
      split: sum.splits option.splits prod.splits if_splits)

lemma syncBlobs_answers:
  "syncBlobs (logged ans M) ds repo p s h = (r, h') \<Longrightarrow> answered ans h \<Longrightarrow> answered ans h'"
proof (induction ds arbitrary: h)
  case (Cons d ds)
  then show ?case by (auto split: if_splits sum.splits prod.splits dest: syncBlob_answers)
qed simp


lemma performSync_logged:
  assumes f: "performSync (logged ans M) job p w = (r, w')"
  obtains (early) "sw_net w' = sw_net w" "sw_st w' = sw_st w" "\<not> is_ok r"
    | (go) mt dg man d layers config br h where
        "st_GetManifest (sy_db M) (sj_repository job) (sj_digest job) (sw_db w) = (Inr (mt, dg, man), d)"
        "parseManifestLayers M man mt = Inr (layers, config)"
        "syncBlobs (logged ans M) (config # layers) (sj_repository job) p (sw_st w) (sw_net w) = (br, h)" "sw_st w' = sw_st w"
        "if is_ok br then (\<exists>pr. pushManifestToPeer (logged ans M) (sj_repository job) (sj_reference job) man mt p h = (pr, sw_net w') \<and> is_ok r = is_ok pr)
         else sw_net w' = h \<and> \<not> is_ok r"
proof -
  have pm: "parseManifestLayers (logged ans M) = parseManifestLayers M" by (simp add: parseManifestLayers_def fun_eq_iff)
  show thesis
  proof (cases "\<exists>mt dg man d. st_GetManifest (sy_db M) (sj_repository job) (sj_digest job) (sw_db w) = (Inr (mt, dg, man), d) \<and> is_ok (parseManifestLayers M man mt)")
    case False
    then have "sw_net w' = sw_net w" "sw_st w' = sw_st w" "\<not> is_ok r" using f
      by (auto simp: performSync_def pm Let_def split: prod.splits sum.splits)
    then show ?thesis by (rule early)
  next
    case True
    then obtain mt dg man d layers config where g: "st_GetManifest (sy_db M) (sj_repository job) (sj_digest job) (sw_db w) = (Inr (mt, dg, man), d)"
      and l: "parseManifestLayers M man mt = Inr (layers, config)" by (auto simp: is_ok_iff)
    obtain br h where b: "syncBlobs (logged ans M) (config # layers) (sj_repository job) p (sw_st w) (sw_net w) = (br, h)" by force
    obtain pr h2 where q: "pushManifestToPeer (logged ans M) (sj_repository job) (sj_reference job) man mt p h = (pr, h2)" by force
    show ?thesis
    proof (cases br)
      case (Inl e)
      then have "r = Inl e" "w' = w\<lparr>sw_db := d, sw_net := h\<rparr>"
        using f unfolding performSync_def Let_def logged_simps g prod.case sum.case pm l b Inl by simp_all
      then show ?thesis using go [OF g l b] Inl by simp
    next
      case (Inr u)
      then have "is_ok r = is_ok pr" "w' = w\<lparr>sw_db := d, sw_net := h2\<rparr>"
        using f unfolding performSync_def Let_def logged_simps g prod.case sum.case pm l b Inr q by (auto split: sum.splits)
      then show ?thesis using go [OF g l b] Inr q by simp
    qed
  qed
qed

lemma performSync_history:
  assumes "performSync (logged ans M) job p w = (r, w')"
  shows "\<exists>blobs last. sw_net w' = sw_net w @ blobs @ last \<and> (\<forall>x \<in> set blobs. blob_request p (fst x)) \<and> sw_st w' = sw_st w \<and>
    (last = [] \<and> \<not> is_ok r \<or>
     (\<exists>mt dg man d layers config a.
        st_GetManifest (sy_db M) (sj_repository job) (sj_digest job) (sw_db w) = (Inr (mt, dg, man), d) \<and>
        parseManifestLayers M man mt = Inr (layers, config) \<and>
        last = [(manifest_request (sj_repository job) (sj_reference job) man mt p, a)] \<and>
        (\<forall>x \<in> set (config # layers). x \<noteq> [] \<longrightarrow> confirmed M p (sj_repository job) (sw_st w) blobs x) \<and>
        (is_ok r \<longleftrightarrow> (\<exists>resp. a = Inr resp \<and> rs_status resp \<in> {200, 201}))))"
  using assms
proof (cases rule: performSync_logged)
  case early
  then show ?thesis by (intro exI [of _ "[]"]) simp
next
  case (go mt dg man d layers config br h)
  let ?repo = "sj_repository job"
  obtain new where new: "extends p (sw_net w) new h" "is_ok br \<longrightarrow> (\<forall>x \<in> set (config # layers). x \<noteq> [] \<longrightarrow> confirmed M p ?repo (sw_st w) new x)"
    using syncBlobs_log [OF go(3)] by blast
  show ?thesis
  proof (cases "is_ok br")
    case False
    then show ?thesis using new(1) go by (intro exI [of _ new] exI [of _ "[]"]) (simp add: extends_def)
  next
    case True
    let ?q = "manifest_request ?repo (sj_reference job) man mt p"
    have "sw_net w' = h @ [(?q, ans h ?q)]" "is_ok r \<longleftrightarrow> (\<exists>resp. ans h ?q = Inr resp \<and> rs_status resp \<in> {200, 201})"
      using go(5) True by (auto simp: pushManifestToPeer_def split: sum.splits if_splits)
    then show ?thesis using new True go(1,2,4)
      by (intro exI [of _ new] exI [of _ "[(?q, ans h ?q)]"]) (auto simp: extends_def)
  qed
qed

text \<open>(C18) A peer never gets a manifest before its content: whatever the peer answers, the requests of one transfer carry
  the peer's token, and the manifest is offered at most once, as the last of them, after the peer has confirmed
  every blob the manifest names, either as present or by accepting the local content. The transfer succeeds
  exactly when the peer accepts the manifest; what is stored locally does not change.\<close>

theorem performSync_order:
  assumes "performSync (logged ans M) job p w = (r, w')"
  shows "\<exists>blobs last. sw_net w' = sw_net w @ blobs @ last \<and> (\<forall>x \<in> set blobs. blob_request p (fst x)) \<and> sw_st w' = sw_st w \<and>
    (last = [] \<and> \<not> is_ok r \<or>
     (\<exists>mt dg man d layers config a.
        st_GetManifest (sy_db M) (sj_repository job) (sj_digest job) (sw_db w) = (Inr (mt, dg, man), d) \<and>
        parseManifestLayers M man mt = Inr (layers, config) \<and>
        last = [(manifest_request (sj_repository job) (sj_reference job) man mt p, a)] \<and>
        (\<forall>x \<in> set (config # layers). x \<noteq> [] \<longrightarrow> confirmed M p (sj_repository job) (sw_st w) blobs x) \<and>
        (is_ok r \<longleftrightarrow> (\<exists>resp. a = Inr resp \<and> rs_status resp \<in> {200, 201}))))"
  by (rule performSync_history [OF assms])

text \<open>An image of a configuration and a layer, and a peer that already has the configuration.\<close>

definition demo_sync :: "(mem, mem_writer, db, history) sync_env" where
  "demo_sync = \<lparr>sy_db = pg_store plain_bcrypt, sy_storage = memory_provider,
     sy_digest = (\<lambda>d. if HasPrefix d ''sha256:'' then Some d else None),
     sy_json = (\<lambda>b. if b = ''M'' then Some (JObj [(''config'', JObj [(''digest'', JStr ''sha256:c'')]),
         (''layers'', JArr [JObj [(''digest'', JStr ''sha256:l'')]])])
       else if b = ''I'' then Some (JObj [(''manifests'', JArr [JObj [(''digest'', JStr ''sha256:M'')]])]) else None),
     sy_do = (\<lambda>_ h. (Inl (ErrText ''offline''), h)), sy_policy = None, sy_peers = []\<rparr>"

definition demo_peer :: peer where
  "demo_peer = \<lparr>pe_name = ''p'', pe_endpoint = ''https://p/'', pe_token = ''t'', pe_mode = ''push''\<rparr>"

definition demo_answers :: "history \<Rightarrow> client_request \<Rightarrow> response res" where
  "demo_answers h q =
     (if cr_method q = ''HEAD'' then Inr (reply (if HasSuffix (cr_url q) ''sha256:c'' then 200 else 404) [] NoBody)
      else if cr_method q = ''POST'' then Inr (reply 202 [(''Location'', ''/v2/lib/app/blobs/uploads/1'')] NoBody)
      else Inr (reply 201 [] NoBody))"

definition demo_job :: "string \<Rightarrow> sync_job" where
  "demo_job dg = \<lparr>sj_namespace = ''lib'', sj_repository = ''lib/app'', sj_reference = ''v1'', sj_digest = dg\<rparr>"

definition sync_start :: "(mem, db, history) sync_world" where
  "sync_start = \<lparr>sw_st = [BlobPath ''lib/app'' ''sha256:l'' \<mapsto> ''layer''],
     sw_db = snd (pg_PutManifest ''lib/app'' ''v2'' ''application/vnd.oci.image.index.v1+json'' ''sha256:I'' ''I''
       (snd (pg_PutManifest ''lib/app'' ''v1'' ''application/vnd.oci.image.manifest.v1+json'' ''sha256:M'' ''M'' empty_db))),
     sw_net = []\<rparr>"

lemma demo_performs:
  "is_ok (fst (performSync (logged demo_answers demo_sync) (demo_job ''sha256:M'') demo_peer sync_start))"
  by code_simp

theorem performSync_order_witness:
  "\<exists>blobs. confirmed demo_sync demo_peer ''lib/app'' (sw_st sync_start) blobs ''sha256:l'' \<and>
     confirmed demo_sync demo_peer ''lib/app'' (sw_st sync_start) blobs ''sha256:c''"
proof -
  let ?r = "performSync (logged demo_answers demo_sync) (demo_job ''sha256:M'') demo_peer sync_start"
  have g: "st_GetManifest (sy_db demo_sync) ''lib/app'' ''sha256:M'' (sw_db sync_start) =
      (Inr (''application/vnd.oci.image.manifest.v1+json'', ''sha256:M'', ''M''), sw_db sync_start)" by code_simp
  have l: "parseManifestLayers demo_sync ''M'' ''application/vnd.oci.image.manifest.v1+json'' = Inr ([''sha256:l''], ''sha256:c'')"
    by code_simp
  from performSync_order [of demo_answers demo_sync "demo_job ''sha256:M''" demo_peer sync_start "fst ?r" "snd ?r"] demo_performs
  show ?thesis by (auto simp: demo_job_def g l)
qed

text \<open>Multi-architecture images do not reach a peer: for an image index the transfer treats the manifests it
  lists as blobs, but the registry keeps manifests in its database; as long as the peer does not itself report a blob of
  that digest, every attempt fails and the index is never offered.\<close>

theorem sync_index_fails:
  assumes "st_GetManifest (sy_db M) (sj_repository job) (sj_digest job) (sw_db w) = (Inr (mt, dg, man), d)"
    and "manifest_fields (sy_json M man) = Some mf" "Contains mt ''manifest.list'' \<or> Contains mt ''oci.image.index''"
    and "\<not> Contains mt ''manifest.v2'' \<and> \<not> Contains mt ''oci.image.manifest''"
    and "x \<in> set (digests_at mf ''manifests'')" "x \<noteq> []" "sy_digest M x = Some y"
    and "pv_Reader (sy_storage M) (BlobPath (sj_repository job) y) 0 (sw_st w) = Inl StorageNotFound"
    and "\<And>h resp. ans h (bare_request ''HEAD'' (base_url p (sj_repository job) @ ''/blobs/'' @ y) p) = Inr resp \<Longrightarrow> rs_status resp \<noteq> 200"
    and "sw_net w = []" "performSync (logged ans M) job p w = (r, w')"
  shows "\<not> is_ok r \<and> (\<forall>z \<in> set (sw_net w'). blob_request p (fst z))"
proof -
  let ?q = "bare_request ''HEAD'' (base_url p (sj_repository job) @ ''/blobs/'' @ y) p"
  have l: "parseManifestLayers M man mt = Inr (digests_at mf ''manifests'', [])"
    using assms(2-4) by (auto simp: parseManifestLayers_def)
  show ?thesis using assms(11)
  proof (cases rule: performSync_logged)
    case early
    then show ?thesis using assms(10) by simp
  next
    case (go mt' dg' man' d' layers config br h)
    then have eq: "mt' = mt" "man' = man" "layers = digests_at mf ''manifests''" using assms(1) l by auto
    obtain new where new: "extends p [] new h" "is_ok br \<longrightarrow> (\<forall>x \<in> set (config # layers). x \<noteq> [] \<longrightarrow> confirmed M p (sj_repository job) (sw_st w) new x)"
      using syncBlobs_log [OF go(3)] assms(10) by auto
    have "\<not> is_ok br"
    proof
      assume "is_ok br"
      then have "confirmed M p (sj_repository job) (sw_st w) new x" using new(2) eq(3) assms(5,6) by auto
      then obtain resp where "(?q, Inr resp) \<in> set new" "rs_status resp = 200" using assms(7,8) by (auto simp: confirmed_def)
      moreover have "answered ans new"
        using syncBlobs_answers [OF go(3)] new(1) assms(10) by (simp add: extends_def answered_def)
      ultimately show False using assms(9) by (force simp: answered_def)
    qed
    then show ?thesis using go(5) new(1) by (simp add: extends_def)
  qed
qed

theorem sync_index_fails_witness:
  "let (r, w') = performSync (logged demo_answers demo_sync) (demo_job ''sha256:I'') demo_peer sync_start
   in \<not> is_ok r \<and> (\<forall>z \<in> set (sw_net w'). blob_request demo_peer (fst z))"
proof -
  let ?r = "performSync (logged demo_answers demo_sync) (demo_job ''sha256:I'') demo_peer sync_start"
  let ?mt = "''application/vnd.oci.image.index.v1+json''" and ?mf = "[(''manifests'', JArr [JObj [(''digest'', JStr ''sha256:M'')]])]"
  have g: "st_GetManifest (sy_db demo_sync) (sj_repository (demo_job ''sha256:I'')) (sj_digest (demo_job ''sha256:I'')) (sw_db sync_start) =
      (Inr (?mt, ''sha256:I'', ''I''), sw_db sync_start)" by code_simp
  have m: "manifest_fields (sy_json demo_sync ''I'') = Some ?mf" "Contains ?mt ''manifest.list'' \<or> Contains ?mt ''oci.image.index''"
    "\<not> Contains ?mt ''manifest.v2'' \<and> \<not> Contains ?mt ''oci.image.manifest''" "''sha256:M'' \<in> set (digests_at ?mf ''manifests'')"
    "sy_digest demo_sync ''sha256:M'' = Some ''sha256:M''"
    "pv_Reader (sy_storage demo_sync) (BlobPath (sj_repository (demo_job ''sha256:I'')) ''sha256:M'') 0 (sw_st sync_start) = Inl StorageNotFound"
    "\<not> HasSuffix (cr_url (bare_request ''HEAD'' (base_url demo_peer (sj_repository (demo_job ''sha256:I'')) @ ''/blobs/'' @ ''sha256:M'') demo_peer)) ''sha256:c''"
    by code_simp+
  have no: "rs_status resp \<noteq> 200"
    if "demo_answers h (bare_request ''HEAD'' (base_url demo_peer (sj_repository (demo_job ''sha256:I'')) @ ''/blobs/'' @ ''sha256:M'') demo_peer) = Inr resp"
    for h resp using that m(7) by (auto simp: demo_answers_def) (auto simp: bare_request_def)
  have "sw_net sync_start = []" by (simp add: sync_start_def)
  from sync_index_fails [where ans = demo_answers and p = demo_peer, OF g m(1-4) _ m(5,6) no this prod.collapse [symmetric]] show ?thesis
    by (simp add: case_prod_beta)
qed

lemma sync_from_cancelled:
  "k \<le> 3 \<Longrightarrow> 1 < k \<Longrightarrow> c k \<Longrightarrow> sync_from M c job p k e w = ((Inl (ErrText ''sync cancelled during backoff''), []), w)"
  by (subst sync_from.simps) (simp add: maxRetries_def)

lemma sync_from_step:
  assumes "k \<le> 3" "k = 1 \<or> \<not> c k"
  shows "sync_from M c job p k e w =
     (case performSync M job p w of
        (Inr _, w') \<Rightarrow> ((Inr (), if 1 < k then [2 ^ k] else []), w')
      | (Inl e, w') \<Rightarrow> (case sync_from M c job p (Suc k) e w' of ((r, ds), w'') \<Rightarrow> ((r, (if 1 < k then [2 ^ k] else []) @ ds), w'')))"
proof -
  have "\<not> maxRetries < k" "\<not> (1 < k \<and> c k)" using assms by (auto simp: maxRetries_def)
  then show ?thesis by (subst sync_from.simps) (simp only: if_False Let_def Suc_eq_plus1)
qed

lemma sync_from_end: "sync_from M c job p 4 e w = ((r, ds), w') \<Longrightarrow> \<not> is_ok r \<and> ds = []"
  by (subst (asm) sync_from.simps) (auto simp: maxRetries_def)

lemma sync_from_ok:
  assumes "k \<le> 3" "k = 1 \<or> \<not> c k" "performSync M job p w = (r, w1)"
  shows "is_ok (fst (fst (sync_from M c job p k e w))) \<longleftrightarrow>
    is_ok r \<or> is_ok (fst (fst (sync_from M c job p (Suc k) (projl r) w1)))"
  by (cases "sync_from M c job p (Suc k) (projl r) w1"; cases r)
     (auto simp: sync_from_step [where c = c, OF assms(1,2)] assms(3) split: prod.splits)

lemma sync_waits_3:
  assumes f: "sync_from M c job p 3 e v = ((r, ds), v')"
  shows "ds = [] \<or> ds = [8]"
proof (cases "c 3")
  case True
  then show ?thesis using f sync_from_cancelled [of 3 c M job p e v] by simp
next
  case False
  obtain pr v1 where p: "performSync M job p v = (pr, v1)" by force
  obtain r4 d4 v4 where 4: "sync_from M c job p 4 (projl pr) v1 = ((r4, d4), v4)" by (metis prod.exhaust)
  then have "d4 = []" using sync_from_end by blast
  then show ?thesis using f sync_from_step [of 3 c M job p e v] False p 4 by (cases pr) simp_all
qed

lemma sync_waits_2:
  assumes f: "sync_from M c job p 2 e v = ((r, ds), v')"
  shows "ds = [] \<or> ds = [4] \<or> ds = [4, 8]"
proof (cases "c 2")
  case True
  then show ?thesis using f sync_from_cancelled [of 2 c M job p e v] by simp
next
  case False
  obtain pr v1 where p: "performSync M job p v = (pr, v1)" by force
  obtain r3 d3 v3 where 3: "sync_from M c job p 3 (projl pr) v1 = ((r3, d3), v3)" by (metis prod.exhaust)
  show ?thesis using f sync_from_step [of 2 c M job p e v] False p 3 sync_waits_3 [OF 3] by (cases pr) auto
qed

lemma sync_waits_1:
  assumes f: "sync_from M c job p 1 e v = ((r, ds), v')"
  shows "prefix ds [4, 8]"
proof -
  obtain pr v1 where p: "performSync M job p v = (pr, v1)" by force
  obtain r2 d2 v2 where 2: "sync_from M c job p 2 (projl pr) v1 = ((r2, d2), v2)" by (metis prod.exhaust)
  show ?thesis using f sync_from_step [of 1 c M job p e v] p 2 sync_waits_2 [OF 2] by (cases pr) (auto simp: numeral_2_eq_2)
qed



end
