(* ===== verification/Sqlite.thy ===== *)
theory Sqlite
  imports Postgres
begin

text \<open>
  The SQLite store, \<^verbatim>\<open>internal/db/sqlite/sqlite.go\<close>, over the tables its \<^verbatim>\<open>migrate\<close>
  creates. The files under \<^verbatim>\<open>migrations/\<close> are PostgreSQL scripts and are not applied here: there is no table
  \<^verbatim>\<open>access_tokens\<close> and no column \<^verbatim>\<open>manifests.immutable\<close>, and a statement that names them fails.
  Rows are kept in insertion order and identifiers drawn from one counter, as in the PostgreSQL store.
\<close>

subsection \<open>Tables\<close>

record sq_manifest =
  sm_repo :: nat
  sm_ref :: string
  sm_media :: string
  sm_digest :: string
  sm_payload :: bytes

text \<open>A column of type \<^verbatim>\<open>BIGINT\<close> holds a 64-bit integer or, when a sum leaves that range, a
  floating-point number, here by its bits.\<close>

datatype sq_num = SqInt int | SqReal nat

record sq_quota =
  sk_ns :: nat
  sk_limit :: int
  sk_used :: sq_num

record sq_db =
  sq_namespaces :: "ns_row list"
  sq_repositories :: "repo_row list"
  sq_manifests :: "sq_manifest list"
  sq_blobs :: "blob_row list"
  sq_users :: "user_row list"
  sq_quotas :: "sq_quota list"
  sq_scans :: "scan_row list"
  sq_logins :: "login_row list"
  sq_policies :: "policy_record list"
  sq_groups :: "group list"
  sq_user_groups :: "(nat \<times> nat) list"
  sq_audits :: "audit_row list"
  sq_next :: nat
  sq_now :: int

text \<open>
  The engine and the driver: \<open>se_fk\<close> says whether the connection enforces foreign keys (off unless the DSN asks for
  it), \<open>se_sum\<close> is a sum that is not a 64-bit integer, \<open>se_stamp\<close> the text that
  \<^verbatim>\<open>CURRENT_TIMESTAMP\<close> stores for a time and \<open>se_bind\<close> the text the driver binds for one.
\<close>

record sq_env =
  se_bcrypt :: "string \<Rightarrow> string \<Rightarrow> bool"
  se_fk :: bool
  se_sum :: "sq_num \<Rightarrow> int \<Rightarrow> sq_num"
  se_stamp :: "int \<Rightarrow> string"
  se_bind :: "int \<Rightarrow> string"

definition no_such_column :: "string \<Rightarrow> err" where
  "no_such_column c = ErrText (''no such column: '' @ c)"

definition no_access_tokens :: err where
  "no_access_tokens = ErrText ''no such table: access_tokens''"

definition sq_unique :: err where
  "sq_unique = ErrText ''UNIQUE constraint failed: users.username''"

definition sq_foreign_key :: err where
  "sq_foreign_key = ErrText ''FOREIGN KEY constraint failed''"

definition scan_error :: err where
  "scan_error = ErrText ''sql: Scan error: converting driver.Value type float64 to a int64: invalid syntax''"

subsection \<open>Namespaces and repositories\<close>

definition sq_ns :: "string \<Rightarrow> sq_db \<Rightarrow> nat option" where
  "sq_ns n s = map_option ns_id (find (\<lambda>r. ns_name r = n) (sq_namespaces s))"

definition sq_repo_in :: "nat \<Rightarrow> string \<Rightarrow> sq_db \<Rightarrow> nat option" where
  "sq_repo_in nid name s = map_option rp_id (find (\<lambda>r. rp_ns r = nid \<and> rp_name r = name) (sq_repositories s))"

definition sq_ns_name :: "nat \<Rightarrow> sq_db \<Rightarrow> string option" where
  "sq_ns_name nid s = map_option ns_name (find (\<lambda>r. ns_id r = nid) (sq_namespaces s))"

definition sq_repo :: "string \<times> string \<Rightarrow> sq_db \<Rightarrow> nat option" where
  "sq_repo nr s = Option.bind (sq_ns (fst nr) s) (\<lambda>nid. sq_repo_in nid (snd nr) s)"

definition sq_CreateNamespace :: "string \<Rightarrow> sq_db \<Rightarrow> unit res \<times> sq_db" where
  "sq_CreateNamespace name s =
     (Inr (), case sq_ns name s of
        Some _ \<Rightarrow> s
      | None \<Rightarrow> s\<lparr>sq_namespaces := sq_namespaces s @ [\<lparr>ns_id = sq_next s, ns_name = name\<rparr>], sq_next := Suc (sq_next s)\<rparr>)"

definition sq_insert_repository :: "nat \<Rightarrow> string \<Rightarrow> sq_db \<Rightarrow> unit res \<times> sq_db" where
  "sq_insert_repository nid name s =
     (Inr (), case sq_repo_in nid name s of
        Some _ \<Rightarrow> s
      | None \<Rightarrow> s\<lparr>sq_repositories := sq_repositories s @ [\<lparr>rp_id = sq_next s, rp_ns = nid, rp_name = name\<rparr>],
                  sq_next := Suc (sq_next s)\<rparr>)"

definition sq_CreateRepository :: "string \<Rightarrow> string \<Rightarrow> sq_db \<Rightarrow> unit res \<times> sq_db" where
  "sq_CreateRepository namespace name s =
     (case sq_ns namespace s of
        Some nid \<Rightarrow> sq_insert_repository nid name s
      | None \<Rightarrow>
          (case sq_CreateNamespace namespace s of
             (Inl e, s') \<Rightarrow> (Inl e, s')
           | (Inr _, s') \<Rightarrow>
               sq_insert_repository (case sq_ns namespace s' of Some nid \<Rightarrow> nid | None \<Rightarrow> 0) name s'))"

definition sq_repo_pairs :: "sq_db \<Rightarrow> (string \<times> string) list" where
  "sq_repo_pairs s = List.map_filter (\<lambda>r. map_option (\<lambda>n. (n, rp_name r)) (sq_ns_name (rp_ns r) s)) (sq_repositories s)"

definition sq_ListRepositories :: "int \<Rightarrow> string \<Rightarrow> sq_db \<Rightarrow> string list res" where
  "sq_ListRepositories n lst s =
     (let (lastNs, lastRepo) = parseRepoPath lst;
          rows = (if lst = [] then sq_repo_pairs s
                  else filter (\<lambda>(a, b). lastNs < a \<or> a = lastNs \<and> lastRepo < b) (sq_repo_pairs s))
      in Inr (map repo_display (limit_rows n (sort_key fst (sort_key snd rows)))))"

subsection \<open>Manifests\<close>

definition sq_repo_manifests :: "string \<times> string \<Rightarrow> sq_db \<Rightarrow> sq_manifest list" where
  "sq_repo_manifests nr s =
     (case sq_repo nr s of None \<Rightarrow> [] | Some rid \<Rightarrow> filter (\<lambda>m. sm_repo m = rid) (sq_manifests s))"

text \<open>\<^verbatim>\<open>LIKE\<close> compares ASCII letters without their case: a reference that starts with
  \<^verbatim>\<open>SHA256:\<close> is no tag here.\<close>

definition sq_ListTags :: "string \<Rightarrow> int \<Rightarrow> string \<Rightarrow> sq_db \<Rightarrow> string list res" where
  "sq_ListTags repo n lst s =
     (let refs = map sm_ref (sq_repo_manifests (parseRepoPath repo) s);
          tags = filter (\<lambda>t. \<not> HasPrefix (ToUpper t) ''SHA256:'') refs;
          after = (if lst = [] then tags else filter (\<lambda>t. lst < t) tags)
      in Inr (limit_rows n (sort after)))"

definition sq_upsert_manifest :: "nat \<Rightarrow> string \<Rightarrow> string \<Rightarrow> string \<Rightarrow> bytes \<Rightarrow> sq_db \<Rightarrow> sq_db" where
  "sq_upsert_manifest rid ref mt d pl s =
     (if list_ex (\<lambda>m. sm_repo m = rid \<and> sm_ref m = ref) (sq_manifests s)
      then s\<lparr>sq_manifests := map (\<lambda>m. if sm_repo m = rid \<and> sm_ref m = ref
               then m\<lparr>sm_media := mt, sm_digest := d, sm_payload := pl\<rparr> else m) (sq_manifests s)\<rparr>
      else s\<lparr>sq_manifests := sq_manifests s @
               [\<lparr>sm_repo = rid, sm_ref = ref, sm_media = mt, sm_digest = d, sm_payload = pl\<rparr>]\<rparr>)"

definition sq_PutManifest ::
  "string \<Rightarrow> string \<Rightarrow> string \<Rightarrow> string \<Rightarrow> bytes \<Rightarrow> sq_db \<Rightarrow> unit res \<times> sq_db" where
  "sq_PutManifest repo ref mt d pl s =
     (let (ns, repoName) = parseRepoPath repo in
      case sq_CreateNamespace ns s of
        (Inl e, s1) \<Rightarrow> (Inl (WrapErr ''failed to create namespace'' e), s1)
      | (Inr _, s1) \<Rightarrow>
          (case sq_CreateRepository ns repoName s1 of
             (Inl e, s2) \<Rightarrow> (Inl (WrapErr ''failed to create repository'' e), s2)
           | (Inr _, s2) \<Rightarrow>
               (case sq_repo (ns, repoName) s2 of
                  None \<Rightarrow> (Inl (WrapErr ''repository not found'' (ErrText ''sql: no rows in result set'')), s2)
                | Some rid \<Rightarrow> (Inr (), sq_upsert_manifest rid ref mt d pl s2))))"

definition sq_row_matches :: "string \<Rightarrow> sq_manifest \<Rightarrow> bool" where
  "sq_row_matches ref m \<longleftrightarrow> sm_ref m = ref \<or> sm_digest m = ref"

definition sq_GetManifest :: "string \<Rightarrow> string \<Rightarrow> sq_db \<Rightarrow> manifest res \<times> sq_db" where
  "sq_GetManifest repo ref s =
     (case find (sq_row_matches ref) (sq_repo_manifests (parseRepoPath repo) s) of
        None \<Rightarrow> (Inl DbNotFound, s)
      | Some m \<Rightarrow> (Inr (sm_media m, sm_digest m, sm_payload m), s))"

text \<open>Both read \<^verbatim>\<open>m.immutable\<close> before anything else.\<close>

definition sq_DeleteManifest :: "string \<Rightarrow> string \<Rightarrow> sq_db \<Rightarrow> unit res \<times> sq_db" where
  "sq_DeleteManifest repo ref s = (Inl (no_such_column ''m.immutable''), s)"

definition sq_IsTagImmutable :: "string \<Rightarrow> string \<Rightarrow> sq_db \<Rightarrow> bool res" where
  "sq_IsTagImmutable repo ref s = Inl (no_such_column ''m.immutable'')"

definition sq_SetTagImmutable :: "string \<Rightarrow> string \<Rightarrow> bool \<Rightarrow> sq_db \<Rightarrow> unit res \<times> sq_db" where
  "sq_SetTagImmutable repo ref b s =
     (case sq_repo (parseRepoPath repo) s of
        None \<Rightarrow> (Inl DbNotFound, s)
      | Some rid \<Rightarrow> (Inl (no_such_column ''immutable''), s))"

definition sq_repo_name :: "nat \<Rightarrow> sq_db \<Rightarrow> (string \<times> string) option" where
  "sq_repo_name rid s =
     Option.bind (find (\<lambda>r. rp_id r = rid) (sq_repositories s))
       (\<lambda>r. map_option (\<lambda>n. (n, rp_name r)) (sq_ns_name (rp_ns r) s))"

definition sq_ListManifests :: "sq_db \<Rightarrow> manifest_record list res" where
  "sq_ListManifests s =
     Inr (List.map_filter (\<lambda>m. map_option (\<lambda>(n, r).
            \<lparr>mr_ns = n, mr_repo = r, mr_ref = sm_ref m, mr_digest = sm_digest m\<rparr>) (sq_repo_name (sm_repo m) s))
          (sq_manifests s))"

subsection \<open>Blobs and scan reports\<close>

definition sq_PutBlob :: "string \<Rightarrow> int \<Rightarrow> string \<Rightarrow> sq_db \<Rightarrow> unit res \<times> sq_db" where
  "sq_PutBlob d n mt s =
     (Inr (), if list_ex (\<lambda>b. bl_digest b = d) (sq_blobs s) then s
              else s\<lparr>sq_blobs := sq_blobs s @ [\<lparr>bl_digest = d, bl_size = n, bl_media = mt, bl_created = sq_now s\<rparr>]\<rparr>)"

definition sq_BlobExists :: "string \<Rightarrow> sq_db \<Rightarrow> bool res" where
  "sq_BlobExists d s = Inr (list_ex (\<lambda>b. bl_digest b = d) (sq_blobs s))"

definition sq_GetBlobSize :: "string \<Rightarrow> sq_db \<Rightarrow> int res" where
  "sq_GetBlobSize d s =
     (case find (\<lambda>b. bl_digest b = d) (sq_blobs s) of None \<Rightarrow> Inl DbNotFound | Some b \<Rightarrow> Inr (bl_size b))"

definition sq_DeleteBlob :: "string \<Rightarrow> sq_db \<Rightarrow> unit res \<times> sq_db" where
  "sq_DeleteBlob d s = (Inr (), s\<lparr>sq_blobs := filter (\<lambda>b. bl_digest b \<noteq> d) (sq_blobs s)\<rparr>)"

definition sq_ListBlobs :: "sq_db \<Rightarrow> blob_record list res" where
  "sq_ListBlobs s =
     Inr (map (\<lambda>b. \<lparr>br_digest = bl_digest b, br_size = bl_size b, br_created = bl_created b\<rparr>)
           (newest_first bl_created (sq_blobs s)))"

definition sq_SaveScanReport :: "string \<Rightarrow> string \<Rightarrow> bytes \<Rightarrow> sq_db \<Rightarrow> unit res \<times> sq_db" where
  "sq_SaveScanReport d sc dat s =
     (Inr (), if list_ex (\<lambda>r. sr_digest r = d) (sq_scans s)
              then s\<lparr>sq_scans := map (\<lambda>r. if sr_digest r = d
                       then r\<lparr>sr_scanner := sc, sr_data := dat, sr_created := sq_now s\<rparr> else r) (sq_scans s)\<rparr>
              else s\<lparr>sq_scans := sq_scans s @ [\<lparr>sr_digest = d, sr_scanner = sc, sr_data = dat, sr_created = sq_now s\<rparr>]\<rparr>)"

definition sq_GetScanReport :: "string \<Rightarrow> string \<Rightarrow> sq_db \<Rightarrow> bytes res \<times> sq_db" where
  "sq_GetScanReport d sc s =
     ((case find (\<lambda>r. sr_digest r = d \<and> sr_scanner r = sc) (sq_scans s) of
         None \<Rightarrow> Inl DbNotFound | Some r \<Rightarrow> Inr (sr_data r)), s)"

definition sq_ListScanReports :: "sq_db \<Rightarrow> scan_report list res" where
  "sq_ListScanReports s =
     Inr (map (\<lambda>r. \<lparr>sp_digest = sr_digest r, sp_scanner = sr_scanner r, sp_data = sr_data r\<rparr>)
           (take 100 (newest_first sr_created (sq_scans s))))"

subsection \<open>Users and groups\<close>

definition sq_GetUserByUsername :: "string \<Rightarrow> sq_db \<Rightarrow> user res" where
  "sq_GetUserByUsername name s =
     (case find (\<lambda>r. ur_name r = name) (sq_users s) of
        None \<Rightarrow> Inl DbNotFound | Some r \<Rightarrow> Inr (user_of_row r))"

definition sq_GetUserByToken :: "string \<Rightarrow> sq_db \<Rightarrow> user res" where
  "sq_GetUserByToken token s =
     (case find (\<lambda>r. ur_hash r = token) (sq_users s) of
        None \<Rightarrow> Inl DbNotFound | Some r \<Rightarrow> Inr (user_listed r))"

definition sq_ListUsers :: "sq_db \<Rightarrow> user list res" where
  "sq_ListUsers s = Inr (map user_listed (sort_key ur_name (sq_users s)))"

definition sq_AuthenticateUser :: "sq_env \<Rightarrow> string \<Rightarrow> string \<Rightarrow> sq_db \<Rightarrow> user res" where
  "sq_AuthenticateUser E name password s =
     (case sq_GetUserByUsername name s of
        Inl e \<Rightarrow> Inl e
      | Inr u \<Rightarrow> if se_bcrypt E (us_hash u) password then Inr u else Inl DbNotFound)"

definition sq_CreateUser :: "string \<Rightarrow> string \<Rightarrow> string list \<Rightarrow> sq_db \<Rightarrow> unit res \<times> sq_db" where
  "sq_CreateUser name hash scopes s =
     (if list_ex (\<lambda>r. ur_name r = name) (sq_users s) then (Inl sq_unique, s)
      else (Inr (), s\<lparr>sq_users := sq_users s @ [\<lparr>ur_id = sq_next s, ur_name = name, ur_hash = hash,
              ur_scopes = Join scopes CHR '',''\<rparr>], sq_next := Suc (sq_next s)\<rparr>))"

text \<open>Only \<^verbatim>\<open>user_groups\<close> references a user; the row of a member is kept back only where foreign keys
  are enforced.\<close>

definition sq_DeleteUser :: "sq_env \<Rightarrow> string \<Rightarrow> sq_db \<Rightarrow> unit res \<times> sq_db" where
  "sq_DeleteUser E name s =
     (case find (\<lambda>r. ur_name r = name) (sq_users s) of
        None \<Rightarrow> (Inl DbNotFound, s)
      | Some u \<Rightarrow>
          if se_fk E \<and> list_ex (\<lambda>(uid, gid). uid = ur_id u) (sq_user_groups s) then (Inl sq_foreign_key, s)
          else (Inr (), s\<lparr>sq_users := filter (\<lambda>r. ur_name r \<noteq> name) (sq_users s)\<rparr>))"

definition sq_UpdateUser :: "string \<Rightarrow> string list \<Rightarrow> sq_db \<Rightarrow> unit res \<times> sq_db" where
  "sq_UpdateUser name scopes s =
     (if list_ex (\<lambda>r. ur_name r = name) (sq_users s)
      then (Inr (), s\<lparr>sq_users := map (\<lambda>r. if ur_name r = name
              then r\<lparr>ur_scopes := Join scopes CHR '',''\<rparr> else r) (sq_users s)\<rparr>)
      else (Inl DbNotFound, s))"

definition sq_UpdateUserPassword :: "string \<Rightarrow> string \<Rightarrow> sq_db \<Rightarrow> unit res \<times> sq_db" where
  "sq_UpdateUserPassword name hash s =
     (if list_ex (\<lambda>r. ur_name r = name) (sq_users s)
      then (Inr (), s\<lparr>sq_users := map (\<lambda>r. if ur_name r = name then r\<lparr>ur_hash := hash\<rparr> else r) (sq_users s)\<rparr>)
      else (Inl DbNotFound, s))"

definition sq_CreateGroup :: "string \<Rightarrow> sq_db \<Rightarrow> unit res \<times> sq_db" where
  "sq_CreateGroup name s =
     (Inr (), if list_ex (\<lambda>g. gr_name g = name) (sq_groups s) then s
              else s\<lparr>sq_groups := sq_groups s @ [\<lparr>gr_id = sq_next s, gr_name = name\<rparr>], sq_next := Suc (sq_next s)\<rparr>)"

definition sq_ListGroups :: "sq_db \<Rightarrow> group list res" where
  "sq_ListGroups s = Inr (sort_key gr_name (sq_groups s))"

definition sq_AddUserToGroup :: "string \<Rightarrow> string \<Rightarrow> sq_db \<Rightarrow> unit res \<times> sq_db" where
  "sq_AddUserToGroup name groupName s =
     (case find (\<lambda>r. ur_name r = name) (sq_users s) of
        None \<Rightarrow> (Inl DbNotFound, s)
      | Some u \<Rightarrow>
          (case find (\<lambda>g. gr_name g = groupName) (sq_groups s) of
             None \<Rightarrow> (Inl DbNotFound, s)
           | Some g \<Rightarrow>
               (Inr (), if (ur_id u, gr_id g) \<in> set (sq_user_groups s) then s
                        else s\<lparr>sq_user_groups := sq_user_groups s @ [(ur_id u, gr_id g)]\<rparr>)))"

subsection \<open>Quotas\<close>

text \<open>A floating-point number does not scan into the \<^verbatim>\<open>int64\<close> of a quota.\<close>

definition sq_scan_quota :: "string \<Rightarrow> sq_quota \<Rightarrow> quota res" where
  "sq_scan_quota ns q =
     (case sk_used q of
        SqInt n \<Rightarrow> Inr \<lparr>q_ns_id = sk_ns q, q_ns = ns, q_limit = sk_limit q, q_used = n\<rparr>
      | SqReal _ \<Rightarrow> Inl scan_error)"

fun sq_scan_quotas :: "(string \<times> sq_quota) list \<Rightarrow> quota list res" where
  "sq_scan_quotas [] = Inr []"
| "sq_scan_quotas ((n, q) # rows) =
     (case sq_scan_quota n q of
        Inl e \<Rightarrow> Inl e
      | Inr x \<Rightarrow> (case sq_scan_quotas rows of Inl e \<Rightarrow> Inl e | Inr xs \<Rightarrow> Inr (x # xs)))"

definition sq_ListQuotas :: "sq_db \<Rightarrow> quota list res" where
  "sq_ListQuotas s =
     sq_scan_quotas (sort_key fst (List.map_filter (\<lambda>q. map_option (\<lambda>n. (n, q)) (sq_ns_name (sk_ns q) s)) (sq_quotas s)))"

definition sq_CheckQuota :: "string \<Rightarrow> sq_db \<Rightarrow> quota option res" where
  "sq_CheckQuota namespace s =
     (case Option.bind (sq_ns namespace s) (\<lambda>nid. find (\<lambda>q. sk_ns q = nid) (sq_quotas s)) of
        None \<Rightarrow> Inr None
      | Some q \<Rightarrow> (case sq_scan_quota namespace q of Inl e \<Rightarrow> Inl e | Inr x \<Rightarrow> Inr (Some x)))"

definition sq_SetQuota :: "string \<Rightarrow> int \<Rightarrow> sq_db \<Rightarrow> unit res \<times> sq_db" where
  "sq_SetQuota namespace limitBytes s =
     (case sq_CreateNamespace namespace s of
        (Inl e, s1) \<Rightarrow> (Inl e, s1)
      | (Inr _, s1) \<Rightarrow>
          (case sq_ns namespace s1 of
             None \<Rightarrow> (Inl (ErrText ''sql: no rows in result set''), s1)
           | Some nid \<Rightarrow>
               (Inr (), if list_ex (\<lambda>q. sk_ns q = nid) (sq_quotas s1)
                        then s1\<lparr>sq_quotas := map (\<lambda>q. if sk_ns q = nid then q\<lparr>sk_limit := limitBytes\<rparr> else q) (sq_quotas s1)\<rparr>
                        else s1\<lparr>sq_quotas := sq_quotas s1 @ [\<lparr>sk_ns = nid, sk_limit = limitBytes, sk_used = SqInt 0\<rparr>]\<rparr>)))"

definition sq_plus :: "sq_env \<Rightarrow> sq_num \<Rightarrow> int \<Rightarrow> sq_num" where
  "sq_plus E x n =
     (case x of SqInt i \<Rightarrow> if int64 (i + n) then SqInt (i + n) else se_sum E x n | SqReal _ \<Rightarrow> se_sum E x n)"

definition sq_UpdateQuotaUsage :: "sq_env \<Rightarrow> string \<Rightarrow> int \<Rightarrow> sq_db \<Rightarrow> unit res \<times> sq_db" where
  "sq_UpdateQuotaUsage E namespace sizeDelta s =
     (case sq_ns namespace s of
        None \<Rightarrow> (Inr (), s)
      | Some nid \<Rightarrow> (Inr (), s\<lparr>sq_quotas := map (\<lambda>q. if sk_ns q = nid
                          then q\<lparr>sk_used := sq_plus E (sk_used q) sizeDelta\<rparr> else q) (sq_quotas s)\<rparr>))"

subsection \<open>Access tokens, logins, audit log, policies\<close>

definition sq_CreateAccessToken ::
  "nat \<Rightarrow> string \<Rightarrow> string \<Rightarrow> string list \<Rightarrow> int option \<Rightarrow> sq_db \<Rightarrow> nat res \<times> sq_db" where
  "sq_CreateAccessToken uid name hash scopes expires s = (Inl no_access_tokens, s)"

definition sq_ListAccessTokens :: "nat \<Rightarrow> sq_db \<Rightarrow> access_token list res" where
  "sq_ListAccessTokens uid s = Inl no_access_tokens"

definition sq_GetAccessTokenByHash :: "string \<Rightarrow> sq_db \<Rightarrow> access_token res" where
  "sq_GetAccessTokenByHash hash s = Inl no_access_tokens"

definition sq_DeleteAccessToken :: "nat \<Rightarrow> sq_db \<Rightarrow> unit res \<times> sq_db" where
  "sq_DeleteAccessToken tid s = (Inl no_access_tokens, s)"

definition sq_UpdateAccessTokenLastUsed :: "nat \<Rightarrow> sq_db \<Rightarrow> unit res \<times> sq_db" where
  "sq_UpdateAccessTokenLastUsed tid s = (Inl no_access_tokens, s)"

definition sq_RecordLoginAttempt :: "string \<Rightarrow> string \<Rightarrow> bool \<Rightarrow> sq_db \<Rightarrow> unit res \<times> sq_db" where
  "sq_RecordLoginAttempt name ip ok s =
     (Inr (), s\<lparr>sq_logins := sq_logins s @ [\<lparr>lr_user = name, lr_ip = ip, lr_success = ok, lr_at = sq_now s\<rparr>]\<rparr>)"

text \<open>\<^verbatim>\<open>attempted_at > ?\<close> compares the stored text with the text bound for the time.\<close>

definition sq_CountRecentFailedLogins :: "sq_env \<Rightarrow> string \<Rightarrow> int \<Rightarrow> sq_db \<Rightarrow> nat res" where
  "sq_CountRecentFailedLogins E name since s =
     Inr (length (filter (\<lambda>l. lr_user l = name \<and> \<not> lr_success l \<and> se_bind E since < se_stamp E (lr_at l)) (sq_logins s)))"

definition sq_WriteAuditLog :: "audit_entry \<Rightarrow> sq_db \<Rightarrow> unit res \<times> sq_db" where
  "sq_WriteAuditLog e s =
     (Inr (), s\<lparr>sq_audits := sq_audits s @ [\<lparr>ar_id = sq_next s, ar_at = sq_now s, ar_entry = e\<rparr>], sq_next := Suc (sq_next s)\<rparr>)"

definition sq_ListAuditLogs :: "int \<Rightarrow> sq_db \<Rightarrow> (nat \<times> int \<times> audit_entry) list res" where
  "sq_ListAuditLogs n s =
     (let lim = (if n \<le> 0 then 100 else n)
      in Inr (map (\<lambda>r. (ar_id r, ar_at r, ar_entry r)) (take (nat lim) (newest_first ar_at (sq_audits s)))))"

definition sq_ListPolicies :: "sq_db \<Rightarrow> policy_record list res" where
  "sq_ListPolicies s = Inr (sort_key po_id (sq_policies s))"

definition sq_AddPolicy :: "string \<Rightarrow> sq_db \<Rightarrow> unit res \<times> sq_db" where
  "sq_AddPolicy ex s =
     (Inr (), if list_ex (\<lambda>p. po_expr p = ex) (sq_policies s) then s
              else s\<lparr>sq_policies := sq_policies s @ [\<lparr>po_id = sq_next s, po_expr = ex\<rparr>], sq_next := Suc (sq_next s)\<rparr>)"

definition sq_DeletePolicy :: "int \<Rightarrow> sq_db \<Rightarrow> unit res \<times> sq_db" where
  "sq_DeletePolicy pid s =
     (if list_ex (\<lambda>p. int (po_id p) = pid) (sq_policies s)
      then (Inr (), s\<lparr>sq_policies := filter (\<lambda>p. int (po_id p) \<noteq> pid) (sq_policies s)\<rparr>)
      else (Inl DbNotFound, s))"

subsection \<open>What the store does not support\<close>

definition sq_ListUpstreams :: "sq_db \<Rightarrow> upstream_info list res" where
  "sq_ListUpstreams s = Inr []"

definition sq_SetArtifactMetadata :: "artifact_metadata \<Rightarrow> sq_db \<Rightarrow> unit res \<times> sq_db" where
  "sq_SetArtifactMetadata a s = (Inr (), s)"

definition sq_GetArtifactMetadata :: "string \<Rightarrow> sq_db \<Rightarrow> artifact_metadata res" where
  "sq_GetArtifactMetadata d s = Inl DbNotFound"

definition sq_ListReferrers :: "string \<Rightarrow> string \<Rightarrow> sq_db \<Rightarrow> referrer list res" where
  "sq_ListReferrers subject artifactType s = Inr []"

definition sq_ListArtifactsByType :: "string \<Rightarrow> int \<Rightarrow> sq_db \<Rightarrow> artifact_descriptor list res" where
  "sq_ListArtifactsByType artifactType limit s = Inr []"

subsection \<open>Transactions and the store\<close>

definition sq_WithTx :: "(sq_db \<Rightarrow> unit res \<times> sq_db) \<Rightarrow> sq_db \<Rightarrow> unit res \<times> sq_db" where
  "sq_WithTx fn s = (case fn s of (Inl e, _) \<Rightarrow> (Inl e, s) | (Inr _, s') \<Rightarrow> (Inr (), s'))"

definition sq_store :: "sq_env \<Rightarrow> sq_db store" where
  "sq_store E =
     \<lparr>st_ListRepositories = sq_ListRepositories, st_ListTags = sq_ListTags,
      st_PutManifest = sq_PutManifest, st_GetManifest = sq_GetManifest,
      st_DeleteManifest = sq_DeleteManifest, st_SetTagImmutable = sq_SetTagImmutable,
      st_IsTagImmutable = sq_IsTagImmutable, st_PutBlob = sq_PutBlob,
      st_SaveScanReport = sq_SaveScanReport, st_GetScanReport = sq_GetScanReport,
      st_GetUserByUsername = sq_GetUserByUsername, st_AuthenticateUser = sq_AuthenticateUser E,
      st_CreateUser = sq_CreateUser, st_UpdateUser = sq_UpdateUser,
      st_CheckQuota = sq_CheckQuota, st_UpdateQuotaUsage = sq_UpdateQuotaUsage E,
      st_ListAccessTokens = sq_ListAccessTokens,
      st_UpdateAccessTokenLastUsed = sq_UpdateAccessTokenLastUsed,
      st_ListPolicies = sq_ListPolicies, st_AddPolicy = sq_AddPolicy,
      st_SetArtifactMetadata = sq_SetArtifactMetadata, st_ListReferrers = sq_ListReferrers,
      st_RecordLoginAttempt = sq_RecordLoginAttempt,
      st_CountRecentFailedLogins = sq_CountRecentFailedLogins E,
      st_CreateNamespace = sq_CreateNamespace, st_CreateRepository = sq_CreateRepository,
      st_ListManifests = sq_ListManifests, st_BlobExists = sq_BlobExists, st_GetBlobSize = sq_GetBlobSize,
      st_ListBlobs = sq_ListBlobs, st_DeleteBlob = sq_DeleteBlob, st_ListScanReports = sq_ListScanReports,
      st_GetUserByToken = sq_GetUserByToken, st_ListUsers = sq_ListUsers, st_DeleteUser = sq_DeleteUser E,
      st_UpdateUserPassword = sq_UpdateUserPassword, st_CreateGroup = sq_CreateGroup,
      st_AddUserToGroup = sq_AddUserToGroup, st_ListGroups = sq_ListGroups, st_SetQuota = sq_SetQuota,
      st_ListQuotas = sq_ListQuotas, st_CreateAccessToken = sq_CreateAccessToken,
      st_GetAccessTokenByHash = sq_GetAccessTokenByHash, st_DeleteAccessToken = sq_DeleteAccessToken,
      st_DeletePolicy = sq_DeletePolicy, st_ListUpstreams = sq_ListUpstreams,
      st_GetArtifactMetadata = sq_GetArtifactMetadata, st_ListArtifactsByType = sq_ListArtifactsByType,
      st_WriteAuditLog = sq_WriteAuditLog, st_ListAuditLogs = sq_ListAuditLogs,
      st_WithTx = sq_WithTx\<rparr>"

end
