(* ===== verification/Management.thy ===== *)
theory Management
  imports Login Policy Local_Store
begin

text \<open>
  The management API, \<^verbatim>\<open>internal/api/management/router.go\<close>: its routes with the middleware that
  guards them, and every handler, over the store, the policy enforcer and the script directory. The
  JSON decoder's parser, bcrypt, the random source and the formats of times and floating-point numbers are
  parameters; the assignment of a parsed document to the fields of a payload is modelled.
\<close>

subsection \<open>Decoding a payload\<close>

text \<open>
  \<^verbatim>\<open>Decode\<close> into a struct assigns the members of an object in their order; a name matches a field
  without regard to case, \<^verbatim>\<open>null\<close> leaves a scalar as it is and empties a slice, and a value of
  another type is an error. An element of an array is decoded into the element that was there.
\<close>

fun set_string :: "string \<Rightarrow> json \<Rightarrow> string option" where
  "set_string a JNull = Some a"
| "set_string a (JStr s) = Some s"
| "set_string a _ = None"

fun set_bool :: "bool \<Rightarrow> json \<Rightarrow> bool option" where
  "set_bool a JNull = Some a"
| "set_bool a (JBool b) = Some b"
| "set_bool a _ = None"

fun set_int :: "int \<Rightarrow> json \<Rightarrow> int option" where
  "set_int a JNull = Some a"
| "set_int a (JNum n) = ParseInt n"
| "set_int a _ = None"

fun set_elems :: "string list \<Rightarrow> json list \<Rightarrow> string list option" where
  "set_elems old [] = Some []"
| "set_elems old (v # vs) =
     (case set_string (case old of [] \<Rightarrow> [] | x # _ \<Rightarrow> x) v of
        None \<Rightarrow> None | Some x \<Rightarrow> map_option ((#) x) (set_elems (tl old) vs))"

fun set_strings :: "string list \<Rightarrow> json \<Rightarrow> string list option" where
  "set_strings a JNull = Some []"
| "set_strings a (JArr vs) = set_elems a vs"
| "set_strings a _ = None"

fun decode_field :: "('a \<Rightarrow> json \<Rightarrow> 'a option) \<Rightarrow> string \<Rightarrow> (string \<times> json) list \<Rightarrow> 'a \<Rightarrow> 'a option" where
  "decode_field asg f [] a = Some a"
| "decode_field asg f ((k, v) # kvs) a =
     (if ToUpper k = ToUpper f
      then (case asg a v of None \<Rightarrow> None | Some a' \<Rightarrow> decode_field asg f kvs a')
      else decode_field asg f kvs a)"

fun members :: "json \<Rightarrow> (string \<times> json) list option" where
  "members JNull = Some []"
| "members (JObj kvs) = Some kvs"
| "members _ = None"

subsection \<open>What the router is given\<close>

record ldap_config =
  lc_enabled :: bool
  lc_server :: string
  lc_ssl :: bool
  lc_base :: string

record oidc_config =
  oc_enabled :: bool
  oc_issuer :: string
  oc_client :: string

text \<open>
  \<open>mg_decode\<close> is the document \<^verbatim>\<open>Decode\<close> reads from a body and \<open>mg_type_err\<close> its error for a value of
  the wrong type; \<open>mg_unmarshal\<close> the document of stored bytes. \<open>mg_hash\<close> is
  \<^verbatim>\<open>bcrypt.GenerateFromPassword\<close>, \<open>mg_rand\<close> the next 32 random bytes, \<open>mg_time\<close> the JSON form of a time,
  \<open>mg_quot\<close> the form \<^verbatim>\<open>%.1f\<close> of a quotient. \<open>mg_cwd\<close> is the working directory.
\<close>

record ('k, 'p, 'd) mgmt_env =
  mg_db :: "'d store"
  mg_ts :: "'k token_service"
  mg_jwt :: "'k jwt_lib"
  mg_developer :: bool
  mg_cel :: "'p cel_lib"
  mg_vulnGate :: "vuln_gate option"
  mg_ldap :: ldap_config
  mg_oidc :: oidc_config
  mg_decode :: "stream \<Rightarrow> json res"
  mg_type_err :: err
  mg_unmarshal :: "bytes \<Rightarrow> json option"
  mg_report :: "bytes \<Rightarrow> vulnerability list option"
  mg_hash :: "string \<Rightarrow> string res"
  mg_rand :: "bytes res"
  mg_time :: "int \<Rightarrow> string"
  mg_quot :: "int \<Rightarrow> int \<Rightarrow> string"
  mg_cwd :: "string list"
  mg_now :: int
  mg_unrouted :: "request \<Rightarrow> response"

record ('p, 'd) mgmt =
  ms_db :: 'd
  ms_enf :: "'p enforcer"
  ms_fs :: fs

definition decode_body :: "('k, 'p, 'd) mgmt_env \<Rightarrow> request \<Rightarrow> ((string \<times> json) list \<Rightarrow> 'a option) \<Rightarrow> 'a res" where
  "decode_body E req f =
     (case mg_decode E (body_of req) of
        Inl e \<Rightarrow> Inl e
      | Inr doc \<Rightarrow> (case Option.bind (members doc) f of None \<Rightarrow> Inl (mg_type_err E) | Some x \<Rightarrow> Inr x))"

text \<open>The middleware, with \<^verbatim>\<open>AuthenticateUser\<close> as its validator.\<close>

definition mgmt_auth :: "('k, 'p, 'd) mgmt_env \<Rightarrow> 'd \<Rightarrow> 'k middleware" where
  "mgmt_auth E d = \<lparr>mw_ts = mg_ts E, mw_developer = mg_developer E,
     mw_validator = Some (\<lambda>u p. case st_AuthenticateUser (mg_db E) u p d of Inl e \<Rightarrow> Inl e | Inr user \<Rightarrow> Inr (us_scopes user))\<rparr>"

subsection \<open>Answers\<close>

definition json_type :: "(string \<times> string) list" where
  "json_type = [(''Content-Type'', ''application/json'')]"

definition doc_int :: "int \<Rightarrow> json" where
  "doc_int n = JNum (FormatInt n)"

text \<open>A nil slice is encoded as \<^verbatim>\<open>null\<close>.\<close>

definition doc_slice :: "('a \<Rightarrow> json) \<Rightarrow> 'a list \<Rightarrow> json" where
  "doc_slice f xs = (if xs = [] then JNull else JArr (map f xs))"

definition status :: "nat \<Rightarrow> response" where
  "status code = reply code [] NoBody"

definition failed :: "err \<Rightarrow> response" where
  "failed e = http_error [] (err_msg e) 500"

definition not_found_or :: "string \<Rightarrow> err \<Rightarrow> response" where
  "not_found_or msg e = (if e = DbNotFound then http_error [] msg 404 else failed e)"

subsection \<open>The audit log\<close>

definition actorFromReq :: "claims option \<Rightarrow> request \<Rightarrow> string \<times> string" where
  "actorFromReq c req =
     (case c of None \<Rightarrow> [] | Some cl \<Rightarrow> cl_subject cl,
      let fwd = rq_header req ''X-Forwarded-For'' in if fwd \<noteq> [] then hd (Split fwd CHR '','') else rq_remote req)"

definition audit_of :: "claims option \<Rightarrow> request \<Rightarrow> string \<Rightarrow> string \<Rightarrow> string \<Rightarrow> audit_entry" where
  "audit_of c req action typ resource =
     \<lparr>au_actor = fst (actorFromReq c req), au_ip = snd (actorFromReq c req), au_action = action, au_type = typ,
      au_resource = resource, au_outcome = ''success'', au_detail = []\<rparr>"

text \<open>The error of \<^verbatim>\<open>WriteAuditLog\<close> is ignored.\<close>

definition audit ::
  "('k, 'p, 'd) mgmt_env \<Rightarrow> claims option \<Rightarrow> request \<Rightarrow> string \<Rightarrow> string \<Rightarrow> string \<Rightarrow> ('p, 'd) mgmt \<Rightarrow> ('p, 'd) mgmt" where
  "audit E c req action typ resource st =
     st\<lparr>ms_db := snd (st_WriteAuditLog (mg_db E) (audit_of c req action typ resource) (ms_db st))\<rparr>"


text \<open>A change of the store, its failure answered with \<open>bad\<close>, its success logged and answered with
  \<open>resp\<close>: the end of most handlers.\<close>

definition change_db ::
  "('k, 'p, 'd) mgmt_env \<Rightarrow> claims option \<Rightarrow> request \<Rightarrow> (err \<Rightarrow> response) \<Rightarrow> string \<Rightarrow> string \<Rightarrow> string \<Rightarrow> response \<Rightarrow>
   ('d \<Rightarrow> unit res \<times> 'd) \<Rightarrow> ('p, 'd) mgmt \<Rightarrow> response \<times> ('p, 'd) mgmt" where
  "change_db E c req bad action typ resource resp f st =
     (case f (ms_db st) of
        (Inl e, d) \<Rightarrow> (bad e, st\<lparr>ms_db := d\<rparr>)
      | (Inr _, d) \<Rightarrow> (resp, audit E c req action typ resource (st\<lparr>ms_db := d\<rparr>)))"

subsection \<open>Statistics\<close>

text \<open>The loop of \<^verbatim>\<open>formatBytes\<close>; an index outside \<^verbatim>\<open>"KMGTPE"\<close> would be a panic.\<close>

function scale :: "int \<Rightarrow> int \<Rightarrow> nat \<Rightarrow> int \<times> nat" where
  "scale n dv ex = (if 1024 \<le> n then scale (n div 1024) (wrap64 (dv * 1024)) (Suc ex) else (dv, ex))"
  by auto
termination by (relation "measure (\<lambda>(n, _). nat n)") auto

declare scale.simps [simp del]

definition formatBytes :: "(int \<Rightarrow> int \<Rightarrow> string) \<Rightarrow> int \<Rightarrow> string option" where
  "formatBytes quot b =
     (if b < 1024 then Some (FormatInt b @ '' B'')
      else (let (dv, ex) = scale (b div 1024) 1024 0 in
            if ex < length ''KMGTPE'' then Some (quot b dv @ '' '' @ [''KMGTPE'' ! ex] @ ''B'') else None))"

definition total_storage :: "quota list \<Rightarrow> int" where
  "total_storage qs = foldl (\<lambda>t q. wrap64 (t + q_used q)) 0 qs"

definition critical_vulns :: "(bytes \<Rightarrow> vulnerability list option) \<Rightarrow> scan_report list \<Rightarrow> nat" where
  "critical_vulns report rs =
     sum_list (map (\<lambda>r. case report (sp_data r) of None \<Rightarrow> 0
                 | Some vs \<Rightarrow> length (filter (\<lambda>v. vu_severity v = ''CRITICAL'') vs)) rs)"

definition ok_list :: "'a list res \<Rightarrow> 'a list" where
  "ok_list r = (case r of Inl _ \<Rightarrow> [] | Inr xs \<Rightarrow> xs)"

definition getStats :: "('k, 'p, 'd) mgmt_env \<Rightarrow> 'd \<Rightarrow> outcome" where
  "getStats E d =
     (let S = mg_db E;
          repos = ok_list (st_ListRepositories S 10000 [] d); qs = ok_list (st_ListQuotas S d);
          rs = ok_list (st_ListScanReports S d)
      in case formatBytes (mg_quot E) (total_storage qs) of
           None \<Rightarrow> Panic
         | Some storageStr \<Rightarrow>
             (let ps = ok_list (st_ListPolicies S d) in
              Respond (reply 200 [] (JsonDoc (JObj
                [(''critical_vulns'', doc_int (int (critical_vulns (mg_report E) rs))),
                 (''policy_blocks'', doc_int (int (length ps))), (''storage_used'', JStr storageStr),
                 (''total_repos'', doc_int (int (length repos)))])))))"

subsection \<open>Users\<close>

definition user_doc :: "user \<Rightarrow> json" where
  "user_doc u = JObj [(''ID'', doc_int (int (us_id u))), (''Username'', JStr (us_name u)),
     (''PasswordHash'', JStr (us_hash u)), (''Scopes'', doc_slice JStr (us_scopes u))]"

definition listUsers :: "('k, 'p, 'd) mgmt_env \<Rightarrow> 'd \<Rightarrow> response" where
  "listUsers E d =
     (case st_ListUsers (mg_db E) d of
        Inl e \<Rightarrow> failed e
      | Inr us \<Rightarrow> reply 200 [] (JsonDoc (doc_slice user_doc (map (\<lambda>u. u\<lparr>us_hash := []\<rparr>) us))))"

definition user_payload :: "(string \<times> json) list \<Rightarrow> (string \<times> string \<times> string list) option" where
  "user_payload kvs =
     (case (decode_field set_string ''username'' kvs [], decode_field set_string ''password'' kvs [],
            decode_field set_strings ''scopes'' kvs []) of
        (Some u, Some p, Some ss) \<Rightarrow> Some (u, p, ss) | _ \<Rightarrow> None)"

definition createUser ::
  "('k, 'p, 'd) mgmt_env \<Rightarrow> claims option \<Rightarrow> request \<Rightarrow> ('p, 'd) mgmt \<Rightarrow> response \<times> ('p, 'd) mgmt" where
  "createUser E c req st =
     (case decode_body E req user_payload of
        Inl e \<Rightarrow> (http_error [] (err_msg e) 400, st)
      | Inr (username, password, scopes) \<Rightarrow>
          (if length password < 8
           then (reply 400 json_type (JsonDoc (JObj [(''error'', JStr ''password must be at least 8 characters'')])), st)
           else (case mg_hash E password of
                   Inl _ \<Rightarrow> (http_error [] ''failed to hash password'' 500, st)
                 | Inr hashed \<Rightarrow>
                     change_db E c req failed ''user.create'' ''user'' username (status 201)
                       (st_CreateUser (mg_db E) username hashed scopes) st)))"

definition deleteUser ::
  "('k, 'p, 'd) mgmt_env \<Rightarrow> claims option \<Rightarrow> request \<Rightarrow> string \<Rightarrow> ('p, 'd) mgmt \<Rightarrow> response \<times> ('p, 'd) mgmt" where
  "deleteUser E c req username st =
     (if username = [] then (http_error [] ''username is required'' 400, st)
      else change_db E c req (not_found_or ''user not found'') ''user.delete'' ''user'' username (status 204)
             (st_DeleteUser (mg_db E) username) st)"

definition updateUser ::
  "('k, 'p, 'd) mgmt_env \<Rightarrow> claims option \<Rightarrow> request \<Rightarrow> string \<Rightarrow> ('p, 'd) mgmt \<Rightarrow> response \<times> ('p, 'd) mgmt" where
  "updateUser E c req username st =
     (if username = [] then (http_error [] ''username is required'' 400, st)
      else (case decode_body E req (\<lambda>kvs. decode_field set_strings ''scopes'' kvs []) of
              Inl e \<Rightarrow> (http_error [] (err_msg e) 400, st)
            | Inr scopes \<Rightarrow>
                change_db E c req (not_found_or ''user not found'') ''user.update_scopes'' ''user'' username (status 200)
                  (st_UpdateUser (mg_db E) username scopes) st))"

definition resetPassword ::
  "('k, 'p, 'd) mgmt_env \<Rightarrow> claims option \<Rightarrow> request \<Rightarrow> string \<Rightarrow> ('p, 'd) mgmt \<Rightarrow> response \<times> ('p, 'd) mgmt" where
  "resetPassword E c req username st =
     (if username = [] then (http_error [] ''username is required'' 400, st)
      else (case decode_body E req (\<lambda>kvs. decode_field set_string ''password'' kvs []) of
              Inl e \<Rightarrow> (http_error [] (err_msg e) 400, st)
            | Inr password \<Rightarrow>
                (if length password < 8 then (http_error [] ''password must be at least 8 characters'' 400, st)
                 else (case mg_hash E password of
                         Inl _ \<Rightarrow> (http_error [] ''failed to hash password'' 500, st)
                       | Inr hashed \<Rightarrow>
                           change_db E c req (not_found_or ''user not found'') ''user.reset_password'' ''user'' username
                             (status 200) (st_UpdateUserPassword (mg_db E) username hashed) st))))"

subsection \<open>Quotas and groups\<close>

definition quota_doc :: "quota \<Rightarrow> json" where
  "quota_doc q = JObj [(''NamespaceID'', doc_int (int (q_ns_id q))), (''Namespace'', JStr (q_ns q)),
     (''LimitBytes'', doc_int (q_limit q)), (''UsedBytes'', doc_int (q_used q))]"

definition list_docs :: "('a \<Rightarrow> json) \<Rightarrow> (string \<times> string) list \<Rightarrow> 'a list res \<Rightarrow> response" where
  "list_docs f hs r = (case r of Inl e \<Rightarrow> failed e | Inr xs \<Rightarrow> reply 200 hs (JsonDoc (doc_slice f xs)))"

definition listQuotas :: "('k, 'p, 'd) mgmt_env \<Rightarrow> 'd \<Rightarrow> response" where
  "listQuotas E d = list_docs quota_doc [] (st_ListQuotas (mg_db E) d)"

definition setQuota ::
  "('k, 'p, 'd) mgmt_env \<Rightarrow> claims option \<Rightarrow> request \<Rightarrow> ('p, 'd) mgmt \<Rightarrow> response \<times> ('p, 'd) mgmt" where
  "setQuota E c req st =
     (case decode_body E req (\<lambda>kvs. case (decode_field set_string ''namespace'' kvs [], decode_field set_int ''limit_bytes'' kvs 0) of
             (Some ns, Some n) \<Rightarrow> Some (ns, n) | _ \<Rightarrow> None) of
        Inl e \<Rightarrow> (http_error [] (err_msg e) 400, st)
      | Inr (ns, limitBytes) \<Rightarrow>
          change_db E c req failed ''quota.set'' ''namespace'' ns (status 200) (st_SetQuota (mg_db E) ns limitBytes) st)"

definition group_doc :: "group \<Rightarrow> json" where
  "group_doc g = JObj [(''ID'', doc_int (int (gr_id g))), (''Name'', JStr (gr_name g))]"

definition listGroups :: "('k, 'p, 'd) mgmt_env \<Rightarrow> 'd \<Rightarrow> response" where
  "listGroups E d = list_docs group_doc [] (st_ListGroups (mg_db E) d)"

definition createGroup ::
  "('k, 'p, 'd) mgmt_env \<Rightarrow> claims option \<Rightarrow> request \<Rightarrow> ('p, 'd) mgmt \<Rightarrow> response \<times> ('p, 'd) mgmt" where
  "createGroup E c req st =
     (case decode_body E req (\<lambda>kvs. decode_field set_string ''name'' kvs []) of
        Inl e \<Rightarrow> (http_error [] (err_msg e) 400, st)
      | Inr name \<Rightarrow>
          change_db E c req failed ''group.create'' ''group'' name (status 201) (st_CreateGroup (mg_db E) name) st)"

definition addUserToGroup ::
  "('k, 'p, 'd) mgmt_env \<Rightarrow> claims option \<Rightarrow> request \<Rightarrow> string \<Rightarrow> ('p, 'd) mgmt \<Rightarrow> response \<times> ('p, 'd) mgmt" where
  "addUserToGroup E c req groupName st =
     (case decode_body E req (\<lambda>kvs. decode_field set_string ''username'' kvs []) of
        Inl e \<Rightarrow> (http_error [] (err_msg e) 400, st)
      | Inr username \<Rightarrow>
          change_db E c req failed ''group.add_member'' ''group'' groupName (status 200)
            (st_AddUserToGroup (mg_db E) username groupName) st)"

subsection \<open>Repositories, upstreams, scans\<close>

definition listRepositories :: "('k, 'p, 'd) mgmt_env \<Rightarrow> 'd \<Rightarrow> response" where
  "listRepositories E d = list_docs JStr [] (st_ListRepositories (mg_db E) 100 [] d)"

definition upstream_doc :: "(int option \<Rightarrow> json) \<Rightarrow> upstream_info \<Rightarrow> json" where
  "upstream_doc tm u = JObj [(''cache_enabled'', JBool (ui_cache u)), (''enabled'', JBool (ui_enabled u)),
     (''endpoint'', JStr (ui_endpoint u)), (''id'', doc_int (int (ui_id u))), (''last_refresh'', tm (ui_refresh u)),
     (''name'', JStr (ui_name u)), (''pull_only'', JBool (ui_pull_only u)), (''region'', JStr (ui_region u)),
     (''type'', JStr (ui_type u))]"

text \<open>The zero time, the value of a column that is null, is \<^verbatim>\<open>"0001-01-01T00:00:00Z"\<close>.\<close>

definition time_doc :: "('k, 'p, 'd) mgmt_env \<Rightarrow> int option \<Rightarrow> json" where
  "time_doc E t = JStr (case t of None \<Rightarrow> ''0001-01-01T00:00:00Z'' | Some x \<Rightarrow> mg_time E x)"

definition listUpstreams :: "('k, 'p, 'd) mgmt_env \<Rightarrow> 'd \<Rightarrow> response" where
  "listUpstreams E d = list_docs (upstream_doc (time_doc E)) [] (st_ListUpstreams (mg_db E) d)"

definition repositories_prefix :: string where
  "repositories_prefix = ''/api/v1/management/repositories/''"

definition listTags :: "('k, 'p, 'd) mgmt_env \<Rightarrow> request \<Rightarrow> 'd \<Rightarrow> response" where
  "listTags E req d =
     (let repo = TrimSuffix (TrimPrefix (rq_path req) repositories_prefix) ''/tags'' in
      if repo = [] then http_error [] ''repo parameter is required'' 400
      else list_docs JStr [] (st_ListTags (mg_db E) repo 1000 [] d))"

definition manifest_doc :: "manifest_record \<Rightarrow> json" where
  "manifest_doc m = JObj [(''Namespace'', JStr (mr_ns m)), (''Repo'', JStr (mr_repo m)),
     (''Reference'', JStr (mr_ref m)), (''Digest'', JStr (mr_digest m))]"

definition listManifestsForRepo :: "('k, 'p, 'd) mgmt_env \<Rightarrow> request \<Rightarrow> 'd \<Rightarrow> response" where
  "listManifestsForRepo E req d =
     (let repo = TrimSuffix (TrimPrefix (rq_path req) repositories_prefix) ''/manifests'' in
      if repo = [] then http_error [] ''repo parameter is required'' 400
      else (case st_ListManifests (mg_db E) d of
              Inl e \<Rightarrow> failed e
            | Inr ms \<Rightarrow> reply 200 [] (JsonDoc (doc_slice manifest_doc
                (filter (\<lambda>m. mr_ns m @ ''/'' @ mr_repo m = repo \<or> mr_repo m = repo) ms)))))"

definition listScans :: "('k, 'p, 'd) mgmt_env \<Rightarrow> 'd \<Rightarrow> response" where
  "listScans E d =
     (case st_ListScanReports (mg_db E) d of
        Inl e \<Rightarrow> failed e
      | Inr rs \<Rightarrow> reply 200 json_type (JsonDoc (doc_slice id
          (List.map_filter (\<lambda>r. if sp_scanner r \<noteq> ''darkscan'' then None
             else (case mg_unmarshal E (sp_data r) of
                     Some (JObj kvs) \<Rightarrow> Some (JObj kvs) | Some JNull \<Rightarrow> Some JNull | _ \<Rightarrow> None)) rs))))"

definition mgmt_getScanReport ::
  "('k, 'p, 'd) mgmt_env \<Rightarrow> request \<Rightarrow> string \<Rightarrow> ('p, 'd) mgmt \<Rightarrow> response \<times> ('p, 'd) mgmt" where
  "mgmt_getScanReport E req digest st =
     (let scanner = (if rq_query req ''scanner'' = [] then ''trivy'' else rq_query req ''scanner'') in
      case st_GetScanReport (mg_db E) digest scanner (ms_db st) of
        (Inl e, d) \<Rightarrow> (not_found_or ''scan report not found'' e, st\<lparr>ms_db := d\<rparr>)
      | (Inr dat, d) \<Rightarrow> (reply 200 json_type (Data dat), st\<lparr>ms_db := d\<rparr>))"

subsection \<open>Policies\<close>

definition policy_doc :: "policy_record \<Rightarrow> json" where
  "policy_doc p = JObj [(''id'', doc_int (int (po_id p))), (''expression'', JStr (po_expr p))]"

definition listPolicies :: "('k, 'p, 'd) mgmt_env \<Rightarrow> 'd \<Rightarrow> response" where
  "listPolicies E d = list_docs policy_doc [] (st_ListPolicies (mg_db E) d)"

definition addPolicy ::
  "('k, 'p, 'd) mgmt_env \<Rightarrow> claims option \<Rightarrow> request \<Rightarrow> ('p, 'd) mgmt \<Rightarrow> response \<times> ('p, 'd) mgmt" where
  "addPolicy E c req st =
     (case decode_body E req (\<lambda>kvs. decode_field set_string ''expression'' kvs []) of
        Inl e \<Rightarrow> (http_error [] (err_msg e) 400, st)
      | Inr expression \<Rightarrow>
          (case AddRule (mg_cel E) (mg_db E) expression (ms_enf st) (ms_db st) of
             (Inl e, enf, d) \<Rightarrow> (http_error [] (err_msg e) 400, st\<lparr>ms_enf := enf, ms_db := d\<rparr>)
           | (Inr _, enf, d) \<Rightarrow>
               (status 201, audit E c req ''policy.create'' ''policy'' expression (st\<lparr>ms_enf := enf, ms_db := d\<rparr>))))"

definition deletePolicy ::
  "('k, 'p, 'd) mgmt_env \<Rightarrow> claims option \<Rightarrow> request \<Rightarrow> string \<Rightarrow> ('p, 'd) mgmt \<Rightarrow> response \<times> ('p, 'd) mgmt" where
  "deletePolicy E c req idStr st =
     (case ParseInt idStr of
        None \<Rightarrow> (http_error [] ''invalid id'' 400, st)
      | Some pid \<Rightarrow>
          (case st_DeletePolicy (mg_db E) pid (ms_db st) of
             (Inl e, d) \<Rightarrow> (not_found_or ''policy not found'' e, st\<lparr>ms_db := d\<rparr>)
           | (Inr _, d) \<Rightarrow>
               (status 204, audit E c req ''policy.delete'' ''policy'' idStr
                  (st\<lparr>ms_db := d, ms_enf := snd (ReloadPolicies (mg_cel E) (mg_db E) (ms_enf st) d)\<rparr>))))"


subsection \<open>Scripts\<close>

text \<open>A path relative to the working directory, and the calls on it. \<^verbatim>\<open>os.Remove(".")\<close> fails.\<close>

definition in_cwd :: "string list \<Rightarrow> string \<Rightarrow> string list" where
  "in_cwd cwd p = (if p = ''.'' then cwd else cwd @ Split p CHR ''/'')"

definition os_ReadFile :: "string list \<Rightarrow> string \<Rightarrow> fs \<Rightarrow> bytes res" where
  "os_ReadFile cwd p s =
     (case os_Stat (in_cwd cwd p) s of Inl e \<Rightarrow> Inl e | Inr Dir \<Rightarrow> Inl EISDIR | Inr (File d) \<Rightarrow> Inr d)"

definition os_WriteFile :: "string list \<Rightarrow> string \<Rightarrow> bytes \<Rightarrow> fs \<Rightarrow> unit res \<times> fs" where
  "os_WriteFile cwd p dat s =
     (case os_OpenWrite True (in_cwd cwd p) s of
        (Inl e, s1) \<Rightarrow> (Inl e, s1)
      | (Inr _, s1) \<Rightarrow> (Inr (), file_append (in_cwd cwd p) dat s1))"

definition os_RemoveIn :: "string list \<Rightarrow> string \<Rightarrow> fs \<Rightarrow> unit res \<times> fs" where
  "os_RemoveIn cwd p s = (if p = ''.'' then (Inl EINVAL, s) else os_Remove (in_cwd cwd p) s)"

definition os_ReadDir :: "string list \<Rightarrow> string \<Rightarrow> fs \<Rightarrow> (string \<times> node) list res" where
  "os_ReadDir cwd p s =
     (let dir = in_cwd cwd p in
      case os_Stat dir s of
        Inl e \<Rightarrow> Inl e
      | Inr (File _) \<Rightarrow> Inl ENOTDIR
      | Inr Dir \<Rightarrow>
          Inr (sort_key fst (map (\<lambda>(q, n). (last q, n))
                 (filter (\<lambda>(q, n). length q = Suc (length dir) \<and> take (length dir) q = dir) s))))"

definition script_file :: "string \<Rightarrow> string" where
  "script_file name = path_Join [''scripts'', name]"

definition bad_script_name :: "string \<Rightarrow> bool" where
  "bad_script_name name \<longleftrightarrow> name = [] \<or> Contains name ''/'' \<or> Contains name [CHR 0x5C]"

definition invalid_script :: response where
  "invalid_script = http_error [] ''invalid script name'' 400"

definition missing_or :: "string \<Rightarrow> err \<Rightarrow> response" where
  "missing_or msg e = (if e = ENOENT then http_error [] msg 404 else failed e)"

definition script_doc :: "string \<Rightarrow> bool \<Rightarrow> json" where
  "script_doc name enabled = JObj [(''enabled'', JBool enabled), (''name'', JStr name)]"

definition listScripts :: "('k, 'p, 'd) mgmt_env \<Rightarrow> fs \<Rightarrow> response" where
  "listScripts E s =
     (case os_ReadDir (mg_cwd E) ''scripts'' s of
        Inl e \<Rightarrow> if e = ENOENT then reply 200 [] (JsonDoc (JArr [])) else failed e
      | Inr files \<Rightarrow>
          reply 200 [] (JsonDoc (doc_slice id (List.map_filter (\<lambda>(name, n).
            if n = Dir then None
            else if HasSuffix name ''.star'' then Some (script_doc name True)
            else if HasSuffix name ''.star.disabled'' then Some (script_doc (TrimSuffix name ''.disabled'') False)
            else None) files))))"

definition getScript :: "('k, 'p, 'd) mgmt_env \<Rightarrow> string \<Rightarrow> fs \<Rightarrow> response" where
  "getScript E name s =
     (if bad_script_name name then invalid_script
      else (case os_ReadFile (mg_cwd E) (script_file name) s of
              Inl e \<Rightarrow> missing_or ''not found'' e
            | Inr content \<Rightarrow> reply 200 [(''Content-Type'', ''text/plain'')] (Data content)))"

definition maxScriptBytes :: nat where
  "maxScriptBytes = 5 * 1024 * 1024"

text \<open>\<^verbatim>\<open>io.ReadAll(io.LimitReader(body, n))\<close>: the body is cut after \<open>n\<close> bytes, and an error beyond
  them is not seen.\<close>

definition read_limited :: "nat \<Rightarrow> stream \<Rightarrow> bytes res" where
  "read_limited n b =
     (case b of (cs, en) \<Rightarrow>
        if length (concat cs) < n
        then (case en of EOF \<Rightarrow> Inr (concat cs) | ReadErr e \<Rightarrow> Inl e)
        else Inr (take n (concat cs)))"

definition putScript ::
  "('k, 'p, 'd) mgmt_env \<Rightarrow> claims option \<Rightarrow> request \<Rightarrow> string \<Rightarrow> ('p, 'd) mgmt \<Rightarrow> response \<times> ('p, 'd) mgmt" where
  "putScript E c req name st =
     (if bad_script_name name then (invalid_script, st)
      else (case mkdir_from (mg_cwd E) [''scripts''] (ms_fs st) of
              (Inl e, s1) \<Rightarrow> (failed e, st\<lparr>ms_fs := s1\<rparr>)
            | (Inr _, s1) \<Rightarrow>
                (case read_limited maxScriptBytes (body_of req) of
                   Inl e \<Rightarrow> (http_error [] (err_msg e) 400, st\<lparr>ms_fs := s1\<rparr>)
                 | Inr content \<Rightarrow>
                     (case os_WriteFile (mg_cwd E) (script_file name) content s1 of
                        (Inl e, s2) \<Rightarrow> (failed e, st\<lparr>ms_fs := s2\<rparr>)
                      | (Inr _, s2) \<Rightarrow>
                          (status 200, audit E c req ''script.update'' ''script'' name (st\<lparr>ms_fs := s2\<rparr>))))))"

definition rename_script ::
  "('k, 'p, 'd) mgmt_env \<Rightarrow> claims option \<Rightarrow> request \<Rightarrow> string \<Rightarrow> string \<Rightarrow> string \<Rightarrow> string \<Rightarrow> string \<Rightarrow>
   ('p, 'd) mgmt \<Rightarrow> response \<times> ('p, 'd) mgmt" where
  "rename_script E c req name oldPath newPath msg action st =
     (case os_Rename (in_cwd (mg_cwd E) oldPath) (in_cwd (mg_cwd E) newPath) (ms_fs st) of
        (Inl e, s1) \<Rightarrow> (missing_or msg e, st\<lparr>ms_fs := s1\<rparr>)
      | (Inr _, s1) \<Rightarrow> (status 200, audit E c req action ''script'' name (st\<lparr>ms_fs := s1\<rparr>)))"

definition enableScript ::
  "('k, 'p, 'd) mgmt_env \<Rightarrow> claims option \<Rightarrow> request \<Rightarrow> string \<Rightarrow> ('p, 'd) mgmt \<Rightarrow> response \<times> ('p, 'd) mgmt" where
  "enableScript E c req name st =
     (if bad_script_name name then (invalid_script, st)
      else rename_script E c req name (script_file (name @ ''.disabled'')) (script_file name)
             ''script is already enabled or does not exist'' ''script.enable'' st)"

definition disableScript ::
  "('k, 'p, 'd) mgmt_env \<Rightarrow> claims option \<Rightarrow> request \<Rightarrow> string \<Rightarrow> ('p, 'd) mgmt \<Rightarrow> response \<times> ('p, 'd) mgmt" where
  "disableScript E c req name st =
     (if bad_script_name name then (invalid_script, st)
      else rename_script E c req name (script_file name) (script_file (name @ ''.disabled''))
             ''script is already disabled or does not exist'' ''script.disable'' st)"

definition deleteScript ::
  "('k, 'p, 'd) mgmt_env \<Rightarrow> claims option \<Rightarrow> request \<Rightarrow> string \<Rightarrow> ('p, 'd) mgmt \<Rightarrow> response \<times> ('p, 'd) mgmt" where
  "deleteScript E c req name st =
     (if bad_script_name name then (invalid_script, st)
      else (case os_RemoveIn (mg_cwd E) (script_file name) (ms_fs st) of
              (Inl e, s1) \<Rightarrow> (missing_or ''not found'' e, st\<lparr>ms_fs := s1\<rparr>)
            | (Inr _, s1) \<Rightarrow> (status 204, audit E c req ''script.delete'' ''script'' name (st\<lparr>ms_fs := s1\<rparr>))))"

subsection \<open>Access tokens\<close>

definition token_doc :: "('k, 'p, 'd) mgmt_env \<Rightarrow> access_token \<Rightarrow> json" where
  "token_doc E t =
     (let tm = (\<lambda>x. case x of None \<Rightarrow> JNull | Some v \<Rightarrow> JStr (mg_time E v)) in
      JObj [(''created_at'', JStr (mg_time E (tk_created t))), (''expires_at'', tm (tk_expires t)),
            (''id'', doc_int (int (tk_id t))), (''last_used_at'', tm (tk_used t)), (''name'', JStr (tk_name t)),
            (''scopes'', doc_slice JStr (tk_scopes t))])"

definition context_user :: "('k, 'p, 'd) mgmt_env \<Rightarrow> claims option \<Rightarrow> 'd \<Rightarrow> response + user" where
  "context_user E c d =
     (case c of
        None \<Rightarrow> Inl (http_error [] ''unauthorized'' 401)
      | Some cl \<Rightarrow>
          (case st_GetUserByUsername (mg_db E) (cl_subject cl) d of
             Inl _ \<Rightarrow> Inl (http_error [] ''User not found'' 404) | Inr u \<Rightarrow> Inr u))"

definition listAccessTokens :: "('k, 'p, 'd) mgmt_env \<Rightarrow> claims option \<Rightarrow> 'd \<Rightarrow> response" where
  "listAccessTokens E c d =
     (case context_user E c d of
        Inl r \<Rightarrow> r
      | Inr u \<Rightarrow>
          (case st_ListAccessTokens (mg_db E) (us_id u) d of
             Inl e \<Rightarrow> failed e
           | Inr ts \<Rightarrow> reply 200 json_type (JsonDoc (JArr (map (token_doc E) ts)))))"

definition hex_char :: "nat \<Rightarrow> char" where
  "hex_char n = ''0123456789abcdef'' ! n"

definition hex :: "bytes \<Rightarrow> string" where
  "hex bs = concat (map (\<lambda>b. [hex_char (of_char b div 16), hex_char (of_char b mod 16)]) bs)"

definition token_created :: "('k, 'p, 'd) mgmt_env \<Rightarrow> user \<Rightarrow> nat \<Rightarrow> string \<Rightarrow> string \<Rightarrow> int option \<Rightarrow> response" where
  "token_created E u tid name token expiresAt =
     reply 201 json_type (JsonDoc (JObj
       [(''docker_login'', JObj
           [(''command'', JStr (''docker login registry.afterdarksys.com -u '' @ us_name u @ ''-oci -p '' @ token)),
            (''password'', JStr token), (''registry'', JStr ''registry.afterdarksys.com''),
            (''username'', JStr (us_name u @ ''-oci''))]),
        (''expires_at'', case expiresAt of None \<Rightarrow> JNull | Some t \<Rightarrow> JStr (mg_time E t)),
        (''id'', doc_int (int tid)), (''name'', JStr name), (''token'', JStr token)]))"

text \<open>A day is 86400 seconds here.\<close>

definition createAccessToken ::
  "('k, 'p, 'd) mgmt_env \<Rightarrow> claims option \<Rightarrow> request \<Rightarrow> ('p, 'd) mgmt \<Rightarrow> response \<times> ('p, 'd) mgmt" where
  "createAccessToken E c req st =
     (case decode_body E req (\<lambda>kvs. case (decode_field set_string ''name'' kvs [], decode_field set_int ''expires_in'' kvs 0) of
             (Some n, Some k) \<Rightarrow> Some (n, k) | _ \<Rightarrow> None) of
        Inl e \<Rightarrow> (http_error [] ''Invalid request'' 400, st)
      | Inr (name, expiresIn) \<Rightarrow>
          if name = [] then (http_error [] ''Token name is required'' 400, st)
          else case context_user E c (ms_db st) of
            Inl r \<Rightarrow> (r, st)
          | Inr u \<Rightarrow>
              (case mg_rand E of
                 Inl _ \<Rightarrow> (http_error [] ''Failed to generate random token'' 500, st)
               | Inr rnd \<Rightarrow>
                   (let token = ''adsr_'' @ hex rnd in
                    case mg_hash E token of
                      Inl _ \<Rightarrow> (http_error [] ''Failed to generate token'' 500, st)
                    | Inr tokenHash \<Rightarrow>
                        (let expiresAt = (if 0 < expiresIn then Some (mg_now E + 86400 * expiresIn) else None) in
                         case st_CreateAccessToken (mg_db E) (us_id u) name tokenHash (us_scopes u) expiresAt (ms_db st) of
                           (Inl e, d) \<Rightarrow>
                             (if Contains (err_msg e) ''unique'' \<or> Contains (err_msg e) ''duplicate''
                              then http_error [] ''A token with this name already exists'' 409 else failed e, st\<lparr>ms_db := d\<rparr>)
                         | (Inr tid, d) \<Rightarrow> (token_created E u tid name token expiresAt, st\<lparr>ms_db := d\<rparr>)))))"

definition deleteAccessToken ::
  "('k, 'p, 'd) mgmt_env \<Rightarrow> claims option \<Rightarrow> string \<Rightarrow> ('p, 'd) mgmt \<Rightarrow> response \<times> ('p, 'd) mgmt" where
  "deleteAccessToken E c tokenIDStr st =
     (case ParseInt tokenIDStr of
        None \<Rightarrow> (http_error [] ''Invalid token ID'' 400, st)
      | Some tokenID \<Rightarrow>
          (case context_user E c (ms_db st) of
             Inl r \<Rightarrow> (r, st)
           | Inr u \<Rightarrow>
               (case st_ListAccessTokens (mg_db E) (us_id u) (ms_db st) of
                  Inl e \<Rightarrow> (failed e, st)
                | Inr ts \<Rightarrow>
                    (if \<not> list_ex (\<lambda>t. int (tk_id t) = tokenID) ts
                     then (http_error [] ''Token not found or does not belong to you'' 404, st)
                     else (case st_DeleteAccessToken (mg_db E) (nat tokenID) (ms_db st) of
                             (Inl e, d) \<Rightarrow> (failed e, st\<lparr>ms_db := d\<rparr>)
                           | (Inr _, d) \<Rightarrow> (status 204, st\<lparr>ms_db := d\<rparr>))))))"

subsection \<open>Immutable tags\<close>

fun LastIndex :: "string \<Rightarrow> string \<Rightarrow> nat option" where
  "LastIndex [] sub = (if sub = [] then Some 0 else None)"
| "LastIndex (c # s) sub =
     (case LastIndex s sub of Some i \<Rightarrow> Some (Suc i) | None \<Rightarrow> if HasPrefix (c # s) sub then Some 0 else None)"

definition patchTag ::
  "('k, 'p, 'd) mgmt_env \<Rightarrow> claims option \<Rightarrow> request \<Rightarrow> ('p, 'd) mgmt \<Rightarrow> response \<times> ('p, 'd) mgmt" where
  "patchTag E c req st =
     (let path = TrimPrefix (rq_path req) repositories_prefix in
      case LastIndex path ''/tags/'' of
        None \<Rightarrow> (http_error [] ''invalid path'' 400, st)
      | Some idx \<Rightarrow>
          (let repo = take idx path; reference = drop (idx + length ''/tags/'') path in
           if repo = [] \<or> reference = [] then (http_error [] ''repo and reference are required'' 400, st)
           else (case decode_body E req (\<lambda>kvs. decode_field set_bool ''immutable'' kvs False) of
                   Inl e \<Rightarrow> (http_error [] ''invalid request body'' 400, st)
                 | Inr immutable \<Rightarrow>
                     change_db E c req (not_found_or ''tag not found'') ''tag.set_immutable'' ''tag'' (repo @ '':'' @ reference)
                       (reply 200 json_type (JsonDoc (JObj [(''immutable'', JBool immutable),
                          (''reference'', JStr reference), (''repo'', JStr repo)])))
                       (st_SetTagImmutable (mg_db E) repo reference immutable) st)))"

subsection \<open>Configuration and log\<close>

definition getVulnGate :: "('k, 'p, 'd) mgmt_env \<Rightarrow> response" where
  "getVulnGate E =
     reply 200 json_type (JsonDoc (case mg_vulnGate E of
        None \<Rightarrow> JObj [(''allow_unscanned'', JBool True), (''block_severities'', JArr []), (''enabled'', JBool False)]
      | Some g \<Rightarrow> JObj [(''allow_unscanned'', JBool (vg_allow_unscanned g)),
                       (''block_severities'', doc_slice JStr (vg_block g)), (''enabled'', JBool (vg_enabled g))]))"

definition getLDAPStatus :: "('k, 'p, 'd) mgmt_env \<Rightarrow> response" where
  "getLDAPStatus E =
     reply 200 json_type (JsonDoc (JObj [(''base_dn'', JStr (lc_base (mg_ldap E))), (''enabled'', JBool (lc_enabled (mg_ldap E))),
       (''server'', JStr (lc_server (mg_ldap E))), (''use_ssl'', JBool (lc_ssl (mg_ldap E)))]))"

definition postLDAPSync :: "('k, 'p, 'd) mgmt_env \<Rightarrow> 'd \<Rightarrow> response" where
  "postLDAPSync E d =
     (if \<not> lc_enabled (mg_ldap E)
      then http_error [] (''{'' @ [CHR 0x22] @ ''error'' @ [CHR 0x22] @ '':'' @ [CHR 0x22] @ ''LDAP is not enabled'' @ [CHR 0x22] @ ''}'') 503
      else (case st_ListUsers (mg_db E) d of
              Inl e \<Rightarrow> failed e
            | Inr us \<Rightarrow> reply 200 json_type (JsonDoc (JObj
                [(''ldap_user_count'', doc_int (int (length (filter (\<lambda>u. us_hash u = [] \<or> us_hash u = ''ldap_managed_user'') us)))),
                 (''message'', JStr (''LDAP sync triggered '' @ [CHR 0xE2, CHR 0x80, CHR 0x94] @
                    '' users will get updated scopes on next login''))]))))"

definition getOIDCStatus :: "('k, 'p, 'd) mgmt_env \<Rightarrow> response" where
  "getOIDCStatus E =
     reply 200 json_type (JsonDoc (JObj [(''client_id'', JStr (oc_client (mg_oidc E))), (''enabled'', JBool (oc_enabled (mg_oidc E))),
       (''issuer'', JStr (oc_issuer (mg_oidc E)))]))"

definition audit_doc :: "('k, 'p, 'd) mgmt_env \<Rightarrow> nat \<times> int \<times> audit_entry \<Rightarrow> json" where
  "audit_doc E r = (case r of (i, t, e) \<Rightarrow>
     JObj [(''ID'', doc_int (int i)), (''Timestamp'', JStr (mg_time E t)), (''Actor'', JStr (au_actor e)), (''ActorIP'', JStr (au_ip e)), (''Action'', JStr (au_action e)),
     (''ResourceType'', JStr (au_type e)), (''ResourceID'', JStr (au_resource e)), (''Outcome'', JStr (au_outcome e)),
     (''Detail'', if au_detail e = [] then JNull else JObj (map (\<lambda>(k, v). (k, JStr v)) (au_detail e)))])"

definition mgmt_listAuditLogs :: "('k, 'p, 'd) mgmt_env \<Rightarrow> 'd \<Rightarrow> response" where
  "mgmt_listAuditLogs E d = list_docs (audit_doc E) json_type (st_ListAuditLogs (mg_db E) 500 d)"


subsection \<open>Routes\<close>

datatype mgmt_handler =
    M_listAccessTokens | M_createAccessToken | M_deleteAccessToken
  | M_getStats | M_listUsers | M_createUser | M_deleteUser | M_updateUser | M_resetPassword
  | M_listQuotas | M_setQuota | M_listGroups | M_createGroup | M_addUserToGroup
  | M_listRepositories | M_listTags | M_listManifestsForRepo | M_listUpstreams | M_listScans | M_getScanReport
  | M_getVulnGate | M_listPolicies | M_addPolicy | M_deletePolicy
  | M_listScripts | M_getScript | M_putScript | M_deleteScript | M_enableScript | M_disableScript
  | M_patchTag | M_listAuditLogs | M_getLDAPStatus | M_postLDAPSync | M_getOIDCStatus

definition user_routes :: "(string \<times> seg list \<times> mgmt_handler) list" where
  "user_routes =
     [(''GET'', [Fixed ''access-tokens''], M_listAccessTokens),
      (''POST'', [Fixed ''access-tokens''], M_createAccessToken),
      (''DELETE'', [Fixed ''access-tokens'', Param ''id''], M_deleteAccessToken)]"

definition admin_routes :: "(string \<times> seg list \<times> mgmt_handler) list" where
  "admin_routes =
     [(''GET'', [Fixed ''stats''], M_getStats),
      (''GET'', [Fixed ''users''], M_listUsers), (''POST'', [Fixed ''users''], M_createUser),
      (''DELETE'', [Fixed ''users'', Param ''username''], M_deleteUser),
      (''PUT'', [Fixed ''users'', Param ''username''], M_updateUser),
      (''POST'', [Fixed ''users'', Param ''username'', Fixed ''reset-password''], M_resetPassword),
      (''GET'', [Fixed ''quotas''], M_listQuotas), (''POST'', [Fixed ''quotas''], M_setQuota),
      (''GET'', [Fixed ''groups''], M_listGroups), (''POST'', [Fixed ''groups''], M_createGroup),
      (''POST'', [Fixed ''groups'', Param ''name'', Fixed ''users''], M_addUserToGroup),
      (''GET'', [Fixed ''repositories''], M_listRepositories)] @
     concat (map (\<lambda>pre. [(''GET'', Fixed ''repositories'' # pre @ [Fixed ''tags''], M_listTags),
                         (''GET'', Fixed ''repositories'' # pre @ [Fixed ''manifests''], M_listManifestsForRepo)]) repo_prefixes) @
     [(''GET'', [Fixed ''upstreams''], M_listUpstreams),
      (''GET'', [Fixed ''scans''], M_listScans), (''GET'', [Fixed ''scans'', Param ''digest''], M_getScanReport),
      (''GET'', [Fixed ''vuln-gate''], M_getVulnGate),
      (''GET'', [Fixed ''policies''], M_listPolicies), (''POST'', [Fixed ''policies''], M_addPolicy),
      (''DELETE'', [Fixed ''policies'', Param ''id''], M_deletePolicy),
      (''GET'', [Fixed ''scripts''], M_listScripts), (''GET'', [Fixed ''scripts'', Param ''name''], M_getScript),
      (''PUT'', [Fixed ''scripts'', Param ''name''], M_putScript), (''DELETE'', [Fixed ''scripts'', Param ''name''], M_deleteScript),
      (''POST'', [Fixed ''scripts'', Param ''name'', Fixed ''enable''], M_enableScript),
      (''POST'', [Fixed ''scripts'', Param ''name'', Fixed ''disable''], M_disableScript)] @
     map (\<lambda>pre. (''PATCH'', Fixed ''repositories'' # pre @ [Fixed ''tags'', Param ''reference''], M_patchTag))
       (rev (butlast repo_prefixes)) @
     [(''GET'', [Fixed ''audit-logs''], M_listAuditLogs),
      (''GET'', [Fixed ''ldap'', Fixed ''status''], M_getLDAPStatus), (''POST'', [Fixed ''ldap'', Fixed ''sync''], M_postLDAPSync),
      (''GET'', [Fixed ''auth'', Fixed ''oidc'', Fixed ''status''], M_getOIDCStatus)]"

definition mgmt_prefix :: string where
  "mgmt_prefix = ''/api/v1/management/''"

text \<open>The route of a request; chi does not match a parameter at the end of a pattern with an empty segment.\<close>

definition route_fits :: "string \<Rightarrow> string list \<Rightarrow> string \<times> seg list \<times> mgmt_handler \<Rightarrow> bool" where
  "route_fits m ss r =
     (case r of (m', pat, h) \<Rightarrow> m' = m \<and> seg_matches pat ss \<and>
        (case last pat of Param _ \<Rightarrow> last ss \<noteq> [] | Fixed _ \<Rightarrow> True))"

definition mgmt_segs :: "request \<Rightarrow> string list" where
  "mgmt_segs req = Split (drop (length mgmt_prefix) (rq_path req)) CHR ''/''"

definition mgmt_route :: "request \<Rightarrow> (bool \<times> seg list \<times> mgmt_handler) option" where
  "mgmt_route req =
     (if HasPrefix (rq_path req) mgmt_prefix then
        (case find (route_fits (rq_method req) (mgmt_segs req)) user_routes of
           Some (_, pat, h) \<Rightarrow> Some (False, pat, h)
         | None \<Rightarrow>
             map_option (\<lambda>(_, pat, h). (True, pat, h)) (find (route_fits (rq_method req) (mgmt_segs req)) admin_routes))
      else None)"

definition run_mgmt ::
  "('k, 'p, 'd) mgmt_env \<Rightarrow> mgmt_handler \<Rightarrow> (string \<Rightarrow> string) \<Rightarrow> claims option \<Rightarrow> request \<Rightarrow> ('p, 'd) mgmt \<Rightarrow>
   outcome \<times> ('p, 'd) mgmt" where
  "run_mgmt E h par c req st =
     (let d = ms_db st; pure = (\<lambda>r. (Respond r, st)); chg = (\<lambda>x. (Respond (fst x), snd x)) in
      case h of
        M_listAccessTokens \<Rightarrow> pure (listAccessTokens E c d)
      | M_createAccessToken \<Rightarrow> chg (createAccessToken E c req st)
      | M_deleteAccessToken \<Rightarrow> chg (deleteAccessToken E c (par ''id'') st)
      | M_getStats \<Rightarrow> (getStats E d, st)
      | M_listUsers \<Rightarrow> pure (listUsers E d)
      | M_createUser \<Rightarrow> chg (createUser E c req st)
      | M_deleteUser \<Rightarrow> chg (deleteUser E c req (par ''username'') st)
      | M_updateUser \<Rightarrow> chg (updateUser E c req (par ''username'') st)
      | M_resetPassword \<Rightarrow> chg (resetPassword E c req (par ''username'') st)
      | M_listQuotas \<Rightarrow> pure (listQuotas E d)
      | M_setQuota \<Rightarrow> chg (setQuota E c req st)
      | M_listGroups \<Rightarrow> pure (listGroups E d)
      | M_createGroup \<Rightarrow> chg (createGroup E c req st)
      | M_addUserToGroup \<Rightarrow> chg (addUserToGroup E c req (par ''name'') st)
      | M_listRepositories \<Rightarrow> pure (listRepositories E d)
      | M_listTags \<Rightarrow> pure (listTags E req d)
      | M_listManifestsForRepo \<Rightarrow> pure (listManifestsForRepo E req d)
      | M_listUpstreams \<Rightarrow> pure (listUpstreams E d)
      | M_listScans \<Rightarrow> pure (listScans E d)
      | M_getScanReport \<Rightarrow> chg (mgmt_getScanReport E req (par ''digest'') st)
      | M_getVulnGate \<Rightarrow> pure (getVulnGate E)
      | M_listPolicies \<Rightarrow> pure (listPolicies E d)
      | M_addPolicy \<Rightarrow> chg (addPolicy E c req st)
      | M_deletePolicy \<Rightarrow> chg (deletePolicy E c req (par ''id'') st)
      | M_listScripts \<Rightarrow> pure (listScripts E (ms_fs st))
      | M_getScript \<Rightarrow> pure (getScript E (par ''name'') (ms_fs st))
      | M_putScript \<Rightarrow> chg (putScript E c req (par ''name'') st)
      | M_deleteScript \<Rightarrow> chg (deleteScript E c req (par ''name'') st)
      | M_enableScript \<Rightarrow> chg (enableScript E c req (par ''name'') st)
      | M_disableScript \<Rightarrow> chg (disableScript E c req (par ''name'') st)
      | M_patchTag \<Rightarrow> chg (patchTag E c req st)
      | M_listAuditLogs \<Rightarrow> pure (mgmt_listAuditLogs E d)
      | M_getLDAPStatus \<Rightarrow> pure (getLDAPStatus E)
      | M_postLDAPSync \<Rightarrow> pure (postLDAPSync E d)
      | M_getOIDCStatus \<Rightarrow> pure (getOIDCStatus E))"

definition serve_mgmt ::
  "('k, 'p, 'd) mgmt_env \<Rightarrow> request \<Rightarrow> ('p, 'd) mgmt \<Rightarrow> outcome \<times> ('p, 'd) mgmt" where
  "serve_mgmt E req st =
     (case mgmt_route req of
        None \<Rightarrow> (Respond (mg_unrouted E req), st)
      | Some (admin, pat, h) \<Rightarrow>
          (let par = (\<lambda>k. case map_of (bind_segs pat (mgmt_segs req)) k of None \<Rightarrow> [] | Some v \<Rightarrow> v) in
           case (if admin then ProtectAdmin else Protect) (mg_jwt E) (mgmt_auth E (ms_db st)) (mg_now E) req of
             Answer r \<Rightarrow> (Respond r, st)
           | Next c \<Rightarrow> run_mgmt E h par c req st))"

end
