(* ===== verification/Accounts.thy ===== *)
theory Accounts
  imports Postgres_Integrity
begin

text \<open>
  Users, groups and access tokens in the PostgreSQL store: every reachable database has unique names and
  identifiers in these tables, every token and every membership belongs to an account that exists, and what
  the operations on accounts do to them.
\<close>

subsection \<open>Referential integrity of the accounts\<close>

definition accounts_inv :: "db \<Rightarrow> bool" where
  "accounts_inv s \<longleftrightarrow>
     distinct (map ur_name (users s)) \<and> distinct (map ur_id (users s)) \<and>
     distinct (map gr_name (groups s)) \<and> distinct (map gr_id (groups s)) \<and>
     distinct (map tr_id (tokens s)) \<and> distinct (user_groups s) \<and>
     (\<forall>i \<in> set (map ur_id (users s)). i < next_id s) \<and> (\<forall>i \<in> set (map gr_id (groups s)). i < next_id s) \<and>
     (\<forall>i \<in> set (map tr_id (tokens s)). i < next_id s) \<and> set (map tr_user (tokens s)) \<subseteq> set (map ur_id (users s)) \<and>
     set (map fst (user_groups s)) \<subseteq> set (map ur_id (users s)) \<and> set (map snd (user_groups s)) \<subseteq> set (map gr_id (groups s))"

text \<open>The invariant depends on the tables of accounts only, and lets the counter grow.\<close>

lemma accounts_frame:
  assumes "accounts_inv s" "map ur_name (users s') = map ur_name (users s)" "map ur_id (users s') = map ur_id (users s)"
    "groups s' = groups s" "map tr_id (tokens s') = map tr_id (tokens s)" "map tr_user (tokens s') = map tr_user (tokens s)"
    "user_groups s' = user_groups s" "next_id s \<le> next_id s'"
  shows "accounts_inv s'"
  using assms(1,8) unfolding accounts_inv_def assms(2-7) by force

definition account_tables :: "db \<Rightarrow> user_row list \<times> group list \<times> token_row list \<times> (nat \<times> nat) list" where
  "account_tables s = (users s, groups s, tokens s, user_groups s)"

lemma accounts_frame': "accounts_inv s \<Longrightarrow> account_tables s' = account_tables s \<Longrightarrow> next_id s \<le> next_id s' \<Longrightarrow> accounts_inv s'"
  by (rule accounts_frame) (auto simp: account_tables_def)

lemma namespace_tables:
  "account_tables (snd (pg_CreateNamespace n s)) = account_tables s" "next_id s \<le> next_id (snd (pg_CreateNamespace n s))"
  "account_tables (snd (insert_repository i r s)) = account_tables s" "next_id s \<le> next_id (snd (insert_repository i r s))"
  by (auto simp: account_tables_def pg_CreateNamespace_def insert_repository_def split: option.splits)

lemma repository_tables:
  "account_tables (snd (pg_CreateRepository n r s)) = account_tables s \<and> next_id s \<le> next_id (snd (pg_CreateRepository n r s))"
proof (cases "ns_lookup n s")
  case None
  obtain u s1 where s1: "pg_CreateNamespace n s = (Inr u, s1)" by (simp add: pg_CreateNamespace_def)
  then have "account_tables s1 = account_tables s" "next_id s \<le> next_id s1" using namespace_tables(1) [where n = n and s = s] namespace_tables(2) [where n = n and s = s] by auto
  with s1 None show ?thesis
    using namespace_tables(3) [where i = "case ns_lookup n s1 of Some nid \<Rightarrow> nid | None \<Rightarrow> 0" and r = r and s = s1]
      namespace_tables(4) [where i = "case ns_lookup n s1 of Some nid \<Rightarrow> nid | None \<Rightarrow> 0" and r = r and s = s1]
    by (simp add: pg_CreateRepository_def)
qed (simp add: pg_CreateRepository_def namespace_tables)

lemma upsert_tables: "account_tables (upsert_manifest i f m d p s) = account_tables s" "next_id (upsert_manifest i f m d p s) = next_id s"
  by (auto simp: account_tables_def upsert_manifest_def)

lemma manifest_tables:
  "account_tables (snd (pg_PutManifest r f m d p s)) = account_tables s \<and> next_id s \<le> next_id (snd (pg_PutManifest r f m d p s))"
proof -
  obtain ns n where nr: "parseRepoPath r = (ns, n)" by force
  obtain s1 where s1: "pg_CreateNamespace ns s = (Inr (), s1)" by (simp add: pg_CreateNamespace_def)
  obtain r2 s2 where s2: "pg_CreateRepository ns n s1 = (r2, s2)" by force
  have "account_tables s2 = account_tables s" "next_id s \<le> next_id s2"
    using namespace_tables(1) [where n = ns and s = s] namespace_tables(2) [where n = ns and s = s] repository_tables [of ns n s1] s1 s2 by auto
  with nr s1 s2 show ?thesis
    by (auto simp: pg_PutManifest_def upsert_tables split: sum.splits option.splits)
qed

lemma quota_tables:
  "account_tables (snd (pg_SetQuota n l s)) = account_tables s \<and> next_id s \<le> next_id (snd (pg_SetQuota n l s))"
proof -
  obtain s1 where s1: "pg_CreateNamespace n s = (Inr (), s1)" by (simp add: pg_CreateNamespace_def)
  then have "account_tables s1 = account_tables s" "next_id s \<le> next_id s1" using namespace_tables(1) [where n = n and s = s] namespace_tables(2) [where n = n and s = s] by auto
  with s1 show ?thesis by (auto simp: pg_SetQuota_def account_tables_def split: option.splits)
qed

lemmas store_tables = namespace_tables repository_tables manifest_tables quota_tables

lemma side_tables:
  "account_tables (snd (pg_DeleteManifest r f s)) = account_tables s \<and> next_id (snd (pg_DeleteManifest r f s)) = next_id s"
  "account_tables (snd (pg_SetTagImmutable r f b s)) = account_tables s \<and> next_id (snd (pg_SetTagImmutable r f b s)) = next_id s"
  "account_tables (snd (pg_PutBlob d k mt s)) = account_tables s \<and> next_id (snd (pg_PutBlob d k mt s)) = next_id s"
  "account_tables (snd (pg_DeleteBlob d s)) = account_tables s \<and> next_id (snd (pg_DeleteBlob d s)) = next_id s"
  "account_tables (snd (pg_SaveScanReport d sc dat s)) = account_tables s \<and> next_id (snd (pg_SaveScanReport d sc dat s)) = next_id s"
  "account_tables (snd (pg_UpdateQuotaUsage n k' s)) = account_tables s \<and> next_id (snd (pg_UpdateQuotaUsage n k' s)) = next_id s"
  "account_tables (snd (pg_RecordLoginAttempt u ip ok s)) = account_tables s \<and> next_id (snd (pg_RecordLoginAttempt u ip ok s)) = next_id s"
  "account_tables (snd (pg_DeletePolicy pid s)) = account_tables s \<and> next_id (snd (pg_DeletePolicy pid s)) = next_id s"
  "account_tables (snd (pg_SetArtifactMetadata a s)) = account_tables s \<and> next_id (snd (pg_SetArtifactMetadata a s)) = next_id s"
  "account_tables (snd (pg_UpdateUpstreamToken uid tok ex s)) = account_tables s \<and> next_id (snd (pg_UpdateUpstreamToken uid tok ex s)) = next_id s"
  "account_tables (snd (pg_DeleteUpstream uid s)) = account_tables s \<and> next_id (snd (pg_DeleteUpstream uid s)) = next_id s"
  by (simp_all add: account_tables_def pg_DeleteManifest_def pg_SetTagImmutable_def pg_PutBlob_def pg_DeleteBlob_def
      pg_SaveScanReport_def pg_UpdateQuotaUsage_def pg_RecordLoginAttempt_def pg_DeletePolicy_def pg_SetArtifactMetadata_def
      pg_UpdateUpstreamToken_def pg_DeleteUpstream_def Let_def split: option.split)

lemma growing_tables:
  "account_tables (snd (pg_AddPolicy e s)) = account_tables s \<and> next_id s \<le> next_id (snd (pg_AddPolicy e s))"
  "account_tables (snd (pg_WriteAuditLog ae s)) = account_tables s \<and> next_id s \<le> next_id (snd (pg_WriteAuditLog ae s))"
  "account_tables (snd (pg_CreateUpstream un ty ep rg ak sk en ce po ttl s)) = account_tables s \<and>
     next_id s \<le> next_id (snd (pg_CreateUpstream un ty ep rg ak sk en ce po ttl s))"
  by (simp_all add: account_tables_def pg_AddPolicy_def pg_WriteAuditLog_def pg_CreateUpstream_def)

subsection \<open>The operations on accounts\<close>

lemma accounts_fresh:
  "accounts_inv s \<Longrightarrow> next_id s \<notin> ur_id ` set (users s) \<and> next_id s \<notin> gr_id ` set (groups s) \<and> next_id s \<notin> tr_id ` set (tokens s)"
  by (auto simp: accounts_inv_def)

lemma accounts_CreateUser:
  assumes "accounts_inv s"
  shows "accounts_inv (snd (pg_CreateUser u h scs s))"
proof (cases "list_ex (\<lambda>r. ur_name r = u) (users s)")
  case False
  then have "u \<notin> ur_name ` set (users s)" by (auto simp: list_ex_iff)
  with False show ?thesis using assms accounts_fresh [OF assms]
    by (simp add: accounts_inv_def pg_CreateUser_def subset_insertI2 less_Suc_eq)
qed (simp add: pg_CreateUser_def assms)

lemma accounts_updates:
  assumes "accounts_inv s"
  shows "accounts_inv (snd (pg_UpdateUser u scs s))" "accounts_inv (snd (pg_UpdateUserPassword u h s))"
    "accounts_inv (snd (pg_UpdateAccessTokenLastUsed tid s))"
  by (rule accounts_frame [OF assms]; simp add: pg_UpdateUser_def pg_UpdateUserPassword_def pg_UpdateAccessTokenLastUsed_def)+

text \<open>The account with a name is the only one, so what the deletion leaves belongs to others.\<close>

lemma accounts_unique: "accounts_inv s \<Longrightarrow> u \<in> set (users s) \<Longrightarrow> v \<in> set (users s) \<Longrightarrow> ur_id u = ur_id v \<or> ur_name u = ur_name v \<Longrightarrow> u = v"
  by (auto simp: accounts_inv_def distinct_map dest: inj_onD)

lemma find_user: "find (\<lambda>r. ur_name r = n) (users s) = Some u \<Longrightarrow> u \<in> set (users s) \<and> ur_name u = n"
  by (auto simp: find_Some_iff)

lemma accounts_DeleteUser: 
  assumes "accounts_inv s"
  shows "accounts_inv (snd (pg_DeleteUser n s))"
proof (cases "find (\<lambda>r. ur_name r = n) (users s)")
  case (Some u)
  then have u: "u \<in> set (users s)" "ur_name u = n" by (auto dest: find_user)
  show ?thesis
  proof (cases "list_ex (\<lambda>(uid, gid). uid = ur_id u) (user_groups s)")
    case False
    let ?us = "filter (\<lambda>r. ur_name r \<noteq> n) (users s)"
    have keep: "i \<in> ur_id ` set ?us" if i: "i \<in> ur_id ` set (users s)" "i \<noteq> ur_id u" for i
    proof -
      from i obtain v where v: "v \<in> set (users s)" "ur_id v = i" by blast
      with i have "v \<noteq> u" by blast
      then have "ur_name v \<noteq> n" using accounts_unique [OF assms v(1) u(1)] u(2) by metis
      then have "v \<in> set ?us" using v(1) by simp
      then show ?thesis using v(2) by blast
    qed
    have inv: "tr_user ` set (tokens s) \<subseteq> ur_id ` set (users s)" "fst ` set (user_groups s) \<subseteq> ur_id ` set (users s)"
      using assms by (simp_all add: accounts_inv_def)
    have tk: "tr_user ` set (filter (\<lambda>t. tr_user t \<noteq> ur_id u) (tokens s)) \<subseteq> ur_id ` set ?us"
    proof (rule image_subsetI)
      fix t assume "t \<in> set (filter (\<lambda>t. tr_user t \<noteq> ur_id u) (tokens s))"
      then show "tr_user t \<in> ur_id ` set ?us" using inv(1) keep by fastforce
    qed
    have ug: "fst ` set (user_groups s) \<subseteq> ur_id ` set ?us"
    proof (rule image_subsetI)
      fix p assume p: "p \<in> set (user_groups s)"
      then have "fst p \<noteq> ur_id u" using False by (auto simp: list_ex_iff)
      then show "fst p \<in> ur_id ` set ?us" using p inv(2) keep by blast
    qed
    have "accounts_inv (s\<lparr>users := ?us, tokens := filter (\<lambda>t. tr_user t \<noteq> ur_id u) (tokens s)\<rparr>)"
      using assms tk [unfolded set_filter] ug [unfolded set_filter]
      by (simp add: accounts_inv_def distinct_map_filter)
    then show ?thesis using Some False by (simp add: pg_DeleteUser_def)
  qed (simp add: pg_DeleteUser_def Some assms)
qed (simp add: pg_DeleteUser_def assms)

lemma accounts_CreateGroup:
  assumes "accounts_inv s"
  shows "accounts_inv (snd (pg_CreateGroup g s))"
proof (cases "list_ex (\<lambda>r. gr_name r = g) (groups s)")
  case False
  then have "g \<notin> gr_name ` set (groups s)" by (auto simp: list_ex_iff)
  with False show ?thesis using assms accounts_fresh [OF assms]
    by (simp add: accounts_inv_def pg_CreateGroup_def subset_insertI2 less_Suc_eq)
qed (simp add: pg_CreateGroup_def assms)

lemma accounts_AddUserToGroup:
  assumes "accounts_inv s"
  shows "accounts_inv (snd (pg_AddUserToGroup u g s))"
proof (cases "find (\<lambda>r. ur_name r = u) (users s)")
  case u: (Some ur)
  show ?thesis
  proof (cases "find (\<lambda>r. gr_name r = g) (groups s)")
    case g: (Some gr)
    have "ur_id ur \<in> ur_id ` set (users s)" "gr_id gr \<in> gr_id ` set (groups s)" using u g by (auto simp: find_Some_iff)
    with u g assms show ?thesis by (simp add: pg_AddUserToGroup_def accounts_inv_def)
  qed (simp add: pg_AddUserToGroup_def u assms)
qed (simp add: pg_AddUserToGroup_def assms)

lemma accounts_CreateAccessToken:
  assumes "accounts_inv s"
  shows "accounts_inv (snd (pg_CreateAccessToken uid tn h scs ex s))"
proof (cases "list_ex (\<lambda>t. tr_hash t = h \<or> tr_user t = uid \<and> tr_name t = tn) (tokens s) \<or> \<not> list_ex (\<lambda>r. ur_id r = uid) (users s)")
  case False
  then have "uid \<in> ur_id ` set (users s)" by (auto simp: list_ex_iff)
  with False show ?thesis using assms accounts_fresh [OF assms]
    by (simp add: accounts_inv_def pg_CreateAccessToken_def less_Suc_eq)
qed (auto simp: pg_CreateAccessToken_def assms)

lemma accounts_DeleteAccessToken:
  assumes "accounts_inv s"
  shows "accounts_inv (snd (pg_DeleteAccessToken tid s))"
proof -
  have "tr_user ` set (filter P (tokens s)) \<subseteq> ur_id ` set (users s)" for P
    using assms by (auto simp: accounts_inv_def)
  then show ?thesis using assms by (simp add: accounts_inv_def pg_DeleteAccessToken_def distinct_map_filter)
qed

lemmas account_ops = accounts_CreateUser accounts_updates accounts_DeleteUser accounts_CreateGroup accounts_AddUserToGroup
  accounts_CreateAccessToken accounts_DeleteAccessToken

lemma pg_reach_accounts: "pg_reach s \<Longrightarrow> accounts_inv s"
proof (induction rule: pg_reach.induct)
  case init
  show ?case by (simp add: accounts_inv_def empty_db_def)
next
  case (tick s t)
  show ?case by (rule accounts_frame [OF tick.IH]) auto
qed (assumption | rule account_ops
     | rule accounts_frame', assumption; simp add: store_tables side_tables growing_tables)+

text \<open>
  In every database reached by the store's operations, usernames, group names and the identifiers of
  users, groups and access tokens are unique, and every access token and every membership belongs to a
  user, and every membership to a group, that exists: in particular deleting a user leaves none of the
  user's tokens behind.
\<close>

theorem pg_reach_accounts_inv: "pg_reach s \<Longrightarrow> accounts_inv s"
  by (rule pg_reach_accounts)

theorem pg_reach_accounts_inv_witness:
  "accounts_inv (snd (pg_CreateAccessToken 1 ''ci'' ''h'' [''*''] None (snd (pg_CreateUser ''bob'' ''pw'' [''*''] empty_db)))) \<and>
   tokens (snd (pg_CreateAccessToken 1 ''ci'' ''h'' [''*''] None (snd (pg_CreateUser ''bob'' ''pw'' [''*''] empty_db)))) \<noteq> []"
proof
  show "accounts_inv (snd (pg_CreateAccessToken 1 ''ci'' ''h'' [''*''] None (snd (pg_CreateUser ''bob'' ''pw'' [''*''] empty_db))))"
    by (intro pg_reach_accounts_inv pg_reach.intros)
  show "tokens (snd (pg_CreateAccessToken 1 ''ci'' ''h'' [''*''] None (snd (pg_CreateUser ''bob'' ''pw'' [''*''] empty_db)))) \<noteq> []"
    by code_simp
qed

end
