(* ===== verification/Management_Properties.thy ===== *)
theory Management_Properties
  imports Management Accounts
begin

text \<open>
  The guarantees of the management API: who may use it, that its changes are logged, what its operations
  on accounts, tokens, tags and scripts leave behind, and where it fails.
\<close>

subsection \<open>Who may use it\<close>

text \<open>The claims of a request that carries the bearer token of an administrator.\<close>

definition admin_claims :: "('k, 'p, 'd) mgmt_env \<Rightarrow> request \<Rightarrow> claims option" where
  "admin_claims E req =
     (let h = rq_header req ''Authorization'' in
      if HasPrefix h ''Bearer ''
      then (case ParseToken (mg_jwt E) (mg_ts E) (mg_now E) (TrimPrefix h ''Bearer '') of
              Inl _ \<Rightarrow> None | Inr c \<Rightarrow> if list_ex admin_entry (cl_access c) then Some c else None)
      else None)"

lemma ProtectAdmin_cases:
  assumes "\<not> mg_developer E"
  shows "(\<exists>c. admin_claims E req = Some c \<and> ProtectAdmin (mg_jwt E) (mgmt_auth E d) (mg_now E) req = Next (Some c)) \<or>
         admin_claims E req = None \<and>
         (\<exists>r. ProtectAdmin (mg_jwt E) (mgmt_auth E d) (mg_now E) req = Answer r \<and> rs_status r \<in> {401, 403})"
  using assms by (auto simp: ProtectAdmin_def admin_claims_def mgmt_auth_def HasPrefix_def Let_def split: sum.splits)

lemma Split_hd_prefix: "Split s c = p # ps \<Longrightarrow> HasPrefix s p"
  by (induction s arbitrary: p ps) (auto simp: HasPrefix_def split: if_splits list.splits)

lemma HasPrefix_extend: "HasPrefix s p \<Longrightarrow> HasPrefix (drop (length p) s) q \<Longrightarrow> HasPrefix s (p @ q)"
  by (simp add: HasPrefix_def take_add)

lemma HasPrefix_both: "HasPrefix s p \<Longrightarrow> HasPrefix s q \<Longrightarrow> length q \<le> length p \<Longrightarrow> take (length q) p = q"
  by (metis HasPrefix_def min.absorb1 take_take)

lemma user_route_path:
  assumes "mgmt_route req = Some (False, pat, h)"
  shows "HasPrefix (rq_path req) (mgmt_prefix @ ''access-tokens'')"
proof -
  obtain m where f: "HasPrefix (rq_path req) mgmt_prefix" "find (route_fits (rq_method req) (mgmt_segs req)) user_routes = Some (m, pat, h)"
    using assms by (auto simp: mgmt_route_def split: if_splits option.splits)
  then have "(m, pat, h) \<in> set user_routes" "route_fits (rq_method req) (mgmt_segs req) (m, pat, h)"
    by (auto simp: find_Some_iff)
  then have "\<exists>q. seg_matches (Fixed ''access-tokens'' # q) (mgmt_segs req)"
    by (auto simp: user_routes_def route_fits_def)
  then obtain rest where "mgmt_segs req = ''access-tokens'' # rest" by (cases "mgmt_segs req") auto
  then have "HasPrefix (drop (length mgmt_prefix) (rq_path req)) ''access-tokens''"
    unfolding mgmt_segs_def by (rule Split_hd_prefix)
  with f(1) show ?thesis by (rule HasPrefix_extend)
qed

lemma mgmt_admin_route:
  assumes "mgmt_route req = Some (adm, pat, h)" "\<not> HasPrefix (rq_path req) (mgmt_prefix @ ''access-tokens'')"
  shows adm
  using assms user_route_path by (cases adm) auto

text \<open>(C20) 
  Outside developer mode a request that does not carry the bearer token of an administrator is refused by
  every route but those of the access tokens: the answer is 401 or 403 (or that of the router, when there is
  no such route) and neither the database nor the policies nor the scripts change.
\<close>

theorem mgmt_admin_only:
  assumes "\<not> mg_developer E" "admin_claims E req = None"
    and "\<not> HasPrefix (rq_path req) (mgmt_prefix @ ''access-tokens'')"
  shows "\<exists>r. serve_mgmt E req st = (Respond r, st) \<and> (r = mg_unrouted E req \<or> rs_status r \<in> {401, 403})"
proof (cases "mgmt_route req")
  case None
  then show ?thesis by (simp add: serve_mgmt_def)
next
  case (Some x)
  then obtain adm pat h where x: "mgmt_route req = Some (adm, pat, h)" by (cases x) auto
  from mgmt_admin_route [OF this assms(3)] have adm .
  with x ProtectAdmin_cases [OF assms(1), of req "ms_db st"] assms(2) show ?thesis
    by (auto simp: serve_mgmt_def)
qed

subsection \<open>The log\<close>

definition unchanged :: "('p, db) mgmt \<Rightarrow> ('p, db) mgmt \<Rightarrow> bool" where
  "unchanged st st' \<longleftrightarrow> ms_db st' = ms_db st \<and> ms_enf st' = ms_enf st \<and> (\<forall>p. file_at (ms_fs st') p = file_at (ms_fs st) p)"

definition logged :: "claims option \<Rightarrow> request \<Rightarrow> ('p, db) mgmt \<Rightarrow> ('p, db) mgmt \<Rightarrow> bool" where
  "logged c req st st' \<longleftrightarrow>
     (\<exists>i action typ resource. audits (ms_db st') = audits (ms_db st) @
        [\<lparr>ar_id = i, ar_at = now (ms_db st), ar_entry = audit_of c req action typ resource\<rparr>])"

text \<open>An operation of the store that leaves the log and the clock alone, and everything if it fails.\<close>

definition quiet :: "(db \<Rightarrow> 'a res \<times> db) \<Rightarrow> bool" where
  "quiet f \<longleftrightarrow> (\<forall>d. audits (snd (f d)) = audits d \<and> now (snd (f d)) = now d \<and> (is_ok (fst (f d)) \<or> snd (f d) = d))"

lemma CreateNamespace_log: "audits (snd (pg_CreateNamespace n d)) = audits d" "now (snd (pg_CreateNamespace n d)) = now d"
  by (auto simp: pg_CreateNamespace_def split: option.splits)

lemma find_append_new: "P x \<Longrightarrow> find P (xs @ [x]) \<noteq> None"
  by (induction xs) auto

lemma CreateNamespace_found: "\<exists>i. ns_lookup n (snd (pg_CreateNamespace n d)) = Some i"
proof (cases "ns_lookup n d")
  case None
  then show ?thesis
    using find_append_new [of "\<lambda>r. ns_name r = n" "\<lparr>ns_id = next_id d, ns_name = n\<rparr>" "namespaces d"]
    by (auto simp: pg_CreateNamespace_def ns_lookup_def)
qed (simp add: pg_CreateNamespace_def)

lemma quiet_SetQuota: "quiet (pg_SetQuota n l)"
proof -
  have "audits (snd (pg_SetQuota n l d)) = audits d \<and> now (snd (pg_SetQuota n l d)) = now d \<and> is_ok (fst (pg_SetQuota n l d))" for d
  proof -
    obtain s1 where s1: "pg_CreateNamespace n d = (Inr (), s1)" by (simp add: pg_CreateNamespace_def)
    moreover obtain i where "ns_lookup n s1 = Some i" using CreateNamespace_found [of n d] s1 by auto
    ultimately show ?thesis using CreateNamespace_log [of n d] by (simp add: pg_SetQuota_def)
  qed
  then show ?thesis by (simp add: quiet_def)
qed

lemma quiet_ops:
  "quiet (pg_CreateUser u h scs)" "quiet (pg_DeleteUser u)" "quiet (pg_UpdateUser u scs)" "quiet (pg_UpdateUserPassword u h)"
  "quiet (pg_CreateGroup g)" "quiet (pg_AddUserToGroup u g)" "quiet (pg_SetTagImmutable r f b)"
  "quiet (pg_AddPolicy e)" "quiet (pg_DeletePolicy i)"
  by (simp_all add: quiet_def pg_CreateUser_def pg_DeleteUser_def pg_UpdateUser_def pg_UpdateUserPassword_def
      pg_CreateGroup_def pg_AddUserToGroup_def pg_SetTagImmutable_def pg_AddPolicy_def pg_DeletePolicy_def split: option.split)

lemma pg_mgmt_sels [simp]:
  "st_CreateUser (pg_store bc) = pg_CreateUser" "st_DeleteUser (pg_store bc) = pg_DeleteUser"
  "st_UpdateUser (pg_store bc) = pg_UpdateUser" "st_UpdateUserPassword (pg_store bc) = pg_UpdateUserPassword"
  "st_SetQuota (pg_store bc) = pg_SetQuota" "st_CreateGroup (pg_store bc) = pg_CreateGroup"
  "st_AddUserToGroup (pg_store bc) = pg_AddUserToGroup" "st_SetTagImmutable (pg_store bc) = pg_SetTagImmutable"
  "st_AddPolicy (pg_store bc) = pg_AddPolicy" "st_DeletePolicy (pg_store bc) = pg_DeletePolicy"
  "st_ListPolicies (pg_store bc) = pg_ListPolicies" "st_WriteAuditLog (pg_store bc) = pg_WriteAuditLog"
  "st_ListAccessTokens (pg_store bc) = pg_ListAccessTokens" "st_DeleteAccessToken (pg_store bc) = pg_DeleteAccessToken"
  "st_GetUserByUsername (pg_store bc) = pg_GetUserByUsername" "st_CreateAccessToken (pg_store bc) = pg_CreateAccessToken"
  "st_ListUsers (pg_store bc) = pg_ListUsers" "st_ListManifests (pg_store bc) = pg_ListManifests"
  "st_AuthenticateUser (pg_store bc) = pg_AuthenticateUser bc"
  by (simp_all add: pg_store_def)

lemma audit_logged:
  assumes "mg_db E = pg_store bc" "audits (ms_db st1) = audits (ms_db st)" "now (ms_db st1) = now (ms_db st)"
  shows "logged c req st (audit E c req action typ resource st1)"
  using assms by (auto simp: logged_def audit_def pg_WriteAuditLog_def)

lemma unchanged_refl [simp]: "unchanged st st"
  by (simp add: unchanged_def)

lemma change_db_settled:
  assumes "mg_db E = pg_store bc" "quiet f" "change_db E c req bad action typ resource resp f st = (r, st')"
  shows "unchanged st st' \<or> logged c req st st'"
proof -
  obtain x d where f: "f (ms_db st) = (x, d)" by force
  with assms(2) have q: "audits d = audits (ms_db st)" "now d = now (ms_db st)" "is_ok x \<or> d = ms_db st"
    by (auto simp: quiet_def dest: spec [of _ "ms_db st"])
  show ?thesis
  proof (cases x)
    case (Inl e)
    with assms(3) f q show ?thesis by (auto simp: change_db_def unchanged_def)
  next
    case (Inr u)
    with assms(3) f have "st' = audit E c req action typ resource (st\<lparr>ms_db := d\<rparr>)" by (simp add: change_db_def)
    then show ?thesis using audit_logged [OF assms(1), of "st\<lparr>ms_db := d\<rparr>" st] q by simp
  qed
qed

lemma mkdir_from_files: "mkdir_from pre cs s = (r, s') \<Longrightarrow> file_at s' p = file_at s p"
proof (induction cs arbitrary: pre s)
  case (Cons c cs)
  have "file_at (upd (pre @ [c]) Dir s) p = file_at s p" if "look s (pre @ [c]) = None"
    using that by (auto simp: file_at_def)
  with Cons show ?case by (auto split: option.splits node.splits)
qed simp


lemma settledI:
  assumes "mg_db E = pg_store bc"
  shows "unchanged st st \<or> logged c req st st"
    "quiet f \<Longrightarrow> unchanged st (snd (change_db E c req bad action typ resource resp f st)) \<or>
       logged c req st (snd (change_db E c req bad action typ resource resp f st))"
  using change_db_settled [OF assms _ prod.collapse [symmetric]] by auto

lemma accounts_settled:
  assumes E: "mg_db E = pg_store bc"
  shows "unchanged st (snd (createUser E c req st)) \<or> logged c req st (snd (createUser E c req st))"
    "unchanged st (snd (deleteUser E c req u st)) \<or> logged c req st (snd (deleteUser E c req u st))"
    "unchanged st (snd (updateUser E c req u st)) \<or> logged c req st (snd (updateUser E c req u st))"
    "unchanged st (snd (resetPassword E c req u st)) \<or> logged c req st (snd (resetPassword E c req u st))"
    "unchanged st (snd (setQuota E c req st)) \<or> logged c req st (snd (setQuota E c req st))"
    "unchanged st (snd (createGroup E c req st)) \<or> logged c req st (snd (createGroup E c req st))"
    "unchanged st (snd (addUserToGroup E c req u st)) \<or> logged c req st (snd (addUserToGroup E c req u st))"
    "unchanged st (snd (patchTag E c req st)) \<or> logged c req st (snd (patchTag E c req st))"
  using settledI(2) [OF E] quiet_ops quiet_SetQuota E
  by (simp_all add: createUser_def deleteUser_def updateUser_def resetPassword_def setQuota_def createGroup_def
      addUserToGroup_def patchTag_def Let_def split: sum.split prod.split option.split)

lemma addPolicy_settled:
  assumes E: "mg_db E = pg_store bc"
  shows "unchanged st (snd (addPolicy E c req st)) \<or> logged c req st (snd (addPolicy E c req st))"
proof (cases "decode_body E req (\<lambda>kvs. decode_field set_string ''expression'' kvs [])")
  case (Inr ex)
  show ?thesis
  proof (cases "ce_compile (mg_cel E) ex")
    case None
    with Inr show ?thesis by (simp add: addPolicy_def AddRule_def unchanged_def)
  next
    case (Some pr)
    let ?d = "snd (pg_AddPolicy ex (ms_db st))"
    obtain enf where "AddRule (mg_cel E) (mg_db E) ex (ms_enf st) (ms_db st) = (Inr (), enf, ?d)"
      using Some E by (auto simp: AddRule_def pg_AddPolicy_def ReloadPolicies_def pg_ListPolicies_def)
    with Inr have "snd (addPolicy E c req st) = audit E c req ''policy.create'' ''policy'' ex (st\<lparr>ms_enf := enf, ms_db := ?d\<rparr>)"
      by (simp add: addPolicy_def)
    then show ?thesis using audit_logged [OF E, of "st\<lparr>ms_enf := enf, ms_db := ?d\<rparr>" st] quiet_ops(8) [of ex]
      by (simp add: quiet_def)
  qed
qed (simp add: addPolicy_def)

lemma deletePolicy_settled:
  assumes E: "mg_db E = pg_store bc"
  shows "unchanged st (snd (deletePolicy E c req i st)) \<or> logged c req st (snd (deletePolicy E c req i st))"
proof (cases "ParseInt i")
  case (Some n)
  obtain r d where op: "pg_DeletePolicy n (ms_db st) = (r, d)" by force
  then have q: "audits d = audits (ms_db st)" "now d = now (ms_db st)" "is_ok r \<or> d = ms_db st"
    using quiet_ops(9) [of n] by (auto simp: quiet_def dest: spec [of _ "ms_db st"])
  show ?thesis
  proof (cases r)
    case (Inl e)
    with Some op q E show ?thesis by (simp add: deletePolicy_def unchanged_def)
  next
    case (Inr u)
    with Some op E have "snd (deletePolicy E c req i st) =
        audit E c req ''policy.delete'' ''policy'' i (st\<lparr>ms_db := d, ms_enf := snd (ReloadPolicies (mg_cel E) (mg_db E) (ms_enf st) d)\<rparr>)"
      by (simp add: deletePolicy_def)
    then show ?thesis
      using audit_logged [OF E, of "st\<lparr>ms_db := d, ms_enf := snd (ReloadPolicies (mg_cel E) (mg_db E) (ms_enf st) d)\<rparr>" st] q by simp
  qed
qed (simp add: deletePolicy_def)

lemma failed_calls:
  "os_Rename p q s = (Inl e, s') \<Longrightarrow> s' = s" "os_Remove p s = (Inl e, s') \<Longrightarrow> s' = s" "os_RemoveIn cwd n s = (Inl e, s') \<Longrightarrow> s' = s"
  "os_WriteFile cwd n dat s = (Inl e, s') \<Longrightarrow> s' = s"
proof -
  show "os_Rename p q s = (Inl e, s') \<Longrightarrow> s' = s"
    by (auto simp: os_Rename_def split: sum.splits node.splits if_splits option.splits)
  show rm: "os_Remove p s = (Inl e, s') \<Longrightarrow> s' = s" for p
    by (auto simp: os_Remove_def split: sum.splits node.splits if_splits)
  show "os_RemoveIn cwd n s = (Inl e, s') \<Longrightarrow> s' = s"
    using rm by (auto simp: os_RemoveIn_def split: if_splits)
  show "os_WriteFile cwd n dat s = (Inl e, s') \<Longrightarrow> s' = s"
    by (auto simp: os_WriteFile_def os_OpenWrite_def split: sum.splits node.splits if_splits prod.splits)
qed

lemma audit_scripts:
  assumes "mg_db E = pg_store bc"
  shows "logged c req st (audit E c req action typ resource (st\<lparr>ms_fs := s\<rparr>))"
  by (rule audit_logged [OF assms]) simp_all

lemma rename_settled:
  assumes "mg_db E = pg_store bc"
  shows "unchanged st (snd (rename_script E c req name p q msg action st)) \<or> logged c req st (snd (rename_script E c req name p q msg action st))"
  using failed_calls(1) [of "in_cwd (mg_cwd E) p" "in_cwd (mg_cwd E) q" "ms_fs st"] audit_scripts [OF assms]
  by (auto simp: rename_script_def unchanged_def split: prod.split sum.split)

lemma putScript_settled:
  assumes E: "mg_db E = pg_store bc"
  shows "unchanged st (snd (putScript E c req name st)) \<or> logged c req st (snd (putScript E c req name st))"
proof (cases "bad_script_name name")
  case False
  obtain r s1 where mk: "mkdir_from (mg_cwd E) [''scripts''] (ms_fs st) = (r, s1)" by (meson surj_pair)
  then have f: "file_at s1 p = file_at (ms_fs st) p" for p by (rule mkdir_from_files)
  show ?thesis
  proof (cases "is_ok r \<and> is_ok (read_limited maxScriptBytes (body_of req))")
    case bad: False
    with False mk f show ?thesis by (auto simp: putScript_def unchanged_def split: sum.split prod.split)
  next
    case True
    then obtain content where ok: "r = Inr ()" "read_limited maxScriptBytes (body_of req) = Inr content" by (auto simp: is_ok_iff)
    obtain w s2 where wr: "os_WriteFile (mg_cwd E) (script_file name) content s1 = (w, s2)" by force
    show ?thesis
    proof (cases w)
      case (Inl e)
      with wr failed_calls(4) have "s2 = s1" by blast
      with Inl False mk ok wr f show ?thesis by (simp add: putScript_def unchanged_def)
    next
      case (Inr u)
      with False mk ok wr show ?thesis using audit_scripts [OF E, of c req st] by (simp add: putScript_def)
    qed
  qed
qed (simp add: putScript_def)

lemma deleteScript_settled:
  assumes "mg_db E = pg_store bc"
  shows "unchanged st (snd (deleteScript E c req name st)) \<or> logged c req st (snd (deleteScript E c req name st))"
  using failed_calls(3) [of "mg_cwd E" "script_file name" "ms_fs st"] audit_scripts [OF assms]
  by (auto simp: deleteScript_def unchanged_def split: prod.split sum.split)

lemma run_mgmt_settled:
  assumes E: "mg_db E = pg_store bc" and h: "h \<notin> {M_createAccessToken, M_deleteAccessToken}"
  shows "unchanged st (snd (run_mgmt E h par c req st)) \<or> logged c req st (snd (run_mgmt E h par c req st))"
proof -
  have scan: "unchanged st (snd (mgmt_getScanReport E req dg st))" for dg
    using E by (auto simp: mgmt_getScanReport_def pg_GetScanReport_def unchanged_def Let_def split: sum.split prod.split)
  have scripts: "unchanged st (snd (enableScript E c req n st)) \<or> logged c req st (snd (enableScript E c req n st))"
    "unchanged st (snd (disableScript E c req n st)) \<or> logged c req st (snd (disableScript E c req n st))" for n
    using rename_settled [OF E, of st c req] by (simp_all add: enableScript_def disableScript_def)
  from h show ?thesis
    by (cases h)
       (simp_all add: run_mgmt_def Let_def accounts_settled [OF E] addPolicy_settled [OF E] deletePolicy_settled [OF E]
          putScript_settled [OF E] deleteScript_settled [OF E] scan scripts)
qed

lemma admin_route_handler:
  assumes "mgmt_route req = Some (True, pat, h)"
  shows "h \<notin> {M_createAccessToken, M_deleteAccessToken}"
proof -
  obtain m where "(m, pat, h) \<in> set admin_routes"
    using assms by (auto simp: mgmt_route_def find_Some_iff split: if_splits option.splits) (metis nth_mem)
  then have "h \<in> (\<lambda>(m, p, h). h) ` set admin_routes" by force
  moreover have "list_all (\<lambda>(m, p, h). h \<noteq> M_createAccessToken \<and> h \<noteq> M_deleteAccessToken) admin_routes" by code_simp
  ultimately show ?thesis by (auto simp: list_all_iff)
qed



subsection \<open>Accounts\<close>

text \<open>The users the store knows, after each operation.\<close>

lemma GetUser_CreateUser:
  assumes "pg_CreateUser u h scs d = (Inr x, d')"
  shows "pg_GetUserByUsername u d' = Inr \<lparr>us_id = next_id d, us_name = u, us_hash = h, us_scopes = [Join scs CHR '','']\<rparr>"
proof -
  have none: "find (\<lambda>r. ur_name r = u) (users d) = None" and d': "users d' = users d @ [\<lparr>ur_id = next_id d, ur_name = u, ur_hash = h, ur_scopes = Join scs CHR '',''\<rparr>]"
    using assms by (auto simp: pg_CreateUser_def list_ex_iff find_None_iff split: if_splits)
  have "find P xs = None \<Longrightarrow> find P (xs @ [y]) = (if P y then Some y else None)" for P xs and y :: user_row
    by (induction xs) (auto split: if_splits)
  from this [OF none] show ?thesis by (simp add: pg_GetUserByUsername_def d' user_of_row_def)
qed

lemma GetUser_UpdateUserPassword:
  assumes "pg_UpdateUserPassword u h d = (Inr x, d')"
  shows "\<exists>v. pg_GetUserByUsername u d' = Inr v \<and> us_hash v = h"
proof -
  let ?f = "\<lambda>r. if ur_name r = u then r\<lparr>ur_hash := h\<rparr> else r"
  have ex: "list_ex (\<lambda>r. ur_name r = u) (users d)" and d': "users d' = map ?f (users d)"
    using assms by (auto simp: pg_UpdateUserPassword_def split: if_splits)
  have "find (\<lambda>r. ur_name r = u) (map ?f xs) = map_option ?f (find (\<lambda>r. ur_name r = u) xs)" for xs
    by (induction xs) auto
  note found = this [of "users d"]
  obtain r where r: "find (\<lambda>r. ur_name r = u) (users d) = Some r" "ur_name r = u"
    using ex by (metis (mono_tags, lifting) find_None_iff find_Some_iff list_ex_iff option.exhaust)
  have "find (\<lambda>r. ur_name r = u) (users d') = Some (r\<lparr>ur_hash := h\<rparr>)" unfolding d' found using r by simp
  then show ?thesis by (simp add: pg_GetUserByUsername_def user_of_row_def)
qed

lemma change_db_ok:
  assumes "mg_db E = pg_store bc" "change_db E c req bad action typ resource resp f st = (r, st')"
    and "rs_status r = code" "\<And>e. rs_status (bad e) \<noteq> code"
  shows "\<exists>x d. f (ms_db st) = (Inr x, d) \<and> ms_db st' = snd (pg_WriteAuditLog (audit_of c req action typ resource) d)"
  using assms by (auto simp: change_db_def audit_def split: prod.splits sum.splits)

lemma failed_status [simp]: "rs_status (failed e) = 500"
  by (simp add: failed_def)

lemma not_found_or_status: "rs_status (not_found_or m e) = (if e = DbNotFound then 404 else 500)"
  by (simp add: not_found_or_def)

lemma not_found_or_200: "rs_status (not_found_or m e) \<noteq> 200"
  by (simp add: not_found_or_status)

lemma audit_keeps [simp]:
  "users (snd (pg_WriteAuditLog e d)) = users d" "tokens (snd (pg_WriteAuditLog e d)) = tokens d"
  "pg_GetUserByUsername u (snd (pg_WriteAuditLog e d)) = pg_GetUserByUsername u d"
  "repo_manifests nr (snd (pg_WriteAuditLog e d)) = repo_manifests nr d"
  by (simp_all add: pg_WriteAuditLog_def pg_GetUserByUsername_def repo_manifests_def repo_lookup_def ns_lookup_def repo_in_def
      cong: option.case_cong)

text \<open>
  Creating a user and signing in: after a request to create a user was answered 201, the password of the
  payload has at least eight bytes, the store authenticates the new user with it and with the scopes of the payload
  (joined by commas), and refuses every password that does not match the hash. The hypothesis on bcrypt is that a
  password matches its own hash.
\<close>

theorem createUser_then_login:
  assumes "mg_db E = pg_store bc" "createUser E c req st = (r, st')" "rs_status r = 201"
    and "decode_body E req user_payload = Inr (u, pw, scopes)"
    and "\<And>p h. mg_hash E p = Inr h \<Longrightarrow> bc h p"
  shows "8 \<le> length pw \<and>
     (\<exists>v. pg_AuthenticateUser bc u pw (ms_db st') = Inr v \<and> us_name v = u \<and> us_scopes v = [Join scopes CHR '',''] \<and>
          (\<forall>pw'. \<not> bc (us_hash v) pw' \<longrightarrow> pg_AuthenticateUser bc u pw' (ms_db st') = Inl DbNotFound))"
proof -
  have len: "\<not> length pw < 8" using assms(2-4) by (auto simp: createUser_def split: if_splits sum.splits)
  then obtain h where h: "mg_hash E pw = Inr h" using assms(2-4) by (auto simp: createUser_def split: sum.splits)
  with len assms(2,4) have ch: "change_db E c req failed ''user.create'' ''user'' u (status 201) (st_CreateUser (mg_db E) u h scopes) st = (r, st')"
    by (simp add: createUser_def)
  then obtain x d where d: "pg_CreateUser u h scopes (ms_db st) = (Inr x, d)"
      "ms_db st' = snd (pg_WriteAuditLog (audit_of c req ''user.create'' ''user'' u) d)"
    using change_db_ok [OF assms(1) _ assms(3)] assms(1) by force
  let ?v = "\<lparr>us_id = next_id (ms_db st), us_name = u, us_hash = h, us_scopes = [Join scopes CHR '','']\<rparr>"
  have "pg_GetUserByUsername u (ms_db st') = Inr ?v" using GetUser_CreateUser [OF d(1)] d(2) by simp
  then show ?thesis using assms(5) [OF h] len by (auto simp: pg_AuthenticateUser_def)
qed

text \<open>
  Resetting a password: after a reset was answered 200 the new password signs the user in, and a password
  that does not match its hash, such as the old one, is refused.
\<close>

theorem resetPassword_replaces:
  assumes "mg_db E = pg_store bc" "resetPassword E c req u st = (r, st')" "rs_status r = 200"
    and "decode_body E req (\<lambda>kvs. decode_field set_string ''password'' kvs []) = Inr pw"
    and "\<And>p h. mg_hash E p = Inr h \<Longrightarrow> bc h p"
  shows "\<exists>h v. mg_hash E pw = Inr h \<and> pg_AuthenticateUser bc u pw (ms_db st') = Inr v \<and>
     (\<forall>pw'. \<not> bc h pw' \<longrightarrow> pg_AuthenticateUser bc u pw' (ms_db st') = Inl DbNotFound)"
proof -
  have u: "u \<noteq> []" and len: "\<not> length pw < 8" using assms(2-4) by (auto simp: resetPassword_def split: if_splits sum.splits)
  then obtain h where h: "mg_hash E pw = Inr h" using assms(2-4) by (auto simp: resetPassword_def split: sum.splits)
  with u len assms(2,4) have "change_db E c req (not_found_or ''user not found'') ''user.reset_password'' ''user'' u (status 200)
      (st_UpdateUserPassword (mg_db E) u h) st = (r, st')"
    by (simp add: resetPassword_def)
  from change_db_ok [OF assms(1) this assms(3) not_found_or_200] assms(1)
  obtain x d where d: "pg_UpdateUserPassword u h (ms_db st) = (Inr x, d)"
      "ms_db st' = snd (pg_WriteAuditLog (audit_of c req ''user.reset_password'' ''user'' u) d)"
    by auto
  obtain v where v: "pg_GetUserByUsername u (ms_db st') = Inr v" "us_hash v = h"
    using GetUser_UpdateUserPassword [OF d(1)] d(2) by auto
  then show ?thesis using assms(5) [OF h] h by (auto simp: pg_AuthenticateUser_def)
qed

text \<open>(C31) 
  Deleting a user: a deletion answered 204 leaves no account of that name, so no password signs it in, and
  removes all access tokens of the account and no others. A member of a group cannot be deleted: the answer is
  500 and the state is unchanged.
\<close>

theorem deleteUser_revokes:
  assumes "mg_db E = pg_store bc" "pg_reach (ms_db st)" "find (\<lambda>v. ur_name v = u) (users (ms_db st)) = Some v" "u \<noteq> []"
  shows "if list_ex (\<lambda>(uid, gid). uid = ur_id v) (user_groups (ms_db st))
         then deleteUser E c req u st = (failed foreign_key_violation, st)
         else \<exists>st'. deleteUser E c req u st = (status 204, st') \<and>
                (\<forall>pw. pg_AuthenticateUser bc u pw (ms_db st') = Inl DbNotFound) \<and>
                tokens (ms_db st') = filter (\<lambda>t. tr_user t \<noteq> ur_id v) (tokens (ms_db st)) \<and>
                (\<forall>t \<in> set (tokens (ms_db st')). \<exists>w \<in> set (users (ms_db st')). ur_id w = tr_user t)"
proof (cases "list_ex (\<lambda>(uid, gid). uid = ur_id v) (user_groups (ms_db st))")
  case True
  with assms show ?thesis
    by (simp add: deleteUser_def change_db_def pg_DeleteUser_def not_found_or_def foreign_key_violation_def)
next
  case False
  define d where "d = snd (pg_DeleteUser u (ms_db st))"
  have d: "pg_DeleteUser u (ms_db st) = (Inr (), d)" "users d = filter (\<lambda>r. ur_name r \<noteq> u) (users (ms_db st))"
    "tokens d = filter (\<lambda>t. tr_user t \<noteq> ur_id v) (tokens (ms_db st))"
    using assms(3) False by (simp_all add: d_def pg_DeleteUser_def)
  have "accounts_inv d" unfolding d_def using pg_reach_accounts [OF assms(2)] by (rule accounts_DeleteUser)
  then have fk: "\<forall>t \<in> set (tokens d). \<exists>w \<in> set (users d). ur_id w = tr_user t"
    by (fastforce simp: accounts_inv_def subset_iff image_iff)
  have none: "pg_GetUserByUsername u d = Inl DbNotFound" using d(2) by (auto simp: pg_GetUserByUsername_def find_None_iff split: option.split dest: find_user)
  let ?st = "audit E c req ''user.delete'' ''user'' u (st\<lparr>ms_db := d\<rparr>)"
  have db: "ms_db ?st = snd (pg_WriteAuditLog (audit_of c req ''user.delete'' ''user'' u) d)"
    using assms(1) by (simp add: audit_def)
  have "deleteUser E c req u st = (status 204, ?st)" using assms(1,4) d(1) by (simp add: deleteUser_def change_db_def)
  with False d(3) fk none show ?thesis by (simp add: db pg_AuthenticateUser_def)
qed


subsection \<open>Access tokens\<close>

lemma filter_key_remove1: "distinct (map f xs) \<Longrightarrow> x \<in> set xs \<Longrightarrow> filter (\<lambda>y. f y \<noteq> f x) xs = remove1 x xs"
proof (induction xs)
  case (Cons a xs)
  show ?case
  proof (cases "a = x")
    case True
    with Cons.prems(1) have "\<forall>y \<in> set xs. f y \<noteq> f x" by (metis distinct.simps(2) image_eqI list.simps(9) set_map)
    then show ?thesis using True by simp
  next
    case False
    with Cons.prems have x: "x \<in> set xs" by simp
    then have "f a \<noteq> f x" using Cons.prems(1) by (metis distinct.simps(2) image_eqI list.simps(9) set_map)
    with False Cons.IH x Cons.prems(1) show ?thesis by simp
  qed
qed simp

lemma listed_tokens: "pg_ListAccessTokens uid d = Inr ts \<Longrightarrow> t \<in> set ts \<longleftrightarrow> (\<exists>r \<in> set (tokens d). tr_user r = uid \<and> t = pg_token r)"
  by (auto simp: pg_ListAccessTokens_def)

lemma deleteAccessToken_only_own:
  assumes E: "mg_db E = pg_store bc" and reach: "pg_reach (ms_db st)"
    and del: "deleteAccessToken E (Some c) i st = (r, st')"
  shows "st' = st \<and> rs_status r \<noteq> 204 \<or>
    (\<exists>u row. pg_GetUserByUsername (cl_subject c) (ms_db st) = Inr u \<and> row \<in> set (tokens (ms_db st)) \<and>
       tr_user row = us_id u \<and> ParseInt i = Some (int (tr_id row)) \<and> rs_status r = 204 \<and>
       st' = st\<lparr>ms_db := (ms_db st)\<lparr>tokens := remove1 row (tokens (ms_db st))\<rparr>\<rparr>)"
proof -
  let ?d = "ms_db st"
  consider (none) "st' = st" "rs_status r \<noteq> 204"
    | (some) n u ts where "ParseInt i = Some n" "context_user E (Some c) ?d = Inr u" "pg_ListAccessTokens (us_id u) ?d = Inr ts"
        "list_ex (\<lambda>t. int (tk_id t) = n) ts" "st' = st\<lparr>ms_db := snd (pg_DeleteAccessToken (nat n) ?d)\<rparr>" "r = status 204"
  proof (cases "ParseInt i")
    case None
    with del show ?thesis using that(1) by (auto simp: deleteAccessToken_def)
  next
    case n: (Some n)
    show ?thesis
    proof (cases "context_user E (Some c) ?d")
      case (Inl resp)
      then have "rs_status resp \<noteq> 204" by (auto simp: context_user_def split: sum.splits)
      with del n Inl show ?thesis using that(1) by (auto simp: deleteAccessToken_def)
    next
      case u: (Inr u)
      obtain ts where ts: "pg_ListAccessTokens (us_id u) ?d = Inr ts" by (simp add: pg_ListAccessTokens_def)
      show ?thesis
      proof (cases "list_ex (\<lambda>t. int (tk_id t) = n) ts")
        case True
        with del n u ts E show ?thesis using that(2) by (simp add: deleteAccessToken_def pg_DeleteAccessToken_def)
      next
        case False
        with del n u ts E show ?thesis using that(1) by (auto simp: deleteAccessToken_def)
      qed
    qed
  qed
  then show ?thesis
  proof cases
    case some
    then obtain t where "t \<in> set ts" "int (tk_id t) = n" by (auto simp: list_ex_iff)
    then obtain row where row: "row \<in> set (tokens ?d)" "tr_user row = us_id u" "t = pg_token row"
      using listed_tokens [OF some(3)] by blast
    then have n: "n = int (tr_id row)" using \<open>int (tk_id t) = n\<close> by (simp add: pg_token_def)
    have dist: "distinct (map tr_id (tokens ?d))" using pg_reach_accounts [OF reach] by (simp add: accounts_inv_def)
    from filter_key_remove1 [OF dist row(1)] have "snd (pg_DeleteAccessToken (nat n) ?d) = ?d\<lparr>tokens := remove1 row (tokens ?d)\<rparr>"
      by (simp add: pg_DeleteAccessToken_def n)
    moreover have "pg_GetUserByUsername (cl_subject c) ?d = Inr u"
      using some(2) E by (auto simp: context_user_def split: sum.splits)
    moreover have "ParseInt i = Some (int (tr_id row))" using some(1) n by simp
    moreover have "rs_status r = 204" using some(6) by (simp add: status_def)
    ultimately have "pg_GetUserByUsername (cl_subject c) ?d = Inr u \<and> row \<in> set (tokens ?d) \<and> tr_user row = us_id u \<and>
        ParseInt i = Some (int (tr_id row)) \<and> rs_status r = 204 \<and> st' = st\<lparr>ms_db := ?d\<lparr>tokens := remove1 row (tokens ?d)\<rparr>\<rparr>"
      using some(5) row(1,2) by simp
    then show ?thesis by blast
  qed blast
qed

text \<open>
  A user deletes only tokens of their own: whatever the request, the database keeps every token of every other
  account and everything else it holds; it loses at most the one row with the identifier asked for, and exactly that
  row when the answer is 204.
\<close>

theorem deleteAccessToken_own:
  assumes "mg_db E = pg_store bc" "pg_reach (ms_db st)" "deleteAccessToken E (Some c) i st = (r, st')"
  shows "st' = st \<and> rs_status r \<noteq> 204 \<or>
    (\<exists>u row. pg_GetUserByUsername (cl_subject c) (ms_db st) = Inr u \<and> row \<in> set (tokens (ms_db st)) \<and>
       tr_user row = us_id u \<and> ParseInt i = Some (int (tr_id row)) \<and> rs_status r = 204 \<and>
       st' = st\<lparr>ms_db := (ms_db st)\<lparr>tokens := remove1 row (tokens (ms_db st))\<rparr>\<rparr>)"
  by (rule deleteAccessToken_only_own [OF assms])

text \<open>
  The routes of the access tokens are meant for every authenticated user, but the middleware asks of a bearer
  token an entry for a repository whose name is the path itself: a token without one, such as the full-access token of
  an administrator, is refused on all of them.
\<close>

theorem access_token_routes_refuse:
  assumes "\<not> mg_developer E" "rq_path req = ''/api/v1/management/access-tokens''" "rq_method req \<in> {''GET'', ''POST''}"
    and "HasPrefix (rq_header req ''Authorization'') ''Bearer ''"
    and "ParseToken (mg_jwt E) (mg_ts E) (mg_now E) (TrimPrefix (rq_header req ''Authorization'') ''Bearer '') = Inr c"
    and "\<forall>e \<in> set (cl_access c). ae_name e \<noteq> ''/api/v1/management/access-tokens''"
  shows "serve_mgmt E req st = (Respond denied, st)"
proof -
  have repo: "extractRepo ''/api/v1/management/access-tokens'' = ''/api/v1/management/access-tokens''" by code_simp
  then have no: "\<not> list_ex (entry_authorizes req) (cl_access c)"
    using assms(2,6) by (auto simp: list_ex_iff entry_authorizes_def)
  have basic: "\<not> HasPrefix (rq_header req ''Authorization'') ''Basic ''"
  proof
    assume "HasPrefix (rq_header req ''Authorization'') ''Basic ''"
    from HasPrefix_both [OF assms(4) this] show False by simp
  qed
  have "mgmt_route req = Some (False, [Fixed ''access-tokens''],
          if rq_method req = ''GET'' then M_listAccessTokens else M_createAccessToken)"
  proof -
    have "mgmt_segs req = [''access-tokens'']" "HasPrefix (rq_path req) mgmt_prefix"
      unfolding mgmt_segs_def assms(2) mgmt_prefix_def by code_simp+
    with assms(3) show ?thesis by (auto simp: mgmt_route_def user_routes_def route_fits_def)
  qed
  moreover have "Protect (mg_jwt E) (mgmt_auth E (ms_db st)) (mg_now E) req = Answer denied"
    using assms(1,2,4,5) no basic by (auto simp: Protect_def mgmt_auth_def HasPrefix_def Let_def)
  ultimately show ?thesis by (simp add: serve_mgmt_def)
qed

subsection \<open>Statistics\<close>

lemma scale_exp: "0 \<le> n \<Longrightarrow> n < 1024 ^ Suc k \<Longrightarrow> snd (scale n dv ex) \<le> ex + k"
proof (induction k arbitrary: n dv ex)
  case 0
  then show ?case by (subst scale.simps) simp
next
  case (Suc k)
  show ?case
  proof (cases "1024 \<le> n")
    case True
    have "1024 * (n div 1024) \<le> n" "(1024 :: int) ^ Suc (Suc k) = 1024 * 1024 ^ Suc k" by simp_all
    with Suc.prems(2) have "n div 1024 < 1024 ^ Suc k" by linarith
    from Suc.IH [OF _ this, of "wrap64 (dv * 1024)" "Suc ex"] Suc.prems(1) True show ?thesis
      by (subst scale.simps) (simp add: pos_imp_zdiv_nonneg_iff)
  qed (subst scale.simps, simp)
qed

lemma formatBytes_total: "int64 b \<Longrightarrow> \<exists>t. formatBytes q b = Some t"
proof -
  assume b: "int64 b"
  show ?thesis
  proof (cases "b < 1024")
    case False
    have "b < 2 ^ 63" "1024 * (b div 1024) \<le> b" using b by (simp_all add: int64_def)
    then have "b div 1024 < 1024 ^ Suc 5" by simp
    then have "snd (scale (b div 1024) 1024 0) \<le> 5" using scale_exp [of "b div 1024" 5 1024 0] False by simp
    then show ?thesis using False by (cases "scale (b div 1024) 1024 0") (simp add: formatBytes_def)
  qed (simp add: formatBytes_def)
qed

lemma foldl_wrap64: "int64 a \<Longrightarrow> int64 (foldl (\<lambda>t q. wrap64 (t + f q)) a qs)"
  by (induction qs arbitrary: a) (auto simp: int64_def wrap64_def)

text \<open>
  The storage total is always printed: for every 64-bit sum the loop of \<^verbatim>\<open>formatBytes\<close> stops at a unit
  of \<^verbatim>\<open>KMGTPE\<close>, so the index never leaves the string and the statistics page never panics.
\<close>

theorem getStats_never_panics: "\<exists>r. getStats E d = Respond r \<and> rs_status r = 200"
proof -
  have "int64 (total_storage qs)" for qs unfolding total_storage_def by (rule foldl_wrap64) (simp add: int64_def)
  then obtain t where "formatBytes (mg_quot E) (total_storage (ok_list (st_ListQuotas (mg_db E) d))) = Some t"
    using formatBytes_total by blast
  then show ?thesis by (simp add: getStats_def Let_def)
qed


subsection \<open>Immutable tags\<close>

lemma SetTagImmutable_flag:
  assumes "pg_SetTagImmutable repo ref b s = (Inr u, s')"
  shows "pg_IsTagImmutable repo ref s' = Inr b"
proof -
  let ?nr = "parseRepoPath repo"
  obtain rid where rid: "repo_lookup ?nr s = Some rid" "list_ex (\<lambda>m. mf_repo m = rid \<and> mf_ref m = ref) (manifests s)"
      "s' = s\<lparr>manifests := map (\<lambda>m. if mf_repo m = rid \<and> mf_ref m = ref then m\<lparr>mf_immutable := b\<rparr> else m) (manifests s)\<rparr>"
    using assms by (auto simp: pg_SetTagImmutable_def split: option.splits if_splits)
  have lk: "repo_lookup ?nr s' = Some rid" using rid(1) by (simp add: rid(3) repo_lookup_def ns_lookup_def repo_in_def)
  let ?f = "\<lambda>m. if mf_repo m = rid \<and> mf_ref m = ref then m\<lparr>mf_immutable := b\<rparr> else m"
  have ms: "manifests s' = map ?f (manifests s)" by (simp add: rid(3))
  have forced: "\<forall>y \<in> set (manifests s'). mf_repo y = rid \<longrightarrow> mf_ref y = ref \<longrightarrow> mf_immutable y = b"
    unfolding ms list.set_map ball_simps by auto
  have all: "mf_immutable m = b" if "m \<in> set (repo_manifests ?nr s')" "mf_ref m = ref" for m
    using that lk forced by (simp add: repo_manifests_def)
  obtain m0 where m0: "m0 \<in> set (manifests s)" "mf_repo m0 = rid" "mf_ref m0 = ref" using rid(2) by (auto simp: list_ex_iff)
  then have "m0\<lparr>mf_immutable := b\<rparr> = ?f m0" by simp
  from rev_image_eqI [where f = ?f, OF m0(1) this] have "m0\<lparr>mf_immutable := b\<rparr> \<in> set (manifests s')" unfolding ms list.set_map .
  then have "m0\<lparr>mf_immutable := b\<rparr> \<in> set (repo_manifests ?nr s')" using lk m0(2) by (simp add: repo_manifests_def)
  then have "find (\<lambda>m. mf_ref m = ref) (repo_manifests ?nr s') \<noteq> None" using m0(3) by (auto simp: find_None_iff)
  then obtain m where "find (\<lambda>m. mf_ref m = ref) (repo_manifests ?nr s') = Some m" by auto
  with all show ?thesis by (auto simp: pg_IsTagImmutable_def dest: find_Some_member)
qed

lemma LastIndex_None: "x \<in> set sub \<Longrightarrow> x \<notin> set s \<Longrightarrow> LastIndex s sub = None"
proof (induction s)
  case (Cons c s)
  have "\<not> HasPrefix (c # s) sub"
  proof
    assume "HasPrefix (c # s) sub"
    then have "set sub \<subseteq> set (c # s)" unfolding HasPrefix_def by (metis set_take_subset)
    with Cons.prems show False by blast
  qed
  then show ?case using Cons by simp
qed auto

lemma LastIndex_tags:
  assumes "CHR ''/'' \<notin> set ref"
  shows "LastIndex (repo @ ''/tags/'' @ ref) ''/tags/'' = Some (length repo)"
proof -
  have ref: "LastIndex ref ''/tags/'' = None" using assms by (intro LastIndex_None [of "CHR ''/''"]) auto
  have no: "\<not> HasPrefix (c # r) ''/tags/''" if "c \<noteq> CHR ''/''" for c r using that by (simp add: HasPrefix_def)
  have slash: "\<not> HasPrefix (CHR ''/'' # ref) ''/tags/''"
  proof
    assume "HasPrefix (CHR ''/'' # ref) ''/tags/''"
    then have t: "take (Suc (Suc (Suc (Suc (Suc 0))))) ref = ''tags/''" by (simp add: HasPrefix_def)
    have "CHR ''/'' \<in> set (take (Suc (Suc (Suc (Suc (Suc 0))))) ref)" unfolding t by simp
    then show False using assms by (meson in_set_takeD)
  qed
  have "LastIndex (''/tags/'' @ ref) ''/tags/'' = Some 0" using ref no slash by (simp add: HasPrefix_def)
  then show ?thesis by (induction repo) auto
qed

text \<open>
  Marking a tag over the management API protects it from pushes: after the answer 200 to a request that sets
  the flag, the store reports the tag immutable, and every push to it through the registry API, whatever its body and
  whoever sends it, is answered 409 and changes nothing; a request that clears the flag makes the store report it
  mutable.
\<close>

theorem patchTag_protects:
  assumes E: "mg_db E = pg_store bc" and path: "rq_path req = repositories_prefix @ repo @ ''/tags/'' @ ref"
    and ref: "ref \<noteq> []" "CHR ''/'' \<notin> set ref" "\<not> HasPrefix ref ''sha256:''"
    and body: "decode_body E req (\<lambda>kvs. decode_field set_bool ''immutable'' kvs False) = Inr b"
    and ans: "patchTag E c req st = (r, st')" "rs_status r = 200"
  shows "pg_IsTagImmutable repo ref (ms_db st') = Inr b \<and>
     (b \<longrightarrow> (\<forall>R req' ns w. getRepoContext req' = (repo, ns) \<longrightarrow> wd_db w = ms_db st' \<longrightarrow>
        (\<exists>resp. putManifest (on_mem_pg bc R) req' ref w = ((resp, []), w) \<and> rs_status resp = 409)))"
proof -
  have idx: "LastIndex (TrimPrefix (rq_path req) repositories_prefix) ''/tags/'' = Some (length repo)"
    using LastIndex_tags [OF ref(2), of repo] by (simp add: path TrimPrefix_def HasPrefix_def)
  have tr: "TrimPrefix (rq_path req) repositories_prefix = repo @ ''/tags/'' @ ref" by (simp add: path TrimPrefix_def HasPrefix_def)
  have repo: "repo \<noteq> []" using ans idx tr by (auto simp: patchTag_def)
  let ?ok = "reply 200 json_type (JsonDoc (JObj [(''immutable'', JBool b), (''reference'', JStr ref), (''repo'', JStr repo)]))"
  have "change_db E c req (not_found_or ''tag not found'') ''tag.set_immutable'' ''tag'' (repo @ '':'' @ ref) ?ok
      (st_SetTagImmutable (mg_db E) repo ref b) st = (r, st')"
    using ans(1) idx tr repo ref(1) body by (simp add: patchTag_def)
  from change_db_ok [OF E this ans(2) not_found_or_200] E
  obtain u d where d: "pg_SetTagImmutable repo ref b (ms_db st) = (Inr u, d)"
      "ms_db st' = snd (pg_WriteAuditLog (audit_of c req ''tag.set_immutable'' ''tag'' (repo @ '':'' @ ref)) d)" by auto
  have "pg_IsTagImmutable repo ref (ms_db st') = pg_IsTagImmutable repo ref d"
    by (simp add: d(2) pg_IsTagImmutable_def)
  also have "\<dots> = Inr b" by (rule SetTagImmutable_flag [OF d(1)])
  finally have flag: "pg_IsTagImmutable repo ref (ms_db st') = Inr b" .
  then show ?thesis using ref(1,3) by (auto simp: putManifest_def tag_blocked_def)
qed

subsection \<open>Scripts\<close>

text \<open>A script name that is accepted is one component; only the two names of directories leave the script directory.\<close>

lemma script_path:
  assumes "\<not> bad_script_name name" "name \<noteq> ''.''" "name \<noteq> ''..''"
  shows "in_cwd cwd (script_file name) = cwd @ [''scripts'', name]"
proof -
  have slash: "CHR ''/'' \<notin> set name"
  proof
    assume "CHR ''/'' \<in> set name"
    then have "Contains name ''/''" by (induction name) (auto simp: Contains_def HasPrefix_def)
    with assms(1) show False by (simp add: bad_script_name_def)
  qed
  have "normal name" using assms slash by (simp add: normal_def bad_script_name_def)
  moreover have "normal ''scripts''" by (simp add: normal_def)
  ultimately have "script_file name = Join [''scripts'', name] CHR ''/''"
    using path_Join_normals [of "[''scripts'']" "[name]"] by (simp add: script_file_def)
  then have "script_file name = ''scripts'' @ CHR ''/'' # name" by simp
  then show ?thesis using slash by (simp add: in_cwd_def Split_append Split_id)
qed


text \<open>The paths the names give: below the script directory, or the directory itself, or the working directory.\<close>

definition under :: "string list \<Rightarrow> string list \<Rightarrow> bool" where
  "under dir p \<longleftrightarrow> take (length dir) p = dir"

lemma script_path_dots:
  "in_cwd cwd (script_file ''.'') = cwd @ [''scripts'']" "script_file ''..'' = ''.''" "in_cwd cwd ''.'' = cwd"
proof -
  have "script_file ''.'' = ''scripts''" "Split ''scripts'' CHR ''/'' = [''scripts'']" by code_simp+
  then show "in_cwd cwd (script_file ''.'') = cwd @ [''scripts'']" by (simp add: in_cwd_def)
  show "script_file ''..'' = ''.''" by code_simp
  show "in_cwd cwd ''.'' = cwd" by (simp add: in_cwd_def)
qed

lemma script_path_under:
  assumes "\<not> bad_script_name name" "name \<noteq> ''..''"
  shows "under (cwd @ [''scripts'']) (in_cwd cwd (script_file name))"
  using script_path [OF assms(1) _ assms(2), of cwd] script_path_dots(1) [of cwd] by (cases "name = ''.''") (auto simp: under_def)

lemma look_rename:
  "(\<And>r n. (r, n) \<in> set s \<Longrightarrow> g r = t \<longleftrightarrow> r = t) \<Longrightarrow> look (map (\<lambda>(r, n). (g r, n)) s) t = look s t"
proof (induction s)
  case (Cons e s)
  obtain r n where e: "e = (r, n)" by force
  have "g r = t \<longleftrightarrow> r = t" using Cons.prems [of r n] e by simp
  moreover have "look (map (\<lambda>(r, n). (g r, n)) s) t = look s t" using Cons.IH Cons.prems by (meson list.set_intros(2))
  ultimately show ?case by (auto simp: look_def e)
qed (simp add: look_def)

lemma os_Rename_outside:
  assumes "os_Rename p q s = (r, s')" "under dir p" "under dir q" "\<not> under dir t"
  shows "look s' t = look s t"
proof -
  have pt: "p \<noteq> t" "q \<noteq> t" "\<not> take (length p) t = p" "\<And>x. q @ x \<noteq> t"
    using assms(2-4) by (auto simp: under_def) (metis (no_types, lifting) min.absorb1 nat_le_linear take_all_iff take_take)+
  let ?g = "\<lambda>x. if take (length p) x = p then q @ drop (length p) x else x"
  have dir: "look (map (\<lambda>(x, n). (?g x, n)) (unlink q s)) t = look s t"
    using pt by (subst look_rename) auto
  show ?thesis
    using assms(1) pt(1,2) dir
    by (auto simp: os_Rename_def split: sum.splits node.splits if_splits option.splits)
qed

lemma os_Remove_outside: "os_Remove p s = (r, s') \<Longrightarrow> p \<noteq> t \<Longrightarrow> look s' t = look s t"
  by (auto simp: os_Remove_def split: sum.splits node.splits if_splits)

lemma os_WriteFile_outside:
  assumes "os_WriteFile cwd n dat s = (r, s')" "in_cwd cwd n \<noteq> t"
  shows "look s' t = look s t"
  using assms by (auto simp: os_WriteFile_def os_OpenWrite_def file_append_def split: sum.splits node.splits if_splits option.splits prod.splits)


lemma rename_onto_cwd:
  assumes "tree s" "cwd \<noteq> []" "look s cwd = Some Dir" "os_Rename (cwd @ [x, y]) cwd s = (r, s')"
  shows "s' = s"
proof -
  have kids: "has_children s cwd" if "look s (cwd @ [x, y]) = Some Dir"
  proof -
    have "look s (cwd @ [x]) = Some Dir" using tree_prefix [OF assms(1), of "cwd @ [x]" "[y]"] that by simp
    then have "(cwd @ [x], Dir) \<in> set s" by (auto simp: look_def dest: map_of_SomeD)
    then show ?thesis by (force simp: has_children_def list_ex_iff)
  qed
  show ?thesis
  proof (cases "os_Stat (cwd @ [x, y]) s")
    case (Inr n)
    then have "look s (cwd @ [x, y]) = Some n" by (auto simp: os_Stat_def split: if_splits option.splits)
    with Inr assms(3,4) kids show ?thesis by (cases n) (auto simp: os_Rename_def)
  qed (use assms(4) in \<open>simp add: os_Rename_def\<close>)
qed

lemma rename_cwd_into:
  assumes "look s cwd = Some Dir" "os_Rename cwd (cwd @ x # xs) s = (r, s')"
  shows "s' = s"
  using assms by (auto simp: os_Rename_def os_Stat_def split: if_splits)

lemma rename_script_fs:
  assumes "os_Rename (in_cwd (mg_cwd E) a) (in_cwd (mg_cwd E) b) (ms_fs st) = (r, s')"
  shows "ms_fs (snd (rename_script E c req name a b msg action st)) = s'"
  using assms by (auto simp: rename_script_def audit_def split: sum.split)

lemma disabled_name: "\<not> bad_script_name name \<Longrightarrow> \<not> bad_script_name (name @ ''.disabled'') \<and> name @ ''.disabled'' \<noteq> ''.'' \<and> name @ ''.disabled'' \<noteq> ''..''"
proof -
  assume ok: "\<not> bad_script_name name"
  have con: "Contains s [x] \<longleftrightarrow> x \<in> set s" for s x by (induction s) (auto simp: Contains_def HasPrefix_def)
  have "name @ ''.disabled'' \<noteq> ''.''" "name @ ''.disabled'' \<noteq> ''..''" by (auto dest!: arg_cong [of _ _ length])
  with ok con show ?thesis by (auto simp: bad_script_name_def)
qed

lemma rename_scripts_confined:
  assumes "tree (ms_fs st)" "mg_cwd E \<noteq> []" "look (ms_fs st) (mg_cwd E) = Some Dir" "\<not> under (mg_cwd E @ [''scripts'']) t"
  shows "file_at (ms_fs (snd (enableScript E c req name st))) t = file_at (ms_fs st) t"
    "file_at (ms_fs (snd (disableScript E c req name st))) t = file_at (ms_fs st) t"
proof -
  let ?cwd = "mg_cwd E"
  let ?a = "in_cwd ?cwd (script_file name)" and ?b = "in_cwd ?cwd (script_file (name @ ''.disabled''))"
  have out: "file_at s' t = file_at (ms_fs st) t"
    if "\<not> bad_script_name name" "os_Rename ?a ?b (ms_fs st) = (r, s') \<or> os_Rename ?b ?a (ms_fs st) = (r, s')" for r s'
  proof -
    note dis = disabled_name [OF that(1)]
    have b: "?b = ?cwd @ [''scripts'', name @ ''.disabled'']" using script_path dis by blast
    have "look s' t = look (ms_fs st) t"
    proof (cases "name = ''..''")
      case True
      then have "?a = ?cwd" by (simp add: script_path_dots)
      with that(2) b rename_onto_cwd [OF assms(1-3)] rename_cwd_into [OF assms(3)] have "s' = ms_fs st" by auto
      then show ?thesis by simp
    next
      case False
      with that(1) have "under (?cwd @ [''scripts'']) ?a" by (rule script_path_under)
      moreover have "under (?cwd @ [''scripts'']) ?b" by (simp add: b under_def)
      ultimately show ?thesis using os_Rename_outside [OF _ _ _ assms(4)] that(2) by blast
    qed
    then show ?thesis by (simp add: file_at_def)
  qed
  obtain r1 s1 where r1: "os_Rename ?b ?a (ms_fs st) = (r1, s1)" by (meson surj_pair)
  obtain r2 s2 where r2: "os_Rename ?a ?b (ms_fs st) = (r2, s2)" by (meson surj_pair)
  show "file_at (ms_fs (snd (enableScript E c req name st))) t = file_at (ms_fs st) t"
    using out [of r1 s1] r1 rename_script_fs [OF r1] by (auto simp: enableScript_def)
  show "file_at (ms_fs (snd (disableScript E c req name st))) t = file_at (ms_fs st) t"
    using out [of r2 s2] r2 rename_script_fs [OF r2] by (auto simp: disableScript_def)
qed


lemma deleteScript_confined:
  assumes "\<not> under (mg_cwd E @ [''scripts'']) t"
  shows "file_at (ms_fs (snd (deleteScript E c req name st))) t = file_at (ms_fs st) t"
proof (cases "bad_script_name name \<or> name = ''..''")
  case True
  then show ?thesis by (auto simp: deleteScript_def script_path_dots os_RemoveIn_def)
next
  case False
  obtain r s' where rm: "os_RemoveIn (mg_cwd E) (script_file name) (ms_fs st) = (r, s')" by (meson surj_pair)
  have "in_cwd (mg_cwd E) (script_file name) \<noteq> t" using script_path_under [of name "mg_cwd E"] False assms by auto
  then have "look s' t = look (ms_fs st) t" using rm os_Remove_outside by (auto simp: os_RemoveIn_def split: if_splits)
  then have "file_at s' t = file_at (ms_fs st) t" by (simp add: file_at_def)
  moreover have "ms_fs (snd (deleteScript E c req name st)) = s'"
    using rm False by (auto simp: deleteScript_def audit_def split: sum.split)
  ultimately show ?thesis by simp
qed

lemma putScript_cases:
  assumes "\<not> bad_script_name name" "mkdir_from (mg_cwd E) [''scripts''] (ms_fs st) = (r1, s1)"
  shows "ms_fs (snd (putScript E c req name st)) = s1 \<and> rs_status (fst (putScript E c req name st)) \<noteq> 200 \<or>
    (\<exists>content r2 s2. r1 = Inr () \<and> read_limited maxScriptBytes (body_of req) = Inr content \<and>
       os_WriteFile (mg_cwd E) (script_file name) content s1 = (r2, s2) \<and> ms_fs (snd (putScript E c req name st)) = s2 \<and>
       (rs_status (fst (putScript E c req name st)) = 200 \<longleftrightarrow> is_ok r2))"
  using assms by (auto simp: putScript_def audit_def status_def split: sum.split prod.split)

lemma putScript_outside:
  assumes "\<not> bad_script_name name" "in_cwd (mg_cwd E) (script_file name) \<noteq> t"
  shows "file_at (ms_fs (snd (putScript E c req name st))) t = file_at (ms_fs st) t"
proof -
  obtain r1 s1 where mk: "mkdir_from (mg_cwd E) [''scripts''] (ms_fs st) = (r1, s1)" by (meson surj_pair)
  then have s1: "file_at s1 t = file_at (ms_fs st) t" by (rule mkdir_from_files)
  have "look s2 t = look s1 t" if "os_WriteFile (mg_cwd E) (script_file name) content s1 = (r2, s2)" for content r2 s2
    using os_WriteFile_outside [OF that assms(2)] .
  then show ?thesis using putScript_cases [OF assms(1) mk, of c req] s1 by (auto simp: file_at_def)
qed

lemma putScript_dotdot:
  assumes "look (ms_fs st) (mg_cwd E) = Some Dir" "mg_cwd E \<noteq> []"
  shows "file_at (ms_fs (snd (putScript E c req ''..'' st))) t = file_at (ms_fs st) t"
proof -
  have ok: "\<not> bad_script_name ''..''" by code_simp
  obtain r1 s1 where mk: "mkdir_from (mg_cwd E) [''scripts''] (ms_fs st) = (r1, s1)" by (meson surj_pair)
  then have s1: "file_at s1 t = file_at (ms_fs st) t" by (rule mkdir_from_files)
  have "look s1 (mg_cwd E) = Some Dir" using mk assms by (auto split: option.splits node.splits)
  then have "os_WriteFile (mg_cwd E) ''.'' content s1 = (r2, s2) \<Longrightarrow> s2 = s1" for content r2 s2
    by (auto simp: os_WriteFile_def os_OpenWrite_def os_Stat_def script_path_dots ENOENT_def ENOTDIR_def split: if_splits prod.splits)
  then show ?thesis using putScript_cases [OF ok mk, of c req] s1 by (auto simp: script_path_dots)
qed

text \<open>(C35) 
  The script handlers stay in the script directory: whatever name a request gives, also \<^verbatim>\<open>.\<close> and
  \<^verbatim>\<open>..\<close>, storing, deleting, enabling and disabling a script leave the contents of every file outside
  \<^verbatim>\<open>scripts\<close> as they were.
\<close>

theorem scripts_confined:
  assumes "tree (ms_fs st)" "mg_cwd E \<noteq> []" "look (ms_fs st) (mg_cwd E) = Some Dir" "\<not> under (mg_cwd E @ [''scripts'']) t"
  shows "file_at (ms_fs (snd (putScript E c req name st))) t = file_at (ms_fs st) t \<and>
     file_at (ms_fs (snd (deleteScript E c req name st))) t = file_at (ms_fs st) t \<and>
     file_at (ms_fs (snd (enableScript E c req name st))) t = file_at (ms_fs st) t \<and>
     file_at (ms_fs (snd (disableScript E c req name st))) t = file_at (ms_fs st) t"
proof -
  have "file_at (ms_fs (snd (putScript E c req name st))) t = file_at (ms_fs st) t"
  proof (cases "bad_script_name name")
    case False
    show ?thesis
    proof (cases "name = ''..''")
      case True
      then show ?thesis using putScript_dotdot [OF assms(3,2)] by simp
    next
      case name: False
      then have "in_cwd (mg_cwd E) (script_file name) \<noteq> t" using script_path_under [OF False] assms(4) by auto
      then show ?thesis by (rule putScript_outside [OF False])
    qed
  qed (simp add: putScript_def)
  then show ?thesis using deleteScript_confined [OF assms(4)] rename_scripts_confined [OF assms] by blast
qed

lemma below_file_cong:
  assumes "\<And>q. q \<noteq> p \<Longrightarrow> look s2 q = look s1 q"
  shows "below_file s2 p \<longleftrightarrow> below_file s1 p"
proof -
  have "look s2 (take k p) = look s1 (take k p)" if "k \<in> set [1..<length p]" for k
    using that by (intro assms) (auto dest: arg_cong [of _ _ length])
  then have "list_ex (\<lambda>k. case look s2 (take k p) of Some (File _) \<Rightarrow> True | _ \<Rightarrow> False) [1..<length p] \<longleftrightarrow>
      list_ex (\<lambda>k. case look s1 (take k p) of Some (File _) \<Rightarrow> True | _ \<Rightarrow> False) [1..<length p]"
    unfolding list_ex_iff by (intro bex_cong) auto
  then show ?thesis by (simp add: below_file_def)
qed

text \<open>
  Storing and reading a script: after a store answered 200 the script reads back as the body of the request,
  cut after 5 MiB without a word to the client, and no other file has changed.
\<close>

theorem putScript_then_get:
  assumes "tree (ms_fs st)" "mg_cwd E \<noteq> []" "look (ms_fs st) (mg_cwd E) = Some Dir"
    and name: "\<not> bad_script_name name" "name \<noteq> ''.''" "name \<noteq> ''..''"
    and put: "putScript E c req name st = (r, st')" "rs_status r = 200"
  shows "getScript E name (ms_fs st') =
      reply 200 [(''Content-Type'', ''text/plain'')] (Data (take maxScriptBytes (concat (fst (body_of req))))) \<and>
    (\<forall>t. t \<noteq> mg_cwd E @ [''scripts'', name] \<longrightarrow> file_at (ms_fs st') t = file_at (ms_fs st) t)"
proof -
  let ?p = "mg_cwd E @ [''scripts'', name]"
  note path = script_path [OF name, of "mg_cwd E"]
  obtain r1 s1 where mk: "mkdir_from (mg_cwd E) [''scripts''] (ms_fs st) = (r1, s1)" by (meson surj_pair)
  obtain content r2 s2 where ok: "r1 = Inr ()" "read_limited maxScriptBytes (body_of req) = Inr content"
      "os_WriteFile (mg_cwd E) (script_file name) content s1 = (r2, s2)" "ms_fs st' = s2" "is_ok r2"
    using putScript_cases [OF name(1) mk, of c req] put by auto
  have "tree s1" using mkdir_from_spec [OF assms(1) _ mk] assms(3) by blast
  have content: "content = take maxScriptBytes (concat (fst (body_of req)))"
    using ok(2) by (auto simp: read_limited_def split: prod.splits if_splits read_end.splits)
  obtain s3 where op: "os_OpenWrite True ?p s1 = (Inr (), s3)" "s2 = file_append ?p content s3"
    using ok(3,5) path by (auto simp: os_WriteFile_def split: prod.splits sum.splits)
  have "look s3 ?p = Some (File [])"
    using op(1) by (auto simp: os_OpenWrite_def split: sum.splits node.splits if_splits)
  then have look: "look s2 ?p = Some (File content)" by (simp add: op(2) file_append_def)
  have "\<not> below_file s1 ?p" using op(1) by (auto simp: os_OpenWrite_def os_Stat_def ENOENT_def ENOTDIR_def split: if_splits)
  moreover have "look s2 q = look s1 q" if "q \<noteq> ?p" for q
    using os_WriteFile_outside [OF ok(3), of q] path that by simp
  ultimately have "\<not> below_file s2 ?p" using below_file_cong [of ?p s2 s1] by blast
  then have "os_ReadFile (mg_cwd E) (script_file name) s2 = Inr content"
    using look path by (simp add: os_ReadFile_def os_Stat_def)
  then have "getScript E name (ms_fs st') = reply 200 [(''Content-Type'', ''text/plain'')] (Data content)"
    using name(1) ok(4) by (simp add: getScript_def)
  moreover have "file_at (ms_fs st') t = file_at (ms_fs st) t" if "t \<noteq> ?p" for t
    using putScript_outside [OF name(1), of E t c req st] path that put by auto
  ultimately show ?thesis by (simp add: content)
qed


subsection \<open>A concrete server\<close>

definition demo_mgmt :: "json \<Rightarrow> access_entry list \<Rightarrow> (nat, string, db) mgmt_env" where
  "demo_mgmt doc acc = \<lparr>mg_db = pg_store plain_bcrypt, mg_ts = one_service, mg_jwt = one_token (claims_of ''root'' 0 acc),
     mg_developer = False, mg_cel = demo_cel, mg_vulnGate = None,
     mg_ldap = \<lparr>lc_enabled = True, lc_server = [], lc_ssl = False, lc_base = []\<rparr>,
     mg_oidc = \<lparr>oc_enabled = False, oc_issuer = [], oc_client = []\<rparr>,
     mg_decode = (\<lambda>_. Inr doc), mg_type_err = ErrText ''json: cannot unmarshal'', mg_unmarshal = (\<lambda>_. None),
     mg_report = (\<lambda>_. None), mg_hash = (\<lambda>p. if p = [] then Inl (ErrText []) else Inr p), mg_rand = Inr ''r'',
     mg_time = (\<lambda>_. []), mg_quot = (\<lambda>_ _. []), mg_cwd = [''srv''], mg_now = 0,
     mg_unrouted = (\<lambda>_. http_error [] ''404 page not found'' 404)\<rparr>"

definition demo_state :: "db \<Rightarrow> (string, db) mgmt" where
  "demo_state d = \<lparr>ms_db = d, ms_enf = \<lparr>en_rules = [], en_cache = (\<lambda>_. None)\<rparr>, ms_fs = [([''srv''], Dir)]\<rparr>"

definition mgmt_req :: "string \<Rightarrow> string \<Rightarrow> request" where
  "mgmt_req m p = plain_request m (''/api/v1/management/'' @ p) ''Bearer tok''"

lemma demo_mgmt_sels [simp]:
  "mg_db (demo_mgmt doc acc) = pg_store plain_bcrypt" "\<not> mg_developer (demo_mgmt doc acc)"
  "mg_cwd (demo_mgmt doc acc) = [''srv'']" "mg_hash (demo_mgmt doc acc) p = (if p = [] then Inl (ErrText []) else Inr p)"
  by (simp_all add: demo_mgmt_def)

lemma demo_bcrypt: "mg_hash (demo_mgmt doc acc) p = Inr h \<Longrightarrow> plain_bcrypt h p"
  by (auto simp: plain_bcrypt_def split: if_splits)

lemma demo_fs: "tree (ms_fs (demo_state d))" "look (ms_fs (demo_state d)) [''srv''] = Some Dir"
proof -
  show "tree (ms_fs (demo_state d))" by (auto simp: tree_def demo_state_def look_def)
  show "look (ms_fs (demo_state d)) [''srv''] = Some Dir" by (simp add: demo_state_def look_def)
qed

definition new_user_doc :: json where
  "new_user_doc = JObj [(''username'', JStr ''eve''), (''Password'', JStr ''12345678''), (''scopes'', JArr [JStr ''a'', JStr ''b''])]"

theorem mgmt_admin_only_witness:
  "\<exists>r. serve_mgmt (demo_mgmt new_user_doc bob_access) (mgmt_req ''POST'' ''users'') (demo_state bob_db) = (Respond r, demo_state bob_db) \<and>
     (r = mg_unrouted (demo_mgmt new_user_doc bob_access) (mgmt_req ''POST'' ''users'') \<or> rs_status r \<in> {401, 403})"
proof (rule mgmt_admin_only)
  show "admin_claims (demo_mgmt new_user_doc bob_access) (mgmt_req ''POST'' ''users'') = None" by code_simp
  show "\<not> HasPrefix (rq_path (mgmt_req ''POST'' ''users'')) (mgmt_prefix @ ''access-tokens'')" by code_simp
qed simp


theorem createUser_then_login_witness:
  "\<exists>v. pg_AuthenticateUser plain_bcrypt ''eve'' ''12345678''
     (ms_db (snd (createUser (demo_mgmt new_user_doc full_access) None (mgmt_req ''POST'' ''users'') (demo_state bob_db)))) = Inr v \<and>
     us_scopes v = [''a,b'']"
proof -
  let ?E = "demo_mgmt new_user_doc full_access" and ?r = "mgmt_req ''POST'' ''users''" and ?st = "demo_state bob_db"
  have "decode_body ?E ?r user_payload = Inr (''eve'', ''12345678'', [''a'', ''b''])" "rs_status (fst (createUser ?E None ?r ?st)) = 201"
    by code_simp+
  from createUser_then_login [OF demo_mgmt_sels(1) prod.collapse [symmetric] this(2,1) demo_bcrypt] show ?thesis by auto
qed

definition reset_doc :: json where
  "reset_doc = JObj [(''password'', JStr ''new password'')]"

theorem resetPassword_replaces_witness:
  "pg_AuthenticateUser plain_bcrypt ''bob'' ''pw''
     (ms_db (snd (resetPassword (demo_mgmt reset_doc full_access) None (mgmt_req ''POST'' ''users/bob/reset-password'') ''bob'' (demo_state bob_db)))) = Inl DbNotFound"
proof -
  let ?E = "demo_mgmt reset_doc full_access" and ?r = "mgmt_req ''POST'' ''users/bob/reset-password''" and ?st = "demo_state bob_db"
  have "decode_body ?E ?r (\<lambda>kvs. decode_field set_string ''password'' kvs []) = Inr ''new password''"
    "rs_status (fst (resetPassword ?E None ?r ''bob'' ?st)) = 200" by code_simp+
  then have "\<exists>h v. mg_hash ?E ''new password'' = Inr h \<and>
      pg_AuthenticateUser plain_bcrypt ''bob'' ''new password'' (ms_db (snd (resetPassword ?E None ?r ''bob'' ?st))) = Inr v \<and>
      (\<forall>pw'. \<not> plain_bcrypt h pw' \<longrightarrow> pg_AuthenticateUser plain_bcrypt ''bob'' pw' (ms_db (snd (resetPassword ?E None ?r ''bob'' ?st))) = Inl DbNotFound)"
    by (intro resetPassword_replaces [OF demo_mgmt_sels(1) prod.collapse [symmetric] _ _ demo_bcrypt])
  then obtain h where "mg_hash ?E ''new password'' = Inr h"
    "\<forall>pw'. \<not> plain_bcrypt h pw' \<longrightarrow> pg_AuthenticateUser plain_bcrypt ''bob'' pw' (ms_db (snd (resetPassword ?E None ?r ''bob'' ?st))) = Inl DbNotFound"
    by blast
  moreover have "\<not> plain_bcrypt ''new password'' ''pw''" by (simp add: plain_bcrypt_def)
  ultimately show ?thesis by auto
qed

definition grouped_db :: db where
  "grouped_db = snd (pg_AddUserToGroup ''bob'' ''dev'' (snd (pg_CreateGroup ''dev'' bob_db)))"

lemma demo_dbs: "pg_reach bob_db" "pg_reach grouped_db"
  unfolding grouped_db_def bob_db_def by (intro pg_reach.intros)+

theorem deleteUser_revokes_witness:
  "deleteUser (demo_mgmt JNull full_access) None (mgmt_req ''DELETE'' ''users/bob'') ''bob'' (demo_state grouped_db) =
     (failed foreign_key_violation, demo_state grouped_db)"
proof -
  let ?v = "hd (users grouped_db)"
  have "pg_reach (ms_db (demo_state grouped_db))" using demo_dbs(2) by (simp add: demo_state_def)
  moreover have "find (\<lambda>v. ur_name v = ''bob'') (users (ms_db (demo_state grouped_db))) = Some ?v"
    "list_ex (\<lambda>(uid, gid). uid = ur_id ?v) (user_groups (ms_db (demo_state grouped_db)))" by code_simp+
  ultimately show ?thesis
    using deleteUser_revokes [of "demo_mgmt JNull full_access" plain_bcrypt "demo_state grouped_db" "''bob''" ?v None "mgmt_req ''DELETE'' ''users/bob''"]
    by simp
qed

definition token_db :: db where
  "token_db = snd (pg_CreateAccessToken 1 ''ci'' ''h'' [''*''] None (snd (pg_CreateUser ''al'' ''pw'' [''*''] bob_db)))"

theorem deleteAccessToken_own_witness:
  "snd (deleteAccessToken (demo_mgmt JNull full_access) (Some (claims_of ''al'' 0 [])) ''3'' (demo_state token_db)) = demo_state token_db \<and>
   tokens token_db \<noteq> []"
proof
  let ?E = "demo_mgmt JNull full_access" and ?c = "claims_of ''al'' 0 []" and ?st = "demo_state token_db"
  have "pg_reach token_db" unfolding token_db_def by (intro pg_reach.intros demo_dbs(1))
  then have reach: "pg_reach (ms_db ?st)" by (simp add: demo_state_def)
  have "rs_status (fst (deleteAccessToken ?E (Some ?c) ''3'' ?st)) = 404" by code_simp
  then show "snd (deleteAccessToken ?E (Some ?c) ''3'' ?st) = ?st"
    using deleteAccessToken_own [OF _ reach prod.collapse [symmetric], of ?E plain_bcrypt ?c "''3''"] by auto
  show "tokens token_db \<noteq> []" by code_simp
qed

theorem access_token_routes_refuse_witness:
  "serve_mgmt (demo_mgmt JNull full_access) (mgmt_req ''GET'' ''access-tokens'') (demo_state bob_db) = (Respond denied, demo_state bob_db)"
proof (rule access_token_routes_refuse)
  show "rq_path (mgmt_req ''GET'' ''access-tokens'') = ''/api/v1/management/access-tokens''"
    "rq_method (mgmt_req ''GET'' ''access-tokens'') \<in> {''GET'', ''POST''}"
    "HasPrefix (rq_header (mgmt_req ''GET'' ''access-tokens'') ''Authorization'') ''Bearer ''"
    "ParseToken (mg_jwt (demo_mgmt JNull full_access)) (mg_ts (demo_mgmt JNull full_access)) (mg_now (demo_mgmt JNull full_access))
       (TrimPrefix (rq_header (mgmt_req ''GET'' ''access-tokens'') ''Authorization'') ''Bearer '') = Inr (claims_of ''root'' 0 full_access)"
    "\<forall>e \<in> set (cl_access (claims_of ''root'' 0 full_access)). ae_name e \<noteq> ''/api/v1/management/access-tokens''"
    by code_simp+
qed simp

definition immutable_doc :: json where
  "immutable_doc = JObj [(''immutable'', JBool True)]"

theorem patchTag_protects_witness:
  "\<exists>resp. putManifest demo_router demo_push ''v1'' (empty_world\<lparr>wd_db := ms_db (snd (patchTag (demo_mgmt immutable_doc full_access) None
       (mgmt_req ''PATCH'' ''repositories/lib/app/tags/v1'') (demo_state two_tags)))\<rparr>) =
     ((resp, []), empty_world\<lparr>wd_db := ms_db (snd (patchTag (demo_mgmt immutable_doc full_access) None
       (mgmt_req ''PATCH'' ''repositories/lib/app/tags/v1'') (demo_state two_tags)))\<rparr>) \<and> rs_status resp = 409"
proof -
  let ?E = "demo_mgmt immutable_doc full_access" and ?r = "mgmt_req ''PATCH'' ''repositories/lib/app/tags/v1''" and ?st = "demo_state two_tags"
  have "rq_path ?r = repositories_prefix @ ''lib/app'' @ ''/tags/'' @ ''v1''" "CHR ''/'' \<notin> set ''v1''" "\<not> HasPrefix ''v1'' ''sha256:''"
    "decode_body ?E ?r (\<lambda>kvs. decode_field set_bool ''immutable'' kvs False) = Inr True" "rs_status (fst (patchTag ?E None ?r ?st)) = 200"
    by code_simp+
  note P = patchTag_protects [OF demo_mgmt_sels(1) this(1) _ this(2-4) prod.collapse [symmetric] this(5)]
  have ctx: "getRepoContext demo_push = (''lib/app'', ''lib'')" by code_simp
  let ?w = "empty_world\<lparr>wd_db := ms_db (snd (patchTag ?E None ?r ?st))\<rparr>"
  have "\<exists>resp. putManifest (on_mem_pg plain_bcrypt demo_router) demo_push ''v1'' ?w = ((resp, []), ?w) \<and> rs_status resp = 409"
    by (rule P [THEN conjunct2, rule_format, OF _ _ ctx]) simp_all
  then show ?thesis unfolding demo_router_on .
qed

definition script_req :: request where
  "script_req = (mgmt_req ''PUT'' ''scripts/a.star'')\<lparr>rq_body := Some ([''x''], EOF)\<rparr>"

theorem scripts_confined_witness:
  "file_at (ms_fs (snd (putScript (demo_mgmt JNull full_access) None script_req ''..'' (demo_state bob_db)))) [''srv'', ''config.json''] =
   file_at (ms_fs (demo_state bob_db)) [''srv'', ''config.json'']"
  using scripts_confined [OF demo_fs(1), where E = "demo_mgmt JNull full_access" and t = "[''srv'', ''config.json'']"] demo_fs(2) by (simp add: under_def)

theorem putScript_then_get_witness:
  "getScript (demo_mgmt JNull full_access) ''a.star'' (ms_fs (snd (putScript (demo_mgmt JNull full_access) None script_req ''a.star'' (demo_state bob_db)))) =
     reply 200 [(''Content-Type'', ''text/plain'')] (Data ''x'')"
proof -
  let ?E = "demo_mgmt JNull full_access" and ?st = "demo_state bob_db"
  have b: "body_of script_req = ([''x''], EOF)" by (simp add: script_req_def body_of_def)
  then have rd: "read_limited maxScriptBytes (body_of script_req) = Inr ''x''" by (simp add: read_limited_def maxScriptBytes_def)
  have ok: "\<not> bad_script_name ''a.star''" by code_simp
  have "putScript ?E None script_req ''a.star'' ?st = (r, st') \<Longrightarrow> rs_status r = 200" for r st'
    using rd ok script_path [OF ok, of "[''srv'']"]
    by (auto simp: putScript_def demo_state_def look_def os_WriteFile_def os_OpenWrite_def os_Stat_def below_file_def upd_def status_def)
  from putScript_then_get [OF demo_fs(1) _ _ ok _ _ prod.collapse [symmetric] this [OF prod.collapse [symmetric]]] demo_fs(2) b
  show ?thesis by (simp add: maxScriptBytes_def)
qed

end
