(* ===== verification/Sqlite_Refinement.thy ===== *)
theory Sqlite_Refinement
  imports Sqlite Management_Properties
begin

text \<open>
  The server falls back from PostgreSQL to SQLite when it cannot connect. What the two stores have in common is stated
  as an interface between them, \<^verbatim>\<open>store_emulation\<close>: through a function from the states of one to those of the
  other, reads agree and writes that succeed on the first succeed on the second. The handlers for pulling, pushing and
  uploading are shown once, inside it, to behave alike. Where the stores differ is shown afterwards.
\<close>

subsection \<open>The interface\<close>

definition with_store :: "'c store \<Rightarrow> ('s, 'w, 'a) router \<Rightarrow> ('s, 'w, 'c) router" where
  "with_store S R = \<lparr>rt_db = S, rt_storage = rt_storage R, rt_sha256 = rt_sha256 R, rt_digest = rt_digest R,
     rt_json = rt_json R, rt_marshal = rt_marshal R, rt_refs = rt_refs R, rt_report = rt_report R, rt_uuid = rt_uuid R,
     rt_upstream = rt_upstream R, rt_proxy = rt_proxy R, rt_vulnGate = rt_vulnGate R, rt_developer = rt_developer R,
     rt_starlark = rt_starlark R, rt_webhook = rt_webhook R, rt_broker = rt_broker R, rt_scanner = rt_scanner R,
     rt_sync = rt_sync R\<rparr>"

lemma with_store_sels [simp]:
  "rt_db (with_store S R) = S" "rt_storage (with_store S R) = rt_storage R" "rt_sha256 (with_store S R) = rt_sha256 R"
  "rt_digest (with_store S R) = rt_digest R" "rt_json (with_store S R) = rt_json R" "rt_marshal (with_store S R) = rt_marshal R"
  "rt_refs (with_store S R) = rt_refs R" "rt_report (with_store S R) = rt_report R" "rt_uuid (with_store S R) = rt_uuid R"
  "rt_upstream (with_store S R) = rt_upstream R" "rt_proxy (with_store S R) = rt_proxy R" "rt_vulnGate (with_store S R) = rt_vulnGate R"
  "rt_starlark (with_store S R) = rt_starlark R" "rt_webhook (with_store S R) = rt_webhook R" "rt_broker (with_store S R) = rt_broker R"
  "rt_scanner (with_store S R) = rt_scanner R" "rt_sync (with_store S R) = rt_sync R"
  by (simp_all add: with_store_def)

lemma with_store_proxied [simp]: "proxied (with_store S R) req ref = proxied R req ref"
  unfolding proxied_def with_store_sels ..

definition map_db :: "('a \<Rightarrow> 'c) \<Rightarrow> ('s, 'a) world \<Rightarrow> ('s, 'c) world" where
  "map_db f w = \<lparr>wd_st = wd_st w, wd_db = f (wd_db w)\<rparr>"

lemma map_db_simps [simp]:
  "wd_st (map_db f w) = wd_st w" "wd_db (map_db f w) = f (wd_db w)"
  "map_db f (w\<lparr>wd_st := s\<rparr>) = (map_db f w)\<lparr>wd_st := s\<rparr>" "map_db f (w\<lparr>wd_db := d\<rparr>) = (map_db f w)\<lparr>wd_db := f d\<rparr>"
  by (simp_all add: map_db_def)

lemma appendBody_refusal: "appendBody P tp req n s = (Some resp, s1) \<Longrightarrow> rs_status resp \<noteq> 201"
  by (auto simp: appendBody_def upload_too_large_def err_500_def split: sum.splits prod.splits option.splits if_splits)

locale store_emulation =
  fixes A :: "'a store" and C :: "'c store" and view :: "'a \<Rightarrow> 'c" and plain :: "'a \<Rightarrow> bool"
  assumes em_get: "st_GetManifest C repo ref (view s) = map_prod id view (st_GetManifest A repo ref s)"
    and em_scan: "st_GetScanReport C d sc (view s) = map_prod id view (st_GetScanReport A d sc s)"
    and em_quota: "st_CheckQuota C ns (view s) = st_CheckQuota A ns s"
    and em_mutable: "plain s \<Longrightarrow> st_IsTagImmutable A repo ref s \<noteq> Inr True" "st_IsTagImmutable C repo ref t \<noteq> Inr True"
    and em_put: "st_PutManifest A repo ref mt d pl s = (Inr u, s') \<Longrightarrow> st_PutManifest C repo ref mt d pl (view s) = (Inr u, view s')"
    and em_charge: "st_UpdateQuotaUsage A ns n s = (Inr u, s') \<Longrightarrow> st_UpdateQuotaUsage C ns n (view s) = (Inr u, view s')"
    and em_blob: "st_PutBlob A d n mt s = (Inr u, s') \<Longrightarrow> st_PutBlob C d n mt (view s) = (Inr u, view s')"
    and em_artifact: "snd (st_SetArtifactMetadata C a (view s)) = view (snd (st_SetArtifactMetadata A a s))"
    and em_commit: "st_WithTx A f s = (Inr u, s') \<Longrightarrow> f s = (Inr u, s')" "g t = (Inr u, t') \<Longrightarrow> st_WithTx C g t = (Inr u, t')"
begin

lemma em_tx:
  assumes "st_WithTx A f s = (Inr u, s')" "\<And>s'. f s = (Inr u, s') \<Longrightarrow> g (view s) = (Inr u, view s')"
  shows "st_WithTx C g (view s) = (Inr u, view s')"
  using assms em_commit by blast

lemma em_checkVulnGate:
  "rt_db R = A \<Longrightarrow> checkVulnGate (with_store C R) dg (view s) = map_prod id view (checkVulnGate R dg s)"
  by (auto simp: checkVulnGate_def em_scan split: option.split sum.split prod.split)

lemma em_getManifest:
  assumes "rt_db R = A"
  shows "getManifest (with_store C R) req ref (view s) = map_prod id view (getManifest R req ref s)"
proof (cases "proxied R req ref")
  case (Some resp)
  then show ?thesis by (simp add: getManifest_def)
next
  case None
  obtain m s1 where "st_GetManifest A (fst (getRepoContext req)) ref s = (m, s1)" by force
  with None assms em_checkVulnGate [OF assms] show ?thesis
    by (auto simp: getManifest_def em_get split: sum.split prod.split option.split)
qed

lemma em_check_manifests:
  "rt_db R = A \<Longrightarrow> check_manifests (with_store C R) repo ms (view s) = map_prod id view (check_manifests R repo ms s)"
proof (induction ms arbitrary: s)
  case (Cons m ms)
  show ?case
  proof (cases "rt_digest R m")
    case (Some p)
    obtain x s1 where g: "st_GetManifest A repo (fst p) s = (x, s1)" by force
    with Cons Some g show ?thesis by (cases p; cases x) (auto simp: em_get)
  qed (use Cons in simp)
qed simp

lemma em_check_blobs: "check_blobs (with_store C R) repo ds = check_blobs R repo ds"
  by (rule ext, induction ds) (auto split: option.split sum.split)

lemma em_references:
  assumes "rt_db R = A"
  shows "validateManifestReferences (with_store C R) repo pl (map_db view w) = map_prod id (map_db view) (validateManifestReferences R repo pl w)"
  using em_check_manifests [OF assms, of repo _ "wd_db w"]
  by (auto simp: validateManifestReferences_def em_check_blobs split: sum.split option.split prod.split)

lemma em_record_manifest:
  assumes "record_manifest A repo ns ref mt dg pl q s = (Inr u, s')"
  shows "record_manifest C repo ns ref mt dg pl q (view s) = (Inr u, view s')"
  using assms em_put [of repo ref mt dg pl s] em_charge
  by (auto simp: record_manifest_def split: prod.splits sum.splits option.splits)

lemma em_extract: "extractArtifactMetadata (with_store C R) = extractArtifactMetadata R"
  by (simp add: extractArtifactMetadata_def fun_eq_iff split: option.split)

lemma em_store_manifest:
  assumes "rt_db R = A" "store_manifest R req repo ns ref pl can w = (re, w')" "rs_status (fst re) = 201"
  shows "store_manifest (with_store C R) req repo ns ref pl can (map_db view w) = (re, map_db view w')"
proof -
  let ?mt = "rq_header req ''Content-Type''" and ?dg = "''sha256:'' @ rt_sha256 R pl"
  obtain q d1 where ok: "st_CheckQuota A ns (wd_db w) = Inr q" "\<not> quota_exceeded q (int (length pl))"
      "st_WithTx A (record_manifest A repo ns ref ?mt ?dg pl q) (wd_db w) = (Inr (), d1)"
    using assms by (auto simp: store_manifest_def Let_def split: sum.splits if_splits prod.splits)
  have "st_WithTx C (record_manifest C repo ns ref ?mt ?dg pl q) (view (wd_db w)) = (Inr (), view d1)"
    by (rule em_tx [OF ok(3)]) (rule em_record_manifest)
  with ok assms show ?thesis
    by (auto simp: store_manifest_def Let_def em_quota em_extract push_effects_def em_artifact split: option.split)
qed

lemma em_tag_blocked: "rt_db R = A \<Longrightarrow> plain s \<Longrightarrow> \<not> tag_blocked R repo ref s" "\<not> tag_blocked (with_store C R) repo ref t"
  using em_mutable by (auto simp: tag_blocked_def)

lemma em_read_manifest: "read_manifest (with_store C R) = read_manifest R"
  by (simp add: read_manifest_def fun_eq_iff split: sum.split option.split)

lemma em_putManifest:
  assumes R: "rt_db R = A" and plain: "plain (wd_db w)"
    and put: "putManifest R req ref w = (re, w')" "rs_status (fst re) = 201"
  shows "putManifest (with_store C R) req ref (map_db view w) = (re, map_db view w')"
proof -
  obtain repo ns where ctx: "getRepoContext req = (repo, ns)" by force
  have read_status: "read_manifest R req = Inl resp \<Longrightarrow> rs_status resp \<noteq> 201" for resp
    by (auto simp: read_manifest_def Let_def split: if_splits sum.splits option.splits)
  obtain pl where pl: "read_manifest R req = Inr pl"
    using put ctx em_tag_blocked(1) [OF R plain] read_status by (auto simp: putManifest_def split: sum.splits)
  obtain can where can: "rt_marshal R (the (rt_json R pl)) = Inr can"
    using put ctx em_tag_blocked(1) [OF R plain] pl by (auto simp: putManifest_def split: sum.splits)
  obtain w1 where v: "validateManifestReferences R repo pl w = (None, w1)" "store_manifest R req repo ns ref pl can w1 = (re, w')"
    using put ctx em_tag_blocked(1) [OF R plain] pl can
    by (auto simp: putManifest_def refuse_refs_def split: prod.splits option.splits ref_error.splits)
  show ?thesis
    using em_store_manifest [OF R v(2) put(2)] em_references(1) [OF R, of repo pl w] v(1) pl can ctx
    by (simp add: putManifest_def em_read_manifest em_tag_blocked(2))
qed

lemma em_record_blob:
  assumes "record_blob A ns q dg n s = (Inr u, s')"
  shows "record_blob C ns q dg n (view s) = (Inr u, view s')"
  using assms em_blob [of dg n _ s] em_charge by (auto simp: record_blob_def split: prod.splits sum.splits option.splits)

lemma em_finalize:
  assumes "rt_db R = A" "finalize R ns q dg sz tp fp w = (Inr u, w')"
  shows "finalize (with_store C R) ns q dg sz tp fp (map_db view w) = (Inr u, map_db view w')"
proof (cases "pv_Stat (rt_storage R) fp (wd_st w)")
  case (Inr n)
  with assms show ?thesis by (simp add: finalize_def)
next
  case (Inl e)
  with assms obtain s1 d1 where mv: "err_is e StorageNotFound" "pv_Move (rt_storage R) tp fp (wd_st w) = (Inr (), s1)"
      "st_WithTx A (record_blob A ns q dg sz) (wd_db w) = (Inr (), d1)" "w' = w\<lparr>wd_st := s1, wd_db := d1\<rparr>"
    by (auto simp: finalize_def Let_def split: if_splits prod.splits sum.splits)
  have "st_WithTx C (record_blob C ns q dg sz) (view (wd_db w)) = (Inr (), view d1)"
    by (rule em_tx [OF mv(3)]) (rule em_record_blob)
  with Inl mv show ?thesis by (simp add: finalize_def)
qed

lemma em_commitUpload:
  assumes "rt_db R = A" "commitUpload R sh repo ns dg sz tp fp w = (r, w')" "rs_status r = 201"
  shows "commitUpload (with_store C R) sh repo ns dg sz tp fp (map_db view w) = (r, map_db view w')"
proof -
  obtain q w1 where ok: "st_CheckQuota A ns (wd_db w) = Inr q" "\<not> quota_exceeded q sz"
      "(case sh of Some x \<Rightarrow> (x, w) | None \<Rightarrow> finalize R ns q dg sz tp fp w) = (Inr (), w1)"
      "r = blob_created repo dg" "w' = w1\<lparr>wd_st := snd (pv_Delete (rt_storage R) tp (wd_st w1))\<rparr>"
    using assms by (auto simp: commitUpload_def Let_def err_500_def split: sum.splits if_splits prod.splits)
  have "(case sh of Some x \<Rightarrow> (x, map_db view w) | None \<Rightarrow> finalize (with_store C R) ns q dg sz tp fp (map_db view w)) = (Inr (), map_db view w1)"
    using ok(3) em_finalize [OF assms(1)] by (auto split: option.splits)
  with ok show ?thesis by (simp add: commitUpload_def em_quota)
qed

lemma em_verifyUpload:
  assumes "rt_db R = A" "verifyUpload R sh repo ns dg tp fp w = (r, w')" "rs_status r = 201"
  shows "verifyUpload (with_store C R) sh repo ns dg tp fp (map_db view w) = (r, map_db view w')"
  using assms(2,3) em_commitUpload [OF assms(1)]
  by (auto simp: verifyUpload_def Let_def err_500_def split: sum.splits prod.splits read_end.splits if_splits)

lemma em_putUpload:
  assumes R: "rt_db R = A" and put: "putUpload R sh req u w = (r, w')" "rs_status r = 201"
  shows "putUpload (with_store C R) sh req u (map_db view w) = (r, map_db view w')"
proof -
  obtain repo ns where ctx: "getRepoContext req = (repo, ns)" by force
  let ?dg = "rq_query req ''digest''" and ?P = "rt_storage R"
  let ?fp = "getPath repo ?dg" and ?tp = "UploadPath repo u"
  have dg: "?dg \<noteq> []" "map_option snd (rt_digest R ?dg) = Some ''sha256''"
    using put ctx by (auto simp: putUpload_def Let_def split: if_splits)
  show ?thesis
  proof (cases "pv_Stat ?P ?fp (wd_st w)")
    case (Inr n)
    then obtain d1 where pb: "st_PutBlob A ?dg n ''application/octet-stream'' (wd_db w) = (Inr (), d1)"
        "w' = w\<lparr>wd_db := d1, wd_st := snd (pv_Delete ?P ?tp (wd_st w))\<rparr>" "r = blob_created repo ?dg"
      using put ctx dg R by (auto simp: putUpload_def Let_def err_500_def split: prod.splits sum.splits)
    with em_blob [OF pb(1)] Inr ctx dg show ?thesis by (simp add: putUpload_def)
  next
    case (Inl e)
    then have nf: "err_is e StorageNotFound" using put ctx dg by (auto simp: putUpload_def Let_def err_500_def split: if_splits)
    obtain sz where sz: "(case pv_Stat ?P ?tp (wd_st w) of
          Inr n \<Rightarrow> Inr n
        | Inl te \<Rightarrow> (if err_is te StorageNotFound
                    then (if hasBody req then Inr 0 else Inl (http_error [] ''upload not found'' 404))
                    else Inl (err_500 te))) = Inr sz"
      using put ctx dg Inl nf by (auto simp: putUpload_def Let_def err_500_def split: sum.splits if_splits)
    show ?thesis
    proof (cases "hasBody req")
      case True
      then have fits: "\<not> (maxUploadBytes - sz < 0 \<or> rq_content_length req > maxUploadBytes - sz)"
        using put ctx dg Inl nf sz by (auto simp: putUpload_def Let_def upload_too_large_def)
      obtain x s1 where ap: "appendBody ?P ?tp req (maxUploadBytes - sz) (wd_st w) = (x, s1)" by force
      have "x = None"
      proof (cases x)
        case (Some resp)
        then have "rs_status resp \<noteq> 201" using ap appendBody_refusal by metis
        with put ctx dg Inl nf sz fits ap Some True show ?thesis by (auto simp: putUpload_def Let_def)
      qed
      then have "verifyUpload R sh repo ns ?dg ?tp ?fp (w\<lparr>wd_st := s1\<rparr>) = (r, w')"
        using put ctx dg Inl nf sz fits ap True by (simp add: putUpload_def Let_def)
      from em_verifyUpload [OF R this put(2)] \<open>x = None\<close> ctx dg Inl nf sz fits ap True show ?thesis
        by (simp add: putUpload_def Let_def)
    next
      case False
      then have "verifyUpload R sh repo ns ?dg ?tp ?fp w = (r, w')"
        using put ctx dg Inl nf sz by (simp add: putUpload_def Let_def)
      from em_verifyUpload [OF R this put(2)] ctx dg Inl nf sz False show ?thesis
        by (simp add: putUpload_def Let_def)
    qed
  qed
qed

end

subsection \<open>What SQLite keeps of a PostgreSQL database\<close>

definition sq_of_manifest :: "manifest_row \<Rightarrow> sq_manifest" where
  "sq_of_manifest m = \<lparr>sm_repo = mf_repo m, sm_ref = mf_ref m, sm_media = mf_media m, sm_digest = mf_digest m, sm_payload = mf_payload m\<rparr>"

definition sq_of_quota :: "quota_row \<Rightarrow> sq_quota" where
  "sq_of_quota q = \<lparr>sk_ns = qr_ns q, sk_limit = qr_limit q, sk_used = SqInt (qr_used q)\<rparr>"

definition forget :: "db \<Rightarrow> sq_db" where
  "forget p = \<lparr>sq_namespaces = namespaces p, sq_repositories = repositories p, sq_manifests = map sq_of_manifest (manifests p),
     sq_blobs = blobs p, sq_users = users p, sq_quotas = map sq_of_quota (quotas p), sq_scans = scans p, sq_logins = logins p,
     sq_policies = policies p, sq_groups = groups p, sq_user_groups = user_groups p, sq_audits = audits p,
     sq_next = next_id p, sq_now = now p\<rparr>"

definition no_immutable :: "db \<Rightarrow> bool" where
  "no_immutable p \<longleftrightarrow> \<not> list_ex mf_immutable (manifests p)"

lemma find_map: "find P (map f xs) = map_option f (find (P \<circ> f) xs)"
  by (induction xs) auto

lemma forget_lookups [simp]:
  "sq_ns n (forget p) = ns_lookup n p" "sq_repo_in nid r (forget p) = repo_in nid r p"
  "sq_ns_name nid (forget p) = ns_name_of nid p" "sq_repo nr (forget p) = repo_lookup nr p"
  by (simp_all add: sq_ns_def sq_repo_in_def sq_ns_name_def sq_repo_def ns_lookup_def repo_in_def ns_name_of_def repo_lookup_def forget_def)

lemma sq_of_manifest_sels [simp]:
  "sm_repo (sq_of_manifest m) = mf_repo m" "sm_ref (sq_of_manifest m) = mf_ref m" "sm_media (sq_of_manifest m) = mf_media m"
  "sm_digest (sq_of_manifest m) = mf_digest m" "sm_payload (sq_of_manifest m) = mf_payload m"
  by (simp_all add: sq_of_manifest_def)

lemma sq_of_quota_sels [simp]:
  "sk_ns (sq_of_quota q) = qr_ns q" "sk_limit (sq_of_quota q) = qr_limit q" "sk_used (sq_of_quota q) = SqInt (qr_used q)"
  by (simp_all add: sq_of_quota_def)

lemma forget_manifests: "sq_repo_manifests nr (forget p) = map sq_of_manifest (repo_manifests nr p)"
  by (auto simp: sq_repo_manifests_def repo_manifests_def filter_map comp_def forget_def [of p] simp flip: forget_lookups split: option.split)

lemma forget_rows [simp]:
  "sq_manifests (forget p) = map sq_of_manifest (manifests p)" "sq_quotas (forget p) = map sq_of_quota (quotas p)"
  "sq_users (forget p) = users p" "sq_blobs (forget p) = blobs p" "sq_scans (forget p) = scans p" "sq_logins (forget p) = logins p"
  "sq_next (forget p) = next_id p" "sq_now (forget p) = now p"
  by (simp_all add: forget_def)

lemma forget_updates [simp]:
  "forget (p\<lparr>manifests := ms\<rparr>) = (forget p)\<lparr>sq_manifests := map sq_of_manifest ms\<rparr>"
  "forget (p\<lparr>quotas := qs\<rparr>) = (forget p)\<lparr>sq_quotas := map sq_of_quota qs\<rparr>"
  "forget (p\<lparr>blobs := bs\<rparr>) = (forget p)\<lparr>sq_blobs := bs\<rparr>"
  "forget (p\<lparr>artifacts := arts\<rparr>) = forget p"
  "forget (p\<lparr>logins := ls\<rparr>) = (forget p)\<lparr>sq_logins := ls\<rparr>"
  "forget (p\<lparr>users := us\<rparr>) = (forget p)\<lparr>sq_users := us\<rparr>"
  "forget (p\<lparr>next_id := i\<rparr>) = (forget p)\<lparr>sq_next := i\<rparr>"
  "forget (p\<lparr>namespaces := nss, next_id := i\<rparr>) = (forget p)\<lparr>sq_namespaces := nss, sq_next := i\<rparr>"
  "forget (p\<lparr>repositories := rs, next_id := i\<rparr>) = (forget p)\<lparr>sq_repositories := rs, sq_next := i\<rparr>"
  by (simp_all add: forget_def)

lemma forget_CreateNamespace: "sq_CreateNamespace n (forget p) = map_prod id forget (pg_CreateNamespace n p)"
  by (auto simp: sq_CreateNamespace_def pg_CreateNamespace_def split: option.split) (simp add: forget_def)

lemma forget_insert_repository: "sq_insert_repository nid n (forget p) = map_prod id forget (insert_repository nid n p)"
  by (auto simp: sq_insert_repository_def insert_repository_def split: option.split) (simp add: forget_def)

lemma forget_CreateRepository: "sq_CreateRepository ns n (forget p) = map_prod id forget (pg_CreateRepository ns n p)"
  by (auto simp: sq_CreateRepository_def pg_CreateRepository_def forget_CreateNamespace forget_insert_repository
      split: option.split sum.split prod.split)

lemma forget_upsert: "sq_upsert_manifest rid ref mt dg pl (forget p) = forget (upsert_manifest rid ref mt dg pl p)"
  by (auto simp: sq_upsert_manifest_def upsert_manifest_def list_ex_iff sq_of_manifest_def comp_def)

lemma forget_PutManifest: "sq_PutManifest repo ref mt dg pl (forget p) = map_prod id forget (pg_PutManifest repo ref mt dg pl p)"
  by (auto simp: sq_PutManifest_def pg_PutManifest_def forget_CreateNamespace forget_CreateRepository forget_upsert
      split: option.split sum.split prod.split)

lemma forget_GetManifest: "sq_GetManifest repo ref (forget p) = map_prod id forget (pg_GetManifest repo ref p)"
proof -
  have "sq_row_matches ref \<circ> sq_of_manifest = row_matches ref" by (simp add: fun_eq_iff sq_row_matches_def row_matches_def)
  then show ?thesis by (auto simp: sq_GetManifest_def pg_GetManifest_def forget_manifests find_map split: option.split)
qed

lemma forget_CheckQuota: "sq_CheckQuota ns (forget p) = pg_CheckQuota ns p"
proof (cases "ns_lookup ns p")
  case (Some nid)
  then show ?thesis
    by (cases "find (\<lambda>q. qr_ns q = nid) (quotas p)") (auto simp: sq_CheckQuota_def pg_CheckQuota_def find_map comp_def sq_scan_quota_def)
qed (simp add: sq_CheckQuota_def pg_CheckQuota_def)

lemma forget_UpdateQuotaUsage:
  "pg_UpdateQuotaUsage ns n p = (Inr u, p') \<Longrightarrow> sq_UpdateQuotaUsage E ns n (forget p) = (Inr u, forget p')"
  by (auto simp: pg_UpdateQuotaUsage_def sq_UpdateQuotaUsage_def sq_plus_def list_ex_iff sq_of_quota_def comp_def
      split: option.splits if_splits)

lemma forget_PutBlob: "sq_PutBlob dg n mt (forget p) = map_prod id forget (pg_PutBlob dg n mt p)"
  by (simp add: sq_PutBlob_def pg_PutBlob_def)

lemma forget_SetArtifactMetadata: "forget (snd (pg_SetArtifactMetadata a p)) = forget p"
  by (simp add: pg_SetArtifactMetadata_def Let_def comp_def forget_def sq_of_manifest_def)

interpretation pgsq: store_emulation "pg_store bc" "sq_store E" forget no_immutable for bc E
proof unfold_locales
  fix repo ref s
  assume "no_immutable s"
  then show "st_IsTagImmutable (pg_store bc) repo ref s \<noteq> Inr True"
    by (auto simp: pg_IsTagImmutable_def no_immutable_def repo_manifests_def list_ex_iff split: option.splits dest!: find_Some_member)
qed (auto simp: pg_store_def sq_store_def forget_GetManifest forget_CheckQuota forget_PutManifest forget_PutBlob
    forget_UpdateQuotaUsage forget_SetArtifactMetadata sq_IsTagImmutable_def sq_SetArtifactMetadata_def
    sq_GetScanReport_def pg_GetScanReport_def pg_WithTx_def sq_WithTx_def split: sum.splits prod.splits option.splits)

subsection \<open>The registry on SQLite\<close>


definition utc_env :: sq_env where
  "utc_env = \<lparr>se_bcrypt = plain_bcrypt, se_fk = False, se_sum = (\<lambda>_ _. SqReal 0),
     se_stamp = (\<lambda>t. replicate (nat t) CHR ''x''), se_bind = (\<lambda>t. replicate (nat t) CHR ''x'')\<rparr>"


text \<open>
  What a registry on SQLite cannot do, whatever the request: a manifest is never deleted, no tag ever becomes
  immutable, and no access token is ever created; the answers are errors and the database stays as it is.
\<close>

theorem sqlite_refuses:
  assumes "rt_db R = sq_store E" "mg_db M = sq_store E"
  shows "(\<exists>resp. deleteManifest R req ref d = ((resp, []), d) \<and> rs_status resp \<in> {404, 500}) \<and>
    (\<exists>resp. patchTag M c req st = (resp, st) \<and> rs_status resp \<in> {400, 404, 500}) \<and>
    (\<exists>resp. createAccessToken M c req st = (resp, st) \<and> rs_status resp \<in> {400, 401, 404, 500})"
proof (intro conjI)
  show "\<exists>resp. deleteManifest R req ref d = ((resp, []), d) \<and> rs_status resp \<in> {404, 500}"
    using assms(1) by (auto simp: deleteManifest_def sq_store_def sq_GetManifest_def sq_DeleteManifest_def http_error_json_def
        split: prod.split option.split)
  have chg: "\<exists>resp. change_db M c req (not_found_or msg) a ty rs0 rsp (st_SetTagImmutable (mg_db M) repo ref' b) st = (resp, st) \<and>
      rs_status resp \<in> {400, 404, 500}" for msg a ty rs0 rsp repo ref' b
    using assms(2) by (auto simp: change_db_def sq_store_def sq_SetTagImmutable_def not_found_or_def failed_def no_such_column_def
        split: option.splits)
  show "\<exists>resp. patchTag M c req st = (resp, st) \<and> rs_status resp \<in> {400, 404, 500}"
  proof (cases "LastIndex (TrimPrefix (rq_path req) repositories_prefix) ''/tags/''")
    case (Some idx)
    then show ?thesis
      using chg by (cases "decode_body M req (\<lambda>kvs. decode_field set_bool ''immutable'' kvs False)") (auto simp: patchTag_def Let_def)
  qed (simp add: patchTag_def)
  show "\<exists>resp. createAccessToken M c req st = (resp, st) \<and> rs_status resp \<in> {400, 401, 404, 500}"
  proof -
    have "\<not> Contains (err_msg no_access_tokens) ''unique''" "\<not> Contains (err_msg no_access_tokens) ''duplicate''" by code_simp+
    moreover have "rs_status resp \<in> {401, 404}" if "context_user M c (ms_db st) = Inl resp" for resp
      using that by (auto simp: context_user_def split: option.splits sum.splits)
    ultimately show ?thesis
      using assms(2) by (auto simp: createAccessToken_def Let_def sq_store_def sq_CreateAccessToken_def failed_def split: sum.split prod.split)
  qed
qed

theorem sqlite_refuses_witness:
  "\<exists>resp. deleteManifest (with_store (sq_store utc_env) demo_router) demo_push ''v1'' (forget two_tags) = ((resp, []), forget two_tags) \<and>
     rs_status resp \<in> {404, 500}"
proof -
  let ?M = "\<lparr>mg_db = sq_store utc_env, mg_ts = one_service, mg_jwt = one_token (claims_of ''root'' 0 full_access),
     mg_developer = False, mg_cel = demo_cel, mg_vulnGate = None,
     mg_ldap = \<lparr>lc_enabled = True, lc_server = [], lc_ssl = False, lc_base = []\<rparr>,
     mg_oidc = \<lparr>oc_enabled = False, oc_issuer = [], oc_client = []\<rparr>,
     mg_decode = (\<lambda>_. Inr JNull), mg_type_err = ErrText [], mg_unmarshal = (\<lambda>_. None),
     mg_report = (\<lambda>_. None), mg_hash = Inr, mg_rand = Inr [],
     mg_time = (\<lambda>_. []), mg_quot = (\<lambda>_ _. []), mg_cwd = [''srv''], mg_now = 0,
     mg_unrouted = (\<lambda>_. http_error [] [] 404)\<rparr>"
  show ?thesis using sqlite_refuses [of "with_store (sq_store utc_env) demo_router" utc_env ?M] by simp
qed

subsection \<open>The lockout\<close>

text \<open>The driver binds a time as the text of the local clock, while \<^verbatim>\<open>CURRENT_TIMESTAMP\<close> stores universal
  time. Where the two texts order times correctly the lockout is PostgreSQL's.\<close>

lemma sqlite_lockout_agrees:
  assumes "he_store H = sq_store E" "he_store H' = pg_store bc" "he_now H = he_now H'"
    and "\<forall>a b. se_bind E a < se_stamp E b \<longleftrightarrow> a < b"
  shows "locked_out H user (forget p) = locked_out H' user p"
  using assms by (simp add: locked_out_def sq_store_def pg_store_def sq_CountRecentFailedLogins_def pg_CountRecentFailedLogins_def)

text \<open>
  On a server whose clock is set at least fifteen minutes ahead of universal time (any time zone east of it) the
  lockout never takes effect: the bound for the failures that count is printed as local time and lies beyond the printed
  time of every attempt, so no number of failed logins locks an account.
\<close>

theorem sqlite_lockout_inert:
  assumes "he_store H = sq_store E" "900 \<le> offset"
    and "\<forall>a b. b \<le> a + offset \<longrightarrow> \<not> se_bind E a < se_stamp E b"
    and "\<forall>l \<in> set (sq_logins s). lr_at l \<le> he_now H"
  shows "\<not> locked_out H user s"
proof -
  have "\<not> se_bind E (he_now H - 900) < se_stamp E (lr_at l)" if "l \<in> set (sq_logins s)" for l
    using assms(2-4) that by force
  then have "filter (\<lambda>l. lr_user l = user \<and> \<not> lr_success l \<and> se_bind E (he_now H - 900) < se_stamp E (lr_at l)) (sq_logins s) = []"
    by (simp add: filter_empty_conv)
  then show ?thesis using assms(1) by (simp add: locked_out_def sq_store_def sq_CountRecentFailedLogins_def)
qed

definition east_env :: sq_env where
  "east_env = utc_env\<lparr>se_bind := \<lambda>t. replicate (nat (t + 3600)) CHR ''x''\<rparr>"

lemma replicate_not_less: "n \<le> m \<Longrightarrow> \<not> replicate m c < replicate n (c :: char)"
  by (induction m arbitrary: n; case_tac n) auto

definition east_handler :: "(nat, sq_db) handler_env" where
  "east_handler = \<lparr>he_jwt = one_token (claims_of ''bob'' 0 []), he_ts = one_service, he_store = sq_store east_env,
     he_bcrypt = plain_bcrypt, he_hash = Inr [], he_ldap = None, he_bootstrap = [], he_now = 0, he_form_ok = True, he_form = (\<lambda>_. [])\<rparr>"

fun failures :: "nat \<Rightarrow> db \<Rightarrow> db" where
  "failures 0 d = d"
| "failures (Suc n) d = failures n (snd (pg_RecordLoginAttempt ''bob'' [] False d))"

theorem sqlite_lockout_inert_witness:
  "\<not> locked_out east_handler ''bob'' (forget (failures 12 empty_db)) \<and> length (sq_logins (forget (failures 12 empty_db))) = 12"
proof
  show "length (sq_logins (forget (failures 12 empty_db))) = 12" by code_simp
  have "\<forall>a b. b \<le> a + 3600 \<longrightarrow> \<not> se_bind east_env a < se_stamp east_env b"
    by (auto simp: east_env_def utc_env_def dest: replicate_not_less [OF nat_mono])
  moreover have "\<forall>l \<in> set (sq_logins (forget (failures 12 empty_db))). lr_at l \<le> he_now east_handler" by code_simp
  ultimately show "\<not> locked_out east_handler ''bob'' (forget (failures 12 empty_db))"
    by (intro sqlite_lockout_inert [where E = east_env and offset = 3600]) (simp_all add: east_handler_def)
qed

end
