(* ===== verification/Packages.thy ===== *)
theory Packages
  imports Postgres "HOL-Library.AList"
begin

text \<open>
  The package store: the interface \<^verbatim>\<open>ArtifactStore\<close> of \<^verbatim>\<open>internal/db/metadata.go\<close> and its two
  implementations, \<^verbatim>\<open>internal/db/postgres/artifacts.go\<close> over the tables of
  \<^verbatim>\<open>migrations/017_artifact_metadata.sql\<close> and the end of \<^verbatim>\<open>internal/db/sqlite/sqlite.go\<close>.
\<close>

subsection \<open>The interface: internal/db/metadata.go\<close>

record artifact_blob =
  ab_artifact :: nat
  ab_digest :: string
  ab_name :: string
  ab_created :: int

text \<open>A nil \<^verbatim>\<open>json.RawMessage\<close> is \<^const>\<open>None\<close>.\<close>

record universal_artifact =
  ua_id :: nat
  ua_format :: string
  ua_ns :: string
  ua_pkg :: string
  ua_version :: string
  ua_created :: int
  ua_blobs :: "artifact_blob list"
  ua_meta :: "bytes option"

record artifact_statistics =
  as_packages :: int
  as_versions :: int
  as_breakdown :: "(string \<times> int) list"

record 'd artifact_store =
  as_CreateArtifact :: "universal_artifact \<Rightarrow> 'd \<Rightarrow> nat res \<times> 'd"
  as_GetArtifact :: "string \<Rightarrow> string \<Rightarrow> string \<Rightarrow> string \<Rightarrow> 'd \<Rightarrow> universal_artifact res"
  as_ListArtifacts :: "string \<Rightarrow> string \<Rightarrow> string \<Rightarrow> 'd \<Rightarrow> universal_artifact list res"
  as_SearchArtifacts :: "string \<Rightarrow> string \<Rightarrow> 'd \<Rightarrow> universal_artifact list res"
  as_StoreArtifactMetadata :: "nat \<Rightarrow> bytes \<Rightarrow> 'd \<Rightarrow> unit res \<times> 'd"
  as_AttachBlob :: "nat \<Rightarrow> string \<Rightarrow> string \<Rightarrow> 'd \<Rightarrow> unit res \<times> 'd"
  as_DeleteArtifact :: "string \<Rightarrow> string \<Rightarrow> string \<Rightarrow> string \<Rightarrow> 'd \<Rightarrow> unit res \<times> 'd"
  as_DeleteAllArtifactVersions :: "string \<Rightarrow> string \<Rightarrow> string \<Rightarrow> 'd \<Rightarrow> unit res \<times> 'd"
  as_GetPackageNames :: "string \<Rightarrow> string \<Rightarrow> 'd \<Rightarrow> string list res"
  as_GetArtifactStatistics :: "string \<Rightarrow> string \<Rightarrow> 'd \<Rightarrow> artifact_statistics res"

subsection \<open>Tables\<close>

record art_row =
  pr_id :: nat
  pr_format :: string
  pr_ns :: string
  pr_pkg :: string
  pr_version :: string
  pr_created :: int

record pkg_db =
  pk_arts :: "art_row list"
  pk_meta :: "(nat \<times> bytes) list"
  pk_links :: "artifact_blob list"
  pk_next :: nat
  pk_now :: int

text \<open>The key of a version, unique in \<^verbatim>\<open>universal_artifacts\<close>.\<close>

definition is_version :: "string \<Rightarrow> string \<Rightarrow> string \<Rightarrow> string \<Rightarrow> art_row \<Rightarrow> bool" where
  "is_version f ns p v r \<longleftrightarrow> pr_format r = f \<and> pr_ns r = ns \<and> pr_pkg r = p \<and> pr_version r = v"

text \<open>A row joined with its metadata; \<^verbatim>\<open>GetArtifact\<close> alone adds the files.\<close>

definition artifact_of_row :: "'a pkg_db_scheme \<Rightarrow> art_row \<Rightarrow> universal_artifact" where
  "artifact_of_row s r = \<lparr>ua_id = pr_id r, ua_format = pr_format r, ua_ns = pr_ns r, ua_pkg = pr_pkg r,
     ua_version = pr_version r, ua_created = pr_created r, ua_blobs = [],
     ua_meta = (case map_of (pk_meta s) (pr_id r) of None \<Rightarrow> None | Some d \<Rightarrow> if d = [] then None else Some d)\<rparr>"

definition pk_GetArtifact :: "string \<Rightarrow> string \<Rightarrow> string \<Rightarrow> string \<Rightarrow> 'a pkg_db_scheme \<Rightarrow> universal_artifact res" where
  "pk_GetArtifact format namespace packageName version s =
     (case find (is_version format namespace packageName version) (pk_arts s) of
        None \<Rightarrow> Inl DbNotFound
      | Some r \<Rightarrow> Inr ((artifact_of_row s r)\<lparr>ua_blobs := filter (\<lambda>b. ab_artifact b = pr_id r) (pk_links s)\<rparr>))"

definition pk_ListArtifacts :: "string \<Rightarrow> string \<Rightarrow> string \<Rightarrow> 'a pkg_db_scheme \<Rightarrow> universal_artifact list res" where
  "pk_ListArtifacts format namespace packageName s =
     Inr (map (artifact_of_row s) (newest_first pr_created
       (filter (\<lambda>r. pr_format r = format \<and> pr_ns r = namespace \<and> pr_pkg r = packageName) (pk_arts s))))"

text \<open>The search document is ignored.\<close>

definition pk_SearchArtifacts :: "string \<Rightarrow> string \<Rightarrow> 'a pkg_db_scheme \<Rightarrow> universal_artifact list res" where
  "pk_SearchArtifacts format namespace s =
     Inr (map (artifact_of_row s) (sort_key pr_pkg (newest_first pr_created
       (filter (\<lambda>r. pr_format r = format \<and> pr_ns r = namespace) (pk_arts s)))))"

definition pk_GetPackageNames :: "string \<Rightarrow> string \<Rightarrow> 'a pkg_db_scheme \<Rightarrow> string list res" where
  "pk_GetPackageNames format namespace s =
     Inr (sort (remdups (map pr_pkg (filter (\<lambda>r. pr_format r = format \<and> pr_ns r = namespace) (pk_arts s)))))"

definition pk_GetArtifactStatistics :: "string \<Rightarrow> string \<Rightarrow> 'a pkg_db_scheme \<Rightarrow> artifact_statistics res" where
  "pk_GetArtifactStatistics format namespace s =
     (let rows = filter (\<lambda>r. (format \<noteq> [] \<longrightarrow> pr_format r = format) \<and>
                            (format \<noteq> [] \<and> namespace \<noteq> [] \<longrightarrow> pr_ns r = namespace)) (pk_arts s)
      in Inr \<lparr>as_packages = int (length (remdups (map pr_pkg rows))), as_versions = int (length rows),
              as_breakdown = map (\<lambda>f. (f, int (length (filter (\<lambda>r. pr_format r = f) (pk_arts s)))))
                (remdups (map pr_format (pk_arts s)))\<rparr>)"

subsection \<open>PostgreSQL\<close>

text \<open>
  \<open>jsonb\<close> is what the engine stores for a value of a \<^verbatim>\<open>JSONB\<close> column, \<^const>\<open>None\<close> where the text is no JSON;
  \<open>chars\<close> is the number of characters of a text, limited in the \<^verbatim>\<open>VARCHAR\<close> columns.
\<close>

record pkg_env =
  pe_jsonb :: "bytes \<Rightarrow> bytes option"
  pe_chars :: "string \<Rightarrow> nat"

definition too_long :: err where
  "too_long = ErrText ''value too long for type character varying(255)''"

definition invalid_json :: err where
  "invalid_json = ErrText ''invalid input syntax for type json''"

definition pga_StoreArtifactMetadata :: "pkg_env \<Rightarrow> nat \<Rightarrow> bytes \<Rightarrow> pkg_db \<Rightarrow> unit res \<times> pkg_db" where
  "pga_StoreArtifactMetadata E artifactID dat s =
     (case pe_jsonb E dat of
        None \<Rightarrow> (Inl invalid_json, s)
      | Some j \<Rightarrow>
          (if \<not> list_ex (\<lambda>r. pr_id r = artifactID) (pk_arts s) then (Inl foreign_key_violation, s)
           else (Inr (), s\<lparr>pk_meta := AList.update artifactID j (pk_meta s)\<rparr>)))"

text \<open>The two statements are not in one transaction: when the metadata is refused the version stays.\<close>

definition pga_CreateArtifact :: "pkg_env \<Rightarrow> universal_artifact \<Rightarrow> pkg_db \<Rightarrow> nat res \<times> pkg_db" where
  "pga_CreateArtifact E a s =
     (if 50 < pe_chars E (ua_format a) \<or> 255 < pe_chars E (ua_ns a) \<or> 255 < pe_chars E (ua_pkg a) \<or> 255 < pe_chars E (ua_version a)
      then (Inl too_long, s)
      else let (artID, s1) = (case find (is_version (ua_format a) (ua_ns a) (ua_pkg a) (ua_version a)) (pk_arts s) of
                 Some r \<Rightarrow> (pr_id r, s)
               | None \<Rightarrow> (pk_next s, s\<lparr>pk_arts := pk_arts s @ [\<lparr>pr_id = pk_next s, pr_format = ua_format a, pr_ns = ua_ns a,
                           pr_pkg = ua_pkg a, pr_version = ua_version a, pr_created = pk_now s\<rparr>], pk_next := Suc (pk_next s)\<rparr>))
      in case ua_meta a of
           None \<Rightarrow> (Inr artID, s1)
         | Some dat \<Rightarrow> (case pga_StoreArtifactMetadata E artID dat s1 of
                          (Inl e, s2) \<Rightarrow> (Inl e, s2) | (Inr _, s2) \<Rightarrow> (Inr artID, s2)))"

definition pga_AttachBlob :: "pkg_env \<Rightarrow> nat \<Rightarrow> string \<Rightarrow> string \<Rightarrow> pkg_db \<Rightarrow> unit res \<times> pkg_db" where
  "pga_AttachBlob E artifactID blobDigest fileName s =
     (if 255 < pe_chars E blobDigest \<or> 255 < pe_chars E fileName then (Inl too_long, s)
      else if list_ex (\<lambda>b. ab_artifact b = artifactID \<and> ab_digest b = blobDigest) (pk_links s) then (Inr (), s)
      else if \<not> list_ex (\<lambda>r. pr_id r = artifactID) (pk_arts s) then (Inl foreign_key_violation, s)
      else (Inr (), s\<lparr>pk_links := pk_links s @
             [\<lparr>ab_artifact = artifactID, ab_digest = blobDigest, ab_name = fileName, ab_created = pk_now s\<rparr>]\<rparr>))"

text \<open>Deleting versions, with the cascade to metadata and files.\<close>

definition delete_versions :: "(art_row \<Rightarrow> bool) \<Rightarrow> pkg_db \<Rightarrow> unit res \<times> pkg_db" where
  "delete_versions P s =
     (let gone = (\<lambda>i. list_ex (\<lambda>r. P r \<and> pr_id r = i) (pk_arts s))
      in if \<not> list_ex P (pk_arts s) then (Inl DbNotFound, s)
         else (Inr (), s\<lparr>pk_arts := filter (\<lambda>r. \<not> P r) (pk_arts s), pk_meta := filter (\<lambda>(i, _). \<not> gone i) (pk_meta s),
                        pk_links := filter (\<lambda>b. \<not> gone (ab_artifact b)) (pk_links s)\<rparr>))"

definition pga_DeleteArtifact :: "string \<Rightarrow> string \<Rightarrow> string \<Rightarrow> string \<Rightarrow> pkg_db \<Rightarrow> unit res \<times> pkg_db" where
  "pga_DeleteArtifact format namespace packageName version = delete_versions (is_version format namespace packageName version)"

definition pga_DeleteAllArtifactVersions :: "string \<Rightarrow> string \<Rightarrow> string \<Rightarrow> pkg_db \<Rightarrow> unit res \<times> pkg_db" where
  "pga_DeleteAllArtifactVersions format namespace packageName =
     delete_versions (\<lambda>r. pr_format r = format \<and> pr_ns r = namespace \<and> pr_pkg r = packageName)"

definition pga_store :: "pkg_env \<Rightarrow> pkg_db artifact_store" where
  "pga_store E = \<lparr>as_CreateArtifact = pga_CreateArtifact E, as_GetArtifact = pk_GetArtifact, as_ListArtifacts = pk_ListArtifacts,
     as_SearchArtifacts = pk_SearchArtifacts, as_StoreArtifactMetadata = pga_StoreArtifactMetadata E,
     as_AttachBlob = pga_AttachBlob E, as_DeleteArtifact = pga_DeleteArtifact,
     as_DeleteAllArtifactVersions = pga_DeleteAllArtifactVersions, as_GetPackageNames = pk_GetPackageNames,
     as_GetArtifactStatistics = pk_GetArtifactStatistics\<rparr>"

subsection \<open>SQLite\<close>

text \<open>
  A connection remembers the row number of its last insert into any table, which \<^verbatim>\<open>LastInsertId\<close> returns; an insert
  that becomes an update leaves it. The metadata and file tables number their rows on their own.
\<close>

record sq_pkg = pkg_db +
  sp_meta_next :: nat
  sp_link_next :: nat
  sp_rowid :: nat

definition sqa_StoreArtifactMetadata :: "bool \<Rightarrow> nat \<Rightarrow> bytes \<Rightarrow> sq_pkg \<Rightarrow> unit res \<times> sq_pkg" where
  "sqa_StoreArtifactMetadata fk artifactID dat s =
     (if map_of (pk_meta s) artifactID \<noteq> None then (Inr (), s\<lparr>pk_meta := AList.update artifactID dat (pk_meta s)\<rparr>)
      else if fk \<and> \<not> list_ex (\<lambda>r. pr_id r = artifactID) (pk_arts s)
      then (Inl (ErrText ''FOREIGN KEY constraint failed''), s)
      else (Inr (), s\<lparr>pk_meta := AList.update artifactID dat (pk_meta s), sp_meta_next := Suc (sp_meta_next s),
                     sp_rowid := sp_meta_next s\<rparr>))"

text \<open>\<^verbatim>\<open>LastInsertId\<close> does not fail, so the lookup of the existing version is never reached.\<close>

definition sqa_CreateArtifact :: "bool \<Rightarrow> universal_artifact \<Rightarrow> sq_pkg \<Rightarrow> nat res \<times> sq_pkg" where
  "sqa_CreateArtifact fk a s =
     (let s1 = (case find (is_version (ua_format a) (ua_ns a) (ua_pkg a) (ua_version a)) (pk_arts s) of
                 Some r \<Rightarrow> s
               | None \<Rightarrow> s\<lparr>pk_arts := pk_arts s @ [\<lparr>pr_id = pk_next s, pr_format = ua_format a, pr_ns = ua_ns a,
                           pr_pkg = ua_pkg a, pr_version = ua_version a, pr_created = pk_now s\<rparr>],
                           pk_next := Suc (pk_next s), sp_rowid := pk_next s\<rparr>);
          artID = sp_rowid s1
      in case ua_meta a of
           None \<Rightarrow> (Inr artID, s1)
         | Some dat \<Rightarrow>
             (if dat = [] then (Inr artID, s1)
              else (case sqa_StoreArtifactMetadata fk artID dat s1 of
                      (Inl e, s2) \<Rightarrow> (Inl e, s2) | (Inr _, s2) \<Rightarrow> (Inr artID, s2))))"

definition sqa_AttachBlob :: "bool \<Rightarrow> nat \<Rightarrow> string \<Rightarrow> string \<Rightarrow> sq_pkg \<Rightarrow> unit res \<times> sq_pkg" where
  "sqa_AttachBlob fk artifactID blobDigest fileName s =
     (if list_ex (\<lambda>b. ab_artifact b = artifactID \<and> ab_digest b = blobDigest) (pk_links s) then (Inr (), s)
      else if fk \<and> \<not> list_ex (\<lambda>r. pr_id r = artifactID) (pk_arts s)
      then (Inl (ErrText ''FOREIGN KEY constraint failed''), s)
      else (Inr (), s\<lparr>pk_links := pk_links s @
             [\<lparr>ab_artifact = artifactID, ab_digest = blobDigest, ab_name = fileName, ab_created = pk_now s\<rparr>],
             sp_link_next := Suc (sp_link_next s), sp_rowid := sp_link_next s\<rparr>))"

text \<open>The cascade runs only where foreign keys are enforced.\<close>

definition sqa_delete_versions :: "bool \<Rightarrow> (art_row \<Rightarrow> bool) \<Rightarrow> sq_pkg \<Rightarrow> unit res \<times> sq_pkg" where
  "sqa_delete_versions fk P s =
     (let gone = (\<lambda>i. fk \<and> list_ex (\<lambda>r. P r \<and> pr_id r = i) (pk_arts s))
      in if \<not> list_ex P (pk_arts s) then (Inl DbNotFound, s)
         else (Inr (), s\<lparr>pk_arts := filter (\<lambda>r. \<not> P r) (pk_arts s), pk_meta := filter (\<lambda>(i, _). \<not> gone i) (pk_meta s),
                        pk_links := filter (\<lambda>b. \<not> gone (ab_artifact b)) (pk_links s)\<rparr>))"

definition sqa_DeleteArtifact :: "bool \<Rightarrow> string \<Rightarrow> string \<Rightarrow> string \<Rightarrow> string \<Rightarrow> sq_pkg \<Rightarrow> unit res \<times> sq_pkg" where
  "sqa_DeleteArtifact fk format namespace packageName version =
     sqa_delete_versions fk (is_version format namespace packageName version)"

definition sqa_DeleteAllArtifactVersions :: "bool \<Rightarrow> string \<Rightarrow> string \<Rightarrow> string \<Rightarrow> sq_pkg \<Rightarrow> unit res \<times> sq_pkg" where
  "sqa_DeleteAllArtifactVersions fk format namespace packageName =
     sqa_delete_versions fk (\<lambda>r. pr_format r = format \<and> pr_ns r = namespace \<and> pr_pkg r = packageName)"

text \<open>
  The reads scan \<^verbatim>\<open>created_at\<close> into a text and parse it with a fixed layout, the error ignored; \<open>T\<close> gives the time
  that results for a stored time. A metadata row counts even when it is empty.
\<close>

definition sq_artifact_of_row :: "(int \<Rightarrow> int) \<Rightarrow> sq_pkg \<Rightarrow> art_row \<Rightarrow> universal_artifact" where
  "sq_artifact_of_row T s r = \<lparr>ua_id = pr_id r, ua_format = pr_format r, ua_ns = pr_ns r, ua_pkg = pr_pkg r,
     ua_version = pr_version r, ua_created = T (pr_created r), ua_blobs = [], ua_meta = map_of (pk_meta s) (pr_id r)\<rparr>"

definition sqa_GetArtifact :: "(int \<Rightarrow> int) \<Rightarrow> string \<Rightarrow> string \<Rightarrow> string \<Rightarrow> string \<Rightarrow> sq_pkg \<Rightarrow> universal_artifact res" where
  "sqa_GetArtifact T format namespace packageName version s =
     (case find (is_version format namespace packageName version) (pk_arts s) of
        None \<Rightarrow> Inl DbNotFound
      | Some r \<Rightarrow> Inr ((sq_artifact_of_row T s r)\<lparr>ua_blobs :=
          map (\<lambda>b. b\<lparr>ab_created := T (ab_created b)\<rparr>) (filter (\<lambda>b. ab_artifact b = pr_id r) (pk_links s))\<rparr>))"

definition sqa_ListArtifacts :: "(int \<Rightarrow> int) \<Rightarrow> string \<Rightarrow> string \<Rightarrow> string \<Rightarrow> sq_pkg \<Rightarrow> universal_artifact list res" where
  "sqa_ListArtifacts T format namespace packageName s =
     Inr (map (sq_artifact_of_row T s) (newest_first pr_created
       (filter (\<lambda>r. pr_format r = format \<and> pr_ns r = namespace \<and> pr_pkg r = packageName) (pk_arts s))))"

definition sqa_SearchArtifacts :: "(int \<Rightarrow> int) \<Rightarrow> string \<Rightarrow> string \<Rightarrow> sq_pkg \<Rightarrow> universal_artifact list res" where
  "sqa_SearchArtifacts T format namespace s =
     Inr (map (sq_artifact_of_row T s) (sort_key pr_pkg (newest_first pr_created
       (filter (\<lambda>r. pr_format r = format \<and> pr_ns r = namespace) (pk_arts s)))))"

definition sqa_GetPackageNames :: "string \<Rightarrow> string \<Rightarrow> sq_pkg \<Rightarrow> string list res" where
  "sqa_GetPackageNames format namespace s =
     Inr (sort (remdups (map pr_pkg (filter (\<lambda>r. pr_format r = format \<and> pr_ns r = namespace) (pk_arts s)))))"

definition sqa_GetArtifactStatistics :: "string \<Rightarrow> string \<Rightarrow> sq_pkg \<Rightarrow> artifact_statistics res" where
  "sqa_GetArtifactStatistics format namespace s =
     (let rows = filter (\<lambda>r. (format \<noteq> [] \<longrightarrow> pr_format r = format) \<and>
                            (format \<noteq> [] \<and> namespace \<noteq> [] \<longrightarrow> pr_ns r = namespace)) (pk_arts s)
      in Inr \<lparr>as_packages = int (length (remdups (map pr_pkg rows))), as_versions = int (length rows),
              as_breakdown = map (\<lambda>f. (f, int (length (filter (\<lambda>r. pr_format r = f) (pk_arts s)))))
                (remdups (map pr_format (pk_arts s)))\<rparr>)"

definition sqa_store :: "(int \<Rightarrow> int) \<Rightarrow> bool \<Rightarrow> sq_pkg artifact_store" where
  "sqa_store T fk = \<lparr>as_CreateArtifact = sqa_CreateArtifact fk, as_GetArtifact = sqa_GetArtifact T,
     as_ListArtifacts = sqa_ListArtifacts T, as_SearchArtifacts = sqa_SearchArtifacts T,
     as_StoreArtifactMetadata = sqa_StoreArtifactMetadata fk,
     as_AttachBlob = sqa_AttachBlob fk, as_DeleteArtifact = sqa_DeleteArtifact fk,
     as_DeleteAllArtifactVersions = sqa_DeleteAllArtifactVersions fk, as_GetPackageNames = sqa_GetPackageNames,
     as_GetArtifactStatistics = sqa_GetArtifactStatistics\<rparr>"

text \<open>
  What the handlers of the formats meet in either store: a listing succeeds, and the versions it lists carry no files.
\<close>

locale bare_listings =
  fixes S :: "'d artifact_store"
  assumes list_ok: "\<exists>as. as_ListArtifacts S f ns p s = Inr as \<and> (\<forall>a \<in> set as. ua_blobs a = [])"
    and search_ok: "\<exists>as. as_SearchArtifacts S f ns s = Inr as \<and> (\<forall>a \<in> set as. ua_blobs a = [])"
begin

lemma search_bare: "as_SearchArtifacts S f ns s = Inr as \<Longrightarrow> a \<in> set as \<Longrightarrow> ua_blobs a = []"
  using search_ok [of f ns s] by auto

lemma no_file_listed: "\<exists>as. as_SearchArtifacts S f ns s = Inr as \<and> filter (\<lambda>a. list_ex P (ua_blobs a)) as = []"
proof -
  obtain as where as: "as_SearchArtifacts S f ns s = Inr as" "\<forall>a \<in> set as. ua_blobs a = []" using search_ok [of f ns s] by blast
  from this(2) have "filter (\<lambda>a. list_ex P (ua_blobs a)) as = []" by (simp add: filter_empty_conv)
  with as show ?thesis by blast
qed

lemma no_links: "\<exists>as. as_ListArtifacts S f ns p s = Inr as \<and> concat (map (\<lambda>a. map (g a) (ua_blobs a)) as) = []"
proof -
  obtain as where as: "as_ListArtifacts S f ns p s = Inr as" "\<forall>a \<in> set as. ua_blobs a = []" using list_ok [of f ns p s] by blast
  from this(2) have "concat (map (\<lambda>a. map (g a) (ua_blobs a)) as) = []" by (induction as) auto
  with as show ?thesis by blast
qed

end

interpretation pgl: bare_listings "pga_store E" for E
  by unfold_locales (auto simp: pga_store_def pk_ListArtifacts_def pk_SearchArtifacts_def artifact_of_row_def)

interpretation sql: bare_listings "sqa_store T fk" for T fk
  by unfold_locales (auto simp: sqa_store_def sqa_ListArtifacts_def sqa_SearchArtifacts_def sq_artifact_of_row_def)

subsection \<open>Integrity\<close>

text \<open>Versions and their identifiers are unique; metadata and files belong to a version that exists, one
  metadata row and one row per digest for each.\<close>

definition pkg_inv :: "pkg_db \<Rightarrow> bool" where
  "pkg_inv s \<longleftrightarrow>
     distinct (map pr_id (pk_arts s)) \<and> (\<forall>r \<in> set (pk_arts s). pr_id r < pk_next s) \<and>
     distinct (map (\<lambda>r. (pr_format r, pr_ns r, pr_pkg r, pr_version r)) (pk_arts s)) \<and>
     distinct (map fst (pk_meta s)) \<and> fst ` set (pk_meta s) \<subseteq> pr_id ` set (pk_arts s) \<and>
     distinct (map (\<lambda>b. (ab_artifact b, ab_digest b)) (pk_links s)) \<and> ab_artifact ` set (pk_links s) \<subseteq> pr_id ` set (pk_arts s)"

definition empty_pkg :: pkg_db where
  "empty_pkg = \<lparr>pk_arts = [], pk_meta = [], pk_links = [], pk_next = 1, pk_now = 0\<rparr>"

inductive pkg_reach :: "pkg_env \<Rightarrow> pkg_db \<Rightarrow> bool" for E where
  init: "pkg_reach E empty_pkg"
| tick: "pkg_reach E s \<Longrightarrow> pkg_reach E (s\<lparr>pk_now := t\<rparr>)"
| create: "pkg_reach E s \<Longrightarrow> pkg_reach E (snd (pga_CreateArtifact E a s))"
| metadata: "pkg_reach E s \<Longrightarrow> pkg_reach E (snd (pga_StoreArtifactMetadata E i dat s))"
| attach: "pkg_reach E s \<Longrightarrow> pkg_reach E (snd (pga_AttachBlob E i dg f s))"
| delete: "pkg_reach E s \<Longrightarrow> pkg_reach E (snd (pga_DeleteArtifact f ns p v s))"
| delete_all: "pkg_reach E s \<Longrightarrow> pkg_reach E (snd (pga_DeleteAllArtifactVersions f ns p s))"

lemma StoreArtifactMetadata_inv:
  assumes "pkg_inv s"
  shows "pkg_inv (snd (pga_StoreArtifactMetadata E i dat s))"
proof (cases "pe_jsonb E dat")
  case (Some j)
  show ?thesis
  proof (cases "list_ex (\<lambda>r. pr_id r = i) (pk_arts s)")
    case True
    then have "i \<in> pr_id ` set (pk_arts s)" by (auto simp: list_ex_iff)
    moreover have "fst ` set (AList.update i j (pk_meta s)) = insert i (fst ` set (pk_meta s))"
      by (simp add: dom_update)
    ultimately show ?thesis
      using assms Some True by (simp add: pga_StoreArtifactMetadata_def pkg_inv_def distinct_update)
  qed (use assms Some in \<open>simp add: pga_StoreArtifactMetadata_def\<close>)
qed (use assms in \<open>simp add: pga_StoreArtifactMetadata_def\<close>)

lemma insert_version_inv:
  assumes "pkg_inv s" "find (is_version f ns p v) (pk_arts s) = None"
  shows "pkg_inv (s\<lparr>pk_arts := pk_arts s @ [\<lparr>pr_id = pk_next s, pr_format = f, pr_ns = ns, pr_pkg = p, pr_version = v, pr_created = c\<rparr>],
    pk_next := Suc (pk_next s)\<rparr>)"
proof -
  have "pk_next s \<notin> pr_id ` set (pk_arts s)" using assms(1) by (auto simp: pkg_inv_def)
  moreover have "(f, ns, p, v) \<notin> (\<lambda>r. (pr_format r, pr_ns r, pr_pkg r, pr_version r)) ` set (pk_arts s)"
    using assms(2) by (auto simp: find_None_iff is_version_def)
  ultimately show ?thesis using assms(1) unfolding pkg_inv_def by (simp add: less_Suc_eq subset_insertI2)
qed

lemma CreateArtifact_inv:
  assumes "pkg_inv s"
  shows "pkg_inv (snd (pga_CreateArtifact E a s))"
  using assms insert_version_inv [OF assms] StoreArtifactMetadata_inv [of _ E]
  by (auto simp: pga_CreateArtifact_def Let_def split: option.splits prod.splits sum.splits) (metis snd_conv)+

lemma AttachBlob_inv:
  assumes "pkg_inv s"
  shows "pkg_inv (snd (pga_AttachBlob E i dg f s))"
  using assms by (auto simp: pga_AttachBlob_def pkg_inv_def list_ex_iff)

lemma kept_id: "\<forall>r \<in> A. P r \<longrightarrow> g r \<noteq> i \<Longrightarrow> i \<in> g ` A \<Longrightarrow> i \<in> g ` {x \<in> A. \<not> P x}"
  by blast

lemma delete_versions_inv:
  assumes "pkg_inv s"
  shows "pkg_inv (snd (delete_versions P s))"
  using assms
  by (auto simp: delete_versions_def Let_def pkg_inv_def list_ex_iff distinct_map_filter image_subset_iff intro!: kept_id)

lemma pkg_inv_of_reach: "pkg_reach E s \<Longrightarrow> pkg_inv s"
proof (induction rule: pkg_reach.induct)
  case init
  show ?case by (simp add: pkg_inv_def empty_pkg_def)
next
  case (tick s t)
  then show ?case by (simp add: pkg_inv_def)
qed (simp_all add: CreateArtifact_inv StoreArtifactMetadata_inv AttachBlob_inv delete_versions_inv pga_DeleteArtifact_def
    pga_DeleteAllArtifactVersions_def)

text \<open>(C26) 
  In every database the package operations of the PostgreSQL store reach, versions and their identifiers are
  unique and metadata and files belong to exactly one version that exists: none outlive it.
\<close>

theorem pkg_reach_inv: "pkg_reach E s \<Longrightarrow> pkg_inv s"
  by (rule pkg_inv_of_reach)

definition text_env :: pkg_env where
  "text_env = \<lparr>pe_jsonb = Some, pe_chars = length\<rparr>"

theorem pkg_reach_inv_witness:
  "pkg_inv (snd (pga_AttachBlob text_env 1 ''d'' ''f'' (snd (pga_CreateArtifact text_env
     \<lparr>ua_id = 0, ua_format = ''npm'', ua_ns = ''default'', ua_pkg = ''p'', ua_version = ''1'', ua_created = 0, ua_blobs = [], ua_meta = Some ''{}''\<rparr>
     empty_pkg))))"
  by (intro pkg_reach_inv [of text_env] pkg_reach.intros)

end
