(* ===== verification/Formats.thy ===== *)
theory Formats
  imports Packages Management
begin

text \<open>
  The package registries under \<^verbatim>\<open>internal/api/formats\<close>: npm, PyPI, Helm and Go modules. Every handler works on the
  package store and on the storage provider that also holds the blobs of the container registry. The parameters of a
  path are arguments of its handler; JSON, YAML, archives, multipart forms, hashes and the formats of times are library
  code and parameters. Letters are folded to lower case within ASCII.
\<close>

subsection \<open>Libraries\<close>

text \<open>A parsed multipart form: the values of its fields, and for a file field its file name (without directories) and content.\<close>

record form =
  fm_value :: "string \<Rightarrow> string"
  fm_file :: "string \<Rightarrow> (string \<times> stream) option"

text \<open>The files of an archive in order, \<^const>\<open>None\<close> for one whose content cannot be read, and whether the archive ends
  without an error.\<close>

type_synonym archive = "(string \<times> bytes option) list \<times> bool"

record chart =
  ch_api :: string
  ch_name :: string
  ch_version :: string
  ch_description :: string
  ch_app :: string
  ch_digest :: string
  ch_created :: string
  ch_urls :: "string list"

text \<open>
  \<open>pl_json\<close> is the document of a text, \<open>pl_decode\<close> the first document of a body, \<open>pl_marshal\<close> the encoding of a document.
  The hashes are hexadecimal. \<open>pl_gunzip\<close> is the tar archive in a gzip file, \<open>pl_unzip\<close> a zip archive. \<open>pl_chart\<close> decodes
  YAML into a chart, starting from the chart given, and says whether it succeeded. \<open>pl_rfc\<close> and \<open>pl_stamp\<close> are the two
  formats of times.
\<close>

record pkg_libs =
  pl_json :: "bytes \<Rightarrow> json option"
  pl_decode :: "stream \<Rightarrow> json option"
  pl_marshal :: "json \<Rightarrow> bytes"
  pl_form :: "request \<Rightarrow> form option"
  pl_sha1 :: "bytes \<Rightarrow> string"
  pl_sha256 :: "bytes \<Rightarrow> string"
  pl_sha512 :: "bytes \<Rightarrow> string"
  pl_md5 :: "bytes \<Rightarrow> string"
  pl_gunzip :: "bytes \<Rightarrow> archive option"
  pl_unzip :: "bytes \<Rightarrow> (string \<times> bytes option) list option"
  pl_gzip :: "bytes \<Rightarrow> bytes"
  pl_chart :: "chart \<Rightarrow> bytes \<Rightarrow> bool \<times> chart"
  pl_index :: "(string \<times> chart list) list \<Rightarrow> string \<Rightarrow> bytes"
  pl_rfc :: "int \<Rightarrow> string"
  pl_stamp :: "int \<Rightarrow> string"
  pl_now :: int

record ('s, 'w, 'd) formats =
  fo_db :: "'d artifact_store"
  fo_storage :: "('s, 'w) provider"
  fo_lib :: pkg_libs

subsection \<open>What the handlers share\<close>

definition replace_char :: "char \<Rightarrow> string \<Rightarrow> string \<Rightarrow> string" where
  "replace_char c t s = concat (map (\<lambda>x. if x = c then t else [x]) s)"

definition lower :: "char \<Rightarrow> char" where
  "lower c = (if CHR ''A'' \<le> c \<and> c \<le> CHR ''Z'' then char_of (of_char c + 32 :: nat) else c)"

definition ToLower :: "string \<Rightarrow> string" where
  "ToLower s = map lower s"

definition dq :: string where
  "dq = [CHR 0x22]"

text \<open>\<^verbatim>\<open>template.HTMLEscapeString\<close>.\<close>

definition html_char :: "char \<Rightarrow> string" where
  "html_char c =
     (if c = CHR 0x00 then [CHR 0xEF, CHR 0xBF, CHR 0xBD] else if c = CHR 0x22 then ''&#34;'' else if c = CHR 0x27 then ''&#39;''
      else if c = CHR ''&'' then ''&amp;'' else if c = CHR ''<'' then ''&lt;'' else if c = CHR ''>'' then ''&gt;'' else [c])"

definition html_escape :: "string \<Rightarrow> string" where
  "html_escape s = concat (map html_char s)"

text \<open>Members of a Go map: a member set replaces one of the same name, and maps are printed in the order of names.\<close>

definition put_field :: "string \<Rightarrow> json \<Rightarrow> (string \<times> json) list \<Rightarrow> (string \<times> json) list" where
  "put_field k v kvs = filter (\<lambda>(j, _). j \<noteq> k) kvs @ [(k, v)]"

definition json_map :: "(string \<times> json) list \<Rightarrow> json" where
  "json_map kvs = JObj (sort_key fst (fold (\<lambda>(k, v). put_field k v) kvs []))"

definition base_url :: "request \<Rightarrow> string \<Rightarrow> string" where
  "base_url req format = (if rq_tls req then ''https'' else ''http'') @ ''://'' @ rq_host req @ ''/repository/'' @ format"

definition new_artifact :: "string \<Rightarrow> string \<Rightarrow> string \<Rightarrow> string \<Rightarrow> bytes \<Rightarrow> universal_artifact" where
  "new_artifact format namespace pkg version meta = \<lparr>ua_id = 0, ua_format = format, ua_ns = namespace, ua_pkg = pkg,
     ua_version = version, ua_created = 0, ua_blobs = [], ua_meta = Some meta\<rparr>"

text \<open>The end of every download: the object is copied to the response, and an error while copying only cuts it short.\<close>

definition send_object :: "string \<Rightarrow> reader \<Rightarrow> response" where
  "send_object typ rd = reply 200 [(''Content-Type'', typ)] (Data (concat (fst (rd_stream rd))))"

text \<open>Writing a whole file: the error of opening, or that of copying; the error of closing is ignored throughout.\<close>

datatype saved = NotOpened err | CopyFailed err | Saved

definition save_file :: "('s, 'w) provider \<Rightarrow> string \<Rightarrow> stream \<Rightarrow> 's \<Rightarrow> saved \<times> 's" where
  "save_file P path content s =
     (case pv_Writer P path s of
        (Inl e, s1) \<Rightarrow> (NotOpened e, s1)
      | (Inr wr, s1) \<Rightarrow>
          (case copy_close P wr content s1 of
             ((Some e, _), s2) \<Rightarrow> (CopyFailed e, s2) | ((None, _), s2) \<Rightarrow> (Saved, s2)))"

text \<open>What a \<^verbatim>\<open>TeeReader\<close> has handed to the hash when the copy ends: every chunk up to one whose write fails.\<close>

fun tee_read :: "('s, 'w) provider \<Rightarrow> 'w \<Rightarrow> bytes list \<Rightarrow> 's \<Rightarrow> bytes" where
  "tee_read P wr [] s = []"
| "tee_read P wr (c # cs) s = c @ (case pv_Write P wr c s of (Inl _, _) \<Rightarrow> [] | (Inr wr', s') \<Rightarrow> tee_read P wr' cs s')"

definition tee_file :: "('s, 'w) provider \<Rightarrow> string \<Rightarrow> stream \<Rightarrow> 's \<Rightarrow> bytes" where
  "tee_file P path content s =
     (case pv_Writer P path s of (Inl _, _) \<Rightarrow> [] | (Inr wr, s1) \<Rightarrow> tee_read P wr (fst content) s1)"

subsection \<open>npm: internal/api/formats/npm/npm.go\<close>

definition npm_tarball_url :: "request \<Rightarrow> string \<Rightarrow> string \<Rightarrow> string" where
  "npm_tarball_url req pkgName version =
     base_url req ''npm'' @ ''/'' @ pkgName @ ''/-/'' @ replace_char CHR ''/'' ''%2f'' pkgName @ ''-'' @ version @ ''.tgz''"

text \<open>The metadata of one version with the address of its tarball replaced; metadata that is no object is left out, and
  \<^verbatim>\<open>null\<close> stays.\<close>

definition npm_version_doc :: "pkg_libs \<Rightarrow> request \<Rightarrow> string \<Rightarrow> universal_artifact \<Rightarrow> json option" where
  "npm_version_doc L req pkgName a =
     (case Option.bind (ua_meta a) (pl_json L) of
        Some JNull \<Rightarrow> Some JNull
      | Some (JObj meta) \<Rightarrow>
          Some (JObj (case obj_field meta ''dist'' of
                        None \<Rightarrow> meta
                      | Some dist \<Rightarrow> put_field ''dist''
                          (JObj (put_field ''tarball'' (JStr (npm_tarball_url req pkgName (ua_version a))) dist)) meta))
      | _ \<Rightarrow> None)"

definition npm_handleGetMetadata ::
  "('s, 'w, 'd) formats \<Rightarrow> request \<Rightarrow> string \<Rightarrow> string \<Rightarrow> 'd \<Rightarrow> response" where
  "npm_handleGetMetadata F req namespace pkgName d =
     (case as_ListArtifacts (fo_db F) ''npm'' namespace pkgName d of
        Inl e \<Rightarrow> reply 500 [] (JsonDoc (JObj [(''error'', JStr ''Internal server error'')]))
      | Inr arts \<Rightarrow>
          (if arts = [] then reply 404 json_type (JsonDoc (JObj [(''error'', JStr ''not_found''), (''reason'', JStr ''document not found'')]))
           else
             (let L = fo_lib F;
                  versions = List.map_filter (\<lambda>a. map_option (Pair (ua_version a)) (npm_version_doc L req pkgName a)) arts;
                  times = map (\<lambda>a. (ua_version a, JStr (pl_stamp L (ua_created a)))) arts;
                  latest = (case find (\<lambda>v. v \<noteq> []) (map ua_version arts) of None \<Rightarrow> [] | Some v \<Rightarrow> [(''latest'', JStr v)])
              in reply 200 json_type (JsonDoc (JObj [(''_id'', JStr pkgName), (''description'', JStr []), (''dist-tags'', JObj latest),
                   (''name'', JStr pkgName), (''time'', json_map times), (''versions'', json_map versions)])))))"

definition npm_handleDownload ::
  "('s, 'w, 'd) formats \<Rightarrow> string \<Rightarrow> string \<Rightarrow> string \<Rightarrow> 's \<Rightarrow> response" where
  "npm_handleDownload F namespace pkgName tarball s =
     (case pv_Reader (fo_storage F) (path_Join [''npm'', namespace, pkgName, tarball]) 0 s of
        Inl e \<Rightarrow> (if e = StorageNotFound then reply 404 [] (JsonDoc (JObj [(''error'', JStr ''not found'')]))
                 else http_error [] (err_msg e) 500)
      | Inr rd \<Rightarrow> send_object ''application/octet-stream'' rd)"

text \<open>The document of a publish request. A member of the wrong type is an error; the members of a map are visited in the
  order in which they stand here (Go leaves it open).\<close>

fun set_object :: "(string \<times> json) list \<Rightarrow> json \<Rightarrow> (string \<times> json) list option" where
  "set_object a JNull = Some []"
| "set_object a (JObj kvs) = Some (fold (\<lambda>(k, v). put_field k v) kvs a)"
| "set_object a _ = None"

definition npm_attachment :: "json \<Rightarrow> string option" where
  "npm_attachment j =
     Option.bind (members j) (\<lambda>kvs.
       case (decode_field set_string ''content_type'' kvs [], decode_field set_string ''data'' kvs [], decode_field set_int ''length'' kvs 0) of
         (Some _, Some dat, Some _) \<Rightarrow> Some dat | _ \<Rightarrow> None)"

fun map_values :: "('a \<Rightarrow> 'b option) \<Rightarrow> (string \<times> 'a) list \<Rightarrow> (string \<times> 'b) list option" where
  "map_values f [] = Some []"
| "map_values f ((k, v) # kvs) =
     (case (f v, map_values f kvs) of (Some w, Some rest) \<Rightarrow> Some ((k, w) # rest) | _ \<Rightarrow> None)"

record npm_body =
  nb_versions :: "(string \<times> json) list"
  nb_files :: "(string \<times> string) list"

definition npm_decode :: "pkg_libs \<Rightarrow> stream \<Rightarrow> npm_body option" where
  "npm_decode L b =
     Option.bind (Option.bind (pl_decode L b) members) (\<lambda>kvs.
       case (decode_field set_string ''_id'' kvs [], decode_field set_string ''name'' kvs [], decode_field set_string ''description'' kvs [],
             Option.bind (decode_field set_object ''dist-tags'' kvs []) (map_values (set_string [])),
             decode_field set_object ''versions'' kvs [], Option.bind (decode_field set_object ''_attachments'' kvs []) (map_values npm_attachment)) of
         (Some _, Some _, Some _, Some _, Some vs, Some fs) \<Rightarrow> Some \<lparr>nb_versions = vs, nb_files = fs\<rparr>
       | _ \<Rightarrow> None)"

definition limited :: "nat \<Rightarrow> stream \<Rightarrow> stream" where
  "limited n b = (if length (concat (fst b)) < n then b else ([take n (concat (fst b))], EOF))"

text \<open>Every file of the request is stored and linked once per version; one that is no base64 or cannot be opened is
  skipped.\<close>

definition npm_attach ::
  "('s, 'w, 'd) formats \<Rightarrow> string \<Rightarrow> string \<Rightarrow> nat \<Rightarrow> string \<times> string \<Rightarrow> ('s, 'd) world \<Rightarrow> ('s, 'd) world" where
  "npm_attach F namespace pkgName artifactID f w =
     (case b64_decode (snd f) of
        None \<Rightarrow> w
      | Some decoded \<Rightarrow>
          (case save_file (fo_storage F) (path_Join [''npm'', namespace, pkgName, fst f]) ([decoded], EOF) (wd_st w) of
             (NotOpened _, s1) \<Rightarrow> w\<lparr>wd_st := s1\<rparr>
           | (_, s1) \<Rightarrow>
               (let d1 = snd (as_AttachBlob (fo_db F) artifactID (pl_sha1 (fo_lib F) decoded) (fst f) (wd_db w));
                    d2 = snd (as_AttachBlob (fo_db F) artifactID (''sha512-'' @ pl_sha512 (fo_lib F) decoded) (fst f) d1)
                in w\<lparr>wd_st := s1, wd_db := d2\<rparr>)))"

fun npm_versions ::
  "('s, 'w, 'd) formats \<Rightarrow> string \<Rightarrow> string \<Rightarrow> (string \<times> string) list \<Rightarrow> (string \<times> json) list \<Rightarrow> ('s, 'd) world \<Rightarrow>
   response \<times> ('s, 'd) world" where
  "npm_versions F namespace pkgName files [] w =
     (reply 200 json_type (JsonDoc (JObj [(''ok'', JStr ''created''), (''success'', JBool True)])), w)"
| "npm_versions F namespace pkgName files ((version, doc) # vs) w =
     (case as_CreateArtifact (fo_db F) (new_artifact ''npm'' namespace pkgName version (pl_marshal (fo_lib F) doc)) (wd_db w) of
        (Inl e, d1) \<Rightarrow> (http_error [] (err_msg e) 500, w\<lparr>wd_db := d1\<rparr>)
      | (Inr artifactID, d1) \<Rightarrow>
          npm_versions F namespace pkgName files vs (fold (npm_attach F namespace pkgName artifactID) files (w\<lparr>wd_db := d1\<rparr>)))"

definition npm_handlePublish ::
  "('s, 'w, 'd) formats \<Rightarrow> request \<Rightarrow> string \<Rightarrow> string \<Rightarrow> ('s, 'd) world \<Rightarrow> response \<times> ('s, 'd) world" where
  "npm_handlePublish F req namespace pkgName w =
     (case npm_decode (fo_lib F) (limited 52428800 (body_of req)) of
        None \<Rightarrow> (reply 400 [] (JsonDoc (JObj [(''error'', JStr ''bad request, invalid json'')])), w)
      | Some b \<Rightarrow> npm_versions F namespace pkgName (nb_files b) (nb_versions b) w)"

definition scoped :: "string \<Rightarrow> string \<Rightarrow> string" where
  "scoped scope pkg = ''@'' @ scope @ ''/'' @ pkg"

subsection \<open>PyPI: internal/api/formats/pypi/pypi.go\<close>

definition pypi_name :: "string \<Rightarrow> string" where
  "pypi_name n = ToLower (replace_char CHR ''_'' ''-'' n)"

definition html_type :: "(string \<times> string) list" where
  "html_type = [(''Content-Type'', ''text/html; charset=utf-8'')]"

definition nl :: string where
  "nl = [CHR 0x0A]"

definition pypi_listPackages :: "('s, 'w, 'd) formats \<Rightarrow> 'd \<Rightarrow> response" where
  "pypi_listPackages F d =
     (case as_SearchArtifacts (fo_db F) ''pypi'' ''default'' d of
        Inl e \<Rightarrow> http_error [] (err_msg e) 500
      | Inr arts \<Rightarrow>
          reply 200 html_type (Data (''<!DOCTYPE html>'' @ nl @ ''<html>'' @ nl @ ''  <head>'' @ nl @ ''    <title>Simple Index</title>'' @ nl @
            ''  </head>'' @ nl @ ''  <body>'' @ nl @
            concat (map (\<lambda>n. ''    <a href='' @ dq @ html_escape n @ ''/'' @ dq @ ''>'' @ html_escape n @ ''</a><br/>'' @ nl)
              (remdups (map ua_pkg arts))) @ ''  </body>'' @ nl @ ''</html>'' @ nl)))"

definition pypi_link :: "request \<Rightarrow> universal_artifact \<Rightarrow> artifact_blob \<Rightarrow> string" where
  "pypi_link req a b = ''    <a href='' @ dq @ base_url req ''pypi'' @ ''/packages/'' @ ua_version a @ ''/'' @ ab_name b @
     ''#sha256='' @ ab_digest b @ dq @ ''>'' @ html_escape (ab_name b) @ ''</a><br/>'' @ nl"

definition pypi_page :: "string \<Rightarrow> string \<Rightarrow> bytes" where
  "pypi_page pkgName links =
     ''<!DOCTYPE html>'' @ nl @ ''<html>'' @ nl @ ''  <head>'' @ nl @ ''    <title>Links for '' @ html_escape pkgName @ ''</title>'' @ nl @
     ''  </head>'' @ nl @ ''  <body>'' @ nl @ ''    <h1>Links for '' @ html_escape pkgName @ ''</h1>'' @ nl @ links @
     ''  </body>'' @ nl @ ''</html>'' @ nl"

definition pypi_packageDetails :: "('s, 'w, 'd) formats \<Rightarrow> request \<Rightarrow> string \<Rightarrow> 'd \<Rightarrow> response" where
  "pypi_packageDetails F req pkgName d =
     (case as_ListArtifacts (fo_db F) ''pypi'' ''default'' pkgName d of
        Inl e \<Rightarrow> http_error [] (err_msg e) 500
      | Inr arts \<Rightarrow>
          (if arts = [] then http_error [] ''Not Found'' 404
           else reply 200 html_type (Data (pypi_page pkgName (concat (concat (map (\<lambda>a. map (pypi_link req a) (ua_blobs a)) arts)))))))"

definition pypi_uploadPackage ::
  "('s, 'w, 'd) formats \<Rightarrow> request \<Rightarrow> ('s, 'd) world \<Rightarrow> response \<times> ('s, 'd) world" where
  "pypi_uploadPackage F req w =
     (let L = fo_lib F in
      case pl_form L req of
        None \<Rightarrow> (http_error [] ''Unable to parse form'' 400, w)
      | Some fm \<Rightarrow>
          (let version = fm_value fm ''version'' in
           if fm_value fm ''name'' = [] \<or> version = [] then (http_error [] ''Name and version required'' 400, w)
           else
             (let pkgName = pypi_name (fm_value fm ''name'') in
              case fm_file fm ''content'' of
                None \<Rightarrow> (http_error [] ''File upload required'' 400, w)
              | Some (filename, content) \<Rightarrow>
                  (let meta = pl_marshal L (JObj (map (\<lambda>k. (k, JStr (fm_value fm k)))
                         [''author'', ''author_email'', ''home_page'', ''metadata_version'', ''summary'']))
                   in case as_CreateArtifact (fo_db F) (new_artifact ''pypi'' ''default'' pkgName version meta) (wd_db w) of
                        (Inl e, d1) \<Rightarrow> (http_error [] ''Failed to create artifact'' 500, w\<lparr>wd_db := d1\<rparr>)
                      | (Inr artifactID, d1) \<Rightarrow>
                          (case save_file (fo_storage F) (path_Join [''pypi'', ''default'', pkgName, version, filename]) content (wd_st w) of
                             (NotOpened _, s1) \<Rightarrow> (http_error [] ''Failed to initialize storage'' 500, w\<lparr>wd_st := s1, wd_db := d1\<rparr>)
                           | (CopyFailed _, s1) \<Rightarrow> (http_error [] ''Failed to save file'' 500, w\<lparr>wd_st := s1, wd_db := d1\<rparr>)
                           | (Saved, s1) \<Rightarrow>
                               (case as_AttachBlob (fo_db F) artifactID (pl_sha256 L (tee_file (fo_storage F) (path_Join [''pypi'', ''default'', pkgName, version, filename]) content (wd_st w))) filename d1 of
                                  (Inl e, d2) \<Rightarrow> (http_error [] ''Failed to attach blob'' 500, w\<lparr>wd_st := s1, wd_db := d2\<rparr>)
                                | (Inr _, d2) \<Rightarrow> (reply 200 [] (Data ''Upload successful''), w\<lparr>wd_st := s1, wd_db := d2\<rparr>)))))))"

text \<open>The name of the package is taken to be what precedes the first hyphen of the file name.\<close>

definition pypi_downloadPackage :: "('s, 'w, 'd) formats \<Rightarrow> string \<Rightarrow> string \<Rightarrow> 's \<Rightarrow> response" where
  "pypi_downloadPackage F version filename s =
     (let parts = Split filename CHR ''-'';
          pkgName = pypi_name (if 1 < length parts then hd parts else filename)
      in case pv_Reader (fo_storage F) (path_Join [''pypi'', ''default'', pkgName, version, filename]) 0 s of
           Inl e \<Rightarrow> (if e = StorageNotFound then reply 404 [] (Data ''Not Found'') else http_error [] (err_msg e) 500)
         | Inr rd \<Rightarrow> send_object ''application/octet-stream'' rd)"

subsection \<open>Helm: internal/api/formats/helm/helm.go\<close>

definition no_chart :: chart where
  "no_chart = \<lparr>ch_api = [], ch_name = [], ch_version = [], ch_description = [], ch_app = [], ch_digest = [], ch_created = [], ch_urls = []\<rparr>"

definition opt_member :: "string \<Rightarrow> string \<Rightarrow> (string \<times> json) list" where
  "opt_member k v = (if v = [] then [] else [(k, JStr v)])"

definition chart_json :: "chart \<Rightarrow> json" where
  "chart_json c = JObj (opt_member ''apiVersion'' (ch_api c) @ [(''name'', JStr (ch_name c)), (''version'', JStr (ch_version c))] @
     opt_member ''description'' (ch_description c) @ opt_member ''appVersion'' (ch_app c) @ opt_member ''digest'' (ch_digest c) @
     opt_member ''created'' (ch_created c) @ (if ch_urls c = [] then [] else [(''urls'', JArr (map JStr (ch_urls c)))]))"

definition chart_of_json :: "json \<Rightarrow> chart option" where
  "chart_of_json j =
     Option.bind (members j) (\<lambda>kvs.
       case (decode_field set_string ''apiVersion'' kvs [], decode_field set_string ''name'' kvs [], decode_field set_string ''version'' kvs [],
             decode_field set_string ''description'' kvs [], decode_field set_string ''appVersion'' kvs [], decode_field set_string ''digest'' kvs [],
             decode_field set_string ''created'' kvs [], decode_field set_strings ''urls'' kvs []) of
         (Some a, Some n, Some v, Some ds, Some ap, Some dg, Some cr, Some us) \<Rightarrow>
           Some \<lparr>ch_api = a, ch_name = n, ch_version = v, ch_description = ds, ch_app = ap, ch_digest = dg, ch_created = cr, ch_urls = us\<rparr>
       | _ \<Rightarrow> None)"

text \<open>The digest and the address of a chart are those of its last file.\<close>

definition index_entry :: "pkg_libs \<Rightarrow> request \<Rightarrow> universal_artifact \<Rightarrow> chart option" where
  "index_entry L req a =
     map_option (\<lambda>c. (fold (\<lambda>b c. c\<lparr>ch_digest := ab_digest b, ch_urls := [base_url req ''helm'' @ ''/charts/'' @ ab_name b]\<rparr>) (ua_blobs a) c)
         \<lparr>ch_created := pl_rfc L (ua_created a)\<rparr>)
       (Option.bind (Option.bind (ua_meta a) (pl_json L)) chart_of_json)"

definition add_entry :: "chart \<Rightarrow> (string \<times> chart list) list \<Rightarrow> (string \<times> chart list) list" where
  "add_entry c idx = AList.update (ch_name c) ((case map_of idx (ch_name c) of None \<Rightarrow> [] | Some cs \<Rightarrow> cs) @ [c]) idx"

definition helm_getIndex :: "('s, 'w, 'd) formats \<Rightarrow> request \<Rightarrow> 'd \<Rightarrow> response" where
  "helm_getIndex F req d =
     (case as_SearchArtifacts (fo_db F) ''helm'' ''default'' d of
        Inl e \<Rightarrow> http_error [] (err_msg e) 500
      | Inr arts \<Rightarrow>
          reply 200 [(''Content-Type'', ''application/yaml'')]
            (Data (pl_index (fo_lib F) (fold add_entry (List.map_filter (index_entry (fo_lib F) req) arts) []) (pl_rfc (fo_lib F) (pl_now (fo_lib F))))))"

text \<open>The first readable \<^verbatim>\<open>Chart.yaml\<close> one directory deep: \<^verbatim>\<open>Inl\<close> for a broken archive, otherwise the
  chart and whether it was found.\<close>

fun find_chart :: "pkg_libs \<Rightarrow> (string \<times> bytes option) list \<Rightarrow> bool \<Rightarrow> chart \<Rightarrow> unit + (bool \<times> chart)" where
  "find_chart L [] ended c = (if ended then Inr (False, c) else Inl ())"
| "find_chart L ((name, content) # fs) ended c =
     (let parts = Split name CHR ''/'' in
      if length parts = 2 \<and> parts ! 1 = ''Chart.yaml''
      then (case content of
              None \<Rightarrow> find_chart L fs ended c
            | Some dat \<Rightarrow> (let (ok, c') = pl_chart L c dat in if ok then Inr (True, c') else find_chart L fs ended c'))
      else find_chart L fs ended c)"

definition helm_filename :: "chart \<Rightarrow> string" where
  "helm_filename c = ch_name c @ ''-'' @ ch_version c @ ''.tgz''"

definition helm_uploadChart ::
  "('s, 'w, 'd) formats \<Rightarrow> request \<Rightarrow> ('s, 'd) world \<Rightarrow> response \<times> ('s, 'd) world" where
  "helm_uploadChart F req w =
     (let L = fo_lib F in
      case read_limited 52428800 (body_of req) of
        Inl e \<Rightarrow> (http_error [] ''Unable to read payload'' 400, w)
      | Inr payload \<Rightarrow>
          (case pl_gunzip L payload of
             None \<Rightarrow> (http_error [] ''Invalid gzip format'' 400, w)
           | Some (fs, ended) \<Rightarrow>
               (case find_chart L fs ended no_chart of
                  Inl _ \<Rightarrow> (http_error [] ''Error parsing tarball'' 400, w)
                | Inr (found, c) \<Rightarrow>
                    (if \<not> found \<or> ch_name c = [] \<or> ch_version c = [] then (http_error [] ''Chart.yaml missing or invalid'' 400, w)
                     else (case as_CreateArtifact (fo_db F) (new_artifact ''helm'' ''default'' (ch_name c) (ch_version c)
                                  (pl_marshal L (chart_json c))) (wd_db w) of
                             (Inl e, d1) \<Rightarrow> (http_error [] ''Failed to register chart artifact'' 500, w\<lparr>wd_db := d1\<rparr>)
                           | (Inr artifactID, d1) \<Rightarrow>
                               (case save_file (fo_storage F) (path_Join [''helm'', ''default'', helm_filename c]) ([payload], EOF) (wd_st w) of
                                  (NotOpened _, s1) \<Rightarrow> (http_error [] ''Failed to initialize storage'' 500, w\<lparr>wd_st := s1, wd_db := d1\<rparr>)
                                | (CopyFailed _, s1) \<Rightarrow> (http_error [] ''Failed to save chart'' 500, w\<lparr>wd_st := s1, wd_db := d1\<rparr>)
                                | (Saved, s1) \<Rightarrow>
                                    (case as_AttachBlob (fo_db F) artifactID (pl_sha256 L payload) (helm_filename c) d1 of
                                       (Inl e, d2) \<Rightarrow> (http_error [] ''Failed to attach hash'' 500, w\<lparr>wd_st := s1, wd_db := d2\<rparr>)
                                     | (Inr _, d2) \<Rightarrow> (reply 201 json_type (JsonDoc (JObj [(''saved'', JBool True)])),
                                                      w\<lparr>wd_st := s1, wd_db := d2\<rparr>))))))))"

definition helm_downloadChart :: "('s, 'w, 'd) formats \<Rightarrow> string \<Rightarrow> 's \<Rightarrow> response" where
  "helm_downloadChart F filename s =
     (case pv_Reader (fo_storage F) (path_Join [''helm'', ''default'', filename]) 0 s of
        Inl e \<Rightarrow> (if e = StorageNotFound then reply 404 [] (Data ''Not Found'') else http_error [] (err_msg e) 500)
      | Inr rd \<Rightarrow> send_object ''application/x-tar'' rd)"

subsection \<open>Go modules: internal/api/formats/golang/golang.go\<close>

definition go_path :: "string \<Rightarrow> string \<Rightarrow> string" where
  "go_path module filename = path_Join [''go'', ''default'', module, ''@v'', filename]"

definition go_listVersions :: "('s, 'w, 'd) formats \<Rightarrow> string \<Rightarrow> 'd \<Rightarrow> response" where
  "go_listVersions F module d =
     (case as_ListArtifacts (fo_db F) ''go'' ''default'' module d of
        Inl e \<Rightarrow> http_error [] (err_msg e) 500
      | Inr arts \<Rightarrow> reply 200 [(''Content-Type'', ''text/plain; charset=utf-8'')] (Data (concat (map (\<lambda>a. ua_version a @ nl) arts))))"

definition go_moduleInfo :: "('s, 'w, 'd) formats \<Rightarrow> string \<Rightarrow> string \<Rightarrow> 'd \<Rightarrow> response" where
  "go_moduleInfo F module version d =
     (case as_GetArtifact (fo_db F) ''go'' ''default'' module version d of
        Inl _ \<Rightarrow> status 404
      | Inr a \<Rightarrow> reply 200 json_type (JsonDoc (JObj [(''Time'', JStr (pl_rfc (fo_lib F) (ua_created a))), (''Version'', JStr (ua_version a))])))"

definition go_downloadGoFile :: "('s, 'w, 'd) formats \<Rightarrow> string \<Rightarrow> string \<Rightarrow> 's \<Rightarrow> response" where
  "go_downloadGoFile F module filename s =
     (case pv_Reader (fo_storage F) (go_path module filename) 0 s of
        Inl _ \<Rightarrow> status 404
      | Inr rd \<Rightarrow>
          (if HasSuffix filename ''.mod'' then send_object ''text/plain; charset=utf-8'' rd
           else if HasSuffix filename ''.zip'' then send_object ''application/zip'' rd
           else reply 200 [] (Data (concat (fst (rd_stream rd))))))"

definition go_serveProxy :: "('s, 'w, 'd) formats \<Rightarrow> string \<Rightarrow> ('s, 'd) world \<Rightarrow> response" where
  "go_serveProxy F path w =
     (if HasSuffix path ''/@v/list'' then go_listVersions F (TrimSuffix path ''/@v/list'') (wd_db w)
      else case LastIndex path ''/@v/'' of
        None \<Rightarrow> http_error [] ''Not found'' 404
      | Some idx \<Rightarrow>
          (let module = take idx path; filePart = drop (idx + 4) path in
           if HasSuffix filePart ''.info'' then go_moduleInfo F module (TrimSuffix filePart ''.info'') (wd_db w)
           else if HasSuffix filePart ''.mod'' then go_downloadGoFile F module (TrimSuffix filePart ''.mod'' @ ''.mod'') (wd_st w)
           else if HasSuffix filePart ''.zip'' then go_downloadGoFile F module (TrimSuffix filePart ''.zip'' @ ''.zip'') (wd_st w)
           else http_error [] ''Not found'' 404))"

text \<open>The error of opening a file for writing is ignored, and the nil writer that comes with it panics. The module file
  is cut at 32 MiB, and an error while reading it is ignored too.\<close>

definition go_uploadModule ::
  "('s, 'w, 'd) formats \<Rightarrow> request \<Rightarrow> ('s, 'd) world \<Rightarrow> outcome \<times> ('s, 'd) world" where
  "go_uploadModule F req w =
     (let L = fo_lib F in
      case pl_form L req of
        None \<Rightarrow> (Respond (http_error [] ''Unable to parse form'' 400), w)
      | Some fm \<Rightarrow>
          (let module = fm_value fm ''module''; version = fm_value fm ''version'' in
           if module = [] \<or> version = []
           then (Respond (http_error [] ''Module path and version required (e.g., github.com/foo/bar, v1.0.0)'' 400), w)
           else case (fm_file fm ''mod'', fm_file fm ''zip'') of
             (None, _) \<Rightarrow> (Respond (http_error [] ''.mod file required'' 400), w)
           | (_, None) \<Rightarrow> (Respond (http_error [] ''.zip file required'' 400), w)
           | (Some (_, modFile), Some (_, zipFile)) \<Rightarrow>
               (let modData = take 33554432 (concat (fst modFile)) in
                case as_CreateArtifact (fo_db F) (new_artifact ''go'' ''default'' module version ''{}'') (wd_db w) of
                  (Inl e, d1) \<Rightarrow> (Respond (http_error [] ''Database error'' 500), w\<lparr>wd_db := d1\<rparr>)
                | (Inr artifactID, d1) \<Rightarrow>
                    (case save_file (fo_storage F) (go_path module (version @ ''.zip'')) zipFile (wd_st w) of
                       (NotOpened _, s1) \<Rightarrow> (Panic, w\<lparr>wd_st := s1, wd_db := d1\<rparr>)
                     | (_, s1) \<Rightarrow>
                         (case as_AttachBlob (fo_db F) artifactID (pl_sha256 L (tee_file (fo_storage F) (go_path module (version @ ''.zip'')) zipFile (wd_st w))) (version @ ''.zip'') d1 of
                            (Inl e, d2) \<Rightarrow> (Respond (http_error [] ''Failed attaching blob'' 500), w\<lparr>wd_st := s1, wd_db := d2\<rparr>)
                          | (Inr _, d2) \<Rightarrow>
                              (case save_file (fo_storage F) (go_path module (version @ ''.mod'')) ([modData], EOF) s1 of
                                 (NotOpened _, s2) \<Rightarrow> (Panic, w\<lparr>wd_st := s2, wd_db := d2\<rparr>)
                               | (_, s2) \<Rightarrow>
                                   (Respond (reply 201 [] (Data ''Go module uploaded successfully'')),
                                    w\<lparr>wd_st := s2, wd_db := snd (as_AttachBlob (fo_db F) artifactID (pl_sha256 L modData) (version @ ''.mod'') d2)\<rparr>)))))))"

end
