(* ===== verification/Compat.thy ===== *)
theory Compat
  imports Formats Manifest_Properties
begin

text \<open>
  The client compatibility layer, \<^verbatim>\<open>internal/compat\<close>: the detection of clients from their user agent and the
  workarounds applied to the answers they get. It stands before every route of the server. Logging, metrics and the
  extra flushes of a connection are left out: they do not change what is answered. The configuration has the fields the
  middleware reads. Header values are ASCII.
\<close>

subsection \<open>Client detection: detection.go\<close>

record client_info =
  ci_name :: string
  ci_version :: string
  ci_major :: int
  ci_minor :: int
  ci_patch :: int
  ci_protocol :: string
  ci_http :: string
  ci_agent :: string
  ci_caps :: "string list"
  ci_workarounds :: "string list"
  ci_meta :: "(string \<times> string) list"

text \<open>The connection of a request: \<^verbatim>\<open>Proto\<close> and \<^verbatim>\<open>ProtoMajor\<close>.\<close>

record conn =
  cn_proto :: string
  cn_major :: int

text \<open>
  A pattern of the detector is a literal, compared without regard to case, an optional or required \<^verbatim>\<open>v\<close>, and a number
  of groups of digits separated by dots.
\<close>

datatype v_flag = NoV | OptV | ReqV

record client_pattern =
  cp_literal :: string
  cp_v :: v_flag
  cp_parts :: nat
  cp_name :: string
  cp_protocol :: string

definition client_patterns :: "client_pattern list" where
  "client_patterns =
     [\<lparr>cp_literal = ''docker/'', cp_v = OptV, cp_parts = 3, cp_name = ''docker'', cp_protocol = ''docker''\<rparr>,
      \<lparr>cp_literal = ''docker/'', cp_v = OptV, cp_parts = 2, cp_name = ''docker'', cp_protocol = ''docker''\<rparr>,
      \<lparr>cp_literal = ''containerd/'', cp_v = NoV, cp_parts = 3, cp_name = ''containerd'', cp_protocol = ''containerd''\<rparr>,
      \<lparr>cp_literal = ''containerd/'', cp_v = OptV, cp_parts = 2, cp_name = ''containerd'', cp_protocol = ''containerd''\<rparr>,
      \<lparr>cp_literal = ''podman/'', cp_v = NoV, cp_parts = 3, cp_name = ''podman'', cp_protocol = ''docker''\<rparr>,
      \<lparr>cp_literal = ''podman/'', cp_v = OptV, cp_parts = 2, cp_name = ''podman'', cp_protocol = ''docker''\<rparr>,
      \<lparr>cp_literal = ''skopeo/'', cp_v = NoV, cp_parts = 3, cp_name = ''skopeo'', cp_protocol = ''oci''\<rparr>,
      \<lparr>cp_literal = ''skopeo/'', cp_v = OptV, cp_parts = 2, cp_name = ''skopeo'', cp_protocol = ''oci''\<rparr>,
      \<lparr>cp_literal = ''go-containerregistry/'', cp_v = ReqV, cp_parts = 3, cp_name = ''crane'', cp_protocol = ''oci''\<rparr>,
      \<lparr>cp_literal = ''crane/'', cp_v = OptV, cp_parts = 2, cp_name = ''crane'', cp_protocol = ''oci''\<rparr>,
      \<lparr>cp_literal = ''buildkit/'', cp_v = NoV, cp_parts = 3, cp_name = ''buildkit'', cp_protocol = ''docker''\<rparr>,
      \<lparr>cp_literal = ''buildkit/'', cp_v = OptV, cp_parts = 2, cp_name = ''buildkit'', cp_protocol = ''docker''\<rparr>,
      \<lparr>cp_literal = ''nerdctl/'', cp_v = NoV, cp_parts = 3, cp_name = ''nerdctl'', cp_protocol = ''containerd''\<rparr>,
      \<lparr>cp_literal = ''kubelet/'', cp_v = OptV, cp_parts = 3, cp_name = ''kubelet'', cp_protocol = ''containerd''\<rparr>,
      \<lparr>cp_literal = ''harbor-registry-client'', cp_v = NoV, cp_parts = 0, cp_name = ''harbor'', cp_protocol = ''docker''\<rparr>,
      \<lparr>cp_literal = ''go-http-client/'', cp_v = NoV, cp_parts = 2, cp_name = ''go-http-client'', cp_protocol = ''unknown''\<rparr>,
      \<lparr>cp_literal = ''curl/'', cp_v = NoV, cp_parts = 3, cp_name = ''curl'', cp_protocol = ''unknown''\<rparr>]"

text \<open>The groups of a match at the start of a text; a run of digits is taken whole, since a dot must follow it.\<close>

fun match_parts :: "nat \<Rightarrow> string \<Rightarrow> string list option" where
  "match_parts 0 s = Some []"
| "match_parts (Suc n) s =
     (let ds = takeWhile is_digit s; rest = dropWhile is_digit s in
      if ds = [] then None
      else if n = 0 then Some [ds]
      else (case rest of [] \<Rightarrow> None
            | c # t \<Rightarrow> if c = CHR ''.'' then map_option ((#) ds) (match_parts n t) else None))"

definition match_here :: "client_pattern \<Rightarrow> string \<Rightarrow> string list option" where
  "match_here p s =
     (if HasPrefix (ToLower s) (cp_literal p)
      then (let t = drop (length (cp_literal p)) s; v = (case t of [] \<Rightarrow> False | c # _ \<Rightarrow> lower c = CHR ''v'')
            in if v \<and> cp_v p \<noteq> NoV then match_parts (cp_parts p) (tl t)
               else if cp_v p = ReqV then None
               else match_parts (cp_parts p) t)
      else None)"

text \<open>\<^verbatim>\<open>FindStringSubmatch\<close>: the groups of the leftmost match.\<close>

fun FindStringSubmatch :: "client_pattern \<Rightarrow> string \<Rightarrow> string list option" where
  "FindStringSubmatch p [] = match_here p []"
| "FindStringSubmatch p (c # s) = (case match_here p (c # s) of Some g \<Rightarrow> Some g | None \<Rightarrow> FindStringSubmatch p s)"

fun first_match :: "client_pattern list \<Rightarrow> string \<Rightarrow> (client_pattern \<times> string list) option" where
  "first_match [] ua = None"
| "first_match (p # ps) ua = (case FindStringSubmatch p ua of Some g \<Rightarrow> Some (p, g) | None \<Rightarrow> first_match ps ua)"

text \<open>\<^verbatim>\<open>strconv.Atoi\<close> with its error ignored: zero where there is no number, the nearest bound where it is too large.\<close>

definition Atoi_value :: "string \<Rightarrow> int" where
  "Atoi_value s =
     (case ParseInt s of
        Some n \<Rightarrow> n
      | None \<Rightarrow> (let neg = HasPrefix s ''-''; ds = (if neg \<or> HasPrefix s ''+'' then drop 1 s else s)
                in if ds = [] \<or> \<not> list_all is_digit ds then 0 else if neg then min_int64 else max_int64))"

text \<open>The version is read from the groups of the match; \<^verbatim>\<open>matches[1]\<close> does not exist for a pattern without groups,
  and the access panics (\<^const>\<open>None\<close>).\<close>

definition parseUserAgent :: "client_info \<Rightarrow> string \<Rightarrow> client_info option" where
  "parseUserAgent info userAgent =
     (case first_match client_patterns userAgent of
        None \<Rightarrow> Some info
      | Some (p, g) \<Rightarrow>
          (let at = (\<lambda>k. if k < length g then Atoi_value (g ! k) else 0);
               info1 = info\<lparr>ci_name := cp_name p, ci_protocol := cp_protocol p, ci_major := at 0, ci_minor := at 1, ci_patch := at 2\<rparr>
           in if at 2 > 0 then Some (info1\<lparr>ci_version := g ! 0 @ ''.'' @ g ! 1 @ ''.'' @ g ! 2\<rparr>)
              else if at 1 > 0 then Some (info1\<lparr>ci_version := g ! 0 @ ''.'' @ g ! 1\<rparr>)
              else if g = [] then None
              else Some (info1\<lparr>ci_version := g ! 0\<rparr>)))"

definition fingerprintFromHeaders :: "client_info \<Rightarrow> request \<Rightarrow> client_info" where
  "fingerprintFromHeaders info r =
     (if rq_header r ''X-Docker-Token'' \<noteq> [] \<or> rq_header r ''X-Registry-Auth'' \<noteq> []
      then info\<lparr>ci_name := ''docker'', ci_protocol := ''docker'', ci_version := ''unknown''\<rparr>
      else
        (let apiVersion = rq_header r ''Docker-Distribution-API-Version'';
             info1 = (if apiVersion \<noteq> [] then info\<lparr>ci_meta := ci_meta info @ [(''api-version'', apiVersion)], ci_protocol := ''docker''\<rparr> else info)
         in if Contains (rq_header r ''Accept'') ''application/vnd.oci.image''
            then (if ci_protocol info1 = [] then info1\<lparr>ci_protocol := ''oci''\<rparr> else info1)
                   \<lparr>ci_caps := ci_caps info1 @ [''oci-artifacts'']\<rparr>
            else info1))"

definition detectCapabilities :: "conn \<Rightarrow> client_info \<Rightarrow> request \<Rightarrow> client_info" where
  "detectCapabilities cn info r =
     (let accept = rq_header r ''Accept''; enc = rq_header r ''Accept-Encoding'';
          has = (\<lambda>c cap. if c then [cap] else [])
      in info\<lparr>ci_caps := ci_caps info @
           has (Contains accept ''application/vnd.oci.image.manifest.v1+json'') ''oci-image'' @
           has (Contains accept ''application/vnd.docker.distribution.manifest.v2+json'') ''docker-v2-schema2'' @
           has (Contains accept ''application/vnd.docker.distribution.manifest.list.v2+json'') ''manifest-list'' @
           has (Contains accept ''application/vnd.oci.image.index.v1+json'') ''oci-index'' @
           has (cn_major cn = 2) ''http2'' @ has (Contains enc ''gzip'') ''gzip'' @ has (Contains enc ''zstd'') ''zstd''\<rparr>)"

definition DetectClient :: "conn \<Rightarrow> request \<Rightarrow> client_info option" where
  "DetectClient cn r =
     (let userAgent = rq_header r ''User-Agent'';
          info = \<lparr>ci_name = [], ci_version = [], ci_major = 0, ci_minor = 0, ci_patch = 0, ci_protocol = [], ci_http = cn_proto cn,
            ci_agent = userAgent, ci_caps = [], ci_workarounds = [], ci_meta = []\<rparr>
      in map_option (\<lambda>info1.
           (let info2 = (if ci_name info1 = [] then fingerprintFromHeaders info1 r else info1);
                info3 = (if ci_name info2 = [] then info2\<lparr>ci_name := ''unknown'', ci_protocol := ''unknown''\<rparr> else info2)
            in detectCapabilities cn info3 r))
           (if userAgent \<noteq> [] then parseUserAgent info userAgent else Some info))"

definition MatchesVersion :: "client_info \<Rightarrow> string \<Rightarrow> bool" where
  "MatchesVersion info pat =
     (if ci_version info = pat then True
      else if HasSuffix pat ''.*''
      then (let prefixSegs = Split (TrimSuffix pat ''.*'') CHR ''.''; verSegs = Split (ci_version info) CHR ''.''
            in length prefixSegs \<le> length verSegs \<and> take (length prefixSegs) verSegs = prefixSegs)
      else if \<not> Contains pat ''.'' then ci_major info = Atoi_value pat
      else (case Split pat CHR ''.'' of
              [a, b] \<Rightarrow> ci_major info = Atoi_value a \<and> ci_minor info = Atoi_value b
            | _ \<Rightarrow> False))"

subsection \<open>Workarounds: middleware.go\<close>

record compat_config =
  cc_enabled :: bool
  cc_docker29 :: bool       \<comment> \<open>\<^verbatim>\<open>EnableDocker29ManifestFix\<close>\<close>
  cc_http1 :: bool          \<comment> \<open>\<^verbatim>\<open>ForceHTTP1ForManifests\<close>\<close>
  cc_podman :: bool         \<comment> \<open>\<^verbatim>\<open>PodmanDigestWorkaround\<close>\<close>
  cc_containerd :: bool     \<comment> \<open>\<^verbatim>\<open>ContainerdContentLength\<close>\<close>
  cc_api_version :: bool    \<comment> \<open>\<^verbatim>\<open>AlwaysSendDistributionAPIVersion\<close>\<close>
  cc_fixups :: bool         \<comment> \<open>\<^verbatim>\<open>ContentTypeFixups\<close>\<close>
  cc_location :: string     \<comment> \<open>\<^verbatim>\<open>LocationHeaderFormat\<close>\<close>
  cc_cors :: bool           \<comment> \<open>\<^verbatim>\<open>EnableCORS\<close>\<close>

definition DefaultConfig :: compat_config where
  "DefaultConfig = \<lparr>cc_enabled = True, cc_docker29 = True, cc_http1 = True, cc_podman = True, cc_containerd = True,
     cc_api_version = True, cc_fixups = True, cc_location = ''absolute'', cc_cors = False\<rparr>"

text \<open>The workarounds of a request, and the request with the header \<^verbatim>\<open>Accept\<close> a manifest request lacks.\<close>

definition determineWorkarounds :: "compat_config \<Rightarrow> client_info \<Rightarrow> request \<Rightarrow> string list \<times> request" where
  "determineWorkarounds C client r =
     (let on = (\<lambda>c wa. if c then [wa] else []); path = rq_path r; docker = ci_name client = ''docker'';
          ver = MatchesVersion client; ua = ToLower (ci_agent client);
          noAccept = (rq_header r ''Accept'' = [] \<and> Contains path ''/manifests/'')
      in (on (cc_docker29 C \<and> docker \<and> (ver ''18.*'' \<or> ver ''19.*'' \<or> ver ''29.*'') \<and> rq_method r = ''PUT'' \<and>
             Contains path ''/manifests/'') ''docker_29_manifest_fix'' @
          on (cc_docker29 C \<and> docker \<and> (ver ''18.*'' \<or> ver ''19.*'') \<and> Contains path ''/blobs/'') ''docker_18_blob_flush'' @
          on (cc_docker29 C \<and> docker \<and> (ver ''29.0.*'' \<or> ver ''29.1.*'' \<or> ver ''29.2.*'') \<and> Contains path ''/blobs/'')
             ''docker_29_force_close_blobs'' @
          on (cc_http1 C \<and> Contains path ''/manifests/'' \<and> ''http2'' \<in> set (ci_caps client)) ''force_http1_manifests'' @
          on (cc_podman C \<and> ci_name client = ''podman'' \<and> ver ''3.*'' \<and> Contains path ''/blobs/'') ''podman_digest_fix'' @
          on (cc_containerd C \<and> ci_name client = ''containerd'' \<and> ver ''1.6.*'') ''containerd_content_length'' @
          on (cc_api_version C) ''distribution_api_version'' @
          on (Contains path ''/blobs/uploads/'') ''upload_min_chunk_size'' @
          on noAccept ''missing_accept_header'' @
          on (Contains ua ''aws-cli'' \<or> Contains ua ''ecr-login'' \<or> Contains ua ''amazon'') ''aws_ecr_quirks'',
          if noAccept then r\<lparr>rq_header := (rq_header r)(''Accept'' :=
            ''application/vnd.docker.distribution.manifest.v2+json, application/vnd.oci.image.manifest.v1+json'')\<rparr> else r))"

text \<open>\<^verbatim>\<open>strings.ReplaceAll\<close> with a text that is not empty.\<close>

function ReplaceAll :: "string \<Rightarrow> string \<Rightarrow> string \<Rightarrow> string" where
  "ReplaceAll [] old new = []"
| "ReplaceAll (c # s) old new =
     (if old \<noteq> [] \<and> HasPrefix (c # s) old then new @ ReplaceAll (drop (length old) (c # s)) old new
      else c # ReplaceAll s old new)"
  by pat_completeness auto
termination
  by (relation "measure (\<lambda>(s, _). length s)") auto

definition normalizeContentType :: "client_info \<Rightarrow> string \<Rightarrow> string" where
  "normalizeContentType client contentType =
     (if ci_protocol client = ''docker'' \<and> Contains contentType ''vnd.oci.image''
      then ReplaceAll contentType ''vnd.oci.image'' ''vnd.docker.distribution''
      else if ci_protocol client = ''oci'' \<and> Contains contentType ''vnd.docker.distribution''
      then ReplaceAll contentType ''vnd.docker.distribution'' ''vnd.oci.image''
      else contentType)"

text \<open>Header fields are compared by their canonical names.\<close>

definition header_get :: "(string \<times> string) list \<Rightarrow> string \<Rightarrow> string" where
  "header_get hs k = (case find (\<lambda>(j, _). ToLower j = ToLower k) hs of None \<Rightarrow> [] | Some (_, v) \<Rightarrow> v)"

definition header_set :: "string \<Rightarrow> string \<Rightarrow> (string \<times> string) list \<Rightarrow> (string \<times> string) list" where
  "header_set k v hs = filter (\<lambda>(j, _). ToLower j \<noteq> ToLower k) hs @ [(k, v)]"

definition set_if :: "bool \<Rightarrow> string \<Rightarrow> string \<Rightarrow> (string \<times> string) list \<Rightarrow> (string \<times> string) list" where
  "set_if b k v hs = (if b then header_set k v hs else hs)"

definition absolute_location :: "request \<Rightarrow> string \<Rightarrow> string" where
  "absolute_location r location =
     (let scheme = (if rq_tls r then ''https'' else ''http''); proto = rq_header r ''X-Forwarded-Proto''
      in (if proto \<noteq> [] then proto else scheme) @ ''://'' @ rq_host r @ location)"

definition applyHeaderWorkarounds ::
  "compat_config \<Rightarrow> client_info \<Rightarrow> string list \<Rightarrow> request \<Rightarrow> (string \<times> string) list \<Rightarrow> (string \<times> string) list" where
  "applyHeaderWorkarounds C client was r h0 =
     (let has = (\<lambda>wa. wa \<in> set was);
          h1 = set_if (has ''distribution_api_version'' \<and> header_get h0 ''Docker-Distribution-API-Version'' = [])
                 ''Docker-Distribution-API-Version'' ''registry/2.0'' h0;
          h2 = set_if (has ''containerd_content_length'' \<and> header_get h1 ''Content-Length'' = []) ''Content-Length'' ''0'' h1;
          ct = header_get h2 ''Content-Type''; nt = normalizeContentType client ct;
          h3 = set_if (cc_fixups C \<and> ct \<noteq> [] \<and> nt \<noteq> ct) ''Content-Type'' nt h2;
          h4 = set_if (cc_cors C) ''Access-Control-Allow-Headers'' ''Authorization, Content-Type''
                 (set_if (cc_cors C) ''Access-Control-Allow-Methods'' ''GET, POST, PUT, DELETE, OPTIONS''
                    (set_if (cc_cors C) ''Access-Control-Allow-Origin'' ''*'' h3));
          loc = header_get h4 ''Location'';
          h5 = set_if (cc_location C = ''absolute'' \<and> HasPrefix loc ''/'') ''Location'' (absolute_location r loc) h4;
          h6 = set_if (has ''docker_18_blob_flush'') ''Connection'' ''keep-alive'' h5;
          h7 = set_if (has ''docker_29_force_close_blobs'') ''Connection'' ''close'' h6;
          h8 = set_if (has ''upload_min_chunk_size'') ''Docker-Upload-Min-Chunk-Size'' ''5242880'' h7
      in set_if (has ''aws_ecr_quirks'' \<and> (rq_path r = ''/v2/'' \<or> rq_path r = ''/v2'')) ''Docker-Distribution-API-Version'' ''registry/2.0'' h8)"

text \<open>
  What the client receives through the wrapped writer. On HTTP/1 the server refuses to write beyond the declared
  \<^verbatim>\<open>Content-Length\<close>, so a body whose length was declared as zero is not sent.
\<close>

definition compat_response ::
  "compat_config \<Rightarrow> conn \<Rightarrow> client_info \<Rightarrow> string list \<Rightarrow> request \<Rightarrow> response \<Rightarrow> response" where
  "compat_response C cn client was r resp =
     (let hs = applyHeaderWorkarounds C client was r (rs_headers resp)
      in resp\<lparr>rs_headers := hs,
              rs_body := (if ''containerd_content_length'' \<in> set was \<and> header_get (rs_headers resp) ''Content-Length'' = [] \<and> cn_major cn = 1
                          then NoBody else rs_body resp)\<rparr>)"

definition compat_serve ::
  "compat_config \<Rightarrow> conn \<Rightarrow> (request \<Rightarrow> 's \<Rightarrow> outcome \<times> 's) \<Rightarrow> request \<Rightarrow> 's \<Rightarrow> outcome \<times> 's" where
  "compat_serve C cn next r s =
     (if \<not> cc_enabled C then next r s
      else case DetectClient cn r of
             None \<Rightarrow> (Panic, s)
           | Some client \<Rightarrow>
               (case determineWorkarounds C client r of
                  (was, r') \<Rightarrow>
                    (if was = [] then next r' s
                     else (case next r' s of
                             (Respond resp, s') \<Rightarrow> (Respond (compat_response C cn (client\<lparr>ci_workarounds := ci_workarounds client @ was\<rparr>) was r' resp), s')
                           | (Panic, s') \<Rightarrow> (Panic, s')))))"

end
