(* ===== verification/Compat_Properties.thy ===== *)
theory Compat_Properties
  imports Compat
begin

text \<open>
  What the compatibility layer keeps of an answer, which clients get which workaround, and the clients it harms.
\<close>

subsection \<open>Versions\<close>

lemma takeWhile_digits:
  assumes "list_all is_digit ds" "rest = [] \<or> \<not> is_digit (hd rest)"
  shows "takeWhile is_digit (ds @ rest) = ds" "dropWhile is_digit (ds @ rest) = rest"
proof -
  have "\<forall>x \<in> set ds. is_digit x" using assms(1) by (simp add: list_all_iff)
  moreover have "takeWhile is_digit rest = []" "dropWhile is_digit rest = rest" using assms(2) by (cases rest; simp)+
  ultimately show "takeWhile is_digit (ds @ rest) = ds" "dropWhile is_digit (ds @ rest) = rest"
    by (simp_all add: takeWhile_append dropWhile_append)
qed

lemma FormatNat_eq_iff [simp]: "FormatNat a = FormatNat b \<longleftrightarrow> a = b"
  by (metis dec_val_FormatNat)

lemma not_digit_dot [simp]: "\<not> is_digit CHR ''.''" "\<not> is_digit CHR ''*''"
  by code_simp+

lemma dot_not_in_FormatNat [simp]: "CHR ''.'' \<notin> set (FormatNat n)" "CHR ''*'' \<notin> set (FormatNat n)"
  using list_all_not_mem [OF FormatNat_digits] by auto

lemma Atoi_FormatNat: "int n \<le> max_int64 \<Longrightarrow> Atoi_value (FormatNat n) = int n"
proof -
  assume "int n \<le> max_int64"
  then have "ParseInt (FormatInt (int n)) = Some (int n)" by (intro ParseInt_FormatInt) (simp add: int64_def)
  then show ?thesis by (simp add: Atoi_value_def FormatInt_def)
qed

definition version_text :: "nat \<Rightarrow> nat \<Rightarrow> nat \<Rightarrow> string" where
  "version_text a b c = FormatNat a @ ''.'' @ FormatNat b @ ''.'' @ FormatNat c"

lemma match_version:
  assumes "rest = [] \<or> \<not> is_digit (hd rest)"
  shows "match_parts 3 (version_text a b c @ rest) = Some [FormatNat a, FormatNat b, FormatNat c]"
proof -
  have c: "match_parts (Suc 0) (FormatNat c @ rest) = Some [FormatNat c]"
    using takeWhile_digits [OF FormatNat_digits assms] by simp
  have b: "match_parts (Suc (Suc 0)) (FormatNat b @ ''.'' @ FormatNat c @ rest) = Some [FormatNat b, FormatNat c]"
    using takeWhile_digits [OF FormatNat_digits [of b], of "''.'' @ FormatNat c @ rest"] c by simp
  have "match_parts (Suc (Suc (Suc 0))) (FormatNat a @ ''.'' @ FormatNat b @ ''.'' @ FormatNat c @ rest) = Some [FormatNat a, FormatNat b, FormatNat c]"
    using takeWhile_digits [OF FormatNat_digits [of a], of "''.'' @ FormatNat b @ ''.'' @ FormatNat c @ rest"] b by simp
  then show ?thesis by (simp add: version_text_def numeral_3_eq_3)
qed

lemma FormatNat_no_v: "\<exists>x t'. FormatNat a @ t = x # t' \<and> lower x \<noteq> CHR ''v''"
proof -
  obtain x u where x: "FormatNat a = x # u" by (cases "FormatNat a") auto
  then have "is_digit x" using FormatNat_digits [of a] by simp
  then have "lower x \<noteq> CHR ''v''" by (auto simp: is_digit_def lower_def less_eq_char_def)
  with x show ?thesis by simp
qed

lemma docker_match:
  assumes "rest = [] \<or> \<not> is_digit (hd rest)"
  shows "first_match client_patterns (''docker/'' @ version_text a b c @ rest) =
    Some (hd client_patterns, [FormatNat a, FormatNat b, FormatNat c])"
proof -
  let ?t = "version_text a b c @ rest"
  obtain x t where t: "?t = x # t" "lower x \<noteq> CHR ''v''"
    using FormatNat_no_v [of a "''.'' @ FormatNat b @ ''.'' @ FormatNat c @ rest"] by (auto simp: version_text_def)
  have "HasPrefix (ToLower (''docker/'' @ ?t)) ''docker/''"
    by (simp add: ToLower_def HasPrefix_def lower_def less_eq_char_def)
  then have "match_here (hd client_patterns) (''docker/'' @ ?t) = match_parts 3 ?t"
    using t by (simp add: match_here_def client_patterns_def)
  then show ?thesis using match_version [OF assms] by (simp add: client_patterns_def)
qed

lemma wildcard_segments:
  assumes "HasSuffix pat ''.*''" "CHR ''*'' \<notin> set (ci_version info)"
  shows "MatchesVersion info pat \<longleftrightarrow>
    (let ps = Split (TrimSuffix pat ''.*'') CHR ''.'' in take (length ps) (Split (ci_version info) CHR ''.'') = ps)"
proof -
  have "ci_version info \<noteq> pat" using assms by (auto simp: HasSuffix_iff)
  then show ?thesis using assms(1) by (auto simp: MatchesVersion_def Let_def) (metis length_take min.absorb_iff2 nle_le)
qed

text \<open>The segments of the version that detection keeps: trailing zeros are dropped.\<close>

definition kept_segments :: "nat \<Rightarrow> nat \<Rightarrow> nat \<Rightarrow> nat list" where
  "kept_segments a b c = (if 0 < c then [a, b, c] else if 0 < b then [a, b] else [a])"

lemma docker_detected:
  assumes "rq_header r ''User-Agent'' = ''docker/'' @ version_text a b c @ rest" "rest = [] \<or> \<not> is_digit (hd rest)"
    and "int a \<le> max_int64" "int b \<le> max_int64" "int c \<le> max_int64"
  shows "\<exists>ci. DetectClient cn r = Some ci \<and> ci_name ci = ''docker'' \<and> ci_protocol ci = ''docker'' \<and> ci_major ci = int a \<and> ci_minor ci = int b \<and>
    ci_patch ci = int c \<and> ci_version ci = Join (map FormatNat (kept_segments a b c)) CHR ''.''"
proof -
  have hd: "cp_name (hd client_patterns) = ''docker''" "cp_protocol (hd client_patterns) = ''docker''" by code_simp+
  let ?g = "[FormatNat a, FormatNat b, FormatNat c]"
  have at: "(if (k::nat) < length ?g then Atoi_value (?g ! k) else 0) = int ([a, b, c] ! k)" if "k < 3" for k
  proof -
    from that have "k = 0 \<or> k = 1 \<or> k = 2" by auto
    then show ?thesis using assms(3-5) by (auto simp: Atoi_FormatNat)
  qed
  have "rq_header r ''User-Agent'' \<noteq> []" using assms(1) by simp
  then show ?thesis
    using assms(1) docker_match [OF assms(2), of a b c] at [of 0] at [of 1] at [of 2] hd Atoi_FormatNat [of 0]
    by (simp add: DetectClient_def parseUserAgent_def detectCapabilities_def kept_segments_def Let_def)
qed

lemma kept_version_no_star: "CHR ''*'' \<notin> set (Join (map FormatNat (kept_segments a b c)) CHR ''.'')"
  by (simp add: kept_segments_def)

lemma kept_version_split: "Split (Join (map FormatNat (kept_segments a b c)) CHR ''.'') CHR ''.'' = map FormatNat (kept_segments a b c)"
  by (rule Split_Join) (auto simp: kept_segments_def)

text \<open>
  A Docker client that names its version has it read back exactly, and its connection is closed after blob requests
  precisely for the versions 29.0 to 29.2, except 29.0.0: of that version only the major number is kept, which no
  pattern with a minor number matches.
\<close>

theorem docker_force_close_iff:
  assumes "rq_header r ''User-Agent'' = ''docker/'' @ version_text a b c @ rest" "rest = [] \<or> \<not> is_digit (hd rest)"
    and "int a \<le> max_int64" "int b \<le> max_int64" "int c \<le> max_int64"
  shows "\<exists>ci. DetectClient cn r = Some ci \<and> ci_name ci = ''docker'' \<and> (ci_major ci, ci_minor ci, ci_patch ci) = (int a, int b, int c) \<and>
    (''docker_29_force_close_blobs'' \<in> set (fst (determineWorkarounds C ci r)) \<longleftrightarrow>
       cc_docker29 C \<and> Contains (rq_path r) ''/blobs/'' \<and> a = 29 \<and> (b = 0 \<and> 0 < c \<or> b = 1 \<or> b = 2))"
proof -
  from docker_detected [OF assms] obtain ci where ci: "DetectClient cn r = Some ci" "ci_name ci = ''docker''" "ci_major ci = int a"
      "ci_minor ci = int b" "ci_patch ci = int c" "ci_version ci = Join (map FormatNat (kept_segments a b c)) CHR ''.''" by blast
  have star: "CHR ''*'' \<notin> set (ci_version ci)" using kept_version_no_star ci(6) by simp
  have seg: "''29'' = FormatNat 29" "''0'' = FormatNat 0" "''1'' = FormatNat 1" "''2'' = FormatNat 2" by code_simp+
  have m: "MatchesVersion ci (''29.'' @ FormatNat k @ ''.*'') \<longleftrightarrow> a = 29 \<and> 2 \<le> length (kept_segments a b c) \<and> b = k" for k
  proof -
    have tr: "TrimSuffix (''29.'' @ FormatNat k @ ''.*'') ''.*'' = ''29.'' @ FormatNat k"
      using TrimSuffix_append [of "''29.'' @ FormatNat k" "''.*''"] by simp
    have sp: "Split (''29.'' @ FormatNat k) CHR ''.'' = [FormatNat 29, FormatNat k]"
      using Split_append [of "CHR ''.''" "''29''" "FormatNat k"] Split_id [of "CHR ''.''" "FormatNat k"] seg by simp
    have "HasSuffix (''29.'' @ FormatNat k @ ''.*'') ''.*''" by (auto simp: HasSuffix_iff)
    from wildcard_segments [OF this star] show ?thesis
      unfolding tr sp ci(6) kept_version_split by (auto simp: kept_segments_def)
  qed
  have "MatchesVersion ci ''29.0.*'' \<longleftrightarrow> a = 29 \<and> 2 \<le> length (kept_segments a b c) \<and> b = 0"
      "MatchesVersion ci ''29.1.*'' \<longleftrightarrow> a = 29 \<and> 2 \<le> length (kept_segments a b c) \<and> b = 1"
      "MatchesVersion ci ''29.2.*'' \<longleftrightarrow> a = 29 \<and> 2 \<le> length (kept_segments a b c) \<and> b = 2"
    using m [of 0] m [of 1] m [of 2] unfolding seg(2-4) [symmetric] by simp_all
  then have "''docker_29_force_close_blobs'' \<in> set (fst (determineWorkarounds C ci r)) \<longleftrightarrow>
       cc_docker29 C \<and> Contains (rq_path r) ''/blobs/'' \<and> a = 29 \<and> (b = 0 \<and> 0 < c \<or> b = 1 \<or> b = 2)"
    using ci(2) by (auto simp: determineWorkarounds_def Let_def kept_segments_def)
  with ci show ?thesis by auto
qed

subsection \<open>What an answer keeps\<close>

lemma header_get_set [simp]:
  "header_get (header_set k v hs) j = (if ToLower j = ToLower k then v else header_get hs j)"
proof -
  have "find (\<lambda>(j', _). ToLower j' = ToLower j) (filter (\<lambda>(j', _). ToLower j' \<noteq> ToLower k) hs) =
      (if ToLower j = ToLower k then None else find (\<lambda>(j', _). ToLower j' = ToLower j) hs)"
    by (induction hs) auto
  moreover have "find P (xs @ [x]) = (case find P xs of None \<Rightarrow> if P x then Some x else None | Some y \<Rightarrow> Some y)" for P and x :: "string \<times> string" and xs
    by (induction xs) auto
  ultimately show ?thesis by (auto simp: header_get_def header_set_def split: option.splits prod.splits)
qed

lemma header_get_set_if [simp]:
  "header_get (set_if b k v hs) j = (if b \<and> ToLower j = ToLower k then v else header_get hs j)"
  by (simp add: set_if_def)

definition touched_headers :: "string list" where
  "touched_headers = [''docker-distribution-api-version'', ''content-length'', ''content-type'', ''access-control-allow-origin'',
     ''access-control-allow-methods'', ''access-control-allow-headers'', ''location'', ''connection'', ''docker-upload-min-chunk-size'']"

lemma touched_lower:
  "ToLower ''Docker-Distribution-API-Version'' = ''docker-distribution-api-version''" "ToLower ''Content-Length'' = ''content-length''"
  "ToLower ''Content-Type'' = ''content-type''" "ToLower ''Access-Control-Allow-Origin'' = ''access-control-allow-origin''"
  "ToLower ''Access-Control-Allow-Methods'' = ''access-control-allow-methods''"
  "ToLower ''Access-Control-Allow-Headers'' = ''access-control-allow-headers''" "ToLower ''Location'' = ''location''"
  "ToLower ''Connection'' = ''connection''" "ToLower ''Docker-Upload-Min-Chunk-Size'' = ''docker-upload-min-chunk-size''"
  by code_simp+

lemma other_headers_kept:
  "ToLower h \<notin> set touched_headers \<Longrightarrow> header_get (applyHeaderWorkarounds C ci was r hs) h = header_get hs h"
  by (simp add: applyHeaderWorkarounds_def touched_headers_def touched_lower Let_def)

lemma content_type_set:
  "header_get (applyHeaderWorkarounds C ci was r hs) ''Content-Type'' =
     (let ct = header_get hs ''Content-Type'' in if cc_fixups C \<and> ct \<noteq> [] then normalizeContentType ci ct else ct)"
  by (simp add: applyHeaderWorkarounds_def touched_lower Let_def)

lemma determined_request:
  "determineWorkarounds C ci r = (was, r') \<Longrightarrow> rq_method r' = rq_method r \<and> rq_path r' = rq_path r \<and> rq_body r' = rq_body r \<and>
     rq_query r' = rq_query r \<and> (\<forall>h. h \<noteq> ''Accept'' \<longrightarrow> rq_header r' h = rq_header r h)"
  by (auto simp: determineWorkarounds_def Let_def)

lemma workaround_guards:
  "determineWorkarounds C ci r = (was, r') \<Longrightarrow> ''containerd_content_length'' \<in> set was \<longleftrightarrow>
     cc_containerd C \<and> ci_name ci = ''containerd'' \<and> MatchesVersion ci ''1.6.*''"
  "determineWorkarounds C ci r = (was, r') \<Longrightarrow> cc_api_version C \<Longrightarrow> was \<noteq> []"
  by (auto simp: determineWorkarounds_def Let_def)

text \<open>(C30) 
  The compatibility layer passes a request on unchanged but for a missing \<^verbatim>\<open>Accept\<close>, and of the answer keeps the state
  it leaves, the status and every header field outside a fixed list, among them the digest of a manifest and the
  challenge of the middleware; the body is kept unless a containerd 1.6 client on HTTP/1 asked for something whose
  length the handler did not declare.
\<close>

theorem compat_transparent:
  assumes "compat_serve C cn next r s = (Respond resp', s')"
  shows "\<exists>r' resp. next r' s = (Respond resp, s') \<and> rq_method r' = rq_method r \<and> rq_path r' = rq_path r \<and> rq_body r' = rq_body r \<and>
    (\<forall>h. h \<noteq> ''Accept'' \<longrightarrow> rq_header r' h = rq_header r h) \<and> rs_status resp' = rs_status resp \<and>
    (\<forall>h. ToLower h \<notin> set touched_headers \<longrightarrow> header_get (rs_headers resp') h = header_get (rs_headers resp) h) \<and>
    (rs_body resp' = rs_body resp \<or>
     rs_body resp' = NoBody \<and> cc_containerd C \<and> cn_major cn = 1 \<and> header_get (rs_headers resp) ''Content-Length'' = [] \<and>
       (\<exists>ci. DetectClient cn r = Some ci \<and> ci_name ci = ''containerd'' \<and> MatchesVersion ci ''1.6.*''))"
proof (cases "cc_enabled C")
  case False
  with assms show ?thesis by (auto simp: compat_serve_def)
next
  case True
  with assms obtain ci where ci: "DetectClient cn r = Some ci" by (auto simp: compat_serve_def split: option.splits)
  obtain was r' where d: "determineWorkarounds C ci r = (was, r')" by force
  show ?thesis
  proof (cases "was = []")
    case True
    with assms ci d \<open>cc_enabled C\<close> determined_request [OF d] show ?thesis by (auto simp: compat_serve_def)
  next
    case False
    with assms ci d True obtain resp where n: "next r' s = (Respond resp, s')"
        "resp' = compat_response C cn (ci\<lparr>ci_workarounds := ci_workarounds ci @ was\<rparr>) was r' resp"
      by (auto simp: compat_serve_def split: outcome.splits prod.splits)
    with determined_request [OF d] workaround_guards(1) [OF d] ci other_headers_kept show ?thesis
      by (intro exI [of _ r'] exI [of _ resp]) (auto simp: compat_response_def Let_def)
  qed
qed

subsection \<open>Clients that are harmed\<close>

text \<open>
  A request with the user agent of the replication of Harbor ends in a panic before any handler runs: the pattern for
  it has no groups, and the first group is read all the same.
\<close>

theorem harbor_client_panics:
  assumes "cc_enabled C" "rq_header r ''User-Agent'' = ''harbor-registry-client''"
  shows "compat_serve C cn next r s = (Panic, s)"
proof -
  have "map_option snd (first_match client_patterns ''harbor-registry-client'') = Some []" by code_simp
  then have "parseUserAgent info ''harbor-registry-client'' = None" for info
    by (auto simp: parseUserAgent_def split: option.splits)
  with assms show ?thesis by (simp add: compat_serve_def DetectClient_def Let_def)
qed

lemma normalize_oci_manifest:
  "ReplaceAll ''application/vnd.oci.image.manifest.v1+json'' ''vnd.oci.image'' ''vnd.docker.distribution'' =
     ''application/vnd.docker.distribution.manifest.v1+json''" "Contains ''application/vnd.oci.image.manifest.v1+json'' ''vnd.oci.image''"
  by code_simp+

lemma normalize_workarounds [simp]: "normalizeContentType (ci\<lparr>ci_workarounds := x\<rparr>) ct = normalizeContentType ci ct"
  by (simp add: normalizeContentType_def)

lemma getRepoContext_path: "rq_path r = rq_path r' \<Longrightarrow> getRepoContext r = getRepoContext r'"
  by (simp add: getRepoContext_def)

text \<open>
  An OCI manifest does not survive the way to a Docker client: after a push of it answered 201, a client of the Docker
  protocol is given the pushed bytes with the media type of the first manifest schema, which is not the one pushed.
\<close>

theorem compat_mislabels_manifest:
  assumes push: "pg_inv (wd_db w)" "getRepoContext req = (repo, ns)"
      "putManifest (on_mem_pg bc R) req ref w = ((presp, effs), w')" "rs_status presp = 201"
      "rq_header req ''Content-Type'' = ''application/vnd.oci.image.manifest.v1+json''"
      "\<forall>m \<in> set (repo_manifests (parseRepoPath repo) (wd_db w')). mf_digest m = ref \<longrightarrow> mf_ref m = ref"
    and pull: "fst (getRepoContext greq) = repo" "rq_method greq = ''GET''" "rt_upstream R = None" "rt_vulnGate R = None"
    and client: "cc_enabled C" "cc_fixups C" "cc_api_version C" "DetectClient cn greq = Some ci" "ci_protocol ci = ''docker''"
  shows "\<exists>resp. compat_serve C cn (\<lambda>r d. map_prod Respond id (getManifest (on_mem_pg bc R) r ref d)) greq (wd_db w') = (Respond resp, wd_db w') \<and>
    rs_status resp = 200 \<and> header_get (rs_headers resp) ''Content-Type'' = ''application/vnd.docker.distribution.manifest.v1+json'' \<and>
    rs_body resp \<in> {NoBody, Data (concat (fst (body_of req)))}"
proof -
  obtain was r' where d: "determineWorkarounds C ci greq = (was, r')" by force
  have r': "fst (getRepoContext r') = repo" "rq_method r' = ''GET''"
    using determined_request [OF d] pull getRepoContext_path [of r' greq] by simp_all
  note g = pushed_is_served [OF push(1-4,6) r' pull(3,4)]
  have "header_get [(''Content-Type'', ct), (''Docker-Content-Digest'', x), (''Content-Length'', y)] ''Content-Type'' = ct" for ct x y
    by (simp add: header_get_def)
  then show ?thesis
    using client d g push(5) workaround_guards(2) [OF d client(3)] normalize_oci_manifest
    by (simp add: compat_serve_def compat_response_def content_type_set normalizeContentType_def Let_def)
qed

text \<open>
  A containerd 1.6 client on HTTP/1 never sees a list of tags: the handler declares no length, the workaround declares
  zero, and the server sends no body.
\<close>

theorem containerd_sees_no_tags:
  assumes "cc_enabled C" "cc_containerd C" "DetectClient cn r = Some ci" "ci_name ci = ''containerd''" "MatchesVersion ci ''1.6.*''" "cn_major cn = 1"
    and "rt_upstream R = None"
  shows "\<exists>resp. compat_serve C cn (\<lambda>r d. (Respond (getTags R r d), d)) r d = (Respond resp, d) \<and>
    header_get (rs_headers resp) ''Content-Length'' = ''0'' \<and> rs_body resp = NoBody"
proof -
  obtain was r' where d: "determineWorkarounds C ci r = (was, r')" by force
  then have wa: "''containerd_content_length'' \<in> set was" using workaround_guards(1) [OF d] assms(2,4,5) by simp
  have "header_get (rs_headers (getTags R r' d)) ''Content-Length'' = []"
    using assms(7) by (auto simp: getTags_def proxied_def next_link_def header_get_def ToLower_def lower_def Let_def split: sum.splits prod.splits)
  with wa assms(1,3,6) d show ?thesis
    by (auto simp: compat_serve_def compat_response_def applyHeaderWorkarounds_def touched_lower Let_def)
qed

subsection \<open>Concrete clients\<close>

definition as_client :: "string \<Rightarrow> request \<Rightarrow> request" where
  "as_client ua r = r\<lparr>rq_header := (rq_header r)(''User-Agent'' := ua)\<rparr>"

definition http1 :: conn where
  "http1 = \<lparr>cn_proto = ''HTTP/1.1'', cn_major = 1\<rparr>"

definition chunk_request :: "string \<Rightarrow> request" where
  "chunk_request ua = as_client ua (plain_request ''PATCH'' ''/v2/lib/app/blobs/uploads/1'' [])"

theorem docker_force_close_iff_witness:
  "\<exists>ci. DetectClient http1 (chunk_request ''docker/29.0.0 go/1.22'') = Some ci \<and> ci_major ci = 29 \<and>
     ''docker_29_force_close_blobs'' \<notin> set (fst (determineWorkarounds DefaultConfig ci (chunk_request ''docker/29.0.0 go/1.22'')))"
proof -
  have ua: "rq_header (chunk_request ''docker/29.0.0 go/1.22'') ''User-Agent'' = ''docker/'' @ version_text 29 0 0 @ '' go/1.22''" by code_simp
  have "'' go/1.22'' = [] \<or> \<not> is_digit (hd '' go/1.22'')" by code_simp
  from docker_force_close_iff [OF ua this, where cn = http1 and C = DefaultConfig] show ?thesis by auto
qed

definition plain_404 :: "request \<Rightarrow> nat \<Rightarrow> outcome \<times> nat" where
  "plain_404 r s = (Respond (http_error [] ''no'' 404), s)"

theorem compat_transparent_witness:
  "\<exists>resp. compat_serve DefaultConfig http1 plain_404 (chunk_request ''curl/8.1.2'') 7 = (Respond resp, 7) \<and> rs_status resp = 404"
proof -
  have "case compat_serve DefaultConfig http1 plain_404 (chunk_request ''curl/8.1.2'') 7 of (Respond _, s) \<Rightarrow> s = 7 | _ \<Rightarrow> False" by code_simp
  then obtain resp where r: "compat_serve DefaultConfig http1 plain_404 (chunk_request ''curl/8.1.2'') 7 = (Respond resp, 7)"
    by (cases "compat_serve DefaultConfig http1 plain_404 (chunk_request ''curl/8.1.2'') 7") (auto split: outcome.splits)
  from compat_transparent [OF r] have "rs_status resp = 404" by (auto simp: plain_404_def)
  with r show ?thesis by blast
qed

theorem harbor_client_panics_witness:
  "compat_serve DefaultConfig http1 plain_404 (chunk_request ''harbor-registry-client'') 7 = (Panic, 7)"
  by (rule harbor_client_panics) (simp_all add: DefaultConfig_def chunk_request_def as_client_def)

definition oci_push :: request where
  "oci_push = demo_push\<lparr>rq_header := (rq_header demo_push)(''Content-Type'' := ''application/vnd.oci.image.manifest.v1+json'')\<rparr>"

definition client_pull :: "string \<Rightarrow> request" where
  "client_pull ua = as_client ua demo_pull"

lemma detect_some: "(case DetectClient cn r of None \<Rightarrow> False | Some ci \<Rightarrow> P ci) \<Longrightarrow> \<exists>ci. DetectClient cn r = Some ci \<and> P ci"
  by (auto split: option.splits)

theorem compat_mislabels_manifest_witness:
  "\<exists>resp d. compat_serve DefaultConfig http1 (\<lambda>r d. map_prod Respond id (getManifest demo_router r ''v1'' d)) (client_pull ''docker/24.0.7'')
       (wd_db (snd (putManifest demo_router oci_push ''v1'' empty_world))) = (Respond resp, d) \<and>
     header_get (rs_headers resp) ''Content-Type'' = ''application/vnd.docker.distribution.manifest.v1+json''"
proof -
  let ?p = "putManifest demo_router oci_push ''v1'' empty_world"
  have ctx: "getRepoContext oci_push = (''lib/app'', ''lib'')" and st: "rs_status (fst (fst ?p)) = 201"
    and ct: "rq_header oci_push ''Content-Type'' = ''application/vnd.oci.image.manifest.v1+json''" by code_simp+
  have p: "putManifest (on_mem_pg plain_bcrypt demo_router) oci_push ''v1'' empty_world = ((fst (fst ?p), snd (fst ?p)), snd ?p)"
    unfolding demo_router_on by simp
  have u: "\<forall>m \<in> set (repo_manifests (parseRepoPath ''lib/app'') (wd_db (snd ?p))). mf_digest m = ''v1'' \<longrightarrow> mf_ref m = ''v1''" by code_simp
  have g: "fst (getRepoContext (client_pull ''docker/24.0.7'')) = ''lib/app''" "rq_method (client_pull ''docker/24.0.7'') = ''GET''"
    "rt_upstream demo_router = None" "rt_vulnGate demo_router = None" by code_simp+
  have "case DetectClient http1 (client_pull ''docker/24.0.7'') of None \<Rightarrow> False | Some ci \<Rightarrow> ci_protocol ci = ''docker''" by code_simp
  from detect_some [OF this] obtain ci where ci: "DetectClient http1 (client_pull ''docker/24.0.7'') = Some ci" "ci_protocol ci = ''docker''" by blast
  have c: "cc_enabled DefaultConfig" "cc_fixups DefaultConfig" "cc_api_version DefaultConfig" by code_simp+
  from compat_mislabels_manifest [OF empty_world_inv ctx p st ct u g c ci, unfolded demo_router_on] show ?thesis by blast
qed

theorem containerd_sees_no_tags_witness:
  "\<exists>resp. compat_serve DefaultConfig http1 (\<lambda>r d. (Respond (getTags demo_router r d), d))
      (as_client ''containerd/1.6.8'' (plain_request ''GET'' ''/v2/lib/app/tags/list'' [])) two_tags = (Respond resp, two_tags) \<and> rs_body resp = NoBody"
proof -
  let ?r = "as_client ''containerd/1.6.8'' (plain_request ''GET'' ''/v2/lib/app/tags/list'' [])"
  have "case DetectClient http1 ?r of None \<Rightarrow> False | Some ci \<Rightarrow> ci_name ci = ''containerd'' \<and> MatchesVersion ci ''1.6.*''" by code_simp
  from detect_some [OF this] obtain ci where ci: "DetectClient http1 ?r = Some ci" "ci_name ci = ''containerd''" "MatchesVersion ci ''1.6.*''" by blast
  have c: "cc_enabled DefaultConfig" "cc_containerd DefaultConfig" "cn_major http1 = 1" "rt_upstream demo_router = None" by code_simp+
  from containerd_sees_no_tags [OF c(1,2) ci c(3,4)] show ?thesis by blast
qed

end
