(* ===== verification/Sso.thy ===== *)
theory Sso
  imports Management
begin

text \<open>
  The logins of the web interface, \<^verbatim>\<open>internal/api/auth\<close>: with a password (\<^verbatim>\<open>oauth.go\<close>) and through an OpenID provider
  (\<^verbatim>\<open>oidc.go\<close>). The JWT library, the OAuth client, the verifier of ID tokens, the JSON parser, the random source and the format
  of times are parameters; the table of logins under way, the assignment of claims, the choice of the account and of its scopes and the
  redirects are modelled.
\<close>

subsection \<open>Password login: oauth.go\<close>

text \<open>\<open>oa_decode\<close> is the document the decoder reads from a body, \<open>oa_time\<close> the JSON form of a time.\<close>

record ('k, 'd) oauth_env =
  oa_store :: "'d store"
  oa_ts :: "'k token_service"
  oa_jwt :: "'k jwt_lib"
  oa_decode :: "stream \<Rightarrow> json res"
  oa_time :: "int \<Rightarrow> string"
  oa_now :: int

definition extractBearerToken :: "request \<Rightarrow> string" where
  "extractBearerToken req =
     (let h = rq_header req ''Authorization'' in if length h > 7 \<and> take 7 h = ''Bearer '' then drop 7 h else [])"

text \<open>The text after the prefix, up to the first colon or slash; empty where that comes first.\<close>

definition extractNamespaceFromScope :: "string \<Rightarrow> string" where
  "extractNamespaceFromScope scope =
     (if length scope < 11 \<or> take 11 scope \<noteq> ''repository:'' then []
      else takeWhile (\<lambda>c. c \<noteq> CHR '':'' \<and> c \<noteq> CHR ''/'') (drop 11 scope))"

record user_info =
  ui_username :: string
  ui_scopes :: "string list"
  ui_admin :: bool
  ui_namespaces :: "string list"

definition user_info_of :: "user \<Rightarrow> user_info" where
  "user_info_of u =
     (let isAdmin = list_ex (\<lambda>s. s = ''*'') (us_scopes u)
      in \<lparr>ui_username = us_name u, ui_scopes = us_scopes u, ui_admin = isAdmin,
          ui_namespaces = (if isAdmin then [] else map extractNamespaceFromScope (us_scopes u))\<rparr>)"

definition doc_user_info :: "user_info \<Rightarrow> json" where
  "doc_user_info i = JObj [(''username'', JStr (ui_username i)), (''scopes'', JArr (map JStr (ui_scopes i))),
     (''is_admin'', JBool (ui_admin i)), (''namespaces'', JArr (map JStr (ui_namespaces i)))]"

definition oauth_error :: "string \<Rightarrow> string \<Rightarrow> nat \<Rightarrow> response" where
  "oauth_error e description code =
     http_error [] (''{\"error\":\"'' @ e @ ''\",\"error_description\":\"'' @ description @ ''\"}'') code"

definition login_request :: "json \<Rightarrow> (string \<times> string) option" where
  "login_request doc =
     Option.bind (members doc) (\<lambda>kvs.
       case (decode_field set_string ''username'' kvs [], decode_field set_string ''password'' kvs []) of
         (Some u, Some p) \<Rightarrow> Some (u, p) | _ \<Rightarrow> None)"

definition handleLogin :: "('k, 'd) oauth_env \<Rightarrow> request \<Rightarrow> 'd \<Rightarrow> response" where
  "handleLogin E req s =
     (case (case oa_decode E (body_of req) of Inl _ \<Rightarrow> None | Inr doc \<Rightarrow> login_request doc) of
        None \<Rightarrow> oauth_error ''invalid_request'' ''Invalid JSON'' 400
      | Some (username, password) \<Rightarrow>
          (if username = [] \<or> password = [] then oauth_error ''invalid_request'' ''Username and password required'' 400
           else (case st_AuthenticateUser (oa_store E) username password s of
                   Inl _ \<Rightarrow> oauth_error ''invalid_grant'' ''Invalid credentials'' 401
                 | Inr user \<Rightarrow>
                     (case GenerateToken (oa_jwt E) (oa_ts E) (oa_now E) (us_name user) (ScopesToAccess (us_scopes user)) of
                        Inl _ \<Rightarrow> oauth_error ''server_error'' ''Failed to generate token'' 500
                      | Inr token \<Rightarrow>
                          reply 200 json_type (JsonDoc (JObj [(''token'', JStr token),
                            (''expires_at'', JStr (oa_time E (oa_now E + ts_expiration (oa_ts E)))),
                            (''user'', doc_user_info (user_info_of user))]))))))"

definition handleMe :: "('k, 'd) oauth_env \<Rightarrow> request \<Rightarrow> 'd \<Rightarrow> response" where
  "handleMe E req s =
     (let tokenString = extractBearerToken req in
      if tokenString = [] then oauth_error ''unauthorized'' ''Missing or invalid token'' 401
      else (case ParseToken (oa_jwt E) (oa_ts E) (oa_now E) tokenString of
              Inl _ \<Rightarrow> oauth_error ''unauthorized'' ''Invalid token'' 401
            | Inr c \<Rightarrow>
                (case st_GetUserByUsername (oa_store E) (cl_subject c) s of
                   Inl _ \<Rightarrow> oauth_error ''not_found'' ''User not found'' 404
                 | Inr user \<Rightarrow> reply 200 json_type (JsonDoc (doc_user_info (user_info_of user))))))"

definition handleLogout :: response where
  "handleLogout = reply 200 json_type (JsonDoc (JObj [(''message'', JStr ''Logged out successfully'')]))"

subsection \<open>Redirects and random strings\<close>

text \<open>
  \<^verbatim>\<open>http.Redirect\<close> of a GET to an absolute address, or to one whose path is clean: the address with its non-ASCII bytes
  escaped, and a short page.
\<close>

definition hexEscapeNonASCII :: "string \<Rightarrow> string" where
  "hexEscapeNonASCII s = concat (map (\<lambda>c. if (of_char c :: nat) < 128 then [c] else CHR ''%'' # hex [c]) s)"

definition htmlEscape :: "string \<Rightarrow> string" where
  "htmlEscape s = concat (map (\<lambda>c. if c = CHR ''&'' then ''&amp;'' else if c = CHR ''<'' then ''&lt;'' else if c = CHR ''>'' then ''&gt;''
     else if c = CHR 0x22 then ''&#34;'' else if c = CHR 0x27 then ''&#39;'' else [c]) s)"

definition Redirect :: "string \<Rightarrow> response" where
  "Redirect url = reply 302 [(''Location'', hexEscapeNonASCII url), (''Content-Type'', ''text/html; charset=utf-8'')]
     (Text (''<a href=\"'' @ htmlEscape url @ ''\">Found</a>.'' @ [CHR 0x0A, CHR 0x0A]))"

text \<open>\<^verbatim>\<open>base64.URLEncoding\<close> of the bytes, cut to their number.\<close>

definition b64_url :: "bytes \<Rightarrow> string" where
  "b64_url bs = map (\<lambda>c. if c = CHR ''+'' then CHR ''-'' else if c = CHR ''/'' then CHR ''_'' else c) (b64_encode bs)"

definition generateRandomString :: "bytes res \<Rightarrow> nat \<Rightarrow> string res" where
  "generateRandomString rnd n = (case rnd of Inl e \<Rightarrow> Inl e | Inr bs \<Rightarrow> Inr (take n (b64_url bs)))"

subsection \<open>Single sign-on: oidc.go\<close>

text \<open>
  \<open>oi_authURL\<close> is \<^verbatim>\<open>AuthCodeURL\<close> with the nonce as a parameter, \<open>oi_exchange\<close> the token the provider gives for a code, of which
  the handler takes the member \<^verbatim>\<open>id_token\<close> if it is a string, \<open>oi_verify\<close> the payload of an ID token whose signature,
  issuer, audience and expiry are right; \<open>oi_random\<close> the two draws of 32 random bytes.
\<close>

record ('k, 'd) oidc_env =
  oi_store :: "'d store"
  oi_ts :: "'k token_service"
  oi_jwt :: "'k jwt_lib"
  oi_authURL :: "string \<Rightarrow> string \<Rightarrow> string"
  oi_exchange :: "string \<Rightarrow> string option res"
  oi_verify :: "string \<Rightarrow> json res"
  oi_type_err :: err
  oi_random :: "bytes res \<times> bytes res"
  oi_time :: "int \<Rightarrow> string"
  oi_now :: int

record state_entry =
  se_expiry :: int
  se_nonce :: string

type_synonym states = "string \<rightharpoonup> state_entry"

record id_claims =
  ic_email :: string
  ic_email_verified :: bool
  ic_name :: string
  ic_preferred :: string
  ic_groups :: "string list"
  ic_nonce :: string

definition id_claims_of :: "json \<Rightarrow> id_claims option" where
  "id_claims_of doc =
     Option.bind (members doc) (\<lambda>kvs.
       case (decode_field set_string ''email'' kvs [], decode_field set_bool ''email_verified'' kvs False, decode_field set_string ''name'' kvs [],
             decode_field set_string ''preferred_username'' kvs [], decode_field set_strings ''groups'' kvs [], decode_field set_string ''nonce'' kvs []) of
         (Some email, Some verified, Some name, Some preferred, Some gs, Some nonce) \<Rightarrow>
           Some \<lparr>ic_email = email, ic_email_verified = verified, ic_name = name, ic_preferred = preferred, ic_groups = gs, ic_nonce = nonce\<rparr>
       | _ \<Rightarrow> None)"

definition cleanupExpiredStatesLocked :: "int \<Rightarrow> states \<Rightarrow> states" where
  "cleanupExpiredStatesLocked t st = (\<lambda>k. case st k of None \<Rightarrow> None | Some e \<Rightarrow> if t > se_expiry e then None else Some e)"

definition handleSSOLogin :: "('k, 'd) oidc_env \<Rightarrow> states \<Rightarrow> response \<times> states" where
  "handleSSOLogin E st =
     (case generateRandomString (fst (oi_random E)) 32 of
        Inl _ \<Rightarrow> (http_error [] ''Failed to generate state'' 500, st)
      | Inr state \<Rightarrow>
          (case generateRandomString (snd (oi_random E)) 32 of
             Inl _ \<Rightarrow> (http_error [] ''Failed to generate nonce'' 500, st)
           | Inr nonce \<Rightarrow>
               (Redirect (oi_authURL E state nonce),
                cleanupExpiredStatesLocked (oi_now E) (st(state \<mapsto> \<lparr>se_expiry = oi_now E + 300, se_nonce = nonce\<rparr>)))))"

text \<open>The scopes for the groups: the loop ends at a group of administrators, whose scope replaces the ones collected.\<close>

fun group_scopes :: "string list \<Rightarrow> string list \<Rightarrow> string list \<times> bool" where
  "group_scopes acc [] = (acc, False)"
| "group_scopes acc (g # gs) =
     (if g = ''admins'' \<or> g = ''registry-admins'' then ([''*''], True)
      else group_scopes (acc @ [''repository:'' @ g @ ''/*:pull,push'']) gs)"

definition sso_username :: "id_claims \<Rightarrow> string" where
  "sso_username c = (if ic_email c = [] then ic_preferred c else ic_email c)"

definition sso_scopes :: "string \<Rightarrow> id_claims \<Rightarrow> string list" where
  "sso_scopes username c =
     (let scopes = fst (group_scopes [] (ic_groups c)) in
      if scopes = [] then [''repository:'' @ username @ ''/*:pull,push''] else scopes)"

text \<open>The critical section of the callback, and its rest: what follows the claims, and what comes before them.\<close>

definition take_state :: "string \<Rightarrow> states \<Rightarrow> state_entry option \<times> states" where
  "take_state state st = (st state, if st state = None then st else st(state := None))"

definition get_or_create :: "'d store \<Rightarrow> string \<Rightarrow> string list \<Rightarrow> 'd \<Rightarrow> (response + user) \<times> 'd" where
  "get_or_create S username scopes s =
     (case st_GetUserByUsername S username s of
        Inr user \<Rightarrow> (Inr user, s)
      | Inl e \<Rightarrow>
          (if e = DbNotFound then
             (case st_CreateUser S username [] scopes s of
                (Inl e', s') \<Rightarrow> (Inl (http_error [] (''Failed to create user: '' @ err_msg e') 500), s')
              | (Inr _, s') \<Rightarrow> (Inr \<lparr>us_id = 0, us_name = username, us_hash = [], us_scopes = scopes\<rparr>, s'))
           else (Inl (http_error [] (''Database error: '' @ err_msg e) 500), s)))"

definition callback_url :: "string \<Rightarrow> string \<Rightarrow> string \<Rightarrow> bool \<Rightarrow> string" where
  "callback_url token expires username isAdmin =
     ''/#/auth/callback?token='' @ token @ ''&expires_at='' @ expires @ ''&username='' @ username @ ''&is_admin='' @
     (if isAdmin then ''true'' else ''false'')"

definition sso_answer :: "('k, 'd) oidc_env \<Rightarrow> id_claims \<Rightarrow> string \<Rightarrow> access_entry list \<Rightarrow> response" where
  "sso_answer E c subject access =
     (case GenerateToken (oi_jwt E) (oi_ts E) (oi_now E) subject access of
        Inl _ \<Rightarrow> http_error [] ''Failed to generate token'' 500
      | Inr token \<Rightarrow>
          Redirect (callback_url token (oi_time E (oi_now E + ts_expiration (oi_ts E))) (sso_username c) (snd (group_scopes [] (ic_groups c)))))"

definition sign_in :: "('k, 'd) oidc_env \<Rightarrow> id_claims \<Rightarrow> 'd \<Rightarrow> response \<times> 'd" where
  "sign_in E c s =
     (let username = sso_username c in
      if username = [] then (http_error [] ''No username in ID token claims'' 400, s)
      else (case get_or_create (oi_store E) username (sso_scopes username c) s of
              (Inl resp, s') \<Rightarrow> (resp, s')
            | (Inr user, s') \<Rightarrow> (sso_answer E c (us_name user) (ScopesToAccess (us_scopes user)), s')))"

definition id_token_claims :: "('k, 'd) oidc_env \<Rightarrow> request \<Rightarrow> response + id_claims" where
  "id_token_claims E req =
     (let code = rq_query req ''code'' in
      if code = [] then Inl (http_error [] ''Missing code parameter'' 400)
      else (case oi_exchange E code of
              Inl e \<Rightarrow> Inl (http_error [] (''Failed to exchange token: '' @ err_msg e) 500)
            | Inr None \<Rightarrow> Inl (http_error [] ''No id_token in token response'' 500)
            | Inr (Some raw) \<Rightarrow>
                (case oi_verify E raw of
                   Inl e \<Rightarrow> Inl (http_error [] (''Failed to verify ID token: '' @ err_msg e) 500)
                 | Inr payload \<Rightarrow>
                     (case id_claims_of payload of
                        None \<Rightarrow> Inl (http_error [] (''Failed to parse claims: '' @ err_msg (oi_type_err E)) 500)
                      | Some c \<Rightarrow> Inr c))))"

definition handleCallback :: "('k, 'd) oidc_env \<Rightarrow> request \<Rightarrow> states \<times> 'd \<Rightarrow> response \<times> states \<times> 'd" where
  "handleCallback E req = (\<lambda>(st, s).
     let state = rq_query req ''state'' in
     if state = [] then (http_error [] ''Missing state parameter'' 400, st, s)
     else (case take_state state st of
             (None, st') \<Rightarrow> (http_error [] ''Invalid or expired state'' 400, st', s)
           | (Some entry, st') \<Rightarrow>
               (if oi_now E > se_expiry entry then (http_error [] ''Invalid or expired state'' 400, st', s)
                else (case id_token_claims E req of
                        Inl resp \<Rightarrow> (resp, st', s)
                      | Inr c \<Rightarrow>
                          (if ic_nonce c \<noteq> se_nonce entry then (http_error [] ''nonce mismatch'' 400, st', s)
                           else (case sign_in E c s of (resp, s') \<Rightarrow> (resp, st', s')))))))"

end
