(* ===== verification/Tenancy.thy ===== *)
theory Tenancy
  imports Sso Compat
begin

text \<open>
  Package \<^verbatim>\<open>internal/tenancy\<close>: the table of tenants and its operations (\<^verbatim>\<open>tenant.go\<close>), the creation of a schema
  (\<^verbatim>\<open>provision.go\<close>), the middleware that finds the tenant of a request (\<^verbatim>\<open>middleware.go\<close>), the metering of traffic
  (\<^verbatim>\<open>metering.go\<close>) and the OpenID providers of a tenant (\<^verbatim>\<open>oidc.go\<close>). The tables are those of migration 015. What PostgreSQL
  answers to a statement of the schema script is a parameter, as are the HTTP client, the JSON parser and the random source.
\<close>

subsection \<open>Tables\<close>

text \<open>The fields of an event that the middleware leaves empty are left out. A nullable column is an option; lengths of columns are not modelled. \<open>td_now\<close> is the database clock.\<close>

record tenant_row =
  tn_tenant :: int
  tn_slug :: string
  tn_name :: string
  tn_schema :: string
  tn_status :: string
  tn_trial :: "int option"
  tn_contact_email :: string
  tn_contact_name :: "string option"
  tn_billing_email :: "string option"
  tn_custom_domain :: "string option"
  tn_domain_verified :: bool
  tn_created :: int
  tn_updated :: int
  tn_created_by :: "int option"

record oidc_row =
  or_id :: int
  or_tenant :: int
  or_provider :: string
  or_type :: string
  or_issuer :: string
  or_client :: string
  or_secret :: string
  or_auth :: string
  or_token :: string
  or_userinfo :: string
  or_jwks :: string
  or_scopes :: string
  or_user_claim :: string
  or_group_claim :: string
  or_domains :: string
  or_enabled :: bool
  or_primary :: bool
  or_created :: int
  or_updated :: int
  or_by :: "int option"

record bandwidth_event =
  be_tenant :: int
  be_direction :: string
  be_bytes :: int
  be_ip :: string
  be_agent :: string

record tenancy_db =
  td_tenants :: "tenant_row list"
  td_oidc :: "oidc_row list"
  td_schemas :: "string list"
  td_events :: "bandwidth_event list"
  td_next_tenant :: int
  td_next_oidc :: int
  td_now :: int

text \<open>A parameter compared with an \<^verbatim>\<open>INTEGER\<close> column has to fit into 32 bits.\<close>

definition int4 :: "int \<Rightarrow> bool" where
  "int4 n \<longleftrightarrow> - 2147483648 \<le> n \<and> n < 2147483648"

definition out_of_range :: err where
  "out_of_range = ErrText ''pq: value out of range for type integer''"

subsection \<open>Tenants: tenant.go\<close>

record tenant =
  te_id :: int
  te_slug :: string
  te_name :: string
  te_schema :: string
  te_status :: string
  te_trial :: "int option"
  te_contact_email :: string
  te_contact_name :: string
  te_billing_email :: string
  te_custom_domain :: string
  te_domain_verified :: bool
  te_created :: int
  te_updated :: int
  te_created_by :: "int option"

text \<open>\<^verbatim>\<open>Scan\<close> into the fields of a \<^verbatim>\<open>Tenant\<close>: a \<^verbatim>\<open>NULL\<close> cannot be stored in a string.\<close>

definition scan_null :: err where
  "scan_null = ErrText ''sql: Scan error: converting NULL to string is unsupported''"

definition scan_tenant :: "tenant_row \<Rightarrow> tenant res" where
  "scan_tenant r =
     (case (tn_contact_name r, tn_billing_email r, tn_custom_domain r) of
        (Some cn, Some b, Some d) \<Rightarrow>
          Inr \<lparr>te_id = tn_tenant r, te_slug = tn_slug r, te_name = tn_name r, te_schema = tn_schema r, te_status = tn_status r,
               te_trial = tn_trial r, te_contact_email = tn_contact_email r, te_contact_name = cn, te_billing_email = b,
               te_custom_domain = d, te_domain_verified = tn_domain_verified r, te_created = tn_created r,
               te_updated = tn_updated r, te_created_by = tn_created_by r\<rparr>
      | _ \<Rightarrow> Inl scan_null)"

definition query_tenant :: "(tenant_row \<Rightarrow> bool) \<Rightarrow> err \<Rightarrow> string \<Rightarrow> tenancy_db \<Rightarrow> tenant res" where
  "query_tenant p missing failure s =
     (case find p (td_tenants s) of
        None \<Rightarrow> Inl missing
      | Some r \<Rightarrow> (case scan_tenant r of Inl e \<Rightarrow> Inl (WrapErr failure e) | Inr t \<Rightarrow> Inr t))"

definition GetTenantBySlug :: "string \<Rightarrow> tenancy_db \<Rightarrow> tenant res" where
  "GetTenantBySlug slug =
     query_tenant (\<lambda>r. tn_slug r = slug \<and> tn_status r \<noteq> ''deleted'') (ErrText (''tenant not found: '' @ slug)) ''failed to get tenant''"

definition GetTenantByCustomDomain :: "string \<Rightarrow> tenancy_db \<Rightarrow> tenant res" where
  "GetTenantByCustomDomain domain =
     query_tenant (\<lambda>r. tn_custom_domain r = Some domain \<and> tn_domain_verified r \<and> tn_status r \<noteq> ''deleted'')
       (ErrText (''tenant not found for domain: '' @ domain)) ''failed to get tenant by domain''"

definition GetTenantByID :: "int \<Rightarrow> tenancy_db \<Rightarrow> tenant res" where
  "GetTenantByID i s =
     (if int4 i then query_tenant (\<lambda>r. tn_tenant r = i) (ErrText (''tenant not found: '' @ FormatInt i)) ''failed to get tenant'' s
      else Inl (WrapErr ''failed to get tenant'' out_of_range))"

fun scan_tenants :: "tenant_row list \<Rightarrow> tenant list res" where
  "scan_tenants [] = Inr []"
| "scan_tenants (r # rs) =
     (case scan_tenant r of
        Inl e \<Rightarrow> Inl (WrapErr ''failed to scan tenant'' e)
      | Inr t \<Rightarrow> (case scan_tenants rs of Inl e \<Rightarrow> Inl e | Inr ts \<Rightarrow> Inr (t # ts)))"

text \<open>Newest first; rows of the same time in the order of the table.\<close>

definition ListTenants :: "int \<Rightarrow> int \<Rightarrow> tenancy_db \<Rightarrow> tenant list res" where
  "ListTenants limit offset s =
     (if limit < 0 \<or> offset < 0 then Inl (WrapErr ''failed to list tenants'' (ErrText ''pq: must not be negative''))
      else scan_tenants (take (nat limit) (drop (nat offset)
             (sort_key (\<lambda>r. - tn_created r) (filter (\<lambda>r. tn_status r \<noteq> ''deleted'') (td_tenants s))))))"

definition is_lower :: "char \<Rightarrow> bool" where
  "is_lower c \<longleftrightarrow> CHR ''a'' \<le> c \<and> c \<le> CHR ''z''"

text \<open>The expression \<^verbatim>\<open>^[a-z0-9]([a-z0-9-]{0,61}[a-z0-9])?$\<close>.\<close>

definition isValidSlug :: "string \<Rightarrow> bool" where
  "isValidSlug slug \<longleftrightarrow>
     slug \<noteq> [] \<and> length slug \<le> 63 \<and> list_all (\<lambda>c. is_lower c \<or> is_digit c \<or> c = CHR ''-'') slug \<and> hd slug \<noteq> CHR ''-'' \<and> last slug \<noteq> CHR ''-''"

text \<open>The expression \<^verbatim>\<open>^[a-z_][a-z0-9_]{0,62}$\<close>.\<close>

definition valid_schema :: "string \<Rightarrow> bool" where
  "valid_schema n \<longleftrightarrow>
     n \<noteq> [] \<and> length n \<le> 63 \<and> list_all (\<lambda>c. is_lower c \<or> is_digit c \<or> c = CHR ''_'') n \<and> \<not> is_digit (hd n)"

subsection \<open>Provisioning: provision.go\<close>

record splitter =
  sp_done :: "string list"
  sp_current :: string
  sp_quote :: "char option"

definition split_char :: "char \<Rightarrow> splitter \<Rightarrow> splitter" where
  "split_char c s =
     (let q = (if c = CHR 0x27 \<or> c = CHR 0x22 then
                 (case sp_quote s of None \<Rightarrow> Some c | Some d \<Rightarrow> if c = d then None else Some d)
               else sp_quote s)
      in if c = CHR '';'' \<and> q = None
         then \<lparr>sp_done = sp_done s @ [sp_current s @ [c]], sp_current = [], sp_quote = q\<rparr>
         else \<lparr>sp_done = sp_done s, sp_current = sp_current s @ [c], sp_quote = q\<rparr>)"

definition split_line :: "string \<Rightarrow> splitter \<Rightarrow> splitter" where
  "split_line line s =
     (if HasPrefix (TrimSpace line) ''--'' then s
      else (let s1 = fold split_char line s in s1\<lparr>sp_current := sp_current s1 @ [CHR 0x0A]\<rparr>))"

definition splitSQLStatements :: "string \<Rightarrow> string list" where
  "splitSQLStatements sql =
     (let s = fold split_line (Split sql CHR 0x0A) \<lparr>sp_done = [], sp_current = [], sp_quote = None\<rparr>;
          stmt = TrimSpace (sp_current s)
      in sp_done s @ (if stmt = [] then [] else [stmt]))"

text \<open>\<^verbatim>\<open>pq.QuoteIdentifier\<close> of a name without a zero byte.\<close>

definition QuoteIdentifier :: "string \<Rightarrow> string" where
  "QuoteIdentifier name = [CHR 0x22] @ concat (map (\<lambda>c. if c = CHR 0x22 then [c, c] else [c]) name) @ [CHR 0x22]"

text \<open>\<open>X\<close> is what the server answers to a statement of the script, \<open>ddl\<close> the script.\<close>

fun exec_all :: "(string \<Rightarrow> unit res) \<Rightarrow> nat \<Rightarrow> string list \<Rightarrow> unit res" where
  "exec_all X i [] = Inr ()"
| "exec_all X i (stmt0 # rest) =
     (let stmt = TrimSpace stmt0 in
      if stmt = [] \<or> HasPrefix stmt ''--'' then exec_all X (Suc i) rest
      else (case X stmt of
              Inl e \<Rightarrow> Inl (WrapErr (''failed to execute statement '' @ FormatNat i @ '' in tenant schema'') e)
            | Inr _ \<Rightarrow> exec_all X (Suc i) rest))"

definition provisionTenantSchema :: "(string \<Rightarrow> unit res) \<Rightarrow> string \<Rightarrow> string \<Rightarrow> unit res" where
  "provisionTenantSchema X ddl schemaName =
     (case X (''CREATE SCHEMA IF NOT EXISTS '' @ QuoteIdentifier schemaName) of
        Inl e \<Rightarrow> Inl (WrapErr (''failed to create schema '' @ schemaName) e)
      | Inr _ \<Rightarrow>
          (case X (''SET search_path TO '' @ QuoteIdentifier schemaName @ '', public'') of
             Inl e \<Rightarrow> Inl (WrapErr ''failed to set search path'' e)
           | Inr _ \<Rightarrow>
               (case exec_all X 0 (splitSQLStatements ddl) of
                  Inl e \<Rightarrow> Inl e
                | Inr _ \<Rightarrow>
                    (case X ''SET search_path TO public'' of
                       Inl e \<Rightarrow> Inl (WrapErr ''failed to reset search path'' e)
                     | Inr _ \<Rightarrow> Inr ()))))"

text \<open>The insertion and the script are one transaction: an error leaves the tables as they were; the number drawn from the sequence is lost.\<close>

definition CreateTenant ::
  "(string \<Rightarrow> unit res) \<Rightarrow> string \<Rightarrow> string \<Rightarrow> string \<Rightarrow> string \<Rightarrow> int option \<Rightarrow> tenancy_db \<Rightarrow> tenant res \<times> tenancy_db" where
  "CreateTenant X ddl slug name email creator s =
     (let schemaName = ''tenant_'' @ slug in
      if \<not> isValidSlug slug then
        (Inl (ErrText ''invalid slug format: must be lowercase alphanumeric with hyphens, 1-63 characters''), s)
      else if \<not> valid_schema schemaName then (Inl (ErrText (''invalid schema name '' @ schemaName @ '' derived from slug'')), s)
      else if list_ex (\<lambda>r. tn_slug r = slug \<or> tn_schema r = schemaName) (td_tenants s) then
        (Inl (WrapErr ''failed to create tenant record'' unique_violation), s\<lparr>td_next_tenant := td_next_tenant s + 1\<rparr>)
      else (case provisionTenantSchema X ddl schemaName of
              Inl e \<Rightarrow> (Inl (WrapErr ''failed to provision tenant schema'' e), s\<lparr>td_next_tenant := td_next_tenant s + 1\<rparr>)
            | Inr _ \<Rightarrow>
                (Inr \<lparr>te_id = td_next_tenant s, te_slug = slug, te_name = name, te_schema = schemaName, te_status = ''active'',
                      te_trial = None, te_contact_email = email, te_contact_name = [], te_billing_email = [], te_custom_domain = [],
                      te_domain_verified = False, te_created = td_now s, te_updated = td_now s, te_created_by = creator\<rparr>,
                 s\<lparr>td_tenants := td_tenants s @ [\<lparr>tn_tenant = td_next_tenant s, tn_slug = slug, tn_name = name, tn_schema = schemaName,
                       tn_status = ''active'', tn_trial = None, tn_contact_email = email, tn_contact_name = None,
                       tn_billing_email = None, tn_custom_domain = None, tn_domain_verified = False, tn_created = td_now s,
                       tn_updated = td_now s, tn_created_by = creator\<rparr>],
                   td_schemas := (if List.member (td_schemas s) schemaName then td_schemas s else td_schemas s @ [schemaName]),
                   td_next_tenant := td_next_tenant s + 1\<rparr>)))"

definition update_tenants :: "int \<Rightarrow> (tenant_row \<Rightarrow> tenant_row) \<Rightarrow> tenancy_db \<Rightarrow> tenancy_db" where
  "update_tenants i f s =
     s\<lparr>td_tenants := map (\<lambda>r. if tn_tenant r = i then (f r)\<lparr>tn_updated := td_now s\<rparr> else r) (td_tenants s)\<rparr>"

text \<open>\<open>drop\<close> is the server's answer to \<^verbatim>\<open>DROP SCHEMA IF EXISTS ... CASCADE\<close>.\<close>

definition DeleteTenant :: "(string \<Rightarrow> unit res) \<Rightarrow> int \<Rightarrow> bool \<Rightarrow> tenancy_db \<Rightarrow> unit res \<times> tenancy_db" where
  "DeleteTenant X i dropSchema s =
     (if \<not> int4 i then (Inl (WrapErr ''failed to get tenant schema'' out_of_range), s)
      else (case find (\<lambda>r. tn_tenant r = i) (td_tenants s) of
              None \<Rightarrow> (Inl (WrapErr ''failed to get tenant schema'' (ErrText ''sql: no rows in result set'')), s)
            | Some r \<Rightarrow>
                (let s1 = update_tenants i (\<lambda>r. r\<lparr>tn_status := ''deleted''\<rparr>) s in
                 if dropSchema \<and> tn_schema r \<noteq> ''public'' then
                   (case X (''DROP SCHEMA IF EXISTS '' @ QuoteIdentifier (tn_schema r) @ '' CASCADE'') of
                      Inl e \<Rightarrow> (Inl (WrapErr ''failed to drop tenant schema'' e), s)
                    | Inr _ \<Rightarrow> (Inr (), s1\<lparr>td_schemas := removeAll (tn_schema r) (td_schemas s)\<rparr>))
                 else (Inr (), s1))))"

text \<open>\<^verbatim>\<open>COALESCE(NULLIF($n, ''), column)\<close>.\<close>

definition coalesce :: "string \<Rightarrow> 'a \<Rightarrow> (string \<Rightarrow> 'a) \<Rightarrow> 'a" where
  "coalesce v old f = (if v = [] then old else f v)"

record tenant_update =
  tu_name :: string
  tu_contact_email :: string
  tu_contact_name :: string
  tu_billing_email :: string

definition UpdateTenant :: "int \<Rightarrow> tenant_update \<Rightarrow> tenancy_db \<Rightarrow> tenant res \<times> tenancy_db" where
  "UpdateTenant i u s =
     (if \<not> int4 i then (Inl (WrapErr ''failed to update tenant'' out_of_range), s)
      else (let s1 = update_tenants i (\<lambda>r. r\<lparr>tn_name := coalesce (tu_name u) (tn_name r) id,
                       tn_contact_email := coalesce (tu_contact_email u) (tn_contact_email r) id,
                       tn_contact_name := coalesce (tu_contact_name u) (tn_contact_name r) Some,
                       tn_billing_email := coalesce (tu_billing_email u) (tn_billing_email r) Some\<rparr>) s
            in (GetTenantByID i s1, s1)))"

definition UpdateTenantStatus :: "int \<Rightarrow> string \<Rightarrow> tenancy_db \<Rightarrow> unit res \<times> tenancy_db" where
  "UpdateTenantStatus i st s =
     (if int4 i then (Inr (), update_tenants i (\<lambda>r. r\<lparr>tn_status := st\<rparr>) s) else (Inl out_of_range, s))"

definition strip_port :: "string \<Rightarrow> string" where
  "strip_port host = takeWhile (\<lambda>c. c \<noteq> CHR '':'') host"

definition ExtractTenantSlugFromHost :: "string \<Rightarrow> string" where
  "ExtractTenantSlugFromHost host =
     (let parts = Split (strip_port host) CHR ''.'' in if length parts \<le> 2 then ''default'' else hd parts)"

subsection \<open>The middleware: middleware.go\<close>

record tenant_middleware =
  tm_base :: string
  tm_require :: bool

definition extractSlugFromHost :: "tenant_middleware \<Rightarrow> string \<Rightarrow> string" where
  "extractSlugFromHost m host =
     (if host = tm_base m then ''default''
      else if HasSuffix host (''.'' @ tm_base m) then hd (Split (TrimSuffix host (''.'' @ tm_base m)) CHR ''.'')
      else hd (Split host CHR ''.''))"

definition resolve_slug :: "tenant_middleware \<Rightarrow> string \<Rightarrow> tenancy_db \<Rightarrow> tenant res" where
  "resolve_slug m host s =
     (let slug = extractSlugFromHost m host in
      case GetTenantBySlug slug s of
        Inl e \<Rightarrow> Inl (WrapErr (''tenant not found for slug '' @ slug) e)
      | Inr t \<Rightarrow> Inr t)"

definition resolveTenant :: "tenant_middleware \<Rightarrow> request \<Rightarrow> tenancy_db \<Rightarrow> tenant res" where
  "resolveTenant m req s =
     (let host = strip_port (rq_host req) in
      if host \<noteq> tm_base m \<and> \<not> HasSuffix host (''.'' @ tm_base m) then
        (case GetTenantByCustomDomain host s of Inr t \<Rightarrow> Inr t | Inl _ \<Rightarrow> resolve_slug m host s)
      else resolve_slug m host s)"

datatype tenant_verdict = TenantAnswer response | TenantNext "tenant option"

definition tenant_Middleware :: "tenant_middleware \<Rightarrow> request \<Rightarrow> tenancy_db \<Rightarrow> tenant_verdict" where
  "tenant_Middleware m req s =
     (case resolveTenant m req s of
        Inl _ \<Rightarrow> (if tm_require m then TenantAnswer (http_error [] ''Tenant not found'' 404) else TenantNext None)
      | Inr t \<Rightarrow>
          (if te_status t = ''suspended'' then TenantAnswer (http_error [] ''Tenant account suspended'' 403)
           else if te_status t = ''deleted'' then TenantAnswer (http_error [] ''Tenant not found'' 404)
           else TenantNext (Some t)))"

subsection \<open>Metering: metering.go\<close>

text \<open>The events of a tenant wait in memory, in a table by tenant.\<close>

type_synonym metering_cache = "(int \<times> bandwidth_event list) list"

definition TrackBandwidth :: "bandwidth_event \<Rightarrow> metering_cache \<Rightarrow> metering_cache" where
  "TrackBandwidth e c =
     (case map_of c (be_tenant e) of
        None \<Rightarrow> c @ [(be_tenant e, [e])]
      | Some es \<Rightarrow> AList.update (be_tenant e) (es @ [e]) c)"

text \<open>
  The insertion of an event fails when its tenant does not exist, or its address is not one of type \<^verbatim>\<open>INET\<close>, which \<open>inet\<close> decides.
  The order in which the tenants are visited is arbitrary; the first failure ends the flush, and the transaction is rolled back.
\<close>

definition insert_event :: "(string \<Rightarrow> bool) \<Rightarrow> bandwidth_event \<Rightarrow> tenancy_db \<Rightarrow> tenancy_db res" where
  "insert_event inet e s =
     (if \<not> inet (be_ip e) then Inl (WrapErr ''failed to insert bandwidth event'' (ErrText ''pq: invalid input syntax for type inet''))
      else if \<not> list_ex (\<lambda>r. tn_tenant r = be_tenant e) (td_tenants s) then
        Inl (WrapErr ''failed to insert bandwidth event'' (ErrText ''pq: violates foreign key constraint''))
      else Inr (s\<lparr>td_events := td_events s @ [e]\<rparr>))"

fun insert_events :: "(string \<Rightarrow> bool) \<Rightarrow> bandwidth_event list \<Rightarrow> tenancy_db \<Rightarrow> tenancy_db res" where
  "insert_events inet [] s = Inr s"
| "insert_events inet (e # es) s = (case insert_event inet e s of Inl x \<Rightarrow> Inl x | Inr s' \<Rightarrow> insert_events inet es s')"

definition flushEvents :: "(string \<Rightarrow> bool) \<Rightarrow> metering_cache \<Rightarrow> tenancy_db \<Rightarrow> unit res \<times> metering_cache \<times> tenancy_db" where
  "flushEvents inet c s =
     (case insert_events inet (concat (map snd c)) s of
        Inl e \<Rightarrow> (Inl e, [], s)
      | Inr s' \<Rightarrow> (Inr (), [], s'))"

text \<open>\<open>written\<close> is the number of bytes the handler wrote with its answer.\<close>

definition meter :: "tenant option \<Rightarrow> request \<Rightarrow> (response \<Rightarrow> int) \<Rightarrow> (request \<Rightarrow> response \<times> 'w) \<Rightarrow> metering_cache \<Rightarrow> (response \<times> 'w) \<times> metering_cache" where
  "meter t req written handler c =
     (case t of
        None \<Rightarrow> (handler req, c)
      | Some ten \<Rightarrow>
          (let ev = (\<lambda>d n. \<lparr>be_tenant = te_id ten, be_direction = d, be_bytes = n, be_ip = rq_remote req, be_agent = rq_header req ''User-Agent''\<rparr>);
               c1 = (if rq_content_length req > 0 then TrackBandwidth (ev ''ingress'' (rq_content_length req)) c else c);
               out = handler req
           in (out, if written (fst out) > 0 then TrackBandwidth (ev ''egress'' (written (fst out))) c1 else c1)))"

subsection \<open>OpenID providers of a tenant: oidc.go\<close>

text \<open>Primary configurations first, then by age.\<close>

definition ListOIDCConfigs :: "int \<Rightarrow> tenancy_db \<Rightarrow> oidc_row list res" where
  "ListOIDCConfigs i s =
     (if \<not> int4 i then Inl (WrapErr ''failed to list OIDC configs'' out_of_range)
      else (let rows = sort_key or_created (filter (\<lambda>r. or_tenant r = i) (td_oidc s))
            in Inr (map (\<lambda>r. r\<lparr>or_secret := []\<rparr>) (filter or_primary rows @ filter (\<lambda>r. \<not> or_primary r) rows))))"

definition GetOIDCConfig :: "int \<Rightarrow> tenancy_db \<Rightarrow> oidc_row res" where
  "GetOIDCConfig i s =
     (if \<not> int4 i then Inl (WrapErr ''failed to get OIDC config'' out_of_range)
      else (case find (\<lambda>r. or_id r = i) (td_oidc s) of None \<Rightarrow> Inl (ErrText ''OIDC config not found'') | Some r \<Rightarrow> Inr r))"

text \<open>\<open>fetch\<close> is \<^verbatim>\<open>http.Get\<close>: the status of the answer and the document of its body.\<close>

definition discoverOIDCEndpoints :: "(string \<Rightarrow> (int \<times> json res) res) \<Rightarrow> oidc_row \<Rightarrow> oidc_row res" where
  "discoverOIDCEndpoints fetch c =
     (case fetch (TrimSuffix (or_issuer c) ''/'' @ ''/.well-known/openid-configuration'') of
        Inl e \<Rightarrow> Inl (WrapErr ''failed to fetch OIDC discovery document'' e)
      | Inr (code, doc) \<Rightarrow>
          (if code \<noteq> 200 then Inl (ErrText (''OIDC discovery returned status '' @ FormatInt code))
           else (case doc of
                   Inl e \<Rightarrow> Inl (WrapErr ''failed to parse OIDC discovery document'' e)
                 | Inr j \<Rightarrow>
                     (case Option.bind (members j) (\<lambda>kvs.
                             case (decode_field set_string ''issuer'' kvs [], decode_field set_string ''authorization_endpoint'' kvs [],
                                   decode_field set_string ''token_endpoint'' kvs [], decode_field set_string ''userinfo_endpoint'' kvs [],
                                   decode_field set_string ''jwks_uri'' kvs []) of
                               (Some _, Some a, Some t, Some u, Some w) \<Rightarrow> Some (a, t, u, w) | _ \<Rightarrow> None) of
                        None \<Rightarrow> Inl (ErrText ''failed to parse OIDC discovery document'')
                      | Some (a, t, u, w) \<Rightarrow> Inr (c\<lparr>or_auth := a, or_token := t, or_userinfo := u, or_jwks := w\<rparr>)))))"

definition provider_kinds :: "string list" where
  "provider_kinds = [''google_workspace'', ''generic_oidc'', ''azure_ad'', ''aws_cognito'']"

text \<open>The statement that clears the other primary configurations is a transaction of its own.\<close>

definition CreateOIDCConfig ::
  "(string \<Rightarrow> (int \<times> json res) res) \<Rightarrow> oidc_row \<Rightarrow> tenancy_db \<Rightarrow> oidc_row res \<times> tenancy_db" where
  "CreateOIDCConfig fetch c s =
     (if or_primary c \<and> \<not> int4 (or_tenant c) then (Inl (WrapErr ''failed to unset other primary configs'' out_of_range), s)
      else (let s1 = (if or_primary c then s\<lparr>td_oidc := map (\<lambda>r. if or_tenant r = or_tenant c then r\<lparr>or_primary := False\<rparr> else r) (td_oidc s)\<rparr> else s) in
        case (if or_auth c = [] \<or> or_token c = [] then discoverOIDCEndpoints fetch c else Inr c) of
          Inl e \<Rightarrow> (Inl (WrapErr ''failed to discover OIDC endpoints'' e), s1)
        | Inr c1 \<Rightarrow>
            (if \<not> int4 (or_tenant c1) then (Inl (WrapErr ''failed to create OIDC config'' out_of_range), s1)
             else if \<not> List.member provider_kinds (or_type c1) then
               (Inl (WrapErr ''failed to create OIDC config'' (ErrText ''pq: violates check constraint'')), s1\<lparr>td_next_oidc := td_next_oidc s1 + 1\<rparr>)
             else if list_ex (\<lambda>r. or_tenant r = or_tenant c1 \<and> or_provider r = or_provider c1) (td_oidc s1) then
               (Inl (WrapErr ''failed to create OIDC config'' unique_violation), s1\<lparr>td_next_oidc := td_next_oidc s1 + 1\<rparr>)
             else if \<not> list_ex (\<lambda>r. tn_tenant r = or_tenant c1) (td_tenants s1) then
               (Inl (WrapErr ''failed to create OIDC config'' (ErrText ''pq: violates foreign key constraint'')), s1\<lparr>td_next_oidc := td_next_oidc s1 + 1\<rparr>)
             else (let row = c1\<lparr>or_id := td_next_oidc s1, or_created := td_now s1, or_updated := td_now s1\<rparr>
                   in (Inr (row\<lparr>or_secret := []\<rparr>), s1\<lparr>td_oidc := td_oidc s1 @ [row], td_next_oidc := td_next_oidc s1 + 1\<rparr>)))))"

text \<open>Of the members of the update only \<^verbatim>\<open>is_primary\<close> is looked at, and it changes the other configurations only.\<close>

definition UpdateOIDCConfig :: "int \<Rightarrow> (string \<times> json) list \<Rightarrow> tenancy_db \<Rightarrow> oidc_row res \<times> tenancy_db" where
  "UpdateOIDCConfig i updates s =
     (let touch = (\<lambda>s'. s'\<lparr>td_oidc := map (\<lambda>r. if or_id r = i then r\<lparr>or_updated := td_now s\<rparr> else r) (td_oidc s')\<rparr>) in
      if obj_get updates ''is_primary'' = Some (JBool True) then
        (if \<not> int4 i then (Inl (WrapErr ''failed to get tenant ID'' out_of_range), s)
         else (case find (\<lambda>r. or_id r = i) (td_oidc s) of
                 None \<Rightarrow> (Inl (WrapErr ''failed to get tenant ID'' (ErrText ''sql: no rows in result set'')), s)
               | Some c \<Rightarrow>
                   (let s1 = touch (s\<lparr>td_oidc := map (\<lambda>r. if or_tenant r = or_tenant c \<and> or_id r \<noteq> i then r\<lparr>or_primary := False\<rparr> else r) (td_oidc s)\<rparr>)
                    in (GetOIDCConfig i s1, s1))))
      else if \<not> int4 i then (Inl (WrapErr ''failed to update OIDC config'' out_of_range), s)
      else (GetOIDCConfig i (touch s), touch s))"

definition DeleteOIDCConfig :: "int \<Rightarrow> tenancy_db \<Rightarrow> unit res \<times> tenancy_db" where
  "DeleteOIDCConfig i s =
     (if int4 i then (Inr (), s\<lparr>td_oidc := filter (\<lambda>r. or_id r \<noteq> i) (td_oidc s)\<rparr>) else (Inl out_of_range, s))"

definition GenerateStateToken :: "bytes res \<Rightarrow> string res" where
  "GenerateStateToken rnd = (case rnd of Inl e \<Rightarrow> Inl e | Inr bs \<Rightarrow> Inr (b64_url bs))"

text \<open>\<^verbatim>\<open>base64.RawURLEncoding.DecodeString\<close>.\<close>

definition b64_raw_url_decode :: "string \<Rightarrow> bytes option" where
  "b64_raw_url_decode s =
     (let t = filter (\<lambda>c. c \<noteq> CHR 0x0A \<and> c \<noteq> CHR 0x0D) s in
      if list_ex (\<lambda>c. c = CHR ''+'' \<or> c = CHR ''/'' \<or> c = CHR ''='') t \<or> length t mod 4 = 1 then None
      else b64_quanta (map (\<lambda>c. if c = CHR ''-'' then CHR ''+'' else if c = CHR ''_'' then CHR ''/'' else c) t @
             replicate ((4 - length t mod 4) mod 4) (CHR ''='')))"

definition isEmailInAllowedDomains :: "string \<Rightarrow> string \<Rightarrow> bool" where
  "isEmailInAllowedDomains email allowedDomains \<longleftrightarrow>
     email \<noteq> [] \<and> allowedDomains \<noteq> [] \<and>
     (case Split email CHR 0x40 of
        [_, domain] \<Rightarrow> list_ex (\<lambda>d. TrimSpace d = domain) (Split allowedDomains CHR '','')
      | _ \<Rightarrow> False)"

text \<open>\<open>parse\<close> is \<^verbatim>\<open>json.Unmarshal\<close>, \<open>floor64\<close> the integer \<^verbatim>\<open>int64\<close> makes of a number of the document.\<close>

definition ValidateIDToken ::
  "(bytes \<Rightarrow> json option) \<Rightarrow> (string \<Rightarrow> int) \<Rightarrow> int \<Rightarrow> oidc_row \<Rightarrow> string \<Rightarrow> (string \<times> json) list res" where
  "ValidateIDToken parse floor64 tm c idToken =
     (case Split idToken CHR ''.'' of
        [_, body, _] \<Rightarrow>
          (case b64_raw_url_decode body of
             None \<Rightarrow> Inl (ErrText ''failed to decode ID token payload'')
           | Some payload \<Rightarrow>
               (case Option.bind (parse payload) members of
                  None \<Rightarrow> Inl (ErrText ''failed to parse ID token claims'')
                | Some cl \<Rightarrow>
                    (if obj_get cl ''iss'' \<noteq> Some (JStr (or_issuer c)) then Inl (ErrText ''invalid issuer'')
                     else if obj_get cl ''aud'' \<noteq> Some (JStr (or_client c)) then Inl (ErrText ''invalid audience'')
                     else if (case obj_get cl ''exp'' of Some (JNum n) \<Rightarrow> tm > floor64 n | _ \<Rightarrow> False) then Inl (ErrText ''ID token expired'')
                     else if or_type c = ''google_workspace'' \<and> or_domains c \<noteq> [] \<and>
                             \<not> isEmailInAllowedDomains (case obj_get cl ''email'' of Some (JStr e) \<Rightarrow> e | _ \<Rightarrow> []) (or_domains c)
                     then Inl (ErrText ''email domain not allowed'')
                     else Inr cl)))
      | _ \<Rightarrow> Inl (ErrText ''invalid ID token format''))"

text \<open>\<^verbatim>\<open>url.QueryEscape\<close> and \<^verbatim>\<open>Values.Encode\<close>, which orders the parameters by name.\<close>

definition QueryEscape :: "string \<Rightarrow> string" where
  "QueryEscape s = concat (map (\<lambda>c.
     if is_lower c \<or> is_digit c \<or> (CHR ''A'' \<le> c \<and> c \<le> CHR ''Z'') \<or> List.member ''-_.~'' c then [c]
     else if c = CHR '' '' then ''+'' else CHR ''%'' # ToUpper (hex [c])) s)"

definition encode_values :: "(string \<times> string) list \<Rightarrow> string" where
  "encode_values kvs = Join (map (\<lambda>(k, v). QueryEscape k @ ''='' @ QueryEscape v) kvs) CHR ''&''"

definition BuildAuthorizationURL :: "oidc_row \<Rightarrow> string \<Rightarrow> string \<Rightarrow> string \<Rightarrow> string" where
  "BuildAuthorizationURL c redirectURL state nonce =
     (let google = or_type c = ''google_workspace'' in
      or_auth c @ ''?'' @ encode_values (
        (if google then [(''access_type'', ''offline'')] else []) @ [(''client_id'', or_client c)] @
        (if google \<and> or_domains c \<noteq> [] then [(''hd'', hd (Split (or_domains c) CHR '',''))] else []) @
        (if nonce \<noteq> [] then [(''nonce'', nonce)] else []) @
        (if google then [(''prompt'', ''consent'')] else []) @
        [(''redirect_uri'', redirectURL), (''response_type'', ''code''), (''scope'', or_scopes c), (''state'', state)]))"

end
