(* ===== verification/Tenancy_Api.thy ===== *)
theory Tenancy_Api
  imports Tenancy
begin

text \<open>
  Package \<^verbatim>\<open>internal/api/tenancy\<close>: the routes and handlers of the platform and tenant administration (\<^verbatim>\<open>router.go\<close>) and the
  login through the OpenID provider of a tenant (\<^verbatim>\<open>oidc_auth.go\<close>). The cookie store is a parameter.
\<close>

subsection \<open>Administration: router.go\<close>

text \<open>
  \<open>ta_exec\<close> and \<open>ta_ddl\<close> are the parameters of provisioning, \<open>ta_fetch\<close> the HTTP client, \<open>ta_decode\<close> the document the decoder reads
  from a body, \<open>ta_time\<close> the JSON form of a time. \<open>ta_blobs\<close> and \<open>ta_repos\<close> are what the two usage queries return; both name columns
  the schema does not have, so an error leaves zero.
\<close>

record tenancy_env =
  ta_exec :: "string \<Rightarrow> unit res"
  ta_ddl :: string
  ta_fetch :: "string \<Rightarrow> (int \<times> json res) res"
  ta_decode :: "stream \<Rightarrow> json res"
  ta_time :: "int \<Rightarrow> string"
  ta_blobs :: "int \<Rightarrow> int res"
  ta_repos :: "int \<Rightarrow> int res"

definition ta_body :: "tenancy_env \<Rightarrow> request \<Rightarrow> (string \<times> json) list option" where
  "ta_body E req = (case ta_decode E (body_of req) of Inl _ \<Rightarrow> None | Inr doc \<Rightarrow> members doc)"

definition omit_empty :: "string \<Rightarrow> string \<Rightarrow> (string \<times> json) list" where
  "omit_empty k v = (if v = [] then [] else [(k, JStr v)])"

definition doc_tenant :: "tenancy_env \<Rightarrow> tenant \<Rightarrow> json" where
  "doc_tenant E t =
     JObj ([(''id'', doc_int (te_id t)), (''slug'', JStr (te_slug t)), (''name'', JStr (te_name t)), (''schema_name'', JStr (te_schema t)),
       (''status'', JStr (te_status t))] @
       (case te_trial t of None \<Rightarrow> [] | Some x \<Rightarrow> [(''trial_ends_at'', JStr (ta_time E x))]) @
       [(''contact_email'', JStr (te_contact_email t))] @ omit_empty ''contact_name'' (te_contact_name t) @
       omit_empty ''billing_email'' (te_billing_email t) @ omit_empty ''custom_domain'' (te_custom_domain t) @
       [(''custom_domain_verified'', JBool (te_domain_verified t)), (''created_at'', JStr (ta_time E (te_created t))),
        (''updated_at'', JStr (ta_time E (te_updated t)))] @
       (case te_created_by t of None \<Rightarrow> [] | Some n \<Rightarrow> [(''created_by_id'', doc_int n)]))"

definition doc_oidc :: "tenancy_env \<Rightarrow> oidc_row \<Rightarrow> json" where
  "doc_oidc E c =
     JObj ([(''id'', doc_int (or_id c)), (''tenant_id'', doc_int (or_tenant c)), (''provider_name'', JStr (or_provider c)),
       (''provider_type'', JStr (or_type c)), (''issuer_url'', JStr (or_issuer c)), (''client_id'', JStr (or_client c))] @
       omit_empty ''authorization_endpoint'' (or_auth c) @ omit_empty ''token_endpoint'' (or_token c) @
       omit_empty ''userinfo_endpoint'' (or_userinfo c) @ omit_empty ''jwks_uri'' (or_jwks c) @
       [(''scopes'', JStr (or_scopes c)), (''user_claim'', JStr (or_user_claim c))] @
       omit_empty ''group_claim'' (or_group_claim c) @ omit_empty ''allowed_domains'' (or_domains c) @
       [(''enabled'', JBool (or_enabled c)), (''is_primary'', JBool (or_primary c)), (''created_at'', JStr (ta_time E (or_created c))),
        (''updated_at'', JStr (ta_time E (or_updated c)))] @
       (case or_by c of None \<Rightarrow> [] | Some n \<Rightarrow> [(''created_by_id'', doc_int n)]))"

definition invalid_body :: response where
  "invalid_body = http_error [] ''Invalid request body'' 400"

definition with_id :: "string \<Rightarrow> string \<Rightarrow> 's \<Rightarrow> (int \<Rightarrow> response \<times> 's) \<Rightarrow> response \<times> 's" where
  "with_id param msg s k = (case ParseInt param of None \<Rightarrow> (http_error [] msg 400, s) | Some n \<Rightarrow> k n)"

definition listTenants :: "tenancy_env \<Rightarrow> request \<Rightarrow> tenancy_db \<Rightarrow> response" where
  "listTenants E req s =
     (let limit = (if Atoi_value (rq_query req ''limit'') \<le> 0 then 50 else Atoi_value (rq_query req ''limit''));
          offset = Atoi_value (rq_query req ''offset'')
      in case ListTenants limit offset s of
           Inl _ \<Rightarrow> http_error [] ''Failed to list tenants'' 500
         | Inr ts \<Rightarrow> reply 200 json_type (JsonDoc (JObj [(''limit'', doc_int limit), (''offset'', doc_int offset),
                       (''tenants'', doc_slice (doc_tenant E) ts)])))"

definition createTenant :: "tenancy_env \<Rightarrow> request \<Rightarrow> tenancy_db \<Rightarrow> response \<times> tenancy_db" where
  "createTenant E req s =
     (case Option.bind (ta_body E req) (\<lambda>kvs.
             case (decode_field set_string ''slug'' kvs [], decode_field set_string ''name'' kvs [], decode_field set_string ''contact_email'' kvs [],
                   decode_field set_string ''contact_name'' kvs [], decode_field set_string ''billing_email'' kvs []) of
               (Some slug, Some name, Some email, Some _, Some _) \<Rightarrow> Some (slug, name, email) | _ \<Rightarrow> None) of
        None \<Rightarrow> (invalid_body, s)
      | Some (slug, name, email) \<Rightarrow>
          (if slug = [] \<or> name = [] \<or> email = [] then (http_error [] ''Missing required fields: slug, name, contact_email'' 400, s)
           else (case CreateTenant (ta_exec E) (ta_ddl E) slug name email None s of
                   (Inl e, s') \<Rightarrow> (http_error [] (''Failed to create tenant: '' @ err_msg e) 500, s')
                 | (Inr t, s') \<Rightarrow> (reply 201 json_type (JsonDoc (doc_tenant E t)), s'))))"

definition getTenant :: "tenancy_env \<Rightarrow> string \<Rightarrow> tenancy_db \<Rightarrow> response" where
  "getTenant E param s =
     fst (with_id param ''Invalid tenant ID'' s (\<lambda>i.
       (case GetTenantByID i s of
          Inl _ \<Rightarrow> http_error [] ''Tenant not found'' 404
        | Inr t \<Rightarrow> reply 200 json_type (JsonDoc (doc_tenant E t)), s)))"

definition update_payload :: "(string \<times> json) list \<Rightarrow> tenant_update option" where
  "update_payload kvs =
     (case (decode_field set_string ''name'' kvs [], decode_field set_string ''contact_email'' kvs [],
            decode_field set_string ''contact_name'' kvs [], decode_field set_string ''billing_email'' kvs []) of
        (Some n, Some e, Some c, Some b) \<Rightarrow> Some \<lparr>tu_name = n, tu_contact_email = e, tu_contact_name = c, tu_billing_email = b\<rparr>
      | _ \<Rightarrow> None)"

definition update_tenant :: "tenancy_env \<Rightarrow> int \<Rightarrow> request \<Rightarrow> tenancy_db \<Rightarrow> response \<times> tenancy_db" where
  "update_tenant E i req s =
     (case Option.bind (ta_body E req) update_payload of
        None \<Rightarrow> (invalid_body, s)
      | Some u \<Rightarrow>
          (case UpdateTenant i u s of
             (Inl _, s') \<Rightarrow> (http_error [] ''Failed to update tenant'' 500, s')
           | (Inr t, s') \<Rightarrow> (reply 200 json_type (JsonDoc (doc_tenant E t)), s')))"

definition updateTenant :: "tenancy_env \<Rightarrow> string \<Rightarrow> request \<Rightarrow> tenancy_db \<Rightarrow> response \<times> tenancy_db" where
  "updateTenant E param req s = with_id param ''Invalid tenant ID'' s (\<lambda>i. update_tenant E i req s)"

definition deleteTenant :: "tenancy_env \<Rightarrow> string \<Rightarrow> request \<Rightarrow> tenancy_db \<Rightarrow> response \<times> tenancy_db" where
  "deleteTenant E param req s =
     with_id param ''Invalid tenant ID'' s (\<lambda>i.
       case DeleteTenant (ta_exec E) i (rq_query req ''drop_schema'' = ''true'') s of
         (Inl _, s') \<Rightarrow> (http_error [] ''Failed to delete tenant'' 500, s')
       | (Inr _, s') \<Rightarrow> (status 204, s'))"

definition set_status :: "string \<Rightarrow> string \<Rightarrow> string \<Rightarrow> tenancy_db \<Rightarrow> response \<times> tenancy_db" where
  "set_status st msg param s =
     with_id param ''Invalid tenant ID'' s (\<lambda>i.
       case UpdateTenantStatus i st s of
         (Inl _, s') \<Rightarrow> (http_error [] msg 500, s')
       | (Inr _, s') \<Rightarrow> (reply 200 [] (JsonDoc (JObj [(''status'', JStr st)])), s'))"

definition suspendTenant :: "string \<Rightarrow> tenancy_db \<Rightarrow> response \<times> tenancy_db" where
  "suspendTenant = set_status ''suspended'' ''Failed to suspend tenant''"

definition activateTenant :: "string \<Rightarrow> tenancy_db \<Rightarrow> response \<times> tenancy_db" where
  "activateTenant = set_status ''active'' ''Failed to activate tenant''"

definition list_oidc :: "tenancy_env \<Rightarrow> int \<Rightarrow> tenancy_db \<Rightarrow> response" where
  "list_oidc E i s =
     (case ListOIDCConfigs i s of
        Inl _ \<Rightarrow> http_error [] ''Failed to list OIDC configs'' 500
      | Inr cs \<Rightarrow> reply 200 json_type (JsonDoc (JObj [(''oidc_providers'', doc_slice (doc_oidc E) cs)])))"

definition listOIDCConfigs :: "tenancy_env \<Rightarrow> string \<Rightarrow> tenancy_db \<Rightarrow> response" where
  "listOIDCConfigs E param s = fst (with_id param ''Invalid tenant ID'' s (\<lambda>i. (list_oidc E i s, s)))"

text \<open>
  The document of a provider, assigned to the fields of \<^verbatim>\<open>OIDCConfig\<close>; the secret has no name in JSON and cannot be given. The
  members that only have to be well-formed are the times and the metadata, which \<open>rest_ok\<close> decides.
\<close>

fun set_int_pointer :: "int option \<Rightarrow> json \<Rightarrow> int option option" where
  "set_int_pointer a JNull = Some None"
| "set_int_pointer a (JNum n) = map_option Some (ParseInt n)"
| "set_int_pointer a _ = None"

definition oidc_payload :: "((string \<times> json) list \<Rightarrow> bool) \<Rightarrow> (string \<times> json) list \<Rightarrow> oidc_row option" where
  "oidc_payload rest_ok kvs =
     (let str = (\<lambda>f. decode_field set_string f kvs []) in
      case (decode_field set_int ''id'' kvs 0, decode_field set_int ''tenant_id'' kvs 0, str ''provider_name'', str ''provider_type'', str ''issuer_url'') of
        (Some i, Some t, Some pn, Some pt, Some iss) \<Rightarrow>
          (case (str ''client_id'', str ''authorization_endpoint'', str ''token_endpoint'', str ''userinfo_endpoint'', str ''jwks_uri'') of
             (Some cid, Some a, Some tk, Some ui, Some jw) \<Rightarrow>
               (case (str ''scopes'', str ''user_claim'', str ''group_claim'', str ''allowed_domains'') of
                  (Some sc, Some uc, Some gc, Some ad) \<Rightarrow>
                    (case (decode_field set_bool ''enabled'' kvs False, decode_field set_bool ''is_primary'' kvs False, decode_field set_int_pointer ''created_by_id'' kvs None) of
                       (Some en, Some pr, Some creator) \<Rightarrow>
                         (if rest_ok kvs then
                            Some \<lparr>or_id = i, or_tenant = t, or_provider = pn, or_type = pt, or_issuer = iss, or_client = cid, or_secret = [],
                              or_auth = a, or_token = tk, or_userinfo = ui, or_jwks = jw, or_scopes = sc, or_user_claim = uc, or_group_claim = gc,
                              or_domains = ad, or_enabled = en, or_primary = pr, or_created = 0, or_updated = 0, or_by = creator\<rparr>
                          else None)
                     | _ \<Rightarrow> None)
                | _ \<Rightarrow> None)
           | _ \<Rightarrow> None)
      | _ \<Rightarrow> None)"

definition create_oidc ::
  "tenancy_env \<Rightarrow> ((string \<times> json) list \<Rightarrow> bool) \<Rightarrow> (err \<Rightarrow> string) \<Rightarrow> int \<Rightarrow> request \<Rightarrow> tenancy_db \<Rightarrow> response \<times> tenancy_db" where
  "create_oidc E rest_ok msg i req s =
     (case Option.bind (ta_body E req) (oidc_payload rest_ok) of
        None \<Rightarrow> (invalid_body, s)
      | Some c \<Rightarrow>
          (case CreateOIDCConfig (ta_fetch E) (c\<lparr>or_tenant := i\<rparr>) s of
             (Inl e, s') \<Rightarrow> (http_error [] (msg e) 500, s')
           | (Inr row, s') \<Rightarrow> (reply 201 json_type (JsonDoc (doc_oidc E row)), s')))"

definition createOIDCConfig :: "tenancy_env \<Rightarrow> ((string \<times> json) list \<Rightarrow> bool) \<Rightarrow> string \<Rightarrow> request \<Rightarrow> tenancy_db \<Rightarrow> response \<times> tenancy_db" where
  "createOIDCConfig E rest_ok param req s =
     with_id param ''Invalid tenant ID'' s (\<lambda>i. create_oidc E rest_ok (\<lambda>e. ''Failed to create OIDC config: '' @ err_msg e) i req s)"

definition updateOIDCConfig :: "tenancy_env \<Rightarrow> string \<Rightarrow> request \<Rightarrow> tenancy_db \<Rightarrow> response \<times> tenancy_db" where
  "updateOIDCConfig E param req s =
     with_id param ''Invalid OIDC config ID'' s (\<lambda>i.
       case ta_body E req of
         None \<Rightarrow> (invalid_body, s)
       | Some updates \<Rightarrow>
           (case UpdateOIDCConfig i updates s of
              (Inl _, s') \<Rightarrow> (http_error [] ''Failed to update OIDC config'' 500, s')
            | (Inr c, s') \<Rightarrow> (reply 200 json_type (JsonDoc (doc_oidc E c)), s')))"

definition deleteOIDCConfig :: "string \<Rightarrow> tenancy_db \<Rightarrow> response \<times> tenancy_db" where
  "deleteOIDCConfig param s =
     with_id param ''Invalid OIDC config ID'' s (\<lambda>i.
       case DeleteOIDCConfig i s of
         (Inl _, s') \<Rightarrow> (http_error [] ''Failed to delete OIDC config'' 500, s')
       | (Inr _, s') \<Rightarrow> (status 204, s'))"

definition getTenantUsage :: "string \<Rightarrow> tenancy_db \<Rightarrow> response" where
  "getTenantUsage param s =
     fst (with_id param ''Invalid tenant ID'' s (\<lambda>i.
       (reply 200 json_type (JsonDoc (JObj [(''tenant_id'', doc_int i), (''usage'', JArr (map (\<lambda>(d, n). JObj [(''bytes'', doc_int n), (''date'', JStr d)])
          [(''2026-04-01'', 1024000), (''2026-04-02'', 1124000), (''2026-04-03'', 1224000)]))])), s)))"

definition or_zero :: "int res \<Rightarrow> int" where
  "or_zero r = (case r of Inl _ \<Rightarrow> 0 | Inr n \<Rightarrow> n)"

definition usage_fields :: "tenancy_env \<Rightarrow> int \<Rightarrow> (string \<times> json) list" where
  "usage_fields E i = [(''bandwidth'', doc_int 0), (''repositories'', doc_int (or_zero (ta_repos E i))),
     (''storage_bytes'', doc_int (or_zero (ta_blobs E i))), (''tenant_id'', doc_int i)]"

definition getCurrentUsage :: "tenancy_env \<Rightarrow> string \<Rightarrow> tenancy_db \<Rightarrow> response" where
  "getCurrentUsage E param s =
     fst (with_id param ''Invalid tenant ID'' s (\<lambda>i.
       (reply 200 json_type (JsonDoc (JObj ((''active_users'', doc_int 1) # usage_fields E i))), s)))"

subsection \<open>Self-service\<close>

definition with_tenant :: "tenant option \<Rightarrow> 's \<Rightarrow> (tenant \<Rightarrow> response \<times> 's) \<Rightarrow> response \<times> 's" where
  "with_tenant t s k = (case t of None \<Rightarrow> (http_error [] ''Tenant context not found'' 500, s) | Some x \<Rightarrow> k x)"

definition getCurrentTenantInfo :: "tenancy_env \<Rightarrow> tenant option \<Rightarrow> tenancy_db \<Rightarrow> response \<times> tenancy_db" where
  "getCurrentTenantInfo E t s = with_tenant t s (\<lambda>x. (reply 200 json_type (JsonDoc (doc_tenant E x)), s))"

definition updateCurrentTenant :: "tenancy_env \<Rightarrow> tenant option \<Rightarrow> request \<Rightarrow> tenancy_db \<Rightarrow> response \<times> tenancy_db" where
  "updateCurrentTenant E t req s = with_tenant t s (\<lambda>x. update_tenant E (te_id x) req s)"

definition listCurrentTenantOIDC :: "tenancy_env \<Rightarrow> tenant option \<Rightarrow> tenancy_db \<Rightarrow> response \<times> tenancy_db" where
  "listCurrentTenantOIDC E t s = with_tenant t s (\<lambda>x. (list_oidc E (te_id x) s, s))"

definition createCurrentTenantOIDC ::
  "tenancy_env \<Rightarrow> ((string \<times> json) list \<Rightarrow> bool) \<Rightarrow> tenant option \<Rightarrow> request \<Rightarrow> tenancy_db \<Rightarrow> response \<times> tenancy_db" where
  "createCurrentTenantOIDC E rest_ok t req s =
     with_tenant t s (\<lambda>x. create_oidc E rest_ok (\<lambda>_. ''Failed to create OIDC config'') (te_id x) req s)"

definition updateCurrentTenantOIDC :: "tenancy_env \<Rightarrow> string \<Rightarrow> request \<Rightarrow> tenancy_db \<Rightarrow> response \<times> tenancy_db" where
  "updateCurrentTenantOIDC E param req s = updateOIDCConfig E param req s"

definition deleteCurrentTenantOIDC :: "string \<Rightarrow> tenancy_db \<Rightarrow> response \<times> tenancy_db" where
  "deleteCurrentTenantOIDC param s = deleteOIDCConfig param s"

definition getCurrentTenantUsage :: "tenancy_env \<Rightarrow> tenant option \<Rightarrow> tenancy_db \<Rightarrow> response \<times> tenancy_db" where
  "getCurrentTenantUsage E t s = with_tenant t s (\<lambda>x. (reply 200 json_type (JsonDoc (JObj (usage_fields E (te_id x)))), s))"

subsection \<open>Routes\<close>

text \<open>No middleware but the ones of the whole server stands in front of these routes; of those the one that finds the tenant matters here.\<close>

datatype tenancy_handler =
    T_listTenants | T_createTenant | T_getTenant | T_updateTenant | T_deleteTenant | T_suspendTenant | T_activateTenant
  | T_listOIDCConfigs | T_createOIDCConfig | T_updateOIDCConfig | T_deleteOIDCConfig | T_getTenantUsage | T_getCurrentUsage
  | T_getCurrentTenantInfo | T_updateCurrentTenant | T_listCurrentTenantOIDC | T_createCurrentTenantOIDC
  | T_updateCurrentTenantOIDC | T_deleteCurrentTenantOIDC | T_getCurrentTenantUsage

definition tenancy_routes :: "(string \<times> string \<times> tenancy_handler) list" where
  "tenancy_routes =
     [(''GET'', ''/api/v1/platform/tenants'', T_listTenants), (''POST'', ''/api/v1/platform/tenants'', T_createTenant),
      (''GET'', ''/api/v1/platform/tenants/{id}'', T_getTenant), (''PUT'', ''/api/v1/platform/tenants/{id}'', T_updateTenant),
      (''DELETE'', ''/api/v1/platform/tenants/{id}'', T_deleteTenant),
      (''POST'', ''/api/v1/platform/tenants/{id}/suspend'', T_suspendTenant), (''POST'', ''/api/v1/platform/tenants/{id}/activate'', T_activateTenant),
      (''GET'', ''/api/v1/platform/tenants/{id}/oidc'', T_listOIDCConfigs), (''POST'', ''/api/v1/platform/tenants/{id}/oidc'', T_createOIDCConfig),
      (''PUT'', ''/api/v1/platform/tenants/{id}/oidc/{oidc_id}'', T_updateOIDCConfig),
      (''DELETE'', ''/api/v1/platform/tenants/{id}/oidc/{oidc_id}'', T_deleteOIDCConfig),
      (''GET'', ''/api/v1/platform/tenants/{id}/usage'', T_getTenantUsage), (''GET'', ''/api/v1/platform/tenants/{id}/usage/current'', T_getCurrentUsage),
      (''GET'', ''/api/v1/tenant/info'', T_getCurrentTenantInfo), (''PUT'', ''/api/v1/tenant/info'', T_updateCurrentTenant),
      (''GET'', ''/api/v1/tenant/oidc'', T_listCurrentTenantOIDC), (''POST'', ''/api/v1/tenant/oidc'', T_createCurrentTenantOIDC),
      (''PUT'', ''/api/v1/tenant/oidc/{oidc_id}'', T_updateCurrentTenantOIDC), (''DELETE'', ''/api/v1/tenant/oidc/{oidc_id}'', T_deleteCurrentTenantOIDC),
      (''GET'', ''/api/v1/tenant/usage'', T_getCurrentTenantUsage)]"

text \<open>\<open>tv_chi\<close> finds the pattern of a path and its parameters, \<open>tv_rest_ok\<close> is the parameter of the decoder of providers.\<close>

record tenancy_server =
  tv_env :: tenancy_env
  tv_middleware :: tenant_middleware
  tv_chi :: "request \<Rightarrow> (string \<times> (string \<Rightarrow> string)) option"
  tv_rest_ok :: "(string \<times> json) list \<Rightarrow> bool"
  tv_unrouted :: "request \<Rightarrow> response"

definition run_tenancy ::
  "tenancy_server \<Rightarrow> tenancy_handler \<Rightarrow> (string \<Rightarrow> string) \<Rightarrow> tenant option \<Rightarrow> request \<Rightarrow> tenancy_db \<Rightarrow> response \<times> tenancy_db" where
  "run_tenancy V h par t req s =
     (let E = tv_env V; i = par ''id''; o_id = par ''oidc_id'' in
      case h of
        T_listTenants \<Rightarrow> (listTenants E req s, s)
      | T_createTenant \<Rightarrow> createTenant E req s
      | T_getTenant \<Rightarrow> (getTenant E i s, s)
      | T_updateTenant \<Rightarrow> updateTenant E i req s
      | T_deleteTenant \<Rightarrow> deleteTenant E i req s
      | T_suspendTenant \<Rightarrow> suspendTenant i s
      | T_activateTenant \<Rightarrow> activateTenant i s
      | T_listOIDCConfigs \<Rightarrow> (listOIDCConfigs E i s, s)
      | T_createOIDCConfig \<Rightarrow> createOIDCConfig E (tv_rest_ok V) i req s
      | T_updateOIDCConfig \<Rightarrow> updateOIDCConfig E o_id req s
      | T_deleteOIDCConfig \<Rightarrow> deleteOIDCConfig o_id s
      | T_getTenantUsage \<Rightarrow> (getTenantUsage i s, s)
      | T_getCurrentUsage \<Rightarrow> (getCurrentUsage E i s, s)
      | T_getCurrentTenantInfo \<Rightarrow> getCurrentTenantInfo E t s
      | T_updateCurrentTenant \<Rightarrow> updateCurrentTenant E t req s
      | T_listCurrentTenantOIDC \<Rightarrow> listCurrentTenantOIDC E t s
      | T_createCurrentTenantOIDC \<Rightarrow> createCurrentTenantOIDC E (tv_rest_ok V) t req s
      | T_updateCurrentTenantOIDC \<Rightarrow> updateCurrentTenantOIDC E o_id req s
      | T_deleteCurrentTenantOIDC \<Rightarrow> deleteCurrentTenantOIDC o_id s
      | T_getCurrentTenantUsage \<Rightarrow> getCurrentTenantUsage E t s)"

definition tenancy_route :: "tenancy_server \<Rightarrow> request \<Rightarrow> (tenancy_handler \<times> (string \<Rightarrow> string)) option" where
  "tenancy_route V req =
     Option.bind (tv_chi V req) (\<lambda>(pat, par).
       map_option (\<lambda>(_, _, h). (h, par)) (find (\<lambda>(m, pat', _). m = rq_method req \<and> pat' = pat) tenancy_routes))"

definition serve_tenancy :: "tenancy_server \<Rightarrow> request \<Rightarrow> tenancy_db \<Rightarrow> response \<times> tenancy_db" where
  "serve_tenancy V req s =
     (case tenant_Middleware (tv_middleware V) req s of
        TenantAnswer r \<Rightarrow> (r, s)
      | TenantNext t \<Rightarrow>
          (case tenancy_route V req of
             None \<Rightarrow> (tv_unrouted V req, s)
           | Some (h, par) \<Rightarrow> run_tenancy V h par t req s))"

subsection \<open>Login through a tenant's provider: oidc\_auth.go\<close>

text \<open>
  A session is what the cookie holds. \<open>tl_session\<close> reads it from a request, or fails on a cookie that is not well-formed or not signed;
  \<open>tl_exchange\<close> is the exchange of a code at the token endpoint of a provider, with the ID token if the answer has one.
\<close>

record oidc_session =
  os_state :: string
  os_nonce :: string
  os_tenant :: int
  os_config :: int
  os_access_token :: string
  os_username :: string
  os_user :: int

record ('k, 'd) tenant_login_env =
  tl_store :: "'d store"
  tl_ts :: "'k token_service"
  tl_jwt :: "'k jwt_lib"
  tl_base :: string
  tl_session :: "request \<Rightarrow> oidc_session res"
  tl_new_session :: oidc_session
  tl_exchange :: "oidc_row \<Rightarrow> string \<Rightarrow> string \<Rightarrow> string option res"
  tl_parse :: "bytes \<Rightarrow> json option"
  tl_floor :: "string \<Rightarrow> int"
  tl_random :: "bytes res \<times> bytes res"
  tl_now :: int

text \<open>The loop ends at an enabled primary configuration; otherwise the first enabled one is kept.\<close>

fun choose_config :: "oidc_row option \<Rightarrow> oidc_row list \<Rightarrow> oidc_row option" where
  "choose_config acc [] = acc"
| "choose_config acc (c # cs) =
     (if or_enabled c \<and> (or_primary c \<or> acc = None)
      then (if or_primary c then Some c else choose_config (Some c) cs)
      else choose_config acc cs)"

definition initiateOIDCLogin ::
  "('k, 'd) tenant_login_env \<Rightarrow> tenant option \<Rightarrow> request \<Rightarrow> tenancy_db \<Rightarrow> response \<times> oidc_session option" where
  "initiateOIDCLogin E t req s =
     (case t of
        None \<Rightarrow> (http_error [] ''Tenant not found'' 400, None)
      | Some ten \<Rightarrow>
          (case ListOIDCConfigs (te_id ten) s of
             Inl _ \<Rightarrow> (http_error [] ''No OIDC provider configured'' 400, None)
           | Inr [] \<Rightarrow> (http_error [] ''No OIDC provider configured'' 400, None)
           | Inr cs \<Rightarrow>
               (case choose_config None cs of
                  None \<Rightarrow> (http_error [] ''No enabled OIDC provider found'' 400, None)
                | Some c \<Rightarrow>
                    (case GenerateStateToken (fst (tl_random E)) of
                       Inl _ \<Rightarrow> (http_error [] ''Failed to generate state token'' 500, None)
                     | Inr state \<Rightarrow>
                         (case GenerateStateToken (snd (tl_random E)) of
                            Inl _ \<Rightarrow> (http_error [] ''Failed to generate nonce'' 500, None)
                          | Inr nonce \<Rightarrow>
                              (let old = (case tl_session E req of Inl _ \<Rightarrow> tl_new_session E | Inr x \<Rightarrow> x)
                               in (Redirect (BuildAuthorizationURL c (tl_base E @ ''/auth/oidc/callback'') state nonce),
                                   Some (old\<lparr>os_state := state, os_nonce := nonce, os_tenant := te_id ten, os_config := or_id c\<rparr>))))))))"

definition getOrCreateUserFromOIDC :: "'d store \<Rightarrow> string \<Rightarrow> 'd \<Rightarrow> user res \<times> 'd" where
  "getOrCreateUserFromOIDC S username s =
     (case st_GetUserByUsername S username s of
        Inr u \<Rightarrow> (Inr u, s)
      | Inl _ \<Rightarrow>
          (case st_CreateUser S username ''$2a$10$OIDC.USER.NO.PASSWORD.REQUIRED'' [''repository:*:pull'', ''repository:*:push''] s of
             (Inl e, s') \<Rightarrow> (Inl (WrapErr ''failed to create user'' e), s')
           | (Inr _, s') \<Rightarrow>
               (case st_GetUserByUsername S username s' of
                  Inl e \<Rightarrow> (Inl (WrapErr ''failed to retrieve created user'' e), s')
                | Inr u \<Rightarrow> (Inr u, s'))))"

definition tenant_entry :: access_entry where
  "tenant_entry = \<lparr>ae_type = ''repository'', ae_name = ''*'', ae_actions = [''pull'', ''push'']\<rparr>"

definition oidc_access :: "user \<Rightarrow> access_entry list" where
  "oidc_access u = (if us_scopes u = [] then [tenant_entry] else map (\<lambda>_. tenant_entry) (us_scopes u))"

definition oidc_claims ::
  "('k, 'd) tenant_login_env \<Rightarrow> oidc_row \<Rightarrow> request \<Rightarrow> response + (string \<times> json) list" where
  "oidc_claims E c req =
     (let code = rq_query req ''code'' in
      if code = [] then Inl (http_error [] ''Missing authorization code'' 400)
      else (case tl_exchange E c code (tl_base E @ ''/auth/oidc/callback'') of
              Inl _ \<Rightarrow> Inl (http_error [] ''Failed to exchange code for token'' 500)
            | Inr None \<Rightarrow> Inl (http_error [] ''No ID token returned'' 500)
            | Inr (Some raw) \<Rightarrow>
                (case ValidateIDToken (tl_parse E) (tl_floor E) (tl_now E) c raw of
                   Inl _ \<Rightarrow> Inl (http_error [] ''Invalid ID token'' 401)
                 | Inr cl \<Rightarrow> Inr cl)))"

definition oidc_finish ::
  "('k, 'd) tenant_login_env \<Rightarrow> oidc_session \<Rightarrow> string \<Rightarrow> 'd \<Rightarrow> (response \<times> oidc_session option) \<times> 'd" where
  "oidc_finish E ses username s =
     (case getOrCreateUserFromOIDC (tl_store E) username s of
        (Inl _, s') \<Rightarrow> ((http_error [] ''Failed to authenticate user'' 500, None), s')
      | (Inr user, s') \<Rightarrow>
          (case GenerateToken (tl_jwt E) (tl_ts E) (tl_now E) username (oidc_access user) of
             Inl _ \<Rightarrow> ((http_error [] ''Failed to issue token'' 500, None), s')
           | Inr token \<Rightarrow>
               ((reply 200 json_type (JsonDoc (JObj [(''expires'', doc_int (tl_now E + 86400)), (''token'', JStr token), (''username'', JStr username)])),
                 Some (ses\<lparr>os_access_token := token, os_username := username, os_user := int (us_id user)\<rparr>)), s')))"

definition handleOIDCCallback ::
  "('k, 'd) tenant_login_env \<Rightarrow> request \<Rightarrow> tenancy_db \<Rightarrow> 'd \<Rightarrow> (response \<times> oidc_session option) \<times> 'd" where
  "handleOIDCCallback E req ts s =
     (case tl_session E req of
        Inl _ \<Rightarrow> ((http_error [] ''Invalid session'' 400, None), s)
      | Inr ses \<Rightarrow>
          (if os_state ses = [] \<or> os_state ses \<noteq> rq_query req ''state'' then ((http_error [] ''Invalid state parameter'' 400, None), s)
           else (case GetOIDCConfig (os_config ses) ts of
                   Inl _ \<Rightarrow> ((http_error [] ''OIDC configuration not found'' 500, None), s)
                 | Inr c \<Rightarrow>
                     (case oidc_claims E c req of
                        Inl r \<Rightarrow> ((r, None), s)
                      | Inr cl \<Rightarrow>
                          (case obj_get cl (or_user_claim c) of
                             Some (JStr username) \<Rightarrow> oidc_finish E ses username s
                           | _ \<Rightarrow> ((http_error [] ''Username claim not found in ID token'' 500, None), s))))))"

text \<open>The second component says that the session is ended.\<close>

definition handleOIDCLogout :: "('k, 'd) tenant_login_env \<Rightarrow> request \<Rightarrow> response \<times> bool" where
  "handleOIDCLogout E req =
     (reply 200 [] (JsonDoc (JObj [(''message'', JStr ''Logged out successfully'')])),
      case tl_session E req of Inl _ \<Rightarrow> False | Inr _ \<Rightarrow> True)"

end
