(* ===== verification/Apt.thy ===== *)
theory Apt
  imports Formats
begin

text \<open>
  The APT repository, \<^verbatim>\<open>internal/api/formats/apt/apt.go\<close>: scanning the \<^verbatim>\<open>ar\<close> archive of a Debian package for its
  control archive, reading the control file, and the uploads, indices and downloads.
\<close>

subsection \<open>The ar archive\<close>

definition slice :: "bytes \<Rightarrow> int \<Rightarrow> int \<Rightarrow> bytes" where
  "slice b i n = take (nat n) (drop (nat i) b)"

datatype ar_result = ArData bytes | ArErr err | ArPanic

definition ar_magic :: string where
  "ar_magic = ''!<arch>'' @ [CHR 0x0A]"

text \<open>
  One step of the scan at an offset: the loop ends, or goes on at the offset after the member. The size of a member
  is whatever number its header gives: a negative one makes the slice of the control archive panic, leads back to an
  earlier offset, or to a negative one, where the slice of the header panics.
\<close>

definition ar_step :: "bytes \<Rightarrow> int \<Rightarrow> ar_result + int" where
  "ar_step payload offset =
     (let n = int (length payload) in
      if \<not> offset < n \<or> n < offset + 60 then Inl (ArErr (ErrText ''control.tar.gz not found''))
      else if offset < 0 then Inl ArPanic
      else
        (let name = TrimSpace (slice payload offset 16); sizeStr = TrimSpace (slice payload (offset + 48) 10); body = offset + 60 in
         case ParseInt sizeStr of
           None \<Rightarrow> Inl (ArErr (ErrText (''strconv.Atoi: parsing '' @ sizeStr)))
         | Some sz \<Rightarrow>
             (if name = ''control.tar.gz''
              then Inl (if n < body + sz then ArErr (ErrText ''corrupted ar archive'')
                        else if sz < 0 then ArPanic else ArData (slice payload body sz))
              else Inr (body + sz + (if odd sz then 1 else 0)))))"

text \<open>The scan need not end; \<^const>\<open>None\<close> means that it does not.\<close>

partial_function (option) ar_scan :: "bytes \<Rightarrow> int \<Rightarrow> ar_result option" where
  "ar_scan payload offset =
     (case ar_step payload offset of Inl r \<Rightarrow> Some r | Inr offset' \<Rightarrow> ar_scan payload offset')"

definition extractControlDotTarDotGz :: "bytes \<Rightarrow> ar_result option" where
  "extractControlDotTarDotGz payload =
     (if \<not> HasPrefix payload ar_magic then Some (ArErr (ErrText ''not an ar archive'')) else ar_scan payload 8)"

subsection \<open>The control file\<close>

text \<open>The map of properties: a later line for a key replaces the value; a line that starts with a blank continues the
  value of the key before it.\<close>

fun parse_control :: "string list \<Rightarrow> string \<Rightarrow> (string \<times> string) list \<Rightarrow> (string \<times> string) list" where
  "parse_control [] lastKey props = props"
| "parse_control (line # ls) lastKey props =
     (case line of
        [] \<Rightarrow> parse_control ls lastKey props
      | c # _ \<Rightarrow>
          (if c = CHR '' '' \<or> c = CHR 0x09
           then parse_control ls lastKey
                  (if lastKey = [] then props
                   else AList.update lastKey ((case map_of props lastKey of None \<Rightarrow> [] | Some v \<Rightarrow> v) @ [CHR 0x0A] @ line) props)
           else (case SplitN line CHR '':'' 2 of
                   [k, v] \<Rightarrow> parse_control ls (TrimSpace k) (AList.update (TrimSpace k) (TrimSpace v) props)
                 | _ \<Rightarrow> parse_control ls lastKey props)))"

text \<open>The first file whose name ends in \<^verbatim>\<open>control\<close>.\<close>

fun find_control :: "(string \<times> bytes option) list \<Rightarrow> (string \<times> string) list option" where
  "find_control [] = None"
| "find_control ((name, content) # fs) =
     (if HasSuffix name ''control''
      then map_option (\<lambda>c. parse_control (Split c CHR 0x0A) [] []) content
      else find_control fs)"

definition parseControlFromTarGz :: "pkg_libs \<Rightarrow> bytes \<Rightarrow> (string \<times> string) list option" where
  "parseControlFromTarGz L dat = Option.bind (pl_gunzip L dat) (\<lambda>(fs, ended). find_control fs)"

definition dcf :: "(string \<times> string) list \<Rightarrow> string \<Rightarrow> string" where
  "dcf ps k = (case map_of ps k of None \<Rightarrow> [] | Some v \<Rightarrow> v)"

subsection \<open>Uploads\<close>

text \<open>\<^verbatim>\<open>string(b)\<close> of a byte is the encoding of the character of that number.\<close>

definition byte_string :: "char \<Rightarrow> string" where
  "byte_string c =
     (let b = (of_char c :: nat) in if b < 128 then [c] else [char_of (192 + b div 64), char_of (128 + b mod 64)])"

definition apt_filename :: "(string \<times> string) list \<Rightarrow> string" where
  "apt_filename ps = dcf ps ''Package'' @ ''_'' @ dcf ps ''Version'' @ ''_'' @
     (if dcf ps ''Architecture'' = [] then ''amd64'' else dcf ps ''Architecture'') @ ''.deb''"

definition apt_poolPath :: "(string \<times> string) list \<Rightarrow> string" where
  "apt_poolPath ps = ''pool/main/'' @ byte_string (hd (dcf ps ''Package'')) @ ''/'' @ dcf ps ''Package'' @ ''/'' @ apt_filename ps"

definition apt_record :: "pkg_libs \<Rightarrow> bytes \<Rightarrow> string \<Rightarrow> (string \<times> string) list \<Rightarrow> (string \<times> string) list" where
  "apt_record L payload codename ps =
     fold (\<lambda>(k, v). AList.update k v)
       [(''Size'', FormatInt (int (length payload))), (''MD5sum'', pl_md5 L payload), (''SHA256'', pl_sha256 L payload),
        (''Filename'', apt_poolPath ps), (''Codename'', codename)] ps"

definition props_json :: "(string \<times> string) list \<Rightarrow> json" where
  "props_json ps = JObj (sort_key fst (map (\<lambda>(k, v). (k, JStr v)) ps))"

definition apt_codename :: "request \<Rightarrow> string" where
  "apt_codename req = (if rq_query req ''codename'' = [] then ''stable'' else rq_query req ''codename'')"

text \<open>The upload of a payload that has been read; \<^const>\<open>None\<close> when the scan of the archive does not end.\<close>

definition apt_store ::
  "('s, 'w, 'd) formats \<Rightarrow> request \<Rightarrow> bytes \<Rightarrow> (string \<times> string) list \<Rightarrow> ('s, 'd) world \<Rightarrow> response \<times> ('s, 'd) world" where
  "apt_store F req payload ps w =
     (let L = fo_lib F; ps' = apt_record L payload (apt_codename req) ps in
      case as_CreateArtifact (fo_db F) (new_artifact ''apt'' ''default'' (dcf ps ''Package'') (dcf ps ''Version'')
             (pl_marshal L (props_json ps'))) (wd_db w) of
        (Inl e, d1) \<Rightarrow> (http_error [] ''Failed to record artifact index'' 500, w\<lparr>wd_db := d1\<rparr>)
      | (Inr artifactID, d1) \<Rightarrow>
          (case save_file (fo_storage F) (path_Join [''apt'', ''default'', apt_poolPath ps]) ([payload], EOF) (wd_st w) of
             (NotOpened _, s1) \<Rightarrow> (http_error [] ''Storage failed'' 500, w\<lparr>wd_st := s1, wd_db := d1\<rparr>)
           | (_, s1) \<Rightarrow>
               (case as_AttachBlob (fo_db F) artifactID (pl_sha256 L payload) (apt_filename ps) d1 of
                  (Inl e, d2) \<Rightarrow> (http_error [] ''Failed attaching blob data'' 500, w\<lparr>wd_st := s1, wd_db := d2\<rparr>)
                | (Inr _, d2) \<Rightarrow> (reply 201 [] (Data (''Uploaded successfully as '' @ apt_poolPath ps)), w\<lparr>wd_st := s1, wd_db := d2\<rparr>))))"

definition apt_uploadPackage ::
  "('s, 'w, 'd) formats \<Rightarrow> request \<Rightarrow> ('s, 'd) world \<Rightarrow> (outcome \<times> ('s, 'd) world) option" where
  "apt_uploadPackage F req w =
     (case read_limited 524288000 (body_of req) of
        Inl e \<Rightarrow> Some (Respond (http_error [] ''Error reading upload'' 400), w)
      | Inr payload \<Rightarrow>
          map_option (\<lambda>r.
            case r of
              ArPanic \<Rightarrow> (Panic, w)
            | ArErr e \<Rightarrow> (Respond (http_error [] (''Invalid debian package / parsing error: '' @ err_msg e) 400), w)
            | ArData controlData \<Rightarrow>
                (case parseControlFromTarGz (fo_lib F) controlData of
                   None \<Rightarrow> (Respond (http_error [] ''Missing or invalid control file inside package'' 400), w)
                 | Some ps \<Rightarrow>
                     (if dcf ps ''Package'' = [] then (Respond (http_error [] ''Missing or invalid control file inside package'' 400), w)
                      else (case apt_store F req payload ps w of (resp, w') \<Rightarrow> (Respond resp, w')))))
            (extractControlDotTarDotGz payload))"

subsection \<open>Indices and downloads\<close>

text \<open>Decoding into a map of strings.\<close>

definition props_of_json :: "json \<Rightarrow> (string \<times> string) list option" where
  "props_of_json j =
     Option.bind (members j) (\<lambda>kvs. map_option (\<lambda>ps. fold (\<lambda>(k, v). AList.update k v) ps []) (map_values (set_string []) kvs))"

definition apt_keys :: "string list" where
  "apt_keys = [''Package'', ''Version'', ''Architecture'', ''Maintainer'', ''Depends'', ''Description'', ''Filename'', ''Size'', ''MD5sum'', ''SHA256'']"

definition apt_stanza :: "(string \<times> string) list \<Rightarrow> string" where
  "apt_stanza ps = concat (map (\<lambda>k. case map_of ps k of None \<Rightarrow> [] | Some v \<Rightarrow> k @ '': '' @ v @ nl) apt_keys) @ nl"

definition apt_listed :: "string \<Rightarrow> string \<Rightarrow> (string \<times> string) list \<Rightarrow> bool" where
  "apt_listed codename arch ps \<longleftrightarrow> dcf ps ''Codename'' = codename \<and> (dcf ps ''Architecture'' = ''all'' \<or> dcf ps ''Architecture'' = arch)"

text \<open>An error of the store gives an empty index.\<close>

definition buildPackagesManifest :: "('s, 'w, 'd) formats \<Rightarrow> string \<Rightarrow> string \<Rightarrow> 'd \<Rightarrow> bytes" where
  "buildPackagesManifest F codename arch d =
     (case as_SearchArtifacts (fo_db F) ''apt'' ''default'' d of
        Inl _ \<Rightarrow> []
      | Inr arts \<Rightarrow>
          concat (map apt_stanza (filter (apt_listed codename arch)
            (List.map_filter (\<lambda>a. Option.bind (Option.bind (ua_meta a) (pl_json (fo_lib F))) props_of_json) arts))))"

definition apt_getPackages :: "('s, 'w, 'd) formats \<Rightarrow> string \<Rightarrow> string \<Rightarrow> 'd \<Rightarrow> response" where
  "apt_getPackages F codename arch d = reply 200 [(''Content-Type'', ''text/plain'')] (Data (buildPackagesManifest F codename arch d))"

definition apt_getPackagesGz :: "('s, 'w, 'd) formats \<Rightarrow> string \<Rightarrow> string \<Rightarrow> 'd \<Rightarrow> response" where
  "apt_getPackagesGz F codename arch d =
     reply 200 [(''Content-Type'', ''application/x-gzip'')] (Data (pl_gzip (fo_lib F) (buildPackagesManifest F codename arch d)))"

text \<open>\<^verbatim>\<open>%30d\<close>.\<close>

definition pad30 :: "int \<Rightarrow> string" where
  "pad30 n = (let s = FormatInt n in replicate (30 - length s) CHR '' '' @ s)"

definition release_line :: "string \<Rightarrow> bytes \<Rightarrow> string \<Rightarrow> string" where
  "release_line hash content name = '' '' @ hash @ '' '' @ pad30 (int (length content)) @ '' main/binary-amd64/'' @ name"

definition apt_getRelease :: "('s, 'w, 'd) formats \<Rightarrow> string \<Rightarrow> 'd \<Rightarrow> response" where
  "apt_getRelease F codename d =
     (let L = fo_lib F; raw = buildPackagesManifest F codename ''amd64'' d; gz = pl_gzip L raw;
          ls = [''Origin: ADS Registry'', ''Label: ADS'', ''Codename: '' @ codename, ''Architectures: amd64'', ''Components: main'',
                 ''Description: Ads Universal Artifact Registry'',
                 ''MD5Sum:'', release_line (pl_md5 L raw) raw ''Packages'', release_line (pl_md5 L gz) gz ''Packages.gz'',
                 ''SHA256:'', release_line (pl_sha256 L raw) raw ''Packages'', release_line (pl_sha256 L gz) gz ''Packages.gz'']
      in reply 200 [(''Content-Type'', ''text/plain'')] (Data (Join ls CHR 0x0A @ nl)))"

definition apt_downloadPackage :: "('s, 'w, 'd) formats \<Rightarrow> string \<Rightarrow> string \<Rightarrow> string \<Rightarrow> 's \<Rightarrow> response" where
  "apt_downloadPackage F pre pkgName filename s =
     (case pv_Reader (fo_storage F) (path_Join [''apt'', ''default'', ''pool/main/'' @ pre @ ''/'' @ pkgName @ ''/'' @ filename]) 0 s of
        Inl _ \<Rightarrow> http_error [] ''Not found'' 404
      | Inr rd \<Rightarrow> send_object ''application/vnd.debian.binary-package'' rd)"

subsection \<open>When the scan ends\<close>

lemma slice_set: "set (slice b i n) \<subseteq> set b"
  by (auto simp: slice_def dest!: in_set_takeD in_set_dropD)

lemma TrimSpace_set: "set (TrimSpace s) \<subseteq> set s"
  by (auto simp: TrimSpace_def dest!: set_dropWhileD)

lemma ParseInt_nonneg:
  assumes "CHR ''-'' \<notin> set s" "ParseInt s = Some n"
  shows "0 \<le> n"
proof -
  have "\<not> HasPrefix s ''-''" using assms(1) by (auto simp: HasPrefix_iff)
  with assms(2) show ?thesis by (auto simp: ParseInt_def Let_def split: if_splits)
qed

lemma ar_step_forward:
  assumes "CHR ''-'' \<notin> set payload" "0 \<le> offset"
  shows "case ar_step payload offset of Inl r \<Rightarrow> r \<noteq> ArPanic | Inr offset' \<Rightarrow> offset < offset' \<and> offset < int (length payload)"
proof -
  let ?z = "TrimSpace (slice payload (offset + 48) 10)"
  have "CHR ''-'' \<notin> set ?z" using assms(1) slice_set [of payload] TrimSpace_set [of "slice payload (offset + 48) 10"] by blast
  then have "0 \<le> sz" if "ParseInt ?z = Some sz" for sz using that ParseInt_nonneg by blast
  with assms(2) show ?thesis by (auto simp: ar_step_def Let_def split: option.split)
qed

lemma ar_scan_ends:
  assumes "CHR ''-'' \<notin> set payload"
  shows "0 \<le> offset \<Longrightarrow> \<exists>r. ar_scan payload offset = Some r \<and> r \<noteq> ArPanic"
proof (induction "nat (int (length payload) - offset)" arbitrary: offset rule: less_induct)
  case less
  note st = ar_step_forward [OF assms less.prems]
  show ?case
  proof (cases "ar_step payload offset")
    case (Inl r)
    with st show ?thesis by (subst ar_scan.simps) simp
  next
    case (Inr offset')
    with st have "offset < offset'" "offset < int (length payload)" by auto
    then have "nat (int (length payload) - offset') < nat (int (length payload) - offset)" "0 \<le> offset'"
      using less.prems by auto
    from less.hyps [OF this] Inr show ?thesis by (subst ar_scan.simps) simp
  qed
qed


lemma ar_scan_stuck: "ar_step payload offset = Inr offset \<Longrightarrow> ar_scan payload offset = None"
proof (rule ccontr)
  assume st: "ar_step payload offset = Inr offset" and "ar_scan payload offset \<noteq> None"
  then obtain r where "ar_scan payload offset = Some r" by auto
  then have "ar_step payload offset \<noteq> Inr offset"
  proof (rule ar_scan.raw_induct [where P = "\<lambda>b i r. ar_step b i \<noteq> Inr i", rotated])
    fix scan b i r
    assume IH: "\<And>b i r. scan b i = Some r \<Longrightarrow> ar_step b i \<noteq> Inr i"
      and run: "(case ar_step b i of Inl x \<Rightarrow> Some x | Inr j \<Rightarrow> scan b j) = Some r"
    show "ar_step b i \<noteq> Inr i"
    proof
      assume "ar_step b i = Inr i"
      with run IH [of b i r] show False by simp
    qed
  qed
  with st show False by simp
qed

text \<open>
  A member whose header gives the size -60 leads the scan back to itself: the upload of such a package is never
  answered, whatever the store and the storage do, and the request occupies the server for good.
\<close>

theorem apt_upload_never_answers:
  assumes "read_limited 524288000 (body_of req) = Inr payload" "HasPrefix payload ar_magic" "68 \<le> length payload"
    and "TrimSpace (slice payload 8 16) \<noteq> ''control.tar.gz''" "TrimSpace (slice payload 56 10) = ''-60''"
  shows "apt_uploadPackage F req w = None"
proof -
  have "ParseInt ''-60'' = Some (- 60)" by code_simp
  then have "ar_step payload 8 = Inr 8" using assms(3-5) by (simp add: ar_step_def Let_def)
  then have "ar_scan payload 8 = None" by (rule ar_scan_stuck)
  with assms(1,2) show ?thesis by (simp add: apt_uploadPackage_def extractControlDotTarDotGz_def)
qed

subsection \<open>Concrete packages\<close>

definition ar_header :: "string \<Rightarrow> string \<Rightarrow> string" where
  "ar_header name sz = name @ replicate (16 - length name) CHR '' '' @ replicate 32 CHR ''0'' @ sz @ replicate (10 - length sz) CHR '' '' @ ''x'' @ [CHR 0x0A]"

definition small_deb :: bytes where
  "small_deb = ar_magic @ ar_header ''debian.binary'' ''4'' @ ''2.0x'' @ ar_header ''control.tar.gz'' ''2'' @ ''ab''"

lemma small_deb_scan: "ar_scan small_deb 8 = Some (ArData ''ab'')"
proof -
  have "ar_step small_deb 8 = Inr 72" "ar_step small_deb 72 = Inl (ArData ''ab'')" by code_simp+
  then show ?thesis by (simp add: ar_scan.simps [of small_deb 8] ar_scan.simps [of small_deb 72])
qed


definition looping_deb :: request where
  "looping_deb = with_body (plain_request ''POST'' ''/repository/apt/upload'' []) [ar_magic @ ar_header ''debian.binary'' ''-60'']"

theorem apt_upload_never_answers_witness: "\<forall>(F :: (mem, mem_writer, pkg_db) formats) w. apt_uploadPackage F looping_deb w = None"
proof (intro allI, rule apt_upload_never_answers [where payload = "ar_magic @ ar_header ''debian.binary'' ''-60''"])
  have "length (ar_magic @ ar_header ''debian.binary'' ''-60'') = 68" by code_simp
  then show "read_limited 524288000 (body_of looping_deb) = Inr (ar_magic @ ar_header ''debian.binary'' ''-60'')"
      "68 \<le> length (ar_magic @ ar_header ''debian.binary'' ''-60'')"
    by (simp_all add: looping_deb_def with_body_def body_of_def read_limited_def del: length_append)
qed (code_simp+)

end
