(* ===== verification/Formats_Rest.thy ===== *)
theory Formats_Rest
  imports Formats
begin

text \<open>
  Composer, CocoaPods and Homebrew under \<^verbatim>\<open>internal/api/formats\<close>, and the artifact API of
  \<^verbatim>\<open>internal/api/artifacts/handler.go\<close>. An assertion of a type that does not hold and an assignment to a nil map panic.
\<close>

subsection \<open>Composer: internal/api/formats/composer/composer.go\<close>

definition composer_packagesJson :: "request \<Rightarrow> response" where
  "composer_packagesJson req =
     (let url = JStr (base_url req ''composer'' @ ''/p2/%package%.json'')
      in reply 200 json_type (JsonDoc (JObj [(''metadata-url'', url), (''packages'', JArr []), (''providers-url'', url)])))"

definition composer_dist :: "request \<Rightarrow> string \<Rightarrow> artifact_blob \<Rightarrow> json" where
  "composer_dist req fullPkgName b =
     JObj [(''reference'', JStr (ab_digest b)), (''shasum'', JStr (ab_digest b)), (''type'', JStr ''zip''),
           (''url'', JStr (base_url req ''composer'' @ ''/dists/'' @ fullPkgName @ ''/'' @ ab_name b))]"

text \<open>The stored document of a version with the first file, the version and the time put in; \<^verbatim>\<open>null\<close> decodes to a nil map,
  in which nothing can be put.\<close>

datatype 'a go_value = Val 'a | Skipped | Panics

definition composer_version :: "pkg_libs \<Rightarrow> request \<Rightarrow> string \<Rightarrow> universal_artifact \<Rightarrow> (string \<times> json) go_value" where
  "composer_version L req fullPkgName a =
     (case Option.bind (ua_meta a) (pl_json L) of
        Some JNull \<Rightarrow> Panics
      | Some (JObj doc) \<Rightarrow>
          (let doc1 = (case ua_blobs a of [] \<Rightarrow> doc | b # _ \<Rightarrow> put_field ''dist'' (composer_dist req fullPkgName b) doc)
           in Val (ua_version a, JObj (put_field ''time'' (JStr (pl_rfc L (ua_created a)))
                (put_field ''version'' (JStr (ua_version a)) doc1))))
      | _ \<Rightarrow> Skipped)"

definition composer_packageMetadata :: "('s, 'w, 'd) formats \<Rightarrow> request \<Rightarrow> string \<Rightarrow> string \<Rightarrow> 'd \<Rightarrow> outcome" where
  "composer_packageMetadata F req vendor pkg d =
     (let fullPkgName = vendor @ ''/'' @ pkg in
      case as_ListArtifacts (fo_db F) ''composer'' ''default'' fullPkgName d of
        Inl e \<Rightarrow> Respond (http_error [] (err_msg e) 500)
      | Inr arts \<Rightarrow>
          (if arts = [] then Respond (reply 404 [] (JsonDoc (JObj [(''packages'', JObj [])])))
           else (let vs = map (composer_version (fo_lib F) req fullPkgName) arts in
                 if Panics \<in> set vs then Panic
                 else Respond (reply 200 json_type (JsonDoc (JObj [(''packages'', JObj [(fullPkgName,
                        json_map (List.map_filter (\<lambda>v. case v of Val x \<Rightarrow> Some x | _ \<Rightarrow> None) vs))])]))))))"

definition composer_downloadDist :: "('s, 'w, 'd) formats \<Rightarrow> string \<Rightarrow> string \<Rightarrow> string \<Rightarrow> 's \<Rightarrow> response" where
  "composer_downloadDist F vendor pkg filename s =
     (case pv_Reader (fo_storage F) (path_Join [''composer'', ''default'', vendor @ ''/'' @ pkg, filename]) 0 s of
        Inl _ \<Rightarrow> status 404
      | Inr rd \<Rightarrow> send_object ''application/zip'' rd)"

text \<open>The first file whose name ends in \<^verbatim>\<open>composer.json\<close> and whose content is an object or \<^verbatim>\<open>null\<close>.\<close>

fun find_composer :: "pkg_libs \<Rightarrow> (string \<times> bytes option) list \<Rightarrow> (string \<times> json) list option" where
  "find_composer L [] = None"
| "find_composer L ((name, content) # fs) =
     (if HasSuffix name ''composer.json''
      then (case Option.bind (Option.bind content (pl_json L)) members of None \<Rightarrow> find_composer L fs | Some doc \<Rightarrow> Some doc)
      else find_composer L fs)"

definition composer_save ::
  "('s, 'w, 'd) formats \<Rightarrow> bytes \<Rightarrow> string \<Rightarrow> string \<Rightarrow> (string \<times> json) list \<Rightarrow> ('s, 'd) world \<Rightarrow> response \<times> ('s, 'd) world" where
  "composer_save F zipData pkgName version doc w =
     (let L = fo_lib F; shaHex = pl_sha256 L zipData;
          filename = filepath_Base pkgName @ ''-'' @ version @ ''-'' @ take 8 shaHex @ ''.zip'' in
      case as_CreateArtifact (fo_db F) (new_artifact ''composer'' ''default'' pkgName version (pl_marshal L (JObj doc))) (wd_db w) of
        (Inl e, d1) \<Rightarrow> (http_error [] ''Failed to persist artifact'' 500, w\<lparr>wd_db := d1\<rparr>)
      | (Inr artifactID, d1) \<Rightarrow>
          (case save_file (fo_storage F) (path_Join [''composer'', ''default'', pkgName, filename]) ([zipData], EOF) (wd_st w) of
             (NotOpened _, s1) \<Rightarrow> (http_error [] ''Failed to allocate blob storage'' 500, w\<lparr>wd_st := s1, wd_db := d1\<rparr>)
           | (_, s1) \<Rightarrow>
               (case as_AttachBlob (fo_db F) artifactID shaHex filename d1 of
                  (Inl e, d2) \<Rightarrow> (http_error [] ''Failed attaching blob'' 500, w\<lparr>wd_st := s1, wd_db := d2\<rparr>)
                | (Inr _, d2) \<Rightarrow> (reply 201 [] (Data (''PHP package '' @ pkgName @ '' version '' @ version @ '' saved'')),
                                 w\<lparr>wd_st := s1, wd_db := d2\<rparr>))))"

definition composer_uploadPackage ::
  "('s, 'w, 'd) formats \<Rightarrow> request \<Rightarrow> ('s, 'd) world \<Rightarrow> outcome \<times> ('s, 'd) world" where
  "composer_uploadPackage F req w =
     (let L = fo_lib F in
      case pl_form L req of
        None \<Rightarrow> (Respond (http_error [] ''Unable to parse form'' 400), w)
      | Some fm \<Rightarrow>
          (case fm_file fm ''package'' of
             None \<Rightarrow> (Respond (http_error [] ''ZIP package is required'' 400), w)
           | Some (_, content) \<Rightarrow>
               (case read_limited (nat maxUploadBytes) content of
                  Inl e \<Rightarrow> (Respond (http_error [] ''Error reading upload'' 500), w)
                | Inr zipData \<Rightarrow>
                    (case pl_unzip L zipData of
                       None \<Rightarrow> (Respond (http_error [] ''Invalid ZIP archive'' 400), w)
                     | Some fs \<Rightarrow>
                         (case find_composer L fs of
                            None \<Rightarrow> (Respond (http_error [] ''composer.json not found inside zip'' 400), w)
                          | Some doc \<Rightarrow>
                              (case obj_get doc ''name'' of
                                 None \<Rightarrow> (Respond (http_error [] ''composer.json is missing 'name' field'' 400), w)
                               | Some (JStr pkgName) \<Rightarrow>
                                   (case obj_get doc ''version'' of
                                      Some (JStr version) \<Rightarrow>
                                        (case composer_save F zipData pkgName version doc w of (r, w') \<Rightarrow> (Respond r, w'))
                                    | Some _ \<Rightarrow> (Panic, w)
                                    | None \<Rightarrow>
                                        (let version = fm_value fm ''version'' in
                                         if version = []
                                         then (Respond (http_error [] ''composer.json is missing 'version' and no form 'version' provided'' 400), w)
                                         else (case composer_save F zipData pkgName version (put_field ''version'' (JStr version) doc) w of
                                                 (r, w') \<Rightarrow> (Respond r, w'))))
                               | Some _ \<Rightarrow> (Panic, w)))))))"

subsection \<open>CocoaPods: internal/api/formats/cocoapods/cocoapods.go\<close>

definition pods_allPodsIndex :: "('s, 'w, 'd) formats \<Rightarrow> 'd \<Rightarrow> response" where
  "pods_allPodsIndex F d =
     (case as_SearchArtifacts (fo_db F) ''cocoapods'' ''default'' d of
        Inl e \<Rightarrow> http_error [] (err_msg e) 500
      | Inr arts \<Rightarrow> reply 200 [(''Content-Type'', ''text/plain; charset=utf-8'')]
                     (Data (concat (map (\<lambda>n. n @ nl) (remdups (map ua_pkg arts))))))"

definition pods_podSpecView :: "('s, 'w, 'd) formats \<Rightarrow> string \<Rightarrow> 'd \<Rightarrow> response" where
  "pods_podSpecView F path d =
     (let parts = Split path CHR ''/'' in
      if length parts < 3 then http_error [] ''Invalid Spec path'' 400
      else
        (let fileName = last parts in
         if \<not> HasSuffix fileName ''.podspec.json'' then status 404
         else (case as_GetArtifact (fo_db F) ''cocoapods'' ''default'' (TrimSuffix fileName ''.podspec.json'')
                      (parts ! (length parts - 2)) d of
                 Inl _ \<Rightarrow> status 404
               | Inr a \<Rightarrow> (case ua_meta a of None \<Rightarrow> status 404 | Some m \<Rightarrow> reply 200 json_type (Data m)))))"

text \<open>The attached archive is stored before anything is recorded; the address of the pod is replaced only if the file
  could be opened. A copy that fails is taken for complete.\<close>

definition pods_tarball ::
  "('s, 'w, 'd) formats \<Rightarrow> request \<Rightarrow> form \<Rightarrow> string \<Rightarrow> string \<Rightarrow> (string \<times> json) list \<Rightarrow> 's \<Rightarrow> (bytes \<times> string \<times> string) \<times> 's" where
  "pods_tarball F req fm podName version spec s =
     (let L = fo_lib F in
      case fm_file fm ''tarball'' of
        None \<Rightarrow> ((fm_value fm ''podspec'', [], []), s)
      | Some (origName, content) \<Rightarrow>
          (let filename = podName @ ''-'' @ version @ ''-'' @ origName; path = path_Join [''cocoapods'', ''default'', podName, filename] in
           case save_file (fo_storage F) path content s of
             (NotOpened _, s1) \<Rightarrow> ((fm_value fm ''podspec'', [], filename), s1)
           | (_, s1) \<Rightarrow>
               ((pl_marshal L (JObj (put_field ''source'' (JObj [(''http'', JStr (base_url req ''cocoapods'' @ ''/tarballs/'' @ filename))]) spec)),
                 pl_sha256 L (tee_file (fo_storage F) path content s), filename), s1)))"

definition pods_uploadPod ::
  "('s, 'w, 'd) formats \<Rightarrow> request \<Rightarrow> ('s, 'd) world \<Rightarrow> response \<times> ('s, 'd) world" where
  "pods_uploadPod F req w =
     (let L = fo_lib F in
      case pl_form L req of
        None \<Rightarrow> (http_error [] ''Invalid upload format'' 400, w)
      | Some fm \<Rightarrow>
          (if fm_value fm ''podspec'' = [] then (http_error [] ''podspec text parameter is required'' 400, w)
           else (case Option.bind (pl_json L (fm_value fm ''podspec'')) members of
                   None \<Rightarrow> (http_error [] ''Invalid JSON podspec'' 400, w)
                 | Some spec \<Rightarrow>
                     (let podName = (case str_field spec ''name'' of None \<Rightarrow> [] | Some n \<Rightarrow> n);
                          version = (case str_field spec ''version'' of None \<Rightarrow> [] | Some v \<Rightarrow> v) in
                      if podName = [] \<or> version = [] then (http_error [] ''podspec missing name or version'' 400, w)
                      else (case pods_tarball F req fm podName version spec (wd_st w) of
                              ((specJson, sha2Hex, filename), s1) \<Rightarrow>
                                (case as_CreateArtifact (fo_db F) (new_artifact ''cocoapods'' ''default'' podName version specJson) (wd_db w) of
                                   (Inl e, d1) \<Rightarrow> (http_error [] ''DB error'' 500, w\<lparr>wd_st := s1, wd_db := d1\<rparr>)
                                 | (Inr artifactID, d1) \<Rightarrow>
                                     (let d2 = (if sha2Hex \<noteq> [] \<and> filename \<noteq> []
                                                then snd (as_AttachBlob (fo_db F) artifactID sha2Hex filename d1) else d1)
                                      in (reply 201 [] (Data (''{'' @ dq @ ''success'' @ dq @ '': true, '' @ dq @ ''pod'' @ dq @ '': '' @ dq @ podName @
                                            dq @ '', '' @ dq @ ''version'' @ dq @ '': '' @ dq @ version @ dq @ ''}'')),
                                          w\<lparr>wd_st := s1, wd_db := d2\<rparr>))))))))"

definition pods_downloadTarball :: "('s, 'w, 'd) formats \<Rightarrow> string \<Rightarrow> 's \<Rightarrow> response" where
  "pods_downloadTarball F filename s =
     (let parts = Split filename CHR ''-'' in
      if length parts < 3 then status 404
      else (case pv_Reader (fo_storage F) (path_Join [''cocoapods'', ''default'', hd parts, filename]) 0 s of
              Inl _ \<Rightarrow> status 404
            | Inr rd \<Rightarrow> send_object ''application/x-gzip'' rd))"

subsection \<open>Homebrew: internal/api/formats/brew/brew.go\<close>

text \<open>The map under a key that must hold a map.\<close>

definition brew_formula :: "pkg_libs \<Rightarrow> request \<Rightarrow> string \<Rightarrow> universal_artifact \<Rightarrow> json option" where
  "brew_formula L req formulaName a =
     (case (case ua_meta a of None \<Rightarrow> Some [] | Some m \<Rightarrow> Option.bind (pl_json L m) as_obj) of
        None \<Rightarrow> None
      | Some fm0 \<Rightarrow>
          (let fm1 = put_field ''versions'' (JObj [(''head'', JStr (ua_version a)), (''stable'', JStr (ua_version a))])
                       (put_field ''name'' (JStr formulaName) fm0);
               fm2 = (if obj_get fm1 ''bottle'' = None
                      then put_field ''bottle'' (JObj [(''stable'', JObj [(''files'', JObj [])])]) fm1 else fm1) in
           Option.bind (obj_field fm2 ''bottle'') (\<lambda>bottle.
             Option.bind (obj_field bottle ''stable'') (\<lambda>stable.
               let stable1 = (if obj_get stable ''files'' = None then put_field ''files'' (JObj []) stable else stable) in
               map_option (\<lambda>files.
                   let files1 = fold (\<lambda>b fs. put_field ''all'' (JObj [(''sha256'', JStr (ab_digest b)),
                                   (''url'', JStr (base_url req ''brew'' @ ''/'' @ ab_name b))]) fs) (ua_blobs a) files
                   in JObj (put_field ''bottle'' (JObj (put_field ''stable'' (JObj (put_field ''files'' (JObj files1) stable1)) bottle)) fm2))
                 (obj_field stable1 ''files'')))))"

definition brew_bottleMetadata :: "('s, 'w, 'd) formats \<Rightarrow> request \<Rightarrow> string \<Rightarrow> 'd \<Rightarrow> outcome" where
  "brew_bottleMetadata F req formulaName d =
     (case as_ListArtifacts (fo_db F) ''brew'' ''default'' formulaName d of
        Inl e \<Rightarrow> Respond (http_error [] (err_msg e) 500)
      | Inr [] \<Rightarrow> Respond (status 404)
      | Inr (a # _) \<Rightarrow>
          (case brew_formula (fo_lib F) req formulaName a of
             None \<Rightarrow> Panic | Some doc \<Rightarrow> Respond (reply 200 json_type (JsonDoc doc))))"

definition brew_path :: "string \<Rightarrow> string \<Rightarrow> string \<Rightarrow> string" where
  "brew_path formulaName version filename = path_Join [''brew'', ''default'', formulaName, version, filename]"

definition brew_uploadBottle ::
  "('s, 'w, 'd) formats \<Rightarrow> request \<Rightarrow> ('s, 'd) world \<Rightarrow> response \<times> ('s, 'd) world" where
  "brew_uploadBottle F req w =
     (let L = fo_lib F in
      case pl_form L req of
        None \<Rightarrow> (http_error [] ''Unable to parse form'' 400, w)
      | Some fm \<Rightarrow>
          (let formulaName = fm_value fm ''name''; version = fm_value fm ''version'' in
           if formulaName = [] \<or> version = [] then (http_error [] ''Name and version required'' 400, w)
           else case fm_file fm ''bottle'' of
             None \<Rightarrow> (http_error [] ''Bottle file required'' 400, w)
           | Some (filename, content) \<Rightarrow>
               (let formulaJson = (if fm_value fm ''json'' = [] then ''{}'' else fm_value fm ''json'');
                    path = brew_path formulaName version filename in
                case as_CreateArtifact (fo_db F) (new_artifact ''brew'' ''default'' formulaName version formulaJson) (wd_db w) of
                  (Inl e, d1) \<Rightarrow> (http_error [] ''DB error'' 500, w\<lparr>wd_db := d1\<rparr>)
                | (Inr artifactID, d1) \<Rightarrow>
                    (case save_file (fo_storage F) path content (wd_st w) of
                       (NotOpened _, s1) \<Rightarrow> (http_error [] ''Storage failed'' 500, w\<lparr>wd_st := s1, wd_db := d1\<rparr>)
                     | (CopyFailed _, s1) \<Rightarrow> (http_error [] ''File upload failed'' 500, w\<lparr>wd_st := s1, wd_db := d1\<rparr>)
                     | (Saved, s1) \<Rightarrow>
                         (case as_AttachBlob (fo_db F) artifactID (pl_sha256 L (tee_file (fo_storage F) path content (wd_st w))) filename d1 of
                            (Inl e, d2) \<Rightarrow> (http_error [] ''Failed to attach hash'' 500, w\<lparr>wd_st := s1, wd_db := d2\<rparr>)
                          | (Inr _, d2) \<Rightarrow> (reply 201 [] (Data ''Bottle ingested successfully''), w\<lparr>wd_st := s1, wd_db := d2\<rparr>))))))"

text \<open>The last version listed that has a file of the name.\<close>

definition brew_downloadBottle :: "('s, 'w, 'd) formats \<Rightarrow> string \<Rightarrow> ('s, 'd) world \<Rightarrow> response" where
  "brew_downloadBottle F filename w =
     (case as_SearchArtifacts (fo_db F) ''brew'' ''default'' (wd_db w) of
        Inl _ \<Rightarrow> status 404
      | Inr arts \<Rightarrow>
          (case filter (\<lambda>a. list_ex (\<lambda>b. ab_name b = filename) (ua_blobs a)) arts of
             [] \<Rightarrow> status 404
           | as \<Rightarrow>
               (case pv_Reader (fo_storage F) (brew_path (ua_pkg (last as)) (ua_version (last as)) filename) 0 (wd_st w) of
                  Inl _ \<Rightarrow> status 404
                | Inr rd \<Rightarrow> send_object ''application/gzip'' rd)))"

subsection \<open>The artifact API: internal/api/artifacts/handler.go\<close>

definition art_listPackages :: "('s, 'w, 'd) formats \<Rightarrow> string \<Rightarrow> string \<Rightarrow> 'd \<Rightarrow> response" where
  "art_listPackages F format namespace d =
     (case as_GetPackageNames (fo_db F) format namespace d of
        Inl e \<Rightarrow> http_error [] (err_msg e) 500
      | Inr names \<Rightarrow>
          reply 200 json_type (JsonDoc (JObj [(''packages'', JArr (List.map_filter (\<lambda>name.
            case as_ListArtifacts (fo_db F) format namespace name d of
              Inl _ \<Rightarrow> None
            | Inr [] \<Rightarrow> None
            | Inr (a # as) \<Rightarrow> Some (JObj [(''name'', JStr name), (''latest'', JStr (ua_version a)),
                (''versions'', JArr (map (\<lambda>x. JStr (ua_version x)) (a # as))),
                (''created_at'', JStr (pl_stamp (fo_lib F) (ua_created a)))])) names))])))"

definition art_listVersions :: "('s, 'w, 'd) formats \<Rightarrow> string \<Rightarrow> string \<Rightarrow> string \<Rightarrow> 'd \<Rightarrow> response" where
  "art_listVersions F format namespace packageName d =
     (case as_ListArtifacts (fo_db F) format namespace packageName d of
        Inl e \<Rightarrow> http_error [] (err_msg e) 500
      | Inr arts \<Rightarrow>
          (if arts = [] then http_error [] ''Package not found'' 404
           else reply 200 json_type (JsonDoc (JObj [(''package'', JStr packageName), (''versions'', JArr (map (\<lambda>a.
                  JObj [(''version'', JStr (ua_version a)), (''created_at'', JStr (pl_stamp (fo_lib F) (ua_created a)))]) arts))]))))"

definition art_getArtifact :: "('s, 'w, 'd) formats \<Rightarrow> string \<Rightarrow> string \<Rightarrow> string \<Rightarrow> string \<Rightarrow> 'd \<Rightarrow> response" where
  "art_getArtifact F format namespace packageName version d =
     (case as_GetArtifact (fo_db F) format namespace packageName version d of
        Inl e \<Rightarrow> (if e = DbNotFound then http_error [] ''Artifact not found'' 404 else http_error [] (err_msg e) 500)
      | Inr a \<Rightarrow>
          (let stamp = pl_stamp (fo_lib F);
               files = map (\<lambda>b. JObj [(''file_name'', JStr (ab_name b)), (''blob_digest'', JStr (ab_digest b)),
                                     (''created_at'', JStr (stamp (ab_created b)))]) (ua_blobs a);
               meta = (case Option.bind (ua_meta a) (pl_json (fo_lib F)) of None \<Rightarrow> [] | Some m \<Rightarrow> [(''metadata'', m)])
           in reply 200 json_type (JsonDoc (JObj ([(''blobs'', JArr files), (''created_at'', JStr (stamp (ua_created a))),
                (''format'', JStr (ua_format a))] @ meta @ [(''namespace'', JStr (ua_ns a)), (''package_name'', JStr (ua_pkg a)),
                (''version'', JStr (ua_version a))])))))"

definition deleted_reply :: "string \<Rightarrow> response" where
  "deleted_reply msg = reply 200 json_type (JsonDoc (JObj [(''message'', JStr msg), (''success'', JBool True)]))"

definition art_deleteVersion ::
  "('s, 'w, 'd) formats \<Rightarrow> string \<Rightarrow> string \<Rightarrow> string \<Rightarrow> string \<Rightarrow> 'd \<Rightarrow> response \<times> 'd" where
  "art_deleteVersion F format namespace packageName version d =
     (case as_DeleteArtifact (fo_db F) format namespace packageName version d of
        (Inl e, d1) \<Rightarrow> ((if e = DbNotFound then http_error [] ''Artifact not found'' 404 else http_error [] (err_msg e) 500), d1)
      | (Inr _, d1) \<Rightarrow> (deleted_reply ''Artifact deleted successfully'', d1))"

definition art_deleteAllVersions ::
  "('s, 'w, 'd) formats \<Rightarrow> string \<Rightarrow> string \<Rightarrow> string \<Rightarrow> 'd \<Rightarrow> response \<times> 'd" where
  "art_deleteAllVersions F format namespace packageName d =
     (case as_DeleteAllArtifactVersions (fo_db F) format namespace packageName d of
        (Inl e, d1) \<Rightarrow> ((if e = DbNotFound then http_error [] ''Package not found'' 404 else http_error [] (err_msg e) 500), d1)
      | (Inr _, d1) \<Rightarrow> (deleted_reply ''All package versions deleted successfully'', d1))"

end
