(* ===== verification/Package_Properties.thy ===== *)
theory Package_Properties
  imports Apt Formats_Rest Management_Properties Upload_Flow
begin

text \<open>
  What the package registries guarantee and where they fail: files are found again after an upload, versions are
  deleted exactly, listings carry no files, and a file name can lead out of the part of the storage that belongs to
  packages.
\<close>

subsection \<open>Files in memory\<close>

lemma mem_provider_sels [simp]:
  "pv_Writer memory_provider = mem_Writer" "pv_Write memory_provider = mem_Write" "pv_Close memory_provider = mem_Close"
  "pv_Reader memory_provider = mem_Reader"
  by (simp_all add: memory_provider_def)

lemma mem_write_all:
  "io_Copy memory_provider (MemWriter p b) cs e m = ((MemWriter p (b @ concat cs), case e of EOF \<Rightarrow> None | ReadErr x \<Rightarrow> Some x), m)"
  by (induction cs arbitrary: b) simp_all

lemma mem_save_file:
  "save_file memory_provider p content m =
     ((case snd content of EOF \<Rightarrow> Saved | ReadErr e \<Rightarrow> CopyFailed e), m(p \<mapsto> concat (fst content)))"
  by (simp add: save_file_def copy_close_def mem_write_all mem_Writer_def split: read_end.split)

lemma mem_send: "m p = Some c \<Longrightarrow> \<exists>rd. mem_Reader p 0 m = Inr rd \<and> (\<forall>t. send_object t rd = reply 200 [(''Content-Type'', t)] (Data c))"
  by (simp add: mem_Reader_def send_object_def)

subsection \<open>Charts and modules\<close>

text \<open>
  A chart whose upload is answered 201 is downloaded under its name and version with exactly the bytes that were sent
  (up to the limit of 50 MiB), and no other object of the storage has changed.
\<close>

theorem helm_upload_then_download:
  assumes "fo_storage F = memory_provider" "helm_uploadChart F req w = (r, w')" "rs_status r = 201"
  shows "\<exists>fs ended c. pl_gunzip (fo_lib F) (take 52428800 (concat (fst (body_of req)))) = Some (fs, ended) \<and>
    find_chart (fo_lib F) fs ended no_chart = Inr (True, c) \<and>
    helm_downloadChart F (helm_filename c) (wd_st w') =
      reply 200 [(''Content-Type'', ''application/x-tar'')] (Data (take 52428800 (concat (fst (body_of req))))) \<and>
    (\<forall>k. k \<noteq> path_Join [''helm'', ''default'', helm_filename c] \<longrightarrow> wd_st w' k = wd_st w k)"
proof -
  obtain payload fs ended where p: "read_limited 52428800 (body_of req) = Inr payload" "pl_gunzip (fo_lib F) payload = Some (fs, ended)"
    using assms(2,3) by (auto simp: helm_uploadChart_def Let_def split: sum.splits option.splits)
  obtain c where c: "find_chart (fo_lib F) fs ended no_chart = Inr (True, c)" "ch_name c \<noteq> []" "ch_version c \<noteq> []"
    using assms(2,3) p by (auto simp: helm_uploadChart_def Let_def split: sum.splits prod.splits if_splits)
  let ?p = "path_Join [''helm'', ''default'', helm_filename c]"
  have "wd_st w' = (wd_st w)(?p \<mapsto> payload)"
    using assms p c by (auto simp: helm_uploadChart_def Let_def mem_save_file split: sum.splits prod.splits)
  moreover have "payload = take 52428800 (concat (fst (body_of req)))"
    using p(1) by (auto simp: read_limited_def split: prod.splits if_splits read_end.splits)
  ultimately show ?thesis
    using assms(1) mem_send [of "wd_st w'" ?p payload]
    using p(2) c(1) by (intro exI [of _ fs] exI [of _ ended] exI [of _ c]) (auto simp: helm_downloadChart_def)
qed

lemma LastIndex_between:
  assumes "CHR ''/'' \<notin> set mid" "CHR ''/'' \<notin> set f"
  shows "LastIndex (m @ ''/'' @ mid @ ''/'' @ f) (''/'' @ mid @ ''/'') = Some (length m)"
proof -
  let ?s = "''/'' @ mid @ ''/''"
  have f: "LastIndex f ?s = None" using assms(2) by (intro LastIndex_None [of "CHR ''/''"]) auto
  have slash: "\<not> HasPrefix (CHR ''/'' # f) ?s"
  proof
    assume "HasPrefix (CHR ''/'' # f) ?s"
    then have "\<exists>t. f = mid @ ''/'' @ t" by (simp add: HasPrefix_iff)
    with assms(2) show False by auto
  qed
  then have sf: "LastIndex (CHR ''/'' # f) ?s = None" using f by simp
  have no: "\<not> HasPrefix (c # r) ?s" if "c \<noteq> CHR ''/''" for c r using that by (simp add: HasPrefix_iff)
  have mid: "CHR ''/'' \<notin> set xs \<Longrightarrow> LastIndex (xs @ ''/'' @ f) ?s = None" for xs
  proof (induction xs)
    case (Cons c xs)
    then have "LastIndex (xs @ ''/'' @ f) ?s = None" by simp
    moreover have "\<not> HasPrefix (c # xs @ ''/'' @ f) ?s" using Cons.prems by (intro no) auto
    ultimately show ?case by simp
  qed (use sf in simp)
  have "HasPrefix (''/'' @ mid @ ''/'' @ f) ?s" by (simp add: HasPrefix_iff)
  with mid [OF assms(1)] have "LastIndex (''/'' @ mid @ ''/'' @ f) ?s = Some 0" by simp
  then show ?thesis by (induction m) simp_all
qed

lemma Join_last_suffix: "\<exists>t. Join (ps @ [q]) c = t @ q"
  by (cases "ps = []") (auto simp: Join_append)

text \<open>The last component of a key keeps its suffix.\<close>

lemma go_path_suffix:
  assumes "ext \<in> {''.zip'', ''.mod''}"
  shows "\<exists>t. go_path m (v @ ext) = t @ ext"
proof -
  let ?es = "filter (\<lambda>e. e \<noteq> []) [''go'', ''default'', m, ''@v''] @ [v @ ext]"
  have ext: "ext \<noteq> []" "CHR ''/'' \<notin> set ext" "length ext = 4" using assms by auto
  have ne: "filter (\<lambda>e. e \<noteq> []) [''go'', ''default'', m, ''@v'', v @ ext] = ?es" using ext by simp
  define pre where "pre = Join (filter (\<lambda>e. e \<noteq> []) [''go'', ''default'', m, ''@v'']) CHR ''/''"
  have j: "Join ?es CHR ''/'' = pre @ CHR ''/'' # (v @ ext)" unfolding pre_def by (subst Join_append) auto
  obtain x q where v: "Split (v @ ext) CHR ''/'' = x @ [q]" by (metis Split_not_Nil rev_exhaust)
  have q: "\<exists>u. q = u @ ext"
  proof -
    have "Split (v @ ext) CHR ''/'' = butlast (Split v CHR ''/'') @ [last (Split v CHR ''/'') @ ext]"
      using ext(2)
    proof (induction v)
      case (Cons c v)
      then show ?case by (auto split: list.split)
    qed (simp add: Split_id)
    with v show ?thesis by auto
  qed
  have "normal q"
    unfolding normal_def
  proof (intro conjI)
    from q ext(3) have "4 \<le> length q" by auto
    then show "q \<noteq> []" "q \<noteq> ''.''" "q \<noteq> ''..''" by auto
    show "CHR ''/'' \<notin> set q" using v Split_no_sep [of q "v @ ext" "CHR ''/''"] by simp
  qed
  then have cl: "clean_comps False [] (Split (pre @ CHR ''/'' # (v @ ext)) CHR ''/'') = clean_comps False [] (Split pre CHR ''/'' @ x) @ [q]"
    using v clean_comps_append_normals [of "[q]" False "[]" "Split pre CHR ''/'' @ x"] by (simp add: Split_append_sep)
  have "\<not> HasPrefix (pre @ CHR ''/'' # (v @ ext)) ''/''" by (simp add: pre_def HasPrefix_def)
  then have "go_path m (v @ ext) = Join (clean_comps False [] (Split pre CHR ''/'' @ x) @ [q]) CHR ''/''"
    unfolding go_path_def path_Join_def ne Let_def j path_Clean_def by (simp only: cl) simp
  then show ?thesis using Join_last_suffix q by (metis append_assoc)
qed

lemma go_paths_differ: "go_path m (v @ ''.zip'') \<noteq> go_path m (v @ ''.mod'')"
proof
  assume "go_path m (v @ ''.zip'') = go_path m (v @ ''.mod'')"
  moreover obtain t u where "go_path m (v @ ''.zip'') = t @ ''.zip''" "go_path m (v @ ''.mod'') = u @ ''.mod''"
    using go_path_suffix [of "''.zip''" m v] go_path_suffix [of "''.mod''" m v] by auto
  ultimately have "last (t @ ''.zip'') = last (u @ ''.mod'')" by simp
  then show False by simp
qed

lemma go_serves_file:
  assumes "CHR ''/'' \<notin> set v" "ext \<in> {''.zip'', ''.mod''}" "fo_storage F = memory_provider" "wd_st w (go_path m (v @ ext)) = Some c"
  shows "\<exists>typ. go_serveProxy F (m @ ''/@v/'' @ v @ ext) w = reply 200 [(''Content-Type'', typ)] (Data c)"
proof -
  let ?path = "m @ ''/@v/'' @ v @ ext"
  have "\<not> HasSuffix ?path ''/@v/list''"
  proof
    assume "HasSuffix ?path ''/@v/list''"
    then obtain t where "?path = t @ ''/@v/list''" by (auto simp: HasSuffix_iff)
    then have "last ?path = last (t @ ''/@v/list'')" by (rule arg_cong)
    with assms(2) show False by auto
  qed
  moreover have "LastIndex ?path ''/@v/'' = Some (length m)"
    using LastIndex_between [of "''@v''" "v @ ext" m] assms(1,2) by auto
  moreover have "\<not> HasSuffix (v @ ext) ''.info''"
  proof
    assume "HasSuffix (v @ ext) ''.info''"
    then obtain t where "v @ ext = t @ ''.info''" by (auto simp: HasSuffix_iff)
    then have "last (v @ ext) = last (t @ ''.info'')" by (rule arg_cong)
    with assms(2) show False by auto
  qed
  moreover have "\<not> HasSuffix (v @ ''.zip'') ''.mod''" "HasSuffix (v @ ''.zip'') ''.zip''" "HasSuffix (v @ ''.mod'') ''.mod''"
    by (simp_all add: HasSuffix_def)
  ultimately show ?thesis
    using assms(2-4) mem_send [of "wd_st w" "go_path m (v @ ext)" c] TrimSuffix_append [of v]
    by (auto simp: go_serveProxy_def Let_def go_downloadGoFile_def)
qed

text \<open>(C27) 
  A Go module whose upload is answered 201, its version being one path element, is served by the module proxy: the
  zip file with the bytes that were sent and the module file with its first 32 MiB.
\<close>

theorem go_upload_then_serve:
  assumes mem: "fo_storage F = memory_provider" and up: "go_uploadModule F req w = (Respond r, w')" "rs_status r = 201"
    and fm: "pl_form (fo_lib F) req = Some fm" "CHR ''/'' \<notin> set (fm_value fm ''version'')"
      "fm_file fm ''mod'' = Some (mn, modFile)" "fm_file fm ''zip'' = Some (zn, zipFile)"
  shows "\<exists>t1 t2. go_serveProxy F (fm_value fm ''module'' @ ''/@v/'' @ fm_value fm ''version'' @ ''.zip'') w' =
        reply 200 [(''Content-Type'', t1)] (Data (concat (fst zipFile))) \<and>
      go_serveProxy F (fm_value fm ''module'' @ ''/@v/'' @ fm_value fm ''version'' @ ''.mod'') w' =
        reply 200 [(''Content-Type'', t2)] (Data (take 33554432 (concat (fst modFile))))"
proof -
  let ?v = "fm_value fm ''version''" and ?m = "fm_value fm ''module''"
  have "wd_st w' = (wd_st w)(go_path ?m (?v @ ''.zip'') \<mapsto> concat (fst zipFile),
      go_path ?m (?v @ ''.mod'') \<mapsto> take 33554432 (concat (fst modFile)))"
    using mem up fm by (auto simp: go_uploadModule_def Let_def mem_save_file split: if_splits sum.splits prod.splits read_end.splits)
  then have "wd_st w' (go_path ?m (?v @ ''.zip'')) = Some (concat (fst zipFile))"
      "wd_st w' (go_path ?m (?v @ ''.mod'')) = Some (take 33554432 (concat (fst modFile)))"
    using go_paths_differ by simp_all
  from go_serves_file [OF fm(2) _ mem this(1)] go_serves_file [OF fm(2) _ mem this(2)] show ?thesis by simp
qed

subsection \<open>Python packages\<close>

definition pypi_guess :: "string \<Rightarrow> string" where
  "pypi_guess filename = pypi_name (if 1 < length (Split filename CHR ''-'') then hd (Split filename CHR ''-'') else filename)"

definition pypi_key :: "string \<Rightarrow> string \<Rightarrow> string \<Rightarrow> string" where
  "pypi_key pkg version filename = path_Join [''pypi'', ''default'', pkg, version, filename]"

text \<open>
  A Python package whose upload is answered 200 is downloaded again exactly when the name guessed from its file name,
  what precedes the first hyphen, leads to where it was stored; otherwise (a source distribution of a package with a
  hyphen in its name) the download answers what it answered before the upload.
\<close>

theorem pypi_download_guesses:
  assumes mem: "fo_storage F = memory_provider" and up: "pypi_uploadPackage F req w = (r, w')" "rs_status r = 200"
    and fm: "pl_form (fo_lib F) req = Some fm" "fm_file fm ''content'' = Some (filename, content)" "version = fm_value fm ''version''"
  shows "pypi_downloadPackage F version filename (wd_st w') =
    (if pypi_key (pypi_guess filename) version filename = pypi_key (pypi_name (fm_value fm ''name'')) version filename
     then reply 200 [(''Content-Type'', ''application/octet-stream'')] (Data (concat (fst content)))
     else pypi_downloadPackage F version filename (wd_st w))"
proof -
  let ?k = "pypi_key (pypi_name (fm_value fm ''name'')) version filename"
  have st: "wd_st w' = (wd_st w)(?k \<mapsto> concat (fst content))"
    using mem up fm by (auto simp: pypi_uploadPackage_def Let_def mem_save_file pypi_key_def split: if_splits sum.splits prod.splits read_end.splits)
  have dl: "pypi_downloadPackage F version filename m =
      (case mem_Reader (pypi_key (pypi_guess filename) version filename) 0 m of
         Inl e \<Rightarrow> (if e = StorageNotFound then reply 404 [] (Data ''Not Found'') else http_error [] (err_msg e) 500)
       | Inr rd \<Rightarrow> send_object ''application/octet-stream'' rd)" for m
    using mem by (simp add: pypi_downloadPackage_def Let_def pypi_guess_def pypi_key_def)
  show ?thesis
  proof (cases "pypi_key (pypi_guess filename) version filename = ?k")
    case True
    with st dl [of "wd_st w'"] mem_send [of "wd_st w'" ?k "concat (fst content)"] show ?thesis by auto
  next
    case False
    then have "mem_Reader (pypi_key (pypi_guess filename) version filename) 0 (wd_st w') =
        mem_Reader (pypi_key (pypi_guess filename) version filename) 0 (wd_st w)" using st by (simp add: mem_Reader_def)
    with False dl show ?thesis by simp
  qed
qed

subsection \<open>Names that lead out\<close>

lemma npm_escapes:
  assumes "normal pkg" "normals ns" "ns \<noteq> []"
  shows "path_Join [''npm'', ''default'', pkg, ''../../../'' @ Join ns CHR ''/''] = Join ns CHR ''/''"
proof -
  let ?rest = "''../../../'' @ Join ns CHR ''/''"
  have pkg: "pkg \<noteq> []" "CHR ''/'' \<notin> set pkg" "pkg \<noteq> ''.''" "pkg \<noteq> ''..''" using assms(1) by (auto simp: normal_def)
  let ?j = "Join [''npm'', ''default'', pkg, ?rest] CHR ''/''"
  have "Split ?j CHR ''/'' = [''npm'', ''default'', pkg, ''..'', ''..'', ''..''] @ Split (Join ns CHR ''/'') CHR ''/''"
    using Split_append [OF pkg(2), of ?rest] by simp
  then have "clean_comps False [] (Split ?j CHR ''/'') = ns"
    using clean_comps_Split_Join [OF assms(2), of False "[]" "[''npm'', ''default'', pkg, ''..'', ''..'', ''..'']"] pkg by simp
  moreover have "\<not> HasPrefix ?j ''/''" by (simp add: HasPrefix_def)
  moreover have "path_Join [''npm'', ''default'', pkg, ?rest] = path_Clean ?j" using pkg(1) by (simp add: path_Join_def)
  ultimately show ?thesis using assms(3) by (simp only: path_Clean_def Let_def if_False)
qed

text \<open>(C39) 
  Publishing an npm package overwrites any blob of the container registry: the name of an attachment is joined to the
  package's directory without a check, so a name that climbs out of it reaches the object of the blob. Afterwards a GET
  of the blob, under its digest, answers with the bytes of the attachment, whatever their hash.
\<close>

theorem npm_publish_overwrites_blob:
  assumes mem: "fo_storage F = memory_provider" "rt_storage R = memory_provider"
    and dec: "npm_decode (fo_lib F) (limited 52428800 (body_of req)) =
        Some \<lparr>nb_versions = [(v, doc)], nb_files = [(''../../../'' @ getPath repo dg, dat)]\<rparr>" "b64_decode dat = Some content"
    and db: "as_CreateArtifact (fo_db F) (new_artifact ''npm'' ''default'' pkg v (pl_marshal (fo_lib F) doc)) (wd_db w) = (Inr i, d1)"
    and names: "normal pkg" "getPath repo dg = Join ns CHR ''/''" "normals ns" "ns \<noteq> []"
    and get: "fst (getRepoContext greq) = repo" "rq_method greq = ''GET''" "rq_header greq ''Range'' = []" "rt_upstream R = None"
  shows "\<exists>r w'. npm_handlePublish F req ''default'' pkg w = (r, w') \<and> rs_status r = 200 \<and>
    rs_status (getBlob R greq dg (wd_st w')) = 200 \<and> rs_body (getBlob R greq dg (wd_st w')) = Data content"
proof -
  have path: "path_Join [''npm'', ''default'', pkg, ''../../../'' @ getPath repo dg] = getPath repo dg"
    using npm_escapes [OF names(1,3,4)] names(2) by simp
  obtain r w' where p: "npm_handlePublish F req ''default'' pkg w = (r, w')" "rs_status r = 200"
      "wd_st w' = (wd_st w)(getPath repo dg \<mapsto> content)"
    using mem dec db path by (simp add: npm_handlePublish_def npm_attach_def mem_save_file Let_def)
  have "proxied R greq dg = None" using get(4) by (simp add: proxied_def split: prod.split)
  then have "rs_status (getBlob R greq dg (wd_st w')) = 200 \<and> rs_body (getBlob R greq dg (wd_st w')) = Data content"
    using p(3) get mem(2) by (simp add: getBlob_def streamBlob_def mem_defs)
  with p show ?thesis by blast
qed

subsection \<open>Listings\<close>

context bare_listings
begin

lemma brew_finds_nothing: "fo_db F = S \<Longrightarrow> brew_downloadBottle F filename w = status 404"
proof -
  assume F: "fo_db F = S"
  obtain as where "as_SearchArtifacts S ''brew'' ''default'' (wd_db w) = Inr as"
      "filter (\<lambda>a. list_ex (\<lambda>b. ab_name b = filename) (ua_blobs a)) as = []"
    using no_file_listed by blast
  with F show ?thesis by (simp add: brew_downloadBottle_def)
qed

lemma pypi_page_empty:
  assumes "fo_db F = S"
  shows "pypi_packageDetails F req pkg d \<in> {http_error [] ''Not Found'' 404, reply 200 html_type (Data (pypi_page pkg []))}"
proof -
  obtain bs where bs: "as_ListArtifacts S ''pypi'' ''default'' pkg d = Inr bs"
      "concat (map (\<lambda>a. map (pypi_link req a) (ua_blobs a)) bs) = []" using no_links by blast
  from bs(2) have page: "pypi_page pkg (concat (concat (map (\<lambda>a. map (pypi_link req a) (ua_blobs a)) bs))) = pypi_page pkg []"
    by (simp only: concat.simps(1))
  show ?thesis using bs assms unfolding pypi_packageDetails_def by (simp only: sum.case page) simp
qed

lemma chart_urls_stored:
  assumes "as_SearchArtifacts S ''helm'' ''default'' d = Inr as" "a \<in> set as" "index_entry L req a = Some c"
  shows "\<exists>c0. Option.bind (Option.bind (ua_meta a) (pl_json L)) chart_of_json = Some c0 \<and> ch_urls c = ch_urls c0"
  using search_bare [OF assms(1,2)] assms(3) by (auto simp: index_entry_def)

end

text \<open>
  Neither store fills in the files of the versions it lists, and the handlers that look for them there never find
  any: on PostgreSQL and on SQLite the download of a Homebrew bottle is always a 404, the page of a Python package
  never has a link, and the index of charts gives no addresses but those stored with a chart.
\<close>

theorem listings_have_no_files:
  assumes "fo_db F = pga_store E" "fo_db G = sqa_store T fk"
  shows "brew_downloadBottle F filename w = status 404 \<and> brew_downloadBottle G filename w2 = status 404 \<and>
    pypi_packageDetails F req pkg d \<in> {http_error [] ''Not Found'' 404, reply 200 html_type (Data (pypi_page pkg []))} \<and>
    pypi_packageDetails G req pkg d2 \<in> {http_error [] ''Not Found'' 404, reply 200 html_type (Data (pypi_page pkg []))} \<and>
    (\<forall>as a c. as_SearchArtifacts (fo_db F) ''helm'' ''default'' d = Inr as \<and> a \<in> set as \<and> index_entry L req a = Some c \<longrightarrow>
       (\<exists>c0. Option.bind (Option.bind (ua_meta a) (pl_json L)) chart_of_json = Some c0 \<and> ch_urls c = ch_urls c0)) \<and>
    (\<forall>as a c. as_SearchArtifacts (fo_db G) ''helm'' ''default'' d2 = Inr as \<and> a \<in> set as \<and> index_entry L req a = Some c \<longrightarrow>
       (\<exists>c0. Option.bind (Option.bind (ua_meta a) (pl_json L)) chart_of_json = Some c0 \<and> ch_urls c = ch_urls c0))"
  unfolding assms
  by (intro conjI pgl.brew_finds_nothing [OF assms(1)] sql.brew_finds_nothing [OF assms(2)]
      pgl.pypi_page_empty [OF assms(1)] sql.pypi_page_empty [OF assms(2)])
    (blast intro: pgl.chart_urls_stored sql.chart_urls_stored)+

subsection \<open>Versions\<close>

lemma map_of_filter_keys: "P k \<Longrightarrow> map_of (filter (\<lambda>(i, _). P i) xs) k = map_of xs k"
  by (induction xs) auto

lemma find_filter_others: "(\<And>x. x \<in> set xs \<Longrightarrow> Q x \<Longrightarrow> P x) \<Longrightarrow> find Q (filter P xs) = find Q xs"
  by (induction xs) auto

lemma kept_version:
  assumes inv: "pkg_inv s" and r: "r \<in> set (pk_arts s)" "\<not> P r" and del: "delete_versions P s = (Inr u, s')"
  shows "artifact_of_row s' r = artifact_of_row s r"
    "filter (\<lambda>b. ab_artifact b = pr_id r) (pk_links s') = filter (\<lambda>b. ab_artifact b = pr_id r) (pk_links s)"
proof -
  let ?gone = "\<lambda>i. list_ex (\<lambda>r. P r \<and> pr_id r = i) (pk_arts s)"
  have "inj_on pr_id (set (pk_arts s))" using inv by (simp add: pkg_inv_def distinct_map)
  then have kept: "\<not> ?gone (pr_id r)" using r by (auto simp: list_ex_iff inj_on_def)
  have s': "pk_meta s' = filter (\<lambda>(i, _). \<not> ?gone i) (pk_meta s)" "pk_links s' = filter (\<lambda>b. \<not> ?gone (ab_artifact b)) (pk_links s)"
    using del by (auto simp: delete_versions_def Let_def split: if_splits)
  show "artifact_of_row s' r = artifact_of_row s r"
    using map_of_filter_keys [of "\<lambda>i. \<not> ?gone i" "pr_id r" "pk_meta s"] kept by (simp add: artifact_of_row_def s')
  show "filter (\<lambda>b. ab_artifact b = pr_id r) (pk_links s') = filter (\<lambda>b. ab_artifact b = pr_id r) (pk_links s)"
    unfolding s' filter_filter by (rule filter_cong) (use kept in auto)
qed


definition opt_of :: "'a res \<Rightarrow> 'a option" where
  "opt_of r = (case r of Inl _ \<Rightarrow> None | Inr x \<Rightarrow> Some x)"

definition empty_sq_pkg :: sq_pkg where
  "empty_sq_pkg = \<lparr>pk_arts = [], pk_meta = [], pk_links = [], pk_next = 1, pk_now = 0, sp_meta_next = 1, sp_link_next = 1, sp_rowid = 0\<rparr>"

text \<open>
  On SQLite a version that is published again is taken for the row inserted last: after two versions have been created
  in an empty store, creating the first again stores its new metadata with the second one and reports the second one's
  identifier, so that the files that follow are attached to it as well.
\<close>

theorem sqlite_republish_corrupts:
  assumes "(f, ns, p, v) \<noteq> (f', ns', p', v')" "m1 \<noteq> []" "m2 \<noteq> []" "m3 \<noteq> []"
    and "s = snd (sqa_CreateArtifact fk (new_artifact f' ns' p' v' m2) (snd (sqa_CreateArtifact fk (new_artifact f ns p v m1) empty_sq_pkg)))"
    and "sqa_CreateArtifact fk (new_artifact f ns p v m3) s = (r, s')"
  shows "r = Inr 2 \<and> map_option ua_meta (opt_of (sqa_GetArtifact T f ns p v s')) = Some (Some m1) \<and>
    map_option ua_meta (opt_of (sqa_GetArtifact T f' ns' p' v' s')) = Some (Some m3)"
proof -
  have ne: "\<not> (f = f' \<and> ns = ns' \<and> p = p' \<and> v = v')" "\<not> (f' = f \<and> ns' = ns \<and> p' = p \<and> v' = v)" using assms(1) by auto
  show ?thesis
    using assms(2-6) ne
    by (auto simp: sqa_CreateArtifact_def sqa_StoreArtifactMetadata_def new_artifact_def empty_sq_pkg_def Let_def is_version_def
        sqa_GetArtifact_def sq_artifact_of_row_def opt_of_def)
qed

subsection \<open>A concrete registry\<close>

definition demo_form :: form where
  "demo_form = \<lparr>fm_value = (\<lambda>k. if k = ''version'' then ''1.0'' else if k = ''name'' then ''my-pkg'' else if k = ''module'' then ''example.com/m'' else []),
     fm_file = (\<lambda>k. Some (''my-pkg-1.0.tar.gz'', ([''ab''], EOF)))\<rparr>"

definition npm_doc :: "string \<Rightarrow> json" where
  "npm_doc name = JObj [(''versions'', JObj [(''1.0'', JNull)]), (''_attachments'', JObj [(name, JObj [(''data'', JStr ''YWI='')])])]"

definition demo_libs :: pkg_libs where
  "demo_libs = \<lparr>pl_json = (\<lambda>_. Some (JObj [])), pl_decode = (\<lambda>_. Some (npm_doc ''../../../lib/app/sha256:ab'')), pl_marshal = (\<lambda>_. ''{}''),
     pl_form = (\<lambda>_. Some demo_form), pl_sha1 = (\<lambda>b. b), pl_sha256 = (\<lambda>b. b), pl_sha512 = (\<lambda>b. b), pl_md5 = (\<lambda>b. b),
     pl_gunzip = (\<lambda>_. Some ([(''c/Chart.yaml'', Some [])], True)), pl_unzip = (\<lambda>_. None), pl_gzip = (\<lambda>b. b),
     pl_chart = (\<lambda>c _. (True, c\<lparr>ch_name := ''c'', ch_version := ''1''\<rparr>)), pl_index = (\<lambda>_ _. []), pl_rfc = (\<lambda>_. []), pl_stamp = (\<lambda>_. []), pl_now = 0\<rparr>"

definition demo_formats :: "(mem, mem_writer, pkg_db) formats" where
  "demo_formats = \<lparr>fo_db = pga_store text_env, fo_storage = memory_provider, fo_lib = demo_libs\<rparr>"

lemma demo_formats_sels [simp]:
  "fo_db demo_formats = pga_store text_env" "fo_storage demo_formats = memory_provider" "fo_lib demo_formats = demo_libs"
  by (simp_all add: demo_formats_def)

definition demo_upload :: request where
  "demo_upload = with_body (plain_request ''POST'' ''/repository'' []) [''abc'']"

definition pkg_world :: "(mem, pkg_db) world" where
  "pkg_world = \<lparr>wd_st = [''lib/app/sha256:ab'' \<mapsto> ''ab''], wd_db = empty_pkg\<rparr>"

lemma demo_create:
  "length f \<le> 50 \<Longrightarrow> length ns \<le> 255 \<Longrightarrow> length p \<le> 255 \<Longrightarrow> length v \<le> 255 \<Longrightarrow>
   \<exists>d. pga_CreateArtifact text_env (new_artifact f ns p v m) empty_pkg = (Inr 1, d) \<and> list_ex (\<lambda>r. pr_id r = 1) (pk_arts d)"
  by (simp add: pga_CreateArtifact_def new_artifact_def text_env_def empty_pkg_def pga_StoreArtifactMetadata_def)

lemma demo_attach:
  "list_ex (\<lambda>r. pr_id r = 1) (pk_arts d) \<Longrightarrow> length dg \<le> 255 \<Longrightarrow> length f \<le> 255 \<Longrightarrow> \<exists>d'. pga_AttachBlob text_env 1 dg f d = (Inr (), d')"
  by (simp add: pga_AttachBlob_def text_env_def)

lemma demo_store_sels [simp]:
  "as_CreateArtifact (pga_store E) = pga_CreateArtifact E" "as_AttachBlob (pga_store E) = pga_AttachBlob E"
  "as_ListArtifacts (pga_store E) = pk_ListArtifacts" "as_SearchArtifacts (pga_store E) = pk_SearchArtifacts"
  "as_DeleteArtifact (pga_store E) = pga_DeleteArtifact"
  by (simp_all add: pga_store_def)

lemma demo_body: "body_of demo_upload = ([''abc''], EOF)"
  by (simp add: demo_upload_def body_of_def with_body_def)

theorem helm_upload_then_download_witness:
  "rs_body (helm_downloadChart demo_formats ''c-1.tgz'' (wd_st (snd (helm_uploadChart demo_formats demo_upload pkg_world)))) = Data ''abc''"
proof -
  obtain r w' where up: "helm_uploadChart demo_formats demo_upload pkg_world = (r, w')" by force
  have rd: "read_limited 52428800 (body_of demo_upload) = Inr ''abc''" by (simp add: demo_body read_limited_def)
  have c: "find_chart demo_libs [(''c/Chart.yaml'', Some [])] True no_chart = Inr (True, no_chart\<lparr>ch_name := ''c'', ch_version := ''1''\<rparr>)" by code_simp
  obtain d where d: "pga_CreateArtifact text_env (new_artifact ''helm'' ''default'' ''c'' ''1'' ''{}'') empty_pkg = (Inr 1, d)"
      "list_ex (\<lambda>r. pr_id r = 1) (pk_arts d)" using demo_create [of "''helm''" "''default''" "''c''" "''1''" "''{}''"] by auto
  obtain d' where "pga_AttachBlob text_env 1 ''abc'' ''c-1.tgz'' d = (Inr (), d')" using demo_attach [OF d(2), of "''abc''" "''c-1.tgz''"] by auto
  with up rd c d have "rs_status r = 201"
    by (auto simp: helm_uploadChart_def demo_libs_def pkg_world_def mem_save_file helm_filename_def no_chart_def)
  from helm_upload_then_download [OF demo_formats_sels(2) up this] obtain fs ended c'
    where "pl_gunzip demo_libs ''abc'' = Some (fs, ended)" "find_chart demo_libs fs ended no_chart = Inr (True, c')"
      and dl: "helm_downloadChart demo_formats (helm_filename c') (wd_st w') = reply 200 [(''Content-Type'', ''application/x-tar'')] (Data ''abc'')"
    by (auto simp: demo_body)
  with c have "c' = no_chart\<lparr>ch_name := ''c'', ch_version := ''1''\<rparr>" by (auto simp: demo_libs_def)
  then have "helm_filename c' = ''c-1.tgz''" by (simp add: helm_filename_def)
  with dl up show ?thesis by simp
qed

theorem go_upload_then_serve_witness:
  "rs_body (go_serveProxy demo_formats ''example.com/m/@v/1.0.zip'' (snd (go_uploadModule demo_formats demo_upload pkg_world))) = Data ''ab''"
proof -
  have fm: "pl_form (fo_lib demo_formats) demo_upload = Some demo_form" by (simp add: demo_libs_def)
  obtain d where d: "pga_CreateArtifact text_env (new_artifact ''go'' ''default'' ''example.com/m'' ''1.0'' ''{}'') empty_pkg = (Inr 1, d)"
      "list_ex (\<lambda>r. pr_id r = 1) (pk_arts d)" using demo_create [of "''go''" "''default''" "''example.com/m''" "''1.0''" "''{}''"] by auto
  obtain d' where "pga_AttachBlob text_env 1 (tee_file memory_provider (go_path ''example.com/m'' ''1.0.zip'') ([''ab''], EOF) (wd_st pkg_world)) ''1.0.zip'' d = (Inr (), d')"
    using demo_attach [OF d(2), of "''ab''" "''1.0.zip''"] by (auto simp: tee_file_def mem_Writer_def)
  then obtain r w' where up: "go_uploadModule demo_formats demo_upload pkg_world = (Respond r, w')" "rs_status r = 201"
    using d by (simp add: go_uploadModule_def demo_libs_def demo_form_def pkg_world_def mem_save_file Let_def)
  have "CHR ''/'' \<notin> set (fm_value demo_form ''version'')" by code_simp
  from go_upload_then_serve [OF demo_formats_sels(2) up fm this] up show ?thesis by (auto simp: demo_form_def)
qed

theorem pypi_download_guesses_witness:
  "rs_status (pypi_downloadPackage demo_formats ''1.0'' ''my-pkg-1.0.tar.gz'' (wd_st (snd (pypi_uploadPackage demo_formats demo_upload pkg_world)))) = 404"
proof -
  have fm: "pl_form (fo_lib demo_formats) demo_upload = Some demo_form" by (simp add: demo_libs_def)
  have ff: "fm_file demo_form ''content'' = Some (''my-pkg-1.0.tar.gz'', ([''ab''], EOF))" by (simp add: demo_form_def)
  have nm: "pypi_name ''my-pkg'' = ''my-pkg''" by code_simp
  obtain d where d: "pga_CreateArtifact text_env (new_artifact ''pypi'' ''default'' ''my-pkg'' ''1.0'' ''{}'') empty_pkg = (Inr 1, d)"
      "list_ex (\<lambda>r. pr_id r = 1) (pk_arts d)" using demo_create [of "''pypi''" "''default''" "''my-pkg''" "''1.0''" "''{}''"] by auto
  obtain d' where "pga_AttachBlob text_env 1 (tee_file memory_provider (path_Join [''pypi'', ''default'', ''my-pkg'', ''1.0'', ''my-pkg-1.0.tar.gz'']) ([''ab''], EOF) (wd_st pkg_world)) ''my-pkg-1.0.tar.gz'' d = (Inr (), d')"
    using demo_attach [OF d(2), of "''ab''" "''my-pkg-1.0.tar.gz''"] by (auto simp: tee_file_def mem_Writer_def)
  then obtain r w' where up: "pypi_uploadPackage demo_formats demo_upload pkg_world = (r, w')" "rs_status r = 200"
    using d nm by (simp add: pypi_uploadPackage_def demo_libs_def demo_form_def pkg_world_def mem_save_file Let_def)
  have "pypi_key (pypi_guess ''my-pkg-1.0.tar.gz'') ''1.0'' ''my-pkg-1.0.tar.gz'' \<noteq> pypi_key (pypi_name (fm_value demo_form ''name'')) ''1.0'' ''my-pkg-1.0.tar.gz''"
    "''1.0'' = fm_value demo_form ''version''" "rs_status (pypi_downloadPackage demo_formats ''1.0'' ''my-pkg-1.0.tar.gz'' (wd_st pkg_world)) = 404"
    by code_simp+
  with pypi_download_guesses [OF demo_formats_sels(2) up fm ff this(2)] up show ?thesis by simp
qed

theorem npm_publish_overwrites_blob_witness:
  "rs_body (getBlob demo_router demo_get ''sha256:ab'' (wd_st (snd (npm_handlePublish demo_formats demo_upload ''default'' ''p'' (pkg_world\<lparr>wd_st := [''lib/app/sha256:ab'' \<mapsto> ''xy'']\<rparr>))))) = Data ''ab''"
proof -
  let ?w = "pkg_world\<lparr>wd_st := [''lib/app/sha256:ab'' \<mapsto> ''xy'']\<rparr>"
  have "npm_decode demo_libs b = Some \<lparr>nb_versions = [(''1.0'', JNull)], nb_files = [(''../../../lib/app/sha256:ab'', ''YWI='')]\<rparr>" for b
  proof -
    have "npm_decode demo_libs ([], EOF) = Some \<lparr>nb_versions = [(''1.0'', JNull)], nb_files = [(''../../../lib/app/sha256:ab'', ''YWI='')]\<rparr>" by code_simp
    moreover have "npm_decode demo_libs b = npm_decode demo_libs ([], EOF)" by (simp add: npm_decode_def demo_libs_def)
    ultimately show ?thesis by simp
  qed
  moreover have key: "getPath ''lib/app'' ''sha256:ab'' = ''lib/app/sha256:ab''" "getPath ''lib/app'' ''sha256:ab'' = Join [''lib'', ''app'', ''sha256:ab''] CHR ''/''"
    by code_simp+
  ultimately have dec: "npm_decode (fo_lib demo_formats) (limited 52428800 (body_of demo_upload)) =
      Some \<lparr>nb_versions = [(''1.0'', JNull)], nb_files = [(''../../../'' @ getPath ''lib/app'' ''sha256:ab'', ''YWI='')]\<rparr>" by simp
  have b64: "b64_decode ''YWI='' = Some ''ab''" by code_simp
  obtain d where d: "as_CreateArtifact (fo_db demo_formats) (new_artifact ''npm'' ''default'' ''p'' ''1.0'' (pl_marshal (fo_lib demo_formats) JNull)) (wd_db ?w) = (Inr 1, d)"
    using demo_create [of "''npm''" "''default''" "''p''" "''1.0''" "''{}''"] by (auto simp: demo_libs_def pkg_world_def)
  have nm: "normal ''p''" "normals [''lib'', ''app'', ''sha256:ab'']" by code_simp+
  have get: "fst (getRepoContext demo_get) = ''lib/app''" "rq_method demo_get = ''GET''" "rq_header demo_get ''Range'' = []"
    "rt_upstream demo_router = None" by code_simp+
  have "rt_storage demo_router = memory_provider" by (simp add: demo_router_def)
  from npm_publish_overwrites_blob [OF demo_formats_sels(2) this dec b64 d nm(1) key(2) nm(2) _ get] show ?thesis by auto
qed

definition demo_sq_formats :: "(mem, mem_writer, sq_pkg) formats" where
  "demo_sq_formats = \<lparr>fo_db = sqa_store (\<lambda>t. t) True, fo_storage = memory_provider, fo_lib = demo_libs\<rparr>"

theorem listings_have_no_files_witness:
  "brew_downloadBottle demo_formats ''b.tar.gz'' pkg_world = status 404 \<and>
   brew_downloadBottle demo_sq_formats ''b.tar.gz'' \<lparr>wd_st = Map.empty, wd_db = empty_sq_pkg\<rparr> = status 404"
  using listings_have_no_files [OF demo_formats_sels(1), where G = demo_sq_formats and T = "\<lambda>t. t" and fk = True and filename = "''b.tar.gz''"]
  by (simp add: demo_sq_formats_def)

definition two_versions :: pkg_db where
  "two_versions = snd (pga_CreateArtifact text_env (new_artifact ''npm'' ''default'' ''p'' ''2'' ''{}'')
     (snd (pga_CreateArtifact text_env (new_artifact ''npm'' ''default'' ''p'' ''1'' ''{}'') empty_pkg)))"


theorem sqlite_republish_corrupts_witness:
  "let s = snd (sqa_CreateArtifact False (new_artifact ''npm'' ''default'' ''b'' ''1'' ''B'') (snd (sqa_CreateArtifact False (new_artifact ''npm'' ''default'' ''a'' ''1'' ''A'') empty_sq_pkg)))
   in fst (sqa_CreateArtifact False (new_artifact ''npm'' ''default'' ''a'' ''1'' ''A2'') s) = Inr 2"
  unfolding Let_def
  using sqlite_republish_corrupts [OF _ _ _ _ refl prod.collapse [symmetric], of "''npm''" "''default''" "''a''" "''1''" "''npm''" "''default''" "''b''" "''1''" "''A''" "''B''" "''A2''" False "\<lambda>t. t"]
  by simp

end
