(* ===== verification/Package_Server.thy ===== *)
theory Package_Server
  imports Package_Properties
begin

text \<open>
  The package registries as \<^verbatim>\<open>internal/api/formats/router.go\<close> and \<^verbatim>\<open>cmd/serve.go\<close> put them together: the routes
  of the formats under \<^verbatim>\<open>/repository\<close> and of the artifact API under \<^verbatim>\<open>/api/v1\<close>, all behind the middleware of the
  container registry. Which pattern a path matches, and with which parameters, is the choice of the routing library.
\<close>

subsection \<open>Statistics: internal/api/artifacts/stats.go\<close>

definition art_GetStatistics :: "('s, 'w, 'd) formats \<Rightarrow> request \<Rightarrow> 'd \<Rightarrow> response" where
  "art_GetStatistics F req d =
     (let format = rq_query req ''format''; ns0 = rq_query req ''namespace'';
          namespace = (if ns0 = [] then ''default'' else ns0) in
      case as_GetArtifactStatistics (fo_db F) format namespace d of
        Inl e \<Rightarrow> http_error [] (err_msg e) 500
      | Inr stats \<Rightarrow> reply 200 json_type (JsonDoc (JObj [(''TotalPackages'', doc_int (as_packages stats)),
          (''TotalVersions'', doc_int (as_versions stats)), (''TotalSize'', doc_int 0),
          (''FormatBreakdown'', json_map (map (\<lambda>(f, n). (f, doc_int n)) (as_breakdown stats)))])))"

subsection \<open>Routes\<close>

datatype pkg_handler =
    N_getPackageMetadata | N_downloadTarball | N_publishPackage
  | N_getScopedPackageMetadata | N_downloadScopedTarball | N_publishScopedPackage
  | Y_listPackages | Y_packageDetails | Y_uploadPackage | Y_downloadPackage
  | L_getIndex | L_uploadChart | L_downloadChart
  | G_uploadModule | G_serveProxy
  | D_uploadPackage | D_getRelease | D_getPackages | D_getPackagesGz | D_downloadPackage
  | C_uploadPackage | C_packagesJson | C_packageMetadata | C_downloadDist
  | P_uploadPod | P_allPodsIndex | P_podSpecView | P_downloadTarball
  | B_uploadBottle | B_bottleMetadata | B_downloadBottle
  | A_listPackages | A_listVersions | A_getArtifact | A_deleteAllVersions | A_deleteVersion | A_GetStatistics

definition npm_routes :: "(string \<times> string \<times> pkg_handler) list" where
  "npm_routes =
     [(''GET'', ''/{package}'', N_getPackageMetadata), (''GET'', ''/{package}/-/{tarball}'', N_downloadTarball),
      (''PUT'', ''/{package}'', N_publishPackage), (''GET'', ''/@'' @ ''{scope}/{package}'', N_getScopedPackageMetadata),
      (''GET'', ''/@'' @ ''{scope}/{package}/-/{tarball}'', N_downloadScopedTarball),
      (''PUT'', ''/@'' @ ''{scope}/{package}'', N_publishScopedPackage)]"

definition pypi_routes :: "(string \<times> string \<times> pkg_handler) list" where
  "pypi_routes =
     [(''GET'', ''/simple/'', Y_listPackages), (''GET'', ''/simple/{package}/'', Y_packageDetails),
      (''POST'', ''/'', Y_uploadPackage), (''GET'', ''/packages/{version}/{filename}'', Y_downloadPackage)]"

definition helm_routes :: "(string \<times> string \<times> pkg_handler) list" where
  "helm_routes =
     [(''GET'', ''/index.yaml'', L_getIndex), (''POST'', ''/api/charts'', L_uploadChart),
      (''GET'', ''/charts/{filename}'', L_downloadChart)]"

definition go_routes :: "(string \<times> string \<times> pkg_handler) list" where
  "go_routes = [(''POST'', ''/upload'', G_uploadModule), (''GET'', ''/*'', G_serveProxy)]"

definition apt_routes :: "(string \<times> string \<times> pkg_handler) list" where
  "apt_routes =
     [(''POST'', ''/upload'', D_uploadPackage), (''GET'', ''/dists/{codename}/Release'', D_getRelease),
      (''GET'', ''/dists/{codename}/main/binary-{arch}/Packages'', D_getPackages),
      (''GET'', ''/dists/{codename}/main/binary-{arch}/Packages.gz'', D_getPackagesGz),
      (''GET'', ''/pool/main/{prefix}/{pkgName}/{filename}'', D_downloadPackage)]"

definition composer_routes :: "(string \<times> string \<times> pkg_handler) list" where
  "composer_routes =
     [(''POST'', ''/upload'', C_uploadPackage), (''GET'', ''/packages.json'', C_packagesJson),
      (''GET'', ''/p2/{vendor}/{package}.json'', C_packageMetadata),
      (''GET'', ''/dists/{vendor}/{package}/{filename}'', C_downloadDist)]"

definition pods_routes :: "(string \<times> string \<times> pkg_handler) list" where
  "pods_routes =
     [(''POST'', ''/api/v1/pods'', P_uploadPod), (''GET'', ''/all_pods.txt'', P_allPodsIndex),
      (''GET'', ''/Specs/*'', P_podSpecView), (''GET'', ''/tarballs/{filename}'', P_downloadTarball)]"

definition brew_routes :: "(string \<times> string \<times> pkg_handler) list" where
  "brew_routes =
     [(''POST'', ''/upload'', B_uploadBottle), (''GET'', ''/api/formula/{formula}.json'', B_bottleMetadata),
      (''GET'', ''/{filename}'', B_downloadBottle)]"

definition artifact_routes :: "(string \<times> string \<times> pkg_handler) list" where
  "artifact_routes =
     [(''GET'', ''/{format}/{namespace}'', A_listPackages), (''GET'', ''/{format}/{namespace}/{package}'', A_listVersions),
      (''GET'', ''/{format}/{namespace}/{package}/{version}'', A_getArtifact),
      (''DELETE'', ''/{format}/{namespace}/{package}'', A_deleteAllVersions),
      (''DELETE'', ''/{format}/{namespace}/{package}/{version}'', A_deleteVersion)]"

definition mount :: "string \<Rightarrow> (string \<times> string \<times> pkg_handler) list \<Rightarrow> (string \<times> string \<times> pkg_handler) list" where
  "mount pre rs = map (\<lambda>(m, pat, h). (m, pre @ pat, h)) rs"

definition pkg_routes :: "(string \<times> string \<times> pkg_handler) list" where
  "pkg_routes =
     concat [mount ''/repository/npm'' npm_routes, mount ''/repository/pypi'' pypi_routes, mount ''/repository/apt'' apt_routes,
       mount ''/repository/go'' go_routes, mount ''/repository/helm'' helm_routes, mount ''/repository/composer'' composer_routes,
       mount ''/repository/cocoapods'' pods_routes, mount ''/repository/brew'' brew_routes,
       mount ''/api/v1/artifacts'' artifact_routes, [(''GET'', ''/api/v1/stats'', A_GetStatistics)]]"

subsection \<open>Serving\<close>

text \<open>
  \<open>ps_chi\<close> is the pattern the routing library finds among those of the method, with the values of its parameters; the
  accounts are those of the registry, which the package handlers do not change.
\<close>

record ('k, 's, 'w, 'd, 'a) pkg_server =
  ps_formats :: "('s, 'w, 'd) formats"
  ps_jwt :: "'k jwt_lib"
  ps_ts :: "'k token_service"
  ps_developer :: bool
  ps_accounts :: "'a store"
  ps_chi :: "request \<Rightarrow> (string \<times> (string \<Rightarrow> string)) option"
  ps_unrouted :: "request \<Rightarrow> response"
  ps_now :: int

definition pkg_auth :: "('k, 's, 'w, 'd, 'a) pkg_server \<Rightarrow> 'a \<Rightarrow> 'k middleware" where
  "pkg_auth P a = \<lparr>mw_ts = ps_ts P, mw_developer = ps_developer P,
     mw_validator = Some (\<lambda>u p. case st_AuthenticateUser (ps_accounts P) u p a of Inl e \<Rightarrow> Inl e | Inr user \<Rightarrow> Inr (us_scopes user))\<rparr>"

text \<open>\<^const>\<open>None\<close> stands for a handler that never returns.\<close>

definition run_pkg ::
  "('s, 'w, 'd) formats \<Rightarrow> pkg_handler \<Rightarrow> (string \<Rightarrow> string) \<Rightarrow> request \<Rightarrow> ('s, 'd) world \<Rightarrow> (outcome \<times> ('s, 'd) world) option" where
  "run_pkg F h par req w =
     (let d = wd_db w; s = wd_st w; pure = (\<lambda>r. Some (Respond r, w)); chg = (\<lambda>x. Some (Respond (fst x), snd x));
          del = (\<lambda>x. Some (Respond (fst x), w\<lparr>wd_db := snd x\<rparr>)); pkg = par ''package''; scopedPkg = scoped (par ''scope'') (par ''package'') in
      case h of
        N_getPackageMetadata \<Rightarrow> pure (npm_handleGetMetadata F req ''default'' pkg d)
      | N_downloadTarball \<Rightarrow> pure (npm_handleDownload F ''default'' pkg (par ''tarball'') s)
      | N_publishPackage \<Rightarrow> chg (npm_handlePublish F req ''default'' pkg w)
      | N_getScopedPackageMetadata \<Rightarrow> pure (npm_handleGetMetadata F req ''default'' scopedPkg d)
      | N_downloadScopedTarball \<Rightarrow> pure (npm_handleDownload F ''default'' scopedPkg (par ''tarball'') s)
      | N_publishScopedPackage \<Rightarrow> chg (npm_handlePublish F req ''default'' scopedPkg w)
      | Y_listPackages \<Rightarrow> pure (pypi_listPackages F d)
      | Y_packageDetails \<Rightarrow> pure (pypi_packageDetails F req pkg d)
      | Y_uploadPackage \<Rightarrow> chg (pypi_uploadPackage F req w)
      | Y_downloadPackage \<Rightarrow> pure (pypi_downloadPackage F (par ''version'') (par ''filename'') s)
      | L_getIndex \<Rightarrow> pure (helm_getIndex F req d)
      | L_uploadChart \<Rightarrow> chg (helm_uploadChart F req w)
      | L_downloadChart \<Rightarrow> pure (helm_downloadChart F (par ''filename'') s)
      | G_uploadModule \<Rightarrow> Some (go_uploadModule F req w)
      | G_serveProxy \<Rightarrow> pure (go_serveProxy F (par ''*'') w)
      | D_uploadPackage \<Rightarrow> apt_uploadPackage F req w
      | D_getRelease \<Rightarrow> pure (apt_getRelease F (par ''codename'') d)
      | D_getPackages \<Rightarrow> pure (apt_getPackages F (par ''codename'') (par ''arch'') d)
      | D_getPackagesGz \<Rightarrow> pure (apt_getPackagesGz F (par ''codename'') (par ''arch'') d)
      | D_downloadPackage \<Rightarrow> pure (apt_downloadPackage F (par ''prefix'') (par ''pkgName'') (par ''filename'') s)
      | C_uploadPackage \<Rightarrow> Some (composer_uploadPackage F req w)
      | C_packagesJson \<Rightarrow> pure (composer_packagesJson req)
      | C_packageMetadata \<Rightarrow> Some (composer_packageMetadata F req (par ''vendor'') pkg d, w)
      | C_downloadDist \<Rightarrow> pure (composer_downloadDist F (par ''vendor'') pkg (par ''filename'') s)
      | P_uploadPod \<Rightarrow> chg (pods_uploadPod F req w)
      | P_allPodsIndex \<Rightarrow> pure (pods_allPodsIndex F d)
      | P_podSpecView \<Rightarrow> pure (pods_podSpecView F (par ''*'') d)
      | P_downloadTarball \<Rightarrow> pure (pods_downloadTarball F (par ''filename'') s)
      | B_uploadBottle \<Rightarrow> chg (brew_uploadBottle F req w)
      | B_bottleMetadata \<Rightarrow> Some (brew_bottleMetadata F req (par ''formula'') d, w)
      | B_downloadBottle \<Rightarrow> pure (brew_downloadBottle F (par ''filename'') w)
      | A_listPackages \<Rightarrow> pure (art_listPackages F (par ''format'') (par ''namespace'') d)
      | A_listVersions \<Rightarrow> pure (art_listVersions F (par ''format'') (par ''namespace'') pkg d)
      | A_getArtifact \<Rightarrow> pure (art_getArtifact F (par ''format'') (par ''namespace'') pkg (par ''version'') d)
      | A_deleteAllVersions \<Rightarrow> del (art_deleteAllVersions F (par ''format'') (par ''namespace'') pkg d)
      | A_deleteVersion \<Rightarrow> del (art_deleteVersion F (par ''format'') (par ''namespace'') pkg (par ''version'') d)
      | A_GetStatistics \<Rightarrow> pure (art_GetStatistics F req d))"

definition pkg_route :: "('k, 's, 'w, 'd, 'a) pkg_server \<Rightarrow> request \<Rightarrow> (pkg_handler \<times> (string \<Rightarrow> string)) option" where
  "pkg_route P req =
     Option.bind (ps_chi P req) (\<lambda>(pat, par).
       map_option (\<lambda>(_, _, h). (h, par)) (find (\<lambda>(m, pat', _). m = rq_method req \<and> pat' = pat) pkg_routes))"

definition serve_pkg ::
  "('k, 's, 'w, 'd, 'a) pkg_server \<Rightarrow> 'a \<Rightarrow> request \<Rightarrow> ('s, 'd) world \<Rightarrow> (outcome \<times> ('s, 'd) world) option" where
  "serve_pkg P a req w =
     (case Protect (ps_jwt P) (pkg_auth P a) (ps_now P) req of
        Answer r \<Rightarrow> Some (Respond r, w)
      | Next _ \<Rightarrow>
          (case pkg_route P req of
             None \<Rightarrow> Some (Respond (ps_unrouted P req), w)
           | Some (h, par) \<Rightarrow> run_pkg (ps_formats P) h par req w))"

subsection \<open>Who may write\<close>

definition writers :: "pkg_handler list" where
  "writers = [N_publishPackage, N_publishScopedPackage, Y_uploadPackage, L_uploadChart, G_uploadModule, D_uploadPackage,
     C_uploadPackage, P_uploadPod, B_uploadBottle, A_deleteAllVersions, A_deleteVersion]"

lemma run_pkg_readers: "h \<notin> set writers \<Longrightarrow> run_pkg F h par req w = Some (out, w') \<Longrightarrow> w' = w"
  by (cases h) (simp_all add: run_pkg_def writers_def Let_def)

lemma writers_routes: "list_all (\<lambda>(m, _, h). List.member writers h \<longrightarrow> List.member [''POST'', ''PUT'', ''DELETE''] m) pkg_routes"
  by code_simp

lemma pkg_route_table: "pkg_route P req = Some (h, par) \<Longrightarrow> \<exists>pat. (rq_method req, pat, h) \<in> set pkg_routes"
  by (auto simp: pkg_route_def find_Some_iff split: Option.bind_splits) (metis nth_mem)

lemma pkg_route_writes:
  assumes "pkg_route P req = Some (h, par)" "h \<in> set writers"
  shows "getRequiredAction req = ''push''"
proof -
  obtain pat where "(rq_method req, pat, h) \<in> set pkg_routes" using pkg_route_table [OF assms(1)] by blast
  then have "rq_method req \<in> {''POST'', ''PUT'', ''DELETE''}"
    using writers_routes assms(2) by (auto simp: list_all_iff List.member_iff)
  then show ?thesis by (auto simp: getRequiredAction_def)
qed

lemma pkg_validator:
  "mw_validator (pkg_auth P a) = Some v \<Longrightarrow> v u p = Inr scopes \<Longrightarrow>
   \<exists>user. st_AuthenticateUser (ps_accounts P) u p a = Inr user \<and> scopes = us_scopes user"
  by (auto simp: pkg_auth_def split: sum.splits)

text \<open>(C24) 
  Outside developer mode a request to the package registries or the artifact API changes files or versions only if it
  carries the right to push to the repository its path is taken for: either the password of an account with a scope
  that covers it, or a token with an entry of exactly that name.
\<close>

theorem pkg_writes_need_push:
  assumes "\<not> ps_developer P" "serve_pkg P a req w = Some (out, w')" "w' \<noteq> w" "HasPrefix (rq_path req) ''/repository/'' \<or> HasPrefix (rq_path req) ''/api/v1/''"
  shows "(\<exists>u p user s. parseBasicAuth (rq_header req ''Authorization'') = Some (u, p) \<and> st_AuthenticateUser (ps_accounts P) u p a = Inr user \<and>
        s \<in> set (us_scopes user) \<and> (s = ''*'' \<or> matchesScope s ''repository'' (extractRepo (rq_path req)) [''push''])) \<or>
    (\<exists>c e. ParseToken (ps_jwt P) (ps_ts P) (ps_now P) (TrimPrefix (rq_header req ''Authorization'') ''Bearer '') = Inr c \<and> e \<in> set (cl_access c) \<and>
        ae_type e = ''repository'' \<and> ae_name e = extractRepo (rq_path req) \<and> (''push'' \<in> set (ae_actions e) \<or> ''*'' \<in> set (ae_actions e)))"
proof -
  obtain oc where nx: "Protect (ps_jwt P) (pkg_auth P a) (ps_now P) req = Next oc"
    using assms(2,3) by (auto simp: serve_pkg_def split: verdict.splits)
  then obtain h par where r: "pkg_route P req = Some (h, par)" "run_pkg (ps_formats P) h par req w = Some (out, w')"
    using assms(2,3) by (auto simp: serve_pkg_def split: option.splits)
  then have "h \<in> set writers" using run_pkg_readers assms(3) by blast
  then have push: "getRequiredAction req = ''push''" by (rule pkg_route_writes [OF r(1)])
  have path: "rq_path req \<noteq> ''/v2/''" "rq_path req \<noteq> ''/v2/_catalog''" using assms(4) by (auto simp: HasPrefix_iff)
  have "\<not> mw_developer (pkg_auth P a)" using assms(1) by (simp add: pkg_auth_def)
  from nx [unfolded Protect_Next_cases [OF this] Let_def]
  show ?thesis
  proof (elim disjE exE conjE)
    fix v u p scopes
    assume "mw_validator (pkg_auth P a) = Some v" "parseBasicAuth (rq_header req ''Authorization'') = Some (u, p)"
      "v u p = Inr scopes" "basic_authorized req scopes"
    with pkg_validator [of P a v u p scopes] push path show ?thesis by (auto simp: basic_authorized_def list_ex_iff)
  next
    fix c
    assume "ParseToken (ps_jwt P) (mw_ts (pkg_auth P a)) (ps_now P) (TrimPrefix (rq_header req ''Authorization'') ''Bearer '') = Inr c"
      "\<exists>e \<in> set (cl_access c). entry_authorizes req e"
    with push path show ?thesis by (auto simp: pkg_auth_def entry_authorizes_def)
  qed (use path in simp)
qed

text \<open>
  The lockout does not reach the package registries: after ten failures the token endpoint answers every login for
  the name with 429, but a request to the package registries with the password is served as if there had been none,
  and leaves no trace however many passwords are tried.
\<close>

theorem pkg_login_unlimited:
  assumes "he_store E = pg_store bc" "credentials E r = Some (user, pass)" "he_now E - 900 < now a" "10 \<le> k"
    and "ps_accounts P = pg_store bc"
  shows "tokenHandler E r (add_failures k user ip a) = (Respond too_many_attempts, add_failures k user ip a) \<and>
    serve_pkg P (add_failures k user ip a) req w = serve_pkg P a req w"
proof
  have "locked_out E user (add_failures k user ip a)" using assms by (simp add: locked_out_pg failures_add)
  with assms(2) show "tokenHandler E r (add_failures k user ip a) = (Respond too_many_attempts, add_failures k user ip a)"
    by (simp add: tokenHandler_def)
  have "pkg_auth P (add_failures k user ip a) = pkg_auth P a"
    using assms(5) by (simp add: pkg_auth_def pg_store_def authenticate_add_failures)
  then show "serve_pkg P (add_failures k user ip a) req w = serve_pkg P a req w" by (simp add: serve_pkg_def)
qed

subsection \<open>A concrete server\<close>

definition demo_pkg_server :: "(nat, mem, mem_writer, pkg_db, db) pkg_server" where
  "demo_pkg_server = \<lparr>ps_formats = demo_formats, ps_jwt = one_token (claims_of ''bob'' 100 []), ps_ts = one_service, ps_developer = False,
     ps_accounts = pg_store plain_bcrypt, ps_chi = (\<lambda>r. Some (''/api/v1/artifacts/{format}/{namespace}/{package}/{version}'',
       \<lambda>k. if k = ''format'' then ''npm'' else if k = ''namespace'' then ''default'' else if k = ''package'' then ''p'' else ''1'')),
     ps_unrouted = (\<lambda>_. status 404), ps_now = 100\<rparr>"

definition star_db :: db where
  "star_db = snd (pg_CreateUser ''bob'' ''pw'' [''*''] empty_db)"

definition delete_request :: request where
  "delete_request = plain_request ''DELETE'' ''/api/v1/artifacts/npm/default/p/1'' ''Basic Ym9iOnB3''"

definition stocked :: "(mem, pkg_db) world" where
  "stocked = \<lparr>wd_st = Map.empty, wd_db = two_versions\<rparr>"

lemma delete_request_served:
  "serve_pkg demo_pkg_server star_db delete_request stocked =
     Some (Respond (deleted_reply ''Artifact deleted successfully''), stocked\<lparr>wd_db := snd (pga_DeleteArtifact ''npm'' ''default'' ''p'' ''1'' two_versions)\<rparr>)"
proof -
  have pr: "\<exists>c. Protect (ps_jwt demo_pkg_server) (pkg_auth demo_pkg_server star_db) 100 delete_request = Next c"
  proof -
    have "case Protect (ps_jwt demo_pkg_server) (pkg_auth demo_pkg_server star_db) 100 delete_request of Next _ \<Rightarrow> True | _ \<Rightarrow> False" by code_simp
    then show ?thesis by (auto split: verdict.splits)
  qed
  have rt: "case pkg_route demo_pkg_server delete_request of Some (h, par) \<Rightarrow> h = A_deleteVersion \<and> par ''format'' = ''npm'' \<and>
      par ''namespace'' = ''default'' \<and> par ''package'' = ''p'' \<and> par ''version'' = ''1'' | None \<Rightarrow> False" by code_simp
  have dl: "fst (pga_DeleteArtifact ''npm'' ''default'' ''p'' ''1'' two_versions) = Inr ()" by code_simp
  from pr rt dl show ?thesis
    by (auto simp: serve_pkg_def run_pkg_def art_deleteVersion_def stocked_def demo_pkg_server_def Let_def split: option.splits prod.splits sum.splits)
qed

theorem pkg_writes_need_push_witness:
  "\<exists>u p user. parseBasicAuth ''Basic Ym9iOnB3'' = Some (u, p) \<and> pg_AuthenticateUser plain_bcrypt u p star_db = Inr user \<and> us_scopes user \<noteq> []"
proof -
  have "pk_arts (snd (pga_DeleteArtifact ''npm'' ''default'' ''p'' ''1'' two_versions)) \<noteq> pk_arts two_versions" by code_simp
  moreover have "wd_db (stocked\<lparr>wd_db := snd (pga_DeleteArtifact ''npm'' ''default'' ''p'' ''1'' two_versions)\<rparr>) =
      snd (pga_DeleteArtifact ''npm'' ''default'' ''p'' ''1'' two_versions)" "wd_db stocked = two_versions" by (simp_all only: world.simps stocked_def)
  ultimately have ne: "stocked\<lparr>wd_db := snd (pga_DeleteArtifact ''npm'' ''default'' ''p'' ''1'' two_versions)\<rparr> \<noteq> stocked" by metis
  have "\<not> ps_developer demo_pkg_server" by (simp add: demo_pkg_server_def)
  note pkg_writes_need_push [OF this delete_request_served ne]
  moreover have "HasPrefix (rq_path delete_request) ''/api/v1/''" by code_simp
  moreover have "case ParseToken (ps_jwt demo_pkg_server) (ps_ts demo_pkg_server) (ps_now demo_pkg_server)
      (TrimPrefix (rq_header delete_request ''Authorization'') ''Bearer '') of Inl _ \<Rightarrow> True | _ \<Rightarrow> False" by code_simp
  ultimately show ?thesis
    by (auto simp: delete_request_def demo_pkg_server_def pg_store_def split: sum.splits)
qed

theorem pkg_login_unlimited_witness:
  "fst (tokenHandler bob_env wrong_login (add_failures 10 ''bob'' ''10.0.0.1'' bob_db)) = Respond too_many_attempts \<and>
   serve_pkg demo_pkg_server (add_failures 10 ''bob'' ''10.0.0.1'' bob_db) delete_request stocked = serve_pkg demo_pkg_server bob_db delete_request stocked"
proof -
  have cred: "credentials bob_env wrong_login = Some (''bob'', ''no'')" by code_simp
  have win: "he_now bob_env - 900 < now bob_db" by code_simp
  have st: "he_store bob_env = pg_store plain_bcrypt" by (simp add: bob_env_def pg_env_def)
  have ac: "ps_accounts demo_pkg_server = pg_store plain_bcrypt" by (simp add: demo_pkg_server_def)
  from pkg_login_unlimited [OF st cred win order_refl ac] show ?thesis by (simp only: fst_conv)
qed

end
