(* ===== verification/Sso_Properties.thy ===== *)
theory Sso_Properties
  imports Sso Package_Server
begin

text \<open>
  What the logins of the web interface guarantee: a callback of the OpenID provider completes a login that was begun, once and in time,
  and with its nonce; and which rights the tokens carry.
\<close>

subsection \<open>Callbacks complete logins\<close>

text \<open>A history of the service: logins begun, callbacks, and changes of the database by the rest of the registry.\<close>

datatype ('k, 'd) sso_event =
    SsoLogin "('k, 'd) oidc_env"
  | SsoCallback "('k, 'd) oidc_env" request
  | SsoOther "'d \<Rightarrow> 'd"

fun sso_step :: "('k, 'd) sso_event \<Rightarrow> states \<times> 'd \<Rightarrow> states \<times> 'd" where
  "sso_step (SsoLogin E) (st, s) = (snd (handleSSOLogin E st), s)"
| "sso_step (SsoCallback E req) w = snd (handleCallback E req w)"
| "sso_step (SsoOther f) (st, s) = (st, f s)"

definition sso_run :: "('k, 'd) sso_event list \<Rightarrow> states \<times> 'd \<Rightarrow> states \<times> 'd" where
  "sso_run evs w = fold sso_step evs w"

lemma sso_run_snoc: "sso_run (evs @ [e]) w = sso_step e (sso_run evs w)"
  by (simp add: sso_run_def)

fun uses_state :: "string \<Rightarrow> ('k, 'd) sso_event \<Rightarrow> bool" where
  "uses_state k (SsoCallback _ req) = (rq_query req ''state'' = k)"
| "uses_state k _ = False"

text \<open>Login \<open>E\<close> issued state \<open>k\<close> with the entry \<open>e\<close>.\<close>

definition issued :: "('k, 'd) oidc_env \<Rightarrow> string \<Rightarrow> state_entry \<Rightarrow> bool" where
  "issued E k e \<longleftrightarrow> generateRandomString (fst (oi_random E)) 32 = Inr k \<and>
     generateRandomString (snd (oi_random E)) 32 = Inr (se_nonce e) \<and> se_expiry e = oi_now E + 300"

definition pending :: "('k, 'd) sso_event list \<Rightarrow> string \<Rightarrow> state_entry \<Rightarrow> bool" where
  "pending evs k e \<longleftrightarrow> (\<exists>pre E post. evs = pre @ SsoLogin E # post \<and> issued E k e \<and> \<not> list_ex (uses_state k) post)"

lemma pending_keep:
  assumes "pending evs k e" "\<not> uses_state k ev"
  shows "pending (evs @ [ev]) k e"
proof -
  obtain pre E post where "evs = pre @ SsoLogin E # post" "issued E k e" "\<not> list_ex (uses_state k) post"
    using assms(1) by (auto simp: pending_def)
  with assms(2) show ?thesis
    unfolding pending_def by (intro exI [of _ pre] exI [of _ E] exI [of _ "post @ [ev]"]) simp
qed

lemma pending_new: "issued E k e \<Longrightarrow> pending (evs @ [SsoLogin E]) k e"
  unfolding pending_def by (intro exI [of _ evs] exI [of _ E] exI [of _ "[]"]) simp

lemma login_entry:
  assumes "snd (handleSSOLogin E st) k = Some e"
  shows "st k = Some e \<or> issued E k e"
  using assms
  by (auto simp: handleSSOLogin_def cleanupExpiredStatesLocked_def issued_def split: sum.splits option.splits if_splits)

lemma callback_states:
  assumes "handleCallback E req (st, s) = (resp, st', s')"
  shows "st' = (if rq_query req ''state'' = [] then st else st(rq_query req ''state'' := None))"
  using assms
  by (auto simp: handleCallback_def take_state_def Let_def split: if_splits option.splits sum.splits prod.splits)

lemma states_pending: "fst (sso_run evs (Map.empty, s)) k = Some e \<Longrightarrow> k \<noteq> [] \<Longrightarrow> pending evs k e"
proof (induction evs arbitrary: k e rule: rev_induct)
  case Nil
  then show ?case by (simp add: sso_run_def)
next
  case (snoc ev evs)
  obtain st d where w: "sso_run evs (Map.empty, s) = (st, d)" by force
  have old: "st k = Some e \<Longrightarrow> pending evs k e" using snoc w by simp
  show ?case
  proof (cases ev)
    case (SsoLogin E)
    with snoc.prems w have "snd (handleSSOLogin E st) k = Some e" by (simp add: sso_run_snoc)
    with old show ?thesis using login_entry [of E st k e] SsoLogin by (auto intro: pending_keep pending_new)
  next
    case (SsoCallback E req)
    obtain r st' d' where c: "handleCallback E req (st, d) = (r, st', d')" by (metis prod_cases3)
    with snoc.prems w SsoCallback have "st' k = Some e" by (simp add: sso_run_snoc)
    then have "st k = Some e" "rq_query req ''state'' \<noteq> k"
      using callback_states [OF c] snoc.prems by (auto split: if_splits)
    with old SsoCallback show ?thesis by (auto intro: pending_keep)
  next
    case (SsoOther f)
    with snoc.prems w old show ?thesis by (auto simp: sso_run_snoc intro: pending_keep)
  qed
qed

lemma id_token_claims_Inl: "id_token_claims E req = Inl r \<Longrightarrow> rs_status r \<noteq> 302"
  by (auto simp: id_token_claims_def Let_def split: if_splits sum.splits option.splits)

lemma callback_302:
  assumes "rs_status (fst (handleCallback E req (st, s))) = 302"
  shows "rq_query req ''state'' \<noteq> [] \<and> (\<exists>e c. st (rq_query req ''state'') = Some e \<and> oi_now E \<le> se_expiry e \<and>
    id_token_claims E req = Inr c \<and> ic_nonce c = se_nonce e)"
  using assms id_token_claims_Inl [of E req]
  by (auto simp: handleCallback_def take_state_def Let_def split: if_splits option.splits sum.splits prod.splits)

text \<open>(C11) 
  A single sign-on is completed only by whoever began it: whatever the history of logins, callbacks and changes of the database, a
  callback that is answered with a session names the state of an earlier login, begun at most five minutes before, which no callback
  has used since, and the ID token the provider gave for its code carries the nonce of that login.
\<close>

theorem sso_callback_completes_login:
  assumes "rs_status (fst (handleCallback E req (sso_run evs (Map.empty, s)))) = 302"
  shows "\<exists>pre E0 post nonce c. evs = pre @ SsoLogin E0 # post \<and>
    generateRandomString (fst (oi_random E0)) 32 = Inr (rq_query req ''state'') \<and> generateRandomString (snd (oi_random E0)) 32 = Inr nonce \<and>
    oi_now E \<le> oi_now E0 + 300 \<and> \<not> list_ex (uses_state (rq_query req ''state'')) post \<and>
    id_token_claims E req = Inr c \<and> ic_nonce c = nonce"
proof -
  obtain st d where w: "sso_run evs (Map.empty, s) = (st, d)" by force
  from callback_302 [of E req st d] assms w obtain e c where
    e: "rq_query req ''state'' \<noteq> []" "st (rq_query req ''state'') = Some e" "oi_now E \<le> se_expiry e" "id_token_claims E req = Inr c" "ic_nonce c = se_nonce e"
    by auto
  with states_pending [of evs s "rq_query req ''state''" e] w have "pending evs (rq_query req ''state'') e" by simp
  with e show ?thesis unfolding pending_def issued_def by fastforce
qed

subsection \<open>Rights of a session\<close>

lemma SplitN_3: "c \<notin> set p \<Longrightarrow> c \<notin> set q \<Longrightarrow> SplitN (p @ c # q @ c # s) c 3 = [p, q, s]"
  by (simp add: numeral_3_eq_3 Let_def takeWhile_sep)

lemma TrimSpace_id:
  assumes "s \<noteq> []" "\<not> is_space (hd s)" "\<not> is_space (last s)"
  shows "TrimSpace s = s"
proof -
  have front: "xs \<noteq> [] \<Longrightarrow> \<not> is_space (hd xs) \<Longrightarrow> dropWhile is_space xs = xs" for xs by (cases xs) simp_all
  show ?thesis using assms front [of s] front [of "rev s"] by (simp add: TrimSpace_def hd_rev)
qed

definition group_entry :: "string \<Rightarrow> string list \<Rightarrow> access_entry" where
  "group_entry g acts = \<lparr>ae_type = ''repository'', ae_name = g @ ''/*'', ae_actions = acts\<rparr>"

lemma scope_entry_group:
  assumes "CHR '':'' \<notin> set g" "filter (\<lambda>a. a \<noteq> []) (map TrimSpace (Split acts CHR '','')) \<noteq> []"
  shows "scope_entry (''repository:'' @ g @ ''/*:'' @ acts) =
    Some (group_entry g (filter (\<lambda>a. a \<noteq> []) (map TrimSpace (Split acts CHR '',''))))"
proof -
  have "acts \<noteq> []" using assms(2) by (auto simp: TrimSpace_def)
  moreover have "SplitN (''repository'' @ CHR '':'' # (g @ ''/*'') @ CHR '':'' # acts) CHR '':'' 3 = [''repository'', g @ ''/*'', acts]"
    using assms(1) by (intro SplitN_3) auto
  ultimately show ?thesis using assms(2) by (simp add: scope_entry_def group_entry_def Let_def)
qed

lemma group_scope_trim: "TrimSpace (''repository:'' @ g @ ''/*:pull,push'') = ''repository:'' @ g @ ''/*:pull,push''"
  by (rule TrimSpace_id) (simp_all add: is_space_def)

lemma group_scope_entry:
  "CHR '':'' \<notin> set g \<Longrightarrow> scope_entry (''repository:'' @ g @ ''/*:pull,push'') = Some (group_entry g [''pull'', ''push''])"
proof -
  have "filter (\<lambda>a. a \<noteq> []) (map TrimSpace (Split ''pull,push'' CHR '','')) = [''pull'', ''push'']" by code_simp
  then show "CHR '':'' \<notin> set g \<Longrightarrow> ?thesis" using scope_entry_group [of g "''pull,push''"] by simp
qed

lemma group_scopes_members:
  "x \<in> set (fst (group_scopes acc gs)) \<Longrightarrow> x \<in> set acc \<or> x = ''*'' \<or> (\<exists>g \<in> set gs. x = ''repository:'' @ g @ ''/*:pull,push'')"
  by (induction acc gs rule: group_scopes.induct) (auto split: if_splits)

lemma access_members:
  "e \<in> set (ScopesToAccess_from acc ss) \<Longrightarrow>
     e \<in> set acc \<or> e \<in> set full_access \<or> (\<exists>s \<in> set ss. TrimSpace s \<noteq> ''*'' \<and> scope_entry (TrimSpace s) = Some e)"
  by (induction acc ss rule: ScopesToAccess_from.induct) (auto simp: Let_def split: if_splits option.splits)

lemma sso_entries:
  assumes "e \<in> set (ScopesToAccess (sso_scopes name c))" "\<forall>g \<in> set (name # ic_groups c). CHR '':'' \<notin> set g"
  shows "HasSuffix (ae_name e) ''*''"
proof -
  consider "e \<in> set full_access" | s where "s \<in> set (sso_scopes name c)" "TrimSpace s \<noteq> ''*''" "scope_entry (TrimSpace s) = Some e"
    using access_members [of e "[]"] assms(1) by (auto simp: ScopesToAccess_def)
  then show ?thesis
  proof cases
    case 1
    then show ?thesis by (simp add: full_access_def HasSuffix_iff)
  next
    case 2
    moreover have "TrimSpace ''*'' = ''*''" by code_simp
    ultimately have "s \<noteq> ''*''" by auto
    with 2(1) obtain g where "g \<in> set (name # ic_groups c)" "s = ''repository:'' @ g @ ''/*:pull,push''"
      using group_scopes_members [of s "[]" "ic_groups c"] by (auto simp: sso_scopes_def Let_def split: if_splits)
    then have "Some e = Some (group_entry g [''pull'', ''push''])"
      using 2(3) assms(2) group_scope_entry [of g] by (simp only: group_scope_trim simp_thms)
    then show ?thesis by (auto simp: group_entry_def HasSuffix_iff intro: exI [of _ "g @ ''/''"])
  qed
qed

text \<open>
  The session of an account that single sign-on has created opens no repository: its token lists names that end in a star, which the
  middleware compares with the name of the repository as they are. Every request with it to a repository whose name does not end in a star
  is refused, for administrators too, unless it is for the root of the API.
\<close>

theorem sso_session_denied:
  assumes "\<not> mw_developer m" "rq_header r ''Authorization'' = ''Bearer '' @ t" "ParseToken J (mw_ts m) tm t = Inr cl"
    and "cl_access cl = ScopesToAccess (sso_scopes name c)" "\<forall>g \<in> set (name # ic_groups c). CHR '':'' \<notin> set g"
    and "\<not> HasSuffix (extractRepo (rq_path r)) ''*''" "rq_path r \<noteq> ''/v2/''"
  shows "Protect J m tm r = Answer denied"
proof -
  have "\<not> HasSuffix ''catalog'' ''*''" by code_simp
  then have "\<not> list_ex (entry_authorizes r) (cl_access cl)"
    using sso_entries [of _ name c] assms(4,5,6) by (auto simp: list_ex_iff entry_authorizes_def) (metis+)
  then show ?thesis using assms by (simp add: Protect_def Let_def HasPrefix_iff TrimPrefix_def)
qed

subsection \<open>Existing accounts\<close>

text \<open>
  Single sign-on enters any account whose name the provider states: on PostgreSQL, when the name is that of an account, the session is
  for that account with its stored scopes, whether or not the address was verified, whatever the groups, and although the account was
  created with a password; nothing is written.
\<close>

theorem sso_enters_account:
  assumes "oi_store E = pg_store bc" "st (rq_query req ''state'') = Some e" "rq_query req ''state'' \<noteq> []" "oi_now E \<le> se_expiry e"
    and "id_token_claims E req = Inr c" "ic_nonce c = se_nonce e"
    and "sso_username c \<noteq> []" "find (\<lambda>r. ur_name r = sso_username c) (users s) = Some row"
  shows "handleCallback E req (st, s) =
    (sso_answer E c (sso_username c) (ScopesToAccess [ur_scopes row]), st(rq_query req ''state'' := None), s)"
proof -
  have "ur_name row = sso_username c" using assms(8) by (auto simp: find_Some_iff)
  then have "sign_in E c s = (sso_answer E c (sso_username c) (ScopesToAccess [ur_scopes row]), s)"
    using assms(1,7,8) by (simp add: sign_in_def get_or_create_def pg_store_def pg_GetUserByUsername_def user_of_row_def)
  with assms show ?thesis by (simp add: handleCallback_def take_state_def Let_def)
qed

lemma sso_scopes_two:
  assumes "a \<notin> {''admins'', ''registry-admins''}" "b \<notin> {''admins'', ''registry-admins''}" "ic_groups c = [a, b]"
  shows "sso_scopes name c = [''repository:'' @ a @ ''/*:pull,push'', ''repository:'' @ b @ ''/*:pull,push'']"
  using assms by (simp add: sso_scopes_def)

lemma joined_scope_entry:
  assumes "CHR '':'' \<notin> set a" "CHR '','' \<notin> set b"
  shows "ScopesToAccess [Join [''repository:'' @ a @ ''/*:pull,push'', ''repository:'' @ b @ ''/*:pull,push''] CHR '',''] =
    [group_entry a [''pull'', ''push'', ''repository:'' @ b @ ''/*:pull'', ''push'']]"
proof -
  let ?acts = "''pull'' @ CHR '','' # ''push'' @ CHR '','' # (''repository:'' @ b @ ''/*:pull'') @ CHR '','' # ''push''"
  have "Split ?acts CHR '','' = [''pull'', ''push'', ''repository:'' @ b @ ''/*:pull'', ''push'']"
    using assms(2) by (subst Split_append, simp)+ (simp add: Split_id)
  moreover have "TrimSpace (''repository:'' @ b @ ''/*:pull'') = ''repository:'' @ b @ ''/*:pull''"
    by (rule TrimSpace_id) (simp_all add: is_space_def)
  moreover have "TrimSpace ''pull'' = ''pull''" "TrimSpace ''push'' = ''push''" by code_simp+
  ultimately have ps: "filter (\<lambda>x. x \<noteq> []) (map TrimSpace (Split ?acts CHR '','')) =
      [''pull'', ''push'', ''repository:'' @ b @ ''/*:pull'', ''push'']" by simp
  have j: "Join [''repository:'' @ a @ ''/*:pull,push'', ''repository:'' @ b @ ''/*:pull,push''] CHR '','' = ''repository:'' @ a @ ''/*:'' @ ?acts"
    by simp
  have t: "TrimSpace (''repository:'' @ a @ ''/*:'' @ ?acts) = ''repository:'' @ a @ ''/*:'' @ ?acts"
    by (rule TrimSpace_id) (simp_all add: is_space_def)
  show ?thesis unfolding ScopesToAccess_def j ScopesToAccess_from.simps t Let_def
    using scope_entry_group [OF assms(1), of ?acts] ps by simp
qed

lemma pg_store_users [simp]:
  "st_GetUserByUsername (pg_store bc) = pg_GetUserByUsername" "st_CreateUser (pg_store bc) = pg_CreateUser"
  by (simp_all add: pg_store_def)

lemma sign_in_new:
  assumes "oi_store E = pg_store bc" "sso_username c \<noteq> []" "\<not> list_ex (\<lambda>r. ur_name r = sso_username c) (users s)"
  shows "sign_in E c s = (sso_answer E c (sso_username c) (ScopesToAccess (sso_scopes (sso_username c) c)),
    snd (pg_CreateUser (sso_username c) [] (sso_scopes (sso_username c) c) s))"
proof -
  have "pg_GetUserByUsername (sso_username c) s = Inl DbNotFound"
    using assms(3) by (auto simp: pg_GetUserByUsername_def list_ex_iff find_Some_iff split: option.splits)
  moreover have "pg_CreateUser (sso_username c) [] sc s = (Inr (), snd (pg_CreateUser (sso_username c) [] sc s))" for sc
    using assms(3) by (simp add: pg_CreateUser_def)
  ultimately show ?thesis using assms(1,2)
    by (simp add: sign_in_def get_or_create_def Let_def split: prod.splits sum.splits) (metis Inr_not_Inl fst_conv snd_conv)
qed

lemma find_snoc: "find P xs = None \<Longrightarrow> find P (xs @ [x]) = (if P x then Some x else None)"
  by (induction xs) (auto split: if_splits)

lemma sign_in_again:
  assumes "oi_store E = pg_store bc" "sso_username c \<noteq> []" "\<not> list_ex (\<lambda>r. ur_name r = sso_username c) (users s)"
  shows "sign_in E c (snd (pg_CreateUser (sso_username c) [] sc s)) =
    (sso_answer E c (sso_username c) (ScopesToAccess [Join sc CHR '','']), snd (pg_CreateUser (sso_username c) [] sc s))"
proof -
  have "find (\<lambda>r. ur_name r = sso_username c) (users s) = None" using assms(3) by (simp add: find_None_iff list_ex_iff)
  then have "pg_GetUserByUsername (sso_username c) (snd (pg_CreateUser (sso_username c) [] sc s)) =
      Inr \<lparr>us_id = next_id s, us_name = sso_username c, us_hash = [], us_scopes = [Join sc CHR '','']\<rparr>"
    using assms(3) by (simp add: pg_GetUserByUsername_def pg_CreateUser_def user_of_row_def find_snoc)
  with assms(1,2) show ?thesis by (simp add: sign_in_def get_or_create_def Let_def)
qed

text \<open>
  A second group is lost after the first login: a new member of two groups gets a session for both; PostgreSQL stores the two scopes as
  one text, which is read back as one scope, so the next login of the same person with the same groups gets a session that
  names the first group only, with the second as one of its actions.
\<close>

theorem sso_second_group_lost:
  assumes "oi_store E = pg_store bc" "oi_store E' = pg_store bc" "sso_username c \<noteq> []" "\<not> list_ex (\<lambda>r. ur_name r = sso_username c) (users s)"
    and "ic_groups c = [a, b]" "a \<notin> {''admins'', ''registry-admins''}" "b \<notin> {''admins'', ''registry-admins''}"
    and "CHR '':'' \<notin> set a" "CHR '':'' \<notin> set b" "CHR '','' \<notin> set b"
  shows "\<exists>s'. sign_in E c s = (sso_answer E c (sso_username c) [group_entry a [''pull'', ''push''], group_entry b [''pull'', ''push'']], s') \<and>
    sign_in E' c s' = (sso_answer E' c (sso_username c) [group_entry a [''pull'', ''push'', ''repository:'' @ b @ ''/*:pull'', ''push'']], s')"
proof -
  let ?scopes = "[''repository:'' @ a @ ''/*:pull,push'', ''repository:'' @ b @ ''/*:pull,push'']"
  have sc: "sso_scopes (sso_username c) c = ?scopes" by (rule sso_scopes_two) (use assms in auto)
  have acc: "ScopesToAccess ?scopes = [group_entry a [''pull'', ''push''], group_entry b [''pull'', ''push'']]"
    unfolding ScopesToAccess_def ScopesToAccess_from.simps group_scope_trim Let_def group_scope_entry [OF assms(8)] group_scope_entry [OF assms(9)] by simp
  note sign_in_new [OF assms(1,3,4)]
  moreover note sign_in_again [OF assms(2,3,4), of ?scopes]
  ultimately show ?thesis unfolding sc acc joined_scope_entry [OF assms(8,10)] by blast
qed

subsection \<open>Password logins\<close>

text \<open>What a signature library promises: a text it signed with the private key is parsed with the public key to the claims that were signed.\<close>

definition signs :: "'k jwt_lib \<Rightarrow> 'k \<Rightarrow> 'k \<Rightarrow> bool" where
  "signs J k pub \<longleftrightarrow> (\<forall>c t kf. jw_sign J k c = Inr t \<longrightarrow> kf True = Inr pub \<longrightarrow> t \<noteq> [] \<and> jw_parse J kf t = Inr (c, True))"

definition login_reply :: "('k, 'd) oauth_env \<Rightarrow> string \<Rightarrow> user \<Rightarrow> response" where
  "login_reply E token user =
     reply 200 json_type (JsonDoc (JObj [(''token'', JStr token), (''expires_at'', JStr (oa_time E (oa_now E + ts_expiration (oa_ts E)))),
       (''user'', doc_user_info (user_info_of user))]))"

lemma handleLogin_200:
  assumes "rs_status (handleLogin E req s) = 200"
  shows "\<exists>doc u p user t. oa_decode E (body_of req) = Inr doc \<and> login_request doc = Some (u, p) \<and>
    st_AuthenticateUser (oa_store E) u p s = Inr user \<and>
    GenerateToken (oa_jwt E) (oa_ts E) (oa_now E) (us_name user) (ScopesToAccess (us_scopes user)) = Inr t \<and>
    handleLogin E req s = login_reply E t user"
  using assms
  by (auto simp: handleLogin_def oauth_error_def login_reply_def split: option.splits sum.splits prod.splits if_splits)

lemma GenerateToken_parsed:
  assumes "GenerateToken J ts t0 subject acc = Inr t" "ts_private ts = Some k" "ts_public ts = Some pub" "signs J k pub"
    and "t1 \<le> t0 + ts_expiration ts"
  shows "t \<noteq> [] \<and> (\<exists>c. ParseToken J ts t1 t = Inr c \<and> cl_subject c = subject \<and> cl_access c = acc)"
proof -
  let ?c = "\<lparr>cl_issuer = ts_issuer ts, cl_subject = subject, cl_expires = Some (t0 + ts_expiration ts), cl_issued = Some t0,
    cl_not_before = Some t0, cl_access = acc\<rparr>"
  have "jw_sign J k ?c = Inr t" using assms(1,2) by (auto simp: GenerateToken_def split: sum.splits)
  with assms(4) have "t \<noteq> [] \<and> jw_parse J (\<lambda>rsa. if rsa then Inr pub else Inl (ErrText ''unexpected signing method'')) t = Inr (?c, True)"
    unfolding signs_def by fastforce
  with assms(3,5) show ?thesis by (simp add: ParseToken_def)
qed


text \<open>
  The lockout does not reach the web interface: after ten failures the token endpoint answers every login for the name with 429, but the
  password login answers as if there had been none, and records nothing itself.
\<close>

theorem web_login_unlimited:
  assumes "he_store E = pg_store bc" "credentials E r = Some (user, pass)" "he_now E - 900 < now s" "10 \<le> n" "oa_store W = pg_store bc"
  shows "tokenHandler E r (add_failures n user ip s) = (Respond too_many_attempts, add_failures n user ip s) \<and>
    handleLogin W req (add_failures n user ip s) = handleLogin W req s"
proof
  have "locked_out E user (add_failures n user ip s)" using assms by (simp add: locked_out_pg failures_add)
  with assms(2) show "tokenHandler E r (add_failures n user ip s) = (Respond too_many_attempts, add_failures n user ip s)"
    by (simp add: tokenHandler_def)
  have "st_AuthenticateUser (oa_store W) u p (add_failures n user ip s) = st_AuthenticateUser (oa_store W) u p s" for u p
    using assms(5) by (simp add: pg_store_def authenticate_add_failures)
  then show "handleLogin W req (add_failures n user ip s) = handleLogin W req s" by (simp only: handleLogin_def)
qed

subsection \<open>A concrete provider\<close>

text \<open>Ann, in two groups, and Bob, who has an account with a password.\<close>

definition ann_payload :: json where
  "ann_payload = JObj [(''email'', JStr ''ann''), (''groups'', JArr [JStr ''dev'', JStr ''ops'']), (''nonce'', JStr (replicate 32 (CHR ''_'')))]"

definition bob_payload :: json where
  "bob_payload = JObj [(''email'', JStr ''bob''), (''email_verified'', JBool False), (''nonce'', JStr (replicate 32 (CHR ''_'')))]"

definition ann_access :: "access_entry list" where
  "ann_access = [group_entry ''dev'' [''pull'', ''push''], group_entry ''ops'' [''pull'', ''push'']]"

definition demo_oidc :: "json \<Rightarrow> claims \<Rightarrow> (nat, db) oidc_env" where
  "demo_oidc payload c = \<lparr>oi_store = pg_store plain_bcrypt, oi_ts = one_service, oi_jwt = one_token c, oi_authURL = (\<lambda>s n. ''https://idp/?state='' @ s),
     oi_exchange = (\<lambda>c. Inr (Some c)), oi_verify = (\<lambda>_. Inr payload), oi_type_err = ErrText ''type'',
     oi_random = (Inr (replicate 32 (CHR 0x00)), Inr (replicate 32 (CHR 0xFF))), oi_time = (\<lambda>_. ''t''), oi_now = 100\<rparr>"

definition callback_request :: request where
  "callback_request = (plain_request ''GET'' ''/oauth2/callback'' [])
     \<lparr>rq_query := (\<lambda>k. if k = ''state'' then replicate 32 (CHR ''A'') else if k = ''code'' then ''x'' else [])\<rparr>"

theorem sso_callback_completes_login_witness:
  "\<exists>pre E0 post nonce c. [SsoLogin (demo_oidc ann_payload (claims_of ''ann'' 100 ann_access))] = pre @ SsoLogin E0 # post \<and>
    generateRandomString (fst (oi_random E0)) 32 = Inr (rq_query callback_request ''state'') \<and> generateRandomString (snd (oi_random E0)) 32 = Inr nonce \<and>
    oi_now (demo_oidc ann_payload (claims_of ''ann'' 100 ann_access)) \<le> oi_now E0 + 300 \<and> \<not> list_ex (uses_state (rq_query callback_request ''state'')) post \<and>
    id_token_claims (demo_oidc ann_payload (claims_of ''ann'' 100 ann_access)) callback_request = Inr c \<and> ic_nonce c = nonce"
proof -
  have "rs_status (fst (handleCallback (demo_oidc ann_payload (claims_of ''ann'' 100 ann_access)) callback_request
      (sso_run [SsoLogin (demo_oidc ann_payload (claims_of ''ann'' 100 ann_access))] (Map.empty, empty_db)))) = 302" by code_simp
  from sso_callback_completes_login [OF this] show ?thesis .
qed

definition session_request :: request where
  "session_request = plain_request ''GET'' ''/v2/dev/app/manifests/latest'' ''Bearer tok''"

definition ann_claims :: id_claims where
  "ann_claims = \<lparr>ic_email = ''ann'', ic_email_verified = False, ic_name = [], ic_preferred = [], ic_groups = [''dev'', ''ops''],
     ic_nonce = replicate 32 (CHR ''_'')\<rparr>"

theorem sso_session_denied_witness:
  "Protect (one_token (claims_of ''ann'' 100 ann_access)) one_middleware 200 session_request = Answer denied"
proof (rule sso_session_denied)
  show "\<not> mw_developer one_middleware" by code_simp
  show "rq_header session_request ''Authorization'' = ''Bearer '' @ ''tok''" by code_simp
  show "ParseToken (one_token (claims_of ''ann'' 100 ann_access)) (mw_ts one_middleware) 200 ''tok'' = Inr (claims_of ''ann'' 100 ann_access)" by code_simp
  show "cl_access (claims_of ''ann'' 100 ann_access) = ScopesToAccess (sso_scopes ''ann'' ann_claims)" by code_simp
  show "\<forall>g \<in> set (''ann'' # ic_groups ann_claims). CHR '':'' \<notin> set g" by code_simp
  show "\<not> HasSuffix (extractRepo (rq_path session_request)) ''*''" by code_simp
  show "rq_path session_request \<noteq> ''/v2/''" by code_simp
qed

definition bob_claims :: id_claims where
  "bob_claims = \<lparr>ic_email = ''bob'', ic_email_verified = False, ic_name = [], ic_preferred = [], ic_groups = [], ic_nonce = replicate 32 (CHR ''_'')\<rparr>"

definition bob_oidc :: "(nat, db) oidc_env" where
  "bob_oidc = demo_oidc bob_payload (claims_of ''bob'' 100 full_access)"

theorem sso_enters_account_witness:
  "\<exists>row. find (\<lambda>r. ur_name r = ''bob'') (users star_db) = Some row \<and>
     fst (handleCallback bob_oidc callback_request ([replicate 32 (CHR ''A'') \<mapsto> \<lparr>se_expiry = 300, se_nonce = replicate 32 (CHR ''_'')\<rparr>], star_db)) =
       sso_answer bob_oidc bob_claims ''bob'' (ScopesToAccess [ur_scopes row]) \<and> ScopesToAccess [ur_scopes row] = full_access"
proof -
  have st: "oi_store bob_oidc = pg_store plain_bcrypt" by (simp add: bob_oidc_def demo_oidc_def)
  have q: "rq_query callback_request ''state'' = replicate 32 (CHR ''A'')" "rq_query callback_request ''state'' \<noteq> []" by code_simp+
  have t: "oi_now bob_oidc \<le> se_expiry \<lparr>se_expiry = 300, se_nonce = replicate 32 (CHR ''_'')\<rparr>" by code_simp
  have c: "id_token_claims bob_oidc callback_request = Inr bob_claims" by code_simp
  have n: "ic_nonce bob_claims = se_nonce \<lparr>se_expiry = 300, se_nonce = replicate 32 (CHR ''_'')\<rparr>" by code_simp
  have u: "sso_username bob_claims \<noteq> []" "sso_username bob_claims = ''bob''" by code_simp+
  have f: "find (\<lambda>r. ur_name r = ''bob'') (users star_db) = Some \<lparr>ur_id = next_id empty_db, ur_name = ''bob'', ur_hash = ''pw'', ur_scopes = ''*''\<rparr>" by code_simp
  have a: "ScopesToAccess [ur_scopes \<lparr>ur_id = next_id empty_db, ur_name = ''bob'', ur_hash = ''pw'', ur_scopes = ''*''\<rparr>] = full_access" by code_simp
  have s: "[replicate 32 (CHR ''A'') \<mapsto> \<lparr>se_expiry = 300, se_nonce = replicate 32 (CHR ''_'')\<rparr>] (rq_query callback_request ''state'') =
      Some \<lparr>se_expiry = 300, se_nonce = replicate 32 (CHR ''_'')\<rparr>" unfolding q(1) by simp
  have f': "find (\<lambda>r. ur_name r = sso_username bob_claims) (users star_db) =
      Some \<lparr>ur_id = next_id empty_db, ur_name = ''bob'', ur_hash = ''pw'', ur_scopes = ''*''\<rparr>" unfolding u(2) by (rule f)
  from sso_enters_account [where st = "[replicate 32 (CHR ''A'') \<mapsto> \<lparr>se_expiry = 300, se_nonce = replicate 32 (CHR ''_'')\<rparr>]", OF st s q(2) t c n u(1) f'] show ?thesis using f a unfolding u(2) by simp
qed

theorem sso_second_group_lost_witness:
  "\<exists>s'. sign_in (demo_oidc ann_payload (claims_of ''ann'' 100 ann_access)) ann_claims empty_db =
      (sso_answer (demo_oidc ann_payload (claims_of ''ann'' 100 ann_access)) ann_claims (sso_username ann_claims)
        [group_entry ''dev'' [''pull'', ''push''], group_entry ''ops'' [''pull'', ''push'']], s') \<and>
    sign_in bob_oidc ann_claims s' =
      (sso_answer bob_oidc ann_claims (sso_username ann_claims) [group_entry ''dev'' [''pull'', ''push'', ''repository:ops/*:pull'', ''push'']], s')"
proof -
  have st: "oi_store (demo_oidc p c) = pg_store plain_bcrypt" for p c by (simp add: demo_oidc_def)
  have st': "oi_store bob_oidc = pg_store plain_bcrypt" by (simp add: bob_oidc_def st)
  have u: "sso_username ann_claims \<noteq> []" by code_simp
  have n: "\<not> list_ex (\<lambda>r. ur_name r = sso_username ann_claims) (users empty_db)" by code_simp
  have g: "ic_groups ann_claims = [''dev'', ''ops'']" by code_simp
  from sso_second_group_lost [OF st st' u n g] show ?thesis by simp
qed

definition bob_web :: "(nat, db) oauth_env" where
  "bob_web = \<lparr>oa_store = pg_store plain_bcrypt, oa_ts = one_service, oa_jwt = one_token (claims_of ''bob'' 100 full_access),
     oa_decode = (\<lambda>_. Inr (JObj [(''username'', JStr ''bob''), (''password'', JStr ''pw'')])), oa_time = (\<lambda>_. ''t''), oa_now = 100\<rparr>"


theorem web_login_unlimited_witness:
  "fst (tokenHandler bob_env wrong_login (add_failures 10 ''bob'' ''10.0.0.1'' bob_db)) = Respond too_many_attempts \<and>
   handleLogin bob_web session_request (add_failures 10 ''bob'' ''10.0.0.1'' bob_db) = handleLogin bob_web session_request bob_db"
proof -
  have cred: "credentials bob_env wrong_login = Some (''bob'', ''no'')" by code_simp
  have win: "he_now bob_env - 900 < now bob_db" by code_simp
  have st: "he_store bob_env = pg_store plain_bcrypt" by (simp add: bob_env_def pg_env_def)
  have ac: "oa_store bob_web = pg_store plain_bcrypt" by (simp add: bob_web_def)
  from web_login_unlimited [OF st cred win order_refl ac] show ?thesis by (simp only: fst_conv)
qed

end
