(* ===== verification/Tenancy_Properties.thy ===== *)
theory Tenancy_Properties
  imports Tenancy_Api Sso_Properties
begin

text \<open>
  What the administration of tenants guarantees and what it does not: which tenants a request can be served for, who may change them, and
  what a login through the provider of a tenant proves.
\<close>

subsection \<open>No tenant can be read\<close>

text \<open>The tables after migration 015, which inserts the default tenant.\<close>

definition migrated :: "int \<Rightarrow> tenancy_db" where
  "migrated t = \<lparr>td_tenants = [\<lparr>tn_tenant = 1, tn_slug = ''default'', tn_name = ''Default Tenant'', tn_schema = ''public'', tn_status = ''active'',
       tn_trial = None, tn_contact_email = ''admin'' @ [CHR 0x40] @ ''localhost'', tn_contact_name = None, tn_billing_email = None, tn_custom_domain = None,
       tn_domain_verified = False, tn_created = t, tn_updated = t, tn_created_by = None\<rparr>],
     td_oidc = [], td_schemas = [''public''], td_events = [], td_next_tenant = 2, td_next_oidc = 1, td_now = t\<rparr>"

text \<open>Requests to the administration, flushes of the metering and the passing of time.\<close>

inductive tenancy_reach :: "tenancy_db \<Rightarrow> bool" where
  start: "tenancy_reach (migrated t)"
| request: "tenancy_reach s \<Longrightarrow> tenancy_reach (snd (serve_tenancy V req s))"
| flush: "tenancy_reach s \<Longrightarrow> tenancy_reach (snd (snd (flushEvents inet c s)))"
| tick: "tenancy_reach s \<Longrightarrow> tenancy_reach (s\<lparr>td_now := t\<rparr>)"

definition undomained :: "tenancy_db \<Rightarrow> bool" where
  "undomained s \<longleftrightarrow> (\<forall>r \<in> set (td_tenants s). tn_custom_domain r = None)"

lemma undomained_same: "td_tenants s' = td_tenants s \<Longrightarrow> undomained s \<Longrightarrow> undomained s'"
  by (simp add: undomained_def)

lemma undomained_update:
  "undomained s \<Longrightarrow> (\<And>r. tn_custom_domain (f r) = tn_custom_domain r) \<Longrightarrow> undomained (update_tenants i f s)"
  by (auto simp: undomained_def update_tenants_def)

lemma CreateTenant_undomained: "undomained s \<Longrightarrow> undomained (snd (CreateTenant X ddl slug name email cr s))"
  by (auto simp: CreateTenant_def undomained_def Let_def split: sum.splits)

lemma DeleteTenant_undomained: "undomained s \<Longrightarrow> undomained (snd (DeleteTenant X i d s))"
  using undomained_update [of s "\<lambda>r. r\<lparr>tn_status := ''deleted''\<rparr>" i]
  by (auto simp: DeleteTenant_def Let_def undomained_def split: option.splits sum.splits)

lemma UpdateTenant_undomained: "undomained s \<Longrightarrow> undomained (snd (UpdateTenant i u s))"
  by (simp add: UpdateTenant_def Let_def undomained_update)

lemma UpdateTenantStatus_undomained: "undomained s \<Longrightarrow> undomained (snd (UpdateTenantStatus i st s))"
  by (simp add: UpdateTenantStatus_def undomained_update)

lemma CreateOIDCConfig_tenants: "td_tenants (snd (CreateOIDCConfig fetch c s)) = td_tenants s"
  by (simp add: CreateOIDCConfig_def Let_def split: sum.splits)

lemma UpdateOIDCConfig_tenants: "td_tenants (snd (UpdateOIDCConfig i u s)) = td_tenants s"
  by (simp add: UpdateOIDCConfig_def Let_def split: option.splits)

lemma DeleteOIDCConfig_tenants: "td_tenants (snd (DeleteOIDCConfig i s)) = td_tenants s"
  by (simp add: DeleteOIDCConfig_def)

lemma insert_events_tenants: "insert_events inet es s = Inr s' \<Longrightarrow> td_tenants s' = td_tenants s"
  by (induction es arbitrary: s) (auto simp: insert_event_def split: sum.splits if_splits)

lemma with_id_snd: "undomained s \<Longrightarrow> (\<And>i. undomained (snd (k i))) \<Longrightarrow> undomained (snd (with_id p m s k))"
  by (simp add: with_id_def split: option.splits)

lemma with_tenant_snd: "undomained s \<Longrightarrow> (\<And>x. undomained (snd (k x))) \<Longrightarrow> undomained (snd (with_tenant t s k))"
  by (simp add: with_tenant_def split: option.splits)

lemma snd_answer [simp]:
  "snd (case r of (Inl e, s') \<Rightarrow> (f e, s') | (Inr x, s') \<Rightarrow> (g x, s')) = snd r"
  by (simp split: prod.splits sum.splits)

lemmas undomained_ops = CreateTenant_undomained DeleteTenant_undomained UpdateTenant_undomained UpdateTenantStatus_undomained
  undomained_same [OF CreateOIDCConfig_tenants] undomained_same [OF UpdateOIDCConfig_tenants] undomained_same [OF DeleteOIDCConfig_tenants]

lemma update_tenant_undomained: "undomained s \<Longrightarrow> undomained (snd (update_tenant E i req s))"
  by (simp add: update_tenant_def undomained_ops split: option.splits)

lemma create_oidc_undomained: "undomained s \<Longrightarrow> undomained (snd (create_oidc E ok msg i req s))"
  by (simp add: create_oidc_def undomained_ops split: option.splits)

lemma updateOIDCConfig_undomained: "undomained s \<Longrightarrow> undomained (snd (updateOIDCConfig E p req s))"
  by (simp add: updateOIDCConfig_def undomained_ops with_id_snd split: option.splits)

lemma deleteOIDCConfig_undomained: "undomained s \<Longrightarrow> undomained (snd (deleteOIDCConfig p s))"
  by (simp add: deleteOIDCConfig_def undomained_ops with_id_snd)

lemma set_status_undomained: "undomained s \<Longrightarrow> undomained (snd (set_status st m p s))"
  by (simp add: set_status_def undomained_ops with_id_snd)

lemma deleteTenant_undomained: "undomained s \<Longrightarrow> undomained (snd (deleteTenant E p req s))"
  by (simp add: deleteTenant_def undomained_ops with_id_snd)

lemma createTenant_undomained: "undomained s \<Longrightarrow> undomained (snd (createTenant E req s))"
  by (simp add: createTenant_def undomained_ops split: option.splits)

lemma run_tenancy_undomained: "undomained s \<Longrightarrow> undomained (snd (run_tenancy V h par t req s))"
  by (cases h)
     (simp_all add: run_tenancy_def Let_def createTenant_undomained deleteTenant_undomained set_status_undomained suspendTenant_def activateTenant_def
        updateTenant_def createOIDCConfig_def createCurrentTenantOIDC_def updateCurrentTenant_def updateCurrentTenantOIDC_def
        deleteCurrentTenantOIDC_def getCurrentTenantInfo_def listCurrentTenantOIDC_def getCurrentTenantUsage_def
        updateOIDCConfig_undomained deleteOIDCConfig_undomained with_id_snd with_tenant_snd update_tenant_undomained create_oidc_undomained)

lemma serve_tenancy_undomained: "undomained s \<Longrightarrow> undomained (snd (serve_tenancy V req s))"
  by (auto simp: serve_tenancy_def run_tenancy_undomained split: tenant_verdict.splits option.splits)

lemma reach_undomained: "tenancy_reach s \<Longrightarrow> undomained s"
proof (induction rule: tenancy_reach.induct)
  case (start t)
  then show ?case by (simp add: undomained_def migrated_def)
next
  case (flush s inet c)
  then show ?case by (auto simp: flushEvents_def intro: undomained_same dest: insert_events_tenants split: sum.splits)
qed (auto intro: serve_tenancy_undomained undomained_same)

lemma scan_undomained: "undomained s \<Longrightarrow> r \<in> set (td_tenants s) \<Longrightarrow> scan_tenant r = Inl scan_null"
  by (auto simp: undomained_def scan_tenant_def split: option.splits)

lemma find_member: "find p xs = Some x \<Longrightarrow> x \<in> set xs"
  by (auto simp: find_Some_iff)

lemma query_undomained: "undomained s \<Longrightarrow> \<exists>e. query_tenant p e1 f s = Inl e"
  by (auto simp: query_tenant_def scan_undomained find_member split: option.splits)

lemma suspension_inert_mw:
  assumes "tenancy_reach s"
  shows "tenant_Middleware m req s = (if tm_require m then TenantAnswer (http_error [] ''Tenant not found'' 404) else TenantNext None)"
proof -
  have "undomained s" by (rule reach_undomained [OF assms])
  from query_undomained [OF this] have "\<exists>e. GetTenantBySlug g s = Inl e" "\<exists>e. GetTenantByCustomDomain g s = Inl e" for g
    by (simp_all add: GetTenantBySlug_def GetTenantByCustomDomain_def)
  then obtain f g where "\<And>h. GetTenantBySlug h s = Inl (f h)" "\<And>h. GetTenantByCustomDomain h s = Inl (g h)" by metis
  then have "\<exists>e. resolveTenant m req s = Inl e" by (simp add: resolveTenant_def resolve_slug_def Let_def)
  then show ?thesis by (auto simp: tenant_Middleware_def)
qed

text \<open>(C37) 
  No tenant is ever served, and none can be suspended: \<^verbatim>\<open>custom_domain\<close> is null in every row and no operation sets it, but the queries read
  it into a string, which is an error. So in every state the registry can reach, the middleware finds no tenant for any host: with the
  setting of \<^verbatim>\<open>serve.go\<close> every request passes, also those to tenants that are suspended or deleted, and with tenants required none does.
\<close>

theorem suspension_inert:
  assumes "tenancy_reach s"
  shows "tenant_Middleware m req s = (if tm_require m then TenantAnswer (http_error [] ''Tenant not found'' 404) else TenantNext None)"
  by (rule suspension_inert_mw [OF assms])

subsection \<open>Who may administer\<close>

lemma update_tenants_all:
  assumes "r \<in> set (td_tenants (update_tenants i (\<lambda>r. r\<lparr>tn_status := st\<rparr>) s))" "tn_tenant r = i"
  shows "tn_status r = st"
proof -
  have "(\<exists>q. r = q\<lparr>tn_status := st, tn_updated := td_now s\<rparr>) \<or> tn_tenant r \<noteq> i"
    using assms(1) by (auto simp: update_tenants_def)
  with assms(2) show ?thesis by auto
qed

text \<open>
  Administering the platform takes no credentials: in every state the registry can reach, whoever sends the request and whatever headers it
  carries, a DELETE of a tenant is answered 204, the tenant is marked deleted and, if the request asks for it, the schema with all its data is
  dropped, unless it is the public one.
\<close>

theorem anyone_deletes_tenants:
  assumes "tenancy_reach s" "\<not> tm_require (tv_middleware V)" "tenancy_route V req = Some (T_deleteTenant, par)"
    and "ParseInt (par ''id'') = Some i" "int4 i" "find (\<lambda>r. tn_tenant r = i) (td_tenants s) = Some row"
    and "\<And>q. HasPrefix q ''DROP SCHEMA'' \<Longrightarrow> ta_exec (tv_env V) q = Inr ()"
  shows "fst (serve_tenancy V req s) = status 204 \<and>
    (\<forall>r \<in> set (td_tenants (snd (serve_tenancy V req s))). tn_tenant r = i \<longrightarrow> tn_status r = ''deleted'') \<and>
    (rq_query req ''drop_schema'' = ''true'' \<longrightarrow> tn_schema row \<noteq> ''public'' \<longrightarrow> tn_schema row \<notin> set (td_schemas (snd (serve_tenancy V req s))))"
proof -
  have x: "ta_exec (tv_env V) (''DROP SCHEMA IF EXISTS '' @ n @ '' CASCADE'') = Inr ()" for n
    by (rule assms(7)) (simp add: HasPrefix_iff)
  have "serve_tenancy V req s = deleteTenant (tv_env V) (par ''id'') req s"
    using suspension_inert_mw [OF assms(1)] assms(2,3) by (simp add: serve_tenancy_def run_tenancy_def Let_def)
  moreover have "td_tenants (snd (deleteTenant (tv_env V) (par ''id'') req s)) = td_tenants (update_tenants i (\<lambda>r. r\<lparr>tn_status := ''deleted''\<rparr>) s)"
      "fst (deleteTenant (tv_env V) (par ''id'') req s) = status 204"
      "rq_query req ''drop_schema'' = ''true'' \<Longrightarrow> tn_schema row \<noteq> ''public'' \<Longrightarrow>
         td_schemas (snd (deleteTenant (tv_env V) (par ''id'') req s)) = removeAll (tn_schema row) (td_schemas s)"
    using assms(4,5,6) by (simp_all add: deleteTenant_def with_id_def DeleteTenant_def Let_def x [simplified])
  ultimately show ?thesis using update_tenants_all [of _ i "''deleted''" s] by auto
qed

text \<open>
  A tenant reaches the providers of every other tenant: the self-service routes of a single provider do not look at the tenant of the
  request. With any tenant in the context, or none, DELETE removes the configuration and nothing else, whoever owns it.
\<close>

theorem providers_not_isolated:
  assumes "ParseInt (par ''oidc_id'') = Some i" "int4 i"
  shows "run_tenancy V T_deleteCurrentTenantOIDC par t req s = (status 204, s\<lparr>td_oidc := filter (\<lambda>r. or_id r \<noteq> i) (td_oidc s)\<rparr>)"
  using assms
  by (simp add: run_tenancy_def deleteCurrentTenantOIDC_def deleteOIDCConfig_def with_id_def DeleteOIDCConfig_def Let_def)

lemma GetOIDCConfig_find: "int4 i \<Longrightarrow> find (\<lambda>r. or_id r = i) xs = Some r \<Longrightarrow> GetOIDCConfig i (s\<lparr>td_oidc := xs\<rparr>) = Inr r"
  by (simp add: GetOIDCConfig_def)

text \<open>
  Making a provider the primary one leaves the tenant without a primary provider: the update takes the mark from the others and does not set
  it on the one that was named, and the answer says so.
\<close>

theorem primary_update_clears:
  assumes "obj_get updates ''is_primary'' = Some (JBool True)" "int4 i" "find (\<lambda>r. or_id r = i) (td_oidc s) = Some c"
    and "\<forall>r \<in> set (td_oidc s). or_id r = i \<longrightarrow> \<not> or_primary r"
  shows "\<exists>c'. fst (UpdateOIDCConfig i updates s) = Inr c' \<and> or_id c' = i \<and> \<not> or_primary c' \<and>
    (\<forall>r \<in> set (td_oidc (snd (UpdateOIDCConfig i updates s))). or_tenant r = or_tenant c \<longrightarrow> \<not> or_primary r)"
proof -
  let ?g = "\<lambda>r. if or_tenant r = or_tenant c \<and> or_id r \<noteq> i then r\<lparr>or_primary := False\<rparr> else r"
  let ?h = "\<lambda>r. if or_id r = i then r\<lparr>or_updated := td_now s\<rparr> else r"
  let ?s = "s\<lparr>td_oidc := map ?h (map ?g (td_oidc s))\<rparr>"
  have up: "UpdateOIDCConfig i updates s = (GetOIDCConfig i ?s, ?s)"
    using assms(1,2,3) by (simp add: UpdateOIDCConfig_def Let_def)
  have keep: "or_id (?h (?g r)) = or_id r" "or_tenant (?h (?g r)) = or_tenant r" for r by simp_all
  have np: "\<not> or_primary (?h (?g r))" if "r \<in> set (td_oidc s)" "or_tenant r = or_tenant c" for r
    using assms(4) that by simp
  have "find (\<lambda>r. or_id r = i) (map ?h (map ?g (td_oidc s))) = Some (?h (?g c))"
    by (subst find_map_keep, simp, subst find_map_keep, simp, simp only: assms(3) option.map)
  then have got: "GetOIDCConfig i ?s = Inr (?h (?g c))" by (rule GetOIDCConfig_find [OF assms(2)])
  have c: "or_id c = i" "c \<in> set (td_oidc s)" using assms(3) by (auto simp: find_Some_iff)
  have rest: "\<forall>r \<in> set (td_oidc ?s). or_tenant r = or_tenant c \<longrightarrow> \<not> or_primary r"
  proof (intro ballI impI)
    fix r assume "r \<in> set (td_oidc ?s)" "or_tenant r = or_tenant c"
    then obtain q where q: "q \<in> set (td_oidc s)" "r = ?h (?g q)" by auto
    have "or_tenant q = or_tenant c" using \<open>or_tenant r = or_tenant c\<close> unfolding q(2) keep .
    then show "\<not> or_primary r" unfolding q(2) by (rule np [OF q(1)])
  qed
  have "or_id (?h (?g c)) = i" using keep(1) [of c] c(1) by (rule trans)
  moreover have "\<not> or_primary (?h (?g c))" by (rule np [OF c(2) refl])
  ultimately show ?thesis unfolding up fst_conv snd_conv got using rest by blast
qed

subsection \<open>Creating a tenant\<close>

text \<open>
  No tenant has a hyphen in its name: a slug such as \<^verbatim>\<open>customer-a\<close>, which the check of the slug and the documentation allow, is refused
  because of the name of the schema, and nothing changes.
\<close>

theorem hyphenated_slug_refused:
  assumes "CHR ''-'' \<in> set slug"
  shows "(\<exists>e. fst (CreateTenant X ddl slug name email cr s) = Inl e) \<and> snd (CreateTenant X ddl slug name email cr s) = s"
proof -
  have "\<not> valid_schema (''tenant_'' @ slug)"
  proof
    assume "valid_schema (''tenant_'' @ slug)"
    then have "is_lower (CHR ''-'') \<or> is_digit (CHR ''-'') \<or> CHR ''-'' = CHR ''_''" using assms by (auto simp: valid_schema_def list_all_iff)
    moreover have "\<not> is_lower (CHR ''-'')" "\<not> is_digit (CHR ''-'')" by code_simp+
    ultimately show False by simp
  qed
  then show ?thesis by (simp add: CreateTenant_def Let_def)
qed

end
