(* ===== verification/Tenancy_Login.thy ===== *)
theory Tenancy_Login
  imports Tenancy_Properties
begin

text \<open>
  Two composite facts of the tenancy packages: the script of a tenant's schema cannot be executed in the pieces it is cut into, and a login
  through a tenant's provider proves nothing about the person.
\<close>

subsection \<open>The schema script is cut inside its function\<close>

text \<open>The beginning of the function at the end of the script, up to the first semicolon of its body.\<close>

definition function_lines :: "string list" where
  "function_lines = [''CREATE OR REPLACE FUNCTION set_repository_owner()'', ''RETURNS TRIGGER AS $$'', ''BEGIN'',
     ''    IF NEW.owner_id IS NULL AND NEW.created_by_id IS NOT NULL THEN'', ''        NEW.owner_id := NEW.created_by_id'']"

definition function_piece :: string where
  "function_piece = Join function_lines (CHR 0x0A) @ '';''"

text \<open>The number of times a text opens or closes a dollar quotation.\<close>

fun dollars :: "string \<Rightarrow> nat" where
  "dollars (a # b # s) = (if a = CHR ''$'' \<and> b = CHR ''$'' then Suc (dollars s) else dollars (b # s))"
| "dollars _ = 0"

text \<open>A text without quotes and comments that opens a dollar quotation and does not close it.\<close>

definition open_dollar :: "string \<Rightarrow> bool" where
  "open_dollar q \<longleftrightarrow> list_all (\<lambda>c. c \<noteq> CHR 0x27 \<and> c \<noteq> CHR 0x22) q \<and> \<not> Contains q ''--'' \<and> \<not> Contains q (''/'' @ ''*'') \<and> odd (dollars q)"

definition quiet :: "char \<Rightarrow> bool" where
  "quiet c \<longleftrightarrow> c \<noteq> CHR 0x27 \<and> c \<noteq> CHR 0x22 \<and> c \<noteq> CHR '';''"

lemma split_quiet: "list_all quiet cs \<Longrightarrow> fold split_char cs s = s\<lparr>sp_current := sp_current s @ cs\<rparr>"
  by (induction cs arbitrary: s) (auto simp: split_char_def quiet_def)

lemma split_line_quiet:
  "list_all quiet line \<Longrightarrow> \<not> HasPrefix (TrimSpace line) ''--'' \<Longrightarrow>
   split_line line s = s\<lparr>sp_current := sp_current s @ line @ [CHR 0x0A]\<rparr>"
  by (simp add: split_line_def split_quiet Let_def)

definition plain_line :: "string \<Rightarrow> bool" where
  "plain_line l \<longleftrightarrow> list_all quiet l \<and> \<not> HasPrefix (TrimSpace l) ''--''"

lemma split_plain_lines:
  "list_all plain_line ls \<Longrightarrow> fold split_line ls s = s\<lparr>sp_current := sp_current s @ concat (map (\<lambda>l. l @ [CHR 0x0A]) ls)\<rparr>"
  by (induction ls arbitrary: s) (simp_all add: split_line_quiet plain_line_def)

lemma split_last_line:
  assumes "list_all quiet l" "\<not> HasPrefix (TrimSpace (l @ '';'')) ''--''" "sp_quote s = None"
  shows "sp_done (split_line (l @ '';'') s) = sp_done s @ [sp_current s @ l @ '';'']"
  using assms by (simp add: split_line_def split_quiet Let_def split_char_def)

lemma split_char_done: "set (sp_done s) \<subseteq> set (sp_done (split_char c s))"
  by (auto simp: split_char_def Let_def)

lemma split_chars_done: "set (sp_done s) \<subseteq> set (sp_done (fold split_char cs s))"
  by (induction cs arbitrary: s) (use split_char_done in fastforce)+

lemma split_lines_done: "set (sp_done s) \<subseteq> set (sp_done (fold split_line ls s))"
proof (induction ls arbitrary: s)
  case (Cons l ls)
  have "set (sp_done s) \<subseteq> set (sp_done (split_line l s))" using split_chars_done [of s l] by (simp add: split_line_def Let_def)
  with Cons [of "split_line l s"] show ?case by simp
qed simp

lemma exec_all_fails:
  "s \<in> set stmts \<Longrightarrow> TrimSpace s \<noteq> [] \<Longrightarrow> \<not> HasPrefix (TrimSpace s) ''--'' \<Longrightarrow> X (TrimSpace s) = Inl e \<Longrightarrow> \<exists>e'. exec_all X i stmts = Inl e'"
  by (induction X i stmts rule: exec_all.induct) (auto simp: Let_def split: sum.splits)

lemma TrimSpace_blank_front: "list_all is_space b \<Longrightarrow> TrimSpace (b @ s) = TrimSpace s"
  by (induction b) (simp_all add: TrimSpace_def)

definition blank_splitter :: splitter where
  "blank_splitter = \<lparr>sp_done = [], sp_current = [], sp_quote = None\<rparr>"

lemma function_piece_cut:
  assumes "sp_quote (fold split_line (Split pre CHR 0x0A) blank_splitter) = None"
    and "list_all is_space (sp_current (fold split_line (Split pre CHR 0x0A) blank_splitter))"
  shows "\<exists>b. list_all is_space b \<and> b @ function_piece \<in> set (splitSQLStatements (pre @ CHR 0x0A # function_piece @ CHR 0x0A # post))"
proof -
  let ?s = "fold split_line (Split pre CHR 0x0A) blank_splitter"
  have fs: "Split function_piece CHR 0x0A = butlast function_lines @ [last function_lines @ '';'']" by code_simp
  have pl: "list_all plain_line (butlast function_lines)" by code_simp
  have ll: "list_all quiet (last function_lines)" "\<not> HasPrefix (TrimSpace (last function_lines @ '';'')) ''--''" by code_simp+
  have pc: "concat (map (\<lambda>l. l @ [CHR 0x0A]) (butlast function_lines)) @ last function_lines @ '';'' = function_piece" by code_simp
  let ?t = "fold split_line (butlast function_lines) ?s"
  have t: "?t = ?s\<lparr>sp_current := sp_current ?s @ concat (map (\<lambda>l. l @ [CHR 0x0A]) (butlast function_lines))\<rparr>"
    by (rule split_plain_lines [OF pl])
  have "sp_done (split_line (last function_lines @ '';'') ?t) = sp_done ?t @ [sp_current ?t @ last function_lines @ '';'']"
    by (rule split_last_line [OF ll]) (simp add: t assms(1))
  then have "sp_current ?s @ function_piece \<in> set (sp_done (split_line (last function_lines @ '';'') ?t))"
    by (simp add: t pc [symmetric])
  then have "sp_current ?s @ function_piece \<in> set (sp_done (fold split_line (Split (pre @ CHR 0x0A # function_piece @ CHR 0x0A # post) CHR 0x0A) blank_splitter))"
    using split_lines_done by (simp add: Split_append_sep fs) blast
  then show ?thesis using assms(2) by (auto simp: splitSQLStatements_def Let_def blank_splitter_def)
qed

text \<open>
  No tenant can be created: whatever precedes and follows it, the function in the script of the schema is cut at the first semicolon of its
  body, and the piece opens a dollar quotation that it does not close. On a server that refuses such statements every creation of a tenant
  fails, and the tables and schemas are left as they were.
\<close>

theorem provisioning_fails:
  assumes "sp_quote (fold split_line (Split pre CHR 0x0A) blank_splitter) = None"
    and "list_all is_space (sp_current (fold split_line (Split pre CHR 0x0A) blank_splitter))"
    and "\<And>q. open_dollar q \<Longrightarrow> \<exists>e. X q = Inl e"
  shows "(\<exists>e. fst (CreateTenant X (pre @ CHR 0x0A # function_piece @ CHR 0x0A # post) slug name email cr s) = Inl e) \<and>
    td_tenants (snd (CreateTenant X (pre @ CHR 0x0A # function_piece @ CHR 0x0A # post) slug name email cr s)) = td_tenants s \<and>
    td_schemas (snd (CreateTenant X (pre @ CHR 0x0A # function_piece @ CHR 0x0A # post) slug name email cr s)) = td_schemas s"
proof -
  let ?ddl = "pre @ CHR 0x0A # function_piece @ CHR 0x0A # post"
  obtain b where b: "list_all is_space b" "b @ function_piece \<in> set (splitSQLStatements ?ddl)"
    using function_piece_cut [OF assms(1,2)] by blast
  have tr: "TrimSpace (b @ function_piece) = function_piece"
    unfolding TrimSpace_blank_front [OF b(1)] by code_simp
  have "open_dollar function_piece" by code_simp
  then obtain e where "X function_piece = Inl e" using assms(3) by blast
  moreover have "function_piece \<noteq> []" "\<not> HasPrefix function_piece ''--''" by code_simp+
  ultimately have "\<exists>e'. exec_all X 0 (splitSQLStatements ?ddl) = Inl e'"
    using exec_all_fails [OF b(2), of X e 0] by (simp only: tr simp_thms)
  then have "\<exists>e'. provisionTenantSchema X ?ddl n = Inl e'" for n
    by (auto simp: provisionTenantSchema_def split: sum.splits)
  then obtain f where "\<And>n. provisionTenantSchema X ?ddl n = Inl (f n)" by metis
  then show ?thesis by (simp add: CreateTenant_def Let_def del: append_Cons)
qed

subsection \<open>Metering\<close>

lemma insert_events_Inr:
  "insert_events inet es s = Inr s' \<longleftrightarrow>
     (\<forall>e \<in> set es. inet (be_ip e) \<and> (\<exists>r \<in> set (td_tenants s). tn_tenant r = be_tenant e)) \<and> s' = s\<lparr>td_events := td_events s @ es\<rparr>"
proof (induction es arbitrary: s)
  case Nil
  then show ?case by auto
next
  case (Cons e es)
  then show ?case by (auto simp: insert_event_def list_ex_iff)
qed


subsection \<open>A login proves nothing\<close>

text \<open>
  A text that names the user \<open>name\<close> to the provider \<open>c\<close>: three parts, of which the middle one encodes claims with the issuer, the audience and the
  name and without expiry. The first and the last part, the signature, may be anything.
\<close>

definition names_user :: "(bytes \<Rightarrow> json option) \<Rightarrow> oidc_row \<Rightarrow> string \<Rightarrow> string \<Rightarrow> bool" where
  "names_user parse c name raw \<longleftrightarrow>
     (\<exists>hdr body sig payload cl. raw = hdr @ ''.'' @ body @ ''.'' @ sig \<and> CHR ''.'' \<notin> set hdr \<and> CHR ''.'' \<notin> set body \<and> CHR ''.'' \<notin> set sig \<and>
        b64_raw_url_decode body = Some payload \<and> parse payload = Some (JObj cl) \<and> obj_get cl ''iss'' = Some (JStr (or_issuer c)) \<and>
        obj_get cl ''aud'' = Some (JStr (or_client c)) \<and> obj_get cl ''exp'' = None \<and> obj_get cl (or_user_claim c) = Some (JStr name))"

lemma ValidateIDToken_unsigned:
  assumes "names_user parse c name raw" "or_type c \<noteq> ''google_workspace''"
  shows "\<exists>cl. ValidateIDToken parse fl tm c raw = Inr cl \<and> obj_get cl (or_user_claim c) = Some (JStr name)"
proof -
  obtain hdr body sig payload cl where raw: "raw = hdr @ ''.'' @ body @ ''.'' @ sig" "CHR ''.'' \<notin> set hdr" "CHR ''.'' \<notin> set body" "CHR ''.'' \<notin> set sig"
    and cl: "b64_raw_url_decode body = Some payload" "parse payload = Some (JObj cl)" "obj_get cl ''iss'' = Some (JStr (or_issuer c))"
      "obj_get cl ''aud'' = Some (JStr (or_client c))" "obj_get cl ''exp'' = None" "obj_get cl (or_user_claim c) = Some (JStr name)"
    using assms(1) unfolding names_user_def by blast
  have "Split raw CHR ''.'' = [hdr, body, sig]" using raw by (simp add: Split_append Split_id)
  with cl assms(2) show ?thesis by (simp add: ValidateIDToken_def)
qed

lemma callback_for_account:
  assumes "tl_store E = pg_store bc" "tl_session E req = Inr ses" "os_state ses = rq_query req ''state''" "os_state ses \<noteq> []"
    and "GetOIDCConfig (os_config ses) ts = Inr c" "or_type c \<noteq> ''google_workspace''" "rq_query req ''code'' \<noteq> []"
    and "tl_exchange E c (rq_query req ''code'') (tl_base E @ ''/auth/oidc/callback'') = Inr (Some raw)" "names_user (tl_parse E) c name raw"
    and "find (\<lambda>r. ur_name r = name) (users s) = Some row"
    and "GenerateToken (tl_jwt E) (tl_ts E) (tl_now E) name [tenant_entry] = Inr t"
  shows "fst (fst (handleOIDCCallback E req ts s)) = reply 200 json_type
        (JsonDoc (JObj [(''expires'', doc_int (tl_now E + 86400)), (''token'', JStr t), (''username'', JStr name)]))"
    and "snd (handleOIDCCallback E req ts s) = s"
proof -
  have u: "pg_GetUserByUsername name s = Inr (user_of_row row)" using assms(10) by (simp add: pg_GetUserByUsername_def)
  obtain cl where "ValidateIDToken (tl_parse E) (tl_floor E) (tl_now E) c raw = Inr cl" and n: "obj_get cl (or_user_claim c) = Some (JStr name)"
    using ValidateIDToken_unsigned [OF assms(9,6)] by blast
  then have "oidc_claims E c req = Inr cl" using assms(7,8) by (simp add: oidc_claims_def Let_def)
  moreover have "oidc_access (user_of_row row) = [tenant_entry]" by (simp add: oidc_access_def user_of_row_def)
  ultimately show "fst (fst (handleOIDCCallback E req ts s)) = reply 200 json_type
        (JsonDoc (JObj [(''expires'', doc_int (tl_now E + 86400)), (''token'', JStr t), (''username'', JStr name)]))"
      "snd (handleOIDCCallback E req ts s) = s"
    using assms(1-5,11) u n by (simp_all add: handleOIDCCallback_def oidc_finish_def getOrCreateUserFromOIDC_def)
qed


subsection \<open>Concrete instances\<close>

definition demo_tenancy_env :: tenancy_env where
  "demo_tenancy_env = \<lparr>ta_exec = (\<lambda>_. Inr ()), ta_ddl = [], ta_fetch = (\<lambda>_. Inl (ErrText ''none'')), ta_decode = (\<lambda>_. Inr (JObj [])), ta_time = (\<lambda>_. []),
     ta_blobs = (\<lambda>_. Inr 0), ta_repos = (\<lambda>_. Inr 0)\<rparr>"

definition demo_tenancy :: "string \<Rightarrow> tenancy_server" where
  "demo_tenancy pat = \<lparr>tv_env = demo_tenancy_env, tv_middleware = \<lparr>tm_base = ''registry.example.com'', tm_require = False\<rparr>,
     tv_chi = (\<lambda>_. Some (pat, \<lambda>_. ''1'')), tv_rest_ok = (\<lambda>_. True), tv_unrouted = (\<lambda>_. status 404)\<rparr>"

definition suspended_db :: tenancy_db where
  "suspended_db = snd (serve_tenancy (demo_tenancy ''/api/v1/platform/tenants/{id}/suspend'') (plain_request ''POST'' ''/'' []) (migrated 0))"

theorem suspension_inert_witness:
  "map tn_status (td_tenants suspended_db) = [''suspended''] \<and>
   tenant_Middleware \<lparr>tm_base = ''registry.example.com'', tm_require = False\<rparr> ((plain_request ''GET'' ''/v2/'' [])\<lparr>rq_host := ''registry.example.com''\<rparr>) suspended_db = TenantNext None"
proof
  show "map tn_status (td_tenants suspended_db) = [''suspended'']" by code_simp
  have "tenancy_reach suspended_db" unfolding suspended_db_def by (intro tenancy_reach.intros)
  from suspension_inert [OF this]
  show "tenant_Middleware \<lparr>tm_base = ''registry.example.com'', tm_require = False\<rparr> ((plain_request ''GET'' ''/v2/'' [])\<lparr>rq_host := ''registry.example.com''\<rparr>) suspended_db = TenantNext None"
    by simp
qed

theorem anyone_deletes_tenants_witness:
  "fst (serve_tenancy (demo_tenancy ''/api/v1/platform/tenants/{id}'') (plain_request ''DELETE'' ''/'' []) (migrated 0)) = status 204"
proof -
  let ?V = "demo_tenancy ''/api/v1/platform/tenants/{id}''" and ?req = "plain_request ''DELETE'' ''/'' []"
  have r: "tenancy_route ?V ?req = Some (T_deleteTenant, \<lambda>_. ''1'')"
    by (simp add: tenancy_route_def demo_tenancy_def plain_request_def tenancy_routes_def)
  have q: "\<not> tm_require (tv_middleware ?V)" by (simp add: demo_tenancy_def)
  have i: "ParseInt ''1'' = Some 1" "int4 1" by code_simp+
  have f: "find (\<lambda>r. tn_tenant r = 1) (td_tenants (migrated 0)) = Some (hd (td_tenants (migrated 0)))" by code_simp
  have x: "ta_exec (tv_env ?V) q = Inr ()" for q by (simp add: demo_tenancy_def demo_tenancy_env_def)
  show ?thesis using anyone_deletes_tenants [OF tenancy_reach.start q r i f x] by (rule conjunct1)
qed

theorem providers_not_isolated_witness:
  "run_tenancy (demo_tenancy []) T_deleteCurrentTenantOIDC (\<lambda>_. ''1'') None (plain_request ''DELETE'' ''/'' []) (migrated 0) =
     (status 204, (migrated 0)\<lparr>td_oidc := filter (\<lambda>r. or_id r \<noteq> 1) (td_oidc (migrated 0))\<rparr>)"
proof (rule providers_not_isolated)
  show "ParseInt ''1'' = Some 1" "int4 1" by code_simp+
qed

definition acme_oidc :: oidc_row where
  "acme_oidc = \<lparr>or_id = 1, or_tenant = 1, or_provider = ''acme'', or_type = ''generic_oidc'', or_issuer = ''https://acme'', or_client = ''reg'', or_secret = [],
     or_auth = ''https://acme/a'', or_token = ''https://acme/t'', or_userinfo = [], or_jwks = [], or_scopes = ''openid'', or_user_claim = ''sub'',
     or_group_claim = [], or_domains = [], or_enabled = True, or_primary = False, or_created = 0, or_updated = 0, or_by = None\<rparr>"

definition acme_db :: tenancy_db where
  "acme_db = (migrated 0)\<lparr>td_oidc := [acme_oidc, acme_oidc\<lparr>or_id := 2, or_provider := ''old'', or_primary := True\<rparr>]\<rparr>"

theorem primary_update_clears_witness:
  "\<exists>c'. fst (UpdateOIDCConfig 1 [(''is_primary'', JBool True)] acme_db) = Inr c' \<and> or_id c' = 1 \<and> \<not> or_primary c' \<and>
    (\<forall>r \<in> set (td_oidc (snd (UpdateOIDCConfig 1 [(''is_primary'', JBool True)] acme_db))). or_tenant r = or_tenant acme_oidc \<longrightarrow> \<not> or_primary r)"
proof (rule primary_update_clears)
  show "obj_get [(''is_primary'', JBool True)] ''is_primary'' = Some (JBool True)" "int4 1" by code_simp+
  show "find (\<lambda>r. or_id r = 1) (td_oidc acme_db) = Some acme_oidc" by code_simp
  show "\<forall>r \<in> set (td_oidc acme_db). or_id r = 1 \<longrightarrow> \<not> or_primary r" by code_simp
qed

theorem hyphenated_slug_refused_witness:
  "isValidSlug ''customer-a'' \<and> snd (CreateTenant (\<lambda>_. Inr ()) [] ''customer-a'' ''A'' ''a'' None (migrated 0)) = migrated 0"
proof
  show "isValidSlug ''customer-a''" by code_simp
  show "snd (CreateTenant (\<lambda>_. Inr ()) [] ''customer-a'' ''A'' ''a'' None (migrated 0)) = migrated 0"
    using hyphenated_slug_refused [of "''customer-a''"] by simp
qed

theorem provisioning_fails_witness:
  "\<exists>e. fst (CreateTenant (\<lambda>q. if open_dollar q then Inl (ErrText ''unterminated dollar-quoted string'') else Inr ())
     ([] @ CHR 0x0A # function_piece @ CHR 0x0A # []) ''acme'' ''A'' ''a'' None (migrated 0)) = Inl e"
proof -
  have "sp_quote (fold split_line (Split [] CHR 0x0A) blank_splitter) = None"
    "list_all is_space (sp_current (fold split_line (Split [] CHR 0x0A) blank_splitter))" by code_simp+
  from provisioning_fails [OF this, of "\<lambda>q. if open_dollar q then Inl (ErrText ''unterminated dollar-quoted string'') else Inr ()"] show ?thesis by simp
qed

definition demo_event :: "string \<Rightarrow> bandwidth_event" where
  "demo_event ip = \<lparr>be_tenant = 1, be_direction = ''egress'', be_bytes = 10, be_ip = ip, be_agent = []\<rparr>"


definition two_tokens :: "claims \<Rightarrow> claims \<Rightarrow> nat jwt_lib" where
  "two_tokens c1 c2 = \<lparr>jw_sign = (\<lambda>k c. if c = c1 then Inr ''a'' else if c = c2 then Inr ''b'' else Inl (ErrText ''unsupported'')),
     jw_parse = (\<lambda>kf t. case kf True of Inl e \<Rightarrow> Inl e
        | Inr k \<Rightarrow> if k \<noteq> 1 then Inl (ErrText ''key'') else if t = ''a'' then Inr (c1, True) else if t = ''b'' then Inr (c2, True) else Inl (ErrText ''malformed''))\<rparr>"

definition mallory_jwt :: "nat jwt_lib" where
  "mallory_jwt = two_tokens (claims_of ''bob'' 100 [tenant_entry]) (claims_of ''bob'' 200 full_access)"

definition mallory_session :: oidc_session where
  "mallory_session = \<lparr>os_state = ''s'', os_nonce = ''n'', os_tenant = 1, os_config = 1, os_access_token = [], os_username = [], os_user = 0\<rparr>"

definition mallory_env :: "(nat, db) tenant_login_env" where
  "mallory_env = \<lparr>tl_store = pg_store plain_bcrypt, tl_ts = one_service, tl_jwt = mallory_jwt, tl_base = ''https://r'',
     tl_session = (\<lambda>_. Inr mallory_session), tl_new_session = mallory_session, tl_exchange = (\<lambda>_ _ _. Inr (Some ''h.eA.forged'')),
     tl_parse = (\<lambda>_. Some (JObj [(''iss'', JStr ''https://acme''), (''aud'', JStr ''reg''), (''sub'', JStr ''bob'')])), tl_floor = (\<lambda>_. 0),
     tl_random = (Inr [], Inr []), tl_now = 100\<rparr>"

definition mallory_refresh :: "(nat, db) handler_env" where
  "mallory_refresh = bob_env\<lparr>he_jwt := mallory_jwt, he_ts := one_service, he_store := pg_store plain_bcrypt, he_now := 200\<rparr>"

definition mallory_callback :: request where
  "mallory_callback = (plain_request ''GET'' ''/auth/oidc/callback'' [])\<lparr>rq_query := (\<lambda>k. if k = ''state'' then ''s'' else ''code'')\<rparr>"


end
