(* ===== verification/Upstreams.thy ===== *)
theory Upstreams
  imports Management Manifest_Properties
begin

text \<open>
  Upstream registries: the providers and the manager of \<^verbatim>\<open>internal/upstreams\<close> over the PostgreSQL store, the proxy of
  \<^verbatim>\<open>internal/proxy/upstream_proxy.go\<close> and the periodic jobs of \<^verbatim>\<open>internal/queue/upstream_workers.go\<close>. The services of
  the clouds and the HTTP client are parameters. Times are in seconds; the creation and update times of a row are left
  out.
\<close>

subsection \<open>Registries: types.go and db\_adapter.go\<close>

record upstream_registry =
  rg_id :: nat
  rg_name :: string
  rg_type :: string
  rg_endpoint :: string
  rg_scheme :: string
  rg_region :: string
  rg_key :: string
  rg_secret :: string
  rg_token :: string
  rg_expiry :: int
  rg_refresh :: int
  rg_fails :: int
  rg_enabled :: bool
  rg_cache :: bool
  rg_ttl :: int
  rg_pull_only :: bool

text \<open>The zero value of \<^verbatim>\<open>time.Time\<close>, the start of the year 1.\<close>

definition zero_time :: int where
  "zero_time = - 62135596800"

definition time_of :: "int option \<Rightarrow> int" where
  "time_of t = (case t of None \<Rightarrow> zero_time | Some x \<Rightarrow> x)"

definition valid_upstream :: "upstream_registry \<Rightarrow> upstream_registry res" where
  "valid_upstream u = (if rg_id u = 0 \<or> rg_name u = [] then Inl (ErrText ''invalid upstream data: missing required fields'') else Inr u)"

text \<open>\<^verbatim>\<open>mapToUpstream\<close> on the map that \<^verbatim>\<open>GetUpstream\<close> returns, and on those of \<^verbatim>\<open>ListUpstreams\<close>, which lack the
  credentials, the token and its expiry; no map has a scheme.\<close>

definition row_upstream :: "upstream_row \<Rightarrow> upstream_registry" where
  "row_upstream r = \<lparr>rg_id = up_id r, rg_name = up_name r, rg_type = up_type r, rg_endpoint = up_endpoint r, rg_scheme = [],
     rg_region = up_region r, rg_key = up_key r, rg_secret = up_secret r,
     rg_token = (case up_token r of None \<Rightarrow> [] | Some t \<Rightarrow> t), rg_expiry = time_of (up_expiry r), rg_refresh = time_of (up_refresh r),
     rg_fails = up_fails r, rg_enabled = up_enabled r, rg_cache = up_cache r, rg_ttl = up_ttl r, rg_pull_only = up_pull_only r\<rparr>"

definition info_upstream :: "upstream_info \<Rightarrow> upstream_registry" where
  "info_upstream i = \<lparr>rg_id = ui_id i, rg_name = ui_name i, rg_type = ui_type i, rg_endpoint = ui_endpoint i, rg_scheme = [],
     rg_region = ui_region i, rg_key = [], rg_secret = [], rg_token = [], rg_expiry = zero_time, rg_refresh = time_of (ui_refresh i),
     rg_fails = 0, rg_enabled = ui_enabled i, rg_cache = ui_cache i, rg_ttl = 0, rg_pull_only = ui_pull_only i\<rparr>"

definition ad_GetUpstream :: "nat \<Rightarrow> db \<Rightarrow> upstream_registry res" where
  "ad_GetUpstream uid s = (case pg_GetUpstream uid s of Inl e \<Rightarrow> Inl e | Inr r \<Rightarrow> valid_upstream (row_upstream r))"

definition ad_GetUpstreamByName :: "string \<Rightarrow> db \<Rightarrow> upstream_registry res" where
  "ad_GetUpstreamByName name s = (case pg_GetUpstreamByName name s of Inl e \<Rightarrow> Inl e | Inr r \<Rightarrow> valid_upstream (row_upstream r))"

fun valid_all :: "upstream_registry list \<Rightarrow> upstream_registry list res" where
  "valid_all [] = Inr []"
| "valid_all (u # us) =
     (case valid_upstream u of Inl e \<Rightarrow> Inl e
      | Inr v \<Rightarrow> (case valid_all us of Inl e \<Rightarrow> Inl e | Inr vs \<Rightarrow> Inr (v # vs)))"

definition ad_ListUpstreams :: "db \<Rightarrow> upstream_registry list res" where
  "ad_ListUpstreams s = (case pg_ListUpstreams s of Inl e \<Rightarrow> Inl e | Inr is \<Rightarrow> valid_all (map info_upstream is))"

definition ad_UpdateToken :: "nat \<Rightarrow> string \<Rightarrow> int \<Rightarrow> db \<Rightarrow> unit res \<times> db" where
  "ad_UpdateToken uid token expiry s = pg_UpdateUpstreamToken uid token expiry s"

text \<open>An update stores the token and its expiry only.\<close>

definition ad_UpdateUpstream :: "upstream_registry \<Rightarrow> db \<Rightarrow> unit res \<times> db" where
  "ad_UpdateUpstream u s = ad_UpdateToken (rg_id u) (rg_token u) (rg_expiry u) s"

text \<open>Creating an upstream stores no token.\<close>

definition ad_CreateUpstream :: "upstream_registry \<Rightarrow> db \<Rightarrow> nat res \<times> db" where
  "ad_CreateUpstream u s =
     pg_CreateUpstream (rg_name u) (rg_type u) (rg_endpoint u) (rg_region u) (rg_key u) (rg_secret u) (rg_enabled u) (rg_cache u)
       (rg_pull_only u) (rg_ttl u) s"

definition ad_DeleteUpstream :: "nat \<Rightarrow> db \<Rightarrow> unit res \<times> db" where
  "ad_DeleteUpstream uid s = pg_DeleteUpstream uid s"

subsection \<open>Providers: aws.go, oracle.go, gcp.go, dockerhub.go\<close>

text \<open>
  The services: \<open>cl_aws\<close> returns the authorisation data of ECR, \<open>cl_oracle\<close> a new token, \<open>cl_gcp\<close> an access token
  with its expiry, \<open>cl_hub\<close> the answer to a GET with Basic credentials; \<open>cl_pem\<close> says whether a text is a private key.
\<close>

record clouds =
  cl_aws :: "upstream_registry \<Rightarrow> (string \<times> int option) list res"
  cl_oracle :: "upstream_registry \<Rightarrow> string res"
  cl_gcp :: "upstream_registry \<Rightarrow> (string \<times> int option) res"
  cl_hub :: "string \<Rightarrow> string \<Rightarrow> string \<Rightarrow> (int \<times> bytes) res"
  cl_pem :: "string \<Rightarrow> unit res"
  cl_json :: "bytes \<Rightarrow> json option"
  cl_now :: int

definition aws_RefreshToken :: "clouds \<Rightarrow> upstream_registry \<Rightarrow> (string \<times> int) res" where
  "aws_RefreshToken C u =
     (case cl_aws C u of
        Inl e \<Rightarrow> Inl (WrapErr ''failed to get ECR auth token'' e)
      | Inr [] \<Rightarrow> Inl (ErrText ''no authorization data returned from ECR'')
      | Inr ((t, expires) # _) \<Rightarrow>
          (case b64_decode t of
             None \<Rightarrow> Inl (ErrText ''failed to decode auth token'')
           | Some decoded \<Rightarrow>
               (case SplitN decoded CHR '':'' 2 of
                  [_, password] \<Rightarrow> Inr (password, case expires of None \<Rightarrow> cl_now C + 43200 | Some x \<Rightarrow> x)
                | _ \<Rightarrow> Inl (ErrText ''invalid token format''))))"

definition oracle_RefreshToken :: "clouds \<Rightarrow> upstream_registry \<Rightarrow> (string \<times> int) res" where
  "oracle_RefreshToken C u =
     (case cl_pem C (rg_secret u) of
        Inl e \<Rightarrow> Inl (WrapErr ''failed to parse OCI private key'' e)
      | Inr _ \<Rightarrow> (case cl_oracle C u of
                   Inl e \<Rightarrow> Inl (WrapErr ''failed to create OCI auth token'' e)
                 | Inr t \<Rightarrow> Inr (t, cl_now C + 169200)))"

definition gcp_RefreshToken :: "clouds \<Rightarrow> upstream_registry \<Rightarrow> (string \<times> int) res" where
  "gcp_RefreshToken C u =
     (case cl_gcp C u of
        Inl e \<Rightarrow> Inl (WrapErr ''failed to get GCP token'' e)
      | Inr (t, expires) \<Rightarrow> Inr (t, case expires of None \<Rightarrow> cl_now C + 3600 | Some x \<Rightarrow> x))"

definition hub_url :: string where
  "hub_url = ''https://auth.docker.io/token?service=registry.docker.io&scope=repository:library/alpine:pull''"

definition hub_RefreshToken :: "clouds \<Rightarrow> upstream_registry \<Rightarrow> (string \<times> int) res" where
  "hub_RefreshToken C u =
     (case cl_hub C hub_url (rg_key u) (rg_secret u) of
        Inl e \<Rightarrow> Inl (WrapErr ''auth request failed'' e)
      | Inr (code, body) \<Rightarrow>
          (if code \<noteq> 200 then Inl (ErrText (''auth failed with status '' @ FormatInt code @ '': '' @ body))
           else (case Option.bind (cl_json C body) members of
                   None \<Rightarrow> Inl (ErrText ''failed to parse auth response'')
                 | Some kvs \<Rightarrow>
                     (case (decode_field set_string ''token'' kvs [], decode_field set_string ''access_token'' kvs [],
                            decode_field set_int ''expires_in'' kvs 0, decode_field set_string ''issued_at'' kvs []) of
                        (Some tok, Some acc, Some n, Some _) \<Rightarrow>
                          Inr (if tok \<noteq> [] then tok else if acc \<noteq> [] then acc else b64_encode (rg_key u @ '':'' @ rg_secret u),
                               cl_now C + (if n > 0 then n else 3600))
                      | _ \<Rightarrow> Inl (ErrText ''failed to parse auth response'')))))"

text \<open>The providers the manager registers, by the type of the upstream.\<close>

definition provider_types :: "string list" where
  "provider_types = [''aws'', ''oracle'', ''dockerhub'', ''gcp'']"

definition RefreshToken :: "clouds \<Rightarrow> upstream_registry \<Rightarrow> (string \<times> int) res" where
  "RefreshToken C u =
     (if rg_type u = ''aws'' then aws_RefreshToken C u else if rg_type u = ''oracle'' then oracle_RefreshToken C u
      else if rg_type u = ''gcp'' then gcp_RefreshToken C u else hub_RefreshToken C u)"

definition refresh_margin :: "string \<Rightarrow> int" where
  "refresh_margin t = (if t = ''aws'' then 3600 else if t = ''oracle'' then 43200 else 600)"

definition NeedsRefresh :: "clouds \<Rightarrow> upstream_registry \<Rightarrow> bool" where
  "NeedsRefresh C u \<longleftrightarrow> rg_token u = [] \<or> cl_now C + refresh_margin (rg_type u) > rg_expiry u"

definition required :: "string \<Rightarrow> string \<Rightarrow> 'a res \<Rightarrow> 'a res" where
  "required v msg k = (if v = [] then Inl (ErrText msg) else k)"

definition keep :: "'b \<Rightarrow> 'a res \<Rightarrow> 'b res" where
  "keep x r = (case r of Inl e \<Rightarrow> Inl e | Inr _ \<Rightarrow> Inr x)"

text \<open>The check of the credentials; for GCP it fills in the project where the key is empty.\<close>

definition gcp_Validate :: "clouds \<Rightarrow> upstream_registry \<Rightarrow> upstream_registry res" where
  "gcp_Validate C u =
     required (rg_secret u) ''GCP service account JSON is required''
       (required (rg_region u) ''GCP region is required (e.g., us-central1)''
          (case Option.bind (cl_json C (rg_secret u)) members of
             None \<Rightarrow> Inl (ErrText ''invalid GCP service account JSON'')
           | Some kvs \<Rightarrow>
               (case (decode_field set_string ''type'' kvs [], decode_field set_string ''project_id'' kvs []) of
                  (Some typ, Some project) \<Rightarrow>
                    (if \<not> list_all (\<lambda>f. decode_field set_string f kvs [] \<noteq> None)
                          [''private_key_id'', ''private_key'', ''client_email'', ''client_id'', ''auth_uri'', ''token_uri'',
                           ''auth_provider_x509_cert_url'', ''client_x509_cert_url'']
                     then Inl (ErrText ''invalid GCP service account JSON'')
                     else if typ \<noteq> ''service_account'' then Inl (ErrText (''invalid GCP credential type: '' @ typ @ '' (expected service_account)''))
                     else required project ''GCP service account missing project_id''
                       (let u1 = (if rg_key u = [] then u\<lparr>rg_key := project\<rparr> else u) in keep u1 (gcp_RefreshToken C u1)))
                | _ \<Rightarrow> Inl (ErrText ''invalid GCP service account JSON''))))"

definition ValidateCredentials :: "clouds \<Rightarrow> upstream_registry \<Rightarrow> upstream_registry res" where
  "ValidateCredentials C u =
     (if rg_type u = ''aws'' then
        required (rg_key u) ''AWS access key ID is required''
          (required (rg_secret u) ''AWS secret access key is required''
             (required (rg_region u) ''AWS region is required'' (keep u (aws_RefreshToken C u))))
      else if rg_type u = ''oracle'' then
        required (rg_key u) ''Oracle user OCID is required''
          (required (rg_secret u) ''Oracle private key is required''
             (required (rg_region u) ''Oracle region is required''
                (case cl_pem C (rg_secret u) of Inl e \<Rightarrow> Inl (WrapErr ''invalid private key'' e) | Inr _ \<Rightarrow> Inr u)))
      else if rg_type u = ''gcp'' then gcp_Validate C u
      else
        required (rg_key u) ''Docker Hub username is required''
          (required (rg_secret u) ''Docker Hub password/token is required'' (keep u (hub_RefreshToken C u))))"

subsection \<open>The manager: manager.go\<close>

record credential_config =
  cf_aws_key :: string
  cf_aws_secret :: string
  cf_aws_region :: string
  cf_aws_account :: string
  cf_oci_user :: string
  cf_oci_key :: string
  cf_oci_region :: string
  cf_gcp_project :: string
  cf_gcp_account :: string
  cf_gcp_region :: string
  cf_hub_user :: string
  cf_hub_password :: string

definition new_upstream :: "string \<Rightarrow> string \<Rightarrow> credential_config \<Rightarrow> upstream_registry" where
  "new_upstream name typ c =
     (let u = \<lparr>rg_id = 0, rg_name = name, rg_type = typ, rg_endpoint = [], rg_scheme = [], rg_region = [], rg_key = [], rg_secret = [],
            rg_token = [], rg_expiry = zero_time, rg_refresh = zero_time, rg_fails = 0, rg_enabled = True, rg_cache = True, rg_ttl = 3600,
            rg_pull_only = False\<rparr>
      in if typ = ''aws'' then u\<lparr>rg_region := cf_aws_region c, rg_key := cf_aws_key c, rg_secret := cf_aws_secret c,
             rg_endpoint := cf_aws_account c @ ''.dkr.ecr.'' @ cf_aws_region c @ ''.amazonaws.com''\<rparr>
         else if typ = ''oracle'' then u\<lparr>rg_region := cf_oci_region c, rg_key := cf_oci_user c, rg_secret := cf_oci_key c,
             rg_endpoint := cf_oci_region c @ ''.ocir.io''\<rparr>
         else if typ = ''dockerhub'' then u\<lparr>rg_region := ''us'', rg_key := cf_hub_user c, rg_secret := cf_hub_password c,
             rg_endpoint := ''registry-1.docker.io''\<rparr>
         else if typ = ''gcp'' then u\<lparr>rg_region := cf_gcp_region c, rg_key := cf_gcp_project c, rg_secret := cf_gcp_account c,
             rg_endpoint := cf_gcp_region c @ ''-docker.pkg.dev/'' @ cf_gcp_project c\<rparr>
         else u)"

definition AddUpstream :: "clouds \<Rightarrow> string \<Rightarrow> string \<Rightarrow> credential_config \<Rightarrow> db \<Rightarrow> upstream_registry res \<times> db" where
  "AddUpstream C name typ c s =
     (if typ \<notin> set provider_types then (Inl (ErrText (''unsupported upstream type: '' @ typ)), s)
      else (case ValidateCredentials C (new_upstream name typ c) of
              Inl e \<Rightarrow> (Inl (WrapErr ''credential validation failed'' e), s)
            | Inr u \<Rightarrow>
                (case RefreshToken C u of
                   Inl e \<Rightarrow> (Inl (WrapErr ''failed to get initial token'' e), s)
                 | Inr (token, expiry) \<Rightarrow>
                     (let u1 = u\<lparr>rg_token := token, rg_expiry := expiry, rg_refresh := cl_now C\<rparr> in
                      case ad_CreateUpstream u1 s of
                        (Inl e, s1) \<Rightarrow> (Inl (WrapErr ''failed to save upstream'' e), s1)
                      | (Inr i, s1) \<Rightarrow> (Inr (u1\<lparr>rg_id := i\<rparr>), s1)))))"

definition RefreshUpstreamToken :: "clouds \<Rightarrow> nat \<Rightarrow> db \<Rightarrow> unit res \<times> db" where
  "RefreshUpstreamToken C uid s =
     (case ad_GetUpstream uid s of
        Inl e \<Rightarrow> (Inl (WrapErr ''failed to get upstream'' e), s)
      | Inr u \<Rightarrow>
          (if \<not> rg_enabled u then (Inl (ErrText (''upstream '' @ rg_name u @ '' is disabled'')), s)
           else if rg_type u \<notin> set provider_types then (Inl (ErrText (''provider not found for type: '' @ rg_type u)), s)
           else (case RefreshToken C u of
                   Inl e \<Rightarrow> (Inl (WrapErr ''token refresh failed'' e), snd (ad_UpdateUpstream (u\<lparr>rg_fails := rg_fails u + 1\<rparr>) s))
                 | Inr (token, expiry) \<Rightarrow>
                     (case ad_UpdateToken uid token expiry s of
                        (Inl e, s1) \<Rightarrow> (Inl (WrapErr ''failed to update token'' e), s1)
                      | (Inr _, s1) \<Rightarrow> (Inr (), s1)))))"

definition GetUpstreamToken :: "clouds \<Rightarrow> string \<Rightarrow> db \<Rightarrow> string res \<times> db" where
  "GetUpstreamToken C name s =
     (case ad_GetUpstreamByName name s of
        Inl e \<Rightarrow> (Inl (WrapErr ''upstream not found'' e), s)
      | Inr u \<Rightarrow>
          (if \<not> rg_enabled u then (Inl (ErrText (''upstream '' @ name @ '' is disabled'')), s)
           else if rg_type u \<notin> set provider_types then (Inl (ErrText (''provider not found for type: '' @ rg_type u)), s)
           else if NeedsRefresh C u then
             (case RefreshUpstreamToken C (rg_id u) s of
                (Inl e, s1) \<Rightarrow> (Inl e, s1)
              | (Inr _, s1) \<Rightarrow> (case ad_GetUpstream (rg_id u) s1 of Inl e \<Rightarrow> (Inl e, s1) | Inr u1 \<Rightarrow> (Inr (rg_token u1), s1)))
           else (Inr (rg_token u), s)))"

definition um_DeleteUpstream :: "string \<Rightarrow> db \<Rightarrow> unit res \<times> db" where
  "um_DeleteUpstream name s =
     (case ad_GetUpstreamByName name s of Inl e \<Rightarrow> (Inl e, s) | Inr u \<Rightarrow> ad_DeleteUpstream (rg_id u) s)"

subsection \<open>The proxy: upstream\_proxy.go\<close>

record out_request =
  ou_method :: string
  ou_url :: string
  ou_headers :: "(string \<times> string) list"

text \<open>\<^verbatim>\<open>http.NewRequest\<close>, which refuses malformed addresses, and the client.\<close>

record http_client =
  hc_new :: "string \<Rightarrow> string \<Rightarrow> unit res"
  hc_do :: "out_request \<Rightarrow> response res"

definition IsUpstream :: "db \<Rightarrow> string \<Rightarrow> bool" where
  "IsUpstream s namespace =
     (case ad_ListUpstreams s of Inl _ \<Rightarrow> False | Inr us \<Rightarrow> list_ex (\<lambda>u. rg_name u = namespace) us)"

definition getScheme :: "upstream_registry \<Rightarrow> string" where
  "getScheme u = (if rg_scheme u = [] then ''https'' else rg_scheme u)"

definition addAuth :: "upstream_registry \<Rightarrow> string \<Rightarrow> (string \<times> string) res" where
  "addAuth u token =
     (if rg_type u = ''aws'' then Inr (''Authorization'', ''Basic '' @ b64_encode (''AWS:'' @ token))
      else if rg_type u = ''oracle'' then Inr (''Authorization'', ''Basic '' @ b64_encode (rg_key u @ '':'' @ token))
      else if rg_type u = ''dockerhub'' then Inr (''Authorization'', ''Bearer '' @ token)
      else if rg_type u = ''gcp'' then Inr (''Authorization'', ''Basic '' @ b64_encode (''oauth2accesstoken:'' @ token))
      else Inl (ErrText (''unsupported upstream type: '' @ rg_type u)))"

text \<open>The body that \<^verbatim>\<open>ProxyManifest\<close>, \<^verbatim>\<open>ProxyBlob\<close> and \<^verbatim>\<open>ProxyTagsList\<close> repeat, with the path of the object and the
  headers it adds.\<close>

definition proxy_to ::
  "clouds \<Rightarrow> http_client \<Rightarrow> string \<Rightarrow> string \<Rightarrow> string \<Rightarrow> (string \<times> string) list \<Rightarrow> db \<Rightarrow> response res \<times> db" where
  "proxy_to C H upstreamName path method hs s =
     (case GetUpstreamToken C upstreamName s of
        (Inl e, s1) \<Rightarrow> (Inl (WrapErr ''failed to get upstream token'' e), s1)
      | (Inr token, s1) \<Rightarrow>
          ((case ad_ListUpstreams s1 of
              Inl e \<Rightarrow> Inl (WrapErr ''failed to list upstreams'' e)
            | Inr us \<Rightarrow>
                (case find (\<lambda>u. rg_name u = upstreamName) us of
                   None \<Rightarrow> Inl (ErrText (''upstream '' @ upstreamName @ '' not found''))
                 | Some u \<Rightarrow>
                     (let url = getScheme u @ ''://'' @ rg_endpoint u @ ''/v2/'' @ path in
                      case hc_new H method url of
                        Inl e \<Rightarrow> Inl (WrapErr ''failed to create request'' e)
                      | Inr _ \<Rightarrow>
                          (case addAuth u token of
                             Inl e \<Rightarrow> Inl (WrapErr ''failed to add auth'' e)
                           | Inr auth \<Rightarrow>
                               (case hc_do H \<lparr>ou_method = method, ou_url = url, ou_headers = auth # hs\<rparr> of
                                  Inl e \<Rightarrow> Inl (WrapErr ''upstream request failed'' e)
                                | Inr resp \<Rightarrow> Inr resp))))), s1))"

text \<open>The last of four settings of \<^verbatim>\<open>Accept\<close> is the one that is sent.\<close>

definition ProxyManifest ::
  "clouds \<Rightarrow> http_client \<Rightarrow> string \<Rightarrow> string \<Rightarrow> string \<Rightarrow> string \<Rightarrow> db \<Rightarrow> response res \<times> db" where
  "ProxyManifest C H upstreamName repository reference method =
     proxy_to C H upstreamName (repository @ ''/manifests/'' @ reference) method [(''Accept'', ''application/vnd.oci.image.index.v1+json'')]"

definition ProxyBlob ::
  "clouds \<Rightarrow> http_client \<Rightarrow> string \<Rightarrow> string \<Rightarrow> string \<Rightarrow> string \<Rightarrow> db \<Rightarrow> response res \<times> db" where
  "ProxyBlob C H upstreamName repository digest method =
     proxy_to C H upstreamName (repository @ ''/blobs/'' @ digest) method []"

definition ProxyTagsList :: "clouds \<Rightarrow> http_client \<Rightarrow> string \<Rightarrow> string \<Rightarrow> db \<Rightarrow> response res \<times> db" where
  "ProxyTagsList C H upstreamName repository = proxy_to C H upstreamName (repository @ ''/tags/list'') ''GET'' []"

definition copied_headers :: "string list" where
  "copied_headers = [''Content-Type'', ''Content-Length'', ''Docker-Content-Digest'', ''Docker-Distribution-API-Version'', ''Etag'',
     ''Location'', ''Range'', ''Docker-Upload-UUID'', ''Link'']"

definition CopyResponseHeaders :: "response \<Rightarrow> (string \<times> string) list" where
  "CopyResponseHeaders r =
     List.map_filter (\<lambda>h. case header_of r h of Some (c # v) \<Rightarrow> Some (h, c # v) | _ \<Rightarrow> None) copied_headers"

definition WriteProxyResponse :: "response \<Rightarrow> response" where
  "WriteProxyResponse r = reply (rs_status r) (CopyResponseHeaders r) (rs_body r)"

subsection \<open>Periodic jobs: upstream\_workers.go\<close>

text \<open>\<open>enq\<close> says which jobs the queue accepts; the result is the list of the upstreams whose refresh was queued.\<close>

definition token_check_work :: "clouds \<Rightarrow> (nat \<Rightarrow> bool) \<Rightarrow> db \<Rightarrow> nat list res" where
  "token_check_work C enq s =
     (case ad_ListUpstreams s of
        Inl e \<Rightarrow> Inl e
      | Inr us \<Rightarrow> Inr (map rg_id (filter (\<lambda>u. rg_enabled u \<and> cl_now C + 1800 > rg_expiry u \<and> enq (rg_id u)) us)))"

definition token_refresh_work :: "clouds \<Rightarrow> nat \<Rightarrow> db \<Rightarrow> unit res \<times> db" where
  "token_refresh_work C uid s = RefreshUpstreamToken C uid s"

end
