(* ===== verification/Upstream_Properties.thy ===== *)
theory Upstream_Properties
  imports Upstreams
begin

text \<open>
  What the manager of upstream registries guarantees of the tokens it hands out, and where the listing it works from,
  which carries neither credentials nor expiries, leads it astray.
\<close>

subsection \<open>Tokens\<close>

lemma find_updated:
  "find (\<lambda>u. up_id u = i) (map (\<lambda>u. if up_id u = i then f u else u) us) = map_option f (find (\<lambda>u. up_id u = i) us)"
  if "\<And>u. up_id (f u) = up_id u" for us :: "upstream_row list"
  using that by (induction us) auto

lemma refreshed_token:
  assumes "ad_GetUpstream i s = Inr u"
  shows "ad_GetUpstream i (snd (pg_UpdateUpstreamToken i tok ex s)) = Inr (u\<lparr>rg_token := tok, rg_expiry := ex, rg_refresh := now s\<rparr>)"
  using assms
  by (auto simp: ad_GetUpstream_def pg_GetUpstream_def pg_UpdateUpstreamToken_def find_updated row_upstream_def valid_upstream_def time_of_def
      split: option.splits if_splits)

lemma by_name_by_id:
  assumes "ad_GetUpstreamByName name s = Inr u"
  shows "ad_GetUpstream (rg_id u) s = Inr u"
proof -
  obtain r where r: "find (\<lambda>x. up_name x = name) (upstreams s) = Some r" "pg_GetUpstream (up_id r) s \<noteq> Inl DbNotFound"
    using assms by (auto simp: ad_GetUpstreamByName_def pg_GetUpstreamByName_def pg_GetUpstream_def split: option.splits)
  then obtain q where q: "pg_GetUpstream (up_id r) s = Inr q" "up_id q = up_id r"
    by (auto simp: pg_GetUpstream_def split: option.splits dest: find_Some_member)
  with assms r show ?thesis
    by (auto simp: ad_GetUpstreamByName_def pg_GetUpstreamByName_def ad_GetUpstream_def valid_upstream_def row_upstream_def split: if_splits)
qed

lemma token_fresh:
  assumes "GetUpstreamToken C name s = (Inr tok, s')"
  shows "\<exists>u. ad_GetUpstreamByName name s = Inr u \<and> rg_enabled u \<and>
    (if NeedsRefresh C u
     then \<exists>ex. RefreshToken C u = Inr (tok, ex) \<and> s' = snd (pg_UpdateUpstreamToken (rg_id u) tok ex s) \<and>
            ad_GetUpstream (rg_id u) s' = Inr (u\<lparr>rg_token := tok, rg_expiry := ex, rg_refresh := now s\<rparr>)
     else tok = rg_token u \<and> tok \<noteq> [] \<and> cl_now C + refresh_margin (rg_type u) \<le> rg_expiry u \<and> s' = s)"
proof -
  obtain u where u: "ad_GetUpstreamByName name s = Inr u" "rg_enabled u" "rg_type u \<in> set provider_types"
    using assms by (auto simp: GetUpstreamToken_def split: sum.splits if_splits)
  note id = by_name_by_id [OF u(1)]
  show ?thesis
  proof (cases "NeedsRefresh C u")
    case True
    then obtain s1 u1 where r: "RefreshUpstreamToken C (rg_id u) s = (Inr (), s1)" "ad_GetUpstream (rg_id u) s1 = Inr u1" "tok = rg_token u1" "s' = s1"
      using assms u by (auto simp: GetUpstreamToken_def split: sum.splits prod.splits)
    then obtain t ex where t: "RefreshToken C u = Inr (t, ex)" "s1 = snd (pg_UpdateUpstreamToken (rg_id u) t ex s)"
      using id u(2,3) by (auto simp: RefreshUpstreamToken_def ad_UpdateToken_def pg_UpdateUpstreamToken_def split: sum.splits prod.splits)
    with r refreshed_token [OF id, of t ex] True u show ?thesis by auto
  next
    case False
    with assms u show ?thesis by (auto simp: GetUpstreamToken_def NeedsRefresh_def)
  qed
qed

text \<open>(C29) 
  A token is handed out only for an enabled upstream, and it is either the stored one, not within the margin of its
  provider from its expiry, or one the provider issued for this call, which is then the stored one.
\<close>

theorem GetUpstreamToken_fresh:
  assumes "GetUpstreamToken C name s = (Inr tok, s')"
  shows "\<exists>u. ad_GetUpstreamByName name s = Inr u \<and> rg_enabled u \<and>
    (if NeedsRefresh C u
     then \<exists>ex. RefreshToken C u = Inr (tok, ex) \<and> s' = snd (pg_UpdateUpstreamToken (rg_id u) tok ex s) \<and>
            ad_GetUpstream (rg_id u) s' = Inr (u\<lparr>rg_token := tok, rg_expiry := ex, rg_refresh := now s\<rparr>)
     else tok = rg_token u \<and> tok \<noteq> [] \<and> cl_now C + refresh_margin (rg_type u) \<le> rg_expiry u \<and> s' = s)"
  using assms by (rule token_fresh)

lemma token_keeps_types:
  assumes "GetUpstreamToken C name s = (Inr tok, s')" "r' \<in> set (upstreams s')"
  shows "\<exists>r \<in> set (upstreams s). up_name r = up_name r' \<and> up_type r = up_type r'"
proof -
  from token_fresh [OF assms(1)] consider "s' = s" | i ex where "s' = snd (pg_UpdateUpstreamToken i tok ex s)" by (auto split: if_splits)
  then show ?thesis
  proof cases
    case 1
    with assms(2) show ?thesis by blast
  next
    case 2
    with assms(2) obtain r where "r \<in> set (upstreams s)" "r' = (if up_id r = i then r\<lparr>up_token := Some tok, up_expiry := Some ex, up_refresh := Some (now s)\<rparr> else r)"
      by (auto simp: pg_UpdateUpstreamToken_def)
    then show ?thesis by (intro bexI [of _ r]) auto
  qed
qed

text \<open>
  A refresh that the provider refuses leaves no trace of the failure: the counter of failures stays as it was, and the
  upstream is recorded as refreshed now.
\<close>

theorem refresh_failure_uncounted:
  assumes "ad_GetUpstream i s = Inr u" "rg_enabled u" "rg_type u \<in> set provider_types" "RefreshToken C u = Inl e"
  shows "\<exists>s'. RefreshUpstreamToken C i s = (Inl (WrapErr ''token refresh failed'' e), s') \<and>
    ad_GetUpstream i s' = Inr (u\<lparr>rg_refresh := now s\<rparr>)"
proof -
  have "rg_id u = i" using assms(1)
    by (auto simp: ad_GetUpstream_def pg_GetUpstream_def valid_upstream_def row_upstream_def split: option.splits if_splits dest: find_Some_member)
  with assms refreshed_token [OF assms(1), of "rg_token u" "rg_expiry u"] show ?thesis
    by (simp add: RefreshUpstreamToken_def ad_UpdateUpstream_def ad_UpdateToken_def)
qed

subsection \<open>Listings\<close>

lemma valid_all_id: "valid_all us = Inr vs \<Longrightarrow> vs = us"
  by (induction us arbitrary: vs) (auto simp: valid_upstream_def split: if_splits sum.splits)

lemma ad_list:
  assumes "ad_ListUpstreams s = Inr us"
  shows "\<exists>rs. set rs = set (upstreams s) \<and> us = map info_upstream (map (\<lambda>u. \<lparr>ui_id = up_id u, ui_name = up_name u, ui_type = up_type u,
    ui_endpoint = up_endpoint u, ui_region = up_region u, ui_enabled = up_enabled u, ui_cache = up_cache u,
    ui_pull_only = up_pull_only u, ui_refresh = up_refresh u\<rparr>) rs)"
  using assms by (intro exI [of _ "sort_key up_name (upstreams s)"]) (auto simp: ad_ListUpstreams_def pg_ListUpstreams_def dest: valid_all_id)

text \<open>
  The periodic check queues a refresh of every enabled upstream at every run, however long its token is still valid: the
  listing it reads has no expiry.
\<close>

theorem token_check_refreshes_all:
  assumes "token_check_work C enq s = Inr ids" "0 \<le> cl_now C"
  shows "set ids = {up_id r | r. r \<in> set (upstreams s) \<and> up_enabled r \<and> enq (up_id r)}"
proof -
  obtain us where us: "ad_ListUpstreams s = Inr us" using assms(1) by (auto simp: token_check_work_def split: sum.splits)
  from ad_list [OF us] obtain rs where rs: "set rs = set (upstreams s)" "us = map info_upstream (map (\<lambda>u. \<lparr>ui_id = up_id u, ui_name = up_name u,
    ui_type = up_type u, ui_endpoint = up_endpoint u, ui_region = up_region u, ui_enabled = up_enabled u, ui_cache = up_cache u,
    ui_pull_only = up_pull_only u, ui_refresh = up_refresh u\<rparr>) rs)" by blast
  let ?g = "\<lambda>u. info_upstream \<lparr>ui_id = up_id u, ui_name = up_name u, ui_type = up_type u, ui_endpoint = up_endpoint u,
    ui_region = up_region u, ui_enabled = up_enabled u, ui_cache = up_cache u, ui_pull_only = up_pull_only u, ui_refresh = up_refresh u\<rparr>"
  have g: "rg_id (?g r) = up_id r" "rg_enabled (?g r) = up_enabled r" "rg_expiry (?g r) < cl_now C + 1800" for r
    using assms(2) by (simp_all add: info_upstream_def zero_time_def)
  have "ids = map rg_id (filter (\<lambda>u. rg_enabled u \<and> cl_now C + 1800 > rg_expiry u \<and> enq (rg_id u)) us)"
    using assms(1) us by (simp add: token_check_work_def)
  then have "ids = map up_id (filter (\<lambda>r. up_enabled r \<and> enq (up_id r)) rs)"
    unfolding rs(2) by (simp add: filter_map comp_def g)
  then show ?thesis using rs(1) by auto
qed

text \<open>
  A request to an upstream at Oracle carries Basic credentials with an empty user name: the proxy takes the user from
  the listing, which has none.
\<close>

theorem oracle_pull_without_user:
  assumes "proxy_to C H name path m hs s = (Inr resp, s')" "\<forall>r \<in> set (upstreams s). up_name r = name \<longrightarrow> up_type r = ''oracle''"
  shows "\<exists>tok url. fst (GetUpstreamToken C name s) = Inr tok \<and>
    hc_do H \<lparr>ou_method = m, ou_url = url, ou_headers = (''Authorization'', ''Basic '' @ b64_encode ('':'' @ tok)) # hs\<rparr> = Inr resp"
proof -
  obtain tok where tok: "GetUpstreamToken C name s = (Inr tok, s')"
    using assms(1) by (auto simp: proxy_to_def split: sum.splits prod.splits)
  have rows: "\<forall>r \<in> set (upstreams s'). up_name r = name \<longrightarrow> up_type r = ''oracle''"
    using token_keeps_types [OF tok] assms(2) by metis
  obtain us u where us: "ad_ListUpstreams s' = Inr us" "find (\<lambda>u. rg_name u = name) us = Some u"
    using assms(1) tok by (auto simp: proxy_to_def split: sum.splits option.splits)
  have "u \<in> set us" "rg_name u = name" using find_Some_member [OF us(2)] by auto
  with ad_list [OF us(1)] rows have "rg_type u = ''oracle''" "rg_key u = []" by (auto simp: info_upstream_def)
  with assms(1) tok us show ?thesis by (auto simp: proxy_to_def addAuth_def Let_def split: sum.splits)
qed

subsection \<open>Repositories\<close>

lemma Base_last:
  assumes "x \<noteq> []" "CHR ''/'' \<notin> set x"
  shows "filepath_Base (p @ ''/'' @ x) = x"
proof -
  have "rev x \<noteq> []" "CHR ''/'' \<notin> set (rev x)" using assms by auto
  then have dw: "dropWhile (\<lambda>c. c = CHR ''/'') (rev x @ ''/'' @ rev p) = rev x @ ''/'' @ rev p" by (cases "rev x") auto
  have "rev (p @ ''/'' @ x) = rev x @ ''/'' @ rev p" by simp
  with dw have t: "rev (dropWhile (\<lambda>c. c = CHR ''/'') (rev (p @ ''/'' @ x))) = p @ ''/'' @ x" by simp
  show ?thesis
    unfolding filepath_Base_def Let_def t using assms Split_append_sep [of p "CHR ''/''" x] Split_id [OF assms(2)] by simp
qed

text \<open>
  The proxy asks for the last element of a repository's name only: pulls of two repositories of an upstream that differ
  in the middle of their names are answered alike, by the same repository of the upstream.
\<close>

theorem upstream_repositories_collapse:
  assumes "rt_upstream R = Some up" "up ns"
    and "getRepoContext r1 = (ns @ ''/'' @ a @ ''/'' @ x, ns)" "getRepoContext r2 = (ns @ ''/'' @ b @ ''/'' @ x, ns)"
    and "x \<noteq> []" "CHR ''/'' \<notin> set x" "rq_method r1 = rq_method r2"
  shows "fst (getManifest R r1 ref d) = fst (getManifest R r2 ref d) \<and>
    fst (getManifest R r1 ref d) =
      (case rt_proxy R ns x ref (rq_method r1) of Inl e \<Rightarrow> http_error_json ''UPSTREAM_ERROR'' (err_msg e) 502 | Inr resp \<Rightarrow> resp)"
  using assms Base_last [OF assms(5,6), of "ns @ ''/'' @ a"] Base_last [OF assms(5,6), of "ns @ ''/'' @ b"]
  by (simp add: getManifest_def proxied_def)

subsection \<open>Concrete upstreams\<close>

definition demo_clouds :: clouds where
  "demo_clouds = \<lparr>cl_aws = (\<lambda>_. Inl (ErrText ''no'')), cl_oracle = (\<lambda>_. Inr ''t''), cl_gcp = (\<lambda>_. Inl (ErrText ''down'')),
     cl_hub = (\<lambda>_ _ _. Inl (ErrText ''no'')), cl_pem = (\<lambda>_. Inr ()), cl_json = (\<lambda>_. None), cl_now = 1000\<rparr>"

definition demo_upstreams :: db where
  "demo_upstreams = snd (pg_CreateUpstream ''gar'' ''gcp'' ''eu-docker.pkg.dev/p'' ''eu'' ''p'' ''key'' True True False 3600
     (snd (pg_CreateUpstream ''ocir'' ''oracle'' ''fra.ocir.io'' ''fra'' ''ocid1.user'' ''pem'' True True False 3600 empty_db)))"

definition demo_http :: http_client where
  "demo_http = \<lparr>hc_new = (\<lambda>_ _. Inr ()), hc_do = (\<lambda>q. Inr (reply 200 (ou_headers q) NoBody))\<rparr>"

theorem GetUpstreamToken_fresh_witness:
  "\<exists>u ex. ad_GetUpstreamByName ''ocir'' demo_upstreams = Inr u \<and> RefreshToken demo_clouds u = Inr (''t'', ex)"
proof -
  have t: "fst (GetUpstreamToken demo_clouds ''ocir'' demo_upstreams) = Inr ''t''" by code_simp
  then obtain s' where "GetUpstreamToken demo_clouds ''ocir'' demo_upstreams = (Inr ''t'', s')"
    by (cases "GetUpstreamToken demo_clouds ''ocir'' demo_upstreams") simp
  from GetUpstreamToken_fresh [OF this] obtain u where u: "ad_GetUpstreamByName ''ocir'' demo_upstreams = Inr u"
      "if NeedsRefresh demo_clouds u then \<exists>ex. RefreshToken demo_clouds u = Inr (''t'', ex) else ''t'' = rg_token u" by (auto split: if_splits)
  have "case ad_GetUpstreamByName ''ocir'' demo_upstreams of Inl _ \<Rightarrow> False | Inr u \<Rightarrow> rg_token u = []" by code_simp
  with u show ?thesis by (auto split: if_splits)
qed

theorem refresh_failure_uncounted_witness:
  "\<exists>u s'. RefreshUpstreamToken demo_clouds 2 demo_upstreams = (Inl (WrapErr ''token refresh failed'' (WrapErr ''failed to get GCP token'' (ErrText ''down''))), s') \<and>
     ad_GetUpstream 2 s' = Inr u \<and> rg_fails u = 0"
proof -
  have "case ad_GetUpstream 2 demo_upstreams of Inl _ \<Rightarrow> False | Inr u \<Rightarrow> rg_enabled u \<and> rg_type u \<in> set provider_types \<and> rg_fails u = 0 \<and>
      RefreshToken demo_clouds u = Inl (WrapErr ''failed to get GCP token'' (ErrText ''down''))" by code_simp
  then obtain u where u: "ad_GetUpstream 2 demo_upstreams = Inr u" "rg_enabled u" "rg_type u \<in> set provider_types" "rg_fails u = 0"
      "RefreshToken demo_clouds u = Inl (WrapErr ''failed to get GCP token'' (ErrText ''down''))" by (auto split: sum.splits)
  from refresh_failure_uncounted [OF u(1-3,5)] u(4) show ?thesis by auto
qed

theorem token_check_refreshes_all_witness:
  "\<exists>ids. token_check_work demo_clouds (\<lambda>_. True) demo_upstreams = Inr ids \<and> 2 \<in> set ids"
proof -
  have "case token_check_work demo_clouds (\<lambda>_. True) demo_upstreams of Inl _ \<Rightarrow> False | Inr _ \<Rightarrow> True" by code_simp
  then obtain ids where i: "token_check_work demo_clouds (\<lambda>_. True) demo_upstreams = Inr ids" by (auto split: sum.splits)
  have "list_ex (\<lambda>r. up_id r = 2 \<and> up_enabled r) (upstreams demo_upstreams)" "0 \<le> cl_now demo_clouds" by code_simp+
  with token_check_refreshes_all [OF i] i show ?thesis by (auto simp: list_ex_iff)
qed

theorem oracle_pull_without_user_witness:
  "\<exists>resp url. fst (ProxyTagsList demo_clouds demo_http ''ocir'' ''app'' demo_upstreams) = Inr resp \<and>
     hc_do demo_http \<lparr>ou_method = ''GET'', ou_url = url, ou_headers = [(''Authorization'', ''Basic '' @ b64_encode ('':'' @ ''t''))]\<rparr> = Inr resp"
proof -
  have "case ProxyTagsList demo_clouds demo_http ''ocir'' ''app'' demo_upstreams of (Inl _, _) \<Rightarrow> False | _ \<Rightarrow> True"
    and t: "fst (GetUpstreamToken demo_clouds ''ocir'' demo_upstreams) = Inr ''t''" by code_simp+
  then obtain resp s' where p: "ProxyTagsList demo_clouds demo_http ''ocir'' ''app'' demo_upstreams = (Inr resp, s')"
    by (cases "ProxyTagsList demo_clouds demo_http ''ocir'' ''app'' demo_upstreams") (auto split: sum.splits)
  have "\<forall>r \<in> set (upstreams demo_upstreams). up_name r = ''ocir'' \<longrightarrow> up_type r = ''oracle''" by code_simp
  from oracle_pull_without_user [OF p [unfolded ProxyTagsList_def] this] t p show ?thesis by auto
qed

theorem upstream_repositories_collapse_witness:
  "fst (getManifest (demo_router\<lparr>rt_upstream := Some (\<lambda>n. n = ''hub'')\<rparr>) (plain_request ''GET'' ''/v2/hub/library/alpine/manifests/v1'' []) ''v1'' empty_db) =
   fst (getManifest (demo_router\<lparr>rt_upstream := Some (\<lambda>n. n = ''hub'')\<rparr>) (plain_request ''GET'' ''/v2/hub/evil/alpine/manifests/v1'' []) ''v1'' empty_db)"
proof -
  have "getRepoContext (plain_request ''GET'' ''/v2/hub/library/alpine/manifests/v1'' []) = (''hub'' @ ''/'' @ ''library'' @ ''/'' @ ''alpine'', ''hub'')"
    "getRepoContext (plain_request ''GET'' ''/v2/hub/evil/alpine/manifests/v1'' []) = (''hub'' @ ''/'' @ ''evil'' @ ''/'' @ ''alpine'', ''hub'')" by code_simp+
  from upstream_repositories_collapse [OF _ _ this, of "demo_router\<lparr>rt_upstream := Some (\<lambda>n. n = ''hub'')\<rparr>" "\<lambda>n. n = ''hub''"]
  show ?thesis by simp
qed

end
