(* ===== verification/Spec2Isabelle.thy ===== *)
theory Spec2Isabelle
  imports Server Upload_Lock Webhooks Cached Local_Store Sync Sqlite_Refinement Compat_Properties Tenancy_Login Upstream_Properties
begin

text \<open>
  A verification of the artifact registry of this repository: a container registry (OCI distribution API) with package registries of
  eight formats, a management API, single sign-on and tenants, over a database and an object store.

  \<^bold>\<open>The program and its parts.\<close> A request passes the compatibility layer (\<^verbatim>\<open>internal/compat\<close>) and, on PostgreSQL, the resolution
  of its tenant (\<^verbatim>\<open>internal/tenancy\<close>); then a router of its area: the distribution API (\<^verbatim>\<open>internal/api/v2\<close>) behind the authentication
  (\<^verbatim>\<open>internal/auth\<close>) and the policies (\<^verbatim>\<open>internal/policy\<close>), the packages (\<^verbatim>\<open>internal/api/formats\<close>,
  \<^verbatim>\<open>internal/api/artifacts\<close>), the management (\<^verbatim>\<open>internal/api/management\<close>), the web logins (\<^verbatim>\<open>internal/api/auth\<close>) and the tenants
  (\<^verbatim>\<open>internal/api/tenancy\<close>). The handlers work on a store (\<^verbatim>\<open>internal/db\<close>, PostgreSQL, SQLite, or one behind the Redis cache of
  \<^verbatim>\<open>internal/cache\<close>) and a storage provider (\<^verbatim>\<open>internal/storage\<close>, in memory or on a file system), and emit effects: webhooks
  (\<^verbatim>\<open>internal/webhooks\<close>), events (\<^verbatim>\<open>internal/events\<close>), copies to peers (\<^verbatim>\<open>internal/sync\<close>). Manifests of other registries come
  through \<^verbatim>\<open>internal/upstreams\<close> and \<^verbatim>\<open>internal/proxy\<close>.

  \<^bold>\<open>How the code is modelled.\<close> A handler is a function of its environment, a request and a state, and returns the response with the new
  state; a Go error is a value of the type \<^typ>\<open>err\<close> in a sum, a panic a value of its own, a struct a record with the fields of the code, and
  an interface a record of functions with a locale for the laws its clients rely on. A table is a list of rows; each SQL statement is a
  function on them with the constraints of the schema. 64-bit sizes wrap around where the code adds them (\<^verbatim>\<open>wrap64\<close>). Libraries are
  parameters: the JWT and OAuth clients, bcrypt, LDAP, CEL, the JSON, YAML and archive parsers, hashes, HTTP clients, clocks and randomness. What a
  theorem needs of them is one of its hypotheses, with a witness that instantiates it.

  \<^bold>\<open>Theories.\<close>
  \<^item> Foundations. \<^verbatim>\<open>Prelude\<close>: strings, splitting, numbers and wrap-around; \<^verbatim>\<open>Http\<close>: errors, JSON, streams, requests, responses; \<^verbatim>\<open>Go_Path\<close>:
    \<^verbatim>\<open>path.Clean\<close>, \<^verbatim>\<open>filepath.Join\<close> and \<^verbatim>\<open>SafeJoin\<close>.
  \<^item> Storage. \<^verbatim>\<open>Storage\<close>: keys, the provider interface as the locale of its laws and the in-memory provider that interprets it;
    \<^verbatim>\<open>Local_Store\<close>: \<^verbatim>\<open>local.go\<close> over a model of the system calls, with an interpretation and the refinement of uploads.
  \<^item> Database. \<^verbatim>\<open>Db\<close>: records of \<^verbatim>\<open>db.go\<close>, the store interface and its laws; \<^verbatim>\<open>Postgres\<close>, \<^verbatim>\<open>Postgres_Integrity\<close>, \<^verbatim>\<open>Accounts\<close>: every
    statement of \<^verbatim>\<open>postgres.go\<close>, the reachable databases and their invariants; \<^verbatim>\<open>Sqlite\<close>, \<^verbatim>\<open>Sqlite_Refinement\<close>: the same for
    \<^verbatim>\<open>sqlite.go\<close> with the abstraction function to PostgreSQL; \<^verbatim>\<open>Cached\<close>: \<^verbatim>\<open>cached_db.go\<close>.
  \<^item> Authentication. \<^verbatim>\<open>Auth\<close>: tokens, scopes, \<^verbatim>\<open>Protect\<close> and \<^verbatim>\<open>ProtectAdmin\<close>, the token and refresh handlers; \<^verbatim>\<open>Login\<close>: what they
    grant, and the lockout; \<^verbatim>\<open>Sso\<close>, \<^verbatim>\<open>Sso_Properties\<close>: \<^verbatim>\<open>oauth.go\<close> and \<^verbatim>\<open>oidc.go\<close>, with histories of logins and callbacks.
  \<^item> Distribution API. \<^verbatim>\<open>Router\<close>: the environment, the routes, quotas; \<^verbatim>\<open>Blobs\<close>, \<^verbatim>\<open>Blob_Service\<close>, \<^verbatim>\<open>Blob_Properties\<close>,
    \<^verbatim>\<open>Upload_Flow\<close>: uploads, mounts, downloads; \<^verbatim>\<open>Manifests\<close>, \<^verbatim>\<open>Manifest_Service\<close>, \<^verbatim>\<open>Manifest_Properties\<close>: manifests, tags, referrers,
    the vulnerability gate; \<^verbatim>\<open>Upload_Lock\<close>: the locks of \<^verbatim>\<open>lockUpload\<close> as interleaved steps; \<^verbatim>\<open>Server\<close>: \<^verbatim>\<open>Register\<close> as one
    function from requests to answers.
  \<^item> Around it. \<^verbatim>\<open>Policy\<close>: \<^verbatim>\<open>cel.go\<close>; \<^verbatim>\<open>Webhooks\<close>: the guard and the retries of \<^verbatim>\<open>webhooks.go\<close>; \<^verbatim>\<open>Events\<close>: \<^verbatim>\<open>broker.go\<close> as
    interleaved steps; \<^verbatim>\<open>Sync\<close>: \<^verbatim>\<open>manager.go\<close> of the peers; \<^verbatim>\<open>Compat\<close>, \<^verbatim>\<open>Compat_Properties\<close>: \<^verbatim>\<open>detection.go\<close> and
    \<^verbatim>\<open>middleware.go\<close>; \<^verbatim>\<open>Upstreams\<close>, \<^verbatim>\<open>Upstream_Properties\<close>: adapter, providers, manager, proxied requests and the refresh workers.
  \<^item> Management. \<^verbatim>\<open>Management\<close>, \<^verbatim>\<open>Management_Properties\<close>: every route of \<^verbatim>\<open>management/router.go\<close>, with its audit log.
  \<^item> Packages. \<^verbatim>\<open>Packages\<close>: the package store on both databases, with the locale of its listings; \<^verbatim>\<open>Formats\<close>, \<^verbatim>\<open>Apt\<close>,
    \<^verbatim>\<open>Formats_Rest\<close>: npm, PyPI, Helm, Go, Debian, Composer, CocoaPods, Homebrew and the artifact API; \<^verbatim>\<open>Package_Server\<close>: their routes
    behind \<^verbatim>\<open>Protect\<close>; \<^verbatim>\<open>Package_Properties\<close>: round trips and frame conditions.
  \<^item> Tenants. \<^verbatim>\<open>Tenancy\<close>: tenants, provisioning, resolution, metering and providers; \<^verbatim>\<open>Tenancy_Api\<close>: the administration and the login of a
    tenant; \<^verbatim>\<open>Tenancy_Properties\<close>, \<^verbatim>\<open>Tenancy_Login\<close>: the reachable tables and what they imply.

  \<^bold>\<open>What is shown.\<close> The theorems marked (C1) to (C40) are the properties of the development, each with a witness where it has hypotheses.
  \<^item> Content: what is stored under a digest has that digest, in memory and on the file system, whatever the chunks; what was pushed is what is
    pulled; concurrent appends do not interleave, and every waiting one can proceed; Go modules are served as uploaded.
  \<^item> Access: exactly which requests pass the middleware; what a token may contain; that a request changes only the repository of its path, and only with
    the right to push to it; that packages are written, and the management API is used, only with the matching rights, and every
    administrative change is audited; that a single sign-on completes a login of the same browser once; that deleting an account revokes it.
  \<^item> Accounting: quotas are checked and charged exactly; metered events are stored all or not at all.
  \<^item> State: invariants of all reachable databases of both stores of PostgreSQL; the refinement of the file system, of the cache and of SQLite
    to the plain stores.
  \<^item> Processes: retries are bounded, a peer gets a manifest only after its blobs, no event is sent on a closed channel, the scan of an archive
    ends.
  \<^item> Where the code does not do what it means to, the theorem says what it does instead: keys that collide, attachments that leave their directory, a
    cache shared between repositories, tenants that cannot be read, providers that can name any user.

  \<^bold>\<open>Bounds.\<close> Loops over data are structural recursions; the retries of webhooks and peers recurse on the number of attempts left, which
  the code fixes at five and three; the scan of a Debian archive, which need not end, is a partial function into an option, where \<^const>\<open>None\<close>
  is not ending. There is no other fuel. Histories (of logins, requests, lock operations) are lists or inductive relations without bound.

  \<^bold>\<open>Not modelled.\<close> Start-up, TLS, signals and logging in \<^verbatim>\<open>cmd/\<close>; health and metrics; the clients of the APIs under \<^verbatim>\<open>cmd/\<close>,
  \<^verbatim>\<open>containertool\<close> and \<^verbatim>\<open>migrate-registry\<close>; the providers for S3 and OCI, which only call SDKs; the embedded Starlark interpreter; the
  scanners, whose reports are data of the store; \<^verbatim>\<open>internal/supplychain\<close>, \<^verbatim>\<open>internal/ownership\<close> and \<^verbatim>\<open>registry_proxy.go\<close>, which no request
  of the server reaches; the SQL text of the tenant schema, which is a parameter. Lengths of text columns, sequences that run out and failures of
  the connection to PostgreSQL are left out; failures of Redis, of the storage and of SQLite's missing tables are modelled.
\<close>

end
